(* ===== verification/Prelude.thy ===== *)
theory Prelude
  imports Complex_Main "HOL-Library.Word"
begin

text \<open>
  Shared vocabulary of the development: names for the C++ integer types the sources use, the
  values a C++ \<open>double\<close> can take, the outcome of an access outside a buffer, and the generic
  facts on words, byte pairs and lists that the component theories share. The collection
  \<open>byte_simps\<close> gathers the equations that take a 16-bit value apart into bytes and put it
  together again.
\<close>

unbundle bit_operations_syntax

section \<open>Machine types\<close>

type_synonym u8 = "8 word"
type_synonym u16 = "16 word"
type_synonym u32 = "32 word"
type_synonym u64 = "64 word"
type_synonym bytes = "8 word list"

text \<open>
  A C++ \<open>double\<close> is not a number, one of the two infinities, or a finite value; every finite
  double is a rational number. Comparisons on this type are the comparisons of the language:
  every comparison with \<open>NaN\<close> is false.
\<close>

datatype dbl = NaN | Inf bool | Fin rat

fun dbl_less :: "dbl \<Rightarrow> dbl \<Rightarrow> bool" where
  "dbl_less NaN y = False"
| "dbl_less x NaN = False"
| "dbl_less (Inf neg) (Inf neg') = (neg \<and> \<not> neg')"
| "dbl_less (Inf neg) (Fin r) = neg"
| "dbl_less (Fin r) (Inf neg) = (\<not> neg)"
| "dbl_less (Fin r) (Fin s) = (r < s)"

text \<open>
  Arithmetic on doubles rounds the exact result to 53 significant bits, ties to even, with gradual
  underflow below the smallest normal exponent and overflow to an infinity (IEEE 754 binary64, the
  default rounding mode). The sign of zero is not kept.
\<close>

fun bitlen :: "nat \<Rightarrow> nat" where
  "bitlen n = (if n = 0 then 0 else Suc (bitlen (n div 2)))"

declare bitlen.simps [simp del]

definition flog2 :: "rat \<Rightarrow> int" where
  "flog2 r = (let (p, q) = quotient_of r; k = int (bitlen (nat p)) - int (bitlen (nat q))
     in if r < 2 powi k then k - 1 else k)"

definition round_half_even :: "rat \<Rightarrow> int" where
  "round_half_even x =
     (let f = \<lfloor>x\<rfloor>; d = x - of_int f in
      if d < 1 / 2 then f else if 1 / 2 < d then f + 1 else if even f then f else f + 1)"

definition dbl_round :: "rat \<Rightarrow> dbl" where
  "dbl_round r =
     (if r = 0 then Fin 0
      else let e = max (-1074) (flog2 \<bar>r\<bar> - 52);
               v = of_int (round_half_even (\<bar>r\<bar> / 2 powi e)) * 2 powi e
           in if 2 ^ 1024 \<le> v then Inf (r < 0) else Fin (sgn r * v))"

fun dbl_add :: "dbl \<Rightarrow> dbl \<Rightarrow> dbl" where
  "dbl_add NaN y = NaN"
| "dbl_add x NaN = NaN"
| "dbl_add (Inf a) (Inf b) = (if a = b then Inf a else NaN)"
| "dbl_add (Inf a) (Fin s) = Inf a"
| "dbl_add (Fin r) (Inf b) = Inf b"
| "dbl_add (Fin r) (Fin s) = dbl_round (r + s)"

fun dbl_mul :: "dbl \<Rightarrow> dbl \<Rightarrow> dbl" where
  "dbl_mul NaN y = NaN"
| "dbl_mul x NaN = NaN"
| "dbl_mul (Inf a) (Inf b) = Inf (a \<noteq> b)"
| "dbl_mul (Inf a) (Fin s) = (if s = 0 then NaN else Inf (a \<noteq> (s < 0)))"
| "dbl_mul (Fin r) (Inf b) = (if r = 0 then NaN else Inf ((r < 0) \<noteq> b))"
| "dbl_mul (Fin r) (Fin s) = dbl_round (r * s)"

fun dbl_div :: "dbl \<Rightarrow> dbl \<Rightarrow> dbl" where
  "dbl_div NaN y = NaN"
| "dbl_div x NaN = NaN"
| "dbl_div (Inf a) (Inf b) = NaN"
| "dbl_div (Inf a) (Fin s) = Inf (a \<noteq> (s < 0))"
| "dbl_div (Fin r) (Inf b) = Fin 0"
| "dbl_div (Fin r) (Fin s) =
     (if s = 0 then (if r = 0 then NaN else Inf (r < 0)) else dbl_round (r / s))"

text \<open>\<open>std::min\<close> and \<open>std::max\<close> return their first argument unless the comparison holds; \<open>std::lround\<close>
  rounds halves away from zero, and is only used on finite values.\<close>

definition dbl_min :: "dbl \<Rightarrow> dbl \<Rightarrow> dbl" where
  "dbl_min a b = (if dbl_less b a then b else a)"

definition dbl_max :: "dbl \<Rightarrow> dbl \<Rightarrow> dbl" where
  "dbl_max a b = (if dbl_less a b then b else a)"

fun lround :: "dbl \<Rightarrow> int" where
  "lround (Fin r) = (if 0 \<le> r then \<lfloor>r + 1 / 2\<rfloor> else - \<lfloor>- r + 1 / 2\<rfloor>)"
| "lround _ = 0"

definition dbl_of_int :: "int \<Rightarrow> dbl" where
  "dbl_of_int i = dbl_round (of_int i)"

definition dbl_of_u64 :: "u64 \<Rightarrow> dbl" where
  "dbl_of_u64 v = dbl_of_int (uint v)"

text \<open>\<open>std::to_string\<close> of an unsigned number.\<close>

definition digit_char :: "nat \<Rightarrow> char" where
  "digit_char n = char_of (48 + n)"

fun to_string :: "nat \<Rightarrow> string" where
  "to_string n =
     (if n < 10 then [digit_char n] else to_string (n div 10) @ [digit_char (n mod 10)])"

declare to_string.simps [simp del]

text \<open>Reading a C++ vector outside its bounds is undefined behaviour; a model that can do so
  says it with this error.\<close>

datatype cpp_error = OutOfBounds

section \<open>Collections of rewrite rules\<close>

named_theorems byte_simps

section \<open>Words\<close>

lemma word_xor_eq_0_iff [simp]: "(x :: 'a :: len word) XOR y = 0 \<longleftrightarrow> x = y"
  by (auto simp: bit_eq_iff bit_xor_iff)

lemma word_xor_left_inject [simp]: "(c :: 'a :: len word) XOR a = c XOR b \<longleftrightarrow> a = b"
  by (auto simp: bit_eq_iff bit_xor_iff)

lemma word_xor_right_inject [simp]: "(a :: 'a :: len word) XOR c = b XOR c \<longleftrightarrow> a = b"
  by (auto simp: bit_eq_iff bit_xor_iff)

lemma bit_u8_bound [dest]: "bit (b :: u8) n \<Longrightarrow> n < 8"
  using bit_imp_le_length [of b n] by simp

lemma unat_of_nat_16 [simp]: "n < 65536 \<Longrightarrow> unat (of_nat n :: u16) = n"
  by (simp add: unat_of_nat)

section \<open>Doubles\<close>

lemma bitlen_le: "n < 2 ^ k \<Longrightarrow> bitlen n \<le> k"
proof (induction k arbitrary: n)
  case (Suc k)
  then have "n div 2 < 2 ^ k" by (simp add: less_mult_imp_div_less mult.commute)
  with Suc.IH show ?case by (subst bitlen.simps) simp
qed (simp add: bitlen.simps)

lemma round_half_even_int [simp]: "round_half_even (of_int i) = i"
  by (simp add: round_half_even_def Let_def)

lemma dbl_round_int:
  assumes "\<bar>i\<bar> < 2 ^ 53"
  shows "dbl_round (of_int i) = Fin (of_int i)"
proof (cases "i = 0")
  case False
  define e where "e = max (-1074) (flog2 \<bar>of_int i\<bar> - 52)"
  have "nat \<bar>i\<bar> < 2 ^ 53" using assms by (simp add: nat_less_iff)
  then have "bitlen (nat \<bar>i\<bar>) \<le> 53" by (rule bitlen_le)
  then have "flog2 \<bar>of_int i\<bar> \<le> 52"
    using quotient_of_int [of "\<bar>i\<bar>", unfolded Rat.of_int_def]
    by (simp add: flog2_def Let_def bitlen.simps [of "Suc 0"] bitlen.simps [of 0])
  then have e: "e \<le> 0" by (simp add: e_def)
  define n where "n = nat (- e)"
  have pw: "(2 :: rat) powi e = 1 / 2 ^ n"
    using e by (simp add: n_def power_int_def inverse_eq_divide power_one_over)
  have "\<bar>of_int i :: rat\<bar> / 2 powi e = of_int (\<bar>i\<bar> * 2 ^ n)" by (simp add: pw)
  then have "round_half_even (\<bar>of_int i :: rat\<bar> / 2 powi e) = \<bar>i\<bar> * 2 ^ n"
    by (simp only: round_half_even_int)
  then have "of_int (round_half_even (\<bar>of_int i\<bar> / 2 powi e)) * 2 powi e = \<bar>of_int i :: rat\<bar>"
    by (simp add: pw)
  moreover have "\<bar>of_int i :: rat\<bar> < 2 ^ 1024"
  proof -
    have "\<bar>i\<bar> < 2 ^ 1024" using assms by (rule less_trans) simp
    then show ?thesis by (metis of_int_abs of_int_less_iff of_int_numeral of_int_power)
  qed
  ultimately show ?thesis using False
    by (simp add: dbl_round_def Let_def e_def [symmetric] sgn_mult_abs)
qed (simp add: dbl_round_def)

lemma dbl_of_u64_exact: "v < 2 ^ 53 \<Longrightarrow> dbl_of_u64 v = Fin (of_int (uint v))"
  using dbl_round_int [of "uint v"] by (simp add: dbl_of_u64_def dbl_of_int_def word_less_def)

section \<open>Bytes of a 16-bit value\<close>

definition lo8 :: "u16 \<Rightarrow> u8" where
  "lo8 v = ucast (v AND 0xFF)"

definition hi8 :: "u16 \<Rightarrow> u8" where
  "hi8 v = ucast (drop_bit 8 v)"

definition mk16 :: "u8 \<Rightarrow> u8 \<Rightarrow> u16" where
  "mk16 hi lo = push_bit 8 (ucast hi) OR ucast lo"

lemma bit_mk16: "bit (mk16 hi lo) n \<longleftrightarrow> (if n < 8 then bit lo n else n < 16 \<and> bit hi (n - 8))"
  using bit_imp_le_length [of lo n]
  by (auto simp: mk16_def bit_simps)

lemma mask_FF: "(0xFF :: u16) = mask 8"
  by (simp add: mask_eq_exp_minus_1)

lemma bit_lo8: "bit (lo8 v) n \<longleftrightarrow> n < 8 \<and> bit v n"
  unfolding lo8_def mask_FF by (auto simp: bit_simps)

lemma bit_hi8: "bit (hi8 v) n \<longleftrightarrow> n < 8 \<and> bit v (n + 8)"
  by (auto simp: hi8_def bit_simps add.commute)

lemma mk16_split [simp, byte_simps]: "mk16 (hi8 v) (lo8 v) = v"
  by (rule bit_word_eqI) (auto simp: bit_mk16 bit_hi8 bit_lo8)

lemma hi8_mk16 [simp, byte_simps]: "hi8 (mk16 h l) = h"
  by (rule bit_word_eqI) (auto simp: bit_mk16 bit_hi8)

lemma lo8_mk16 [simp, byte_simps]: "lo8 (mk16 h l) = l"
  by (rule bit_word_eqI) (auto simp: bit_mk16 bit_lo8)

lemma mk16_inject [simp]: "mk16 h l = mk16 h' l' \<longleftrightarrow> h = h' \<and> l = l'"
  by (metis hi8_mk16 lo8_mk16)

lemma lo8_of_nat: "lo8 (of_nat n) = of_nat n"
proof (rule bit_word_eqI)
  fix k assume "k < LENGTH(8)"
  then show "bit (lo8 (of_nat n)) k \<longleftrightarrow> bit (of_nat n :: u8) k"
    by (simp add: bit_lo8 bit_of_nat_iff possible_bit_def)
qed

section \<open>Lists\<close>

lemma length_ge_2_snoc2: "2 \<le> length xs \<Longrightarrow> \<exists>ys a b. xs = ys @ [a, b]"
proof -
  assume len: "2 \<le> length xs"
  then obtain ys b where xs: "xs = ys @ [b]" by (cases xs rule: rev_cases) auto
  with len obtain zs a where "ys = zs @ [a]" by (cases ys rule: rev_cases) auto
  with xs show ?thesis by auto
qed

lemma nth_snoc2 [simp]:
  "(ys @ [a, b]) ! length ys = a" "(ys @ [a, b]) ! Suc (length ys) = b"
  by (simp_all add: nth_append)

end
