(* ===== verification/Fault_Condition.thy ===== *)
theory Fault_Condition
  imports Prelude
begin

text \<open>
  Delay-confirmed fault conditions: \<open>FaultConditionState\<close>
  (\<open>services/control/fault/fault_condition_state.cpp\<close>), the state machine that confirms a raw
  condition held for \<open>assert_delay_ms\<close> and drops it after \<open>clear_delay_ms\<close> of the clear condition,
  and \<open>FaultConditionEngine\<close> (\<open>fault_condition_engine.cpp\<close>), a map of them by name. Time stamps are
  64-bit words and keep the code's guarded subtraction. The lemmas characterise exactly when a
  condition is confirmed and cleared over an arbitrary sequence of updates.
\<close>

section \<open>One condition\<close>

record fc_state =
  raw_on :: bool
  raw_clear :: bool
  confirmed_on :: bool
  raw_on_since_ms :: u64
  raw_clear_since_ms :: u64
  last_update_ms :: u64
  last_change_ms :: u64
  assert_delay_ms :: u32
  clear_delay_ms :: u32
  changed_last_update :: bool
  last_change_to_on :: bool

definition fc_init :: fc_state where
  "fc_init = \<lparr>raw_on = False, raw_clear = False, confirmed_on = False, raw_on_since_ms = 0,
     raw_clear_since_ms = 0, last_update_ms = 0, last_change_ms = 0, assert_delay_ms = 0,
     clear_delay_ms = 0, changed_last_update = False, last_change_to_on = False\<rparr>"

definition fc_configure :: "u32 \<Rightarrow> u32 \<Rightarrow> fc_state \<Rightarrow> fc_state" where
  "fc_configure assert_delay clear_delay s =
     s\<lparr>assert_delay_ms := assert_delay, clear_delay_ms := clear_delay\<rparr>"

definition fc_reset :: "fc_state \<Rightarrow> fc_state" where
  "fc_reset s = s\<lparr>raw_on := False, raw_clear := False, confirmed_on := False,
     raw_on_since_ms := 0, raw_clear_since_ms := 0, last_update_ms := 0, last_change_ms := 0,
     changed_last_update := False, last_change_to_on := False\<rparr>"

definition held_ms :: "u64 \<Rightarrow> u64 \<Rightarrow> u64" where
  "held_ms now since = (if since \<le> now then now - since else 0)"

definition updateWithClear :: "bool \<Rightarrow> bool \<Rightarrow> u64 \<Rightarrow> fc_state \<Rightarrow> bool \<times> fc_state" where
  "updateWithClear assert_now clear_now now s0 =
     (let s = s0\<lparr>changed_last_update := False, last_update_ms := now\<rparr> in
      if \<not> confirmed_on s then
        let s = s\<lparr>raw_clear := False, raw_clear_since_ms := 0\<rparr> in
        if assert_now then
          let s = (if \<not> raw_on s then s\<lparr>raw_on := True, raw_on_since_ms := now\<rparr> else s);
              held = held_ms now (raw_on_since_ms s)
          in if assert_delay_ms s = 0 \<or> ucast (assert_delay_ms s) \<le> held
             then (True, s\<lparr>confirmed_on := True, last_change_ms := now, changed_last_update := True,
                       last_change_to_on := True, raw_clear := False, raw_clear_since_ms := 0\<rparr>)
             else (changed_last_update s, s)
        else (changed_last_update s, s\<lparr>raw_on := False, raw_on_since_ms := 0\<rparr>)
      else
        let s = s\<lparr>raw_on := assert_now\<rparr>;
            s = (if \<not> assert_now then s\<lparr>raw_on_since_ms := 0\<rparr> else s)
        in if clear_now then
             let s = (if \<not> raw_clear s then s\<lparr>raw_clear := True, raw_clear_since_ms := now\<rparr> else s);
                 held = held_ms now (raw_clear_since_ms s)
             in if clear_delay_ms s = 0 \<or> ucast (clear_delay_ms s) \<le> held
                then (True, s\<lparr>confirmed_on := False, last_change_ms := now, changed_last_update := True,
                          last_change_to_on := False, raw_on := False, raw_on_since_ms := 0,
                          raw_clear := False, raw_clear_since_ms := 0\<rparr>)
                else (changed_last_update s, s)
           else (changed_last_update s, s\<lparr>raw_clear := False, raw_clear_since_ms := 0\<rparr>))"

definition update :: "bool \<Rightarrow> u64 \<Rightarrow> fc_state \<Rightarrow> bool \<times> fc_state" where
  "update raw_now now s = updateWithClear raw_now (\<not> raw_now) now s"

section \<open>The engine\<close>

type_synonym fc_engine = "string \<rightharpoonup> fc_state"

definition ensureState :: "string \<Rightarrow> fc_engine \<Rightarrow> fc_state" where
  "ensureState key states = (case states key of None \<Rightarrow> fc_init | Some s \<Rightarrow> s)"

definition updateCondition ::
    "string \<Rightarrow> bool \<Rightarrow> u64 \<Rightarrow> u32 \<Rightarrow> u32 \<Rightarrow> fc_engine \<Rightarrow> bool \<times> fc_engine" where
  "updateCondition key raw_now now ad cd states =
     (let st = fc_configure ad cd (ensureState key states);
          (changed, st') = update raw_now now st
      in (changed, states(key \<mapsto> st')))"

definition updateConditionWithClear ::
    "string \<Rightarrow> bool \<Rightarrow> bool \<Rightarrow> u64 \<Rightarrow> u32 \<Rightarrow> u32 \<Rightarrow> fc_engine \<Rightarrow> bool \<times> fc_engine" where
  "updateConditionWithClear key assert_now clear_now now ad cd states =
     (let st = fc_configure ad cd (ensureState key states);
          (changed, st') = updateWithClear assert_now clear_now now st
      in (changed, states(key \<mapsto> st')))"

definition getConfirmed :: "string \<Rightarrow> fc_engine \<Rightarrow> bool" where
  "getConfirmed key states = (case states key of None \<Rightarrow> False | Some s \<Rightarrow> confirmed_on s)"

definition resetCondition :: "string \<Rightarrow> fc_engine \<Rightarrow> fc_engine" where
  "resetCondition key states =
     (case states key of None \<Rightarrow> states | Some s \<Rightarrow> states(key \<mapsto> fc_reset s))"

definition fc_clear :: "fc_engine \<Rightarrow> fc_engine" where
  "fc_clear states = Map.empty"

section \<open>Runs\<close>

text \<open>A sequence of updates \<open>(assert, clear, now)\<close>.\<close>

definition fc_run :: "(bool \<times> bool \<times> u64) list \<Rightarrow> fc_state \<Rightarrow> fc_state" where
  "fc_run inputs s = foldl (\<lambda>s (a, c, t). snd (updateWithClear a c t s)) s inputs"

lemma fc_run_simps [simp]:
  "fc_run [] s = s"
  "fc_run ((a, c, t) # ins) s = fc_run ins (snd (updateWithClear a c t s))"
  "fc_run (ins @ ins') s = fc_run ins' (fc_run ins s)"
  by (simp_all add: fc_run_def)

lemma delays_kept [simp]:
  "assert_delay_ms (snd (updateWithClear a c t s)) = assert_delay_ms s"
  "clear_delay_ms (snd (updateWithClear a c t s)) = clear_delay_ms s"
  "assert_delay_ms (fc_run ins s) = assert_delay_ms s"
  "clear_delay_ms (fc_run ins s) = clear_delay_ms s"
proof -
  show *: "assert_delay_ms (snd (updateWithClear a c t s)) = assert_delay_ms s"
    "clear_delay_ms (snd (updateWithClear a c t s)) = clear_delay_ms s" for a c t s
    by (simp_all add: updateWithClear_def Let_def)
  show "assert_delay_ms (fc_run ins s) = assert_delay_ms s"
    "clear_delay_ms (fc_run ins s) = clear_delay_ms s"
    by (induction ins arbitrary: s) (auto simp: *)
qed

text \<open>The return value says whether the confirmed state flipped, and the state records it.\<close>

lemma update_changed:
  "updateWithClear a c t s = (ch, s') \<Longrightarrow>
     ch = (confirmed_on s' \<noteq> confirmed_on s) \<and> changed_last_update s' = ch \<and>
     (ch \<longrightarrow> last_change_ms s' = t \<and> last_change_to_on s' = confirmed_on s')"
  by (auto simp: updateWithClear_def Let_def split: if_splits)

text \<open>Step equations, from an unconfirmed and from a confirmed state.\<close>

lemma step_off:
  assumes "\<not> confirmed_on s" "s' = snd (updateWithClear a c t s)"
    "since = (if raw_on s then raw_on_since_ms s else t)"
  shows "confirmed_on s' \<longleftrightarrow> a \<and> ucast (assert_delay_ms s) \<le> held_ms t since"
    "\<not> confirmed_on s' \<Longrightarrow> raw_on s' = a" "a \<Longrightarrow> raw_on_since_ms s' = since"
    "\<not> raw_clear s'"
  unfolding assms(2,3) using assms(1)
  by (cases a; cases "raw_on s"; simp add: updateWithClear_def Let_def; auto)+

lemma step_on:
  assumes "confirmed_on s" "s' = snd (updateWithClear a c t s)"
    "since = (if raw_clear s then raw_clear_since_ms s else t)"
  shows "\<not> confirmed_on s' \<longleftrightarrow> c \<and> ucast (clear_delay_ms s) \<le> held_ms t since"
    "confirmed_on s' \<Longrightarrow> raw_clear s' = c" "confirmed_on s' \<Longrightarrow> c \<Longrightarrow> raw_clear_since_ms s' = since"
    "\<not> confirmed_on s' \<Longrightarrow> \<not> raw_on s'"
  unfolding assms(2,3) using assms(1)
  by (cases a; cases c; cases "raw_clear s"; simp add: updateWithClear_def Let_def split: if_splits; auto)+

section \<open>Timing\<close>

text \<open>An input \<open>k\<close> from which on a condition has held without interruption.\<close>

definition held_from :: "('i \<Rightarrow> bool) \<Rightarrow> 'i list \<Rightarrow> nat \<Rightarrow> bool" where
  "held_from P ins k \<longleftrightarrow> k < length ins \<and> (\<forall>x \<in> set (drop k ins). P x)"

lemma held_from_snoc: "held_from P (ins @ [x]) k \<longleftrightarrow> P x \<and> (k = length ins \<or> held_from P ins k)"
  by (cases "k = length ins") (auto simp: held_from_def less_Suc_eq)

abbreviation in_assert :: "bool \<times> bool \<times> u64 \<Rightarrow> bool" where "in_assert \<equiv> fst"
abbreviation in_clear :: "bool \<times> bool \<times> u64 \<Rightarrow> bool" where "in_clear \<equiv> \<lambda>x. fst (snd x)"
abbreviation in_time :: "bool \<times> bool \<times> u64 \<Rightarrow> u64" where "in_time \<equiv> \<lambda>x. snd (snd x)"

definition fc_inv :: "(bool \<times> bool \<times> u64) list \<Rightarrow> fc_state \<Rightarrow> bool" where
  "fc_inv ins s \<longleftrightarrow>
     (\<not> confirmed_on s \<and> raw_on s \<longrightarrow>
        (\<exists>k. held_from in_assert ins k \<and> raw_on_since_ms s = in_time (ins ! k))) \<and>
     (confirmed_on s \<and> raw_clear s \<longrightarrow>
        (\<exists>k. held_from in_clear ins k \<and> raw_clear_since_ms s = in_time (ins ! k)))"

lemma held_extend:
  assumes "P (a, c, t)" "r \<longrightarrow> (\<exists>k. held_from P ins k \<and> since = in_time (ins ! k))"
    "since' = (if r then since else t)"
  shows "\<exists>k. held_from P (ins @ [(a, c, t)]) k \<and> since' = in_time ((ins @ [(a, c, t)]) ! k)"
proof (cases r)
  case True
  with assms obtain k where "held_from P ins k" "since = in_time (ins ! k)" by blast
  with assms(1,3) True show ?thesis
    by (intro exI [of _ k]) (auto simp: held_from_snoc nth_append held_from_def)
qed (use assms in \<open>auto simp: held_from_snoc intro!: exI [of _ "length ins"]\<close>)

lemma fc_inv_run:
  assumes "\<not> raw_on s0" "\<not> raw_clear s0"
  shows "fc_inv ins (fc_run ins s0)"
proof (induction ins rule: rev_induct)
  case (snoc x ins)
  obtain a c t where x: "x = (a, c, t)" by (cases x)
  let ?s = "fc_run ins s0" and ?s' = "fc_run (ins @ [x]) s0"
  have s': "?s' = snd (updateWithClear a c t ?s)" by (simp add: x)
  show ?case
  proof (cases "confirmed_on ?s")
    case False
    note st = step_off [OF False s' refl]
    show ?thesis
    proof (cases "confirmed_on ?s' \<or> \<not> a")
      case True
      with st show ?thesis by (auto simp: fc_inv_def)
    next
      case F2: False
      then have "raw_on_since_ms ?s' = (if raw_on ?s then raw_on_since_ms ?s else t)" using st(3) by simp
      from held_extend [OF _ _ this, of in_assert a c] F2 snoc False show ?thesis
        by (auto simp: fc_inv_def x)
    qed
  next
    case True
    note st = step_on [OF True s' refl]
    show ?thesis
    proof (cases "\<not> confirmed_on ?s' \<or> \<not> c")
      case True
      with st show ?thesis by (auto simp: fc_inv_def)
    next
      case F2: False
      then have "raw_clear_since_ms ?s' = (if raw_clear ?s then raw_clear_since_ms ?s else t)"
        using st(3) by simp
      from held_extend [OF _ _ this, of in_clear a c] F2 snoc True show ?thesis
        by (auto simp: fc_inv_def x)
    qed
  qed
qed (use assms in \<open>auto simp: fc_inv_def\<close>)

lemma stays_on: "confirmed_on s \<Longrightarrow> confirmed_on (fc_run (map (\<lambda>t. (True, False, t)) ts) s)"
proof (induction ts arbitrary: s)
  case (Cons t ts)
  have "confirmed_on (snd (updateWithClear True False t s))"
    using step_on(1) [OF Cons.prems refl refl] by blast
  then show ?case using Cons.IH by simp
qed simp

lemma stays_off: "\<not> confirmed_on s \<Longrightarrow> \<not> confirmed_on (fc_run (map (\<lambda>t. (False, True, t)) ts) s)"
proof (induction ts arbitrary: s)
  case (Cons t ts)
  have "\<not> confirmed_on (snd (updateWithClear False True t s))"
    using step_off(1) [OF Cons.prems refl refl] by blast
  then show ?case using Cons.IH by simp
qed simp

lemma block_on_pending:
  assumes "\<not> confirmed_on s" "raw_on s" "sorted (raw_on_since_ms s # ts)" "ts \<noteq> []"
  shows "confirmed_on (fc_run (map (\<lambda>t. (True, False, t)) ts) s) \<longleftrightarrow>
     ucast (assert_delay_ms s) \<le> last ts - raw_on_since_ms s"
  using assms
proof (induction ts arbitrary: s)
  case (Cons t ts)
  let ?s = "snd (updateWithClear True False t s)"
  note st = step_off [OF Cons.prems(1) refl refl, where a = True and c = False and t = t]
  have h: "held_ms t (raw_on_since_ms s) = t - raw_on_since_ms s"
    using Cons.prems(3) by (simp add: held_ms_def)
  have c: "confirmed_on ?s \<longleftrightarrow> ucast (assert_delay_ms s) \<le> t - raw_on_since_ms s"
    using st(1) Cons.prems(2) h by simp
  show ?case
  proof (cases "confirmed_on ?s")
    case True
    have "t \<le> last (t # ts)" "raw_on_since_ms s \<le> t" using Cons.prems(3) by auto
    then have "t - raw_on_since_ms s \<le> last (t # ts) - raw_on_since_ms s"
      by (rule word_le_minus_mono_left)
    with True c stays_on [of ?s ts] show ?thesis by simp
  next
    case False
    then show ?thesis using Cons.prems st c Cons.IH [of ?s] by (cases ts) auto
  qed
qed simp

lemma block_off_pending:
  assumes "confirmed_on s" "raw_clear s" "sorted (raw_clear_since_ms s # ts)" "ts \<noteq> []"
  shows "\<not> confirmed_on (fc_run (map (\<lambda>t. (False, True, t)) ts) s) \<longleftrightarrow>
     ucast (clear_delay_ms s) \<le> last ts - raw_clear_since_ms s"
  using assms
proof (induction ts arbitrary: s)
  case (Cons t ts)
  let ?s = "snd (updateWithClear False True t s)"
  note st = step_on [OF Cons.prems(1) refl refl, where a = False and c = True and t = t]
  have h: "held_ms t (raw_clear_since_ms s) = t - raw_clear_since_ms s"
    using Cons.prems(3) by (simp add: held_ms_def)
  have c: "\<not> confirmed_on ?s \<longleftrightarrow> ucast (clear_delay_ms s) \<le> t - raw_clear_since_ms s"
    using st(1) Cons.prems(2) h by simp
  show ?case
  proof (cases "confirmed_on ?s")
    case False
    have "t \<le> last (t # ts)" "raw_clear_since_ms s \<le> t" using Cons.prems(3) by auto
    then have "t - raw_clear_since_ms s \<le> last (t # ts) - raw_clear_since_ms s"
      by (rule word_le_minus_mono_left)
    with False c stays_off [of ?s ts] show ?thesis by simp
  next
    case True
    then show ?thesis using Cons.prems st c Cons.IH [of ?s] by (cases ts) auto
  qed
qed simp

section \<open>Properties\<close>

text \<open>C10: a condition is never confirmed early and never dropped early. Over any sequence of updates
  from a state with no pending timer, an update that turns the confirmed state on ends an
  uninterrupted run of asserting updates that began at least \<open>assert_delay_ms\<close> before; one that turns
  it off ends an uninterrupted run of clearing updates that began at least \<open>clear_delay_ms\<close> before.\<close>

theorem condition_change_was_held:
  assumes "\<not> raw_on s0" "\<not> raw_clear s0"
    and "s = fc_run ins s0" "s' = fc_run (ins @ [(a, c, t)]) s0"
  shows "(\<not> confirmed_on s \<and> confirmed_on s' \<longrightarrow>
           (\<exists>k. held_from in_assert (ins @ [(a, c, t)]) k \<and>
              ucast (assert_delay_ms s0) \<le> held_ms t (in_time ((ins @ [(a, c, t)]) ! k)))) \<and>
         (confirmed_on s \<and> \<not> confirmed_on s' \<longrightarrow>
           (\<exists>k. held_from in_clear (ins @ [(a, c, t)]) k \<and>
              ucast (clear_delay_ms s0) \<le> held_ms t (in_time ((ins @ [(a, c, t)]) ! k))))"
proof -
  have inv: "fc_inv ins s" using fc_inv_run [OF assms(1,2)] assms(3) by simp
  have s': "s' = snd (updateWithClear a c t s)" by (simp add: assms(3,4))
  show ?thesis
  proof (intro conjI impI; elim conjE)
    assume on: "\<not> confirmed_on s" "confirmed_on s'"
    define since where "since = (if raw_on s then raw_on_since_ms s else t)"
    have "a" "ucast (assert_delay_ms s) \<le> held_ms t since"
      using step_off(1) [OF on(1) s' since_def] on(2) by auto
    with held_extend [OF _ _ since_def, of in_assert a c ins] inv on(1)
    show "\<exists>k. held_from in_assert (ins @ [(a, c, t)]) k \<and>
        ucast (assert_delay_ms s0) \<le> held_ms t (in_time ((ins @ [(a, c, t)]) ! k))"
      by (fastforce simp: fc_inv_def assms(3))
  next
    assume off: "confirmed_on s" "\<not> confirmed_on s'"
    define since where "since = (if raw_clear s then raw_clear_since_ms s else t)"
    have "c" "ucast (clear_delay_ms s) \<le> held_ms t since"
      using step_on(1) [OF off(1) s' since_def] off(2) by auto
    with held_extend [OF _ _ since_def, of in_clear a c ins] inv off(1)
    show "\<exists>k. held_from in_clear (ins @ [(a, c, t)]) k \<and>
        ucast (clear_delay_ms s0) \<le> held_ms t (in_time ((ins @ [(a, c, t)]) ! k))"
      by (fastforce simp: fc_inv_def assms(3))
  qed
qed

theorem condition_change_was_held_witness:
  "\<exists>k. held_from in_assert ([(True, False, 100)] @ [(True, False, 700)]) k \<and>
      (500 :: u64) \<le> held_ms 700 (in_time (([(True, False, 100)] @ [(True, False, 700)]) ! k))"
  using condition_change_was_held [OF _ _ refl refl, of "fc_configure 500 0 fc_init" "[(True, False, 100)]" True False 700]
  by (simp add: fc_configure_def fc_init_def updateWithClear_def held_ms_def)

text \<open>C2: a condition is confirmed and dropped exactly on time. From an unconfirmed state with no pending
  assertion, a block of asserting updates at non-decreasing times leaves the condition confirmed if and
  only if the block spans at least \<open>assert_delay_ms\<close>; from a confirmed state with no pending clearing,
  a block of clearing updates drops it if and only if it spans at least \<open>clear_delay_ms\<close>.\<close>

theorem condition_confirmed_iff_spans_delay:
  assumes "sorted (t # ts)"
  shows "(\<not> confirmed_on s \<and> \<not> raw_on s \<longrightarrow>
           (confirmed_on (fc_run (map (\<lambda>t. (True, False, t)) (t # ts)) s) \<longleftrightarrow>
              ucast (assert_delay_ms s) \<le> last (t # ts) - t)) \<and>
         (confirmed_on s \<and> \<not> raw_clear s \<longrightarrow>
           (confirmed_on (fc_run (map (\<lambda>t. (False, True, t)) (t # ts)) s) \<longleftrightarrow>
              \<not> ucast (clear_delay_ms s) \<le> last (t # ts) - t))"
proof (intro conjI impI; elim conjE)
  assume off: "\<not> confirmed_on s" "\<not> raw_on s"
  let ?s = "snd (updateWithClear True False t s)"
  note st = step_off [OF off(1) refl refl, where a = True and c = False and t = t]
  show "confirmed_on (fc_run (map (\<lambda>t. (True, False, t)) (t # ts)) s) \<longleftrightarrow>
      ucast (assert_delay_ms s) \<le> last (t # ts) - t"
    using st off(2) assms stays_on [of ?s ts] block_on_pending [of ?s ts]
    by (cases "ts = []"; cases "confirmed_on ?s") (auto simp: held_ms_def)
next
  assume on: "confirmed_on s" "\<not> raw_clear s"
  let ?s = "snd (updateWithClear False True t s)"
  note st = step_on [OF on(1) refl refl, where a = False and c = True and t = t]
  show "confirmed_on (fc_run (map (\<lambda>t. (False, True, t)) (t # ts)) s) \<longleftrightarrow>
      \<not> ucast (clear_delay_ms s) \<le> last (t # ts) - t"
    using st on(2) assms stays_off [of ?s ts] block_off_pending [of ?s ts]
    by (cases "ts = []"; cases "confirmed_on ?s") (auto simp: held_ms_def)
qed

theorem condition_confirmed_iff_spans_delay_witness:
  "\<not> confirmed_on (fc_run (map (\<lambda>t. (True, False, t)) [10, 20, 400]) (fc_configure 500 0 fc_init))"
  using condition_confirmed_iff_spans_delay [of 10 "[20, 400]" "fc_configure 500 0 fc_init"]
  by (simp add: fc_configure_def fc_init_def del: fc_run_simps)

end
