(* ===== verification/Bms_Types.thy ===== *)
theory Bms_Types
  imports Prelude
begin

text \<open>
  The per-battery cache of the control layer (\<open>BmsPerInstanceCache\<close> and \<open>BmsLogicCache\<close> of
  \<open>services/control/bms/bms_logic_types.h\<close>), split into one record per message group. The three fields
  \<open>last_X_ms\<close>, \<open>X_online\<close>, \<open>X_age_ms\<close> of a group X are one record \<open>bms_group\<close>; the pairs
  \<open>f2_X_open_err\<close>, \<open>f2_X_weld_err\<close> are one record \<open>relay_err\<close>, and a measurement with its validity is
  one record \<open>meas\<close>. The \<open>raw_*\<close> summaries of the fault bits, which only the display reads, are a function
  from their names.
\<close>

record bms_group =
  last_ms :: u64
  grp_online :: bool
  age_ms :: dbl

definition group_init :: bms_group where
  "group_init = \<lparr>last_ms = 0,
     grp_online = False,
     age_ms = Fin 0\<rparr>"

record bms_groups =
  g_st1 :: bms_group
  g_st2 :: bms_group
  g_st3 :: bms_group
  g_st4 :: bms_group
  g_st5 :: bms_group
  g_st6 :: bms_group
  g_st7 :: bms_group
  g_elec_energy :: bms_group
  g_current_limit :: bms_group
  g_tm2b :: bms_group
  g_fire2b :: bms_group
  g_fault1 :: bms_group
  g_fault2 :: bms_group

definition groups_init :: bms_groups where
  "groups_init = \<lparr>g_st1 = group_init,
     g_st2 = group_init,
     g_st3 = group_init,
     g_st4 = group_init,
     g_st5 = group_init,
     g_st6 = group_init,
     g_st7 = group_init,
     g_elec_energy = group_init,
     g_current_limit = group_init,
     g_tm2b = group_init,
     g_fire2b = group_init,
     g_fault1 = group_init,
     g_fault2 = group_init\<rparr>"

record bms_health =
  seen_once :: bool
  bms_online :: bool
  runtime_fault_stale :: bool
  disconnect_window_ms :: u32
  last_rx_ms :: u64
  last_ok_ms :: u64
  last_online_change_ms :: u64
  last_offline_ms :: u64
  disconnect_count :: u32
  offline_reason_code :: int
  offline_reason_text :: string

definition health_init :: bms_health where
  "health_init = \<lparr>seen_once = False,
     bms_online = False,
     runtime_fault_stale = False,
     disconnect_window_ms = 3000,
     last_rx_ms = 0,
     last_ok_ms = 0,
     last_online_change_ms = 0,
     last_offline_ms = 0,
     disconnect_count = 0,
     offline_reason_code = 0,
     offline_reason_text = ''''\<rparr>"

record bms_st1 =
  st1_main_pos_relay_st :: int
  st1_main_neg_relay_st :: int
  st1_prechrg_relay_st :: int
  st1_dc_chrg_pos1_relay_st :: int
  st1_dc_chrg_neg1_relay_st :: int
  st1_dc_chrg_pos2_relay_st :: int
  st1_dc_chrg_neg2_relay_st :: int
  st1_heat_pos_relay_st :: int
  st1_heat_neg_relay_st :: int
  st1_panto_chrg_pos_relay_st :: int
  st1_panto_chrg_neg_relay_st :: int
  st1_ac_chrg_pos_relay_st :: int
  st1_ac_chrg_neg_relay_st :: int
  st1_aux1_relay_st :: int
  st1_aux2_relay_st :: int
  st1_aux3_relay_st :: int
  st1_bms_hv_status :: int
  st1_balance_status :: int
  st1_dc_chrg_connect_st :: int
  st1_panto_chrg_connect_st :: int
  st1_ac_chrg_connect_st :: int
  st1_chrg_mode :: int
  st1_chrg_status :: int
  st1_heating_status :: int
  st1_cooling_status :: int
  st1_rechrg_cycles :: int

definition st1_init :: bms_st1 where
  "st1_init = \<lparr>st1_main_pos_relay_st = 0,
     st1_main_neg_relay_st = 0,
     st1_prechrg_relay_st = 0,
     st1_dc_chrg_pos1_relay_st = 0,
     st1_dc_chrg_neg1_relay_st = 0,
     st1_dc_chrg_pos2_relay_st = 0,
     st1_dc_chrg_neg2_relay_st = 0,
     st1_heat_pos_relay_st = 0,
     st1_heat_neg_relay_st = 0,
     st1_panto_chrg_pos_relay_st = 0,
     st1_panto_chrg_neg_relay_st = 0,
     st1_ac_chrg_pos_relay_st = 0,
     st1_ac_chrg_neg_relay_st = 0,
     st1_aux1_relay_st = 0,
     st1_aux2_relay_st = 0,
     st1_aux3_relay_st = 0,
     st1_bms_hv_status = 0,
     st1_balance_status = 0,
     st1_dc_chrg_connect_st = 0,
     st1_panto_chrg_connect_st = 0,
     st1_ac_chrg_connect_st = 0,
     st1_chrg_mode = 0,
     st1_chrg_status = 0,
     st1_heating_status = 0,
     st1_cooling_status = 0,
     st1_rechrg_cycles = 0\<rparr>"

record bms_st2 =
  soc_valid :: bool
  soc :: dbl
  soh_valid :: bool
  soh :: dbl
  pack_v_valid :: bool
  pack_v :: dbl
  pack_i_valid :: bool
  pack_i :: dbl
  fault_level :: int
  fault_code :: int
  rq_hv_power_off :: bool

definition st2_init :: bms_st2 where
  "st2_init = \<lparr>soc_valid = False,
     soc = Fin 0,
     soh_valid = False,
     soh = Fin 0,
     pack_v_valid = False,
     pack_v = Fin 0,
     pack_i_valid = False,
     pack_i = Fin 0,
     fault_level = 0,
     fault_code = 0,
     rq_hv_power_off = False\<rparr>"

record bms_limits =
  charge_limit_valid :: bool
  charge_limit_a :: dbl
  discharge_limit_valid :: bool
  discharge_limit_a :: dbl

definition limits_init :: bms_limits where
  "limits_init = \<lparr>charge_limit_valid = False,
     charge_limit_a = Fin 0,
     discharge_limit_valid = False,
     discharge_limit_a = Fin 0\<rparr>"

record bms_tms =
  tms_work_state :: int
  tms_fault_code :: int
  tms_fault_level :: int
  tms_panel_aircon_seen_ms :: u64
  tms_ats_water_pump_seen_ms :: u64

definition tms_init :: bms_tms where
  "tms_init = \<lparr>tms_work_state = 0,
     tms_fault_code = 0,
     tms_fault_level = 0,
     tms_panel_aircon_seen_ms = 0,
     tms_ats_water_pump_seen_ms = 0\<rparr>"

record bms_fire =
  fire_value_number :: int
  fire_value_alarm_level :: int
  fire_by_start_sts :: bool
  fire_sensor_error_sts :: bool
  fire_hw_error_sts :: bool
  fire_temp_sensor1_err :: bool
  fire_temp_sensor2_err :: bool
  fire_air_sensor_err :: bool
  fire_sam_sensor_err :: bool
  fire_temp_alarm :: bool
  fire_gas_alarm :: bool
  fire_fog_alarm :: bool
  fire_leak_alarm :: bool
  fire_fault_level :: int
  fire_fault_code :: int

definition fire_init :: bms_fire where
  "fire_init = \<lparr>fire_value_number = 0,
     fire_value_alarm_level = 0,
     fire_by_start_sts = False,
     fire_sensor_error_sts = False,
     fire_hw_error_sts = False,
     fire_temp_sensor1_err = False,
     fire_temp_sensor2_err = False,
     fire_air_sensor_err = False,
     fire_sam_sensor_err = False,
     fire_temp_alarm = False,
     fire_gas_alarm = False,
     fire_fog_alarm = False,
     fire_leak_alarm = False,
     fire_fault_level = 0,
     fire_fault_code = 0\<rparr>"

record bms_f1 =
  f1_del_temp :: int
  f1_over_temp :: int
  f1_over_ucell :: int
  f1_low_ucell :: int
  f1_pack_over_hvolt :: int
  f1_pack_low_hvolt :: int
  f1_low_soc :: int
  f1_low_ins_res :: int
  f1_ucell_uniformity :: bool
  f1_over_chg :: bool
  f1_over_soc :: bool
  f1_soc_change_fast :: bool
  f1_bat_sys_not_match :: bool
  f1_hvil_fault :: bool
  f1_fault_num :: int

definition f1_init :: bms_f1 where
  "f1_init = \<lparr>f1_del_temp = 0,
     f1_over_temp = 0,
     f1_over_ucell = 0,
     f1_low_ucell = 0,
     f1_pack_over_hvolt = 0,
     f1_pack_low_hvolt = 0,
     f1_low_soc = 0,
     f1_low_ins_res = 0,
     f1_ucell_uniformity = False,
     f1_over_chg = False,
     f1_over_soc = False,
     f1_soc_change_fast = False,
     f1_bat_sys_not_match = False,
     f1_hvil_fault = False,
     f1_fault_num = 0\<rparr>"

record relay_err =
  open_err :: bool
  weld_err :: bool

definition relay_init :: relay_err where
  "relay_init = \<lparr>open_err = False,
     weld_err = False\<rparr>"

record bms_f2 =
  f2_cell_over_dischrg :: bool
  f2_cell_low_temp :: bool
  f2_pack_fire_warning :: bool
  f2_over_dischrg_curr_level :: int
  f2_over_chrg_curr_in_drive_level :: int
  f2_curr_sensor_err :: bool
  f2_power_supply_err :: bool
  f2_soc_differ_err :: bool
  f2_tms_err :: bool
  f2_pack_self_protect :: bool
  f2_main_loop_prechg_err :: bool
  f2_aux_loop_prechg_err :: bool
  f2_chrg_ins_low_err :: bool
  f2_chrg_connect_err :: bool
  f2_over_dischrg_curr_when_in_chrg :: bool
  f2_over_chrg_curr_in_the_chrg :: bool
  f2_chrg_ntc_err :: bool
  f2_chrg_ntc_temp_over_level :: int
  f2_acan_lost :: bool
  f2_inner_comm_err :: bool
  f2_dcdc_err :: bool
  f2_branch_break_err :: bool
  f2_heat_relay :: relay_err
  f2_main_pos :: relay_err
  f2_main_neg :: relay_err
  f2_dc_chrg_pos1 :: relay_err
  f2_dc_chrg_neg1 :: relay_err
  f2_dc_chrg_pos2 :: relay_err
  f2_dc_chrg_neg2 :: relay_err
  f2_ac_chrg_pos :: relay_err
  f2_ac_chrg_neg :: relay_err
  f2_panto_chrg_pos :: relay_err
  f2_panto_chrg_neg :: relay_err

definition f2_init :: bms_f2 where
  "f2_init = \<lparr>f2_cell_over_dischrg = False,
     f2_cell_low_temp = False,
     f2_pack_fire_warning = False,
     f2_over_dischrg_curr_level = 0,
     f2_over_chrg_curr_in_drive_level = 0,
     f2_curr_sensor_err = False,
     f2_power_supply_err = False,
     f2_soc_differ_err = False,
     f2_tms_err = False,
     f2_pack_self_protect = False,
     f2_main_loop_prechg_err = False,
     f2_aux_loop_prechg_err = False,
     f2_chrg_ins_low_err = False,
     f2_chrg_connect_err = False,
     f2_over_dischrg_curr_when_in_chrg = False,
     f2_over_chrg_curr_in_the_chrg = False,
     f2_chrg_ntc_err = False,
     f2_chrg_ntc_temp_over_level = 0,
     f2_acan_lost = False,
     f2_inner_comm_err = False,
     f2_dcdc_err = False,
     f2_branch_break_err = False,
     f2_heat_relay = relay_init,
     f2_main_pos = relay_init,
     f2_main_neg = relay_init,
     f2_dc_chrg_pos1 = relay_init,
     f2_dc_chrg_neg1 = relay_init,
     f2_dc_chrg_pos2 = relay_init,
     f2_dc_chrg_neg2 = relay_init,
     f2_ac_chrg_pos = relay_init,
     f2_ac_chrg_neg = relay_init,
     f2_panto_chrg_pos = relay_init,
     f2_panto_chrg_neg = relay_init\<rparr>"

record bms_ctl =
  alarm_any :: bool
  hv_allow_close :: bool
  hv_should_open :: bool

definition ctl_init :: bms_ctl where
  "ctl_init = \<lparr>alarm_any = False,
     hv_allow_close = True,
     hv_should_open = False\<rparr>"

record meas =
  m_valid :: bool
  m_val :: dbl

definition meas_init :: meas where "meas_init = \<lparr>m_valid = False, m_val = Fin 0\<rparr>"

record bms_meas =
  st3_ins_pos :: meas
  st3_ins_neg :: meas
  st3_ins_sys :: meas
  st4_temp_max :: meas
  st4_temp_min :: meas
  st4_temp_avg :: meas
  st5_max_ucell :: meas
  st5_min_ucell :: meas
  st5_avg_ucell :: meas
  st7_gun1_dc_pos_temp :: meas
  st7_gun1_dc_neg_temp :: meas
  st7_gun2_dc_pos_temp :: meas
  st7_gun2_dc_neg_temp :: meas
  st7_gun_ac_pos_temp :: meas
  st7_gun_ac_neg_temp :: meas
  EE_tot_chg_energy :: meas
  EE_tot_dischg_energy :: meas
  EE_single_chg_energy :: meas
  CL_pulse_discharge_limit :: meas
  CL_pulse_charge_limit :: meas
  CL_follow_charge_limit :: meas
  CL_follow_discharge_limit :: meas
  fire_max_temp :: meas
  fire_max_gas :: meas
  fire_max_fog :: meas
  st3_ins_detector_valid :: bool
  st3_ins_detector_on :: bool
  st4_max_temp_pos_valid :: bool
  st4_max_temp_pos :: int
  st4_min_temp_pos_valid :: bool
  st4_min_temp_pos :: int
  st6_max_ucell_csc_no :: int
  st6_max_ucell_position :: int
  st6_min_ucell_csc_no :: int
  st6_min_ucell_position :: int

definition bms_meas_init :: bms_meas where
  "bms_meas_init = \<lparr>st3_ins_pos = meas_init,
     st3_ins_neg = meas_init,
     st3_ins_sys = meas_init,
     st4_temp_max = meas_init,
     st4_temp_min = meas_init,
     st4_temp_avg = meas_init,
     st5_max_ucell = meas_init,
     st5_min_ucell = meas_init,
     st5_avg_ucell = meas_init,
     st7_gun1_dc_pos_temp = meas_init,
     st7_gun1_dc_neg_temp = meas_init,
     st7_gun2_dc_pos_temp = meas_init,
     st7_gun2_dc_neg_temp = meas_init,
     st7_gun_ac_pos_temp = meas_init,
     st7_gun_ac_neg_temp = meas_init,
     EE_tot_chg_energy = meas_init,
     EE_tot_dischg_energy = meas_init,
     EE_single_chg_energy = meas_init,
     CL_pulse_discharge_limit = meas_init,
     CL_pulse_charge_limit = meas_init,
     CL_follow_charge_limit = meas_init,
     CL_follow_discharge_limit = meas_init,
     fire_max_temp = meas_init,
     fire_max_gas = meas_init,
     fire_max_fog = meas_init,
     st3_ins_detector_valid = False,
     st3_ins_detector_on = False,
     st4_max_temp_pos_valid = False,
     st4_max_temp_pos = 0,
     st4_min_temp_pos_valid = False,
     st4_min_temp_pos = 0,
     st6_max_ucell_csc_no = 0,
     st6_max_ucell_position = 0,
     st6_min_ucell_csc_no = 0,
     st6_min_ucell_position = 0\<rparr>"

record bms_cache_item =
  bms_index :: u32
  instance_name :: string
  last_msg_name :: string
  x_health :: bms_health
  x_groups :: bms_groups
  x_st1 :: bms_st1
  x_st2 :: bms_st2
  x_limits :: bms_limits
  x_tms :: bms_tms
  x_fire :: bms_fire
  x_f1 :: bms_f1
  x_f2 :: bms_f2
  x_ctl :: bms_ctl
  x_meas :: bms_meas
  x_raw :: "string \<Rightarrow> bool"
  last_raw_hex_by_group :: "string \<rightharpoonup> string"
  last_group_rx_ms :: "string \<rightharpoonup> u64"

definition bms_item_init :: bms_cache_item where
  "bms_item_init = \<lparr>bms_index = 0,
     instance_name = '''',
     last_msg_name = '''',
     x_health = health_init,
     x_groups = groups_init,
     x_st1 = st1_init,
     x_st2 = st2_init,
     x_limits = limits_init,
     x_tms = tms_init,
     x_fire = fire_init,
     x_f1 = f1_init,
     x_f2 = f2_init,
     x_ctl = ctl_init,
     x_meas = bms_meas_init,
     x_raw = (\<lambda>_. False),
     last_raw_hex_by_group = Map.empty,
     last_group_rx_ms = Map.empty\<rparr>"

text \<open>The cache maps an instance name to its record; \<open>ensure\<close> creates it on first use.\<close>

type_synonym bms_cache = "string \<rightharpoonup> bms_cache_item"

definition bms_ensure :: "string \<Rightarrow> u32 \<Rightarrow> bms_cache \<Rightarrow> bms_cache" where
  "bms_ensure name index items =
     (let x = (case items name of None \<Rightarrow> bms_item_init | Some x \<Rightarrow> x);
          x = (if bms_index x = 0 \<and> index \<noteq> 0 then x\<lparr>bms_index := index\<rparr> else x);
          x = (if instance_name x = [] then x\<lparr>instance_name := name\<rparr> else x)
      in items(name \<mapsto> x))"

definition bms_name :: "nat \<Rightarrow> string" where
  "bms_name idx = ''BMS_'' @ to_string idx"

lemma bms_name_inject [simp]:
  "i < 10 \<Longrightarrow> j < 10 \<Longrightarrow> bms_name i = bms_name j \<longleftrightarrow> i = j"
  by (auto simp: bms_name_def to_string.simps digit_char_def of_char_eq_iff [symmetric] simp flip: of_char_eq_iff)

end
