(* ===== verification/Runtime_Health.thy ===== *)
theory Runtime_Health
  imports Bms_Types
begin

text \<open>
  Ageing of the received data (\<open>services/control/logic/logic_tick.cpp\<close>, lines 20 to 38 and 584 to 744):
  from the arrival times the periodic tick derives which message groups, batteries and power conversion
  units are online, why one is offline and how often it went offline. The lemmas show that "online" means
  exactly that the last arrival lies within its window.
\<close>

section \<open>Time windows\<close>

definition PCU_RX_TIMEOUT_MS :: u32 where "PCU_RX_TIMEOUT_MS = 1500"
definition PCU_HB_STALE_MS :: u32 where "PCU_HB_STALE_MS = 3000"
definition BMS_INSTANCE_TIMEOUT_MS :: u32 where "BMS_INSTANCE_TIMEOUT_MS = 5000"
definition BMS_ST_TIMEOUT_MS :: u32 where "BMS_ST_TIMEOUT_MS = 3000"
definition BMS_CURRENT_LIMIT_TIMEOUT_MS :: u32 where "BMS_CURRENT_LIMIT_TIMEOUT_MS = 3000"
definition BMS_ELEC_ENERGY_TIMEOUT_MS :: u32 where "BMS_ELEC_ENERGY_TIMEOUT_MS = 5000"
definition BMS_TM2B_TIMEOUT_MS :: u32 where "BMS_TM2B_TIMEOUT_MS = 5000"
definition BMS_FIRE2B_TIMEOUT_MS :: u32 where "BMS_FIRE2B_TIMEOUT_MS = 5000"
definition BMS_FAULT1_TIMEOUT_MS :: u32 where "BMS_FAULT1_TIMEOUT_MS = 5000"
definition BMS_FAULT2_TIMEOUT_MS :: u32 where "BMS_FAULT2_TIMEOUT_MS = 5000"

lemmas timeout_defs = PCU_RX_TIMEOUT_MS_def PCU_HB_STALE_MS_def BMS_INSTANCE_TIMEOUT_MS_def
  BMS_ST_TIMEOUT_MS_def BMS_CURRENT_LIMIT_TIMEOUT_MS_def BMS_ELEC_ENERGY_TIMEOUT_MS_def
  BMS_TM2B_TIMEOUT_MS_def BMS_FIRE2B_TIMEOUT_MS_def BMS_FAULT1_TIMEOUT_MS_def BMS_FAULT2_TIMEOUT_MS_def

definition calcFreshByTimeout :: "u64 \<Rightarrow> u64 \<Rightarrow> u32 \<Rightarrow> bool" where
  "calcFreshByTimeout now lst timeout =
     (if lst = 0 then False else if now < lst then False else now - lst \<le> ucast timeout)"

definition calcAgeMs :: "u64 \<Rightarrow> u64 \<Rightarrow> dbl" where
  "calcAgeMs now lst =
     (if lst = 0 then Fin 0 else if now < lst then Fin 0 else dbl_of_u64 (now - lst))"

section \<open>Power conversion units\<close>

record pcu_online_state =
  pcu_seen_once :: bool
  pcu_last_rx_ms :: u64
  last_hb_change_ms :: u64
  last_heartbeat :: u32
  has_last_heartbeat :: bool
  pcu_state :: u32
  pcu_state_valid :: bool
  cabinet_id :: u32
  pcu_estop :: bool
  hb_repeat_count :: u32
  hb_jump_err_count :: u32
  last_hb_delta :: int
  rx_alive :: bool
  hb_alive :: bool
  pcu_online :: bool
  last_rx_age_ms :: dbl
  last_hb_change_age_ms :: dbl
  pcu_last_online_change_ms :: u64
  pcu_offline_reason_code :: u32
  pcu_last_offline_ms :: u64
  pcu_disconnect_count :: u32
  pcu_offline_reason_text :: string

definition pcu_init :: pcu_online_state where
  "pcu_init = \<lparr>pcu_seen_once = False, pcu_last_rx_ms = 0, last_hb_change_ms = 0, last_heartbeat = 0,
     has_last_heartbeat = False, pcu_state = 0, pcu_state_valid = False, cabinet_id = 0,
     pcu_estop = False, hb_repeat_count = 0, hb_jump_err_count = 0, last_hb_delta = 0,
     rx_alive = False, hb_alive = False, pcu_online = False, last_rx_age_ms = Fin 0,
     last_hb_change_age_ms = Fin 0, pcu_last_online_change_ms = 0, pcu_offline_reason_code = 0,
     pcu_last_offline_ms = 0, pcu_disconnect_count = 0, pcu_offline_reason_text = []\<rparr>"

definition pcuOfflineReasonText :: "u32 \<Rightarrow> string" where
  "pcuOfflineReasonText code = (if code = 0 then ''None'' else if code = 1 then ''NoData''
     else if code = 2 then ''RxTimeout'' else if code = 3 then ''HeartbeatStale'' else ''Unknown'')"

definition updateOnePcuRuntimeHealth ::
    "u64 \<Rightarrow> u32 \<Rightarrow> u32 \<Rightarrow> pcu_online_state \<Rightarrow> pcu_online_state" where
  "updateOnePcuRuntimeHealth now rx_timeout hb_timeout st0 =
     (let old_online = pcu_online st0;
          rx = (pcu_seen_once st0 \<and> calcFreshByTimeout now (pcu_last_rx_ms st0) rx_timeout);
          hb = (has_last_heartbeat st0 \<and> calcFreshByTimeout now (last_hb_change_ms st0) hb_timeout);
          (on, code) = (if \<not> pcu_seen_once st0 then (False, 1)
                        else if \<not> rx then (False, 2)
                        else if \<not> hb then (False, 3) else (True, 0));
          st = st0\<lparr>last_rx_age_ms := calcAgeMs now (pcu_last_rx_ms st0),
                  last_hb_change_age_ms := calcAgeMs now (last_hb_change_ms st0),
                  rx_alive := rx, hb_alive := hb, pcu_online := on, pcu_offline_reason_code := code,
                  pcu_offline_reason_text := pcuOfflineReasonText code\<rparr>
      in if on \<noteq> old_online then
           let st = st\<lparr>pcu_last_online_change_ms := now\<rparr> in
           if \<not> on then st\<lparr>pcu_last_offline_ms := now, pcu_disconnect_count := pcu_disconnect_count st + 1\<rparr>
           else st
         else st)"

section \<open>Batteries\<close>

definition bmsOfflineReasonText :: "int \<Rightarrow> string" where
  "bmsOfflineReasonText code = (if code = 0 then ''None'' else if code = 1 then ''NoData''
     else if code = 2 then ''RxTimeout'' else ''Unknown'')"

definition age_group :: "u64 \<Rightarrow> u32 \<Rightarrow> bms_group \<Rightarrow> bms_group" where
  "age_group now timeout g =
     g\<lparr>age_ms := calcAgeMs now (last_ms g), grp_online := calcFreshByTimeout now (last_ms g) timeout\<rparr>"

definition age_groups :: "u64 \<Rightarrow> bms_groups \<Rightarrow> bms_groups" where
  "age_groups now g =
     \<lparr>g_st1 = age_group now BMS_ST_TIMEOUT_MS (g_st1 g), g_st2 = age_group now BMS_ST_TIMEOUT_MS (g_st2 g),
      g_st3 = age_group now BMS_ST_TIMEOUT_MS (g_st3 g), g_st4 = age_group now BMS_ST_TIMEOUT_MS (g_st4 g),
      g_st5 = age_group now BMS_ST_TIMEOUT_MS (g_st5 g), g_st6 = age_group now BMS_ST_TIMEOUT_MS (g_st6 g),
      g_st7 = age_group now BMS_ST_TIMEOUT_MS (g_st7 g),
      g_elec_energy = age_group now BMS_ELEC_ENERGY_TIMEOUT_MS (g_elec_energy g),
      g_current_limit = age_group now BMS_CURRENT_LIMIT_TIMEOUT_MS (g_current_limit g),
      g_tm2b = age_group now BMS_TM2B_TIMEOUT_MS (g_tm2b g),
      g_fire2b = age_group now BMS_FIRE2B_TIMEOUT_MS (g_fire2b g),
      g_fault1 = age_group now BMS_FAULT1_TIMEOUT_MS (g_fault1 g),
      g_fault2 = age_group now BMS_FAULT2_TIMEOUT_MS (g_fault2 g)\<rparr>"

definition group_stale :: "bms_group \<Rightarrow> bool" where
  "group_stale g = (0 < last_ms g \<and> \<not> grp_online g)"

definition updateOneBms :: "u64 \<Rightarrow> bms_cache_item \<Rightarrow> bms_cache_item" where
  "updateOneBms now x =
     (let h0 = x_health x;
          old_online = bms_online h0;
          g = age_groups now (x_groups x);
          stale = (group_stale (g_st2 g) \<or> group_stale (g_current_limit g) \<or>
                   group_stale (g_fault1 g) \<or> group_stale (g_fault2 g));
          (on, code) = (if \<not> seen_once h0 then (False, 1)
                        else if \<not> calcFreshByTimeout now (last_rx_ms h0) BMS_INSTANCE_TIMEOUT_MS then (False, 2)
                        else (True, 0));
          h = h0\<lparr>runtime_fault_stale := stale, bms_online := on, offline_reason_code := code,
                offline_reason_text := bmsOfflineReasonText code\<rparr>;
          h = (if on \<noteq> old_online then
                 let h = h\<lparr>last_online_change_ms := now\<rparr> in
                 if \<not> on then h\<lparr>last_offline_ms := now, disconnect_count := disconnect_count h + 1\<rparr> else h
               else h)
      in x\<lparr>x_health := h, x_groups := g\<rparr>)"

definition updateBmsRuntimeHealth :: "u64 \<Rightarrow> bms_cache \<Rightarrow> bms_cache" where
  "updateBmsRuntimeHealth now items = (\<lambda>k. map_option (updateOneBms now) (items k))"

section \<open>Facts\<close>

lemma fresh_iff:
  "calcFreshByTimeout now lst timeout \<longleftrightarrow>
     lst \<noteq> 0 \<and> lst \<le> now \<and> now - lst \<le> ucast timeout"
  by (auto simp: calcFreshByTimeout_def)

lemma updateOneBms_simps [simp]:
  "x_st1 (updateOneBms now x) = x_st1 x" "x_st2 (updateOneBms now x) = x_st2 x"
  "x_limits (updateOneBms now x) = x_limits x" "x_tms (updateOneBms now x) = x_tms x"
  "x_fire (updateOneBms now x) = x_fire x" "x_f1 (updateOneBms now x) = x_f1 x"
  "x_f2 (updateOneBms now x) = x_f2 x" "x_ctl (updateOneBms now x) = x_ctl x"
  "x_groups (updateOneBms now x) = age_groups now (x_groups x)"
  by (simp_all add: updateOneBms_def Let_def split: prod.splits)

lemma updateOneBms_health:
  "seen_once (x_health (updateOneBms now x)) = seen_once (x_health x)"
  "last_rx_ms (x_health (updateOneBms now x)) = last_rx_ms (x_health x)"
  "bms_online (x_health (updateOneBms now x)) \<longleftrightarrow>
     seen_once (x_health x) \<and> calcFreshByTimeout now (last_rx_ms (x_health x)) BMS_INSTANCE_TIMEOUT_MS"
  "runtime_fault_stale (x_health (updateOneBms now x)) \<longleftrightarrow>
     (let g = age_groups now (x_groups x) in
      group_stale (g_st2 g) \<or> group_stale (g_current_limit g) \<or> group_stale (g_fault1 g) \<or> group_stale (g_fault2 g))"
  by (simp_all add: updateOneBms_def Let_def)

lemma updateOneBms_count:
  "disconnect_count (x_health (updateOneBms now x)) = disconnect_count (x_health x) +
     (if bms_online (x_health x) \<and> \<not> bms_online (x_health (updateOneBms now x)) then 1 else 0)"
  by (simp add: updateOneBms_def Let_def)

section \<open>Properties\<close>

text \<open>After the tick has aged the cache, a battery is online exactly when it was ever seen and its last
  frame is at most 5 s old; a message group is online exactly when its last frame is at most 3 s (ST2,
  current limit) or 5 s (fault messages) old; the disconnect counter advances exactly on a transition
  from online to offline; and no other battery appears or disappears.\<close>

theorem battery_online_iff_fresh:
  assumes "items k = Some x" "updateBmsRuntimeHealth now items k = Some y"
  shows "(bms_online (x_health y) \<longleftrightarrow> seen_once (x_health x) \<and> last_rx_ms (x_health x) \<noteq> 0 \<and>
            last_rx_ms (x_health x) \<le> now \<and> now - last_rx_ms (x_health x) \<le> 5000)
       \<and> (grp_online (g_st2 (x_groups y)) \<longleftrightarrow> last_ms (g_st2 (x_groups x)) \<noteq> 0 \<and>
            last_ms (g_st2 (x_groups x)) \<le> now \<and> now - last_ms (g_st2 (x_groups x)) \<le> 3000)
       \<and> (grp_online (g_fault1 (x_groups y)) \<longleftrightarrow> last_ms (g_fault1 (x_groups x)) \<noteq> 0 \<and>
            last_ms (g_fault1 (x_groups x)) \<le> now \<and> now - last_ms (g_fault1 (x_groups x)) \<le> 5000)
       \<and> disconnect_count (x_health y) = disconnect_count (x_health x) +
            (if bms_online (x_health x) \<and> \<not> bms_online (x_health y) then 1 else 0)
       \<and> dom (updateBmsRuntimeHealth now items) = dom items"
proof -
  have y: "y = updateOneBms now x" using assms by (simp add: updateBmsRuntimeHealth_def)
  show ?thesis
    unfolding y
    by (simp add: updateOneBms_health updateOneBms_count fresh_iff age_groups_def age_group_def
        timeout_defs updateBmsRuntimeHealth_def dom_def)
qed

theorem battery_online_iff_fresh_witness:
  "\<exists>y. updateBmsRuntimeHealth 9000 [''BMS_1'' \<mapsto> bms_item_init\<lparr>x_health := health_init\<lparr>seen_once := True,
      bms_online := True, last_rx_ms := 3000\<rparr>\<rparr>] ''BMS_1'' = Some y \<and> \<not> bms_online (x_health y)"
  using battery_online_iff_fresh [of "[''BMS_1'' \<mapsto> bms_item_init\<lparr>x_health := health_init\<lparr>seen_once := True,
      bms_online := True, last_rx_ms := 3000\<rparr>\<rparr>]" "''BMS_1''" _ 9000]
  by (simp add: updateBmsRuntimeHealth_def)

text \<open>A power conversion unit is online exactly when a status frame arrived within 1.5 s and its
  heartbeat changed within 3 s, and otherwise the reason code tells which of the conditions failed first.\<close>

theorem pcu_online_iff_fresh:
  assumes "st' = updateOnePcuRuntimeHealth now PCU_RX_TIMEOUT_MS PCU_HB_STALE_MS st"
  shows "(pcu_online st' \<longleftrightarrow> pcu_seen_once st \<and> has_last_heartbeat st \<and>
            pcu_last_rx_ms st \<noteq> 0 \<and> pcu_last_rx_ms st \<le> now \<and> now - pcu_last_rx_ms st \<le> 1500 \<and>
            last_hb_change_ms st \<noteq> 0 \<and> last_hb_change_ms st \<le> now \<and> now - last_hb_change_ms st \<le> 3000)
       \<and> (pcu_online st' \<longleftrightarrow> pcu_offline_reason_code st' = 0)
       \<and> (\<not> pcu_seen_once st \<longleftrightarrow> pcu_offline_reason_code st' = 1)
       \<and> (pcu_online st \<and> \<not> pcu_online st' \<longrightarrow>
            pcu_disconnect_count st' = pcu_disconnect_count st + 1 \<and> pcu_last_offline_ms st' = now)"
  unfolding assms
  by (simp add: updateOnePcuRuntimeHealth_def Let_def fresh_iff timeout_defs) blast

theorem pcu_online_iff_fresh_witness:
  "\<not> pcu_online (updateOnePcuRuntimeHealth 5000 PCU_RX_TIMEOUT_MS PCU_HB_STALE_MS
      (pcu_init\<lparr>pcu_seen_once := True, pcu_last_rx_ms := 4900, has_last_heartbeat := True, last_hb_change_ms := 1000\<rparr>))"
  using pcu_online_iff_fresh [OF refl, of 5000 "pcu_init\<lparr>pcu_seen_once := True, pcu_last_rx_ms := 4900,
      has_last_heartbeat := True, last_hb_change_ms := 1000\<rparr>"] by simp

end
