(* ===== verification/Device_Data.thy ===== *)
theory Device_Data
  imports Prelude
begin

text \<open>
  The record every protocol parser fills (\<open>DeviceData\<close> of \<open>services/protocol/protocol_base.h\<close>), the
  CAN frame of the socket interface, and the hexadecimal texts the parsers put into it.
\<close>

datatype gas_type = Combustible | CO | O2 | Temperature | Humidity | CO2 | UnknownGas

record gas_reading =
  gas_valid :: bool
  gas_kind :: gas_type
  gas_type_code :: u16
  gas_raw :: u16
  gas_status :: u16
  gas_decimal_code :: u16
  gas_unit_code :: u16
  gas_value :: dbl

definition gas_init :: gas_reading where
  "gas_init = \<lparr>gas_valid = False, gas_kind = UnknownGas, gas_type_code = 0, gas_raw = 0,
     gas_status = 0, gas_decimal_code = 0, gas_unit_code = 0, gas_value = Fin 0\<rparr>"

record device_data =
  device_name :: string
  timestamp :: u32
  num :: "string \<rightharpoonup> dbl"
  vals :: "string \<rightharpoonup> int"
  status :: "string \<rightharpoonup> u32"
  str :: "string \<rightharpoonup> string"
  gas :: gas_reading

definition dd_init :: device_data where
  "dd_init = \<lparr>device_name = '''', timestamp = 0, num = Map.empty, vals = Map.empty,
     status = Map.empty, str = Map.empty, gas = gas_init\<rparr>"

record can_frame =
  can_id :: u32
  can_dlc :: u8
  can_data :: bytes

definition CAN_EFF_FLAG :: u32 where "CAN_EFF_FLAG = 0x80000000"
definition CAN_EFF_MASK :: u32 where "CAN_EFF_MASK = 0x1FFFFFFF"

definition can_zero :: can_frame where
  "can_zero = \<lparr>can_id = 0, can_dlc = 0, can_data = replicate 8 0\<rparr>"

section \<open>Hexadecimal texts\<close>

definition hex_char :: "nat \<Rightarrow> char" where
  "hex_char n = (if n < 10 then char_of (48 + n) else char_of (55 + n))"

definition hex2 :: "u8 \<Rightarrow> string" where
  "hex2 b = [hex_char (unat b div 16), hex_char (unat b mod 16)]"

text \<open>The format \<open>0x%08X\<close>.\<close>

definition hex0x8 :: "u32 \<Rightarrow> string" where
  "hex0x8 v = ''0x'' @ map (\<lambda>i. hex_char (unat v div 16 ^ i mod 16)) (rev [0..<8])"

definition bytesToHex :: "bytes \<Rightarrow> nat \<Rightarrow> string" where
  "bytesToHex data dlc =
     foldl (\<lambda>s i. (if s \<noteq> [] then s @ '' '' else s) @ hex2 (data ! i)) [] [0..<dlc]"

lemma length_bytesToHex:
  "length (bytesToHex data n) = (if n = 0 then 0 else 3 * n - 1)"
proof (induction n)
  case (Suc n)
  then have "bytesToHex data n = [] \<longleftrightarrow> n = 0" by (cases n) auto
  with Suc show ?case by (auto simp: bytesToHex_def hex2_def)
qed (simp add: bytesToHex_def)

end
