(* ===== verification/Bms_Router.thy ===== *)
theory Bms_Router
  imports Prelude
begin

text \<open>
  The identifier arithmetic of the CAN hub
  (\<open>services/protocol/can/bms/bms_thread/bms_frame_router.cpp\<close>): a message of the battery protocol
  has a template identifier and, per battery instance, a runtime identifier whose low twelve bits
  carry the instance and the message code. The lemmas show that rewriting and decoding are inverse
  and that normalisation maps every known identifier to the one template the signal table knows.
\<close>

definition kCanId29Mask :: u32 where "kCanId29Mask = 0x1FFFFFFF"

definition clean29 :: "u32 \<Rightarrow> u32" where
  "clean29 id29 = id29 AND kCanId29Mask"

definition low12 :: "u32 \<Rightarrow> u32" where
  "low12 id29 = clean29 id29 AND 0xFFF"

definition isValidInstance :: "u32 \<Rightarrow> bool" where
  "isValidInstance idx = (1 \<le> idx \<and> idx \<le> 4)"

definition extractInstanceIndex :: "u32 \<Rightarrow> u32" where
  "extractInstanceIndex id29 =
     (let idx = drop_bit 8 (low12 id29) AND 0xF in if isValidInstance idx then idx else 0)"

definition extractMsgCode :: "u32 \<Rightarrow> u32" where
  "extractMsgCode id29 = low12 id29 AND 0xFF"

definition protoIdFromMsgCode :: "u32 \<Rightarrow> u32" where
  "protoIdFromMsgCode msg_code =
     (if msg_code = 0x01 then 0x1802F3EF
      else if msg_code = 0x02 then 0x1881EFF3
      else if msg_code = 0x03 then 0x1882EFF3
      else if msg_code = 0x04 then 0x1883EFF3
      else if msg_code = 0x05 then 0x1884EFF3
      else if msg_code = 0x06 then 0x1885EFF3
      else if msg_code = 0x07 then 0x1886EFF3
      else if msg_code = 0x08 then 0x1887EFF3
      else if msg_code = 0x09 then 0x1888EFF3
      else if msg_code = 0x0A then 0x1889EFF3
      else if msg_code = 0x0B then 0x18C3EFF3
      else if msg_code = 0x0C then 0x18C4EFF3
      else if msg_code = 0x0D then 0x18FF45F4
      else if msg_code = 0x0E then 0x18FFC13A
      else if msg_code = 0x0F then 0x18FFF10F
      else 0)"

text \<open>The return value and the two reference parameters \<open>instance\<close> and \<open>msg_code\<close>.\<close>

definition decodeRuntimeId :: "u32 \<Rightarrow> bool \<times> u32 \<times> u32" where
  "decodeRuntimeId runtime_id29 =
     (let inst = extractInstanceIndex runtime_id29; msg_code = extractMsgCode runtime_id29 in
      if \<not> isValidInstance inst then (False, 0, 0)
      else if protoIdFromMsgCode msg_code = 0 then (False, 0, 0)
      else (True, inst, msg_code))"

definition isRuntimeId :: "u32 \<Rightarrow> bool" where
  "isRuntimeId id29 = fst (decodeRuntimeId id29)"

definition makeInstanceName :: "u32 \<Rightarrow> string" where
  "makeInstanceName idx =
     (if \<not> isValidInstance idx then ''BMS_0'' else ''BMS_'' @ to_string (unat idx))"

definition msgCodeFromProtoId :: "u32 \<Rightarrow> u32" where
  "msgCodeFromProtoId proto_id29 =
     (let id29 = clean29 proto_id29 in
      if id29 = 0x1802F3EF then 0x01
      else if id29 = 0x1881EFF3 then 0x02
      else if id29 = 0x1882EFF3 then 0x03
      else if id29 = 0x1883EFF3 then 0x04
      else if id29 = 0x1884EFF3 then 0x05
      else if id29 = 0x1885EFF3 then 0x06
      else if id29 = 0x1886EFF3 then 0x07
      else if id29 = 0x1887EFF3 then 0x08
      else if id29 = 0x1888EFF3 then 0x09
      else if id29 = 0x1889EFF3 then 0x0A
      else if id29 = 0x18C3EFF3 then 0x0B
      else if id29 = 0x18C4EFF3 then 0x0C
      else if id29 = 0x18FF45F4 then 0x0D
      else if id29 = 0x18FFC13A then 0x0E
      else if id29 = 0x18FFF7F6 then 0x0F
      else if id29 = 0x18FFF10F then 0x0F
      else case decodeRuntimeId id29 of (ok, inst, code) \<Rightarrow> if ok then code else 0)"

definition normalizeToProtoId :: "u32 \<Rightarrow> u32" where
  "normalizeToProtoId id29 =
     (let i = clean29 id29; msg_code = msgCodeFromProtoId i; proto_id = protoIdFromMsgCode msg_code
      in if proto_id \<noteq> 0 then proto_id else i)"

definition rewriteRuntimeId :: "u32 \<Rightarrow> u32 \<Rightarrow> u32" where
  "rewriteRuntimeId proto_id29 instance_index =
     (let i = clean29 proto_id29 in
      if \<not> isValidInstance instance_index then i
      else let msg_code = msgCodeFromProtoId i in
        if msg_code = 0 then i
        else let table_id = protoIdFromMsgCode msg_code in
          if table_id = 0 then i
          else (table_id AND NOT 0xFFF) OR
               (push_bit 8 (instance_index AND 0xF) OR (msg_code AND 0xFF)))"

section \<open>Facts\<close>

lemmas router_defs = clean29_def kCanId29Mask_def low12_def isValidInstance_def
  extractInstanceIndex_def extractMsgCode_def protoIdFromMsgCode_def decodeRuntimeId_def
  msgCodeFromProtoId_def normalizeToProtoId_def rewriteRuntimeId_def

definition known_codes :: "u32 list" where
  "known_codes = [0x01, 0x02, 0x03, 0x04, 0x05, 0x06, 0x07, 0x08, 0x09, 0x0A, 0x0B, 0x0C, 0x0D,
     0x0E, 0x0F]"

lemma protoIdFromMsgCode_nonzero:
  "protoIdFromMsgCode c \<noteq> 0 \<longleftrightarrow> c \<in> set known_codes"
  by (auto simp: protoIdFromMsgCode_def known_codes_def)

lemma valid_instances: "isValidInstance i \<Longrightarrow> i \<in> {1, 2, 3, 4}"
proof -
  assume "isValidInstance i"
  then have u: "1 \<le> unat i" "unat i \<le> 4" by (auto simp: isValidInstance_def word_le_nat_alt)
  then have "unat i = 1 \<or> unat i = 2 \<or> unat i = 3 \<or> unat i = 4" by linarith
  then show ?thesis by (auto simp: word_unat_eq_iff)
qed

lemma clean29_idem [simp]: "clean29 (clean29 i) = clean29 i"
  by (simp add: clean29_def ac_simps)

lemma msgCode_known: "msgCodeFromProtoId i = 0 \<or> msgCodeFromProtoId i \<in> set known_codes"
proof -
  have "msgCodeFromProtoId i \<in> {0} \<union> set known_codes"
    unfolding msgCodeFromProtoId_def Let_def decodeRuntimeId_def
    by (simp add: protoIdFromMsgCode_nonzero known_codes_def split del: if_split)
      (auto simp: protoIdFromMsgCode_nonzero known_codes_def)
  then show ?thesis by simp
qed

lemma template_table:
  "\<forall>c \<in> set known_codes. msgCodeFromProtoId (protoIdFromMsgCode c) = c \<and>
     clean29 (protoIdFromMsgCode c) = protoIdFromMsgCode c"
  by (simp add: known_codes_def router_defs)

lemma templates_not_runtime:
  "\<forall>t \<in> {0x1802F3EF, 0x1881EFF3, 0x1882EFF3, 0x1883EFF3, 0x1884EFF3, 0x1885EFF3, 0x1886EFF3,
      0x1887EFF3, 0x1888EFF3, 0x1889EFF3, 0x18C3EFF3, 0x18C4EFF3, 0x18FF45F4, 0x18FFC13A, 0x18FFF7F6 :: u32}.
    (t AND 0xFFF) AND 0xFF \<notin> set known_codes"
  by (simp add: known_codes_def)

lemma decode_msgCode:
  assumes "decodeRuntimeId x = (True, i, c)"
  shows "msgCodeFromProtoId x = c"
proof -
  have c: "c = (clean29 x AND 0xFFF) AND 0xFF" "c \<in> set known_codes"
    using assms protoIdFromMsgCode_nonzero [of c]
    by (auto simp: decodeRuntimeId_def Let_def extractMsgCode_def low12_def split: if_splits)
  have d: "decodeRuntimeId (clean29 x) = (True, i, c)"
    using assms by (simp add: decodeRuntimeId_def extractInstanceIndex_def extractMsgCode_def low12_def)
  have t: "clean29 x \<notin> {0x1802F3EF, 0x1881EFF3, 0x1882EFF3, 0x1883EFF3, 0x1884EFF3, 0x1885EFF3,
      0x1886EFF3, 0x1887EFF3, 0x1888EFF3, 0x1889EFF3, 0x18C3EFF3, 0x18C4EFF3, 0x18FF45F4,
      0x18FFC13A, 0x18FFF7F6}"
    using bspec [OF templates_not_runtime, of "clean29 x"] c by blast
  have f: "clean29 x = 0x18FFF10F \<Longrightarrow> c = 0x0F" using c(1) by simp
  show ?thesis
    unfolding msgCodeFromProtoId_def Let_def using t f d by (simp split del: if_split) simp
qed

lemma known_codes_lt: "c \<in> set known_codes \<Longrightarrow> c AND 0xFF = c \<and> c \<noteq> 0"
  by (auto simp: known_codes_def)

lemma mask_numerals: "(0xFFF :: u32) = mask 12" "(0xFF :: u32) = mask 8" "(0xF :: u32) = mask 4"
    "(0x1FFFFFFF :: u32) = mask 29"
  by (simp_all add: mask_eq_exp_minus_1)

lemma low12_runtime:
  "low12 ((t AND NOT 0xFFF) OR (push_bit 8 (i AND 0xF) OR (c AND 0xFF))) =
     push_bit 8 (i AND 0xF) OR (c AND 0xFF)"
  unfolding low12_def clean29_def kCanId29Mask_def mask_numerals
  by (rule bit_word_eqI) (auto simp: bit_simps)

lemma fields_runtime:
  "drop_bit 8 (push_bit 8 (i AND 0xF) OR (c AND 0xFF) :: u32) AND 0xF = i AND 0xF"
  "(push_bit 8 (i AND 0xF) OR (c AND 0xFF)) AND 0xFF = (c AND 0xFF :: u32)"
  unfolding mask_numerals by (rule bit_word_eqI; auto simp: bit_simps)+

lemma decode_rewrite:
  assumes "isValidInstance i" "msgCodeFromProtoId p \<noteq> 0"
  shows "decodeRuntimeId (rewriteRuntimeId p i) = (True, i, msgCodeFromProtoId p)"
proof -
  let ?c = "msgCodeFromProtoId p"
  have c: "?c \<in> set known_codes" using msgCode_known [of p] assms(2) by simp
  have i: "i AND 0xF = i" using valid_instances [OF assms(1)] by auto
  have p: "msgCodeFromProtoId (clean29 p) = ?c" by (simp add: msgCodeFromProtoId_def)
  have "rewriteRuntimeId p i =
      (protoIdFromMsgCode ?c AND NOT 0xFFF) OR (push_bit 8 (i AND 0xF) OR (?c AND 0xFF))"
    using assms c protoIdFromMsgCode_nonzero [of ?c] by (simp add: rewriteRuntimeId_def Let_def p)
  then have "low12 (rewriteRuntimeId p i) = push_bit 8 (i AND 0xF) OR (?c AND 0xFF)"
    by (simp only: low12_runtime)
  then have "extractInstanceIndex (rewriteRuntimeId p i) = i" "extractMsgCode (rewriteRuntimeId p i) = ?c"
    using assms(1) known_codes_lt [OF c] fields_runtime [of i ?c]
    by (simp_all add: extractInstanceIndex_def extractMsgCode_def i Let_def)
  then show ?thesis using assms(1) c protoIdFromMsgCode_nonzero [of ?c]
    by (simp add: decodeRuntimeId_def)
qed

section \<open>Properties\<close>

text \<open>For every identifier of a known message and every battery instance, the runtime identifier
  decodes to exactly that instance and that message, and normalises to the template identifier of the
  message, so that the signal table is found for every instance.\<close>

theorem router_roundtrip:
  assumes "1 \<le> i" "i \<le> 4" "msgCodeFromProtoId p \<noteq> 0"
  shows "decodeRuntimeId (rewriteRuntimeId p i) = (True, i, msgCodeFromProtoId p)
       \<and> normalizeToProtoId (rewriteRuntimeId p i) = protoIdFromMsgCode (msgCodeFromProtoId p)
       \<and> normalizeToProtoId (rewriteRuntimeId p i) = normalizeToProtoId p"
proof -
  have d: "decodeRuntimeId (rewriteRuntimeId p i) = (True, i, msgCodeFromProtoId p)"
    using assms by (intro decode_rewrite) (simp_all add: isValidInstance_def)
  moreover have "protoIdFromMsgCode (msgCodeFromProtoId p) \<noteq> 0"
    using msgCode_known [of p] assms(3) protoIdFromMsgCode_nonzero by blast
  moreover have "msgCodeFromProtoId (clean29 x) = msgCodeFromProtoId x" for x
    by (simp add: msgCodeFromProtoId_def)
  ultimately show ?thesis
    using decode_msgCode [OF d] by (simp add: normalizeToProtoId_def Let_def)
qed

theorem router_roundtrip_witness:
  "decodeRuntimeId (rewriteRuntimeId 0x1883EFF3 2) = (True, 2, 0x04)"
  using router_roundtrip [of 2 "0x1883EFF3"] by (simp add: msgCodeFromProtoId_def clean29_def kCanId29Mask_def)

text \<open>Normalisation is idempotent on every identifier.\<close>

theorem normalize_idempotent:
  "normalizeToProtoId (normalizeToProtoId i) = normalizeToProtoId i"
proof (cases "msgCodeFromProtoId i \<in> set known_codes")
  case True
  have c: "msgCodeFromProtoId (clean29 i) = msgCodeFromProtoId i" by (simp add: msgCodeFromProtoId_def)
  have n: "normalizeToProtoId i = protoIdFromMsgCode (msgCodeFromProtoId i)"
    using True protoIdFromMsgCode_nonzero by (simp add: normalizeToProtoId_def Let_def c)
  show ?thesis using True template_table n protoIdFromMsgCode_nonzero
    by (simp add: normalizeToProtoId_def [of "protoIdFromMsgCode _"] Let_def)
next
  case False
  have c: "msgCodeFromProtoId (clean29 x) = msgCodeFromProtoId x" for x
    by (simp add: msgCodeFromProtoId_def)
  with False have n: "normalizeToProtoId i = clean29 i"
    using protoIdFromMsgCode_nonzero by (simp add: normalizeToProtoId_def Let_def c)
  with False c show ?thesis
    using protoIdFromMsgCode_nonzero by (simp add: normalizeToProtoId_def [of "clean29 i"] Let_def)
qed

end
