(* ===== verification/Bms_Signals.thy ===== *)
theory Bms_Signals
  imports Device_Data Bms_Router
begin

text \<open>
  Signals inside a CAN frame: packing (\<open>BmsTx::packBitsLsb\<close> of \<open>services/protocol/can/bms/bms_tx.cpp\<close>),
  extraction and parsing (\<open>bms_proto.cpp\<close>), the lookups and conversions of
  \<open>proto_bms_table_runtime.cpp\<close> and the name table of \<open>bms_name_map.cpp\<close>. The generated message table
  is a parameter: a function from identifier to message definition.
\<close>

section \<open>Signal and message definitions\<close>

record signal_def =
  sig_name :: string
  startbit_lsb :: u16
  sig_length :: u16
  factor :: dbl
  offset :: dbl
  enums :: "(u32 \<times> string) list"

record message_def =
  msg_name :: string
  msg_id :: u32
  cycle_ms :: int
  signals :: "signal_def list"

type_synonym msg_table = "u32 \<Rightarrow> message_def option"

section \<open>Bit fields\<close>

definition load64 :: "bytes \<Rightarrow> u64" where
  "load64 data = foldl (\<lambda>u i. u OR push_bit (i * 8) (ucast (data ! i))) 0 [0..<8]"

definition store64 :: "u64 \<Rightarrow> bytes" where
  "store64 u = map (\<lambda>i. ucast (drop_bit (i * 8) u AND 0xFF)) [0..<8]"

definition field_mask :: "int \<Rightarrow> u64" where
  "field_mask len = (if len = 64 then NOT 0 else push_bit (nat len) 1 - 1)"

definition packBitsLsb :: "bytes \<Rightarrow> int \<Rightarrow> int \<Rightarrow> u64 \<Rightarrow> bytes" where
  "packBitsLsb data start_lsb len value =
     (if start_lsb < 0 \<or> len \<le> 0 \<or> 64 \<le> start_lsb then data
      else let len = (if 64 < start_lsb + len then 64 - start_lsb else len);
               u = load64 data;
               m = field_mask len;
               u = u AND NOT (push_bit (nat start_lsb) m);
               u = u OR push_bit (nat start_lsb) (value AND m)
           in store64 u)"

definition extractBitsLsb :: "bytes \<Rightarrow> int \<Rightarrow> int \<Rightarrow> u64" where
  "extractBitsLsb data start_lsb len =
     (if start_lsb < 0 \<or> len \<le> 0 \<or> 64 \<le> start_lsb then 0
      else let len = (if 64 < start_lsb + len then 64 - start_lsb else len)
           in drop_bit (nat start_lsb) (load64 data) AND field_mask len)"

section \<open>Lookups and conversions\<close>

definition findMessage :: "msg_table \<Rightarrow> u32 \<Rightarrow> message_def option" where
  "findMessage gen runtime_id29 =
     (case gen (runtime_id29 AND kCanId29Mask) of
        Some msg \<Rightarrow> Some msg
      | None \<Rightarrow>
          (let proto_id29 = normalizeToProtoId runtime_id29 in
           if proto_id29 = runtime_id29 AND kCanId29Mask then None else gen proto_id29))"

definition findSignal :: "message_def option \<Rightarrow> string \<Rightarrow> signal_def option" where
  "findSignal msg name =
     (case msg of None \<Rightarrow> None | Some m \<Rightarrow> find (\<lambda>s. sig_name s = name) (signals m))"

definition enumText :: "signal_def \<Rightarrow> u32 \<Rightarrow> string option" where
  "enumText sig raw = map_option snd (find (\<lambda>e. fst e = raw) (enums sig))"

definition signExtend :: "u64 \<Rightarrow> u32 \<Rightarrow> u64" where
  "signExtend raw_u64 bit_len =
     (if bit_len = 0 \<or> 64 \<le> bit_len then raw_u64
      else let sign_bit = push_bit (unat bit_len - 1) 1 in
        if raw_u64 AND sign_bit = 0 then raw_u64
        else raw_u64 OR NOT (push_bit (unat bit_len) 1 - 1))"

definition rawToPhys :: "signal_def \<Rightarrow> u64 \<Rightarrow> dbl" where
  "rawToPhys sig raw_u64 =
     (let v = (if dbl_less (offset sig) (Fin 0) then signExtend raw_u64 (ucast (sig_length sig))
               else raw_u64);
          raw = dbl_of_int (sint v)
      in dbl_add (dbl_mul raw (factor sig)) (offset sig))"

definition isBoolLikeSignal :: "signal_def \<Rightarrow> bool" where
  "isBoolLikeSignal sig = (sig_length sig = 1)"

definition isEnumLikeSignal :: "signal_def \<Rightarrow> bool" where
  "isEnumLikeSignal sig = (enums sig \<noteq> [])"

fun dbl_abs :: "dbl \<Rightarrow> dbl" where
  "dbl_abs NaN = NaN"
| "dbl_abs (Inf neg) = Inf False"
| "dbl_abs (Fin r) = Fin \<bar>r\<bar>"

definition kEps :: dbl where
  "kEps = dbl_round (1 / 10 ^ 12)"

definition shouldParseAsPhysical :: "signal_def \<Rightarrow> bool" where
  "shouldParseAsPhysical sig =
     (if isBoolLikeSignal sig then False
      else if dbl_less kEps (dbl_abs (dbl_add (factor sig) (Fin (-1)))) then True
      else if dbl_less kEps (dbl_abs (dbl_add (offset sig) (Fin 0))) then True
      else if enums sig = [] then True
      else if 8 \<le> sig_length sig then True
      else False)"

definition canonicalMsgName :: "string \<Rightarrow> string" where
  "canonicalMsgName s =
     (if s = [] then ''UNKNOWN''
      else if s = ''B2V_Fult1'' \<or> s = ''B2V_Fult1_32960'' then ''B2V_Fault1''
      else if s = ''B2V_Fult2'' \<or> s = ''B2V_Fult2_32961'' then ''B2V_Fault2''
      else s)"

section \<open>Parsing a frame\<close>

definition put_text :: "signal_def \<Rightarrow> u64 \<Rightarrow> string \<Rightarrow> string \<Rightarrow> device_data \<Rightarrow> device_data" where
  "put_text sig raw full_key short_key out =
     (case enumText sig (ucast raw) of None \<Rightarrow> out
      | Some txt \<Rightarrow> out\<lparr>str := (str out)(full_key @ ''.text'' \<mapsto> txt, short_key @ ''.text'' \<mapsto> txt)\<rparr>)"

definition put_num :: "string \<Rightarrow> string \<Rightarrow> dbl \<Rightarrow> device_data \<Rightarrow> device_data" where
  "put_num full_key short_key phys out =
     (let out = out\<lparr>num := (num out)(full_key \<mapsto> phys)\<rparr> in
      if num out short_key = None then out\<lparr>num := (num out)(short_key \<mapsto> phys)\<rparr> else out)"

definition put_value :: "string \<Rightarrow> string \<Rightarrow> int \<Rightarrow> device_data \<Rightarrow> device_data" where
  "put_value full_key short_key v out = out\<lparr>vals := (vals out)(full_key \<mapsto> v, short_key \<mapsto> v)\<rparr>"

definition parse_signal :: "string \<Rightarrow> bytes \<Rightarrow> signal_def \<Rightarrow> device_data \<Rightarrow> device_data" where
  "parse_signal msg_prefix data sig out =
     (if sig_name sig = [] then out
      else let full_key = msg_prefix @ sig_name sig; short_key = sig_name sig;
               raw = extractBitsLsb data (uint (startbit_lsb sig)) (uint (sig_length sig))
        in if isBoolLikeSignal sig then
             put_text sig raw full_key short_key
               (put_value full_key short_key (if raw \<noteq> 0 then 1 else 0) out)
           else if shouldParseAsPhysical sig then
             put_text sig raw full_key short_key (put_num full_key short_key (rawToPhys sig raw) out)
           else if isEnumLikeSignal sig then
             put_text sig raw full_key short_key
               (put_value full_key short_key (sint (ucast raw :: u32)) out)
           else put_num full_key short_key (rawToPhys sig raw) out)"

definition parse_header :: "string \<Rightarrow> u32 \<Rightarrow> message_def \<Rightarrow> can_frame \<Rightarrow> device_data \<Rightarrow> device_data" where
  "parse_header dev id29 msg fr out =
     (let bms_index = extractInstanceIndex id29;
          proto_msg_name = (if msg_name msg \<noteq> [] then msg_name msg else ''UNKNOWN'') in
      out\<lparr>device_name := dev, num := Map.empty, status := Map.empty,
        vals := [''__bms.instance_index'' \<mapsto> sint bms_index, ''__bms.id'' \<mapsto> sint id29,
                 ''__bms.cycle_ms'' \<mapsto> cycle_ms msg],
        str := [''__bms.instance'' \<mapsto> makeInstanceName bms_index,
                ''__bms.msg'' \<mapsto> canonicalMsgName proto_msg_name,
                ''__bms.proto_msg'' \<mapsto> proto_msg_name,
                ''__bms.id_hex'' \<mapsto> hex0x8 id29,
                ''__bms.raw_hex'' \<mapsto> bytesToHex (can_data fr) (unat (can_dlc fr))]\<rparr>)"

definition bms_parse ::
    "msg_table \<Rightarrow> string \<Rightarrow> string \<Rightarrow> can_frame \<Rightarrow> device_data \<Rightarrow> bool \<times> device_data" where
  "bms_parse gen dev key_prefix fr out =
     (if can_id fr AND CAN_EFF_FLAG = 0 then (False, out)
      else if can_dlc fr < 8 then (False, out)
      else let id29 = can_id fr AND CAN_EFF_MASK in
        case findMessage gen id29 of None \<Rightarrow> (False, out)
        | Some msg \<Rightarrow>
            let proto_msg_name = (if msg_name msg \<noteq> [] then msg_name msg else ''UNKNOWN'');
                msg_prefix = key_prefix @ ''.'' @ canonicalMsgName proto_msg_name @ ''.'' in
            (True, foldl (\<lambda>out sig. parse_signal msg_prefix (can_data fr) sig out)
                     (parse_header dev id29 msg fr out) (signals msg)))"

section \<open>Bit fields read back\<close>

lemma mask_FF_64: "(0xFF :: u64) = mask 8"
  by (simp add: mask_eq_exp_minus_1)

lemma bit_load64:
  assumes "length data = 8"
  shows "bit (load64 data) n \<longleftrightarrow> n < 64 \<and> bit (data ! (n div 8)) (n mod 8)"
proof -
  have "bit (foldl (\<lambda>u i. u OR push_bit (i * 8) (ucast (data ! i))) (0 :: u64) [0..<m]) n
      \<longleftrightarrow> n < 64 \<and> n div 8 < m \<and> bit (data ! (n div 8)) (n mod 8)" if "m \<le> 8" for m
    using that
  proof (induction m)
    case (Suc m)
    have "bit (push_bit (m * 8) (ucast (data ! m)) :: u64) n \<longleftrightarrow>
        n < 64 \<and> n div 8 = m \<and> bit (data ! m) (n mod 8)"
    proof (cases "n div 8 = m")
      case True
      then have "n - m * 8 = n mod 8" "m * 8 \<le> n" by (auto simp: minus_div_mult_eq_mod)
      with True show ?thesis by (auto simp: bit_push_bit_iff bit_simps)
    next
      case False
      then have "\<not> (m * 8 \<le> n \<and> n - m * 8 < 8)" by auto
      with False bit_u8_bound [of "data ! m" "n - m * 8"] show ?thesis
        by (auto simp: bit_push_bit_iff bit_simps)
    qed
    with Suc show ?case by (auto simp: bit_or_iff less_Suc_eq)
  qed simp
  from this [of 8] show ?thesis by (auto simp: load64_def)
qed

lemma length_store64 [simp]: "length (store64 u) = 8"
  by (simp add: store64_def)

lemma bit_store64: "j < 8 \<Longrightarrow> k < 8 \<Longrightarrow> bit (store64 u ! j) k \<longleftrightarrow> bit u (8 * j + k)"
  unfolding store64_def mask_FF_64 by (simp add: bit_simps mult.commute)

lemma load_store64 [simp]: "load64 (store64 u) = u"
  by (rule bit_word_eqI) (simp add: bit_load64 bit_store64)

lemma bit_field_mask: "0 < len \<Longrightarrow> len \<le> 64 \<Longrightarrow> bit (field_mask len) n \<longleftrightarrow> n < nat len"
proof -
  assume l: "0 < len" "len \<le> 64"
  have "field_mask len = mask (nat len)"
  proof (cases "len = 64")
    case True
    then show ?thesis by (auto simp: field_mask_def intro!: bit_word_eqI) (simp add: bit_simps)
  next
    case False
    then show ?thesis by (simp add: field_mask_def mask_eq_exp_minus_1)
  qed
  with l show ?thesis by (auto simp: bit_simps)
qed

text \<open>Bit \<open>n\<close> of the frame after packing: the value inside the field, the old frame outside.\<close>

lemma bit_pack:
  assumes "length data = 8" "0 \<le> start" "0 < len" "start + len \<le> 64"
  shows "bit (load64 (packBitsLsb data start len v)) n \<longleftrightarrow>
     (if start \<le> int n \<and> int n < start + len then bit v (n - nat start) else bit (load64 data) n)"
proof -
  have "start < 64" using assms by simp
  then have *: "load64 (packBitsLsb data start len v) =
      (load64 data AND NOT (push_bit (nat start) (field_mask len))) OR
        push_bit (nat start) (v AND field_mask len)"
    using assms by (simp add: packBitsLsb_def Let_def)
  show ?thesis
  proof (cases "n < 64")
    case True
    then show ?thesis unfolding * using assms
      by (auto simp: bit_or_iff bit_and_iff bit_not_iff bit_push_bit_iff bit_field_mask)
  next
    case False
    then show ?thesis using assms bit_imp_le_length [of _ n] by (auto simp: bit_load64 dest: bit_imp_le_length)
  qed
qed

lemma length_pack [simp]: "length data = 8 \<Longrightarrow> length (packBitsLsb data start len v) = 8"
  by (simp add: packBitsLsb_def Let_def)

lemma bit_extract:
  assumes "length data = 8" "0 \<le> start" "0 < len" "start + len \<le> 64"
  shows "bit (extractBitsLsb data start len) n \<longleftrightarrow> int n < len \<and> bit (load64 data) (nat start + n)"
  using assms by (auto simp: extractBitsLsb_def bit_and_iff bit_drop_bit_eq bit_field_mask add.commute)

section \<open>Properties\<close>

text \<open>A value packed into a bit field of a CAN frame is extracted again, truncated to the width of
  the field, and every field that does not overlap it keeps its value.\<close>

theorem pack_extract:
  assumes "length data = 8" "0 \<le> s" "0 < l" "s + l \<le> 64" "0 \<le> s'" "0 < l'" "s' + l' \<le> 64"
    and "s + l \<le> s' \<or> s' + l' \<le> s"
  shows "extractBitsLsb (packBitsLsb data s l v) s l = take_bit (nat l) v
       \<and> extractBitsLsb (packBitsLsb data s l v) s' l' = extractBitsLsb data s' l'"
proof
  show "extractBitsLsb (packBitsLsb data s l v) s l = take_bit (nat l) v"
    using assms(1-4) by (intro bit_word_eqI) (auto simp: bit_extract bit_pack bit_take_bit_iff)
  show "extractBitsLsb (packBitsLsb data s l v) s' l' = extractBitsLsb data s' l'"
    using assms by (intro bit_word_eqI) (auto simp: bit_extract bit_pack)
qed

theorem pack_extract_witness:
  "extractBitsLsb (packBitsLsb (replicate 8 0) 8 2 1) 8 2 = 1"
  using pack_extract [of "replicate 8 0" 8 2 16 8 1] by simp

lemma bit_top_iff:
  assumes "uint (w :: u64) < 2 * 2 ^ n"
  shows "bit w n \<longleftrightarrow> \<not> uint w < 2 ^ n"
proof -
  have "bit w n \<longleftrightarrow> bit (uint w) n" using bit_imp_le_length [of w n] by (auto simp: bit_uint_iff)
  then have "bit w n \<longleftrightarrow> odd (uint w div 2 ^ n)" by (simp add: bit_iff_odd [of "uint w"])
  moreover have "uint w div 2 ^ n = (if uint w < 2 ^ n then 0 else 1)"
    using assms by (auto intro!: div_pos_pos_trivial int_div_pos_eq [where r = "uint w - 2 ^ n"])
  ultimately show ?thesis by simp
qed

lemma or_minus_exp:
  assumes "uint (w :: u64) < 2 ^ m"
  shows "w OR - (2 ^ m) = w + - (2 ^ m)"
proof -
  have "take_bit m (uint w) = uint w" using assms by (simp add: take_bit_int_eq_self)
  then have "w = take_bit m w" by (simp add: word_uint_eq_iff unsigned_take_bit_eq)
  then have "w AND NOT (mask m) = 0" by (metis take_bit_eq_mask and.assoc and.right_idem bit.conj_cancel_right and_zero_eq)
  then have "w AND - (2 ^ m) = 0" by (simp add: not_eq_complement mask_eq_exp_minus_1)
  then show ?thesis by (rule disjunctive_add_eq_or [symmetric])
qed

lemma signExtend_sint:
  assumes "1 \<le> l" "l \<le> 63" "uint raw < 2 ^ unat l"
  shows "sint (signExtend raw l) =
     (if uint raw < 2 ^ (unat l - 1) then uint raw else uint raw - 2 ^ unat l)"
proof -
  define n where "n = unat l - 1"
  have l: "unat l = Suc n" "n < 63" "l \<noteq> 0" "\<not> 64 \<le> l"
    using assms(1,2) by (auto simp: n_def word_le_nat_alt)
  have r: "0 \<le> uint raw" "uint raw < 2 * 2 ^ n" using assms(3) l by simp_all
  have b: "bit raw n \<longleftrightarrow> \<not> uint raw < 2 ^ n" by (rule bit_top_iff [OF r(2)])
  have p: "(2 :: int) ^ n \<le> 2 ^ 62" using l(2) by (intro power_increasing) auto
  show ?thesis
  proof (cases "bit raw n")
    case True
    have "signExtend raw l = raw OR - (2 ^ Suc n)"
      using l True by (simp add: signExtend_def Let_def and_exp_eq_0_iff_not_bit not_eq_complement)
    also have "\<dots> = raw + - (2 ^ Suc n)" using r(2) by (intro or_minus_exp) simp
    also have "\<dots> = word_of_int (uint raw - 2 ^ Suc n)" by simp
    finally have "sint (signExtend raw l) = signed_take_bit 63 (uint raw - 2 ^ Suc n)"
      by (simp only: signed_of_int) simp
    also have "\<dots> = uint raw - 2 ^ Suc n" using b True r p by (intro signed_take_bit_int_eq_self) auto
    finally show ?thesis using True b l by simp
  next
    case False
    then have "signExtend raw l = word_of_int (uint raw)"
      using l by (simp add: signExtend_def Let_def and_exp_eq_0_iff_not_bit)
    then have "sint (signExtend raw l) = signed_take_bit 63 (uint raw)"
      by (simp only: signed_of_int) simp
    also have "\<dots> = uint raw"
      using b False r p by (intro signed_take_bit_int_eq_self order_trans [OF _ r(1)]) auto
    finally show ?thesis using False b l by simp
  qed
qed

text \<open>Sign extension interprets a field of 1 to 63 bits as a two's complement number.\<close>

theorem signExtend_value:
  assumes "1 \<le> l" "l \<le> 63" "uint raw < 2 ^ unat l"
  shows "sint (signExtend raw l) =
     (if uint raw < 2 ^ (unat l - 1) then uint raw else uint raw - 2 ^ unat l)"
  by (rule signExtend_sint [OF assms])

theorem signExtend_value_witness: "sint (signExtend 0xFFFE 16) = -2"
  using signExtend_value [of 16 "0xFFFE"] by simp

text \<open>The temperature signals of the message table: eight bits, factor 1, offset \<open>-40\<close>, range
  \<open>-40 .. 215\<close> (\<open>B2V_ST4_Max_Temp\<close>).\<close>

definition B2V_ST4_Max_Temp :: signal_def where
  "B2V_ST4_Max_Temp = \<lparr>sig_name = ''B2V_ST4_Max_Temp'', startbit_lsb = 0, sig_length = 8,
     factor = Fin 1, offset = Fin (-40), enums = []\<rparr>"

lemma rawToPhys_int:
  assumes "factor sig = Fin 1" "offset sig = Fin (of_int k)" "k < 0" "\<bar>k\<bar> < 2 ^ 52"
    and v: "sint (signExtend raw (ucast (sig_length sig))) = i" "\<bar>i\<bar> < 2 ^ 52"
  shows "rawToPhys sig raw = Fin (of_int (i + k))"
proof -
  have "\<bar>i\<bar> < 2 ^ 53" "\<bar>i + k\<bar> < 2 ^ 53" using assms by auto
  then have "dbl_round (of_int i) = Fin (of_int i)" "dbl_round (of_int (i + k)) = Fin (of_int (i + k))"
    by (simp_all only: dbl_round_int)
  moreover have "rawToPhys sig raw = dbl_add (dbl_mul (dbl_of_int i) (Fin 1)) (Fin (of_int k))"
    using assms(1-3) v(1) by (simp add: rawToPhys_def Let_def)
  ultimately show ?thesis by (simp add: dbl_of_int_def)
qed

text \<open>A temperature whose raw value is below 128 is converted to \<open>raw - 40\<close> degrees, but from 128 up
  the sign extension that every negative offset triggers makes it \<open>raw - 296\<close>: a cell at 88 degrees
  reads as 168 degrees below zero, although the table gives the signal the range \<open>-40 .. 215\<close>.\<close>

theorem temperature_conversion:
  assumes "uint raw < 256"
  shows "rawToPhys B2V_ST4_Max_Temp raw =
     Fin (of_int (if uint raw < 128 then uint raw - 40 else uint raw - 296))"
proof -
  have "sint (signExtend raw 8) = (if uint raw < 128 then uint raw else uint raw - 256)"
    using signExtend_sint [of 8 raw] assms by simp
  then show ?thesis using assms
    by (subst rawToPhys_int [where k = "-40" and i = "if uint raw < 128 then uint raw else uint raw - 256"])
      (auto simp: B2V_ST4_Max_Temp_def intro: order_trans)
qed

theorem temperature_conversion_witness: "rawToPhys B2V_ST4_Max_Temp 128 = Fin (-168)"
  using temperature_conversion [of 128] by simp

end
