(* ===== verification/Bms_Table.thy ===== *)
theory Bms_Table
  imports Bms_Signals
begin

text \<open>
  The message table of the battery protocol (\<open>services/protocol/can/bms/generated/proto_bms_table.cpp\<close>): the
  texts of the enumerated signals, the signals of the fifteen messages with start bit, length, factor and
  offset, and the messages. The columns that the program does not read (unit, limits, receiver, comment) are
  left out, and so are four enumerations that no signal uses. A decimal literal of the source is the nearest
  double.
\<close>

section \<open>Signals\<close>

definition dec :: "int \<Rightarrow> int \<Rightarrow> dbl" where "dec n d = dbl_round (of_int n / of_int d)"

type_synonym enum_texts = "(string \<times> (u32 \<times> string) list) list"

type_synonym signal_row = "string \<times> u16 \<times> u16 \<times> dbl \<times> dbl"

definition enums_of :: "enum_texts \<Rightarrow> string \<Rightarrow> (u32 \<times> string) list" where
  "enums_of t n = (case map_of t n of None \<Rightarrow> [] | Some e \<Rightarrow> e)"

definition sdef :: "enum_texts \<Rightarrow> signal_row \<Rightarrow> signal_def" where
  "sdef t s = (case s of (n, start, len, f, ofs) \<Rightarrow>
     \<lparr>sig_name = n, startbit_lsb = start, sig_length = len, factor = f, offset = ofs, enums = enums_of t n\<rparr>)"

definition kEnums_V2B_CMD :: enum_texts where
  "kEnums_V2B_CMD =
     [(''V2B_CMD_LifeSignal'', [(255, ''Signal Invalid'')]),
      (''V2B_CMD_HV_OnOff'', [(0, ''Reserved''), (1, ''PowerOn''), (2, ''PowerOff''), (3, ''Invalid'')]),
      (''V2B_CMD_Aux1OnOff'', [(0, ''Reserved''), (1, ''PowerOn''), (2, ''PowerOff''), (3, ''Invalid'')]),
      (''V2B_CMD_Aux2OnOff'', [(0, ''Reserved''), (1, ''PowerOn''), (2, ''PowerOff''), (3, ''Invalid'')]),
      (''V2B_CMD_Aux3OnOff'', [(0, ''Reserved''), (1, ''PowerOn''), (2, ''PowerOff''), (3, ''Invalid'')]),
      (''V2B_CMD_MainPosRelayST'', [(0, ''Reserved''), (1, ''Opened''), (2, ''Closed'')]),
      (''V2B_CMD_MainPosRelayFlt'', [(0, ''Normal''), (1, ''Weld''), (2, ''Opened Fault'')]),
      (''V2B_CMD_MainNegRelayST'', [(0, ''Reserved''), (1, ''Opened''), (2, ''Closed'')]),
      (''V2B_CMD_MainNegRelayFlt'', [(0, ''Normal''), (1, ''Weld''), (2, ''Opened Fault'')]),
      (''V2B_CMD_ChrgPosRelayST'', [(0, ''Reserved''), (1, ''Opened''), (2, ''Closed'')]),
      (''V2B_CMD_ChrgPosRelayFlt'', [(0, ''Normal''), (1, ''Weld''), (2, ''Opened Fault'')]),
      (''V2B_CMD_HeatPosRelayST'', [(0, ''Reserved''), (1, ''Opened''), (2, ''Closed'')]),
      (''V2B_CMD_HeatPosRelayFlt'', [(0, ''Normal''), (1, ''Weld''), (2, ''Opened Fault'')]),
      (''V2B_CMD_HeatNegRelayST'', [(0, ''Reserved''), (1, ''Opened''), (2, ''Closed'')]),
      (''V2B_CMD_HeatNegRelayFlt'', [(0, ''Normal''), (1, ''Weld''), (2, ''Opened Fault'')]),
      (''V2B_CMD_Aux1RelayST'', [(0, ''Reserved''), (1, ''Opened''), (2, ''Closed'')]),
      (''V2B_CMD_Aux1RelayFlt'', [(0, ''Normal''), (1, ''Weld''), (2, ''Opened Fault'')]),
      (''V2B_CMD_Aux2RelayST'', [(0, ''Reserved''), (1, ''Opened''), (2, ''Closed'')]),
      (''V2B_CMD_Aux2RelayFlt'', [(0, ''Normal''), (1, ''Weld''), (2, ''Opened Fault'')]),
      (''V2B_CMD_Aux3RelayST'', [(0, ''Reserved''), (1, ''Opened''), (2, ''Closed'')]),
      (''V2B_CMD_Aux3RelayFlt'', [(0, ''Normal''), (1, ''Weld''), (2, ''Opened Fault'')]),
      (''V2B_CMD_Aux4RelayST'', [(0, ''Reserved''), (1, ''Opened''), (2, ''Closed'')]),
      (''V2B_CMD_Aux4RelayFlt'', [(0, ''Normal''), (1, ''Weld''), (2, ''Opened Fault'')])]"

definition kRows_V2B_CMD_1 :: "signal_row list" where
  "kRows_V2B_CMD_1 =
     [(''V2B_CMD_LifeSignal'', 0, 8, Fin 1, Fin 0),
      (''V2B_CMD_HV_OnOff'', 8, 2, Fin 1, Fin 0),
      (''V2B_CMD_Aux1OnOff'', 10, 2, Fin 1, Fin 0),
      (''V2B_CMD_Aux2OnOff'', 12, 2, Fin 1, Fin 0),
      (''V2B_CMD_Aux3OnOff'', 14, 2, Fin 1, Fin 0),
      (''V2B_CMD_VehicleSpeed'', 16, 8, Fin 1, Fin 0),
      (''V2B_CMD_MainPosRelayST'', 24, 2, Fin 1, Fin 0)]"

definition kRows_V2B_CMD_2 :: "signal_row list" where
  "kRows_V2B_CMD_2 =
     [(''V2B_CMD_MainPosRelayFlt'', 26, 2, Fin 1, Fin 0),
      (''V2B_CMD_MainNegRelayST'', 28, 2, Fin 1, Fin 0),
      (''V2B_CMD_MainNegRelayFlt'', 30, 2, Fin 1, Fin 0),
      (''V2B_CMD_ChrgPosRelayST'', 32, 2, Fin 1, Fin 0),
      (''V2B_CMD_ChrgPosRelayFlt'', 34, 2, Fin 1, Fin 0),
      (''V2B_CMD_HeatPosRelayST'', 36, 2, Fin 1, Fin 0),
      (''V2B_CMD_HeatPosRelayFlt'', 38, 2, Fin 1, Fin 0)]"

definition kRows_V2B_CMD_3 :: "signal_row list" where
  "kRows_V2B_CMD_3 =
     [(''V2B_CMD_HeatNegRelayST'', 40, 2, Fin 1, Fin 0),
      (''V2B_CMD_HeatNegRelayFlt'', 42, 2, Fin 1, Fin 0),
      (''V2B_CMD_Aux1RelayST'', 44, 2, Fin 1, Fin 0),
      (''V2B_CMD_Aux1RelayFlt'', 46, 2, Fin 1, Fin 0),
      (''V2B_CMD_Aux2RelayST'', 48, 2, Fin 1, Fin 0),
      (''V2B_CMD_Aux2RelayFlt'', 50, 2, Fin 1, Fin 0),
      (''V2B_CMD_Aux3RelayST'', 52, 2, Fin 1, Fin 0)]"

definition kRows_V2B_CMD_4 :: "signal_row list" where
  "kRows_V2B_CMD_4 =
     [(''V2B_CMD_Aux3RelayFlt'', 54, 2, Fin 1, Fin 0),
      (''V2B_CMD_Aux4RelayST'', 56, 2, Fin 1, Fin 0),
      (''V2B_CMD_Aux4RelayFlt'', 58, 2, Fin 1, Fin 0),
      (''V2B_CMD_Reserved1'', 60, 2, Fin 1, Fin 0),
      (''V2B_CMD_Reserved2'', 62, 2, Fin 1, Fin 0)]"

definition kRows_V2B_CMD :: "signal_row list" where
  "kRows_V2B_CMD =
     kRows_V2B_CMD_1 @ kRows_V2B_CMD_2 @ kRows_V2B_CMD_3 @ kRows_V2B_CMD_4"

lemmas kRows_V2B_CMD_rows = kRows_V2B_CMD_def kRows_V2B_CMD_1_def kRows_V2B_CMD_2_def kRows_V2B_CMD_3_def
  kRows_V2B_CMD_4_def

definition kSignals_V2B_CMD :: "signal_def list" where
  "kSignals_V2B_CMD = map (sdef kEnums_V2B_CMD) kRows_V2B_CMD"

definition kEnums_B2V_Fult1_32960 :: enum_texts where
  "kEnums_B2V_Fult1_32960 =
     [(''B2V_Fult1_DelTemp'', [(0, ''Normal''), (1, ''Level 1-Light fault''), (3,
        ''Level3-Most severe fault'')]),
      (''B2V_Fult1_OverTemp'', [(0, ''Normal''), (1, ''Level 1-Light fault''), (3,
        ''Level3-Most severe fault'')]),
      (''B2V_Fult1_PackOverHVolt'', [(0, ''Normal''), (1, ''Level 1-Light fault''), (3,
        ''Level3-Most severe fault'')]),
      (''B2V_Fult1_PackLowHVolt'', [(0, ''Normal''), (1, ''Level 1-Light fault''), (3,
        ''Level3-Most severe fault'')]),
      (''B2V_Fult1_LowSOC'', [(0, ''Normal''), (1, ''Level 1-Light fault''), (3,
        ''Level3-Most severe fault'')]),
      (''B2V_Fult1_OverUcell'', [(0, ''Normal''), (1, ''Level 1-Light fault''), (3,
        ''Level3-Most severe fault'')]),
      (''B2V_Fult1_LowUcell'', [(0, ''Normal''), (1, ''Level 1-Light fault''), (3,
        ''Level3-Most severe fault'')]),
      (''B2V_Fult1_LowInsRes'', [(0, ''Normal''), (1, ''Level 1-Light fault''), (3,
        ''Level3-Most severe fault'')]),
      (''B2V_Fult1_UcellUniformity'', [(0, ''Normal''), (1, ''Fault'')]),
      (''B2V_Fult1_OverChg'', [(0, ''Normal''), (1, ''Fault'')]),
      (''B2V_Fult1_OverSOC'', [(0, ''Normal''), (1, ''Fault'')]),
      (''B2V_Fult1_SOCChangeFast'', [(0, ''Normal''), (1, ''Fault'')]),
      (''B2V_Fult1_BatSysNotMatch'', [(0, ''Normal''), (1, ''Fault'')]),
      (''B2V_Fult1_HVILFault'', [(0, ''Normal''), (1, ''Fault'')])]"

definition kRows_B2V_Fult1_32960_1 :: "signal_row list" where
  "kRows_B2V_Fult1_32960_1 =
     [(''Reserved'', 0, 2, Fin 1, Fin 0),
      (''B2V_Fult1_DelTemp'', 2, 2, Fin 1, Fin 0),
      (''B2V_Fult1_OverTemp'', 4, 2, Fin 1, Fin 0),
      (''B2V_Fult1_PackOverHVolt'', 6, 2, Fin 1, Fin 0),
      (''B2V_Fult1_PackLowHVolt'', 8, 2, Fin 1, Fin 0),
      (''B2V_Fult1_LowSOC'', 10, 2, Fin 1, Fin 0),
      (''B2V_Fult1_OverUcell'', 12, 2, Fin 1, Fin 0)]"

definition kRows_B2V_Fult1_32960_2 :: "signal_row list" where
  "kRows_B2V_Fult1_32960_2 =
     [(''B2V_Fult1_LowUcell'', 14, 2, Fin 1, Fin 0),
      (''B2V_Fult1_LowInsRes'', 16, 2, Fin 1, Fin 0),
      (''B2V_Fult1_UcellUniformity'', 18, 2, Fin 1, Fin 0),
      (''B2V_Fult1_OverChg'', 20, 2, Fin 1, Fin 0),
      (''B2V_Fult1_OverSOC'', 22, 2, Fin 1, Fin 0),
      (''B2V_Fult1_SOCChangeFast'', 24, 1, Fin 1, Fin 0),
      (''B2V_Fult1_BatSysNotMatch'', 25, 1, Fin 1, Fin 0)]"

definition kRows_B2V_Fult1_32960_3 :: "signal_row list" where
  "kRows_B2V_Fult1_32960_3 =
     [(''B2V_Fult1_HVILFault'', 26, 1, Fin 1, Fin 0),
      (''B2V_Fult1_FaultNum_32960'', 27, 5, Fin 1, Fin 0),
      (''Reserved'', 32, 32, Fin 1, Fin 0)]"

definition kRows_B2V_Fult1_32960 :: "signal_row list" where
  "kRows_B2V_Fult1_32960 =
     kRows_B2V_Fult1_32960_1 @ kRows_B2V_Fult1_32960_2 @ kRows_B2V_Fult1_32960_3"

lemmas kRows_B2V_Fult1_32960_rows = kRows_B2V_Fult1_32960_def kRows_B2V_Fult1_32960_1_def
  kRows_B2V_Fult1_32960_2_def kRows_B2V_Fult1_32960_3_def

definition kSignals_B2V_Fult1_32960 :: "signal_def list" where
  "kSignals_B2V_Fult1_32960 = map (sdef kEnums_B2V_Fult1_32960) kRows_B2V_Fult1_32960"

definition kEnums_B2V_Fult2_1 :: enum_texts where
  "kEnums_B2V_Fult2_1 =
     [(''B2V_Fult2_CellOverDischrg'', [(0, ''Normal''), (1, ''Fault'')]),
      (''B2V_Fult2_CellLowTemp'', [(0, ''Normal''), (1, ''Fault'')]),
      (''B2V_Fult2_PackFireWarning'', [(0, ''Normal''), (1, ''Fault'')]),
      (''B2V_Fult2_OverDischrgCurr'', [(0, ''Normal''), (1, ''Level 1-Light fault''), (3,
        ''Level3-Most severe fault'')]),
      (''B2V_Fult2_OverChrgCurrInTheDrive'', [(0, ''Normal''), (1, ''Level 1-Light fault''), (3,
        ''Level3-Most severe fault'')]),
      (''B2V_Fult2_CurrSensorErr'', [(0, ''Normal''), (1, ''Fault'')]),
      (''B2V_Fult2_PowerSupplyErr'', [(0, ''Normal''), (1, ''Fault'')]),
      (''B2V_Fult2_TMSErr'', [(0, ''Normal''), (1, ''Fault'')]),
      (''B2V_Fult2_HeatungFilmErr'', [(0, ''Normal''), (1, ''Fault'')]),
      (''B2V_Fult2_PackSelfProtect'', [(0, ''Normal''), (1, ''Fault'')]),
      (''B2V_Fult2_MainLoopPrechrgErr'', [(0, ''Normal''), (1, ''Fault'')]),
      (''B2V_Fult2_AuxLoopPrechrgErr'', [(0, ''Normal''), (1, ''Fault'')]),
      (''B2V_Fult2_ChrgInsLowErr'', [(0, ''Normal''), (1, ''Fault'')]),
      (''B2V_Fult2_ACANLost'', [(0, ''Normal''), (1, ''Fault'')]),
      (''B2V_Fult2_InnerCommunicationErr'', [(0, ''Normal''), (1, ''Fault'')]),
      (''B2V_Fult2_DCDCErr'', [(0, ''Normal''), (1, ''Fault'')]),
      (''B2V_Fult2_BranchBreakErr'', [(0, ''Normal''), (1, ''Fault'')]),
      (''B2V_Fult2_HeatRelayOpenErr'', [(0, ''Normal''), (1, ''Fault'')]),
      (''B2V_Fult2_HeatRelayWeldErr'', [(0, ''Normal''), (1, ''Fault'')]),
      (''B2V_Fult2_MainPosRelayOpenErr'', [(0, ''Normal''), (1, ''Fault'')]),
      (''B2V_Fult2_MainPosRelayWeldErr'', [(0, ''Normal''), (1, ''Fault'')]),
      (''B2V_Fult2_MainNegRelayOpenErr'', [(0, ''Normal''), (1, ''Fault'')]),
      (''B2V_Fult2_MainNegRelayWeldErr'', [(0, ''Normal''), (1, ''Fault'')]),
      (''B2V_Fult2_DCChrgPos1RelayOpenErr'', [(0, ''Normal''), (1, ''Fault'')])]"

definition kEnums_B2V_Fult2_2 :: enum_texts where
  "kEnums_B2V_Fult2_2 =
     [(''B2V_Fult2_DCChrgPos1RelayWeldErr'', [(0, ''Normal''), (1, ''Fault'')]),
      (''B2V_Fult2_DCChrgNeg1RelayOpenErr'', [(0, ''Normal''), (1, ''Fault'')]),
      (''B2V_Fult2_DCChrgNeg1RelayWeldErr'', [(0, ''Normal''), (1, ''Fault'')]),
      (''B2V_Fult2_DCChrgPos2RelayOpenErr'', [(0, ''Normal''), (1, ''Fault'')]),
      (''B2V_Fult2_DCChrgPos2RelayWeldErr'', [(0, ''Normal''), (1, ''Fault'')]),
      (''B2V_Fult2_DCChrgNeg2RelayOpenErr'', [(0, ''Normal''), (1, ''Fault'')]),
      (''B2V_Fult2_DCChrgNeg2RelayWeldErr'', [(0, ''Normal''), (1, ''Fault'')]),
      (''B2V_Fult2_ACChrgPosRelayOpenErr'', [(0, ''Normal''), (1, ''Fault'')]),
      (''B2V_Fult2_ACChrgPosRelayWeldErr'', [(0, ''Normal''), (1, ''Fault'')]),
      (''B2V_Fult2_ACChrgNegRelayOpenErr'', [(0, ''Normal''), (1, ''Fault'')]),
      (''B2V_Fult2_ACChrgNegRelayWeldErr'', [(0, ''Normal''), (1, ''Fault'')]),
      (''B2V_Fult2_PantoChrgPosRelayOpenErr'', [(0, ''Normal''), (1, ''Fault'')]),
      (''B2V_Fult2_PantoChrgPosRelayWeldErr'', [(0, ''Normal''), (1, ''Fault'')]),
      (''B2V_Fult2_PantoChrgNegRelayOpenErr'', [(0, ''Normal''), (1, ''Fault'')]),
      (''B2V_Fult2_PantoChrgNegRelayWeldErr'', [(0, ''Normal''), (1, ''Fault'')]),
      (''B2V_Fult2_ChrgConnectErr'', [(0, ''Normal''), (1, ''Fault'')]),
      (''B2V_Fult2_OverDischrgCurrWhenInChrg'', [(0, ''Normal''), (1, ''Fault'')]),
      (''B2V_Fult2_OverChrgCurrInTheChrg'', [(0, ''Normal''), (1, ''Fault'')]),
      (''B2V_Fult2_ChrgNTCErr'', [(0, ''Normal''), (1, ''Fault'')]),
      (''B2V_Fult2_ChrgNTCTempOver'', [(0, ''Normal''), (1, ''Level 1-Light fault''), (3,
        ''Level3-Most severe fault'')]),
      (''B2V_Fult2_ELockErr'', [(0, ''Normal''), (1, ''Fault'')]),
      (''B2V_Fult2_FireDetectorErr'', [(0, ''Normal''), (1, ''Fault'')]),
      (''B2V_Fult2_ContiChrgCurrOverLoad'', [(0, ''Normal''), (1, ''Level 1-Light fault''), (3,
        ''Level3-Most severe fault'')]),
      (''B2V_Fult2_SOCDifferErr'', [(0, ''Normal''), (1, ''Fault'')]),
      (''B2V_Fult2_ContiDischrgCurrOverLoad'', [(0, ''Normal''), (1, ''Level 1-Light fault''), (3,
        ''Level3-Most severe fault'')])]"

definition kEnums_B2V_Fult2 :: enum_texts where
  "kEnums_B2V_Fult2 = kEnums_B2V_Fult2_1 @ kEnums_B2V_Fult2_2"

lemmas kEnums_B2V_Fult2_texts = kEnums_B2V_Fult2_def kEnums_B2V_Fult2_1_def kEnums_B2V_Fult2_2_def

definition kRows_B2V_Fult2_1 :: "signal_row list" where
  "kRows_B2V_Fult2_1 =
     [(''B2V_Fult2_FaultNum'', 0, 8, Fin 1, Fin 0),
      (''B2V_Fult2_CellOverDischrg'', 8, 1, Fin 1, Fin 0),
      (''B2V_Fult2_CellLowTemp'', 9, 1, Fin 1, Fin 0),
      (''B2V_Fult2_PackFireWarning'', 10, 1, Fin 1, Fin 0),
      (''B2V_Fult2_OverDischrgCurr'', 11, 2, Fin 1, Fin 0),
      (''B2V_Fult2_OverChrgCurrInTheDrive'', 13, 2, Fin 1, Fin 0),
      (''B2V_Fult2_CurrSensorErr'', 15, 1, Fin 1, Fin 0)]"

definition kRows_B2V_Fult2_2 :: "signal_row list" where
  "kRows_B2V_Fult2_2 =
     [(''B2V_Fult2_PowerSupplyErr'', 16, 1, Fin 1, Fin 0),
      (''B2V_Fult2_TMSErr'', 17, 1, Fin 1, Fin 0),
      (''B2V_Fult2_HeatungFilmErr'', 18, 1, Fin 1, Fin 0),
      (''B2V_Fult2_PackSelfProtect'', 19, 1, Fin 1, Fin 0),
      (''B2V_Fult2_MainLoopPrechrgErr'', 20, 1, Fin 1, Fin 0),
      (''B2V_Fult2_AuxLoopPrechrgErr'', 21, 1, Fin 1, Fin 0),
      (''B2V_Fult2_ChrgInsLowErr'', 22, 1, Fin 1, Fin 0)]"

definition kRows_B2V_Fult2_3 :: "signal_row list" where
  "kRows_B2V_Fult2_3 =
     [(''B2V_Fult2_ACANLost'', 23, 1, Fin 1, Fin 0),
      (''B2V_Fult2_InnerCommunicationErr'', 24, 1, Fin 1, Fin 0),
      (''B2V_Fult2_DCDCErr'', 25, 1, Fin 1, Fin 0),
      (''B2V_Fult2_BranchBreakErr'', 26, 1, Fin 1, Fin 0),
      (''B2V_Fult2_HeatRelayOpenErr'', 27, 1, Fin 1, Fin 0),
      (''B2V_Fult2_HeatRelayWeldErr'', 28, 1, Fin 1, Fin 0),
      (''B2V_Fult2_MainPosRelayOpenErr'', 29, 1, Fin 1, Fin 0)]"

definition kRows_B2V_Fult2_4 :: "signal_row list" where
  "kRows_B2V_Fult2_4 =
     [(''B2V_Fult2_MainPosRelayWeldErr'', 30, 1, Fin 1, Fin 0),
      (''B2V_Fult2_MainNegRelayOpenErr'', 31, 1, Fin 1, Fin 0),
      (''B2V_Fult2_MainNegRelayWeldErr'', 32, 1, Fin 1, Fin 0),
      (''B2V_Fult2_DCChrgPos1RelayOpenErr'', 33, 1, Fin 1, Fin 0),
      (''B2V_Fult2_DCChrgPos1RelayWeldErr'', 34, 1, Fin 1, Fin 0),
      (''B2V_Fult2_DCChrgNeg1RelayOpenErr'', 35, 1, Fin 1, Fin 0),
      (''B2V_Fult2_DCChrgNeg1RelayWeldErr'', 36, 1, Fin 1, Fin 0)]"

definition kRows_B2V_Fult2_5 :: "signal_row list" where
  "kRows_B2V_Fult2_5 =
     [(''B2V_Fult2_DCChrgPos2RelayOpenErr'', 37, 1, Fin 1, Fin 0),
      (''B2V_Fult2_DCChrgPos2RelayWeldErr'', 38, 1, Fin 1, Fin 0),
      (''B2V_Fult2_DCChrgNeg2RelayOpenErr'', 39, 1, Fin 1, Fin 0),
      (''B2V_Fult2_DCChrgNeg2RelayWeldErr'', 40, 1, Fin 1, Fin 0),
      (''B2V_Fult2_ACChrgPosRelayOpenErr'', 41, 1, Fin 1, Fin 0),
      (''B2V_Fult2_ACChrgPosRelayWeldErr'', 42, 1, Fin 1, Fin 0),
      (''B2V_Fult2_ACChrgNegRelayOpenErr'', 43, 1, Fin 1, Fin 0)]"

definition kRows_B2V_Fult2_6 :: "signal_row list" where
  "kRows_B2V_Fult2_6 =
     [(''B2V_Fult2_ACChrgNegRelayWeldErr'', 44, 1, Fin 1, Fin 0),
      (''B2V_Fult2_PantoChrgPosRelayOpenErr'', 45, 1, Fin 1, Fin 0),
      (''B2V_Fult2_PantoChrgPosRelayWeldErr'', 46, 1, Fin 1, Fin 0),
      (''B2V_Fult2_PantoChrgNegRelayOpenErr'', 47, 1, Fin 1, Fin 0),
      (''B2V_Fult2_PantoChrgNegRelayWeldErr'', 48, 1, Fin 1, Fin 0),
      (''B2V_Fult2_ChrgConnectErr'', 49, 1, Fin 1, Fin 0),
      (''B2V_Fult2_OverDischrgCurrWhenInChrg'', 50, 1, Fin 1, Fin 0)]"

definition kRows_B2V_Fult2_7 :: "signal_row list" where
  "kRows_B2V_Fult2_7 =
     [(''B2V_Fult2_OverChrgCurrInTheChrg'', 51, 1, Fin 1, Fin 0),
      (''B2V_Fult2_ChrgNTCErr'', 52, 1, Fin 1, Fin 0),
      (''B2V_Fult2_ChrgNTCTempOver'', 53, 2, Fin 1, Fin 0),
      (''B2V_Fult2_ELockErr'', 55, 1, Fin 1, Fin 0),
      (''B2V_Fult2_FireDetectorErr'', 56, 1, Fin 1, Fin 0),
      (''B2V_Fult2_ContiChrgCurrOverLoad'', 57, 2, Fin 1, Fin 0),
      (''B2V_Fult2_SOCDifferErr'', 59, 1, Fin 1, Fin 0)]"

definition kRows_B2V_Fult2_8 :: "signal_row list" where
  "kRows_B2V_Fult2_8 =
     [(''B2V_Fult2_ContiDischrgCurrOverLoad'', 60, 2, Fin 1, Fin 0),
      (''B2V_Fult2_Reserved1'', 62, 1, Fin 1, Fin 0),
      (''B2V_Fult2_Reserved2'', 63, 1, Fin 1, Fin 0)]"

definition kRows_B2V_Fult2 :: "signal_row list" where
  "kRows_B2V_Fult2 =
     kRows_B2V_Fult2_1 @ kRows_B2V_Fult2_2 @ kRows_B2V_Fult2_3 @ kRows_B2V_Fult2_4 @ kRows_B2V_Fult2_5 @
     kRows_B2V_Fult2_6 @ kRows_B2V_Fult2_7 @ kRows_B2V_Fult2_8"

lemmas kRows_B2V_Fult2_rows = kRows_B2V_Fult2_def kRows_B2V_Fult2_1_def kRows_B2V_Fult2_2_def
  kRows_B2V_Fult2_3_def kRows_B2V_Fult2_4_def kRows_B2V_Fult2_5_def kRows_B2V_Fult2_6_def
  kRows_B2V_Fult2_7_def kRows_B2V_Fult2_8_def

definition kSignals_B2V_Fult2 :: "signal_def list" where
  "kSignals_B2V_Fult2 = map (sdef kEnums_B2V_Fult2) kRows_B2V_Fult2"

definition kEnums_B2V_ST1 :: enum_texts where
  "kEnums_B2V_ST1 =
     [(''B2V_ST1_MainPosRelaySt'', [(0, ''Reserved''), (1, ''Open''), (2, ''Closed'')]),
      (''B2V_ST1_MainNegRelaySt'', [(0, ''Reserved''), (1, ''Open''), (2, ''Closed'')]),
      (''B2V_ST1_PrechrgRelaySt'', [(0, ''Reserved''), (1, ''Open''), (2, ''Closed'')]),
      (''B2V_ST1_DCChrgPos1RelaySt'', [(0, ''Reserved''), (1, ''Open''), (2, ''Closed'')]),
      (''B2V_ST1_DCChrgNeg1RelaySt'', [(0, ''Reserved''), (1, ''Open''), (2, ''Closed'')]),
      (''B2V_ST1_DCChrgPos2RelaySt'', [(0, ''Reserved''), (1, ''Open''), (2, ''Closed'')]),
      (''B2V_ST1_DCChrgNeg2RelaySt'', [(0, ''Reserved''), (1, ''Open''), (2, ''Closed'')]),
      (''B2V_ST1_HeatPosRelaySt'', [(0, ''Reserved''), (1, ''Open''), (2, ''Closed'')]),
      (''B2V_ST1_HeatNegRelaySt'', [(0, ''Reserved''), (1, ''Open''), (2, ''Closed'')]),
      (''B2V_ST1_PantoChrgPosRelaySt'', [(0, ''Reserved''), (1, ''Open''), (2, ''Closed'')]),
      (''B2V_ST1_PantoChrgNegRelaySt'', [(0, ''Reserved''), (1, ''Open''), (2, ''Closed'')]),
      (''B2V_ST1_ACChrgPosRelaySt'', [(0, ''Reserved''), (1, ''Open''), (2, ''Closed'')]),
      (''B2V_ST1_ACChrgNegRelaySt'', [(0, ''Reserved''), (1, ''Open''), (2, ''Closed'')]),
      (''B2V_ST1_Aux1RelaySt'', [(0, ''Reserved''), (1, ''Open''), (2, ''Closed'')]),
      (''B2V_ST1_Aux2RelaySt'', [(0, ''Reserved''), (1, ''Open''), (2, ''Closed'')]),
      (''B2V_ST1_Aux3RelaySt'', [(0, ''Reserved''), (1, ''Open''), (2, ''Closed'')]),
      (''B2V_ST1_BMS_HVStatus'', [(0, ''HV open''), (1, ''Precharge or Precheck''), (3, ''Fail to HV on'')]),
      (''B2V_ST1_BMS_BalanceStatus'', [(0, ''No Balancing''), (1, ''Balancing'')]),
      (''B2V_ST1_DCChrgConnectSt'', [(0, ''Not connected''), (1, ''single gun connect''), (2,
        ''double gun connect''), (3, ''Invalid'')]),
      (''B2V_ST1_PantoChrgConnectSt'', [(0, ''Not connected''), (1, ''Connected'')]),
      (''B2V_ST1_ACChrgConnectSt'', [(0, ''Not connected''), (1, ''Connected'')]),
      (''B2V_ST1_ChrgMode'', [(0, ''Notcharging''), (1, ''DC charging''), (3, ''Other charging'')]),
      (''B2V_ST1_ChrgStatus'', [(0, ''not charging''), (1, ''Charging''), (3, ''Charge error'')]),
      (''B2V_ST1_HeatingStatus'', [(0, ''not heat''), (1, ''heating'')]),
      (''B2V_ST1_CoolingStatus'', [(0, ''not cooling''), (1, ''cooling'')])]"

definition kRows_B2V_ST1_1 :: "signal_row list" where
  "kRows_B2V_ST1_1 =
     [(''B2V_ST1_MainPosRelaySt'', 0, 2, Fin 1, Fin 0),
      (''B2V_ST1_MainNegRelaySt'', 2, 2, Fin 1, Fin 0),
      (''B2V_ST1_PrechrgRelaySt'', 4, 2, Fin 1, Fin 0),
      (''B2V_ST1_DCChrgPos1RelaySt'', 6, 2, Fin 1, Fin 0),
      (''B2V_ST1_DCChrgNeg1RelaySt'', 8, 2, Fin 1, Fin 0),
      (''B2V_ST1_DCChrgPos2RelaySt'', 10, 2, Fin 1, Fin 0),
      (''B2V_ST1_DCChrgNeg2RelaySt'', 12, 2, Fin 1, Fin 0)]"

definition kRows_B2V_ST1_2 :: "signal_row list" where
  "kRows_B2V_ST1_2 =
     [(''B2V_ST1_HeatPosRelaySt'', 14, 2, Fin 1, Fin 0),
      (''B2V_ST1_HeatNegRelaySt'', 16, 2, Fin 1, Fin 0),
      (''B2V_ST1_PantoChrgPosRelaySt'', 18, 2, Fin 1, Fin 0),
      (''B2V_ST1_PantoChrgNegRelaySt'', 20, 2, Fin 1, Fin 0),
      (''B2V_ST1_ACChrgPosRelaySt'', 22, 2, Fin 1, Fin 0),
      (''B2V_ST1_ACChrgNegRelaySt'', 24, 2, Fin 1, Fin 0),
      (''B2V_ST1_Aux1RelaySt'', 26, 2, Fin 1, Fin 0)]"

definition kRows_B2V_ST1_3 :: "signal_row list" where
  "kRows_B2V_ST1_3 =
     [(''B2V_ST1_Aux2RelaySt'', 28, 2, Fin 1, Fin 0),
      (''B2V_ST1_Aux3RelaySt'', 30, 2, Fin 1, Fin 0),
      (''B2V_ST1_BMS_HVStatus'', 32, 2, Fin 1, Fin 0),
      (''B2V_ST1_BMS_BalanceStatus'', 34, 1, Fin 1, Fin 0),
      (''B2V_ST1_DCChrgConnectSt'', 35, 2, Fin 1, Fin 0),
      (''B2V_ST1_PantoChrgConnectSt'', 37, 1, Fin 1, Fin 0),
      (''B2V_ST1_ACChrgConnectSt'', 38, 1, Fin 1, Fin 0)]"

definition kRows_B2V_ST1_4 :: "signal_row list" where
  "kRows_B2V_ST1_4 =
     [(''B2V_ST1_ChrgMode'', 39, 2, Fin 1, Fin 0),
      (''B2V_ST1_ChrgStatus'', 41, 2, Fin 1, Fin 0),
      (''B2V_ST1_HeatingStatus'', 43, 1, Fin 1, Fin 0),
      (''B2V_ST1_CoolingStatus'', 44, 2, Fin 1, Fin 0),
      (''B2V_ST1_RechrgCycels'', 46, 18, Fin 1, Fin 0)]"

definition kRows_B2V_ST1 :: "signal_row list" where
  "kRows_B2V_ST1 =
     kRows_B2V_ST1_1 @ kRows_B2V_ST1_2 @ kRows_B2V_ST1_3 @ kRows_B2V_ST1_4"

lemmas kRows_B2V_ST1_rows = kRows_B2V_ST1_def kRows_B2V_ST1_1_def kRows_B2V_ST1_2_def kRows_B2V_ST1_3_def
  kRows_B2V_ST1_4_def

definition kSignals_B2V_ST1 :: "signal_def list" where
  "kSignals_B2V_ST1 = map (sdef kEnums_B2V_ST1) kRows_B2V_ST1"

definition kEnums_B2V_ST2 :: enum_texts where
  "kEnums_B2V_ST2 =
     [(''B2V_ST2_SOC'', [(255, ''Signal Invalid'')]),
      (''B2V_ST2_SOH'', [(255, ''Signal Invalid'')]),
      (''B2V_ST2_PackCurrent'', [(65535, ''Signal Invalid'')]),
      (''B2V_ST2_PackInsideVolt'', [(65535, ''Signal Invalid'')]),
      (''B2V_ST2_FaultCode'', [(255, ''Signal Invalid'')]),
      (''B2V_ST2_FaultLevel'', [(0, ''Normal''), (1, ''Level 1-Light fault''), (3,
        ''Level3-Most severe fault'')]),
      (''B2V_ST2_RqHVPoerOff'', [(0, ''not require power off''), (1, ''require power off'')]),
      (''B2V_ST2_Life'', [(15, ''Signal Invalid'')])]"

definition kRows_B2V_ST2 :: "signal_row list" where
  "kRows_B2V_ST2 =
     [(''B2V_ST2_SOC'', 0, 8, dec 2 5, Fin 0),
      (''B2V_ST2_SOH'', 8, 8, dec 2 5, Fin 0),
      (''B2V_ST2_PackCurrent'', 16, 16, dec 1 10, Fin (-1000)),
      (''B2V_ST2_PackInsideVolt'', 32, 16, dec 1 10, Fin 0),
      (''B2V_ST2_FaultCode'', 48, 8, Fin 1, Fin 0),
      (''B2V_ST2_FaultLevel'', 56, 3, Fin 1, Fin 0),
      (''B2V_ST2_RqHVPoerOff'', 59, 1, Fin 1, Fin 0),
      (''B2V_ST2_Life'', 60, 4, Fin 1, Fin 0)]"

definition kSignals_B2V_ST2 :: "signal_def list" where
  "kSignals_B2V_ST2 = map (sdef kEnums_B2V_ST2) kRows_B2V_ST2"

definition kEnums_B2V_ST3 :: enum_texts where
  "kEnums_B2V_ST3 =
     [(''B2V_ST3_PosInsRes'', [(65535, ''Signal Invalid'')]),
      (''B2V_ST3_NegInsRes'', [(65535, ''Signal Invalid'')]),
      (''B2V_ST3_SysInsRes'', [(65535, ''Signal Invalid'')]),
      (''B2V_ST3_InsDetectorSt'', [(0, ''stop insulation detection'')]),
      (''Reserved'', [(65535, ''Signal Invalid'')])]"

definition kRows_B2V_ST3 :: "signal_row list" where
  "kRows_B2V_ST3 =
     [(''B2V_ST3_PosInsRes'', 0, 16, Fin 1, Fin 0),
      (''B2V_ST3_NegInsRes'', 16, 16, Fin 1, Fin 0),
      (''B2V_ST3_SysInsRes'', 32, 16, Fin 1, Fin 0),
      (''B2V_ST3_InsDetectorSt'', 48, 1, Fin 1, Fin 0),
      (''Reserved'', 49, 15, Fin 1, Fin 0)]"

definition kSignals_B2V_ST3 :: "signal_def list" where
  "kSignals_B2V_ST3 = map (sdef kEnums_B2V_ST3) kRows_B2V_ST3"

definition kEnums_B2V_ST4 :: enum_texts where
  "kEnums_B2V_ST4 =
     [(''B2V_ST4_Max_Temp'', [(254, ''Abnormal''), (255, ''Signal Invalid'')]),
      (''B2V_ST4_Min_Temp'', [(254, ''Abnormal''), (255, ''Signal Invalid'')]),
      (''B2V_ST4_Avg_Temp'', [(254, ''Abnormal''), (255, ''Signal Invalid'')]),
      (''B2V_ST4_MaxTemp_CSCNo'', [(1, ''CSC1''), (2, ''CSC2''), (3, ''CSC3''), (4, ''CSC4''), (5,
        ''CSC5''), (6, ''CSC6''), (7, ''CSC7''), (8, ''CSC8''), (9, ''CSC9''), (10, ''CSC10''), (11,
        ''CSC11''), (12, ''CSC12''), (13, ''CSC13''), (14, ''CSC14''), (15, ''CSC15''), (16, ''CSC16''),
        (17, ''CSC17''), (18, ''CSC18''), (255, ''Signal Invalid'')]),
      (''B2V_ST4_MinTemp_CSCNo'', [(1, ''CSC1''), (2, ''CSC2''), (3, ''CSC3''), (4, ''CSC4''), (5,
        ''CSC5''), (6, ''CSC6''), (7, ''CSC7''), (8, ''CSC8''), (9, ''CSC9''), (10, ''CSC10''), (11,
        ''CSC11''), (12, ''CSC12''), (13, ''CSC13''), (14, ''CSC14''), (15, ''CSC15''), (16, ''CSC16''),
        (17, ''CSC17''), (18, ''CSC18''), (255, ''Signal Invalid'')])]"

definition kRows_B2V_ST4 :: "signal_row list" where
  "kRows_B2V_ST4 =
     [(''B2V_ST4_Max_Temp'', 0, 8, Fin 1, Fin (-40)),
      (''B2V_ST4_Min_Temp'', 8, 8, Fin 1, Fin (-40)),
      (''B2V_ST4_Avg_Temp'', 16, 8, Fin 1, Fin (-40)),
      (''B2V_ST4_MaxTemp_CSCNo'', 24, 8, Fin 1, Fin 0),
      (''B2V_ST4_MaxTemp_Position'', 32, 8, Fin 1, Fin 0),
      (''B2V_ST4_MinTemp_CSCNo'', 40, 8, Fin 1, Fin 0),
      (''B2V_ST4_MinTemp_Position'', 48, 8, Fin 1, Fin 0),
      (''Reserved'', 56, 8, Fin 1, Fin 0)]"

definition kSignals_B2V_ST4 :: "signal_def list" where
  "kSignals_B2V_ST4 = map (sdef kEnums_B2V_ST4) kRows_B2V_ST4"

definition kEnums_B2V_ST5 :: enum_texts where
  "kEnums_B2V_ST5 =
     [(''B2V_ST5_Max_Ucell'', [(65535, ''Signal Invalid'')]),
      (''B2V_ST5_Min_Ucell'', [(65535, ''Signal Invalid'')]),
      (''B2V_ST5_Avg_Ucell'', [(65535, ''Signal Invalid'')]),
      (''Reserved'', [(65535, ''Signal Invalid'')])]"

definition kRows_B2V_ST5 :: "signal_row list" where
  "kRows_B2V_ST5 =
     [(''B2V_ST5_Max_Ucell'', 0, 16, dec 1 1000, Fin 0),
      (''B2V_ST5_Min_Ucell'', 16, 16, dec 1 1000, Fin 0),
      (''B2V_ST5_Avg_Ucell'', 32, 16, dec 1 1000, Fin 0),
      (''Reserved'', 48, 16, Fin 1, Fin 0)]"

definition kSignals_B2V_ST5 :: "signal_def list" where
  "kSignals_B2V_ST5 = map (sdef kEnums_B2V_ST5) kRows_B2V_ST5"

definition kEnums_B2V_ST6 :: enum_texts where
  "kEnums_B2V_ST6 =
     [(''B2V_ST6_MaxUcell_CSCNo'', [(1, ''CSC1''), (2, ''CSC2''), (3, ''CSC3''), (4, ''CSC4''), (5,
        ''CSC5''), (6, ''CSC6''), (7, ''CSC7''), (8, ''CSC8''), (9, ''CSC9''), (10, ''CSC10''), (11,
        ''CSC11''), (12, ''CSC12''), (13, ''CSC13''), (14, ''CSC14''), (15, ''CSC15''), (16, ''CSC16''),
        (17, ''CSC17''), (18, ''CSC18''), (255, ''Signal Invalid'')]),
      (''B2V_ST6_MinUcell_CSCNo'', [(1, ''CSC1''), (2, ''CSC2''), (3, ''CSC3''), (4, ''CSC4''), (5,
        ''CSC5''), (6, ''CSC6''), (7, ''CSC7''), (8, ''CSC8''), (9, ''CSC9''), (10, ''CSC10''), (11,
        ''CSC11''), (12, ''CSC12''), (13, ''CSC13''), (14, ''CSC14''), (15, ''CSC15''), (16, ''CSC16''),
        (17, ''CSC17''), (18, ''CSC18''), (255, ''Signal Invalid'')])]"

definition kRows_B2V_ST6 :: "signal_row list" where
  "kRows_B2V_ST6 =
     [(''B2V_ST6_MaxUcell_CSCNo'', 0, 8, Fin 1, Fin 0),
      (''B2V_ST6_MaxUcell_Position'', 8, 16, Fin 1, Fin 0),
      (''B2V_ST6_MinUcell_CSCNo'', 24, 8, Fin 1, Fin 0),
      (''B2V_ST6_MinUcell_Position'', 32, 16, Fin 1, Fin 0),
      (''Reserved'', 48, 16, Fin 1, Fin 0)]"

definition kSignals_B2V_ST6 :: "signal_def list" where
  "kSignals_B2V_ST6 = map (sdef kEnums_B2V_ST6) kRows_B2V_ST6"

definition kEnums_B2V_ST7 :: enum_texts where
  "kEnums_B2V_ST7 =
     [(''B2V_ST7_Gun1DCPosTemp'', [(255, ''Signal Invalid'')]),
      (''B2V_ST7_Gun1DCNegTemp'', [(255, ''Signal Invalid'')]),
      (''B2V_ST7_Gun2DCPosTemp'', [(255, ''Signal Invalid'')]),
      (''B2V_ST7_Gun2DCNegTemp'', [(255, ''Signal Invalid'')]),
      (''B2V_ST7_GunACPosTemp'', [(255, ''Signal Invalid'')]),
      (''B2V_ST7_GunACNegTemp'', [(255, ''Signal Invalid'')]),
      (''B2V_ST7_Reserved1'', [(255, ''Signal Invalid'')]),
      (''B2V_ST7_Reserved2'', [(255, ''Signal Invalid'')])]"

definition kRows_B2V_ST7 :: "signal_row list" where
  "kRows_B2V_ST7 =
     [(''B2V_ST7_Gun1DCPosTemp'', 0, 8, Fin 1, Fin (-40)),
      (''B2V_ST7_Gun1DCNegTemp'', 8, 8, Fin 1, Fin (-40)),
      (''B2V_ST7_Gun2DCPosTemp'', 16, 8, Fin 1, Fin (-40)),
      (''B2V_ST7_Gun2DCNegTemp'', 24, 8, Fin 1, Fin (-40)),
      (''B2V_ST7_GunACPosTemp'', 32, 8, Fin 1, Fin (-40)),
      (''B2V_ST7_GunACNegTemp'', 40, 8, Fin 1, Fin (-40)),
      (''B2V_ST7_Reserved1'', 48, 8, Fin 1, Fin 0),
      (''B2V_ST7_Reserved2'', 56, 8, Fin 1, Fin 0)]"

definition kSignals_B2V_ST7 :: "signal_def list" where
  "kSignals_B2V_ST7 = map (sdef kEnums_B2V_ST7) kRows_B2V_ST7"

definition kEnums_B2V_ElecEnergy :: enum_texts where
  "kEnums_B2V_ElecEnergy =
     []"

definition kRows_B2V_ElecEnergy :: "signal_row list" where
  "kRows_B2V_ElecEnergy =
     [(''B2V_TotChgEnergy'', 0, 24, Fin 1, Fin 0),
      (''B2V_TotDischgEnergy'', 24, 24, Fin 1, Fin 0),
      (''B2V_SingleChgEnergy'', 48, 16, dec 1 10, Fin 0)]"

definition kSignals_B2V_ElecEnergy :: "signal_def list" where
  "kSignals_B2V_ElecEnergy = map (sdef kEnums_B2V_ElecEnergy) kRows_B2V_ElecEnergy"

definition kEnums_B2V_CurrentLimit :: enum_texts where
  "kEnums_B2V_CurrentLimit =
     []"

definition kRows_B2V_CurrentLimit :: "signal_row list" where
  "kRows_B2V_CurrentLimit =
     [(''B2V_AvailInpulseDischrgCurr'', 0, 16, dec 1 10, Fin 0),
      (''B2V_AvailInpulseChrgCurr'', 16, 16, dec 1 10, Fin 0),
      (''B2V_AvailFollowChrgCurr'', 32, 16, dec 1 10, Fin 0),
      (''B2V_AvailFollowDishrgCurr'', 48, 16, dec 1 10, Fin 0)]"

definition kSignals_B2V_CurrentLimit :: "signal_def list" where
  "kSignals_B2V_CurrentLimit = map (sdef kEnums_B2V_CurrentLimit) kRows_B2V_CurrentLimit"

definition kEnums_B2TM_Info :: enum_texts where
  "kEnums_B2TM_Info =
     [(''B2T_RQ_SetMode_A'', [(0, ''Shutdown Mode''), (1, ''Cooling Mode''), (3, ''Self-Loop Mode'')]),
      (''B2T_RQ_HV_A'', [(0, ''HV On Request''), (1, ''HV Off Request''), (2, ''Invalid''), (3,
        ''Invalid'')]),
      (''B2T_ChgST_A'', [(0, ''Non-Charging mode''), (1, ''Charging mode''), (2, ''Invalid''), (3,
        ''Invalid'')]),
      (''B2T_BMS_HVRelayST_A'', [(0, ''Open''), (1, ''Closed''), (2, ''Invalid''), (3, ''Invalid'')]),
      (''B2T_BMS_HVVolt_A'', [(65535, ''Invalid'')])]"

definition kRows_B2TM_Info_1 :: "signal_row list" where
  "kRows_B2TM_Info_1 =
     [(''B2T_RQ_SetMode_A'', 0, 2, Fin 1, Fin 0),
      (''B2T_RQ_HV_A'', 2, 2, Fin 1, Fin 0),
      (''B2T_ChgST_A'', 4, 2, Fin 1, Fin 0),
      (''B2T_BMS_HVRelayST_A'', 6, 2, Fin 1, Fin 0),
      (''B2T_BMS_HVVolt_A'', 16, 16, Fin 1, Fin 0),
      (''B2T_BMS_R1'', 24, 8, Fin 1, Fin 0),
      (''B2T_SetTemp_A'', 32, 8, Fin 1, Fin (-40))]"

definition kRows_B2TM_Info_2 :: "signal_row list" where
  "kRows_B2TM_Info_2 =
     [(''B2T_BMS_R2'', 40, 8, Fin 1, Fin 0),
      (''B2TM_BMS_ALIV_A'', 48, 8, Fin 1, Fin 0),
      (''B2TM_CRC_A'', 56, 8, Fin 1, Fin 0)]"

definition kRows_B2TM_Info :: "signal_row list" where
  "kRows_B2TM_Info =
     kRows_B2TM_Info_1 @ kRows_B2TM_Info_2"

lemmas kRows_B2TM_Info_rows = kRows_B2TM_Info_def kRows_B2TM_Info_1_def kRows_B2TM_Info_2_def

definition kSignals_B2TM_Info :: "signal_def list" where
  "kSignals_B2TM_Info = map (sdef kEnums_B2TM_Info) kRows_B2TM_Info"

definition kEnums_TM2B_state :: enum_texts where
  "kEnums_TM2B_state =
     [(''T2B_WorkStatus_A'', [(0, ''Shutdown Mode''), (1, ''Cooling Mode''), (3, ''Self-Loop Mode'')]),
      (''T2B_TMS_HVRelayST_A'', [(0, ''Open''), (1, ''Close'')]),
      (''TM2B_OutletTemp_A'', [(255, ''Invalid'')]),
      (''TM2B_InletTemp_A'', [(255, ''Invalid'')]),
      (''TM2B_RQPower_A'', [(65535, ''Invalid'')]),
      (''TM2B_FaultCode_A'', [(0, ''No fault''), (1, ''Bus under voltage,Level 1 Fault''), (2,
        ''Bus over voltage,Level 1 Fault''), (6, ''Abnormal,Level 2 Fault''), (13,
        ''PTC Fault, Level 1 Fault'')]),
      (''TM2B_FaultLevel_A'', [(1, ''Level 1 Fault''), (2, ''Level 2 Fault'')])]"

definition kRows_TM2B_state :: "signal_row list" where
  "kRows_TM2B_state =
     [(''T2B_WorkStatus_A'', 0, 2, Fin 1, Fin 0),
      (''T2B_TMS_HVRelayST_A'', 2, 2, Fin 1, Fin 0),
      (''Reserved'', 4, 4, Fin 1, Fin 0),
      (''TM2B_OutletTemp_A'', 8, 8, Fin 1, Fin (-40)),
      (''TM2B_InletTemp_A'', 16, 8, Fin 1, Fin (-40)),
      (''Reserved'', 32, 16, Fin 1, Fin 0),
      (''TM2B_RQPower_A'', 48, 16, dec 1 10, Fin 0),
      (''TM2B_FaultCode_A'', 56, 6, Fin 1, Fin 0),
      (''TM2B_FaultLevel_A'', 62, 2, Fin 1, Fin 0)]"

definition kSignals_TM2B_state :: "signal_def list" where
  "kSignals_TM2B_state = map (sdef kEnums_TM2B_state) kRows_TM2B_state"

definition kEnums_Fire2B_state :: enum_texts where
  "kEnums_Fire2B_state =
     []"

definition kRows_Fire2B_state_1 :: "signal_row list" where
  "kRows_Fire2B_state_1 =
     [(''Fire_valueNumber'', 0, 8, Fin 1, Fin 0),
      (''Fire_valueAlarmLevel'', 8, 8, Fin 1, Fin 0),
      (''Fire_byStartSts'', 16, 1, Fin 1, Fin 0),
      (''Fire_SnerrrorSts'', 17, 1, Fin 1, Fin 0),
      (''Fire_HwerrrorSts'', 18, 1, Fin 1, Fin 0),
      (''Fire_Reserved'', 19, 5, Fin 1, Fin 0),
      (''Fire_byTempSenor1Err'', 24, 1, Fin 1, Fin 0)]"

definition kRows_Fire2B_state_2 :: "signal_row list" where
  "kRows_Fire2B_state_2 =
     [(''Fire_byTempSenor2Err'', 25, 1, Fin 1, Fin 0),
      (''Fire_byAirSenorErr'', 26, 1, Fin 1, Fin 0),
      (''Fire_bySAMSenorErr'', 27, 1, Fin 1, Fin 0),
      (''Fire_Reserved'', 28, 4, Fin 1, Fin 0),
      (''Fire_Tmp_alarm'', 32, 1, Fin 1, Fin 0),
      (''Fire_Gus_alarm'', 33, 1, Fin 1, Fin 0),
      (''Fire_Fog_alarm'', 34, 1, Fin 1, Fin 0)]"

definition kRows_Fire2B_state_3 :: "signal_row list" where
  "kRows_Fire2B_state_3 =
     [(''Fire_Leak_alarm'', 35, 1, Fin 1, Fin 0),
      (''Fire_Reserved'', 36, 4, Fin 1, Fin 0),
      (''Fire_Max_Tmp'', 40, 8, Fin 1, Fin (-40)),
      (''Fire_Max_Gus'', 48, 8, Fin 10, Fin 0),
      (''Fire_Max_Fog'', 56, 8, Fin 10, Fin 0)]"

definition kRows_Fire2B_state :: "signal_row list" where
  "kRows_Fire2B_state =
     kRows_Fire2B_state_1 @ kRows_Fire2B_state_2 @ kRows_Fire2B_state_3"

lemmas kRows_Fire2B_state_rows = kRows_Fire2B_state_def kRows_Fire2B_state_1_def kRows_Fire2B_state_2_def
  kRows_Fire2B_state_3_def

definition kSignals_Fire2B_state :: "signal_def list" where
  "kSignals_Fire2B_state = map (sdef kEnums_Fire2B_state) kRows_Fire2B_state"

section \<open>Messages\<close>

definition kMessages :: "message_def list" where
  "kMessages =
     [\<lparr>msg_name = ''V2B_CMD'', msg_id = 0x1802F3EF, cycle_ms = 100, signals = kSignals_V2B_CMD\<rparr>,
      \<lparr>msg_name = ''B2V_Fult1_32960'', msg_id = 0x1881EFF3, cycle_ms = 500, signals = kSignals_B2V_Fult1_32960\<rparr>,
      \<lparr>msg_name = ''B2V_Fult2'', msg_id = 0x1882EFF3, cycle_ms = 500, signals = kSignals_B2V_Fult2\<rparr>,
      \<lparr>msg_name = ''B2V_ST1'', msg_id = 0x1883EFF3, cycle_ms = 100, signals = kSignals_B2V_ST1\<rparr>,
      \<lparr>msg_name = ''B2V_ST2'', msg_id = 0x1884EFF3, cycle_ms = 200, signals = kSignals_B2V_ST2\<rparr>,
      \<lparr>msg_name = ''B2V_ST3'', msg_id = 0x1885EFF3, cycle_ms = 500, signals = kSignals_B2V_ST3\<rparr>,
      \<lparr>msg_name = ''B2V_ST4'', msg_id = 0x1886EFF3, cycle_ms = 500, signals = kSignals_B2V_ST4\<rparr>,
      \<lparr>msg_name = ''B2V_ST5'', msg_id = 0x1887EFF3, cycle_ms = 500, signals = kSignals_B2V_ST5\<rparr>,
      \<lparr>msg_name = ''B2V_ST6'', msg_id = 0x1888EFF3, cycle_ms = 500, signals = kSignals_B2V_ST6\<rparr>,
      \<lparr>msg_name = ''B2V_ST7'', msg_id = 0x1889EFF3, cycle_ms = 500, signals = kSignals_B2V_ST7\<rparr>,
      \<lparr>msg_name = ''B2V_ElecEnergy'', msg_id = 0x18C3EFF3, cycle_ms = 1000, signals = kSignals_B2V_ElecEnergy\<rparr>,
      \<lparr>msg_name = ''B2V_CurrentLimit'', msg_id = 0x18C4EFF3, cycle_ms = 200, signals = kSignals_B2V_CurrentLimit\<rparr>,
      \<lparr>msg_name = ''B2TM_Info'', msg_id = 0x18FF45F4, cycle_ms = 500, signals = kSignals_B2TM_Info\<rparr>,
      \<lparr>msg_name = ''TM2B_Info'', msg_id = 0x18FFC13A, cycle_ms = 500, signals = kSignals_TM2B_state\<rparr>,
      \<lparr>msg_name = ''Fire2B_state'', msg_id = 0x18FFF10F, cycle_ms = 1000, signals = kSignals_Fire2B_state\<rparr>]"

definition gen_findMessage :: msg_table where
  "gen_findMessage i = find (\<lambda>m. msg_id m = i) kMessages"

end
