(* ===== verification/Bms_Tx.thy ===== *)
theory Bms_Tx
  imports Bms_Table
begin

text \<open>
  The command frame sent to a battery (\<open>services/protocol/can/bms/bms_tx.cpp\<close>,
  \<open>bms_command_types.h\<close>): the command fields, the binding of the signals of \<open>V2B_CMD\<close> in the message
  table and the assembly of the eight data bytes. The signal pointers of the class are one map from
  signal name to the bound definition. The driver is a parameter of \<open>tickSend\<close>.
\<close>

section \<open>Command fields\<close>

text \<open>The fields that \<open>resetPassiveFields\<close> clears every period.\<close>

record v2b_passive =
  vehicle_speed :: u32
  aux1_onoff :: u32
  aux2_onoff :: u32
  aux3_onoff :: u32
  main_pos_relay_st :: u32
  main_pos_relay_flt :: u32
  main_neg_relay_st :: u32
  main_neg_relay_flt :: u32
  chrg_pos_relay_st :: u32
  chrg_pos_relay_flt :: u32
  heat_pos_relay_st :: u32
  heat_pos_relay_flt :: u32
  heat_neg_relay_st :: u32
  heat_neg_relay_flt :: u32
  aux1_relay_st :: u32
  aux1_relay_flt :: u32
  aux2_relay_st :: u32
  aux2_relay_flt :: u32
  aux3_relay_st :: u32
  aux3_relay_flt :: u32
  aux4_relay_st :: u32
  aux4_relay_flt :: u32
  reserved1 :: u32
  reserved2 :: u32
  prechg_relay_st :: u32
  prechg_relay_flt :: u32
  system_enable :: u32

definition passive_zero :: v2b_passive where
  "passive_zero = \<lparr>vehicle_speed = 0, aux1_onoff = 0, aux2_onoff = 0, aux3_onoff = 0,
     main_pos_relay_st = 0, main_pos_relay_flt = 0, main_neg_relay_st = 0, main_neg_relay_flt = 0,
     chrg_pos_relay_st = 0, chrg_pos_relay_flt = 0, heat_pos_relay_st = 0, heat_pos_relay_flt = 0,
     heat_neg_relay_st = 0, heat_neg_relay_flt = 0, aux1_relay_st = 0, aux1_relay_flt = 0,
     aux2_relay_st = 0, aux2_relay_flt = 0, aux3_relay_st = 0, aux3_relay_flt = 0,
     aux4_relay_st = 0, aux4_relay_flt = 0, reserved1 = 0, reserved2 = 0, prechg_relay_st = 0,
     prechg_relay_flt = 0, system_enable = 0\<rparr>"

record v2b_cmd =
  instance_index :: u32
  cmd_can_index :: int
  life_signal :: u8
  hv_onoff :: u32
  passive_f :: v2b_passive
  source :: string
  request_ts_ms :: u64
  cmd_valid :: bool

definition v2b_init :: v2b_cmd where
  "v2b_init = \<lparr>instance_index = 1, cmd_can_index = 2, life_signal = 0, hv_onoff = 2,
     passive_f = passive_zero, source = ''logic'', request_ts_ms = 0, cmd_valid = True\<rparr>"

section \<open>The transmitter\<close>

record bms_tx =
  tx_can_index :: int
  v2b_cmd_id29 :: u32
  v2b_msg :: "message_def option"
  tx_sigs :: "string \<rightharpoonup> signal_def"
  tx_life :: u8
  tx_hv_onoff :: u32
  u8_overrides :: "(string \<times> u8) list"

definition tx_init_state :: bms_tx where
  "tx_init_state = \<lparr>tx_can_index = 2, v2b_cmd_id29 = 0x1802F3EF, v2b_msg = None,
     tx_sigs = Map.empty, tx_life = 0, tx_hv_onoff = 0, u8_overrides = []\<rparr>"

definition sig_life :: "bms_tx \<Rightarrow> signal_def option" where
  "sig_life t = tx_sigs t ''V2B_CMD_LifeSignal''"

definition setV2bCmdId29 :: "u32 \<Rightarrow> bms_tx \<Rightarrow> bms_tx" where
  "setV2bCmdId29 id29 t =
     t\<lparr>v2b_cmd_id29 := id29, v2b_msg := None, tx_sigs := (tx_sigs t)(''V2B_CMD_LifeSignal'' := None)\<rparr>"

definition v2b_signal_names :: "string list" where
  "v2b_signal_names =
     [''V2B_CMD_LifeSignal'', ''V2B_CMD_HV_OnOff'', ''V2B_CMD_Aux1OnOff'', ''V2B_CMD_Aux2OnOff'',
      ''V2B_CMD_Aux3OnOff'', ''V2B_CMD_VehicleSpeed'', ''V2B_CMD_MainPosRelayST'',
      ''V2B_CMD_MainPosRelayFlt'', ''V2B_CMD_MainNegRelayST'', ''V2B_CMD_MainNegRelayFlt'',
      ''V2B_CMD_ChrgPosRelayST'', ''V2B_CMD_ChrgPosRelayFlt'', ''V2B_CMD_HeatPosRelayST'',
      ''V2B_CMD_HeatPosRelayFlt'', ''V2B_CMD_HeatNegRelayST'', ''V2B_CMD_HeatNegRelayFlt'',
      ''V2B_CMD_Aux1RelayST'', ''V2B_CMD_Aux1RelayFlt'', ''V2B_CMD_Aux2RelayST'',
      ''V2B_CMD_Aux2RelayFlt'', ''V2B_CMD_Aux3RelayST'', ''V2B_CMD_Aux3RelayFlt'',
      ''V2B_CMD_Aux4RelayST'', ''V2B_CMD_Aux4RelayFlt'', ''V2B_CMD_Reserved1'', ''V2B_CMD_Reserved2'']"

definition bindSignals :: "msg_table \<Rightarrow> bms_tx \<Rightarrow> bool \<times> bms_tx" where
  "bindSignals gen t =
     (let bind_id29 = normalizeToProtoId (v2b_cmd_id29 t) in
      case findMessage gen bind_id29 of
        None \<Rightarrow> (False, t\<lparr>v2b_msg := None, tx_sigs := Map.empty\<rparr>)
      | Some m \<Rightarrow>
          let t' = t\<lparr>v2b_msg := Some m,
                    tx_sigs := (\<lambda>n. if n \<in> set v2b_signal_names then findSignal (Some m) n else None)\<rparr>
          in (sig_life t' \<noteq> None, t'))"

definition tx_init :: "msg_table \<Rightarrow> int \<Rightarrow> u32 \<Rightarrow> bms_tx \<Rightarrow> bool \<times> bms_tx" where
  "tx_init gen default_can_index id29 t =
     bindSignals gen (t\<lparr>tx_can_index := default_can_index, v2b_cmd_id29 := id29\<rparr>)"

fun set_override :: "string \<Rightarrow> u8 \<Rightarrow> (string \<times> u8) list \<Rightarrow> (string \<times> u8) list" where
  "set_override n v [] = [(n, v)]"
| "set_override n v ((m, w) # os) = (if m = n then (m, v) # os else (m, w) # set_override n v os)"

definition setOtherU8 :: "string \<Rightarrow> u32 \<Rightarrow> bms_tx \<Rightarrow> bms_tx" where
  "setOtherU8 n v t = t\<lparr>u8_overrides := set_override n (ucast (v AND 0xFF)) (u8_overrides t)\<rparr>"

section \<open>Building a frame\<close>

definition v2b_values :: "v2b_cmd \<Rightarrow> (string \<times> u32) list" where
  "v2b_values cmd = (let p = passive_f cmd in
     [(''V2B_CMD_HV_OnOff'', hv_onoff cmd), (''V2B_CMD_Aux1OnOff'', aux1_onoff p),
      (''V2B_CMD_Aux2OnOff'', aux2_onoff p), (''V2B_CMD_Aux3OnOff'', aux3_onoff p),
      (''V2B_CMD_VehicleSpeed'', vehicle_speed p),
      (''V2B_CMD_MainPosRelayST'', main_pos_relay_st p), (''V2B_CMD_MainPosRelayFlt'', main_pos_relay_flt p),
      (''V2B_CMD_MainNegRelayST'', main_neg_relay_st p), (''V2B_CMD_MainNegRelayFlt'', main_neg_relay_flt p),
      (''V2B_CMD_ChrgPosRelayST'', chrg_pos_relay_st p), (''V2B_CMD_ChrgPosRelayFlt'', chrg_pos_relay_flt p),
      (''V2B_CMD_HeatPosRelayST'', heat_pos_relay_st p), (''V2B_CMD_HeatPosRelayFlt'', heat_pos_relay_flt p),
      (''V2B_CMD_HeatNegRelayST'', heat_neg_relay_st p), (''V2B_CMD_HeatNegRelayFlt'', heat_neg_relay_flt p),
      (''V2B_CMD_Aux1RelayST'', aux1_relay_st p), (''V2B_CMD_Aux1RelayFlt'', aux1_relay_flt p),
      (''V2B_CMD_Aux2RelayST'', aux2_relay_st p), (''V2B_CMD_Aux2RelayFlt'', aux2_relay_flt p),
      (''V2B_CMD_Aux3RelayST'', aux3_relay_st p), (''V2B_CMD_Aux3RelayFlt'', aux3_relay_flt p),
      (''V2B_CMD_Aux4RelayST'', aux4_relay_st p), (''V2B_CMD_Aux4RelayFlt'', aux4_relay_flt p),
      (''V2B_CMD_Reserved1'', reserved1 p), (''V2B_CMD_Reserved2'', reserved2 p)])"

definition pack_signal :: "signal_def \<Rightarrow> u64 \<Rightarrow> bytes \<Rightarrow> bytes" where
  "pack_signal s v data = packBitsLsb data (uint (startbit_lsb s)) (uint (sig_length s)) v"

definition pack_bound :: "bms_tx \<Rightarrow> bytes \<Rightarrow> string \<times> u32 \<Rightarrow> bytes" where
  "pack_bound t data nv =
     (case tx_sigs t (fst nv) of None \<Rightarrow> data | Some s \<Rightarrow> pack_signal s (ucast (snd nv)) data)"

definition pack_override :: "bms_tx \<Rightarrow> bytes \<Rightarrow> string \<times> u8 \<Rightarrow> bytes" where
  "pack_override t data o8 =
     (case findSignal (v2b_msg t) (fst o8) of None \<Rightarrow> data
      | Some s \<Rightarrow> if 8 < sig_length s then data else pack_signal s (ucast (snd o8)) data)"

definition buildFrameForInstance :: "bms_tx \<Rightarrow> v2b_cmd \<Rightarrow> can_frame option" where
  "buildFrameForInstance t cmd =
     (if \<not> cmd_valid cmd then None
      else case v2b_msg t of None \<Rightarrow> None
      | Some _ \<Rightarrow> (case sig_life t of None \<Rightarrow> None
        | Some life \<Rightarrow>
          let data = pack_signal life (ucast (life_signal cmd)) (replicate 8 0);
              data = foldl (pack_bound t) data (v2b_values cmd);
              data = foldl (pack_override t) data (u8_overrides t)
          in Some \<lparr>can_id = CAN_EFF_FLAG OR rewriteRuntimeId (v2b_cmd_id29 t) (instance_index cmd),
                   can_dlc = 8, can_data = data\<rparr>))"

text \<open>The older self-contained sender: the result of \<open>sendCan\<close> is a parameter. The frame handed to
  the driver and the new state are returned.\<close>

definition tickSend ::
    "msg_table \<Rightarrow> (int \<Rightarrow> can_frame \<Rightarrow> bool) \<Rightarrow> bms_tx \<Rightarrow> bool \<times> (int \<times> can_frame) list \<times> bms_tx" where
  "tickSend gen sendCan t0 =
     (let (bound, t) = (if v2b_msg t0 = None \<or> sig_life t0 = None then bindSignals gen t0 else (True, t0)) in
      if \<not> bound then (False, [], t)
      else let cmd = v2b_init\<lparr>cmd_valid := True, instance_index := 1, cmd_can_index := tx_can_index t,
                       life_signal := tx_life t, hv_onoff := tx_hv_onoff t, source := ''legacy_tick''\<rparr>
        in case buildFrameForInstance t cmd of None \<Rightarrow> (False, [], t)
           | Some fr \<Rightarrow>
               if \<not> sendCan (tx_can_index t) fr then (False, [(tx_can_index t, fr)], t)
               else (True, [(tx_can_index t, fr)], t\<lparr>tx_life := tx_life t + 1\<rparr>))"

section \<open>What the frame carries\<close>

definition apart :: "int \<Rightarrow> int \<Rightarrow> signal_def \<Rightarrow> bool" where
  "apart s l sd =
     (let a = uint (startbit_lsb sd); n = uint (sig_length sd) in
      0 < n \<and> a + n \<le> 64 \<and> (s + l \<le> a \<or> a + n \<le> s))"

lemma length_pack_signal [simp]: "length data = 8 \<Longrightarrow> length (pack_signal sd v data) = 8"
  by (simp add: pack_signal_def)

lemma length_pack_bound [simp]: "length data = 8 \<Longrightarrow> length (pack_bound t data nv) = 8"
  by (simp add: pack_bound_def split: option.splits)

lemma length_foldl_pack_bound [simp]:
  "length data = 8 \<Longrightarrow> length (foldl (pack_bound t) data vs) = 8"
  by (induction vs arbitrary: data) simp_all

lemma extract_pack_apart:
  assumes "length data = 8" "0 \<le> s" "0 < l" "s + l \<le> 64" "apart s l sd"
  shows "extractBitsLsb (pack_signal sd v data) s l = extractBitsLsb data s l"
  using assms by (auto simp: pack_signal_def apart_def Let_def bit_extract bit_pack intro!: bit_word_eqI)

lemma extract_packs_apart:
  assumes "0 \<le> s" "0 < l" "s + l \<le> 64" "length data = 8"
    and "\<forall>nv \<in> set vs. \<forall>sd. tx_sigs t (fst nv) = Some sd \<longrightarrow> apart s l sd"
  shows "extractBitsLsb (foldl (pack_bound t) data vs) s l = extractBitsLsb data s l"
  using assms(4,5)
proof (induction vs arbitrary: data)
  case (Cons nv vs)
  have "extractBitsLsb (pack_bound t data nv) s l = extractBitsLsb data s l"
    using Cons.prems assms(1-3) by (auto simp: pack_bound_def extract_pack_apart split: option.splits)
  with Cons show ?case by simp
qed simp

lemma extract_pack_self:
  assumes "length data = 8" "0 < uint (sig_length sd)" "uint (startbit_lsb sd) + uint (sig_length sd) \<le> 64"
  shows "extractBitsLsb (pack_signal sd v data) (uint (startbit_lsb sd)) (uint (sig_length sd)) =
     take_bit (nat (uint (sig_length sd))) v"
proof -
  have "int n < uint x \<longleftrightarrow> n < nat (uint x)" for n and x :: u16 by (simp only: zless_nat_eq_int_zless)
  with assms show ?thesis
    by (auto simp: pack_signal_def bit_extract bit_pack bit_take_bit_iff intro!: bit_word_eqI)
qed

section \<open>The bound transmitter\<close>

text \<open>The transmitter bound to the entry \<open>V2B_CMD\<close> of the generated table, as \<open>bindSignals\<close> leaves it; no
  caller of \<open>setOtherU8\<close> exists.\<close>

definition bound_v2b :: "bms_tx \<Rightarrow> bool" where
  "bound_v2b t \<longleftrightarrow> v2b_msg t = findMessage gen_findMessage 0x1802F3EF \<and>
     (\<forall>n. tx_sigs t n = (if n \<in> set v2b_signal_names then findSignal (v2b_msg t) n else None)) \<and>
     u8_overrides t = [] \<and> normalizeToProtoId (v2b_cmd_id29 t) = 0x1802F3EF"

lemma v2b_entry:
  "findMessage gen_findMessage 0x1802F3EF =
     Some \<lparr>msg_name = ''V2B_CMD'', msg_id = 0x1802F3EF, cycle_ms = 100, signals = kSignals_V2B_CMD\<rparr>"
  by (simp add: findMessage_def gen_findMessage_def kMessages_def kCanId29Mask_def)

lemma normalize_v2b: "normalizeToProtoId 0x1802F3EF = 0x1802F3EF"
  by (simp add: normalizeToProtoId_def Let_def msgCodeFromProtoId_def clean29_def kCanId29Mask_def
      protoIdFromMsgCode_def)

text \<open>\<open>init\<close> on the generated table binds the transmitter.\<close>

lemma tx_init_binds:
  assumes "normalizeToProtoId id29 = 0x1802F3EF" and "u8_overrides t = []"
  shows "bound_v2b (snd (tx_init gen_findMessage can id29 t))"
  using assms by (simp add: bound_v2b_def tx_init_def bindSignals_def v2b_entry Let_def)

definition life_entry :: signal_def where
  "life_entry = sdef kEnums_V2B_CMD (''V2B_CMD_LifeSignal'', 0, 8, Fin 1, Fin 0)"

definition hv_entry :: signal_def where
  "hv_entry = sdef kEnums_V2B_CMD (''V2B_CMD_HV_OnOff'', 8, 2, Fin 1, Fin 0)"

lemma command_signal_fields [simp]:
  "startbit_lsb life_entry = 0" "sig_length life_entry = 8"
  "startbit_lsb hv_entry = 8" "sig_length hv_entry = 2"
  by (simp_all add: life_entry_def hv_entry_def sdef_def)

lemma v2b_sigs:
  assumes "bound_v2b t"
  shows "sig_life t = Some life_entry" "tx_sigs t ''V2B_CMD_HV_OnOff'' = Some hv_entry"
  using assms by (simp_all add: bound_v2b_def sig_life_def v2b_signal_names_def findSignal_def v2b_entry
      kSignals_V2B_CMD_def kRows_V2B_CMD_rows life_entry_def hv_entry_def sdef_def)

lemma v2b_rows_apart:
  "list_all (\<lambda>r. fst r = ''V2B_CMD_LifeSignal'' \<or> fst r = ''V2B_CMD_HV_OnOff'' \<or>
     apart 0 8 (sdef t r) \<and> apart 8 2 (sdef t r)) kRows_V2B_CMD"
  by (simp add: kRows_V2B_CMD_rows apart_def sdef_def)

lemma v2b_other_sigs:
  assumes "bound_v2b t" "tx_sigs t n = Some sd" "n \<noteq> ''V2B_CMD_LifeSignal''" "n \<noteq> ''V2B_CMD_HV_OnOff''"
  shows "apart 0 8 sd \<and> apart 8 2 sd"
proof -
  have "sd \<in> set kSignals_V2B_CMD" "sig_name sd = n"
    using assms(1,2) by (auto simp: bound_v2b_def v2b_entry findSignal_def find_Some_iff split: if_splits)
  then obtain r where "r \<in> set kRows_V2B_CMD" "sd = sdef kEnums_V2B_CMD r" "fst r = n"
    by (auto simp: kSignals_V2B_CMD_def sdef_def)
  then show ?thesis using assms(3,4) v2b_rows_apart [of kEnums_V2B_CMD] by (auto simp: list_all_iff)
qed

lemma msgCode_of_v2b:
  assumes "normalizeToProtoId i = 0x1802F3EF"
  shows "msgCodeFromProtoId i = 1"
proof (rule ccontr)
  assume n: "msgCodeFromProtoId i \<noteq> 1"
  have c: "msgCodeFromProtoId (clean29 i) = msgCodeFromProtoId i" by (simp add: msgCodeFromProtoId_def)
  show False
  proof (cases "msgCodeFromProtoId i = 0")
    case True
    with assms have "clean29 i = 0x1802F3EF"
      by (simp add: normalizeToProtoId_def Let_def c protoIdFromMsgCode_def)
    with True show False by (simp add: msgCodeFromProtoId_def Let_def)
  next
    case False
    with msgCode_known [of i] have "msgCodeFromProtoId i \<in> set known_codes" by simp
    with n assms show False
      by (auto simp: normalizeToProtoId_def Let_def c protoIdFromMsgCode_def known_codes_def)
  qed
qed

lemma pack_bound_values:
  assumes "bound_v2b t" "length data = 8"
  shows "extractBitsLsb (foldl (pack_bound t) data (v2b_values cmd)) 8 2 = take_bit 2 (ucast (hv_onoff cmd))"
    "extractBitsLsb (foldl (pack_bound t) data (v2b_values cmd)) 0 8 = extractBitsLsb data 0 8"
proof -
  obtain rest where v: "v2b_values cmd = (''V2B_CMD_HV_OnOff'', hv_onoff cmd) # rest"
    and r: "\<forall>nv \<in> set rest. fst nv \<noteq> ''V2B_CMD_LifeSignal'' \<and> fst nv \<noteq> ''V2B_CMD_HV_OnOff''"
    by (simp add: v2b_values_def Let_def)
  let ?hv = hv_entry
  have p: "pack_bound t data (''V2B_CMD_HV_OnOff'', hv_onoff cmd) = pack_signal ?hv (ucast (hv_onoff cmd)) data"
    by (simp add: pack_bound_def v2b_sigs(2) [OF assms(1)])
  have rest: "\<forall>nv \<in> set rest. \<forall>sd. tx_sigs t (fst nv) = Some sd \<longrightarrow> apart 0 8 sd \<and> apart 8 2 sd"
    using r v2b_other_sigs [OF assms(1)] by blast
  have hv: "extractBitsLsb (pack_signal ?hv (ucast (hv_onoff cmd)) data) 8 2 = take_bit 2 (ucast (hv_onoff cmd))"
    using extract_pack_self [of data ?hv "ucast (hv_onoff cmd)"] assms(2) by simp
  have life: "extractBitsLsb (pack_signal ?hv (ucast (hv_onoff cmd)) data) 0 8 = extractBitsLsb data 0 8"
    using assms(2) by (intro extract_pack_apart) (simp_all add: apart_def)
  show "extractBitsLsb (foldl (pack_bound t) data (v2b_values cmd)) 8 2 = take_bit 2 (ucast (hv_onoff cmd))"
    using rest assms(2) hv by (simp add: v p extract_packs_apart)
  show "extractBitsLsb (foldl (pack_bound t) data (v2b_values cmd)) 0 8 = extractBitsLsb data 0 8"
    using rest assms(2) life by (simp add: v p extract_packs_apart)
qed

lemma build_frame_bound:
  assumes "bound_v2b t" "cmd_valid cmd" "1 \<le> instance_index cmd" "instance_index cmd \<le> 4"
  shows "\<exists>fr. buildFrameForInstance t cmd = Some fr \<and> can_dlc fr = 8 \<and> length (can_data fr) = 8 \<and>
     can_id fr = CAN_EFF_FLAG OR rewriteRuntimeId (v2b_cmd_id29 t) (instance_index cmd) \<and>
     decodeRuntimeId (can_id fr) = (True, instance_index cmd, 1) \<and>
     extractBitsLsb (can_data fr) 0 8 = ucast (life_signal cmd) \<and>
     extractBitsLsb (can_data fr) 8 2 = take_bit 2 (ucast (hv_onoff cmd))"
proof -
  let ?life = life_entry
  let ?d0 = "pack_signal ?life (ucast (life_signal cmd)) (replicate 8 0)"
  let ?id = "rewriteRuntimeId (v2b_cmd_id29 t) (instance_index cmd)"
  have code: "msgCodeFromProtoId (v2b_cmd_id29 t) = 1"
    using assms(1) by (intro msgCode_of_v2b) (simp add: bound_v2b_def)
  have dec: "decodeRuntimeId ?id = (True, instance_index cmd, 1)"
    using router_roundtrip [of "instance_index cmd" "v2b_cmd_id29 t"] assms(3,4) code by simp
  have "clean29 (CAN_EFF_FLAG OR ?id) = clean29 ?id"
    by (simp add: clean29_def kCanId29Mask_def CAN_EFF_FLAG_def bit.conj_disj_distrib2)
  then have "decodeRuntimeId (CAN_EFF_FLAG OR ?id) = (True, instance_index cmd, 1)"
    using dec by (simp add: decodeRuntimeId_def extractInstanceIndex_def extractMsgCode_def low12_def)
  moreover have "extractBitsLsb ?d0 0 8 = ucast (life_signal cmd)"
  proof -
    have "take_bit 8 (ucast (life_signal cmd) :: u64) = ucast (life_signal cmd)"
      by (rule bit_word_eqI) (auto simp: bit_take_bit_iff bit_simps)
    then show ?thesis using extract_pack_self [of "replicate 8 0" ?life "ucast (life_signal cmd)"]
      by simp
  qed
  ultimately show ?thesis
    using assms(1,2) pack_bound_values [OF assms(1), of ?d0 cmd] v2b_sigs(1) [OF assms(1)]
    by (simp add: buildFrameForInstance_def bound_v2b_def v2b_entry)
qed

section \<open>Properties\<close>

text \<open>Once the transmitter is bound to the generated table, a valid command for battery 1 to 4 always yields an
  extended frame of eight bytes that decodes to that battery and to the message \<open>V2B_CMD\<close>, and whose life
  signal and high-voltage fields are the ones of the command, whatever the other fields hold.\<close>

theorem v2b_frame_carries_command:
  assumes "t = snd (tx_init gen_findMessage can 0x1802F3EF tx_init_state)"
    and "cmd_valid cmd" "1 \<le> instance_index cmd" "instance_index cmd \<le> 4" "hv_onoff cmd < 4"
  shows "\<exists>fr. buildFrameForInstance t cmd = Some fr
     \<and> can_dlc fr = 8 \<and> length (can_data fr) = 8 \<and> can_id fr AND CAN_EFF_FLAG \<noteq> 0
     \<and> decodeRuntimeId (can_id fr) = (True, instance_index cmd, 1)
     \<and> extractBitsLsb (can_data fr) 0 8 = ucast (life_signal cmd)
     \<and> extractBitsLsb (can_data fr) 8 2 = ucast (hv_onoff cmd)"
proof -
  have bound: "bound_v2b t"
    unfolding assms(1) by (rule tx_init_binds) (simp_all add: normalize_v2b tx_init_state_def)
  have "take_bit 2 (ucast (hv_onoff cmd) :: u64) = ucast (hv_onoff cmd)"
  proof -
    have "take_bit 2 (uint (hv_onoff cmd)) = uint (hv_onoff cmd)"
      using assms(5) by (simp add: take_bit_int_eq_self word_less_def)
    then have "take_bit 2 (hv_onoff cmd) = hv_onoff cmd"
      by (simp add: word_uint_eq_iff unsigned_take_bit_eq)
    then have "bit (hv_onoff cmd) n \<Longrightarrow> n < 2" for n by (metis bit_take_bit_iff)
    then show ?thesis by (intro bit_word_eqI) (auto simp: bit_take_bit_iff bit_simps)
  qed
  moreover have "(CAN_EFF_FLAG OR x) AND CAN_EFF_FLAG \<noteq> 0" for x
    by (simp add: CAN_EFF_FLAG_def and.commute [of _ "0x80000000"])
  ultimately show ?thesis using build_frame_bound [OF bound assms(2-4)] by auto
qed

theorem v2b_frame_carries_command_witness:
  "\<exists>fr. buildFrameForInstance (snd (tx_init gen_findMessage 2 0x1802F3EF tx_init_state))
        (v2b_init\<lparr>instance_index := 3, hv_onoff := 1\<rparr>) = Some fr
     \<and> extractBitsLsb (can_data fr) 8 2 = 1"
  using v2b_frame_carries_command [OF refl, of "v2b_init\<lparr>instance_index := 3, hv_onoff := 1\<rparr>" 2]
  by (auto simp: v2b_init_def)

end
