(* ===== verification/Bms_Command_Manager.thy ===== *)
theory Bms_Command_Manager
  imports Bms_Types Bms_Tx
begin

text \<open>
  The battery command manager (\<open>services/control/bms/bms_command_manager.cpp\<close>) and the commands the
  control layer emits (\<open>services/control/control_commands.h\<close>). Every control period it rebuilds the
  desired high-voltage command of the four batteries from the cache, lets the business layer change it,
  clamps it again with the safety conditions and emits one CAN frame per battery and period. The lemmas
  show that a frame with the power-on code only leaves for a battery whose cache satisfies every safety
  condition.
\<close>

section \<open>Commands\<close>

record send_can =
  sc_can_index :: int
  sc_frame :: can_frame
  sc_mirror :: "device_data option"

datatype link_type = RS485 | RS232 | CAN

datatype command =
    SendCan send_can
  | SendSerialRaw link_type int bytes
  | SendPoll link_type int string u32
  | WriteDo int bool

section \<open>State\<close>

datatype cmd_reason = Init | NoData | Offline | RqHvPowerOff | FaultLevelBlock | FireFaultBlock
  | TmsFaultBlock | AllowClose | FallbackPowerOff | RuntimeStale | St2Stale | Fault1Stale | Fault2Stale
  | CurrentLimitStale | NotReady

fun reasonCode :: "cmd_reason \<Rightarrow> int" where
  "reasonCode Init = 0"
| "reasonCode NoData = 1"
| "reasonCode Offline = 2"
| "reasonCode RqHvPowerOff = 3"
| "reasonCode FaultLevelBlock = 4"
| "reasonCode FireFaultBlock = 5"
| "reasonCode TmsFaultBlock = 6"
| "reasonCode AllowClose = 7"
| "reasonCode FallbackPowerOff = 8"
| "reasonCode RuntimeStale = 9"
| "reasonCode St2Stale = 10"
| "reasonCode Fault1Stale = 11"
| "reasonCode Fault2Stale = 12"
| "reasonCode CurrentLimitStale = 13"
| "reasonCode NotReady = 14"

fun reasonText :: "cmd_reason \<Rightarrow> string" where
  "reasonText Init = ''Init''"
| "reasonText NoData = ''NoData''"
| "reasonText Offline = ''Offline''"
| "reasonText RqHvPowerOff = ''RqHvPowerOff''"
| "reasonText FaultLevelBlock = ''FaultLevelBlock''"
| "reasonText FireFaultBlock = ''FireFaultBlock''"
| "reasonText TmsFaultBlock = ''TmsFaultBlock''"
| "reasonText AllowClose = ''AllowClose''"
| "reasonText FallbackPowerOff = ''FallbackPowerOff''"
| "reasonText RuntimeStale = ''RuntimeStale''"
| "reasonText St2Stale = ''St2Stale''"
| "reasonText Fault1Stale = ''Fault1Stale''"
| "reasonText Fault2Stale = ''Fault2Stale''"
| "reasonText CurrentLimitStale = ''CurrentLimitStale''"
| "reasonText NotReady = ''NotReady''"

definition hvText :: "u32 \<Rightarrow> string" where
  "hvText hv = (if hv = 0 then ''Reserved'' else if hv = 1 then ''PowerOn''
     else if hv = 2 then ''PowerOff'' else if hv = 3 then ''Invalid'' else ''Unknown'')"

record cmd_state =
  last_life :: u8
  desired :: v2b_cmd
  last_sent :: v2b_cmd
  last_build_ts_ms :: u64
  last_send_ts_ms :: u64
  has_last_sent :: bool
  reason :: cmd_reason
  last_frame :: can_frame
  has_last_frame :: bool

definition cmd_state_init :: cmd_state where
  "cmd_state_init = \<lparr>last_life = 0, desired = v2b_init, last_sent = v2b_init, last_build_ts_ms = 0,
     last_send_ts_ms = 0, has_last_sent = False, reason = Init, last_frame = can_zero,
     has_last_frame = False\<rparr>"

record cmd_mgr =
  mgr_tx :: bms_tx
  mgr_id29 :: u32
  default_can_index :: int
  mgr_states :: "u32 \<rightharpoonup> cmd_state"

definition mgr_new :: cmd_mgr where
  "mgr_new = \<lparr>mgr_tx = tx_init_state, mgr_id29 = 0x1802F3EF, default_can_index = 2,
     mgr_states = Map.empty\<rparr>"

text \<open>\<open>tx_.init\<close> is called with its default identifier argument.\<close>

definition mgr_init :: "msg_table \<Rightarrow> int \<Rightarrow> u32 \<Rightarrow> cmd_mgr \<Rightarrow> bool \<times> cmd_mgr" where
  "mgr_init gen can_index id29 m =
     (let t = setV2bCmdId29 id29 (mgr_tx m);
          (ok, t') = tx_init gen can_index 0x1802F3EF t
      in (ok, m\<lparr>default_can_index := can_index, mgr_id29 := id29, mgr_tx := t'\<rparr>))"

section \<open>Safety conditions\<close>

definition safetyBlockReason :: "bms_cache_item \<Rightarrow> cmd_reason" where
  "safetyBlockReason x =
     (let h = x_health x; g = x_groups x in
      if \<not> seen_once h then NoData
      else if \<not> bms_online h then Offline
      else if runtime_fault_stale h then RuntimeStale
      else if last_ms (g_st2 g) = 0 \<or> \<not> grp_online (g_st2 g) then St2Stale
      else if last_ms (g_fault1 g) = 0 \<or> \<not> grp_online (g_fault1 g) then Fault1Stale
      else if last_ms (g_fault2 g) = 0 \<or> \<not> grp_online (g_fault2 g) then Fault2Stale
      else if last_ms (g_current_limit g) = 0 \<or> \<not> grp_online (g_current_limit g) then CurrentLimitStale
      else if rq_hv_power_off (x_st2 x) then RqHvPowerOff
      else if 2 \<le> fire_fault_level (x_fire x) then FireFaultBlock
      else if 2 \<le> fault_level (x_st2 x) then FaultLevelBlock
      else if 2 \<le> tms_fault_level (x_tms x) then TmsFaultBlock
      else if \<not> hv_allow_close (x_ctl x) then FallbackPowerOff
      else AllowClose)"

section \<open>Operations\<close>

definition ensure_st :: "u32 \<Rightarrow> cmd_mgr \<Rightarrow> cmd_state" where
  "ensure_st idx m =
     (let st = (case mgr_states m idx of None \<Rightarrow> cmd_state_init | Some st \<Rightarrow> st) in
      if instance_index (desired st) = 0 then
        let d = (desired st)\<lparr>instance_index := idx, cmd_can_index := default_can_index m, hv_onoff := 2,
                  passive_f := (passive_f (desired st))\<lparr>system_enable := 0, reserved1 := 0, reserved2 := 0\<rparr>,
                  source := ''init''\<rparr>
        in st\<lparr>desired := d, last_sent := d, reason := Init\<rparr>
      else st)"

definition put_st :: "u32 \<Rightarrow> cmd_state \<Rightarrow> cmd_mgr \<Rightarrow> cmd_mgr" where
  "put_st idx st m = m\<lparr>mgr_states := (mgr_states m)(idx \<mapsto> st)\<rparr>"

text \<open>\<open>mutableDesired\<close> returns a pointer; its client assigns \<open>hv_onoff\<close> through it.\<close>

definition mutableDesired :: "u32 \<Rightarrow> string \<Rightarrow> cmd_mgr \<Rightarrow> cmd_mgr" where
  "mutableDesired idx src m =
     (let st = ensure_st idx m;
          d = (desired st)\<lparr>instance_index := idx, cmd_can_index := default_can_index m, cmd_valid := True\<rparr>;
          d = (if src \<noteq> [] then d\<lparr>source := src\<rparr> else d)
      in put_st idx (st\<lparr>desired := d\<rparr>) m)"

definition desired_of :: "u32 \<Rightarrow> cmd_mgr \<Rightarrow> v2b_cmd option" where
  "desired_of idx m = map_option desired (mgr_states m idx)"

definition makeName :: "u32 \<Rightarrow> string" where
  "makeName idx = ''BMS_'' @ to_string (unat idx)"

definition rebuild_st :: "bms_cache \<Rightarrow> u64 \<Rightarrow> cmd_mgr \<Rightarrow> u32 \<Rightarrow> cmd_state" where
  "rebuild_st cache ts m idx =
     (let st = ensure_st idx m;
          d = (desired st)\<lparr>instance_index := idx, cmd_can_index := default_can_index m,
                request_ts_ms := ts, source := ''logic'', cmd_valid := True, passive_f := passive_zero\<rparr>
      in case cache (makeName idx) of
           None \<Rightarrow> st\<lparr>desired := d\<lparr>hv_onoff := 2\<rparr>, reason := NoData, last_build_ts_ms := ts\<rparr>
         | Some x \<Rightarrow>
             let r = safetyBlockReason x in
             st\<lparr>desired := d\<lparr>hv_onoff := (if r = AllowClose then 1 else 2)\<rparr>, reason := r,
                last_build_ts_ms := ts\<rparr>)"

definition instances :: "u32 list" where "instances = [1, 2, 3, 4]"

definition rebuildDesiredFromCache :: "bms_cache \<Rightarrow> u64 \<Rightarrow> cmd_mgr \<Rightarrow> cmd_mgr" where
  "rebuildDesiredFromCache cache ts m = foldl (\<lambda>m idx. put_st idx (rebuild_st cache ts m idx) m) m instances"

definition enforce_st :: "bms_cache \<Rightarrow> u64 \<Rightarrow> cmd_mgr \<Rightarrow> u32 \<Rightarrow> cmd_state" where
  "enforce_st cache ts m idx =
     (let st = ensure_st idx m;
          d = (desired st)\<lparr>instance_index := idx, cmd_can_index := default_can_index m,
                request_ts_ms := ts, cmd_valid := True\<rparr>
      in case cache (makeName idx) of
           None \<Rightarrow> st\<lparr>desired := d\<lparr>hv_onoff := 2\<rparr>, reason := NoData, last_build_ts_ms := ts\<rparr>
         | Some x \<Rightarrow>
             let r = safetyBlockReason x;
                 st' = (if r \<noteq> AllowClose then st\<lparr>desired := d\<lparr>hv_onoff := 2\<rparr>, reason := r\<rparr>
                        else if hv_onoff d = 1 then st\<lparr>desired := d, reason := AllowClose\<rparr>
                        else st\<lparr>desired := d, reason := FallbackPowerOff\<rparr>)
             in st'\<lparr>last_build_ts_ms := ts\<rparr>)"

definition enforceSafetyFromCache :: "bms_cache \<Rightarrow> u64 \<Rightarrow> cmd_mgr \<Rightarrow> cmd_mgr" where
  "enforceSafetyFromCache cache ts m = foldl (\<lambda>m idx. put_st idx (enforce_st cache ts m idx) m) m instances"

definition emit_one :: "u64 \<Rightarrow> u32 \<Rightarrow> cmd_mgr \<times> command list \<Rightarrow> u32 \<Rightarrow> cmd_mgr \<times> command list" where
  "emit_one ts period mo idx =
     (case mo of (m, out) \<Rightarrow>
      let st = ensure_st idx m in
      if last_send_ts_ms st \<noteq> 0 \<and> ts - last_send_ts_ms st < ucast period then (put_st idx st m, out)
      else let c = (desired st)\<lparr>life_signal := last_life st, request_ts_ms := ts\<rparr> in
        case buildFrameForInstance (mgr_tx m) c of
          None \<Rightarrow> (put_st idx st m, out)
        | Some fr \<Rightarrow>
            (put_st idx (st\<lparr>last_sent := c, has_last_sent := True, last_send_ts_ms := ts,
                           last_frame := fr, has_last_frame := True, last_life := last_life st + 1\<rparr>) m,
             out @ [SendCan \<lparr>sc_can_index = cmd_can_index c, sc_frame = fr, sc_mirror = None\<rparr>]))"

definition emitPeriodicCommands :: "u64 \<Rightarrow> u32 \<Rightarrow> cmd_mgr \<Rightarrow> command list \<Rightarrow> cmd_mgr \<times> command list" where
  "emitPeriodicCommands ts period m out = foldl (emit_one ts period) (m, out) instances"

section \<open>The view\<close>

record cmd_view =
  v_instance_index :: u32
  v_can_index :: int
  v_hv_onoff :: int
  v_system_enable :: int
  v_life_signal :: int
  v_last_build_ts_ms :: u64
  v_last_send_ts_ms :: u64
  v_has_last_sent :: bool
  v_tx_alive :: bool
  v_valid :: bool
  v_source :: string
  v_reason_code :: int
  v_reason_text :: string
  v_hv_text :: string
  v_tx_state_text :: string
  v_dlc :: int
  v_last_send_age_ms :: dbl
  v_can_id_hex :: string
  v_frame_hex :: string

definition command_view :: "u64 \<Rightarrow> u32 \<Rightarrow> u32 \<Rightarrow> cmd_state \<Rightarrow> cmd_view" where
  "command_view now alive_timeout idx st =
     (let sent = last_send_ts_ms st \<noteq> 0 \<and> last_send_ts_ms st \<le> now;
          age = now - last_send_ts_ms st;
          alive = (sent \<and> age \<le> ucast alive_timeout);
          d = desired st in
      \<lparr>v_instance_index = idx, v_can_index = cmd_can_index d, v_hv_onoff = sint (hv_onoff d),
       v_system_enable = sint (system_enable (passive_f d)), v_life_signal = uint (last_life st),
       v_last_build_ts_ms = last_build_ts_ms st, v_last_send_ts_ms = last_send_ts_ms st,
       v_has_last_sent = has_last_sent st, v_tx_alive = alive, v_valid = cmd_valid d,
       v_source = source d, v_reason_code = reasonCode (reason st), v_reason_text = reasonText (reason st),
       v_hv_text = hvText (hv_onoff d),
       v_tx_state_text = (if \<not> has_last_sent st then ''Idle'' else if alive then ''Active'' else ''Stale''),
       v_dlc = (if has_last_frame st then uint (can_dlc (last_frame st)) else 0),
       v_last_send_age_ms = (if sent then dbl_of_u64 age else Fin 0),
       v_can_id_hex = (if has_last_frame st then hex0x8 (can_id (last_frame st) AND CAN_EFF_MASK) else []),
       v_frame_hex = (if has_last_frame st
          then bytesToHex (can_data (last_frame st)) (unat (can_dlc (last_frame st))) else [])\<rparr>)"

definition buildCommandView :: "u64 \<Rightarrow> u32 \<Rightarrow> cmd_mgr \<Rightarrow> u32 \<rightharpoonup> cmd_view" where
  "buildCommandView now alive_timeout m =
     (\<lambda>idx. map_option (command_view now alive_timeout idx) (mgr_states m idx))"

section \<open>Elementary facts\<close>

lemma put_st_simps [simp]:
  "mgr_states (put_st idx st m) j = (if j = idx then Some st else mgr_states m j)"
  "mgr_tx (put_st idx st m) = mgr_tx m" "default_can_index (put_st idx st m) = default_can_index m"
  "j \<noteq> idx \<Longrightarrow> ensure_st j (put_st idx st m) = ensure_st j m"
  by (simp_all add: put_st_def ensure_st_def Let_def)

lemma rebuild_st_other [simp]: "j \<noteq> idx \<Longrightarrow> rebuild_st cache ts (put_st idx st m) j = rebuild_st cache ts m j"
  by (simp add: rebuild_st_def)

lemma enforce_st_other [simp]: "j \<noteq> idx \<Longrightarrow> enforce_st cache ts (put_st idx st m) j = enforce_st cache ts m j"
  by (simp add: enforce_st_def)

lemma rebuild_lookup:
  "mgr_states (rebuildDesiredFromCache cache ts m) idx =
     (if idx \<in> set instances then Some (rebuild_st cache ts m idx) else mgr_states m idx)"
  by (simp add: rebuildDesiredFromCache_def instances_def)

lemma enforce_lookup:
  "mgr_states (enforceSafetyFromCache cache ts m) idx =
     (if idx \<in> set instances then Some (enforce_st cache ts m idx) else mgr_states m idx)"
  by (simp add: enforceSafetyFromCache_def instances_def)

lemma mgr_frame [simp]:
  "mgr_tx (rebuildDesiredFromCache cache ts m) = mgr_tx m"
  "default_can_index (rebuildDesiredFromCache cache ts m) = default_can_index m"
  "mgr_tx (enforceSafetyFromCache cache ts m) = mgr_tx m"
  "default_can_index (enforceSafetyFromCache cache ts m) = default_can_index m"
  by (simp_all add: rebuildDesiredFromCache_def enforceSafetyFromCache_def instances_def)

text \<open>The conditions under which a battery may be switched to high voltage.\<close>

definition group_fresh :: "bms_group \<Rightarrow> bool" where
  "group_fresh g = (last_ms g \<noteq> 0 \<and> grp_online g)"

definition safe_to_close :: "bms_cache_item \<Rightarrow> bool" where
  "safe_to_close x \<longleftrightarrow>
     seen_once (x_health x) \<and> bms_online (x_health x) \<and> \<not> runtime_fault_stale (x_health x) \<and>
     group_fresh (g_st2 (x_groups x)) \<and> group_fresh (g_fault1 (x_groups x)) \<and>
     group_fresh (g_fault2 (x_groups x)) \<and> group_fresh (g_current_limit (x_groups x)) \<and>
     \<not> rq_hv_power_off (x_st2 x) \<and> fault_level (x_st2 x) < 2 \<and> fire_fault_level (x_fire x) < 2 \<and>
     tms_fault_level (x_tms x) < 2 \<and> hv_allow_close (x_ctl x)"

lemma safety_allow_iff: "safetyBlockReason x = AllowClose \<longleftrightarrow> safe_to_close x"
  by (auto simp: safetyBlockReason_def safe_to_close_def group_fresh_def Let_def)

definition battery_safe :: "bms_cache \<Rightarrow> u32 \<Rightarrow> bool" where
  "battery_safe cache idx = (case cache (makeName idx) of None \<Rightarrow> False | Some x \<Rightarrow> safe_to_close x)"

lemma enforce_hv:
  "hv_onoff (desired (enforce_st cache ts m idx)) =
     (if battery_safe cache idx then hv_onoff (desired (ensure_st idx m)) else 2)"
  by (simp add: enforce_st_def battery_safe_def safety_allow_iff Let_def split: option.splits)

lemma enforce_fields:
  "instance_index (desired (enforce_st cache ts m idx)) = idx"
  "cmd_valid (desired (enforce_st cache ts m idx))"
  by (simp_all add: enforce_st_def Let_def split: option.splits)

lemma rebuild_hv:
  "hv_onoff (desired (rebuild_st cache ts m idx)) = (if battery_safe cache idx then 1 else 2)"
  by (simp add: rebuild_st_def battery_safe_def safety_allow_iff Let_def split: option.splits)

lemma ensure_st_Some:
  "mgr_states m idx = Some st \<Longrightarrow> instance_index (desired st) \<noteq> 0 \<Longrightarrow> ensure_st idx m = st"
  by (simp add: ensure_st_def Let_def)

section \<open>Emission\<close>

definition due :: "u64 \<Rightarrow> u32 \<Rightarrow> cmd_state \<Rightarrow> bool" where
  "due ts period st = (last_send_ts_ms st = 0 \<or> \<not> ts - last_send_ts_ms st < ucast period)"

definition cmd_to_send :: "u64 \<Rightarrow> cmd_mgr \<Rightarrow> u32 \<Rightarrow> v2b_cmd" where
  "cmd_to_send ts m idx =
     (desired (ensure_st idx m))\<lparr>life_signal := last_life (ensure_st idx m), request_ts_ms := ts\<rparr>"

definition sends :: "u64 \<Rightarrow> u32 \<Rightarrow> cmd_mgr \<Rightarrow> u32 \<Rightarrow> command list" where
  "sends ts period m idx =
     (if due ts period (ensure_st idx m) then
        (case buildFrameForInstance (mgr_tx m) (cmd_to_send ts m idx) of None \<Rightarrow> []
         | Some fr \<Rightarrow> [SendCan \<lparr>sc_can_index = cmd_can_index (desired (ensure_st idx m)),
                              sc_frame = fr, sc_mirror = None\<rparr>])
      else [])"

definition sent_st :: "u64 \<Rightarrow> u32 \<Rightarrow> cmd_mgr \<Rightarrow> u32 \<Rightarrow> cmd_state" where
  "sent_st ts period m idx =
     (let st = ensure_st idx m in
      if due ts period st then
        (case buildFrameForInstance (mgr_tx m) (cmd_to_send ts m idx) of None \<Rightarrow> st
         | Some fr \<Rightarrow> st\<lparr>last_sent := cmd_to_send ts m idx, has_last_sent := True, last_send_ts_ms := ts,
              last_frame := fr, has_last_frame := True, last_life := last_life st + 1\<rparr>)
      else st)"

lemma emit_one_eq:
  "emit_one ts period (m, out) idx = (put_st idx (sent_st ts period m idx) m, out @ sends ts period m idx)"
  by (auto simp: emit_one_def sent_st_def sends_def due_def cmd_to_send_def Let_def split: option.splits)

lemma emission_other [simp]:
  "j \<noteq> idx \<Longrightarrow> sends ts period (put_st idx st m) j = sends ts period m j"
  "j \<noteq> idx \<Longrightarrow> sent_st ts period (put_st idx st m) j = sent_st ts period m j"
  by (simp_all add: sends_def sent_st_def cmd_to_send_def Let_def cong: option.case_cong)

lemma emit_commands:
  "snd (emitPeriodicCommands ts period m out) = out @ concat (map (sends ts period m) instances)"
  by (simp add: emitPeriodicCommands_def instances_def emit_one_eq)

lemma emit_states:
  "mgr_states (fst (emitPeriodicCommands ts period m out)) idx =
     (if idx \<in> set instances then Some (sent_st ts period m idx) else mgr_states m idx)"
  by (simp add: emitPeriodicCommands_def instances_def emit_one_eq)

lemma emit_tx [simp]:
  "mgr_tx (fst (emitPeriodicCommands ts period m out)) = mgr_tx m"
  by (simp add: emitPeriodicCommands_def instances_def emit_one_eq)

lemma ucast_eq_0_u64 [simp]: "ucast (w :: u32) = (0 :: u64) \<longleftrightarrow> w = 0"
proof
  assume *: "ucast w = (0 :: u64)"
  have "bit w n \<longleftrightarrow> bit (ucast w :: u64) n" for n
    using bit_imp_le_length [of w n] by (auto simp: bit_simps)
  with * show "w = 0" by (intro bit_word_eqI) simp
qed simp

lemma instances_valid: "idx \<in> set instances \<Longrightarrow> 1 \<le> idx \<and> idx \<le> 4 \<and> idx \<noteq> 0"
  by (auto simp: instances_def)

text \<open>What leaves after the safety clamp.\<close>

lemma ensure_after_enforce:
  assumes "idx \<in> set instances"
  shows "ensure_st idx (enforceSafetyFromCache cache ts m) = enforce_st cache ts m idx"
  using assms instances_valid [OF assms] by (simp add: ensure_st_def enforce_lookup enforce_fields Let_def)

lemma sends_after_enforce:
  assumes "bound_v2b (mgr_tx m)" "idx \<in> set instances"
    "c \<in> set (sends ts period (enforceSafetyFromCache cache ts m) idx)"
  shows "\<exists>sc. c = SendCan sc \<and> decodeRuntimeId (can_id (sc_frame sc)) = (True, idx, 1)
     \<and> extractBitsLsb (can_data (sc_frame sc)) 8 2 =
         take_bit 2 (ucast (if battery_safe cache idx then hv_onoff (desired (ensure_st idx m)) else 2))"
proof -
  let ?m = "enforceSafetyFromCache cache ts m"
  have e: "ensure_st idx ?m = enforce_st cache ts m idx" by (rule ensure_after_enforce [OF assms(2)])
  have v: "cmd_valid (cmd_to_send ts ?m idx)" "instance_index (cmd_to_send ts ?m idx) = idx"
    "hv_onoff (cmd_to_send ts ?m idx) = hv_onoff (desired (enforce_st cache ts m idx))"
    by (simp_all add: cmd_to_send_def e enforce_fields)
  from build_frame_bound [of "mgr_tx m" "cmd_to_send ts ?m idx"] assms(1) instances_valid [OF assms(2)] v
  obtain fr where fr: "buildFrameForInstance (mgr_tx m) (cmd_to_send ts ?m idx) = Some fr"
    "decodeRuntimeId (can_id fr) = (True, idx, 1)"
    "extractBitsLsb (can_data fr) 8 2 = take_bit 2 (ucast (hv_onoff (desired (enforce_st cache ts m idx))))"
    by auto
  define sc where
    "sc = \<lparr>sc_can_index = cmd_can_index (desired (ensure_st idx ?m)), sc_frame = fr, sc_mirror = None\<rparr>"
  have "sends ts period ?m idx = (if due ts period (ensure_st idx ?m) then [SendCan sc] else [])"
    using fr(1) by (simp add: sends_def sc_def)
  then have "c = SendCan sc" using assms(3) by (cases "due ts period (ensure_st idx ?m)") simp_all
  moreover have "sc_frame sc = fr" by (simp add: sc_def)
  ultimately show ?thesis using fr(2,3) unfolding enforce_hv by (intro exI [of _ sc]) simp
qed

section \<open>Properties\<close>

text \<open>The safety clamp. Whatever the business layer wrote before, every command frame emitted after
  \<open>enforceSafetyFromCache\<close> is addressed to one of the four batteries, and it carries the power-on code
  only if that battery is in the cache, has been seen, is online, none of its critical message groups is
  missing or stale, it does not request power-off, and no fault, fire or thermal level is 2 or more.\<close>

theorem power_on_only_when_safe:
  assumes "bound_v2b (mgr_tx m)"
    and "c \<in> set (snd (emitPeriodicCommands ts period (enforceSafetyFromCache cache ts m) []))"
  shows "\<exists>idx sc. idx \<in> {1, 2, 3, 4} \<and> c = SendCan sc
     \<and> decodeRuntimeId (can_id (sc_frame sc)) = (True, idx, 1)
     \<and> (extractBitsLsb (can_data (sc_frame sc)) 8 2 = 1 \<longrightarrow>
          (\<exists>x. cache (makeName idx) = Some x \<and> safe_to_close x))"
proof -
  obtain idx where i: "idx \<in> set instances"
    "c \<in> set (sends ts period (enforceSafetyFromCache cache ts m) idx)"
    using assms(2) by (auto simp: emit_commands)
  have two: "take_bit 2 (ucast (2 :: u32)) \<noteq> (1 :: u64)" by simp
  obtain sc where sc: "c = SendCan sc" "decodeRuntimeId (can_id (sc_frame sc)) = (True, idx, 1)"
    "extractBitsLsb (can_data (sc_frame sc)) 8 2 =
       take_bit 2 (ucast (if battery_safe cache idx then hv_onoff (desired (ensure_st idx m)) else 2))"
    using sends_after_enforce [OF assms(1) i] by blast
  have "idx \<in> {1, 2, 3, 4}" using i(1) by (auto simp: instances_def)
  moreover have "extractBitsLsb (can_data (sc_frame sc)) 8 2 = 1 \<longrightarrow>
      (\<exists>x. cache (makeName idx) = Some x \<and> safe_to_close x)"
    using sc(3) two by (auto simp: battery_safe_def split: option.splits if_splits)
  ultimately show ?thesis using sc(1,2) by blast
qed

text \<open>The program's own manager: a new manager that \<open>init\<close> binds on the generated table has a bound transmitter,
  for every CAN channel and configured identifier.\<close>

lemma mgr_init_binds: "bound_v2b (mgr_tx (snd (mgr_init gen_findMessage can_index id29 mgr_new)))"
  using tx_init_binds [OF normalize_v2b, of "setV2bCmdId29 id29 tx_init_state" can_index]
  by (simp add: mgr_init_def mgr_new_def tx_init_state_def setV2bCmdId29_def Let_def split_beta)

text \<open>A bound manager and a cache with one healthy battery, for the witnesses.\<close>

definition example_mgr :: cmd_mgr where
  "example_mgr = snd (mgr_init gen_findMessage 2 0x1802F3EF mgr_new)"

definition example_item :: bms_cache_item where
  "example_item = (let g = \<lparr>last_ms = 5, grp_online = True, age_ms = Fin 0\<rparr> in
     bms_item_init\<lparr>x_health := health_init\<lparr>seen_once := True, bms_online := True\<rparr>,
       x_groups := groups_init\<lparr>g_st2 := g, g_fault1 := g, g_fault2 := g, g_current_limit := g\<rparr>\<rparr>)"

definition example_cache :: bms_cache where
  "example_cache = [''BMS_2'' \<mapsto> example_item]"

lemma example_bound: "bound_v2b (mgr_tx example_mgr)"
  unfolding example_mgr_def by (rule mgr_init_binds)

lemma example_first_due: "due ts period (ensure_st idx (enforceSafetyFromCache cache ts example_mgr))"
  if "idx \<in> set instances"
  using that by (simp add: ensure_after_enforce)
    (auto simp: due_def enforce_st_def ensure_st_def example_mgr_def mgr_init_def mgr_new_def tx_init_def
      cmd_state_init_def v2b_init_def Let_def split: option.splits prod.splits)

theorem power_on_only_when_safe_witness:
  "\<exists>c. c \<in> set (snd (emitPeriodicCommands 7 100 (enforceSafetyFromCache example_cache 7 example_mgr) []))
     \<and> (\<exists>idx sc. idx \<in> {1, 2, 3, 4} \<and> c = SendCan sc
     \<and> decodeRuntimeId (can_id (sc_frame sc)) = (True, idx, 1)
     \<and> (extractBitsLsb (can_data (sc_frame sc)) 8 2 = 1 \<longrightarrow>
          (\<exists>x. example_cache (makeName idx) = Some x \<and> safe_to_close x)))"
proof -
  let ?m = "enforceSafetyFromCache example_cache 7 example_mgr"
  have one: "1 \<in> set instances" by (simp add: instances_def)
  obtain fr where "buildFrameForInstance (mgr_tx example_mgr) (cmd_to_send 7 ?m 1) = Some fr"
    using build_frame_bound [OF example_bound, of "cmd_to_send 7 ?m 1"] one
    by (auto simp: cmd_to_send_def ensure_after_enforce enforce_fields)
  then have "sends 7 100 ?m 1 \<noteq> []" using example_first_due [OF one] by (simp add: sends_def)
  then obtain c where "c \<in> set (sends 7 100 ?m 1)" by (cases "sends 7 100 ?m 1") auto
  then have "c \<in> set (snd (emitPeriodicCommands 7 100 ?m []))" by (auto simp: emit_commands instances_def)
  with power_on_only_when_safe [OF example_bound this] show ?thesis by blast
qed

text \<open>When all four batteries are due, a clamp followed by the emission produces exactly one frame per
  battery, in order of the instances; each frame carries the battery's life counter, the counter then
  advances by one modulo 256, and the send time is recorded, so that no further frame leaves for that
  battery before the period is over.\<close>

theorem one_frame_per_battery_and_period:
  assumes "bound_v2b (mgr_tx m)" "ts \<noteq> 0"
    and "\<forall>idx \<in> {1, 2, 3, 4}. \<forall>st. mgr_states m idx = Some st \<longrightarrow>
           instance_index (desired st) \<noteq> 0 \<and> (last_send_ts_ms st = 0 \<or> \<not> ts - last_send_ts_ms st < ucast period)"
    and "m' = fst (emitPeriodicCommands ts period (enforceSafetyFromCache cache ts m) [])"
    and "cs = snd (emitPeriodicCommands ts period (enforceSafetyFromCache cache ts m) [])"
  shows "map (\<lambda>c. case c of SendCan sc \<Rightarrow> fst (snd (decodeRuntimeId (can_id (sc_frame sc)))) | _ \<Rightarrow> 0) cs
           = [1, 2, 3, 4]
     \<and> (\<forall>idx \<in> {1, 2, 3, 4}. \<exists>st'. mgr_states m' idx = Some st' \<and> last_send_ts_ms st' = ts
          \<and> last_life st' = last_life (ensure_st idx m) + 1 \<and> life_signal (last_sent st') = last_life (ensure_st idx m))
     \<and> (\<forall>ts' cache'. ts' - ts < ucast period \<longrightarrow>
          snd (emitPeriodicCommands ts' period (enforceSafetyFromCache cache' ts' m') []) = [])"
proof -
  let ?e = "enforceSafetyFromCache cache ts m"
  have inst: "set instances = {1, 2, 3, 4}" by (auto simp: instances_def)
  have life: "last_life (enforce_st k t n idx) = last_life (ensure_st idx n)"
    "last_send_ts_ms (enforce_st k t n idx) = last_send_ts_ms (ensure_st idx n)" for k t n idx
    by (simp_all add: enforce_st_def Let_def split: option.splits)
  have due: "due ts period (ensure_st idx ?e)" if i: "idx \<in> set instances" for idx
  proof (cases "mgr_states m idx")
    case None
    then show ?thesis using i
      by (simp add: due_def ensure_after_enforce life) (simp add: ensure_st_def cmd_state_init_def v2b_init_def Let_def)
  next
    case (Some st)
    then show ?thesis using i assms(3) inst
      by (auto simp: due_def ensure_after_enforce life ensure_st_Some)
  qed
  have build: "\<exists>fr. buildFrameForInstance (mgr_tx m) (cmd_to_send ts ?e idx) = Some fr
      \<and> decodeRuntimeId (can_id fr) = (True, idx, 1)" if i: "idx \<in> set instances" for idx
    using build_frame_bound [OF assms(1), of "cmd_to_send ts ?e idx"] instances_valid [OF i] i
    by (auto simp: cmd_to_send_def ensure_after_enforce enforce_fields)
  have one: "map (\<lambda>c. case c of SendCan sc \<Rightarrow> fst (snd (decodeRuntimeId (can_id (sc_frame sc)))) | _ \<Rightarrow> 0)
      (sends ts period ?e idx) = [idx]" if i: "idx \<in> set instances" for idx
    using build [OF i] due [OF i] by (auto simp: sends_def)
  have st': "mgr_states m' idx = Some (sent_st ts period ?e idx)" if "idx \<in> set instances" for idx
    using that by (simp add: assms(4) emit_states)
  have upd: "last_send_ts_ms (sent_st ts period ?e idx) = ts
      \<and> last_life (sent_st ts period ?e idx) = last_life (ensure_st idx m) + 1
      \<and> life_signal (last_sent (sent_st ts period ?e idx)) = last_life (ensure_st idx m)
      \<and> instance_index (desired (sent_st ts period ?e idx)) = idx" if i: "idx \<in> set instances" for idx
    using build [OF i] due [OF i] i
    by (auto simp: sent_st_def cmd_to_send_def ensure_after_enforce enforce_fields life Let_def)
  have quiet: "sends ts' period (enforceSafetyFromCache cache' ts' m') idx = []"
    if i: "idx \<in> set instances" and t: "ts' - ts < ucast period" for idx ts' cache'
  proof -
    have "ensure_st idx m' = sent_st ts period ?e idx"
      using st' [OF i] upd [OF i] instances_valid [OF i] by (intro ensure_st_Some) auto
    then show ?thesis using i t upd [OF i] assms(2)
      by (simp add: sends_def due_def ensure_after_enforce life)
  qed
  show ?thesis
    using one st' upd quiet by (simp add: assms(4) assms(5) emit_commands instances_def)
qed

theorem one_frame_per_battery_and_period_witness:
  "map (\<lambda>c. case c of SendCan sc \<Rightarrow> fst (snd (decodeRuntimeId (can_id (sc_frame sc)))) | _ \<Rightarrow> 0)
     (snd (emitPeriodicCommands 7 100 (enforceSafetyFromCache example_cache 7 example_mgr) [])) = [1, 2, 3, 4]"
  using one_frame_per_battery_and_period [OF example_bound _ _ refl refl, of 7 100 example_cache]
  by (simp add: example_mgr_def mgr_init_def mgr_new_def Let_def split: prod.splits)

section \<open>Two observations on the initialisation\<close>

text \<open>\<open>init\<close> stores the configured identifier and then binds the transmitter with the default one.\<close>

lemma mgr_init_ignores_configured_id:
  "v2b_cmd_id29 (mgr_tx (snd (mgr_init gen can id29 m))) = 0x1802F3EF"
  by (simp add: mgr_init_def tx_init_def bindSignals_def Let_def split: prod.splits option.splits)

text \<open>The block of \<open>ensureState_\<close> that fills in a new entry is never entered, because the command fields are
  born with instance 1: a manager that emits before it was rebuilt addresses all four commands to
  battery 1.\<close>

lemma fresh_state_addresses_battery_1:
  assumes "mgr_states m idx = None"
  shows "instance_index (desired (ensure_st idx m)) = 1 \<and> source (desired (ensure_st idx m)) = ''logic''"
  using assms by (simp add: ensure_st_def cmd_state_init_def v2b_init_def)

end
