(* ===== verification/Logic_Context.thy ===== *)
theory Logic_Context
  imports Runtime_Health Bms_Command_Manager
begin

text \<open>
  The state the control logic works on (\<open>services/control/logic/logic_context.h\<close>), restricted to what the
  modelled handlers read and write, and the handler of an input/output sample
  (\<open>services/control/logic/logic_io.cpp\<close>). The five fields that the fault states of the UPS, smoke
  detector, gas detector and air conditioner share are one record.
\<close>

record dev_flags =
  d_seen_once :: bool
  d_last_rx_ms :: u64
  d_online :: bool
  d_alarm_any :: bool
  d_fault_any :: bool

record smoke_details =
  smoke_percent :: dbl
  smoke_temp_c :: dbl
  smoke_alarm :: bool
  temp_alarm :: bool
  smoke_sensor_fault :: bool
  smoke_pollution_fault :: bool
  temp_sensor_fault :: bool

record gas_details =
  gas_status_code :: u32
  gas_reading_value :: dbl
  gas_sensor_fault :: bool
  low_alarm :: bool
  high_alarm :: bool

record logic_faults =
  last_eval_ts_ms :: u64
  any_fault :: bool
  pcu_any_offline :: bool
  bms_any_offline :: bool
  ups_offline :: bool
  smoke_offline :: bool
  gas_offline :: bool
  air_offline :: bool
  env_any_alarm :: bool
  system_estop :: bool
  hmi_comm_fault :: bool
  remote_comm_fault :: bool
  sdcard_fault :: bool

record logic_ctx =
  c_bms :: bms_cache
  c_pcu0 :: pcu_online_state
  c_pcu1 :: pcu_online_state
  c_ups :: dev_flags
  c_smoke :: dev_flags
  c_smoke_d :: smoke_details
  c_gas :: dev_flags
  c_gas_d :: gas_details
  c_air :: dev_flags
  c_faults :: logic_faults
  c_bms_confirmed :: "string \<rightharpoonup> bool"
  c_last_io_ts :: u64
  c_di_bits :: u64
  c_ai :: "dbl list"

definition dev_flags_init :: dev_flags where
  "dev_flags_init = \<lparr>d_seen_once = False, d_last_rx_ms = 0, d_online = False, d_alarm_any = False,
     d_fault_any = False\<rparr>"

definition ctx_init :: logic_ctx where
  "ctx_init = \<lparr>c_bms = Map.empty, c_pcu0 = pcu_init, c_pcu1 = pcu_init, c_ups = dev_flags_init,
     c_smoke = dev_flags_init,
     c_smoke_d = \<lparr>smoke_percent = Fin 0, smoke_temp_c = Fin 0, smoke_alarm = False, temp_alarm = False,
       smoke_sensor_fault = False, smoke_pollution_fault = False, temp_sensor_fault = False\<rparr>,
     c_gas = dev_flags_init,
     c_gas_d = \<lparr>gas_status_code = 0, gas_reading_value = Fin 0, gas_sensor_fault = False, low_alarm = False,
       high_alarm = False\<rparr>,
     c_air = dev_flags_init,
     c_faults = \<lparr>last_eval_ts_ms = 0, any_fault = False, pcu_any_offline = False, bms_any_offline = False,
       ups_offline = False, smoke_offline = False, gas_offline = False, air_offline = False,
       env_any_alarm = False, system_estop = False, hmi_comm_fault = False, remote_comm_fault = False,
       sdcard_fault = False\<rparr>,
     c_bms_confirmed = Map.empty, c_last_io_ts = 0, c_di_bits = 0, c_ai = []\<rparr>"

section \<open>Digital and analogue inputs\<close>

definition testDi :: "u64 \<Rightarrow> int \<Rightarrow> bool" where
  "testDi di_bits channel_id =
     (if channel_id < 1 \<or> 64 < channel_id then False
      else drop_bit (nat (channel_id - 1)) di_bits AND 1 \<noteq> 0)"

definition readAiVoltage :: "dbl list \<Rightarrow> int \<Rightarrow> dbl" where
  "readAiVoltage ai adc_channel =
     (if adc_channel < 1 then NaN
      else let idx = nat (adc_channel - 1) in if length ai \<le> idx then NaN else ai ! idx)"

lemma testDi_bit: "1 \<le> ch \<Longrightarrow> ch \<le> 64 \<Longrightarrow> testDi w ch = bit w (nat (ch - 1))"
  by (simp add: testDi_def and_one_eq bit_iff_odd_drop_bit odd_iff_mod_2_eq_one)

section \<open>The input/output sample\<close>

record io_sample =
  io_ts_ms :: u64
  io_di_bits :: u64
  io_ai :: "dbl list"

definition onIoSample :: "io_sample \<Rightarrow> logic_ctx \<Rightarrow> logic_ctx" where
  "onIoSample s ctx =
     (let estop_pressed = testDi (io_di_bits s) 1;
          f = (c_faults ctx)\<lparr>last_eval_ts_ms := io_ts_ms s, system_estop := estop_pressed,
                env_any_alarm := (d_alarm_any (c_ups ctx) \<or> d_alarm_any (c_smoke ctx) \<or>
                  d_alarm_any (c_gas ctx) \<or> d_alarm_any (c_air ctx))\<rparr>;
          f = f\<lparr>any_fault := (system_estop f \<or> sdcard_fault f \<or> hmi_comm_fault f \<or> remote_comm_fault f \<or>
                pcu_any_offline f \<or> bms_any_offline f \<or> ups_offline f \<or> smoke_offline f \<or>
                gas_offline f \<or> air_offline f \<or>
                d_fault_any (c_ups ctx) \<or> d_fault_any (c_smoke ctx) \<or> d_fault_any (c_gas ctx) \<or>
                d_fault_any (c_air ctx))\<rparr>
      in ctx\<lparr>c_last_io_ts := io_ts_ms s, c_di_bits := io_di_bits s, c_ai := io_ai s, c_faults := f\<rparr>)"

lemma onIoSample_estop:
  "system_estop (c_faults (onIoSample s ctx)) = bit (io_di_bits s) 0"
  "bit (io_di_bits s) 0 \<Longrightarrow> any_fault (c_faults (onIoSample s ctx))"
  "c_di_bits (onIoSample s ctx) = io_di_bits s"
  by (simp_all add: onIoSample_def Let_def testDi_bit)

end
