(* ===== verification/Proto_Pcu.thy ===== *)
theory Proto_Pcu
  imports Device_Data
begin

text \<open>
  The frames exchanged with the power conversion units (\<open>services/protocol/can/pcu/proto_pcu.cpp\<close>): the
  control and status frames the controller sends and the status frame it receives.
\<close>

definition buildEmuCtrl :: "u32 \<Rightarrow> u8 \<Rightarrow> u8 \<Rightarrow> u8 \<Rightarrow> u8 \<Rightarrow> u8 \<Rightarrow> u8 \<Rightarrow> can_frame" where
  "buildEmuCtrl id29 heartbeat plug_state estop batt1_estop batt2_estop sys_enable =
     \<lparr>can_id = (id29 AND CAN_EFF_MASK) OR CAN_EFF_FLAG, can_dlc = 8,
      can_data = [heartbeat, plug_state, estop, batt1_estop, batt2_estop, 0, 0, sys_enable]\<rparr>"

definition buildEmuStatus :: "u32 \<Rightarrow> u16 \<Rightarrow> u16 \<Rightarrow> u8 \<Rightarrow> u8 \<Rightarrow> can_frame" where
  "buildEmuStatus id29 batt1_kw_x10 batt2_kw_x10 batt1_branches batt2_branches =
     \<lparr>can_id = (id29 AND CAN_EFF_MASK) OR CAN_EFF_FLAG, can_dlc = 8,
      can_data = [lo8 batt1_kw_x10, hi8 batt1_kw_x10, lo8 batt2_kw_x10, hi8 batt2_kw_x10,
                  batt1_branches, batt2_branches, 0, 0]\<rparr>"

definition pcu_stateText :: "u8 \<Rightarrow> string" where
  "pcu_stateText st = (if st = 0 then ''standby'' else if st = 1 then ''charging''
     else if st = 2 then ''fault'' else ''unknown'')"

text \<open>A frame of the socket interface always has eight data bytes.\<close>

definition parsePcuStatus :: "u32 \<Rightarrow> can_frame \<Rightarrow> device_data \<Rightarrow> bool \<times> device_data" where
  "parsePcuStatus expect_id29 fr out =
     (let id29 = can_id fr AND CAN_EFF_MASK in
      if can_id fr AND CAN_EFF_FLAG = 0 then (False, out)
      else if id29 \<noteq> expect_id29 AND CAN_EFF_MASK then (False, out)
      else if can_dlc fr < 8 then (False, out)
      else let heartbeat = can_data fr ! 0; estop_raw = can_data fr ! 1;
               pcu_state = can_data fr ! 2; cabinet_id = can_data fr ! 3 in
        (True, out\<lparr>device_name := ''PCU'',
           vals := (vals out)(''heartbeat'' \<mapsto> uint heartbeat, ''pcu_state'' \<mapsto> uint pcu_state,
             ''cabinet_id'' \<mapsto> uint cabinet_id, ''__pcu.id'' \<mapsto> sint id29,
             ''__pcu.heartbeat'' \<mapsto> uint heartbeat, ''__pcu.estop_raw'' \<mapsto> uint estop_raw,
             ''__pcu.pcu_state_raw'' \<mapsto> uint pcu_state, ''__pcu.cabinet_id'' \<mapsto> uint cabinet_id),
           status := (status out)(''estop'' \<mapsto> (if estop_raw \<noteq> 0 then 1 else 0)),
           str := (str out)(''__pcu.msg'' \<mapsto> ''PCU_STATUS'',
             ''__pcu.raw_hex'' \<mapsto> bytesToHex (can_data fr) (if 8 < can_dlc fr then 8 else unat (can_dlc fr)),
             ''pcu_state_text'' \<mapsto> pcu_stateText pcu_state)\<rparr>))"

section \<open>Facts\<close>

lemma emu_frames_extended:
  "can_id (buildEmuCtrl i h p e b1 b2 s) AND CAN_EFF_FLAG \<noteq> 0"
  "can_id (buildEmuStatus i k1 k2 n1 n2) AND CAN_EFF_FLAG \<noteq> 0"
  by (simp_all add: buildEmuCtrl_def buildEmuStatus_def CAN_EFF_FLAG_def and.commute [of _ "0x80000000"])

lemma emu_status_powers:
  "mk16 (can_data (buildEmuStatus i k1 k2 n1 n2) ! 1) (can_data (buildEmuStatus i k1 k2 n1 n2) ! 0) = k1"
  "mk16 (can_data (buildEmuStatus i k1 k2 n1 n2) ! 3) (can_data (buildEmuStatus i k1 k2 n1 n2) ! 2) = k2"
  by (simp_all add: buildEmuStatus_def numeral_nat)

end
