(* ===== verification/Logic_Tick.thy ===== *)
theory Logic_Tick
  imports Logic_Context Proto_Pcu
begin

text \<open>
  The periodic tick of the control logic: the business rule that picks the high-voltage command
  (\<open>services/control/business/business_engine.cpp\<close>), the control and status frames to the power
  conversion units and the order of the steps (\<open>services/control/logic/logic_tick.cpp\<close>). The tick ages the
  received data, rebuilds the commands, lets the business rule change them, clamps them, emits the battery
  frames and then the frames to the conversion units; it ends with the refresh of the display view and of
  the panel registers, which are not part of the modelled state.
\<close>

section \<open>The business rule\<close>

text \<open>The function's three static variables.\<close>

record business =
  out_hv_on :: bool
  out_hv_off :: bool
  final_hv_state :: bool

definition business_init :: business where
  "business_init = \<lparr>out_hv_on = False, out_hv_off = False, final_hv_state = False\<rparr>"

definition getBms :: "logic_ctx \<Rightarrow> u32 \<Rightarrow> bms_cache_item option" where
  "getBms ctx idx = c_bms ctx (makeName idx)"

definition bms_state_ok :: "bms_cache_item option \<Rightarrow> bool" where
  "bms_state_ok b = (case b of None \<Rightarrow> False | Some x \<Rightarrow> st1_bms_hv_status (x_st1 x) \<noteq> 0)"

definition bms_chrgState :: "bms_cache_item option \<Rightarrow> bool" where
  "bms_chrgState b = (case b of None \<Rightarrow> False | Some x \<Rightarrow> st1_chrg_mode (x_st1 x) \<noteq> 0)"

definition gun_state_all_ok :: "logic_ctx \<Rightarrow> bool" where
  "gun_state_all_ok ctx =
     (testDi (c_di_bits ctx) 13 \<and> testDi (c_di_bits ctx) 14 \<and> testDi (c_di_bits ctx) 15 \<and>
      testDi (c_di_bits ctx) 16 \<and> testDi (c_di_bits ctx) 17 \<and> testDi (c_di_bits ctx) 18 \<and>
      dbl_less (Fin 8) (readAiVoltage (c_ai ctx) 1) \<and> dbl_less (Fin 8) (readAiVoltage (c_ai ctx) 2))"

definition business_decide :: "logic_ctx \<Rightarrow> business \<Rightarrow> business" where
  "business_decide ctx b =
     (let estop_pressed = testDi (c_di_bits ctx) 1;
          all_ok = (bms_state_ok (getBms ctx 1) \<and> bms_state_ok (getBms ctx 2) \<and>
                    bms_state_ok (getBms ctx 3) \<and> bms_state_ok (getBms ctx 4));
          noChrg = (\<not> bms_chrgState (getBms ctx 1) \<and> \<not> bms_chrgState (getBms ctx 2) \<and>
                    \<not> bms_chrgState (getBms ctx 3) \<and> \<not> bms_chrgState (getBms ctx 4));
          pcu_es = (pcu_estop (c_pcu0 ctx) \<or> pcu_estop (c_pcu1 ctx));
          b = (if pcu_es then b\<lparr>out_hv_off := True\<rparr> else b);
          b = (if gun_state_all_ok ctx \<and> \<not> estop_pressed \<and> all_ok \<and> noChrg
               then b\<lparr>out_hv_on := True\<rparr> else b);
          b = (if estop_pressed \<or> smoke_alarm (c_smoke_d ctx) \<or> high_alarm (c_gas_d ctx)
               then b\<lparr>out_hv_off := True\<rparr> else b)
      in if out_hv_off b then b\<lparr>final_hv_state := False\<rparr>
         else if out_hv_on b then b\<lparr>final_hv_state := True\<rparr>
         else b\<lparr>final_hv_state := False\<rparr>)"

definition set_hv :: "u32 \<Rightarrow> u32 \<Rightarrow> cmd_mgr \<Rightarrow> cmd_mgr" where
  "set_hv idx hv m =
     (case mgr_states m idx of None \<Rightarrow> m
      | Some st \<Rightarrow> put_st idx (st\<lparr>desired := (desired st)\<lparr>hv_onoff := hv\<rparr>\<rparr>) m)"

definition business_evaluate :: "logic_ctx \<Rightarrow> business \<times> cmd_mgr \<Rightarrow> business \<times> cmd_mgr" where
  "business_evaluate ctx bm =
     (let b = business_decide ctx (fst bm);
          hv = (if final_hv_state b then 1 else 0) + 1 in
      (b, foldl (\<lambda>m idx. set_hv idx hv (mutableDesired idx ''business'' m)) (snd bm) instances))"

section \<open>Frames to the conversion units\<close>

definition readAiVoltageForPcu :: "dbl list \<Rightarrow> int \<Rightarrow> dbl" where
  "readAiVoltageForPcu ai ch =
     (if ch < 1 then Fin 0
      else let idx = nat (ch - 1) in if length ai \<le> idx then Fin 0 else ai ! idx)"

definition isPlugByAdcForPcu :: "dbl \<Rightarrow> bool" where
  "isPlugByAdcForPcu v = (dbl_less (dbl_round (1 / 100)) v \<and> dbl_less v (Fin 8))"

definition calcPcuPlugState :: "logic_ctx \<Rightarrow> bool" where
  "calcPcuPlugState ctx =
     (testDi (c_di_bits ctx) 13 \<or> testDi (c_di_bits ctx) 14 \<or> testDi (c_di_bits ctx) 15 \<or>
      testDi (c_di_bits ctx) 16 \<or> testDi (c_di_bits ctx) 17 \<or> testDi (c_di_bits ctx) 18 \<or>
      isPlugByAdcForPcu (readAiVoltageForPcu (c_ai ctx) 1) \<or>
      isPlugByAdcForPcu (readAiVoltageForPcu (c_ai ctx) 2))"

definition bmsCriticalForPcu :: "bms_cache_item option \<Rightarrow> bool" where
  "bmsCriticalForPcu b =
     (case b of None \<Rightarrow> True
      | Some x \<Rightarrow>
          if \<not> seen_once (x_health x) then True
          else if \<not> bms_online (x_health x) then True
          else if runtime_fault_stale (x_health x) then True
          else if rq_hv_power_off (x_st2 x) then True
          else if 2 \<le> fault_level (x_st2 x) then True
          else if 2 \<le> fire_fault_level (x_fire x) then True
          else if 2 \<le> tms_fault_level (x_tms x) then True
          else if \<not> hv_allow_close (x_ctl x) then True
          else False)"

definition calcPcuDischargePowerKwX10 :: "bms_cache_item option \<Rightarrow> u16" where
  "calcPcuDischargePowerKwX10 b =
     (case b of None \<Rightarrow> 0
      | Some x \<Rightarrow>
          if \<not> bms_online (x_health x) then 0
          else if \<not> grp_online (g_st2 (x_groups x)) then 0
          else if \<not> grp_online (g_current_limit (x_groups x)) then 0
          else if \<not> pack_v_valid (x_st2 x) then 0
          else if \<not> discharge_limit_valid (x_limits x) then 0
          else let v = pack_v (x_st2 x); i = pack_i (x_st2 x) in
            if \<not> dbl_less (Fin 0) v \<or> \<not> dbl_less (Fin 0) i then 0
            else let raw = dbl_div (dbl_mul v i) (Fin 100);
                     clamped = dbl_max (Fin 0) (dbl_min raw (Fin 10000))
                 in word_of_int (lround clamped))"

record pcu_tx_cfg =
  pt_valid :: bool
  pt_can_index :: int
  pcu_instance :: u8
  tx_enable :: bool
  send_ctrl :: bool
  send_status :: bool
  period_ms :: u32
  next_due_ms :: u64
  id_emu_ctrl :: u32
  id_emu_status :: u32
  heartbeat :: u8
  batt1_branches :: u8
  batt2_branches :: u8

text \<open>The values all frames of one round share.\<close>

record pcu_round =
  plug_state :: bool
  estop_by_io :: bool
  batt1_estop :: bool
  batt2_estop :: bool
  system_enable_all :: bool
  batt1_kw_x10 :: u16
  batt2_kw_x10 :: u16

definition pcu_round_of :: "logic_ctx \<Rightarrow> pcu_round" where
  "pcu_round_of ctx =
     (let bms1 = getBms ctx 1; bms2 = getBms ctx 2;
          es = (system_estop (c_faults ctx) \<or> testDi (c_di_bits ctx) 1);
          b1 = bmsCriticalForPcu bms1; b2 = bmsCriticalForPcu bms2
      in \<lparr>plug_state = calcPcuPlugState ctx, estop_by_io = es, batt1_estop = b1, batt2_estop = b2,
          system_enable_all = (\<not> es \<and> \<not> b1 \<and> \<not> b2),
          batt1_kw_x10 = calcPcuDischargePowerKwX10 bms1, batt2_kw_x10 = calcPcuDischargePowerKwX10 bms2\<rparr>)"

definition b8 :: "bool \<Rightarrow> u8" where "b8 b = (if b then 1 else 0)"
definition b32 :: "bool \<Rightarrow> u32" where "b32 b = (if b then 1 else 0)"

definition pcu_ctrl_frame :: "pcu_round \<Rightarrow> pcu_tx_cfg \<Rightarrow> can_frame" where
  "pcu_ctrl_frame r cfg =
     buildEmuCtrl (id_emu_ctrl cfg) (heartbeat cfg) (b8 (plug_state r)) (b8 (estop_by_io r))
       (b8 (batt1_estop r)) (b8 (batt2_estop r)) (b8 (system_enable_all r))"

definition pcu_status_frame :: "pcu_round \<Rightarrow> pcu_tx_cfg \<Rightarrow> can_frame" where
  "pcu_status_frame r cfg =
     buildEmuStatus (id_emu_status cfg) (batt1_kw_x10 r) (batt2_kw_x10 r) (batt1_branches cfg)
       (batt2_branches cfg)"

definition pcu_frame_hex :: "can_frame \<Rightarrow> string" where
  "pcu_frame_hex fr = bytesToHex (can_data fr) (if 8 < can_dlc fr then 8 else unat (can_dlc fr))"

definition pcu_mirror :: "pcu_round \<Rightarrow> pcu_tx_cfg \<Rightarrow> u64 \<Rightarrow> device_data" where
  "pcu_mirror r cfg now =
     (let inst = pcu_instance cfg;
          rt = (if 1 \<le> inst then inst - 1 else 0);
          rt_text = ''PCU_'' @ to_string (unat rt) in
      \<lparr>device_name = rt_text @ ''_CTRL'', timestamp = ucast (now AND 0xFFFFFFFF),
       num = [''batt1_kw'' \<mapsto> dbl_div (dbl_of_int (uint (batt1_kw_x10 r))) (Fin 10),
              ''batt2_kw'' \<mapsto> dbl_div (dbl_of_int (uint (batt2_kw_x10 r))) (Fin 10)],
       vals = [''__can_index'' \<mapsto> pt_can_index cfg, ''__pcu.instance'' \<mapsto> uint inst,
              ''__pcu.runtime_index'' \<mapsto> uint rt,
              ''__pcu.ctrl_id'' \<mapsto> sint (id_emu_ctrl cfg AND CAN_EFF_MASK),
              ''__pcu.status_id'' \<mapsto> sint (id_emu_status cfg AND CAN_EFF_MASK),
              ''ctrl_heartbeat'' \<mapsto> uint (heartbeat cfg),
              ''batt1_kw_x10'' \<mapsto> uint (batt1_kw_x10 r), ''batt2_kw_x10'' \<mapsto> uint (batt2_kw_x10 r),
              ''batt1_branches'' \<mapsto> uint (batt1_branches cfg), ''batt2_branches'' \<mapsto> uint (batt2_branches cfg)],
       status = [''plug_state'' \<mapsto> b32 (plug_state r), ''estop'' \<mapsto> b32 (estop_by_io r),
              ''batt1_estop'' \<mapsto> b32 (batt1_estop r), ''batt2_estop'' \<mapsto> b32 (batt2_estop r),
              ''sys_enable'' \<mapsto> b32 (system_enable_all r)],
       str = ([''kind'' \<mapsto> ''pcu_tx_mirror'', ''__pcu.msg'' \<mapsto> ''EMU_TO_PCU_TX'',
              ''__pcu.instance_name'' \<mapsto> rt_text,
              ''__pcu.display_name'' \<mapsto> ''PCU'' @ to_string (unat inst)]
              ++ (if send_ctrl cfg then [''__pcu.ctrl_raw_hex'' \<mapsto> pcu_frame_hex (pcu_ctrl_frame r cfg)] else Map.empty)
              ++ (if send_status cfg then [''__pcu.status_raw_hex'' \<mapsto> pcu_frame_hex (pcu_status_frame r cfg)] else Map.empty)),
       gas = gas_init\<rparr>)"

definition emit_pcu_one :: "pcu_round \<Rightarrow> u64 \<Rightarrow> pcu_tx_cfg \<Rightarrow> pcu_tx_cfg \<times> command list" where
  "emit_pcu_one r now cfg =
     (if \<not> pt_valid cfg \<or> \<not> tx_enable cfg \<or> pt_can_index cfg < 0 then (cfg, [])
      else let cfg = (if next_due_ms cfg = 0 then cfg\<lparr>next_due_ms := now\<rparr> else cfg) in
        if now < next_due_ms cfg then (cfg, [])
        else let frames = (if send_ctrl cfg then [pcu_ctrl_frame r cfg] else []) @
                          (if send_status cfg then [pcu_status_frame r cfg] else []);
                 cmds = map (\<lambda>fr. SendCan \<lparr>sc_can_index = pt_can_index cfg, sc_frame = fr,
                               sc_mirror = Some (pcu_mirror r cfg now)\<rparr>) frames;
                 cfg = (if send_ctrl cfg then cfg\<lparr>heartbeat := heartbeat cfg + 1\<rparr> else cfg)
             in (cfg\<lparr>next_due_ms := now + ucast (period_ms cfg)\<rparr>, cmds))"

definition emitPcuPeriodicCommands ::
    "bool \<Rightarrow> logic_ctx \<Rightarrow> u64 \<Rightarrow> pcu_tx_cfg list \<Rightarrow> command list \<Rightarrow> pcu_tx_cfg list \<times> command list" where
  "emitPcuPeriodicCommands loaded ctx now cfgs out =
     (if \<not> loaded then (cfgs, out)
      else let rs = map (emit_pcu_one (pcu_round_of ctx) now) cfgs
           in (map fst rs, out @ concat (map snd rs)))"

section \<open>The tick\<close>

record logic_engine =
  le_mgr :: cmd_mgr
  bms_cmd_mgr_inited :: bool
  bms_cmd_tx_enabled :: bool
  bms_cmd_period_ms :: u32
  le_business :: business
  pcu_tx_cfg_loaded :: bool
  le_pcu_cfg :: "pcu_tx_cfg list"

definition updatePcuRuntimeHealth :: "u64 \<Rightarrow> logic_ctx \<Rightarrow> logic_ctx" where
  "updatePcuRuntimeHealth now ctx =
     ctx\<lparr>c_pcu0 := updateOnePcuRuntimeHealth now PCU_RX_TIMEOUT_MS PCU_HB_STALE_MS (c_pcu0 ctx),
         c_pcu1 := updateOnePcuRuntimeHealth now PCU_RX_TIMEOUT_MS PCU_HB_STALE_MS (c_pcu1 ctx)\<rparr>"

definition onTick :: "u64 \<Rightarrow> logic_engine \<times> logic_ctx \<Rightarrow> command list \<Rightarrow>
    (logic_engine \<times> logic_ctx) \<times> command list" where
  "onTick ts ec out =
     (let (e, ctx) = ec;
          ctx = updatePcuRuntimeHealth ts ctx;
          ctx = ctx\<lparr>c_bms := updateBmsRuntimeHealth ts (c_bms ctx)\<rparr>;
          en = (bms_cmd_mgr_inited e \<and> bms_cmd_tx_enabled e);
          m = (if en then rebuildDesiredFromCache (c_bms ctx) ts (le_mgr e) else le_mgr e);
          (b, m) = business_evaluate ctx (le_business e, m);
          m = (if en then enforceSafetyFromCache (c_bms ctx) ts m else m);
          (m, out) = (if en then emitPeriodicCommands ts (bms_cmd_period_ms e) m out else (m, out));
          (cfgs, out) = emitPcuPeriodicCommands (pcu_tx_cfg_loaded e) ctx ts (le_pcu_cfg e) out
      in ((e\<lparr>le_mgr := m, le_business := b, le_pcu_cfg := cfgs\<rparr>, ctx), out))"

section \<open>Facts on the tick\<close>

lemma mutableDesired_lookup [simp]:
  "mgr_states (mutableDesired idx src m) j =
     (if j = idx then Some ((ensure_st idx m)\<lparr>desired := (let d = (desired (ensure_st idx m))\<lparr>instance_index := idx,
        cmd_can_index := default_can_index m, cmd_valid := True\<rparr> in if src \<noteq> [] then d\<lparr>source := src\<rparr> else d)\<rparr>)
      else mgr_states m j)"
  "mgr_tx (mutableDesired idx src m) = mgr_tx m"
  "default_can_index (mutableDesired idx src m) = default_can_index m"
  by (simp_all add: mutableDesired_def Let_def)

definition business_write :: "u32 \<Rightarrow> cmd_mgr \<Rightarrow> u32 \<Rightarrow> cmd_mgr" where
  "business_write hv m idx = set_hv idx hv (mutableDesired idx ''business'' m)"

lemma business_write_frame [simp]:
  "mgr_tx (business_write hv m idx) = mgr_tx m"
  "default_can_index (business_write hv m idx) = default_can_index m"
  "j \<noteq> idx \<Longrightarrow> mgr_states (business_write hv m idx) j = mgr_states m j"
  by (simp_all add: business_write_def set_hv_def split: option.splits)

lemma business_write_hv:
  assumes "idx \<noteq> 0"
  shows "hv_onoff (desired (ensure_st idx (business_write hv m idx))) = hv"
  using assms by (simp add: business_write_def set_hv_def ensure_st_def Let_def)

lemma ensure_st_cong:
  "mgr_states m j = mgr_states m' j \<Longrightarrow> default_can_index m = default_can_index m' \<Longrightarrow>
   ensure_st j m = ensure_st j m'"
  by (simp add: ensure_st_def Let_def)

lemma business_write_other:
  "j \<noteq> idx \<Longrightarrow> ensure_st j (business_write hv m idx) = ensure_st j m"
  by (rule ensure_st_cong) simp_all

lemma business_evaluate_tx [simp]: "mgr_tx (snd (business_evaluate ctx bm)) = mgr_tx (snd bm)"
  by (simp add: business_evaluate_def Let_def instances_def flip: business_write_def)

lemma business_evaluate_hv:
  assumes "idx \<in> set instances"
  shows "hv_onoff (desired (ensure_st idx (snd (business_evaluate ctx bm)))) =
     (if final_hv_state (fst (business_evaluate ctx bm)) then 2 else 1)"
  using assms
  by (auto simp: business_evaluate_def Let_def instances_def business_write_hv business_write_other
      simp flip: business_write_def)

lemma business_stop:
  assumes "testDi (c_di_bits ctx) 1 \<or> smoke_alarm (c_smoke_d ctx) \<or> high_alarm (c_gas_d ctx) \<or>
           pcu_estop (c_pcu0 ctx) \<or> pcu_estop (c_pcu1 ctx)"
  shows "\<not> final_hv_state (fst (business_evaluate ctx bm))"
  using assms by (auto simp: business_evaluate_def business_decide_def Let_def)

text \<open>The commands of a tick: those to the batteries, then those to the conversion units.\<close>

definition aged_ctx :: "u64 \<Rightarrow> logic_ctx \<Rightarrow> logic_ctx" where
  "aged_ctx ts ctx = (updatePcuRuntimeHealth ts ctx)\<lparr>c_bms := updateBmsRuntimeHealth ts (c_bms ctx)\<rparr>"

lemma aged_ctx_simps [simp]:
  "c_bms (aged_ctx ts ctx) = updateBmsRuntimeHealth ts (c_bms ctx)"
  "c_di_bits (aged_ctx ts ctx) = c_di_bits ctx" "c_ai (aged_ctx ts ctx) = c_ai ctx"
  "c_smoke_d (aged_ctx ts ctx) = c_smoke_d ctx" "c_gas_d (aged_ctx ts ctx) = c_gas_d ctx"
  "c_faults (aged_ctx ts ctx) = c_faults ctx"
  by (simp_all add: aged_ctx_def updatePcuRuntimeHealth_def)

lemma aged_ctx_estop [simp]:
  "pcu_estop (c_pcu0 (aged_ctx ts ctx)) = pcu_estop (c_pcu0 ctx)"
  "pcu_estop (c_pcu1 (aged_ctx ts ctx)) = pcu_estop (c_pcu1 ctx)"
  by (simp_all add: aged_ctx_def updatePcuRuntimeHealth_def updateOnePcuRuntimeHealth_def Let_def)

definition business_of :: "u64 \<Rightarrow> logic_engine \<Rightarrow> logic_ctx \<Rightarrow> business \<times> cmd_mgr" where
  "business_of ts e ctx =
     business_evaluate (aged_ctx ts ctx)
       (le_business e, if bms_cmd_mgr_inited e \<and> bms_cmd_tx_enabled e
          then rebuildDesiredFromCache (c_bms (aged_ctx ts ctx)) ts (le_mgr e) else le_mgr e)"

lemma business_of_tx [simp]: "mgr_tx (snd (business_of ts e ctx)) = mgr_tx (le_mgr e)"
  by (simp add: business_of_def)

lemma onTick_commands:
  "snd (onTick ts (e, ctx) out) = out @
     (if bms_cmd_mgr_inited e \<and> bms_cmd_tx_enabled e
      then concat (map (sends ts (bms_cmd_period_ms e)
             (enforceSafetyFromCache (c_bms (aged_ctx ts ctx)) ts (snd (business_of ts e ctx)))) instances)
      else []) @
     snd (emitPcuPeriodicCommands (pcu_tx_cfg_loaded e) (aged_ctx ts ctx) ts (le_pcu_cfg e) [])"
proof -
  have ctx: "(updatePcuRuntimeHealth ts ctx)
      \<lparr>c_bms := updateBmsRuntimeHealth ts (c_bms (updatePcuRuntimeHealth ts ctx))\<rparr> = aged_ctx ts ctx"
    by (simp add: aged_ctx_def updatePcuRuntimeHealth_def)
  have pcu: "snd (emitPcuPeriodicCommands l c ts cfgs (out @ cs)) =
      out @ cs @ snd (emitPcuPeriodicCommands l c ts cfgs [])" for l c cfgs cs
    by (simp add: emitPcuPeriodicCommands_def Let_def)
  show ?thesis
    using pcu [of _ _ _ "[]"]
    by (simp add: onTick_def Let_def ctx split_beta business_of_def emit_commands pcu)
qed

lemma onTick_state:
  "snd (fst (onTick ts (e, ctx) out)) = aged_ctx ts ctx"
  "le_business (fst (fst (onTick ts (e, ctx) out))) = fst (business_of ts e ctx)"
  by (simp_all add: onTick_def Let_def split_beta business_of_def aged_ctx_def updatePcuRuntimeHealth_def)

text \<open>A tick never rebinds the transmitter: the one bound at start-up stays bound.\<close>

lemma onTick_keeps_tx: "mgr_tx (le_mgr (fst (fst (onTick ts (e, ctx) out)))) = mgr_tx (le_mgr e)"
  by (simp add: onTick_def Let_def split_beta)

lemma safe_after_ageing:
  "safe_to_close (updateOneBms ts x) \<longleftrightarrow>
     seen_once (x_health x) \<and> calcFreshByTimeout ts (last_rx_ms (x_health x)) BMS_INSTANCE_TIMEOUT_MS \<and>
     calcFreshByTimeout ts (last_ms (g_st2 (x_groups x))) BMS_ST_TIMEOUT_MS \<and>
     calcFreshByTimeout ts (last_ms (g_current_limit (x_groups x))) BMS_CURRENT_LIMIT_TIMEOUT_MS \<and>
     calcFreshByTimeout ts (last_ms (g_fault1 (x_groups x))) BMS_FAULT1_TIMEOUT_MS \<and>
     calcFreshByTimeout ts (last_ms (g_fault2 (x_groups x))) BMS_FAULT2_TIMEOUT_MS \<and>
     \<not> rq_hv_power_off (x_st2 x) \<and> fault_level (x_st2 x) < 2 \<and> fire_fault_level (x_fire x) < 2 \<and>
     tms_fault_level (x_tms x) < 2 \<and> hv_allow_close (x_ctl x)"
  by (auto simp: safe_to_close_def updateOneBms_health group_fresh_def group_stale_def age_groups_def
      age_group_def Let_def fresh_iff)

definition fresh_within :: "u64 \<Rightarrow> u64 \<Rightarrow> u64 \<Rightarrow> bool" where
  "fresh_within limit now t = (t \<noteq> 0 \<and> t \<le> now \<and> now - t \<le> limit)"

text \<open>The condition on the received data under which a battery may be told to close its contactors.\<close>

definition may_close :: "u64 \<Rightarrow> bms_cache_item \<Rightarrow> bool" where
  "may_close now x \<longleftrightarrow>
     seen_once (x_health x) \<and> fresh_within 5000 now (last_rx_ms (x_health x)) \<and>
     fresh_within 3000 now (last_ms (g_st2 (x_groups x))) \<and>
     fresh_within 3000 now (last_ms (g_current_limit (x_groups x))) \<and>
     fresh_within 5000 now (last_ms (g_fault1 (x_groups x))) \<and>
     fresh_within 5000 now (last_ms (g_fault2 (x_groups x))) \<and>
     \<not> rq_hv_power_off (x_st2 x) \<and> fault_level (x_st2 x) < 2 \<and> fire_fault_level (x_fire x) < 2 \<and>
     tms_fault_level (x_tms x) < 2 \<and> hv_allow_close (x_ctl x)"

lemma battery_safe_aged:
  "battery_safe (updateBmsRuntimeHealth ts items) idx \<longleftrightarrow>
     (\<exists>x. items (makeName idx) = Some x \<and> may_close ts x)"
  by (auto simp: battery_safe_def updateBmsRuntimeHealth_def safe_after_ageing fresh_iff may_close_def
      fresh_within_def timeout_defs split: option.splits)

lemma emit_pcu_one_mirrored:
  "c \<in> set (snd (emit_pcu_one r now cfg)) \<Longrightarrow>
     \<exists>sc. c = SendCan sc \<and> sc_mirror sc \<noteq> None \<and> sc_can_index sc = pt_can_index cfg \<and>
       (sc_frame sc = pcu_ctrl_frame r (cfg\<lparr>next_due_ms := next_due_ms cfg\<rparr>) \<or> sc_frame sc = pcu_status_frame r cfg)"
  by (auto simp: emit_pcu_one_def Let_def pcu_ctrl_frame_def pcu_status_frame_def split: if_splits)

lemma pcu_commands:
  assumes "c \<in> set (snd (emitPcuPeriodicCommands l ctx now cfgs []))"
  shows "\<exists>cfg \<in> set cfgs. c \<in> set (snd (emit_pcu_one (pcu_round_of ctx) now cfg))"
  using assms by (auto simp: emitPcuPeriodicCommands_def Let_def split: if_splits)

lemma battery_commands_of_tick:
  assumes bound: "bound_v2b (mgr_tx (le_mgr e))"
    and c: "SendCan sc \<in> set (snd (onTick ts (e, ctx) []))" and none: "sc_mirror sc = None"
  obtains idx where "idx \<in> {1, 2, 3, 4}" "decodeRuntimeId (can_id (sc_frame sc)) = (True, idx, 1)"
    "extractBitsLsb (can_data (sc_frame sc)) 8 2 =
       (if (\<exists>x. c_bms ctx (makeName idx) = Some x \<and> may_close ts x) \<and>
           \<not> final_hv_state (fst (business_of ts e ctx)) then 1 else 2)"
proof -
  let ?m = "snd (business_of ts e ctx)"
  let ?items = "updateBmsRuntimeHealth ts (c_bms ctx)"
  let ?cs = "\<lambda>idx. set (sends ts (bms_cmd_period_ms e) (enforceSafetyFromCache ?items ts ?m) idx)"
  have "SendCan sc \<notin> set (snd (emitPcuPeriodicCommands l k ts cfgs []))" for l k cfgs
    using none pcu_commands emit_pcu_one_mirrored by fastforce
  with c obtain idx where i: "idx \<in> set instances" and ci: "SendCan sc \<in> ?cs idx"
    by (auto simp: onTick_commands split: if_splits)
  have hv: "hv_onoff (desired (ensure_st idx ?m)) = (if final_hv_state (fst (business_of ts e ctx)) then 2 else 1)"
    unfolding business_of_def by (rule business_evaluate_hv [OF i])
  have bm: "bound_v2b (mgr_tx ?m)" using bound by simp
  have fr: "decodeRuntimeId (can_id (sc_frame sc)) = (True, idx, 1)"
    "extractBitsLsb (can_data (sc_frame sc)) 8 2 =
       take_bit 2 (ucast (if battery_safe ?items idx then hv_onoff (desired (ensure_st idx ?m)) else 2))"
    using sends_after_enforce [OF bm i ci] by blast+
  have "extractBitsLsb (can_data (sc_frame sc)) 8 2 =
      (if battery_safe ?items idx \<and> \<not> final_hv_state (fst (business_of ts e ctx)) then 1 else 2)"
    unfolding fr(2) hv by simp
  moreover have "idx \<in> {1, 2, 3, 4}" using i by (auto simp: instances_def)
  ultimately show ?thesis using that fr(1) unfolding battery_safe_aged by blast
qed

lemma last_send_kept:
  "last_send_ts_ms (ensure_st idx (business_write hv m j)) = last_send_ts_ms (ensure_st idx m)"
  "last_send_ts_ms (rebuild_st cache ts m idx) = last_send_ts_ms (ensure_st idx m)"
  "last_send_ts_ms (enforce_st cache ts m idx) = last_send_ts_ms (ensure_st idx m)"
  "last_send_ts_ms (ensure_st idx (rebuildDesiredFromCache cache ts m)) = last_send_ts_ms (ensure_st idx m)"
proof -
  have e: "last_send_ts_ms (ensure_st idx n) =
      (case mgr_states n idx of None \<Rightarrow> 0 | Some st \<Rightarrow> last_send_ts_ms st)" for n
    by (simp add: ensure_st_def cmd_state_init_def Let_def split: option.splits)
  show "last_send_ts_ms (ensure_st idx (business_write hv m j)) = last_send_ts_ms (ensure_st idx m)"
  proof (cases "idx = j")
    case True
    show ?thesis
      unfolding e [of "business_write hv m j"] by (simp add: True business_write_def set_hv_def)
  qed (simp add: business_write_other)
  show r: "last_send_ts_ms (rebuild_st cache ts m idx) = last_send_ts_ms (ensure_st idx m)"
    by (simp add: rebuild_st_def Let_def split: option.splits)
  show "last_send_ts_ms (enforce_st cache ts m idx) = last_send_ts_ms (ensure_st idx m)"
    by (simp add: enforce_st_def Let_def split: option.splits)
  show "last_send_ts_ms (ensure_st idx (rebuildDesiredFromCache cache ts m)) = last_send_ts_ms (ensure_st idx m)"
    unfolding e [of "rebuildDesiredFromCache cache ts m"] using r by (simp add: rebuild_lookup e)
qed

lemma last_send_business_of:
  "last_send_ts_ms (ensure_st idx (snd (business_of ts e ctx))) = last_send_ts_ms (ensure_st idx (le_mgr e))"
  by (simp add: business_of_def business_evaluate_def Let_def instances_def last_send_kept
      flip: business_write_def)

lemma due_battery_served:
  assumes "bound_v2b (mgr_tx (le_mgr e))" "bms_cmd_mgr_inited e" "bms_cmd_tx_enabled e"
    and "idx \<in> {1, 2, 3, 4}"
    and "last_send_ts_ms (ensure_st idx (le_mgr e)) = 0 \<or>
         ucast (bms_cmd_period_ms e) \<le> ts - last_send_ts_ms (ensure_st idx (le_mgr e))"
  shows "\<exists>sc. SendCan sc \<in> set (snd (onTick ts (e, ctx) [])) \<and> sc_mirror sc = None \<and>
     decodeRuntimeId (can_id (sc_frame sc)) = (True, idx, 1)"
proof -
  let ?m = "enforceSafetyFromCache (c_bms (aged_ctx ts ctx)) ts (snd (business_of ts e ctx))"
  have i: "idx \<in> set instances" using assms(4) by (auto simp: instances_def)
  have d: "due ts (bms_cmd_period_ms e) (ensure_st idx ?m)"
    using assms(5) by (auto simp: due_def ensure_after_enforce [OF i] last_send_kept last_send_business_of not_less)
  obtain fr where fr: "buildFrameForInstance (mgr_tx ?m) (cmd_to_send ts ?m idx) = Some fr"
    "decodeRuntimeId (can_id fr) = (True, idx, 1)"
    using build_frame_bound [of "mgr_tx ?m" "cmd_to_send ts ?m idx"] assms(1) instances_valid [OF i]
    by (auto simp: cmd_to_send_def ensure_after_enforce [OF i] enforce_fields)
  define sc where
    "sc = \<lparr>sc_can_index = cmd_can_index (desired (ensure_st idx ?m)), sc_frame = fr, sc_mirror = None\<rparr>"
  have "sends ts (bms_cmd_period_ms e) ?m idx = [SendCan sc]" using d fr(1) by (simp add: sends_def sc_def)
  then have "SendCan sc \<in> set (snd (onTick ts (e, ctx) []))"
    unfolding onTick_commands using i assms(2,3) by (auto intro!: bexI [of _ idx])
  moreover have "sc_mirror sc = None" "sc_frame sc = fr" by (simp_all add: sc_def)
  ultimately show ?thesis using fr(2) by blast
qed

section \<open>Properties\<close>

text \<open>C1: end-to-end safety of the tick, for a controller whose transmitter is bound to the V2B_CMD entry of the generated
  table, as the initialisation of the command manager always leaves it. Every frame a tick sends to a battery is addressed to one
  of the four batteries, and if it carries the power-on code then, judged by the data received before the tick,
  that battery has been seen, its last frame is at most 5 s old, its ST2 and current-limit messages are
  at most 3 s and its two fault messages at most 5 s old, it does not ask for power-off, its fault,
  fire and thermal levels are below 2, and its cache entry allows to close the contactors.\<close>

theorem tick_power_on_only_when_fresh:
  assumes "bound_v2b (mgr_tx (le_mgr e))"
    and "SendCan sc \<in> set (snd (onTick ts (e, ctx) []))" and "sc_mirror sc = None"
  shows "\<exists>idx \<in> {1, 2, 3, 4}. decodeRuntimeId (can_id (sc_frame sc)) = (True, idx, 1) \<and>
     (extractBitsLsb (can_data (sc_frame sc)) 8 2 = 1 \<longrightarrow>
        (\<exists>x. c_bms ctx (makeName idx) = Some x \<and> may_close ts x))"
  by (rule battery_commands_of_tick [OF assms]) (auto split: if_splits)

text \<open>C40: what the business rule makes of an emergency, for a controller whose transmitter is bound to the generated table, as
  its initialisation leaves it. While the stop input, a smoke alarm, a gas high alarm or the emergency stop of one of the two conversion
  units is present, every frame of the tick to a battery that may close carries code 1, which the command manager calls power-on:
  the rule computes the code as the wanted state plus one, and the wanted state is off.\<close>

theorem emergency_sends_power_on:
  assumes "bound_v2b (mgr_tx (le_mgr e))"
    and "testDi (c_di_bits ctx) 1 \<or> smoke_alarm (c_smoke_d ctx) \<or> high_alarm (c_gas_d ctx) \<or>
         pcu_estop (c_pcu0 ctx) \<or> pcu_estop (c_pcu1 ctx)"
    and "SendCan sc \<in> set (snd (onTick ts (e, ctx) []))" and "sc_mirror sc = None"
    and "decodeRuntimeId (can_id (sc_frame sc)) = (True, idx, 1)"
    and "c_bms ctx (makeName idx) = Some x" and "may_close ts x"
  shows "extractBitsLsb (can_data (sc_frame sc)) 8 2 = 1 \<and> hvText 1 = ''PowerOn''"
proof -
  have "\<not> final_hv_state (fst (business_of ts e ctx))"
    unfolding business_of_def using assms(2) by (intro business_stop) auto
  then show ?thesis
    using assms(5-7) by (auto simp: hvText_def intro: battery_commands_of_tick [OF assms(1,3,4)])
qed

text \<open>With sending enabled, a battery that was never sent a frame, or whose last frame is a period or
  more ago, gets one in this tick, whatever the state of its data.\<close>

theorem tick_serves_every_due_battery:
  assumes "bound_v2b (mgr_tx (le_mgr e))" "bms_cmd_mgr_inited e" "bms_cmd_tx_enabled e"
    and "idx \<in> {1, 2, 3, 4}"
    and "last_send_ts_ms (ensure_st idx (le_mgr e)) = 0 \<or>
         ucast (bms_cmd_period_ms e) \<le> ts - last_send_ts_ms (ensure_st idx (le_mgr e))"
  shows "\<exists>sc. SendCan sc \<in> set (snd (onTick ts (e, ctx) [])) \<and> sc_mirror sc = None \<and>
     decodeRuntimeId (can_id (sc_frame sc)) = (True, idx, 1)"
  by (rule due_battery_served [OF assms])

text \<open>A running controller with one healthy battery and the emergency stop pressed.\<close>

definition example_engine :: logic_engine where
  "example_engine = \<lparr>le_mgr = example_mgr, bms_cmd_mgr_inited = True, bms_cmd_tx_enabled = True,
     bms_cmd_period_ms = 100, le_business = business_init, pcu_tx_cfg_loaded = False, le_pcu_cfg = []\<rparr>"

definition example_ctx :: logic_ctx where
  "example_ctx = ctx_init\<lparr>c_di_bits := 1, c_bms := [''BMS_2'' \<mapsto> example_item
     \<lparr>x_health := health_init\<lparr>seen_once := True, last_rx_ms := 5\<rparr>\<rparr>]\<rparr>"

lemma example_engine_facts:
  "bound_v2b (mgr_tx (le_mgr example_engine))" "bms_cmd_mgr_inited example_engine"
  "bms_cmd_tx_enabled example_engine" "last_send_ts_ms (ensure_st idx (le_mgr example_engine)) = 0"
  by (simp_all add: example_engine_def example_bound)
    (simp add: example_mgr_def mgr_init_def mgr_new_def ensure_st_def cmd_state_init_def v2b_init_def Let_def
      split: prod.splits)

lemma digit_2: "digit_char 2 = CHR ''2''"
  by (simp add: digit_char_def char_of_def bit_iff_odd)

lemma example_ctx_facts:
  "testDi (c_di_bits example_ctx) 1" "\<exists>x. c_bms example_ctx (makeName 2) = Some x \<and> may_close 9 x"
  by (simp_all add: example_ctx_def testDi_def makeName_def to_string.simps digit_2 may_close_def
      fresh_within_def example_item_def bms_item_init_def health_init_def groups_init_def st2_init_def
      fire_init_def tms_init_def ctl_init_def Let_def)

theorem tick_serves_every_due_battery_witness:
  "\<exists>sc. SendCan sc \<in> set (snd (onTick 9 (example_engine, example_ctx) [])) \<and> sc_mirror sc = None \<and>
     decodeRuntimeId (can_id (sc_frame sc)) = (True, 2, 1)"
  by (rule tick_serves_every_due_battery) (simp_all add: example_engine_facts)

theorem tick_power_on_only_when_fresh_witness:
  "\<exists>sc. SendCan sc \<in> set (snd (onTick 9 (example_engine, example_ctx) [])) \<and> sc_mirror sc = None \<and>
     (\<exists>idx \<in> {1, 2, 3, 4}. decodeRuntimeId (can_id (sc_frame sc)) = (True, idx, 1) \<and>
       (extractBitsLsb (can_data (sc_frame sc)) 8 2 = 1 \<longrightarrow>
        (\<exists>x. c_bms example_ctx (makeName idx) = Some x \<and> may_close 9 x)))"
proof -
  obtain sc where "SendCan sc \<in> set (snd (onTick 9 (example_engine, example_ctx) []))" "sc_mirror sc = None"
    using due_battery_served [of example_engine 2 9 example_ctx] example_engine_facts by auto
  with tick_power_on_only_when_fresh [OF example_engine_facts(1) this] show ?thesis by blast
qed

theorem emergency_sends_power_on_witness:
  "testDi (c_di_bits example_ctx) 1 \<and>
   (\<exists>sc. SendCan sc \<in> set (snd (onTick 9 (example_engine, example_ctx) [])) \<and> sc_mirror sc = None \<and>
     decodeRuntimeId (can_id (sc_frame sc)) = (True, 2, 1) \<and> extractBitsLsb (can_data (sc_frame sc)) 8 2 = 1)"
proof -
  obtain sc where sc: "SendCan sc \<in> set (snd (onTick 9 (example_engine, example_ctx) []))" "sc_mirror sc = None"
    "decodeRuntimeId (can_id (sc_frame sc)) = (True, 2, 1)"
    using due_battery_served [of example_engine 2 9 example_ctx] example_engine_facts by auto
  obtain x where "c_bms example_ctx (makeName 2) = Some x" "may_close 9 x" using example_ctx_facts(2) by blast
  with emergency_sends_power_on [OF example_engine_facts(1) _ sc this] example_ctx_facts(1) sc
  show ?thesis by blast
qed

section \<open>The frames to the conversion units\<close>

lemma clamp_0_10000:
  "0 \<le> lround (dbl_max (Fin 0) (dbl_min v (Fin 10000))) \<and> lround (dbl_max (Fin 0) (dbl_min v (Fin 10000))) \<le> 10000"
proof (cases v)
  case (Fin r)
  have f: "\<lfloor>x + 1 / 2\<rfloor> \<le> 10000" if "x \<le> 10000" for x :: rat
  proof -
    have "x + 1 / 2 < of_int 10000 + 1" using that by simp
    then show ?thesis by linarith
  qed
  show ?thesis using Fin f [of r] f [of 10000] by (auto simp: dbl_min_def dbl_max_def)
qed (simp_all add: dbl_min_def dbl_max_def floor_le_iff)

text \<open>What a battery must have reported for the conversion units to be enabled.\<close>

definition pcu_battery_ok :: "u64 \<Rightarrow> bms_cache_item \<Rightarrow> bool" where
  "pcu_battery_ok now x \<longleftrightarrow>
     seen_once (x_health x) \<and> fresh_within 5000 now (last_rx_ms (x_health x)) \<and>
     (last_ms (g_st2 (x_groups x)) = 0 \<or> fresh_within 3000 now (last_ms (g_st2 (x_groups x)))) \<and>
     (last_ms (g_current_limit (x_groups x)) = 0 \<or> fresh_within 3000 now (last_ms (g_current_limit (x_groups x)))) \<and>
     (last_ms (g_fault1 (x_groups x)) = 0 \<or> fresh_within 5000 now (last_ms (g_fault1 (x_groups x)))) \<and>
     (last_ms (g_fault2 (x_groups x)) = 0 \<or> fresh_within 5000 now (last_ms (g_fault2 (x_groups x)))) \<and>
     \<not> rq_hv_power_off (x_st2 x) \<and> fault_level (x_st2 x) < 2 \<and> fire_fault_level (x_fire x) < 2 \<and>
     tms_fault_level (x_tms x) < 2 \<and> hv_allow_close (x_ctl x)"

lemma critical_aged:
  "\<not> bmsCriticalForPcu (getBms (aged_ctx ts ctx) idx) \<longleftrightarrow>
     (\<exists>x. c_bms ctx (makeName idx) = Some x \<and> pcu_battery_ok ts x)"
proof (cases "c_bms ctx (makeName idx)")
  case (Some x)
  have "\<not> bmsCriticalForPcu (Some (updateOneBms ts x)) \<longleftrightarrow> pcu_battery_ok ts x"
    by (auto simp: bmsCriticalForPcu_def pcu_battery_ok_def updateOneBms_health group_stale_def age_groups_def
        age_group_def fresh_iff fresh_within_def timeout_defs Let_def not_le word_neq_0_conv)
  then show ?thesis by (simp add: getBms_def updateBmsRuntimeHealth_def Some)
qed (simp add: getBms_def updateBmsRuntimeHealth_def bmsCriticalForPcu_def)

lemma emit_pcu_one_due:
  assumes "pt_valid cfg" "tx_enable cfg" "0 \<le> pt_can_index cfg" "next_due_ms cfg \<le> now"
    "send_ctrl cfg" "send_status cfg"
  shows "emit_pcu_one r now cfg =
     (cfg\<lparr>heartbeat := heartbeat cfg + 1, next_due_ms := now + ucast (period_ms cfg)\<rparr>,
      map (\<lambda>fr. SendCan \<lparr>sc_can_index = pt_can_index cfg, sc_frame = fr,
                         sc_mirror = Some (pcu_mirror r (cfg\<lparr>next_due_ms := (if next_due_ms cfg = 0 then now else next_due_ms cfg)\<rparr>) now)\<rparr>)
        [pcu_ctrl_frame r cfg, pcu_status_frame r cfg])"
  using assms
  by (simp add: emit_pcu_one_def Let_def pcu_ctrl_frame_def pcu_status_frame_def not_less)

lemma pcu_cmds_in_tick:
  assumes "pcu_tx_cfg_loaded e" "cfg \<in> set (le_pcu_cfg e)"
  shows "\<exists>pre post. snd (onTick ts (e, ctx) []) =
     pre @ snd (emit_pcu_one (pcu_round_of (aged_ctx ts ctx)) ts cfg) @ post"
proof -
  let ?f = "\<lambda>c. snd (emit_pcu_one (pcu_round_of (aged_ctx ts ctx)) ts c)"
  obtain xs ys where "le_pcu_cfg e = xs @ cfg # ys" using assms(2) by (meson split_list)
  then have "snd (emitPcuPeriodicCommands (pcu_tx_cfg_loaded e) (aged_ctx ts ctx) ts (le_pcu_cfg e) []) =
      concat (map ?f xs) @ ?f cfg @ concat (map ?f ys)"
    using assms(1) by (simp add: emitPcuPeriodicCommands_def Let_def comp_def)
  then show ?thesis unfolding onTick_commands by (metis append.assoc append_Nil)
qed

text \<open>The discharge power of a battery in tenths of a kilowatt, judged by the data received before the tick: 0
  unless the battery is heard, its measurements and limits are recent and valid, and voltage and current are positive.\<close>

definition discharging :: "u64 \<Rightarrow> bms_cache_item \<Rightarrow> bool" where
  "discharging now x \<longleftrightarrow>
     seen_once (x_health x) \<and> fresh_within 5000 now (last_rx_ms (x_health x)) \<and>
     fresh_within 3000 now (last_ms (g_st2 (x_groups x))) \<and>
     fresh_within 3000 now (last_ms (g_current_limit (x_groups x))) \<and>
     pack_v_valid (x_st2 x) \<and> discharge_limit_valid (x_limits x) \<and>
     dbl_less (Fin 0) (pack_v (x_st2 x)) \<and> dbl_less (Fin 0) (pack_i (x_st2 x))"

definition power_x10 :: "u64 \<Rightarrow> bms_cache_item option \<Rightarrow> u16" where
  "power_x10 now b =
     (case b of None \<Rightarrow> 0
      | Some x \<Rightarrow> if discharging now x
          then word_of_int (lround (dbl_max (Fin 0)
                 (dbl_min (dbl_div (dbl_mul (pack_v (x_st2 x)) (pack_i (x_st2 x))) (Fin 100)) (Fin 10000))))
          else 0)"

lemma power_aged: "calcPcuDischargePowerKwX10 (getBms (aged_ctx ts ctx) idx) = power_x10 ts (c_bms ctx (makeName idx))"
proof (cases "c_bms ctx (makeName idx)")
  case (Some x)
  have "x_st2 (updateOneBms ts x) = x_st2 x" "x_limits (updateOneBms ts x) = x_limits x"
    "x_groups (updateOneBms ts x) = age_groups ts (x_groups x)"
    by (simp_all add: updateOneBms_def Let_def)
  then have "calcPcuDischargePowerKwX10 (Some (updateOneBms ts x)) = power_x10 ts (Some x)"
    by (simp add: calcPcuDischargePowerKwX10_def power_x10_def discharging_def updateOneBms_health age_groups_def
        age_group_def fresh_iff fresh_within_def timeout_defs Let_def)
  then show ?thesis by (simp add: getBms_def updateBmsRuntimeHealth_def Some)
qed (simp add: getBms_def updateBmsRuntimeHealth_def calcPcuDischargePowerKwX10_def power_x10_def)

lemma power_bound: "power_x10 now b \<le> 10000"
proof -
  have w: "(word_of_int i :: u16) \<le> 10000" if "0 \<le> i \<and> i \<le> 10000" for i
    using that by (simp add: word_le_def uint_word_of_int)
  show ?thesis unfolding power_x10_def by (simp add: w [OF clamp_0_10000] split: option.splits)
qed

lemma round_aged:
  "pcu_round_of (aged_ctx ts ctx) =
     (let es = system_estop (c_faults ctx) \<or> testDi (c_di_bits ctx) 1;
          ok = (\<lambda>idx. \<exists>x. c_bms ctx (makeName idx) = Some x \<and> pcu_battery_ok ts x)
      in \<lparr>plug_state = calcPcuPlugState ctx, estop_by_io = es, batt1_estop = (\<not> ok 1), batt2_estop = (\<not> ok 2),
          system_enable_all = (\<not> es \<and> ok 1 \<and> ok 2),
          batt1_kw_x10 = power_x10 ts (c_bms ctx (makeName 1)), batt2_kw_x10 = power_x10 ts (c_bms ctx (makeName 2))\<rparr>)"
  by (simp add: pcu_round_of_def Let_def critical_aged [symmetric] power_aged calcPcuPlugState_def)

text \<open>C8: the frames to a conversion unit. In a tick at which an enabled unit is due, two commands stand next to each
  other: its control frame and then its status frame, on the unit's bus and under the unit's two identifiers. The bytes of the control frame
  are the heartbeat, the plug state, the emergency stop, for each battery the flag that it is not fit, two zeros, and the system
  enable. A battery is fit if it was heard within 5 s, has no stale critical message, requests no power-off, reports
  no level of 2 or more and its cache entry allows to close the contactors. The system enable is 1 exactly if no
  emergency stop is active and both batteries are fit. The
  status frame holds the discharge powers of the two batteries, low byte first and never above 1000.0 kW,
  and the configured numbers of branches. The heartbeat advances by one modulo 256, and the next frames are due one period
  later.\<close>

theorem pcu_frames_of_tick:
  assumes "pcu_tx_cfg_loaded e" "cfg \<in> set (le_pcu_cfg e)"
    and "pt_valid cfg" "tx_enable cfg" "0 \<le> pt_can_index cfg" "next_due_ms cfg \<le> ts"
    and "send_ctrl cfg" "send_status cfg"
    and "fit = (\<lambda>idx. \<exists>x. c_bms ctx (makeName idx) = Some x \<and> pcu_battery_ok ts x)"
    and "stop = (system_estop (c_faults ctx) \<or> testDi (c_di_bits ctx) 1)"
    and "k1 = power_x10 ts (c_bms ctx (makeName 1))" and "k2 = power_x10 ts (c_bms ctx (makeName 2))"
  shows "\<exists>pre ctrl stat post. snd (onTick ts (e, ctx) []) = pre @ [SendCan ctrl, SendCan stat] @ post \<and>
      sc_can_index ctrl = pt_can_index cfg \<and> sc_can_index stat = pt_can_index cfg \<and>
      can_id (sc_frame ctrl) = (id_emu_ctrl cfg AND CAN_EFF_MASK) OR CAN_EFF_FLAG \<and>
      can_data (sc_frame ctrl) =
        [heartbeat cfg, if calcPcuPlugState ctx then 1 else 0, if stop then 1 else 0, if fit 1 then 0 else 1,
         if fit 2 then 0 else 1, 0, 0, if \<not> stop \<and> fit 1 \<and> fit 2 then 1 else 0] \<and>
      can_id (sc_frame stat) = (id_emu_status cfg AND CAN_EFF_MASK) OR CAN_EFF_FLAG \<and>
      can_data (sc_frame stat) =
        [lo8 k1, hi8 k1, lo8 k2, hi8 k2, batt1_branches cfg, batt2_branches cfg, 0, 0] \<and>
      k1 \<le> 10000 \<and> k2 \<le> 10000 \<and>
      cfg\<lparr>heartbeat := heartbeat cfg + 1, next_due_ms := ts + ucast (period_ms cfg)\<rparr>
        \<in> set (le_pcu_cfg (fst (fst (onTick ts (e, ctx) []))))"
proof -
  define r where "r = pcu_round_of (aged_ctx ts ctx)"
  note one = emit_pcu_one_due [OF assms(3-8), of r]
  define d where "d = pcu_mirror r (cfg\<lparr>next_due_ms := (if next_due_ms cfg = 0 then ts else next_due_ms cfg)\<rparr>) ts"
  define ctrl where "ctrl = \<lparr>sc_can_index = pt_can_index cfg, sc_frame = pcu_ctrl_frame r cfg, sc_mirror = Some d\<rparr>"
  define stat where "stat = \<lparr>sc_can_index = pt_can_index cfg, sc_frame = pcu_status_frame r cfg, sc_mirror = Some d\<rparr>"
  have cfgs: "le_pcu_cfg (fst (fst (onTick ts (e, ctx) []))) = map (\<lambda>c. fst (emit_pcu_one r ts c)) (le_pcu_cfg e)"
    using assms(1) by (simp add: onTick_def Let_def split_beta emitPcuPeriodicCommands_def r_def aged_ctx_def
        updatePcuRuntimeHealth_def)
  have two: "snd (emit_pcu_one r ts cfg) = [SendCan ctrl, SendCan stat]" using one by (simp add: ctrl_def stat_def d_def)
  obtain pre post where split: "snd (onTick ts (e, ctx) []) = pre @ [SendCan ctrl, SendCan stat] @ post"
    using pcu_cmds_in_tick [OF assms(1,2), of ts ctx] unfolding r_def [symmetric] two by blast
  have ri: "r = \<lparr>plug_state = calcPcuPlugState ctx, estop_by_io = stop, batt1_estop = (\<not> fit 1), batt2_estop = (\<not> fit 2),
      system_enable_all = (\<not> stop \<and> fit 1 \<and> fit 2), batt1_kw_x10 = k1, batt2_kw_x10 = k2\<rparr>"
    unfolding r_def round_aged assms(9-12) Let_def by simp
  have frames: "sc_frame ctrl = pcu_ctrl_frame r cfg" "sc_frame stat = pcu_status_frame r cfg"
    "sc_can_index ctrl = pt_can_index cfg" "sc_can_index stat = pt_can_index cfg" by (simp_all add: ctrl_def stat_def)
  have "fst (emit_pcu_one r ts cfg) \<in> set (le_pcu_cfg (fst (fst (onTick ts (e, ctx) []))))"
    using assms(2) cfgs by simp
  then have kept: "cfg\<lparr>heartbeat := heartbeat cfg + 1, next_due_ms := ts + ucast (period_ms cfg)\<rparr>
      \<in> set (le_pcu_cfg (fst (fst (onTick ts (e, ctx) []))))" unfolding one by simp
  show ?thesis
    using split kept frames
    by (intro exI [of _ pre] exI [of _ ctrl] exI [of _ stat] exI [of _ post])
      (simp add: pcu_ctrl_frame_def buildEmuCtrl_def pcu_status_frame_def buildEmuStatus_def ri b8_def
        assms(11,12) power_bound)
qed

definition example_pcu_cfg :: pcu_tx_cfg where
  "example_pcu_cfg = \<lparr>pt_valid = True, pt_can_index = 1, pcu_instance = 1, tx_enable = True, send_ctrl = True,
     send_status = True, period_ms = 100, next_due_ms = 0, id_emu_ctrl = 0x1801A0E0, id_emu_status = 0x1802A0E0,
     heartbeat = 255, batt1_branches = 1, batt2_branches = 1\<rparr>"

theorem pcu_frames_of_tick_witness:
  "\<exists>pre ctrl stat post. snd (onTick 9
      (example_engine\<lparr>pcu_tx_cfg_loaded := True, le_pcu_cfg := [example_pcu_cfg]\<rparr>, example_ctx) []) =
        pre @ [SendCan ctrl, SendCan stat] @ post \<and>
     can_data (sc_frame ctrl) ! 0 = 255 \<and> can_data (sc_frame ctrl) ! 7 = 0 \<and> can_data (sc_frame stat) ! 4 = 1"
proof -
  let ?e = "example_engine\<lparr>pcu_tx_cfg_loaded := True, le_pcu_cfg := [example_pcu_cfg]\<rparr>"
  have c: "heartbeat example_pcu_cfg = 255" "batt1_branches example_pcu_cfg = 1" by (simp_all add: example_pcu_cfg_def)
  have "pcu_tx_cfg_loaded ?e" "example_pcu_cfg \<in> set (le_pcu_cfg ?e)" "pt_valid example_pcu_cfg"
    "tx_enable example_pcu_cfg" "0 \<le> pt_can_index example_pcu_cfg" "next_due_ms example_pcu_cfg \<le> 9"
    "send_ctrl example_pcu_cfg" "send_status example_pcu_cfg" by (simp_all add: example_pcu_cfg_def)
  from pcu_frames_of_tick [OF this refl refl refl refl, of example_ctx]
  obtain pre ctrl stat post where
    "snd (onTick 9 (?e, example_ctx) []) = pre @ [SendCan ctrl, SendCan stat] @ post"
    "can_data (sc_frame ctrl) ! 0 = 255" "can_data (sc_frame ctrl) ! 7 = 0" "can_data (sc_frame stat) ! 4 = 1"
    using example_ctx_facts(1) unfolding c by auto
  then show ?thesis by blast
qed

end
