(* ===== verification/Fault_Catalog.thy ===== *)
theory Fault_Catalog
  imports Device_Data "HOL-Library.Product_Lexorder"
begin

text \<open>
  The catalogue of fault codes (\<open>services/control/fault/fault_catalog.cpp\<close>): the lenient conversions of
  JSON values, the parse of a fault code, the load of the catalogue and its queries. The JSON reader is
  library code, so the model starts from what it delivers: a file that cannot be opened, or a list of
  lines, each not parsable, without a list of items, or with its items; in an item, the text fields that
  \<open>value\<close> reads are texts or missing and the other fields are JSON values or missing.
\<close>

section \<open>Numbers in texts\<close>

definition is_space :: "char \<Rightarrow> bool" where
  "is_space c = (let n = (of_char c :: nat) in n = 32 \<or> (9 \<le> n \<and> n \<le> 13))"

definition digit_val :: "char \<Rightarrow> nat" where
  "digit_val c = (let n = (of_char c :: nat) in
     if 48 \<le> n \<and> n \<le> 57 then n - 48
     else if 65 \<le> n \<and> n \<le> 90 then n - 55
     else if 97 \<le> n \<and> n \<le> 122 then n - 87 else 99)"

fun digits_val :: "nat \<Rightarrow> string \<Rightarrow> nat \<Rightarrow> nat" where
  "digits_val base [] acc = acc"
| "digits_val base (c # cs) acc =
     (if digit_val c < base then digits_val base cs (acc * base + digit_val c) else acc)"

definition strip_0x :: "nat \<Rightarrow> string \<Rightarrow> string" where
  "strip_0x base s =
     (case s of z # x # d # r \<Rightarrow>
        if base = 16 \<and> z = CHR ''0'' \<and> (x = CHR ''x'' \<or> x = CHR ''X'') \<and> digit_val d < 16 then d # r else s
      | _ \<Rightarrow> s)"

text \<open>The conversion all of \<open>std::stoul\<close> and \<open>std::stoi\<close> share: white space, a sign, a prefix in base 16, and
  as many digits as there are. None stands for the exception of a text without digits.\<close>

definition sto_parts :: "nat \<Rightarrow> string \<Rightarrow> (bool \<times> nat) option" where
  "sto_parts base s =
     (let t = dropWhile is_space s;
          neg = (t \<noteq> [] \<and> hd t = CHR ''-'');
          u = (if t \<noteq> [] \<and> (hd t = CHR ''-'' \<or> hd t = CHR ''+'') then tl t else t);
          v = strip_0x base u
      in case v of [] \<Rightarrow> None
         | c # _ \<Rightarrow> if digit_val c < base then Some (neg, digits_val base v 0) else None)"

definition stoul :: "nat \<Rightarrow> string \<Rightarrow> nat option" where
  "stoul base s =
     (case sto_parts base s of None \<Rightarrow> None
      | Some (neg, n) \<Rightarrow>
          if 2 ^ 64 \<le> n then None else if neg \<and> n \<noteq> 0 then Some (2 ^ 64 - n) else Some n)"

definition stoi :: "string \<Rightarrow> int option" where
  "stoi s =
     (case sto_parts 10 s of None \<Rightarrow> None
      | Some (neg, n) \<Rightarrow>
          let i = (if neg then - int n else int n) in
          if i < - (2 ^ 31) \<or> 2 ^ 31 \<le> i then None else Some i)"

text \<open>\<open>std::stoul\<close> with base 0 takes the base from the prefix of the digits.\<close>

definition prefix_base :: "string \<Rightarrow> nat" where
  "prefix_base s =
     (let t = dropWhile is_space s;
          u = (if t \<noteq> [] \<and> (hd t = CHR ''-'' \<or> hd t = CHR ''+'') then tl t else t)
      in if strip_0x 16 u \<noteq> u then 16 else if u \<noteq> [] \<and> hd u = CHR ''0'' then 8 else 10)"

definition trim :: "string \<Rightarrow> string" where
  "trim s = rev (dropWhile is_space (rev (dropWhile is_space s)))"

definition parseHexU16 :: "string \<Rightarrow> u16 option" where
  "parseHexU16 s =
     (let t = (if take 2 s = ''0x'' \<or> take 2 s = ''0X'' then drop 2 s else s) in
      if t = [] then None
      else case stoul 16 t of None \<Rightarrow> None
        | Some v \<Rightarrow> if 0xFFFF < v then None else Some (of_nat v))"

definition parseCode :: "string \<Rightarrow> u16 option" where
  "parseCode s =
     (case parseHexU16 s of Some c \<Rightarrow> Some c
      | None \<Rightarrow>
          (case stoul 10 s of None \<Rightarrow> None
           | Some v \<Rightarrow> if 0xFFFF < v then None else Some (of_nat v)))"

section \<open>JSON values\<close>

text \<open>\<open>JNum\<close> is an integer; the other shapes (null, fractions, lists, objects) are \<open>JOther\<close>.\<close>

datatype json_value = JBool bool | JNum int | JStr string | JOther

definition to_lower :: "char \<Rightarrow> char" where
  "to_lower c = (let n = (of_char c :: nat) in if 65 \<le> n \<and> n \<le> 90 then char_of (n + 32) else c)"

definition parseBoolLoose :: "json_value option \<Rightarrow> bool \<Rightarrow> bool" where
  "parseBoolLoose v defv =
     (case v of None \<Rightarrow> defv
      | Some (JBool b) \<Rightarrow> b
      | Some (JNum i) \<Rightarrow> i \<noteq> 0
      | Some (JStr s) \<Rightarrow>
          let t = map to_lower s in
          if t = ''1'' \<or> t = ''true'' \<or> t = ''yes'' \<or> t = ''y'' then True
          else if t = ''0'' \<or> t = ''false'' \<or> t = ''no'' \<or> t = ''n'' then False
          else defv
      | Some JOther \<Rightarrow> defv)"

definition parseIntLoose :: "json_value option \<Rightarrow> int \<Rightarrow> int" where
  "parseIntLoose v defv =
     (case v of Some (JNum i) \<Rightarrow> sint (word_of_int i :: 32 word)
      | Some (JStr s) \<Rightarrow> (case stoi s of None \<Rightarrow> defv | Some i \<Rightarrow> i)
      | _ \<Rightarrow> defv)"

definition parseClassificationFlags :: "string \<Rightarrow> bool \<times> bool" where
  "parseClassificationFlags c =
     (if c = ''A1'' \<or> c = ''B1'' then (True, True) else if c = ''C1'' then (False, True) else (False, False))"

section \<open>The catalogue\<close>

record fault_meta =
  fm_code :: u16
  fm_code_hex :: string
  fm_name :: string
  fault_type :: string
  fault_level_text :: string
  classification :: string
  record_db :: bool
  show_hmi_current :: bool
  show_hmi_history :: bool
  fm_reserved :: bool
  priority_rank :: int
  source_order :: int

record fault_item =
  it_code_hex :: "string option"
  it_path :: "string option"
  it_name :: "string option"
  it_fault_type :: "string option"
  it_fault_level :: "string option"
  it_classification :: "string option"
  it_record_db :: "json_value option"
  it_reserved :: "json_value option"
  it_priority_rank :: "json_value option"
  it_source_order :: "json_value option"
  it_show_current :: "json_value option"
  it_show_history :: "json_value option"

datatype jsonl_line = Unparsable | NoItems | Items "fault_item list"

record fault_catalog =
  all_codes :: "u16 list"
  current_codes :: "u16 list"
  history_codes :: "u16 list"
  meta_by_code :: "fault_meta list"

definition text_or :: "string \<Rightarrow> string option \<Rightarrow> string" where
  "text_or d v = (case v of None \<Rightarrow> d | Some s \<Rightarrow> s)"

definition metaOf :: "fault_catalog \<Rightarrow> u16 \<Rightarrow> fault_meta option" where
  "metaOf cat c = find (\<lambda>m. fm_code m = c) (meta_by_code cat)"

definition showInCurrent :: "fault_catalog \<Rightarrow> u16 \<Rightarrow> bool" where
  "showInCurrent cat c = (case metaOf cat c of None \<Rightarrow> False | Some m \<Rightarrow> show_hmi_current m)"

definition showInHistory :: "fault_catalog \<Rightarrow> u16 \<Rightarrow> bool" where
  "showInHistory cat c = (case metaOf cat c of None \<Rightarrow> False | Some m \<Rightarrow> show_hmi_history m)"

definition item_code :: "fault_item \<Rightarrow> u16 option" where
  "item_code it =
     (let s = text_or [] (it_code_hex it);
          s = (if s = [] then text_or [] (it_path it) else s)
      in if s = [] then None else parseCode s)"

definition item_meta :: "fault_item \<Rightarrow> int \<Rightarrow> u16 \<Rightarrow> fault_meta" where
  "item_meta it order code =
     (let s = text_or [] (it_code_hex it);
          s = (if s = [] then text_or [] (it_path it) else s);
          cls = text_or [] (it_classification it);
          (cur, his) =
            (if it_show_current it = None \<and> it_show_history it = None then parseClassificationFlags cls
             else (parseBoolLoose (it_show_current it) False, parseBoolLoose (it_show_history it) False))
      in \<lparr>fm_code = code, fm_code_hex = text_or s (it_code_hex it), fm_name = text_or [] (it_name it),
          fault_type = text_or [] (it_fault_type it), fault_level_text = text_or [] (it_fault_level it),
          classification = cls, record_db = parseBoolLoose (it_record_db it) True,
          show_hmi_current = cur, show_hmi_history = his, fm_reserved = parseBoolLoose (it_reserved it) False,
          priority_rank = parseIntLoose (it_priority_rank it) 9999,
          source_order = parseIntLoose (it_source_order it) order\<rparr>)"

definition better :: "fault_meta \<Rightarrow> fault_meta \<Rightarrow> bool" where
  "better m old \<longleftrightarrow> priority_rank m < priority_rank old \<or>
     (priority_rank m = priority_rank old \<and> source_order m < source_order old)"

text \<open>\<open>emplace\<close>, and the replacement by a better entry. The store is a list in order of insertion.\<close>

fun put_meta :: "fault_meta \<Rightarrow> fault_meta list \<Rightarrow> fault_meta list" where
  "put_meta m [] = [m]"
| "put_meta m (x # xs) =
     (if fm_code x = fm_code m then (if better m x then m else x) # xs else x # put_meta m xs)"

definition add_item :: "fault_meta list \<times> int \<Rightarrow> fault_item \<Rightarrow> fault_meta list \<times> int" where
  "add_item st it =
     (case item_code it of None \<Rightarrow> st
      | Some code \<Rightarrow> (put_meta (item_meta it (snd st) code) (fst st), snd st + 1))"

fun add_lines :: "jsonl_line list \<Rightarrow> fault_meta list \<times> int \<Rightarrow> bool \<times> fault_meta list" where
  "add_lines [] st = (True, fst st)"
| "add_lines (Unparsable # ls) st = (False, fst st)"
| "add_lines (NoItems # ls) st = add_lines ls st"
| "add_lines (Items its # ls) st = add_lines ls (foldl add_item st its)"

definition meta_key :: "fault_meta \<Rightarrow> int \<times> int \<times> u16" where
  "meta_key m = (priority_rank m, source_order m, fm_code m)"

definition loadJsonl :: "jsonl_line list option \<Rightarrow> bool \<times> fault_catalog" where
  "loadJsonl file =
     (case file of
        None \<Rightarrow> (False, \<lparr>all_codes = [], current_codes = [], history_codes = [], meta_by_code = []\<rparr>)
      | Some ls \<Rightarrow>
          (case add_lines ls ([], 0) of (ok, store) \<Rightarrow>
             if \<not> ok then (False, \<lparr>all_codes = [], current_codes = [], history_codes = [], meta_by_code = store\<rparr>)
             else let metas = sort_key meta_key store in
               (True, \<lparr>all_codes = map fm_code metas,
                 current_codes = map fm_code (filter show_hmi_current metas),
                 history_codes = map fm_code (filter show_hmi_history metas),
                 meta_by_code = store\<rparr>)))"

section \<open>Hexadecimal codes\<close>

lemma hex_char_code: "n < 16 \<Longrightarrow> (of_char (hex_char n) :: nat) = (if n < 10 then 48 + n else 55 + n)"
  by (simp add: hex_char_def)

lemma hex_char_facts:
  assumes "n < 16"
  shows "digit_val (hex_char n) = n" "\<not> is_space (hex_char n)" "hex_char n \<noteq> CHR ''-''"
    "hex_char n \<noteq> CHR ''+''" "hex_char n \<noteq> CHR ''x''" "hex_char n \<noteq> CHR ''X''"
proof -
  show "digit_val (hex_char n) = n" "\<not> is_space (hex_char n)"
    using assms by (auto simp: digit_val_def is_space_def hex_char_code Let_def)
  have "hex_char n \<noteq> c" if "(of_char c :: nat) \<notin> {48..57} \<union> {65..70}" for c
    using hex_char_code [OF assms] assms that by (auto split: if_splits)
  then show "hex_char n \<noteq> CHR ''-''" "hex_char n \<noteq> CHR ''+''" "hex_char n \<noteq> CHR ''x''" "hex_char n \<noteq> CHR ''X''"
    by simp_all
qed

text \<open>The format \<open>0x%04X\<close> the fault map writes its codes in.\<close>

definition hex0x4 :: "u16 \<Rightarrow> string" where
  "hex0x4 w = ''0x'' @ map (\<lambda>i. hex_char (unat w div 16 ^ i mod 16)) [3, 2, 1, 0]"

lemma nibbles:
  assumes "n < 65536"
  shows "((n div 4096 * 16 + n div 256 mod 16) * 16 + n div 16 mod 16) * 16 + n mod 16 = (n :: nat)"
proof -
  have "n div 256 = n div 16 div 16" "n div 4096 = n div 256 div 16" by (simp_all flip: div_mult2_eq)
  then have "n = 16 * (n div 16) + n mod 16" "n div 16 = 16 * (n div 256) + n div 16 mod 16"
    "n div 256 = 16 * (n div 4096) + n div 256 mod 16" by simp_all
  moreover have "((A * 16 + B) * 16 + C) * 16 + D = k" if "k = 16 * p + D" "p = 16 * q + C" "q = 16 * A + B"
    for A B C D k p q :: nat using that by simp
  ultimately show ?thesis by blast
qed

lemma unat_u16_bound: "unat (w :: u16) < 65536"
  using unsigned_less [of w] by simp

lemma sto_parts_hex4:
  assumes "a < 16" "b < 16" "c < 16" "d < 16"
  shows "sto_parts 16 [hex_char a, hex_char b, hex_char c, hex_char d] =
     Some (False, ((a * 16 + b) * 16 + c) * 16 + d)"
proof -
  note f = hex_char_facts [OF assms(1)] hex_char_facts [OF assms(2)]
    hex_char_facts [OF assms(3)] hex_char_facts [OF assms(4)]
  have "strip_0x 16 [hex_char a, hex_char b, hex_char c, hex_char d] = [hex_char a, hex_char b, hex_char c, hex_char d]"
    using f by (simp add: strip_0x_def)
  moreover have "digits_val 16 [hex_char a, hex_char b, hex_char c, hex_char d] 0 = ((a * 16 + b) * 16 + c) * 16 + d"
    using f assms by simp
  ultimately show ?thesis
    using f assms by (simp add: sto_parts_def)
qed

lemma parse_hex0x4: "parseHexU16 (hex0x4 w) = Some w"
proof -
  let ?d = "\<lambda>i. unat w div 16 ^ i mod 16"
  have w: "unat w div 4096 < 16" using unat_u16_bound [of w] by (simp add: less_mult_imp_div_less)
  have h: "hex0x4 w = ''0x'' @ [hex_char (unat w div 4096), hex_char (unat w div 256 mod 16),
      hex_char (unat w div 16 mod 16), hex_char (unat w mod 16)]"
    using w by (simp add: hex0x4_def)
  show ?thesis
    unfolding parseHexU16_def h stoul_def Let_def
    using nibbles [OF unat_u16_bound [of w]] unat_u16_bound [of w] w by (simp add: sto_parts_hex4)
qed

section \<open>Loading\<close>

lemma put_meta_codes: "fm_code ` set (put_meta m xs) = insert (fm_code m) (fm_code ` set xs)"
  by (induction xs) auto

lemma put_meta_distinct: "distinct (map fm_code xs) \<Longrightarrow> distinct (map fm_code (put_meta m xs))"
proof (induction xs)
  case (Cons x xs)
  have "fm_code x \<in> set (map fm_code (put_meta m xs)) \<longleftrightarrow> fm_code x = fm_code m \<or> fm_code x \<in> set (map fm_code xs)"
    using put_meta_codes [of m xs] by auto
  with Cons show ?case by auto
qed simp

lemma put_meta_mem: "y \<in> set (put_meta m xs) \<Longrightarrow> y = m \<or> y \<in> set xs"
  by (induction xs) (auto split: if_splits)

lemma put_meta_keeps:
  "x \<in> set xs \<Longrightarrow> \<exists>y \<in> set (put_meta m xs). fm_code y = fm_code x \<and> priority_rank y \<le> priority_rank x"
  by (induction xs) (auto simp: better_def split: if_splits)

lemma put_meta_new: "\<exists>y \<in> set (put_meta m xs). fm_code y = fm_code m \<and> priority_rank y \<le> priority_rank m"
  by (induction xs) (auto simp: better_def split: if_splits)

lemma item_meta_simps [simp]:
  "fm_code (item_meta it n c) = c"
  "priority_rank (item_meta it n c) = parseIntLoose (it_priority_rank it) 9999"
  by (simp_all add: item_meta_def Let_def split: prod.splits)

definition store_ok :: "fault_item list \<Rightarrow> fault_meta list \<Rightarrow> bool" where
  "store_ok its store \<longleftrightarrow>
     distinct (map fm_code store) \<and>
     (\<forall>m \<in> set store. \<exists>it \<in> set its. \<exists>n. item_code it = Some (fm_code m) \<and> m = item_meta it n (fm_code m)) \<and>
     (\<forall>it \<in> set its. \<forall>c. item_code it = Some c \<longrightarrow>
        (\<exists>m \<in> set store. fm_code m = c \<and> priority_rank m \<le> parseIntLoose (it_priority_rank it) 9999))"

lemma store_ok_items: "store_ok its (fst (foldl add_item ([], 0) its))"
proof (induction its rule: rev_induct)
  case (snoc it its)
  let ?st = "foldl add_item ([], 0) its"
  show ?case
  proof (cases "item_code it")
    case None
    with snoc show ?thesis by (auto simp: store_ok_def add_item_def)
  next
    case (Some c)
    let ?m = "item_meta it (snd ?st) c"
    have s: "fst (foldl add_item ([], 0) (its @ [it])) = put_meta ?m (fst ?st)" by (simp add: add_item_def Some)
    have "\<exists>it' \<in> set (its @ [it]). \<exists>n. item_code it' = Some (fm_code y) \<and> y = item_meta it' n (fm_code y)"
      if "y \<in> set (put_meta ?m (fst ?st))" for y
      using put_meta_mem [OF that] snoc Some by (fastforce simp: store_ok_def)
    moreover have "\<exists>y \<in> set (put_meta ?m (fst ?st)). fm_code y = k \<and>
        priority_rank y \<le> parseIntLoose (it_priority_rank it') 9999"
      if "it' \<in> set (its @ [it])" "item_code it' = Some k" for it' k
    proof (cases "it' \<in> set its")
      case True
      with snoc that(2) obtain x where "x \<in> set (fst ?st)" "fm_code x = k"
        "priority_rank x \<le> parseIntLoose (it_priority_rank it') 9999" unfolding store_ok_def by blast
      with put_meta_keeps [of x "fst ?st" ?m] show ?thesis by force
    next
      case False
      with that Some have "it' = it" "k = c" by auto
      with put_meta_new [of ?m "fst ?st"] show ?thesis by simp
    qed
    ultimately show ?thesis
      unfolding s store_ok_def using snoc by (simp add: store_ok_def put_meta_distinct)
  qed
qed (simp add: store_ok_def)

fun items_of :: "jsonl_line list \<Rightarrow> fault_item list" where
  "items_of [] = []"
| "items_of (Items its # ls) = its @ items_of ls"
| "items_of (_ # ls) = items_of ls"

lemma add_lines_items:
  "add_lines ls st = (True, store) \<Longrightarrow> store = fst (foldl add_item st (items_of ls))"
  by (induction ls st rule: add_lines.induct) auto

lemma metaOf_in:
  assumes "distinct (map fm_code (meta_by_code cat))"
  shows "metaOf cat c = Some m \<longleftrightarrow> m \<in> set (meta_by_code cat) \<and> fm_code m = c"
proof -
  have "find (\<lambda>m. fm_code m = c) xs = Some m \<longleftrightarrow> m \<in> set xs \<and> fm_code m = c" if "distinct (map fm_code xs)" for xs
    using that
  proof (induction xs)
    case (Cons x xs)
    then have "fm_code x \<notin> fm_code ` set xs" by simp
    then have "fm_code m \<noteq> fm_code x" if "m \<in> set xs" using that by (metis imageI)
    with Cons show ?case by (cases "fm_code x = c") auto
  qed simp
  with assms show ?thesis by (simp add: metaOf_def)
qed

lemma sort_key_strict:
  assumes "distinct (map f xs)" "\<And>x y. k x = k y \<Longrightarrow> f x = f y"
  shows "sorted_wrt (<) (map k (sort_key k xs))"
proof -
  have "inj_on k (set xs)"
    using assms by (intro inj_onI) (metis distinct_map inj_onD)
  then have "distinct (map k (sort_key k xs))"
    using assms(1) by (simp add: distinct_map)
  then show ?thesis by (simp add: strict_sorted_iff)
qed

section \<open>Properties\<close>

lemma load_store:
  assumes "loadJsonl (Some ls) = (True, cat)"
  shows "store_ok (items_of ls) (meta_by_code cat)"
    "all_codes cat = map fm_code (sort_key meta_key (meta_by_code cat))"
    "current_codes cat = map fm_code (filter show_hmi_current (sort_key meta_key (meta_by_code cat)))"
    "history_codes cat = map fm_code (filter show_hmi_history (sort_key meta_key (meta_by_code cat)))"
proof -
  obtain store where st: "add_lines ls ([], 0) = (True, store)" and c: "cat =
      (let metas = sort_key meta_key store in \<lparr>all_codes = map fm_code metas,
         current_codes = map fm_code (filter show_hmi_current metas),
         history_codes = map fm_code (filter show_hmi_history metas), meta_by_code = store\<rparr>)"
    using assms by (cases "add_lines ls ([], 0)") (auto simp: loadJsonl_def Let_def split: if_splits)
  then show "store_ok (items_of ls) (meta_by_code cat)"
    using add_lines_items [OF st] store_ok_items [of "items_of ls"] by (simp add: Let_def)
  show "all_codes cat = map fm_code (sort_key meta_key (meta_by_code cat))"
    "current_codes cat = map fm_code (filter show_hmi_current (sort_key meta_key (meta_by_code cat)))"
    "history_codes cat = map fm_code (filter show_hmi_history (sort_key meta_key (meta_by_code cat)))"
    by (simp_all add: c Let_def)
qed

lemma store_distinct: "store_ok its store \<Longrightarrow> distinct (map fm_code store)"
  by (simp add: store_ok_def)

lemma store_codes:
  assumes "store_ok its store"
  shows "fm_code ` set store = {c. \<exists>it \<in> set its. item_code it = Some c}" (is "?l = ?r")
proof (intro equalityI subsetI)
  fix c assume "c \<in> ?l"
  then show "c \<in> ?r" using assms unfolding store_ok_def by blast
next
  fix c assume "c \<in> ?r"
  then obtain m where "m \<in> set store" "fm_code m = c" using assms unfolding store_ok_def by blast
  then show "c \<in> ?l" by blast
qed

lemma metaOf_sorted:
  assumes "distinct (map fm_code (meta_by_code cat))" "m \<in> set (meta_by_code cat)"
  shows "metaOf cat (fm_code m) = Some m"
  using assms by (simp add: metaOf_in)

lemma load_current_codes:
  assumes "loadJsonl (Some ls) = (True, cat)"
  shows "distinct (current_codes cat)" "set (current_codes cat) = {c. showInCurrent cat c}"
proof -
  note l = load_store [OF assms]
  have d: "distinct (map fm_code (meta_by_code cat))" by (rule store_distinct [OF l(1)])
  then show "distinct (current_codes cat)" by (simp add: l(3) distinct_map inj_on_def)
  have "showInCurrent cat c \<longleftrightarrow> (\<exists>m \<in> set (meta_by_code cat). show_hmi_current m \<and> fm_code m = c)" for c
  proof
    assume "showInCurrent cat c"
    then show "\<exists>m \<in> set (meta_by_code cat). show_hmi_current m \<and> fm_code m = c"
      using metaOf_in [OF d, of c] by (cases "metaOf cat c") (auto simp: showInCurrent_def)
  next
    assume "\<exists>m \<in> set (meta_by_code cat). show_hmi_current m \<and> fm_code m = c"
    then show "showInCurrent cat c" using metaOf_sorted [OF d] by (auto simp: showInCurrent_def)
  qed
  then show "set (current_codes cat) = {c. showInCurrent cat c}" by (auto simp: l(3))
qed

text \<open>C21: a catalogue that loads lists every code that some item of the file names, once each, in order of
  priority, then source order, then code; the codes shown as current and as history are those of the
  list whose entry says so, in the same order; and the entry of a code comes from an item with that code,
  of the best priority among them.\<close>

theorem catalogue_correct:
  assumes "loadJsonl (Some ls) = (True, cat)"
  shows "sorted_wrt (<) (map (\<lambda>c. meta_key (the (metaOf cat c))) (all_codes cat))
    \<and> distinct (all_codes cat)
    \<and> set (all_codes cat) = {c. \<exists>it \<in> set (items_of ls). item_code it = Some c}
    \<and> current_codes cat = filter (showInCurrent cat) (all_codes cat)
    \<and> history_codes cat = filter (showInHistory cat) (all_codes cat)
    \<and> (\<forall>it \<in> set (items_of ls). \<forall>c. item_code it = Some c \<longrightarrow>
         (\<exists>it' \<in> set (items_of ls). \<exists>n. item_code it' = Some c \<and> metaOf cat c = Some (item_meta it' n c)
            \<and> priority_rank (item_meta it' n c) \<le> parseIntLoose (it_priority_rank it) 9999))"
proof -
  note l = load_store [OF assms]
  let ?s = "meta_by_code cat" let ?ms = "sort_key meta_key ?s"
  have d: "distinct (map fm_code ?s)" by (rule store_distinct [OF l(1)])
  have m: "metaOf cat (fm_code x) = Some x" if "x \<in> set ?s" for x using metaOf_sorted [OF d that] .
  have "map (\<lambda>c. meta_key (the (metaOf cat c))) (all_codes cat) = map meta_key ?ms"
    using m by (simp add: l(2))
  then have "sorted_wrt (<) (map (\<lambda>c. meta_key (the (metaOf cat c))) (all_codes cat))"
    using sort_key_strict [OF d, of meta_key] by (simp add: meta_key_def)
  moreover have "distinct (all_codes cat)" using d by (simp add: l(2) distinct_map)
  moreover have "set (all_codes cat) = {c. \<exists>it \<in> set (items_of ls). item_code it = Some c}"
    using store_codes [OF l(1)] by (simp add: l(2))
  moreover have "filter (showInCurrent cat \<circ> fm_code) ?ms = filter show_hmi_current ?ms"
    "filter (showInHistory cat \<circ> fm_code) ?ms = filter show_hmi_history ?ms"
    by (rule filter_cong; simp add: showInCurrent_def showInHistory_def m)+
  then have "current_codes cat = filter (showInCurrent cat) (all_codes cat)"
    "history_codes cat = filter (showInHistory cat) (all_codes cat)"
    by (simp_all add: l(2-4) filter_map)
  moreover have "\<exists>it' \<in> set (items_of ls). \<exists>n. item_code it' = Some c \<and> metaOf cat c = Some (item_meta it' n c)
            \<and> priority_rank (item_meta it' n c) \<le> parseIntLoose (it_priority_rank it) 9999"
    if i: "it \<in> set (items_of ls)" "item_code it = Some c" for it c
  proof -
    obtain x where x: "x \<in> set ?s" "fm_code x = c" "priority_rank x \<le> parseIntLoose (it_priority_rank it) 9999"
      using l(1) i unfolding store_ok_def by blast
    then obtain it' n where "it' \<in> set (items_of ls)" "item_code it' = Some c" "x = item_meta it' n c"
      using l(1) unfolding store_ok_def by blast
    with x m [OF x(1)] show ?thesis by auto
  qed
  ultimately show ?thesis by blast
qed

definition example_fault_item :: "string \<Rightarrow> int \<Rightarrow> fault_item" where
  "example_fault_item c rank = \<lparr>it_code_hex = Some c, it_path = None, it_name = None, it_fault_type = None,
     it_fault_level = None, it_classification = Some ''A1'', it_record_db = None, it_reserved = None,
     it_priority_rank = Some (JNum rank), it_source_order = None, it_show_current = None, it_show_history = None\<rparr>"

definition example_fault_file :: "jsonl_line list" where
  "example_fault_file = [NoItems, Items [example_fault_item ''0x2002'' 3, example_fault_item ''0x1001'' 1],
     Items [example_fault_item ''0x2002'' 2]]"

lemma example_codes: "parseCode ''0x2002'' = Some 0x2002" "parseCode ''0x1001'' = Some 0x1001"
  using parse_hex0x4 [of "0x2002"] parse_hex0x4 [of "0x1001"]
  by (simp_all add: hex0x4_def hex_char_def parseCode_def char_of_def bit_iff_odd)

theorem catalogue_correct_witness:
  "\<exists>cat. loadJsonl (Some example_fault_file) = (True, cat) \<and> set (all_codes cat) = {0x2002, 0x1001}"
proof -
  have "fst (loadJsonl (Some example_fault_file))"
    by (simp add: loadJsonl_def example_fault_file_def Let_def split: prod.splits)
  then obtain cat where c: "loadJsonl (Some example_fault_file) = (True, cat)"
    by (cases "loadJsonl (Some example_fault_file)") auto
  from catalogue_correct [OF c] have "set (all_codes cat) = {c. \<exists>it \<in> set (items_of example_fault_file). item_code it = Some c}"
    by blast
  also have "\<dots> = {0x2002, 0x1001}"
    by (auto simp: example_fault_file_def item_code_def example_fault_item_def text_or_def example_codes)
  finally show ?thesis using c by blast
qed

text \<open>The parse of a fault code inverts the format \<open>0x%04X\<close> for every code.\<close>

theorem parseCode_inverts_hex: "parseCode (hex0x4 w) = Some w"
  by (simp add: parseCode_def parse_hex0x4)

text \<open>A hexadecimal text beyond 16 bits is not rejected: the decimal attempt stops at the \<open>x\<close> and gives
  code 0.\<close>

lemma parseCode_too_large: "parseCode ''0x12345'' = Some 0"
  by (simp add: parseCode_def parseHexU16_def stoul_def sto_parts_def strip_0x_def is_space_def digit_val_def)

end
