(* ===== verification/Fault_Center.thy ===== *)
theory Fault_Center
  imports Fault_Catalog
begin

text \<open>
  The fault centre (\<open>services/control/fault/fault_center.cpp\<close>): the set of active faults, the history of
  their begin and end, and the two paged views of the panel. The clock that \<open>setActive\<close> reads is an
  argument. The database is library code: the model keeps the list of calls made to it, and the reply
  of an insertion is a function of the calls made before. The lock and the log lines are left out.
\<close>

section \<open>State\<close>

record hist_record =
  h_code :: u16
  first_on_ms :: u64
  clear_ms :: u64
  seq_no :: u16
  h_state :: u16

record db_record =
  db_id :: int
  db_hist :: hist_record
  db_name :: string
  db_classification :: string
  db_priority :: int

datatype db_call =
    InsertHistoryBegin db_record
  | MarkHistoryClearedById int u64
  | MarkHistoryCleared u16 u64

record fault_db =
  db_calls :: "db_call list"
  insert_reply :: "db_call list \<Rightarrow> db_record \<Rightarrow> bool \<times> int"

record fault_center =
  fc_cat :: "fault_catalog option"
  rowid_by_code :: "u16 \<rightharpoonup> int"
  fc_db :: "fault_db option"
  history_dirty :: bool
  history_version :: u64
  active :: "u16 set"
  begin_by_code :: "u16 \<rightharpoonup> u64"
  in_history_view :: bool
  current_page :: u16
  history_page :: u16
  next_hist_seq :: u16
  history :: "hist_record list"

definition center_init :: fault_center where
  "center_init = \<lparr>fc_cat = None, rowid_by_code = Map.empty, fc_db = None, history_dirty = False,
     history_version = 0, active = {}, begin_by_code = Map.empty, in_history_view = False,
     current_page = 0, history_page = 0, next_hist_seq = 1, history = []\<rparr>"

definition kMaxHistoryRecords :: nat where "kMaxHistoryRecords = 1000"
definition kFaultPageRows :: nat where "kFaultPageRows = 5"

section \<open>Views\<close>

definition shouldRecordToDb :: "fault_center \<Rightarrow> u16 \<Rightarrow> bool" where
  "shouldRecordToDb s code =
     (case fc_cat s of None \<Rightarrow> False
      | Some cat \<Rightarrow> (case metaOf cat code of None \<Rightarrow> False | Some m \<Rightarrow> record_db m))"

definition isActive :: "fault_center \<Rightarrow> u16 \<Rightarrow> bool" where
  "isActive s code \<longleftrightarrow> code \<in> active s"

definition currentBeginTimeOf :: "fault_center \<Rightarrow> u16 \<Rightarrow> u64" where
  "currentBeginTimeOf s code = (case begin_by_code s code of None \<Rightarrow> 0 | Some t \<Rightarrow> t)"

text \<open>The comparison functions given to \<open>std::sort\<close>, as keys: descending times are negated. Records that
  compare equal may come in any order; the model keeps their order in the history.\<close>

definition current_key :: "fault_center \<Rightarrow> u16 \<Rightarrow> int \<times> u16" where
  "current_key s c = (- uint (currentBeginTimeOf s c), c)"

definition collectCurrentVisibleCodes :: "fault_center \<Rightarrow> u16 list" where
  "collectCurrentVisibleCodes s =
     (case fc_cat s of None \<Rightarrow> []
      | Some cat \<Rightarrow> sort_key (current_key s) (filter (isActive s) (current_codes cat)))"

definition history_key :: "fault_catalog \<Rightarrow> hist_record \<Rightarrow> bool \<times> int \<times> int \<times> int \<times> u16" where
  "history_key cat r =
     (clear_ms r \<noteq> 0, - uint (clear_ms r), - uint (first_on_ms r),
      (case metaOf cat (h_code r) of None \<Rightarrow> 9999 | Some m \<Rightarrow> priority_rank m), seq_no r)"

definition collectHistoryVisible :: "fault_center \<Rightarrow> hist_record list" where
  "collectHistoryVisible s =
     (case fc_cat s of None \<Rightarrow> []
      | Some cat \<Rightarrow> sort_key (history_key cat) (filter (\<lambda>r. showInHistory cat (h_code r)) (history s)))"

definition pages_of :: "nat \<Rightarrow> u16" where
  "pages_of n = (if n = 0 then 0 else of_nat ((n + kFaultPageRows - 1) div kFaultPageRows))"

definition currentTotalPages :: "fault_center \<Rightarrow> u16" where
  "currentTotalPages s = pages_of (length (collectCurrentVisibleCodes s))"

definition historyTotalPages :: "fault_center \<Rightarrow> u16" where
  "historyTotalPages s = pages_of (length (collectHistoryVisible s))"

definition encodeTime :: "u64 \<Rightarrow> u32" where
  "encodeTime ts = (if ts = 0 then 0 else ucast (ts div 1000))"

record current_row =
  cr_seq_no :: u16
  cr_code :: u16
  cr_on_time :: u32

record history_row =
  hr_seq_no :: u16
  hr_code :: u16
  hr_on_time :: u32
  hr_off_time :: u32
  hr_state :: u16

text \<open>The indices of the rows of a page, up to the first one beyond the list.\<close>

definition page_indices :: "u16 \<Rightarrow> nat \<Rightarrow> nat list" where
  "page_indices page n =
     takeWhile (\<lambda>i. i < n) (map (\<lambda>i. unat page * kFaultPageRows + i) [0..<kFaultPageRows])"

definition buildCurrentRows :: "fault_center \<Rightarrow> current_row list" where
  "buildCurrentRows s =
     (case fc_cat s of None \<Rightarrow> []
      | Some cat \<Rightarrow>
          let visible = collectCurrentVisibleCodes s in
          map (\<lambda>idx. \<lparr>cr_seq_no = of_nat (idx + 1), cr_code = visible ! idx,
                 cr_on_time = encodeTime (currentBeginTimeOf s (visible ! idx))\<rparr>)
            (page_indices (current_page s) (length visible)))"

definition buildHistoryRows :: "fault_center \<Rightarrow> history_row list" where
  "buildHistoryRows s =
     (case fc_cat s of None \<Rightarrow> []
      | Some cat \<Rightarrow>
          let visible = collectHistoryVisible s in
          map (\<lambda>idx. let r = visible ! idx in
                 \<lparr>hr_seq_no = seq_no r, hr_code = h_code r, hr_on_time = encodeTime (first_on_ms r),
                  hr_off_time = encodeTime (clear_ms r), hr_state = (if clear_ms r = 0 then 1 else 0)\<rparr>)
            (page_indices (history_page s) (length visible)))"

section \<open>Operations\<close>

definition clampPages :: "fault_center \<Rightarrow> fault_center" where
  "clampPages s =
     (let cur_total = currentTotalPages s; his_total = historyTotalPages s;
          s = (if cur_total = 0 then s\<lparr>current_page := 0\<rparr>
               else if cur_total \<le> current_page s then s\<lparr>current_page := cur_total - 1\<rparr> else s)
      in if his_total = 0 then s\<lparr>history_page := 0\<rparr>
         else if his_total \<le> history_page s then s\<lparr>history_page := his_total - 1\<rparr> else s)"

definition bindCatalog :: "fault_catalog option \<Rightarrow> fault_center \<Rightarrow> fault_center" where
  "bindCatalog cat s = s\<lparr>fc_cat := cat\<rparr>"

definition bindFaultDb :: "fault_db option \<Rightarrow> fault_center \<Rightarrow> fault_center" where
  "bindFaultDb db s = s\<lparr>fc_db := db, history_dirty := True, history_version := history_version s + 1\<rparr>"

definition restore_row :: "fault_center \<Rightarrow> db_record \<Rightarrow> fault_center" where
  "restore_row s r =
     (let h = db_hist r;
          s = s\<lparr>history := history s @ [h]\<rparr>;
          s = (if next_hist_seq s \<le> seq_no h then s\<lparr>next_hist_seq := seq_no h + 1\<rparr> else s)
      in if clear_ms h = 0
         then s\<lparr>rowid_by_code := (rowid_by_code s)(h_code h \<mapsto> db_id r),
                begin_by_code := (begin_by_code s)(h_code h \<mapsto> first_on_ms h)\<rparr>
         else s)"

definition restoreHistoryFromDb :: "db_record list \<Rightarrow> fault_center \<Rightarrow> fault_center" where
  "restoreHistoryFromDb rows s =
     (let s = s\<lparr>history := [], rowid_by_code := Map.empty, begin_by_code := Map.empty, next_hist_seq := 1\<rparr>;
          s = clampPages (foldl restore_row s rows)
      in s\<lparr>history_dirty := True, history_version := history_version s + 1\<rparr>)"

fun remove_first_cleared :: "hist_record list \<Rightarrow> hist_record list option" where
  "remove_first_cleared [] = None"
| "remove_first_cleared (r # rs) =
     (if clear_ms r \<noteq> 0 then Some rs else map_option ((#) r) (remove_first_cleared rs))"

definition trim_one :: "hist_record list \<Rightarrow> hist_record list" where
  "trim_one rs = (case remove_first_cleared rs of Some rs' \<Rightarrow> rs' | None \<Rightarrow> tl rs)"

lemma length_remove_first_cleared:
  "remove_first_cleared rs = Some rs' \<Longrightarrow> Suc (length rs') = length rs"
  by (induction rs arbitrary: rs') (auto split: if_splits)

lemma length_trim_one: "rs \<noteq> [] \<Longrightarrow> Suc (length (trim_one rs)) = length rs"
  by (auto simp: trim_one_def length_remove_first_cleared split: option.splits)

function trimHistoryIfNeeded :: "hist_record list \<Rightarrow> hist_record list" where
  "trimHistoryIfNeeded rs =
     (if kMaxHistoryRecords < length rs then trimHistoryIfNeeded (trim_one rs) else rs)"
  by auto
termination
proof (relation "measure length", goal_cases)
  case (2 rs)
  then have "rs \<noteq> []" by auto
  with length_trim_one [of rs] show ?case by simp
qed simp

declare trimHistoryIfNeeded.simps [simp del]

fun close_first :: "u16 \<Rightarrow> u64 \<Rightarrow> hist_record list \<Rightarrow> hist_record list" where
  "close_first code ts [] = []"
| "close_first code ts (r # rs) =
     (if h_code r = code \<and> clear_ms r = 0 then r\<lparr>clear_ms := ts, h_state := 0\<rparr> # rs
      else r # close_first code ts rs)"

definition close_latest :: "u16 \<Rightarrow> u64 \<Rightarrow> hist_record list \<Rightarrow> hist_record list" where
  "close_latest code ts rs = rev (close_first code ts (rev rs))"

definition db_insert :: "u16 \<Rightarrow> hist_record \<Rightarrow> fault_center \<Rightarrow> fault_center" where
  "db_insert code rec s =
     (case fc_db s of None \<Rightarrow> s
      | Some db \<Rightarrow>
          let m = (case fc_cat s of None \<Rightarrow> None | Some cat \<Rightarrow> metaOf cat code);
              r = (case m of None \<Rightarrow> \<lparr>db_id = 0, db_hist = rec, db_name = [], db_classification = [], db_priority = 9999\<rparr>
                   | Some m \<Rightarrow> \<lparr>db_id = 0, db_hist = rec, db_name = fm_name m,
                                db_classification = classification m, db_priority = priority_rank m\<rparr>);
              (ok, row) = insert_reply db (db_calls db) r;
              s = s\<lparr>fc_db := Some (db\<lparr>db_calls := db_calls db @ [InsertHistoryBegin r]\<rparr>)\<rparr>
          in if ok \<and> 0 < row then s\<lparr>rowid_by_code := (rowid_by_code s)(code \<mapsto> row)\<rparr> else s)"

definition db_clear :: "u16 \<Rightarrow> u64 \<Rightarrow> fault_center \<Rightarrow> fault_center" where
  "db_clear code ts s =
     (case fc_db s of None \<Rightarrow> s
      | Some db \<Rightarrow>
          let by_code = s\<lparr>fc_db := Some (db\<lparr>db_calls := db_calls db @ [MarkHistoryCleared code ts]\<rparr>)\<rparr> in
          (case rowid_by_code s code of None \<Rightarrow> by_code
           | Some row \<Rightarrow>
               if 0 < row
               then s\<lparr>fc_db := Some (db\<lparr>db_calls := db_calls db @ [MarkHistoryClearedById row ts]\<rparr>),
                      rowid_by_code := (rowid_by_code s)(code := None)\<rparr>
               else by_code))"

definition activate :: "u64 \<Rightarrow> u16 \<Rightarrow> fault_center \<Rightarrow> fault_center \<times> bool" where
  "activate ts code s0 =
     (let s = s0\<lparr>active := insert code (active s0)\<rparr> in
      if isActive s0 code then (s, False)
      else let s = s\<lparr>begin_by_code := (begin_by_code s)(code \<mapsto> ts)\<rparr> in
        if shouldRecordToDb s code then
          let rec = \<lparr>h_code = code, first_on_ms = ts, clear_ms = 0, seq_no = next_hist_seq s, h_state = 1\<rparr>;
              s = s\<lparr>next_hist_seq := next_hist_seq s + 1,
                    history := trimHistoryIfNeeded (history s @ [rec])\<rparr>
          in (db_insert code rec s, True)
        else (s, False))"

definition deactivate :: "u64 \<Rightarrow> u16 \<Rightarrow> fault_center \<Rightarrow> fault_center \<times> bool" where
  "deactivate ts code s0 =
     (let s = s0\<lparr>active := active s0 - {code}\<rparr> in
      if \<not> isActive s0 code then (s, False)
      else let (s, changed) =
             (if shouldRecordToDb s code
              then (db_clear code ts (s\<lparr>history := close_latest code ts (history s)\<rparr>), True) else (s, False))
           in (s\<lparr>begin_by_code := (begin_by_code s)(code := None),
                 rowid_by_code := (rowid_by_code s)(code := None)\<rparr>, changed))"

definition setActive :: "u64 \<Rightarrow> u16 \<Rightarrow> bool \<Rightarrow> fault_center \<Rightarrow> fault_center" where
  "setActive ts code on s =
     (let (s, history_changed) = (if on then activate ts code s else deactivate ts code s);
          s = clampPages s
      in if history_changed then s\<lparr>history_dirty := True, history_version := history_version s + 1\<rparr> else s)"

definition consumeHistoryDirty :: "fault_center \<Rightarrow> bool \<times> u64 \<times> fault_center" where
  "consumeHistoryDirty s = (history_dirty s, history_version s, s\<lparr>history_dirty := False\<rparr>)"

definition enterHistoryView :: "fault_center \<Rightarrow> fault_center" where
  "enterHistoryView s = clampPages (s\<lparr>in_history_view := True, history_page := 0\<rparr>)"

definition enterCurrentView :: "fault_center \<Rightarrow> fault_center" where
  "enterCurrentView s = clampPages (s\<lparr>in_history_view := False, current_page := 0\<rparr>)"

definition nextCurrentPage :: "fault_center \<Rightarrow> fault_center" where
  "nextCurrentPage s =
     (let total = currentTotalPages s in
      if total = 0 then s\<lparr>current_page := 0\<rparr>
      else if uint (current_page s) + 1 < uint total then s\<lparr>current_page := current_page s + 1\<rparr> else s)"

definition prevCurrentPage :: "fault_center \<Rightarrow> fault_center" where
  "prevCurrentPage s = (if 0 < current_page s then s\<lparr>current_page := current_page s - 1\<rparr> else s)"

definition nextHistoryPage :: "fault_center \<Rightarrow> fault_center" where
  "nextHistoryPage s =
     (let total = historyTotalPages s in
      if total = 0 then s\<lparr>history_page := 0\<rparr>
      else if uint (history_page s) + 1 < uint total then s\<lparr>history_page := history_page s + 1\<rparr> else s)"

definition prevHistoryPage :: "fault_center \<Rightarrow> fault_center" where
  "prevHistoryPage s = (if 0 < history_page s then s\<lparr>history_page := history_page s - 1\<rparr> else s)"

definition toFirstCurrentPage :: "fault_center \<Rightarrow> fault_center" where
  "toFirstCurrentPage s = s\<lparr>current_page := 0\<rparr>"

definition toFirstHistoryPage :: "fault_center \<Rightarrow> fault_center" where
  "toFirstHistoryPage s = s\<lparr>history_page := 0\<rparr>"

section \<open>The interface to the evaluators\<close>

text \<open>What a client of the fault centre relies on: a call sets the state of one code and of no other.\<close>

type_synonym fault_event = "u64 \<times> u16 \<times> bool"

definition last_state :: "fault_event list \<Rightarrow> u16 \<Rightarrow> bool option" where
  "last_state evs c = map_option (\<lambda>e. snd (snd e)) (find (\<lambda>e. fst (snd e) = c) (rev evs))"

locale fault_sink =
  fixes set_active :: "u64 \<Rightarrow> u16 \<Rightarrow> bool \<Rightarrow> 's \<Rightarrow> 's"
    and is_active :: "'s \<Rightarrow> u16 \<Rightarrow> bool"
  assumes is_active_set: "is_active (set_active ts c on s) d = (if d = c then on else is_active s d)"
begin

lemma is_active_events:
  "is_active (foldl (\<lambda>s (ts, c, on). set_active ts c on s) s evs) d =
     (case last_state evs d of None \<Rightarrow> is_active s d | Some on \<Rightarrow> on)"
  by (induction evs rule: rev_induct)
    (auto simp: last_state_def is_active_set split: prod.splits)

lemma is_active_batch:
  assumes "distinct (map fst xs)"
  shows "is_active (foldl (\<lambda>s (c, on). set_active (clk c) c on s) s xs) d =
     (case map_of xs d of None \<Rightarrow> is_active s d | Some on \<Rightarrow> on)"
  using assms
proof (induction xs arbitrary: s)
  case (Cons x xs)
  obtain c on where x: "x = (c, on)" by fastforce
  with Cons.prems have "map_of xs c = None" by (auto simp: map_of_eq_None_iff)
  with Cons x show ?case by (auto simp: is_active_set split: option.splits)
qed simp

end

lemma clampPages_simps [simp]:
  "fc_cat (clampPages s) = fc_cat s" "active (clampPages s) = active s" "history (clampPages s) = history s"
  "begin_by_code (clampPages s) = begin_by_code s" "next_hist_seq (clampPages s) = next_hist_seq s"
  "fc_db (clampPages s) = fc_db s" "rowid_by_code (clampPages s) = rowid_by_code s"
  by (simp_all add: clampPages_def Let_def)

lemma db_insert_simps [simp]:
  "fc_cat (db_insert c r s) = fc_cat s" "active (db_insert c r s) = active s" "history (db_insert c r s) = history s"
  "begin_by_code (db_insert c r s) = begin_by_code s"
  by (simp_all add: db_insert_def Let_def split: option.splits prod.splits)

lemma db_clear_simps [simp]:
  "fc_cat (db_clear c t s) = fc_cat s" "active (db_clear c t s) = active s" "history (db_clear c t s) = history s"
  "begin_by_code (db_clear c t s) = begin_by_code s"
  by (simp_all add: db_clear_def Let_def split: option.splits)

text \<open>The parts of the state that matter for the faults, after a call.\<close>

lemma setActive_fields:
  "fc_cat (setActive ts c on s) = fc_cat s"
  "active (setActive ts c on s) = (if on then insert c (active s) else active s - {c})"
  "begin_by_code (setActive ts c on s) =
     (if on = (c \<in> active s) then begin_by_code s else (begin_by_code s)(c := (if on then Some ts else None)))"
  "history (setActive ts c on s) =
     (if on = (c \<in> active s) \<or> \<not> shouldRecordToDb s c then history s
      else if on then trimHistoryIfNeeded (history s @ [\<lparr>h_code = c, first_on_ms = ts, clear_ms = 0,
             seq_no = next_hist_seq s, h_state = 1\<rparr>])
      else close_latest c ts (history s))"
  by (auto simp: setActive_def activate_def deactivate_def isActive_def shouldRecordToDb_def Let_def
      split: prod.splits if_splits)

interpretation center: fault_sink setActive isActive
  by unfold_locales (auto simp: isActive_def setActive_fields)

section \<open>The history\<close>

abbreviation open_records :: "hist_record list \<Rightarrow> hist_record list" where
  "open_records \<equiv> filter (\<lambda>r. clear_ms r = 0)"

lemma remove_first_cleared_None: "remove_first_cleared rs = None \<longleftrightarrow> (\<forall>r \<in> set rs. clear_ms r = 0)"
  by (induction rs) auto

lemma remove_first_cleared_open:
  "remove_first_cleared rs = Some rs' \<Longrightarrow> open_records rs' = open_records rs"
  by (induction rs arbitrary: rs') (auto split: if_splits)

lemma trim_short: "length rs \<le> kMaxHistoryRecords \<Longrightarrow> trimHistoryIfNeeded rs = rs"
  by (simp add: trimHistoryIfNeeded.simps)

lemma length_trim: "length (trimHistoryIfNeeded rs) \<le> kMaxHistoryRecords"
  by (induction rs rule: trimHistoryIfNeeded.induct) (subst trimHistoryIfNeeded.simps, auto)

lemma trim_open:
  assumes "length rs \<le> Suc kMaxHistoryRecords"
  shows "open_records (trimHistoryIfNeeded rs) = open_records rs \<or>
     open_records rs = rs \<and> length rs = Suc kMaxHistoryRecords \<and> open_records (trimHistoryIfNeeded rs) = tl (open_records rs)"
proof (cases "length rs \<le> kMaxHistoryRecords")
  case False
  then have l: "length rs = Suc kMaxHistoryRecords" using assms by simp
  then have "length (trim_one rs) \<le> kMaxHistoryRecords" using length_trim_one [of rs] by fastforce
  then have t: "trimHistoryIfNeeded rs = trim_one rs" using l by (subst trimHistoryIfNeeded.simps) (simp add: trim_short)
  show ?thesis
  proof (cases "remove_first_cleared rs")
    case None
    then have all: "\<forall>r \<in> set rs. clear_ms r = 0" by (simp add: remove_first_cleared_None)
    then have "open_records rs = rs" by simp
    moreover have "open_records (tl rs) = tl rs" using all by (cases rs) simp_all
    ultimately show ?thesis using None l t by (simp add: trim_one_def)
  next
    case (Some rs')
    then show ?thesis using t remove_first_cleared_open [OF Some] by (simp add: trim_one_def)
  qed
qed (simp add: trim_short)

text \<open>A closing takes the latest open record of the code out of the open ones.\<close>

definition drop_first :: "('a \<Rightarrow> bool) \<Rightarrow> 'a list \<Rightarrow> 'a list" where
  "drop_first P xs = takeWhile (\<lambda>x. \<not> P x) xs @ tl (dropWhile (\<lambda>x. \<not> P x) xs)"

lemma drop_first_Cons: "drop_first P (x # xs) = (if P x then xs else x # drop_first P xs)"
  by (simp add: drop_first_def)

lemma drop_first_append: "\<exists>x \<in> set xs. P x \<Longrightarrow> drop_first P (xs @ ys) = drop_first P xs @ ys"
  by (induction xs) (auto simp: drop_first_Cons)

lemma drop_first_distinct:
  assumes "distinct (map f xs)" "c \<in> f ` set xs"
  shows "drop_first (\<lambda>x. f x = c) xs = filter (\<lambda>x. f x \<noteq> c) xs"
  using assms
proof (induction xs)
  case (Cons x xs)
  have "f x \<notin> f ` set xs" using Cons.prems(1) by simp
  then have "filter (\<lambda>y. f y \<noteq> f x) xs = xs" by (intro filter_True) (metis image_eqI)
  with Cons show ?case by (auto simp: drop_first_Cons)
qed simp

lemma close_first_open:
  "ts \<noteq> 0 \<Longrightarrow> open_records (close_first c ts rs) = drop_first (\<lambda>r. h_code r = c) (open_records rs)"
  by (induction rs) (auto simp: drop_first_Cons, simp add: drop_first_def)

lemma close_latest_open:
  assumes "open_records rs = old @ new" "distinct (map h_code new)" "c \<in> h_code ` set new" "ts \<noteq> 0"
  shows "open_records (close_latest c ts rs) = old @ filter (\<lambda>r. h_code r \<noteq> c) new"
proof -
  have d: "distinct (map h_code (rev new))" using assms(2) by (simp flip: rev_map)
  have "open_records (close_latest c ts rs) = rev (drop_first (\<lambda>r. h_code r = c) (rev (old @ new)))"
    by (simp add: close_latest_def close_first_open [OF assms(4)] assms(1) flip: rev_filter)
  also have "\<dots> = rev (drop_first (\<lambda>r. h_code r = c) (rev new) @ rev old)"
    using assms(3) by (subst rev_append, subst drop_first_append) auto
  also have "\<dots> = old @ filter (\<lambda>r. h_code r \<noteq> c) new"
    using assms(3) by (subst drop_first_distinct [OF d]) (simp_all flip: rev_filter)
  finally show ?thesis .
qed

lemma length_close_latest [simp]: "length (close_latest c ts rs) = length rs"
proof -
  have "length (close_first c ts xs) = length xs" for xs by (induction xs) auto
  then show ?thesis by (simp add: close_latest_def)
qed

text \<open>The history is consistent with the active faults.\<close>

definition recorded_codes :: "fault_catalog \<Rightarrow> u16 list" where
  "recorded_codes cat = map fm_code (filter record_db (meta_by_code cat))"

text \<open>The open records are the open ones of earlier runs, less the oldest of them when the history is full, and those of
  this run, one for each active fault that is recorded.\<close>

definition center_ok :: "hist_record list \<Rightarrow> fault_catalog \<Rightarrow> fault_center \<Rightarrow> bool" where
  "center_ok old cat s \<longleftrightarrow> fc_cat s = Some cat \<and>
     length (history s) \<le> kMaxHistoryRecords \<and>
     (\<exists>k new. open_records (history s) = drop k old @ new \<and>
        (length old + length (recorded_codes cat) \<le> kMaxHistoryRecords \<longrightarrow> k = 0) \<and>
        distinct (map h_code new) \<and>
        (\<forall>c. c \<in> h_code ` set new \<longleftrightarrow> c \<in> active s \<and> shouldRecordToDb s c) \<and>
        (\<forall>r \<in> set new. begin_by_code s (h_code r) = Some (first_on_ms r)))"

lemma recorded_in: "fc_cat s = Some cat \<Longrightarrow> shouldRecordToDb s c \<Longrightarrow> c \<in> set (recorded_codes cat)"
  by (auto simp: shouldRecordToDb_def recorded_codes_def metaOf_def find_Some_iff split: option.splits)

lemma open_bound:
  assumes "fc_cat s = Some cat" "shouldRecordToDb s c" "c \<notin> active s" "distinct (map h_code new)"
    and "\<forall>c. c \<in> h_code ` set new \<longleftrightarrow> c \<in> active s \<and> shouldRecordToDb s c"
  shows "Suc (length new) \<le> length (recorded_codes cat)"
proof -
  let ?o = "map h_code new"
  have c: "c \<notin> set ?o" using assms(3,5) by auto
  have "insert c (set ?o) \<subseteq> set (recorded_codes cat)" using assms(2,5) recorded_in [OF assms(1)] by auto
  then have "card (insert c (set ?o)) \<le> card (set (recorded_codes cat))" by (intro card_mono) simp_all
  also have "\<dots> \<le> length (recorded_codes cat)" by (rule card_length)
  also have "card (insert c (set ?o)) = Suc (length ?o)"
    using card_insert_disjoint [OF finite_set c] distinct_card [OF assms(4)] by simp
  finally show ?thesis by simp
qed

lemma setActive_records: "shouldRecordToDb (setActive ts c on s) d = shouldRecordToDb s d"
  by (simp add: shouldRecordToDb_def setActive_fields)

lemma setActive_on_ok:
  assumes ok: "center_ok old cat s" and n: "length (recorded_codes cat) \<le> kMaxHistoryRecords" and c: "c \<notin> active s"
  shows "center_ok old cat (setActive ts c True s)"
proof -
  let ?r = "\<lparr>h_code = c, first_on_ms = ts, clear_ms = 0, seq_no = next_hist_seq s, h_state = 1\<rparr>"
  let ?s = "setActive ts c True s"
  obtain k new where op: "open_records (history s) = drop k old @ new"
    and k: "length old + length (recorded_codes cat) \<le> kMaxHistoryRecords \<longrightarrow> k = 0"
    and d: "distinct (map h_code new)" and m: "\<forall>c. c \<in> h_code ` set new \<longleftrightarrow> c \<in> active s \<and> shouldRecordToDb s c"
    and b: "\<forall>r \<in> set new. begin_by_code s (h_code r) = Some (first_on_ms r)"
    and cat: "fc_cat s = Some cat" and l: "length (history s) \<le> kMaxHistoryRecords"
    using ok by (auto simp: center_ok_def)
  have nc: "c \<notin> h_code ` set new" using m c by simp
  have b': "\<forall>r \<in> set new. begin_by_code ?s (h_code r) = Some (first_on_ms r)" using b c nc by (auto simp: setActive_fields)
  show ?thesis
  proof (cases "shouldRecordToDb s c")
    case True
    have room: "Suc (length new) \<le> length (recorded_codes cat)" by (rule open_bound [OF cat True c d m])
    have hist: "history ?s = trimHistoryIfNeeded (history s @ [?r])" using c True by (simp add: setActive_fields)
    have "\<exists>k. open_records (history ?s) = drop k old @ new @ [?r] \<and>
        (length old + length (recorded_codes cat) \<le> kMaxHistoryRecords \<longrightarrow> k = 0)"
    proof -
      have *: "open_records (history s @ [?r]) = drop k old @ new @ [?r]" by (simp add: op)
      from trim_open [of "history s @ [?r]"] l consider "open_records (history ?s) = drop k old @ new @ [?r]"
        | "length (drop k old @ new @ [?r]) = Suc kMaxHistoryRecords" "open_records (history ?s) = tl (drop k old @ new @ [?r])"
        unfolding * hist by (metis length_append_singleton Suc_le_mono)
      then show ?thesis
      proof cases
        case 2
        then have "drop k old \<noteq> []" using room n by auto
        then have "tl (drop k old @ new @ [?r]) = drop (Suc k) old @ new @ [?r]" by (simp add: drop_Suc tl_drop)
        moreover have "\<not> length old + length (recorded_codes cat) \<le> kMaxHistoryRecords" using 2(1) room by simp
        ultimately show ?thesis using 2(2) by (intro exI [of _ "Suc k"]) simp
      qed (use k in blast)
    qed
    moreover have "distinct (map h_code (new @ [?r]))" using d nc by simp
    moreover have "\<forall>d. d \<in> h_code ` set (new @ [?r]) \<longleftrightarrow> d \<in> active ?s \<and> shouldRecordToDb ?s d"
      using m True by (auto simp: setActive_records setActive_fields(2))
    moreover have "\<forall>r \<in> set (new @ [?r]). begin_by_code ?s (h_code r) = Some (first_on_ms r)"
      using b' c by (simp add: setActive_fields)
    moreover have "length (history ?s) \<le> kMaxHistoryRecords" by (simp add: hist length_trim)
    ultimately show ?thesis unfolding center_ok_def using cat by (auto simp only: setActive_fields(1) simp_thms)
  next
    case False
    have "\<forall>d. d \<in> h_code ` set new \<longleftrightarrow> d \<in> active ?s \<and> shouldRecordToDb ?s d"
      using m False by (auto simp: setActive_records setActive_fields(2))
    moreover have "history ?s = history s" using False by (simp add: setActive_fields)
    ultimately show ?thesis unfolding center_ok_def using cat op k d b' l by (auto simp only: setActive_fields(1) simp_thms)
  qed
qed

lemma setActive_off_ok:
  assumes ok: "center_ok old cat s" and ts: "ts \<noteq> 0" and c: "c \<in> active s"
  shows "center_ok old cat (setActive ts c False s)"
proof -
  let ?s = "setActive ts c False s"
  obtain k new where op: "open_records (history s) = drop k old @ new"
    and k: "length old + length (recorded_codes cat) \<le> kMaxHistoryRecords \<longrightarrow> k = 0"
    and d: "distinct (map h_code new)" and m: "\<forall>c. c \<in> h_code ` set new \<longleftrightarrow> c \<in> active s \<and> shouldRecordToDb s c"
    and b: "\<forall>r \<in> set new. begin_by_code s (h_code r) = Some (first_on_ms r)"
    and cat: "fc_cat s = Some cat" and l: "length (history s) \<le> kMaxHistoryRecords"
    using ok by (auto simp: center_ok_def)
  let ?new = "filter (\<lambda>r. h_code r \<noteq> c) new"
  have op': "open_records (history ?s) = drop k old @ ?new"
  proof (cases "shouldRecordToDb s c")
    case True
    then have "c \<in> h_code ` set new" using m c by simp
    then show ?thesis using close_latest_open [OF op d _ ts] True c by (simp add: setActive_fields)
  next
    case False
    then have "?new = new" using m by (intro filter_True) auto
    then show ?thesis using op False by (simp add: setActive_fields)
  qed
  have "length (history ?s) \<le> kMaxHistoryRecords" using l by (simp add: setActive_fields)
  moreover have "distinct (map h_code ?new)" using d by (rule distinct_map_filter)
  moreover have "\<forall>d. d \<in> h_code ` set ?new \<longleftrightarrow> d \<in> active ?s \<and> shouldRecordToDb ?s d"
    using m by (auto simp: setActive_records setActive_fields(2) image_iff)
  moreover have "\<forall>r \<in> set ?new. begin_by_code ?s (h_code r) = Some (first_on_ms r)"
    using b c by (simp add: setActive_fields)
  ultimately show ?thesis unfolding center_ok_def using cat op' k by (auto simp only: setActive_fields(1) simp_thms)
qed

lemma setActive_ok:
  assumes "center_ok old cat s" "length (recorded_codes cat) \<le> kMaxHistoryRecords" "ts \<noteq> 0"
  shows "center_ok old cat (setActive ts c on s)"
proof (cases "on = (c \<in> active s)")
  case True
  have f: "history (setActive ts c on s) = history s" "fc_cat (setActive ts c on s) = fc_cat s"
    "active (setActive ts c on s) = active s" "begin_by_code (setActive ts c on s) = begin_by_code s"
    using True by (auto simp: setActive_fields)
  show ?thesis using assms(1) unfolding center_ok_def f setActive_records .
next
  case False
  then show ?thesis using assms setActive_on_ok setActive_off_ok by (cases on) auto
qed

section \<open>Pages\<close>

lemma page_indices_nth:
  "map (\<lambda>i. xs ! i) (page_indices page (length xs)) = take kFaultPageRows (drop (unat page * kFaultPageRows) xs)"
proof -
  let ?a = "unat page * kFaultPageRows"
  have "takeWhile (\<lambda>i. i < n) (map (\<lambda>i. a + i) [0..<k]) = [a..<min (a + k) (max a n)]" for a n k :: nat
  proof (induction k)
    case (Suc k)
    show ?case
    proof (cases "a + k \<le> n")
      case True
      then have "takeWhile (\<lambda>i. i < n) (map (\<lambda>i. a + i) [0..<k]) = map (\<lambda>i. a + i) [0..<k]"
        by (intro takeWhile_eq_all_conv [THEN iffD2]) auto
      moreover have "map (\<lambda>i. a + i) [0..<k] = [a..<a + k]" by (simp add: map_add_upt add.commute)
      ultimately show ?thesis using True
        by (cases "a + k = n") (simp_all add: takeWhile_append min_def max_def)
    next
      case False
      show ?thesis
      proof (cases "k = 0")
        case k: False
        have "max a n \<in> set (map (\<lambda>i. a + i) [0..<k])" "\<not> max a n < n"
          using False k by (auto simp: image_iff max_def intro!: bexI [of _ "max a n - a"])
        with False Suc show ?thesis by (simp add: takeWhile_append1 min_def max_def)
      qed (use False in simp)
    qed
  qed simp
  then have "page_indices page (length xs) = [?a..<min (?a + kFaultPageRows) (max ?a (length xs))]"
    by (simp add: page_indices_def)
  moreover have "map (\<lambda>i. xs ! i) [a..<min (a + k) (max a (length xs))] = take k (drop a xs)" for a k
  proof (cases "a \<le> length xs")
    case True
    then show ?thesis by (intro nth_equalityI) (auto simp: min_def split: if_splits)
  qed (simp add: min_def)
  ultimately show ?thesis by simp
qed

lemma current_rows_codes:
  "map cr_code (buildCurrentRows s) = take kFaultPageRows (drop (unat (current_page s) * kFaultPageRows)
     (collectCurrentVisibleCodes s))"
proof (cases "fc_cat s")
  case None
  then show ?thesis by (simp add: buildCurrentRows_def collectCurrentVisibleCodes_def)
next
  case (Some cat)
  then have "map cr_code (buildCurrentRows s) = map (\<lambda>i. collectCurrentVisibleCodes s ! i)
      (page_indices (current_page s) (length (collectCurrentVisibleCodes s)))"
    by (simp add: buildCurrentRows_def Let_def)
  then show ?thesis by (simp add: page_indices_nth)
qed

lemma visible_sorted:
  assumes "fc_cat s = Some cat" "distinct (current_codes cat)"
  shows "sorted_wrt (\<lambda>a b. currentBeginTimeOf s b < currentBeginTimeOf s a \<or>
           (currentBeginTimeOf s a = currentBeginTimeOf s b \<and> a < b)) (collectCurrentVisibleCodes s)"
proof -
  have "sorted_wrt (<) (map (current_key s) (collectCurrentVisibleCodes s))"
    using sort_key_strict [of id "filter (isActive s) (current_codes cat)" "current_key s"] assms
    by (simp add: collectCurrentVisibleCodes_def current_key_def)
  then show ?thesis
    by (auto simp: sorted_wrt_map current_key_def less_prod_def word_less_def elim!: sorted_wrt_mono_rel [rotated]
        simp flip: word_uint_eq_iff)
qed

text \<open>The page indices stay inside the page counts.\<close>

definition pages_ok :: "fault_center \<Rightarrow> bool" where
  "pages_ok s \<longleftrightarrow>
     (current_page s = 0 \<or> current_page s < currentTotalPages s) \<and>
     (history_page s = 0 \<or> history_page s < historyTotalPages s)"

lemma totals_page [simp]:
  "currentTotalPages (s\<lparr>current_page := p\<rparr>) = currentTotalPages s"
  "currentTotalPages (s\<lparr>history_page := p\<rparr>) = currentTotalPages s"
  "historyTotalPages (s\<lparr>current_page := p\<rparr>) = historyTotalPages s"
  "historyTotalPages (s\<lparr>history_page := p\<rparr>) = historyTotalPages s"
  "currentTotalPages (s\<lparr>in_history_view := b\<rparr>) = currentTotalPages s"
  "historyTotalPages (s\<lparr>in_history_view := b\<rparr>) = historyTotalPages s"
  "currentTotalPages (s\<lparr>history_dirty := b, history_version := v\<rparr>) = currentTotalPages s"
  "historyTotalPages (s\<lparr>history_dirty := b, history_version := v\<rparr>) = historyTotalPages s"
  "currentTotalPages (s\<lparr>history_dirty := b\<rparr>) = currentTotalPages s"
  "historyTotalPages (s\<lparr>history_dirty := b\<rparr>) = historyTotalPages s"
  by (simp_all add: currentTotalPages_def historyTotalPages_def collectCurrentVisibleCodes_def
      collectHistoryVisible_def current_key_def currentBeginTimeOf_def isActive_def [abs_def] split: option.splits)

lemma pred_less_word: "(t :: u16) \<noteq> 0 \<Longrightarrow> t - 1 < t"
  using measure_unat [of t] by (simp add: word_less_nat_alt)

lemma clampPages_ok: "pages_ok (clampPages s)"
proof -
  define s1 where "s1 = (if currentTotalPages s = 0 then s\<lparr>current_page := 0\<rparr>
     else if currentTotalPages s \<le> current_page s then s\<lparr>current_page := currentTotalPages s - 1\<rparr> else s)"
  have t: "currentTotalPages s1 = currentTotalPages s" "historyTotalPages s1 = historyTotalPages s"
    "history_page s1 = history_page s" by (simp_all add: s1_def)
  have c: "current_page s1 = 0 \<or> current_page s1 < currentTotalPages s"
    using pred_less_word by (auto simp: s1_def)
  have "clampPages s = (if historyTotalPages s = 0 then s1\<lparr>history_page := 0\<rparr>
     else if historyTotalPages s \<le> history_page s1 then s1\<lparr>history_page := historyTotalPages s - 1\<rparr> else s1)"
    by (simp add: clampPages_def s1_def Let_def)
  then show ?thesis using c t pred_less_word by (auto simp: pages_ok_def)
qed

datatype page_op = EnterHistory | EnterCurrent | NextCurrent | PrevCurrent | NextHistory | PrevHistory
  | FirstCurrent | FirstHistory | ConsumeDirty

fun page_step :: "page_op \<Rightarrow> fault_center \<Rightarrow> fault_center" where
  "page_step EnterHistory s = enterHistoryView s"
| "page_step EnterCurrent s = enterCurrentView s"
| "page_step NextCurrent s = nextCurrentPage s"
| "page_step PrevCurrent s = prevCurrentPage s"
| "page_step NextHistory s = nextHistoryPage s"
| "page_step PrevHistory s = prevHistoryPage s"
| "page_step FirstCurrent s = toFirstCurrentPage s"
| "page_step FirstHistory s = toFirstHistoryPage s"
| "page_step ConsumeDirty s = snd (snd (consumeHistoryDirty s))"

lemma succ_less_word: "uint (p :: u16) + 1 < uint t \<Longrightarrow> p + 1 < t"
  using uint_lt2p [of t] by (simp add: word_less_def uint_word_ariths)

lemma pred_less_trans: "(p :: u16) < t \<Longrightarrow> 0 < p \<Longrightarrow> p - 1 < t"
  using pred_less_word [of p] by (metis order.strict_trans word_gt_0)

lemma page_step_ok:
  assumes "pages_ok s"
  shows "pages_ok (page_step k s)"
proof (cases "k = EnterHistory \<or> k = EnterCurrent")
  case True
  then show ?thesis by (auto simp: enterHistoryView_def enterCurrentView_def clampPages_ok)
next
  case False
  with assms show ?thesis
    by (cases k) (auto simp: nextCurrentPage_def prevCurrentPage_def nextHistoryPage_def prevHistoryPage_def
      toFirstCurrentPage_def toFirstHistoryPage_def consumeHistoryDirty_def pages_ok_def Let_def
      succ_less_word pred_less_trans)
qed

lemma setActive_pages_ok: "pages_ok (setActive ts c on s)"
  using clampPages_ok by (auto simp: setActive_def pages_ok_def Let_def split: prod.splits)

section \<open>Properties\<close>

definition run_events :: "fault_center \<Rightarrow> fault_event list \<Rightarrow> fault_center" where
  "run_events = foldl (\<lambda>s (ts, c, on). setActive ts c on s)"

text \<open>The centre with its catalogue and its database bound, before the history is restored.\<close>

definition fresh_center :: "fault_catalog \<Rightarrow> fault_db option \<Rightarrow> fault_center" where
  "fresh_center cat db = bindFaultDb db (bindCatalog (Some cat) center_init)"

text \<open>The centre at start-up: the recent records of earlier runs are restored when they could be read.\<close>

definition start_center :: "fault_catalog \<Rightarrow> fault_db option \<Rightarrow> db_record list option \<Rightarrow> fault_center" where
  "start_center cat db restored =
     (case restored of None \<Rightarrow> fresh_center cat db | Some rs \<Rightarrow> restoreHistoryFromDb rs (fresh_center cat db))"

definition rows_of :: "db_record list option \<Rightarrow> db_record list" where
  "rows_of restored = (case restored of None \<Rightarrow> [] | Some rs \<Rightarrow> rs)"

text \<open>Since when the last calls of an event sequence have said that a fault is active.\<close>

definition on_since :: "fault_event list \<Rightarrow> u16 \<Rightarrow> u64 option" where
  "on_since evs c = foldl (\<lambda>t (ts, d, on). if d \<noteq> c then t else if \<not> on then None
     else case t of None \<Rightarrow> Some ts | Some _ \<Rightarrow> t) None evs"

lemma fresh_center_simps [simp]:
  "fc_cat (fresh_center cat db) = Some cat" "active (fresh_center cat db) = {}" "history (fresh_center cat db) = []"
  by (simp_all add: fresh_center_def bindFaultDb_def bindCatalog_def center_init_def)

lemma restore_rows_fields:
  "fc_cat (foldl restore_row s rows) = fc_cat s" "active (foldl restore_row s rows) = active s"
  "history (foldl restore_row s rows) = history s @ map db_hist rows"
  by (induction rows arbitrary: s) (simp_all add: restore_row_def Let_def)

lemma start_center_simps [simp]:
  "fc_cat (start_center cat db restored) = Some cat" "active (start_center cat db restored) = {}"
  "history (start_center cat db restored) = map db_hist (rows_of restored)"
  by (simp_all add: start_center_def rows_of_def restoreHistoryFromDb_def restore_rows_fields Let_def split: option.split)

lemma run_events_ok:
  assumes "length (recorded_codes cat) \<le> kMaxHistoryRecords" "length (rows_of restored) \<le> kMaxHistoryRecords"
    "\<forall>e \<in> set evs. fst e \<noteq> 0"
  shows "center_ok (open_records (map db_hist (rows_of restored))) cat (run_events (start_center cat db restored) evs)"
  using assms(3)
proof (induction evs rule: rev_induct)
  case Nil
  show ?case using assms(2) by (simp add: run_events_def center_ok_def) (intro exI [of _ 0], simp)
next
  case (snoc e evs)
  obtain ts c on where e: "e = (ts, c, on)" by (cases e)
  with snoc show ?case using setActive_ok [OF _ assms(1)] by (simp add: run_events_def)
qed

lemma run_events_since:
  assumes "active s = {}"
  shows "(c \<in> active (run_events s evs) \<longleftrightarrow> on_since evs c \<noteq> None) \<and>
     (c \<in> active (run_events s evs) \<longrightarrow> begin_by_code (run_events s evs) c = on_since evs c)"
proof (induction evs rule: rev_induct)
  case Nil
  show ?case using assms by (simp add: run_events_def on_since_def)
next
  case (snoc e evs)
  obtain ts d on where e: "e = (ts, d, on)" by (cases e)
  have "run_events s (evs @ [e]) = setActive ts d on (run_events s evs)"
    "on_since (evs @ [e]) c = (if d \<noteq> c then on_since evs c else if \<not> on then None
       else case on_since evs c of None \<Rightarrow> Some ts | Some _ \<Rightarrow> on_since evs c)"
    by (simp_all add: run_events_def on_since_def e split: option.split)
  with snoc show ?case by (auto simp: setActive_fields split: option.split)
qed

text \<open>C15: the history of faults. Start-up restores the recent records of earlier runs, at most 1000, when the database
  could be read. After any sequence of activations and clearings from there, with a catalogue of at most 1000 recorded faults
  and a running clock, a fault is active exactly if the last call for it said so; the history holds at most 1000 records; and its
  open records are, in this order, those that earlier runs had left open and those of this run: exactly one for every active fault that
  the catalogue records, with the time of the call from which on the fault has been active, and no other. No call ever closes a
  record of an earlier run: as long as there is room for them and for all recorded faults they all stay open; in a full
  history the oldest of them are dropped.\<close>

theorem history_tracks_active_faults:
  assumes "length (recorded_codes cat) \<le> 1000" and "length (rows_of restored) \<le> 1000" and "\<forall>e \<in> set evs. fst e \<noteq> 0"
    and "s = run_events (start_center cat db restored) evs"
    and "old = open_records (map db_hist (rows_of restored))"
  shows "(\<forall>c. isActive s c \<longleftrightarrow> last_state evs c = Some True)
    \<and> length (history s) \<le> 1000
    \<and> (\<exists>k new. open_records (history s) = drop k old @ new
        \<and> (length old + length (recorded_codes cat) \<le> 1000 \<longrightarrow> k = 0)
        \<and> distinct (map h_code new)
        \<and> (\<forall>c. c \<in> h_code ` set new \<longleftrightarrow> isActive s c \<and> shouldRecordToDb s c)
        \<and> (\<forall>r \<in> set new. on_since evs (h_code r) = Some (first_on_ms r)))"
proof -
  have k: "kMaxHistoryRecords = 1000" by (simp add: kMaxHistoryRecords_def)
  have "center_ok old cat s" using run_events_ok [of cat restored evs db] assms k by simp
  then obtain k new where new: "open_records (history s) = drop k old @ new" "length (history s) \<le> 1000"
      "length old + length (recorded_codes cat) \<le> 1000 \<longrightarrow> k = 0" "distinct (map h_code new)"
      "\<forall>c. c \<in> h_code ` set new \<longleftrightarrow> isActive s c \<and> shouldRecordToDb s c"
    and b: "\<forall>r \<in> set new. begin_by_code s (h_code r) = Some (first_on_ms r)"
    by (auto simp: center_ok_def k isActive_def)
  have since: "c \<in> active s \<Longrightarrow> begin_by_code s c = on_since evs c" for c
    using run_events_since [of "start_center cat db restored" c evs] assms(4) by simp
  have "\<forall>r \<in> set new. on_since evs (h_code r) = Some (first_on_ms r)"
  proof
    fix r assume r: "r \<in> set new"
    then have "h_code r \<in> active s" using new(5) by (auto simp: isActive_def)
    with b r since show "on_since evs (h_code r) = Some (first_on_ms r)" by fastforce
  qed
  moreover have "isActive s c \<longleftrightarrow> last_state evs c = Some True" for c
    using center.is_active_events [of "start_center cat db restored" evs c]
    by (auto simp: assms(4) run_events_def isActive_def split: option.splits)
  ultimately show ?thesis using new by blast
qed

definition example_catalog :: fault_catalog where
  "example_catalog = (let m = item_meta (example_fault_item ''0x2002'' 3) 0 0x2002 in
     \<lparr>all_codes = [0x2002], current_codes = [0x2002], history_codes = [0x2002], meta_by_code = [m]\<rparr>)"

text \<open>A record of an earlier run, which a crash left open.\<close>

definition example_left_open :: db_record where
  "example_left_open = \<lparr>db_id = 7, db_hist = \<lparr>h_code = 0x2002, first_on_ms = 1, clear_ms = 0, seq_no = 4, h_state = 1\<rparr>,
     db_name = [], db_classification = [], db_priority = 3\<rparr>"

theorem history_tracks_active_faults_witness:
  "let s = run_events (start_center example_catalog None (Some [example_left_open]))
       [(5, 0x2002, True), (8, 0x2002, False), (9, 0x2002, True)] in
   isActive s 0x2002 \<and> (\<exists>new. open_records (history s) = db_hist example_left_open # new \<and>
     (\<forall>r \<in> set new. h_code r = 0x2002 \<longrightarrow> first_on_ms r = 9))"
proof -
  let ?evs = "[(5, 0x2002, True), (8, 0x2002, False), (9, 0x2002, True)] :: fault_event list"
  let ?old = "open_records (map db_hist (rows_of (Some [example_left_open])))"
  have old: "?old = [db_hist example_left_open]" by (simp add: rows_of_def example_left_open_def)
  have r: "length (recorded_codes example_catalog) \<le> 1" by (simp add: example_catalog_def recorded_codes_def Let_def)
  then have "length (recorded_codes example_catalog) \<le> 1000" by simp
  moreover have "length (rows_of (Some [example_left_open])) \<le> 1000" by (simp add: rows_of_def)
  moreover have "\<forall>e \<in> set ?evs. fst e \<noteq> 0" by simp
  moreover have "last_state ?evs 0x2002 = Some True" by (simp add: last_state_def)
  moreover have "on_since ?evs 0x2002 = Some 9" by (simp add: on_since_def)
  ultimately show ?thesis
    using history_tracks_active_faults [of example_catalog "Some [example_left_open]" ?evs _ None, OF _ _ _ refl refl] r
    unfolding old Let_def by fastforce
qed

lemma concat_chunks: "concat (map (\<lambda>p. take k (drop (k * p) xs)) [0..<n]) = take (k * n) xs"
  by (induction n) (simp_all add: take_add add.commute [of k])

text \<open>The page of current faults. With a catalogue that loaded, the codes that can be shown are the active
  ones that the catalogue shows as current, each once, the latest begun first and equal times by code;
  the rows of a page are the five codes from five times the page index on, so the pages together show
  every such fault once.\<close>

theorem current_pages_show_active_faults:
  assumes "loadJsonl (Some ls) = (True, cat)" and "fc_cat s = Some cat"
    and "vis = collectCurrentVisibleCodes s"
  shows "set vis = {c. isActive s c \<and> showInCurrent cat c} \<and> distinct vis
    \<and> sorted_wrt (\<lambda>a b. currentBeginTimeOf s b < currentBeginTimeOf s a \<or>
           (currentBeginTimeOf s a = currentBeginTimeOf s b \<and> a < b)) vis
    \<and> map cr_code (buildCurrentRows s) = take 5 (drop (5 * unat (current_page s)) vis)
    \<and> concat (map (\<lambda>p. take 5 (drop (5 * p) vis)) [0..<(length vis + 4) div 5]) = vis"
proof -
  note d = load_current_codes [OF assms(1)]
  have "set vis = {c. isActive s c \<and> showInCurrent cat c}" "distinct vis"
    using assms(2,3) d by (auto simp: collectCurrentVisibleCodes_def)
  moreover have "map cr_code (buildCurrentRows s) = take 5 (drop (5 * unat (current_page s)) vis)"
    using current_rows_codes [of s] by (simp add: assms(3) kFaultPageRows_def mult.commute)
  moreover have "length vis \<le> 5 * ((length vis + 4) div 5)" by linarith
  ultimately show ?thesis
    using visible_sorted [OF assms(2) d(1)] by (simp add: assms(3) concat_chunks)
qed

lemma example_file_loads: "\<exists>cat. loadJsonl (Some example_fault_file) = (True, cat)"
  by (cases "loadJsonl (Some example_fault_file)")
    (auto simp: loadJsonl_def example_fault_file_def Let_def split: prod.splits)

theorem current_pages_show_active_faults_witness:
  "\<exists>cat s. loadJsonl (Some example_fault_file) = (True, cat) \<and> fc_cat s = Some cat \<and>
     distinct (collectCurrentVisibleCodes s)"
proof -
  obtain cat where c: "loadJsonl (Some example_fault_file) = (True, cat)" using example_file_loads by blast
  from current_pages_show_active_faults [OF c, of "fresh_center cat None", OF _ refl] c show ?thesis
    by (intro exI [of _ cat] exI [of _ "fresh_center cat None"]) simp
qed

text \<open>C32: whatever faults come and go and whatever the operator presses, both page indices are 0 or below
  their page counts.\<close>

theorem page_indices_in_range:
  assumes "pages_ok s"
  shows "pages_ok (setActive ts c on s) \<and> pages_ok (page_step k s) \<and> pages_ok (restoreHistoryFromDb rows s)"
proof -
  have "pages_ok (restoreHistoryFromDb rows s)"
    using clampPages_ok by (simp add: restoreHistoryFromDb_def Let_def pages_ok_def)
  then show ?thesis using setActive_pages_ok page_step_ok [OF assms] by blast
qed

theorem page_indices_in_range_witness: "pages_ok (page_step NextCurrent (fresh_center example_catalog None))"
proof -
  have "pages_ok (fresh_center example_catalog None)"
    by (simp add: pages_ok_def fresh_center_def bindFaultDb_def bindCatalog_def center_init_def)
  then show ?thesis using page_indices_in_range by blast
qed

text \<open>A fault that was open when the history was restored is not active for the centre, so clearing it does
  not close its record.\<close>

lemma restored_record_stays_open:
  assumes "c \<notin> active s"
  shows "history (setActive ts c False (restoreHistoryFromDb rows s)) = history (restoreHistoryFromDb rows s)"
proof -
  have "active (foldl restore_row t rows) = active t" for t
    by (induction rows arbitrary: t) (simp_all add: restore_row_def Let_def)
  then have "c \<notin> active (restoreHistoryFromDb rows s)" using assms by (simp add: restoreHistoryFromDb_def Let_def)
  then show ?thesis by (simp add: setActive_fields)
qed

end
