(* ===== verification/Bms_Fault.thy ===== *)
theory Bms_Fault
  imports Logic_Context Fault_Center
begin

text \<open>
  From the batteries' fault bits to fault codes: the evaluator that confirms signals
  (\<open>services/control/bms/bms_fault_evaluator.cpp\<close>) and the mapper that hands them to the fault centre
  (\<open>services/control/bms/bms_fault_mapper.cpp\<close>). The calls that confirm one signal each are a list of
  pairs of a signal and its value, in the order of the source, and so are the calls that set one code each.
\<close>

section \<open>The evaluator\<close>

definition kImplementedBmsSignals :: "string list" where
  "kImplementedBmsSignals =
     [''cell_overvoltage_lvl1'',
      ''cell_overvoltage_lvl2'',
      ''cell_overvoltage_lvl3'',
      ''cell_undervoltage_lvl1'',
      ''cell_undervoltage_lvl2'',
      ''cell_undervoltage_lvl3'',
      ''cell_overdischarge_fault'',
      ''total_voltage_overvoltage_lvl1'',
      ''total_voltage_overvoltage_lvl2'',
      ''total_voltage_overvoltage_lvl3'',
      ''total_voltage_undervoltage_lvl1'',
      ''total_voltage_undervoltage_lvl2'',
      ''total_voltage_undervoltage_lvl3'',
      ''cell_overtemp_lvl1'',
      ''cell_overtemp_lvl2'',
      ''cell_overtemp_lvl3'',
      ''cell_lowtemp_alarm'',
      ''temp_diff_over_lvl1'',
      ''temp_diff_over_lvl2'',
      ''temp_diff_over_lvl3'',
      ''fire_alarm'',
      ''pulse_discharge_current_overflow_lvl1'',
      ''pulse_discharge_current_overflow_lvl2'',
      ''pulse_discharge_current_overflow_lvl3'',
      ''pulse_charge_current_overflow_lvl1'',
      ''pulse_charge_current_overflow_lvl2'',
      ''pulse_charge_current_overflow_lvl3'',
      ''current_sensor_fault'',
      ''low_voltage_supply_alarm'',
      ''soc_imbalance_alarm'',
      ''soc_jump_alarm'',
      ''soc_low_lvl1'',
      ''soc_low_lvl2'',
      ''soc_low_lvl3'',
      ''tms_unit_fault'',
      ''tms_panel_aircon_fault'',
      ''tms_ats_water_pump_fault'',
      ''battery_self_protect_fault'',
      ''precharge_fault'',
      ''driving_insulation_low_lvl1'',
      ''driving_insulation_low_lvl2'',
      ''driving_insulation_low_lvl3'',
      ''charge_insulation_low_alarm'',
      ''acan_comm_fault'',
      ''internal_comm_fault'',
      ''branch_circuit_open_fault'',
      ''hvil_alarm'',
      ''heat_relay_open_fault'',
      ''heat_relay_weld_fault'',
      ''main_pos_relay_open_fault'',
      ''main_pos_relay_weld_fault'',
      ''main_neg_relay_open_fault'',
      ''main_neg_relay_weld_fault'',
      ''dc_chrg_pos1_relay_open_fault'',
      ''dc_chrg_pos1_relay_weld_fault'',
      ''dc_chrg_neg1_relay_open_fault'',
      ''dc_chrg_neg1_relay_weld_fault'',
      ''dc_chrg_pos2_relay_open_fault'',
      ''dc_chrg_pos2_relay_weld_fault'',
      ''dc_chrg_neg2_relay_open_fault'',
      ''dc_chrg_neg2_relay_weld_fault'',
      ''ac_chrg_pos_relay_open_fault'',
      ''ac_chrg_pos_relay_weld_fault'',
      ''ac_chrg_neg_relay_open_fault'',
      ''ac_chrg_neg_relay_weld_fault'',
      ''panto_chrg_pos_relay_open_fault'',
      ''panto_chrg_pos_relay_weld_fault'',
      ''panto_chrg_neg_relay_open_fault'',
      ''panto_chrg_neg_relay_weld_fault'',
      ''charge_gun_connection_abnormal'',
      ''storage_mismatch_alarm'',
      ''charge_discharge_current_overflow'',
      ''charge_current_overflow_alarm'',
      ''charge_connector_ntc_fault'',
      ''charge_connector_overtemp_lvl1'',
      ''charge_connector_overtemp_lvl2'',
      ''cell_consistency_poor_alarm'',
      ''soc_high_alarm'',
      ''internal_hv_circuit_open_fault'']"

type_synonym confirmed = "string \<rightharpoonup> bool"

definition makeInstName :: "u32 \<Rightarrow> string" where
  "makeInstName inst = ''BMS_'' @ to_string (unat inst)"

definition makeSignalKey :: "u32 \<Rightarrow> string \<Rightarrow> string" where
  "makeSignalKey inst signal = makeInstName inst @ ''.'' @ signal"

definition setConfirmed :: "u32 \<Rightarrow> confirmed \<Rightarrow> string \<times> bool \<Rightarrow> confirmed" where
  "setConfirmed inst m sv = m(makeSignalKey inst (fst sv) \<mapsto> snd sv)"

definition clearInstSignals :: "u32 \<Rightarrow> confirmed \<Rightarrow> confirmed" where
  "clearInstSignals inst m = foldl (setConfirmed inst) m (map (\<lambda>s. (s, False)) kImplementedBmsSignals)"

definition seenWithin :: "u64 \<Rightarrow> u64 \<Rightarrow> u32 \<Rightarrow> bool" where
  "seenWithin now seen hold =
     (if seen = 0 then False else if now < seen then False else now - seen \<le> ucast hold)"

definition tmsCodeLatched :: "bms_cache_item \<Rightarrow> u64 \<Rightarrow> int \<Rightarrow> u32 \<Rightarrow> bool" where
  "tmsCodeLatched x now code hold =
     (if code = 0x03 then seenWithin now (tms_panel_aircon_seen_ms (x_tms x)) hold
      else if code = 0x1C then seenWithin now (tms_ats_water_pump_seen_ms (x_tms x)) hold
      else False)"

definition level3 :: "string \<Rightarrow> string \<Rightarrow> string \<Rightarrow> int \<Rightarrow> (string \<times> bool) list" where
  "level3 s1 s2 s3 level = [(s1, level = 1), (s2, level = 2), (s3, level = 3)]"

definition level2 :: "string \<Rightarrow> string \<Rightarrow> int \<Rightarrow> (string \<times> bool) list" where
  "level2 s1 s2 level = [(s1, level = 1), (s2, 2 \<le> level)]"

definition fire_alarm_on :: "bms_cache_item \<Rightarrow> bool" where
  "fire_alarm_on x \<longleftrightarrow> bms_online (x_health x) \<and>
     (0 < fire_value_alarm_level (x_fire x) \<or> fire_by_start_sts (x_fire x) \<or>
      fire_sensor_error_sts (x_fire x) \<or> fire_hw_error_sts (x_fire x))"

definition tms_unit_fault_on :: "bms_cache_item \<Rightarrow> bool" where
  "tms_unit_fault_on x \<longleftrightarrow> bms_online (x_health x) \<and>
     (tms_fault_code (x_tms x) \<noteq> 0 \<or> 0 < tms_fault_level (x_tms x) \<or>
      (bms_online (x_health x) \<and> f2_tms_err (x_f2 x)))"

definition f1_signals :: "bms_cache_item \<Rightarrow> (string \<times> bool) list" where
  "f1_signals x =
     level3 ''cell_overvoltage_lvl1'' ''cell_overvoltage_lvl2'' ''cell_overvoltage_lvl3''
       (if bms_online (x_health x) then f1_over_ucell (x_f1 x) else 0) @
     level3 ''cell_undervoltage_lvl1'' ''cell_undervoltage_lvl2'' ''cell_undervoltage_lvl3''
       (if bms_online (x_health x) then f1_low_ucell (x_f1 x) else 0) @
     level3 ''total_voltage_overvoltage_lvl1'' ''total_voltage_overvoltage_lvl2'' ''total_voltage_overvoltage_lvl3''
       (if bms_online (x_health x) then f1_pack_over_hvolt (x_f1 x) else 0) @
     level3 ''total_voltage_undervoltage_lvl1'' ''total_voltage_undervoltage_lvl2'' ''total_voltage_undervoltage_lvl3''
       (if bms_online (x_health x) then f1_pack_low_hvolt (x_f1 x) else 0) @
     level3 ''cell_overtemp_lvl1'' ''cell_overtemp_lvl2'' ''cell_overtemp_lvl3''
       (if bms_online (x_health x) then f1_over_temp (x_f1 x) else 0) @
     level3 ''temp_diff_over_lvl1'' ''temp_diff_over_lvl2'' ''temp_diff_over_lvl3''
       (if bms_online (x_health x) then f1_del_temp (x_f1 x) else 0) @
     level3 ''soc_low_lvl1'' ''soc_low_lvl2'' ''soc_low_lvl3''
       (if bms_online (x_health x) then f1_low_soc (x_f1 x) else 0) @
     level3 ''driving_insulation_low_lvl1'' ''driving_insulation_low_lvl2'' ''driving_insulation_low_lvl3''
       (if bms_online (x_health x) then f1_low_ins_res (x_f1 x) else 0) @
     [(''soc_jump_alarm'', bms_online (x_health x) \<and> f1_soc_change_fast (x_f1 x)),
      (''storage_mismatch_alarm'', bms_online (x_health x) \<and> f1_bat_sys_not_match (x_f1 x)),
      (''hvil_alarm'', bms_online (x_health x) \<and> f1_hvil_fault (x_f1 x)),
      (''cell_consistency_poor_alarm'', bms_online (x_health x) \<and> f1_ucell_uniformity (x_f1 x)),
      (''soc_high_alarm'', bms_online (x_health x) \<and> f1_over_soc (x_f1 x))]"

definition f2_signals :: "u64 \<Rightarrow> bms_cache_item \<Rightarrow> (string \<times> bool) list" where
  "f2_signals now x =
     level3 ''pulse_discharge_current_overflow_lvl1'' ''pulse_discharge_current_overflow_lvl2'' ''pulse_discharge_current_overflow_lvl3''
       (if bms_online (x_health x) then f2_over_dischrg_curr_level (x_f2 x) else 0) @
     level3 ''pulse_charge_current_overflow_lvl1'' ''pulse_charge_current_overflow_lvl2'' ''pulse_charge_current_overflow_lvl3''
       (if bms_online (x_health x) then f2_over_chrg_curr_in_drive_level (x_f2 x) else 0) @
     level2 ''charge_connector_overtemp_lvl1'' ''charge_connector_overtemp_lvl2''
       (if bms_online (x_health x) then f2_chrg_ntc_temp_over_level (x_f2 x) else 0) @
     [(''cell_overdischarge_fault'', bms_online (x_health x) \<and> f2_cell_over_dischrg (x_f2 x)),
      (''cell_lowtemp_alarm'', bms_online (x_health x) \<and> f2_cell_low_temp (x_f2 x)),
      (''fire_alarm'', fire_alarm_on x),
      (''tms_unit_fault'', tms_unit_fault_on x),
      (''tms_panel_aircon_fault'', bms_online (x_health x) \<and> tmsCodeLatched x now 0x03 3000),
      (''tms_ats_water_pump_fault'', bms_online (x_health x) \<and> tmsCodeLatched x now 0x1C 3000),
      (''current_sensor_fault'', bms_online (x_health x) \<and> f2_curr_sensor_err (x_f2 x)),
      (''low_voltage_supply_alarm'', bms_online (x_health x) \<and> f2_power_supply_err (x_f2 x)),
      (''soc_imbalance_alarm'', bms_online (x_health x) \<and> f2_soc_differ_err (x_f2 x)),
      (''battery_self_protect_fault'', bms_online (x_health x) \<and> f2_pack_self_protect (x_f2 x)),
      (''precharge_fault'', bms_online (x_health x) \<and> f2_main_loop_prechg_err (x_f2 x)),
      (''charge_insulation_low_alarm'', bms_online (x_health x) \<and> f2_chrg_ins_low_err (x_f2 x)),
      (''acan_comm_fault'', bms_online (x_health x) \<and> f2_acan_lost (x_f2 x)),
      (''internal_comm_fault'', bms_online (x_health x) \<and> f2_inner_comm_err (x_f2 x)),
      (''branch_circuit_open_fault'', bms_online (x_health x) \<and> f2_branch_break_err (x_f2 x)),
      (''heat_relay_open_fault'', bms_online (x_health x) \<and> open_err (f2_heat_relay (x_f2 x))),
      (''heat_relay_weld_fault'', bms_online (x_health x) \<and> weld_err (f2_heat_relay (x_f2 x))),
      (''main_pos_relay_open_fault'', bms_online (x_health x) \<and> open_err (f2_main_pos (x_f2 x))),
      (''main_pos_relay_weld_fault'', bms_online (x_health x) \<and> weld_err (f2_main_pos (x_f2 x))),
      (''main_neg_relay_open_fault'', bms_online (x_health x) \<and> open_err (f2_main_neg (x_f2 x))),
      (''main_neg_relay_weld_fault'', bms_online (x_health x) \<and> weld_err (f2_main_neg (x_f2 x))),
      (''dc_chrg_pos1_relay_open_fault'', bms_online (x_health x) \<and> open_err (f2_dc_chrg_pos1 (x_f2 x))),
      (''dc_chrg_pos1_relay_weld_fault'', bms_online (x_health x) \<and> weld_err (f2_dc_chrg_pos1 (x_f2 x))),
      (''dc_chrg_neg1_relay_open_fault'', bms_online (x_health x) \<and> open_err (f2_dc_chrg_neg1 (x_f2 x))),
      (''dc_chrg_neg1_relay_weld_fault'', bms_online (x_health x) \<and> weld_err (f2_dc_chrg_neg1 (x_f2 x))),
      (''dc_chrg_pos2_relay_open_fault'', bms_online (x_health x) \<and> open_err (f2_dc_chrg_pos2 (x_f2 x))),
      (''dc_chrg_pos2_relay_weld_fault'', bms_online (x_health x) \<and> weld_err (f2_dc_chrg_pos2 (x_f2 x))),
      (''dc_chrg_neg2_relay_open_fault'', bms_online (x_health x) \<and> open_err (f2_dc_chrg_neg2 (x_f2 x))),
      (''dc_chrg_neg2_relay_weld_fault'', bms_online (x_health x) \<and> weld_err (f2_dc_chrg_neg2 (x_f2 x))),
      (''ac_chrg_pos_relay_open_fault'', bms_online (x_health x) \<and> open_err (f2_ac_chrg_pos (x_f2 x))),
      (''ac_chrg_pos_relay_weld_fault'', bms_online (x_health x) \<and> weld_err (f2_ac_chrg_pos (x_f2 x))),
      (''ac_chrg_neg_relay_open_fault'', bms_online (x_health x) \<and> open_err (f2_ac_chrg_neg (x_f2 x))),
      (''ac_chrg_neg_relay_weld_fault'', bms_online (x_health x) \<and> weld_err (f2_ac_chrg_neg (x_f2 x))),
      (''panto_chrg_pos_relay_open_fault'', bms_online (x_health x) \<and> open_err (f2_panto_chrg_pos (x_f2 x))),
      (''panto_chrg_pos_relay_weld_fault'', bms_online (x_health x) \<and> weld_err (f2_panto_chrg_pos (x_f2 x))),
      (''panto_chrg_neg_relay_open_fault'', bms_online (x_health x) \<and> open_err (f2_panto_chrg_neg (x_f2 x))),
      (''panto_chrg_neg_relay_weld_fault'', bms_online (x_health x) \<and> weld_err (f2_panto_chrg_neg (x_f2 x))),
      (''charge_gun_connection_abnormal'', bms_online (x_health x) \<and> f2_chrg_connect_err (x_f2 x)),
      (''charge_discharge_current_overflow'', bms_online (x_health x) \<and> f2_over_dischrg_curr_when_in_chrg (x_f2 x)),
      (''charge_current_overflow_alarm'', bms_online (x_health x) \<and> f2_over_chrg_curr_in_the_chrg (x_f2 x)),
      (''charge_connector_ntc_fault'', bms_online (x_health x) \<and> f2_chrg_ntc_err (x_f2 x)),
      (''internal_hv_circuit_open_fault'', False)]"

definition bms_signals :: "u64 \<Rightarrow> bms_cache_item \<Rightarrow> (string \<times> bool) list" where
  "bms_signals now x = f1_signals x @ f2_signals now x"

definition evaluateOne :: "u32 \<Rightarrow> bms_cache_item option \<Rightarrow> u64 \<Rightarrow> confirmed \<Rightarrow> confirmed" where
  "evaluateOne inst xo now m =
     (case xo of None \<Rightarrow> clearInstSignals inst m
      | Some x \<Rightarrow>
          if \<not> seen_once (x_health x) then clearInstSignals inst m
          else foldl (setConfirmed inst) m (bms_signals now x))"

definition evaluateAll :: "bms_cache \<Rightarrow> u64 \<Rightarrow> logic_ctx \<Rightarrow> logic_ctx" where
  "evaluateAll cache now ctx =
     ctx\<lparr>c_bms_confirmed := foldl (\<lambda>m inst. evaluateOne inst (cache (makeInstName inst)) now m)
        (c_bms_confirmed ctx) instances\<rparr>"

section \<open>The mapper\<close>

definition confirmedOn :: "logic_ctx \<Rightarrow> u8 \<Rightarrow> string \<Rightarrow> bool" where
  "confirmedOn ctx inst signal =
     (case c_bms_confirmed ctx (''BMS_'' @ to_string (unat inst) @ ''.'' @ signal) of
        None \<Rightarrow> False | Some on \<Rightarrow> on)"

definition codeByInst :: "u8 \<Rightarrow> u16 \<Rightarrow> u16" where
  "codeByInst inst bms1_code =
     (if inst < 1 \<or> 4 < inst then bms1_code else bms1_code + (ucast inst - 1) * 0x100)"

definition bms_codes :: "(u16 \<times> string) list" where
  "bms_codes =
     [(0x2000, ''cell_overvoltage_lvl1''),
      (0x2001, ''cell_overvoltage_lvl2''),
      (0x2002, ''cell_overvoltage_lvl3''),
      (0x2003, ''cell_undervoltage_lvl1''),
      (0x2004, ''cell_undervoltage_lvl2''),
      (0x2005, ''cell_undervoltage_lvl3''),
      (0x2006, ''cell_overdischarge_fault''),
      (0x2007, ''total_voltage_overvoltage_lvl1''),
      (0x2008, ''total_voltage_overvoltage_lvl2''),
      (0x2009, ''total_voltage_overvoltage_lvl3''),
      (0x200A, ''total_voltage_undervoltage_lvl1''),
      (0x200B, ''total_voltage_undervoltage_lvl2''),
      (0x200C, ''total_voltage_undervoltage_lvl3''),
      (0x200D, ''cell_overtemp_lvl1''),
      (0x200E, ''cell_overtemp_lvl2''),
      (0x200F, ''cell_overtemp_lvl3''),
      (0x2010, ''cell_lowtemp_alarm''),
      (0x2011, ''temp_diff_over_lvl1''),
      (0x2012, ''temp_diff_over_lvl2''),
      (0x2013, ''temp_diff_over_lvl3''),
      (0x2014, ''fire_alarm''),
      (0x2015, ''pulse_discharge_current_overflow_lvl1''),
      (0x2016, ''pulse_discharge_current_overflow_lvl2''),
      (0x2017, ''pulse_discharge_current_overflow_lvl3''),
      (0x2018, ''pulse_charge_current_overflow_lvl1''),
      (0x2019, ''pulse_charge_current_overflow_lvl2''),
      (0x201A, ''pulse_charge_current_overflow_lvl3''),
      (0x201B, ''current_sensor_fault''),
      (0x201C, ''low_voltage_supply_alarm''),
      (0x201D, ''soc_imbalance_alarm''),
      (0x201E, ''soc_jump_alarm''),
      (0x201F, ''soc_low_lvl1''),
      (0x2020, ''soc_low_lvl2''),
      (0x2021, ''soc_low_lvl3''),
      (0x2022, ''tms_unit_fault''),
      (0x2023, ''battery_self_protect_fault''),
      (0x2024, ''precharge_fault''),
      (0x2025, ''driving_insulation_low_lvl1''),
      (0x2026, ''driving_insulation_low_lvl2''),
      (0x2027, ''driving_insulation_low_lvl3''),
      (0x2028, ''charge_insulation_low_alarm''),
      (0x2029, ''acan_comm_fault''),
      (0x202A, ''internal_comm_fault''),
      (0x202B, ''branch_circuit_open_fault''),
      (0x202C, ''hvil_alarm''),
      (0x202D, ''heat_relay_open_fault''),
      (0x202E, ''heat_relay_weld_fault''),
      (0x202F, ''main_pos_relay_open_fault''),
      (0x2030, ''main_pos_relay_weld_fault''),
      (0x2031, ''main_neg_relay_open_fault''),
      (0x2032, ''main_neg_relay_weld_fault''),
      (0x2033, ''dc_chrg_pos1_relay_open_fault''),
      (0x2034, ''dc_chrg_pos1_relay_weld_fault''),
      (0x2035, ''dc_chrg_neg1_relay_open_fault''),
      (0x2036, ''dc_chrg_neg1_relay_weld_fault''),
      (0x2037, ''dc_chrg_pos2_relay_open_fault''),
      (0x2038, ''dc_chrg_pos2_relay_weld_fault''),
      (0x2039, ''dc_chrg_neg2_relay_open_fault''),
      (0x203A, ''dc_chrg_neg2_relay_weld_fault''),
      (0x203B, ''charge_gun_connection_abnormal''),
      (0x203C, ''storage_mismatch_alarm''),
      (0x203D, ''charge_discharge_current_overflow''),
      (0x203E, ''charge_current_overflow_alarm''),
      (0x203F, ''charge_connector_ntc_fault''),
      (0x2040, ''charge_connector_overtemp_lvl1''),
      (0x2041, ''charge_connector_overtemp_lvl2''),
      (0x2042, ''cell_consistency_poor_alarm''),
      (0x2043, ''soc_high_alarm''),
      (0x2044, ''internal_hv_circuit_open_fault''),
      (0x2082, ''tms_panel_aircon_fault''),
      (0x208B, ''tms_ats_water_pump_fault'')]"

text \<open>\<open>clk c\<close> is what the clock shows when the mapper sets code c.\<close>

definition applyOne :: "logic_ctx \<Rightarrow> (u16 \<Rightarrow> u64) \<Rightarrow> fault_center \<Rightarrow> u8 \<Rightarrow> fault_center" where
  "applyOne ctx clk faults inst =
     foldl (\<lambda>s (c, on). setActive (clk c) c on s) faults
       (map (\<lambda>(code, signal). (codeByInst inst code, confirmedOn ctx inst signal)) bms_codes)"

definition applyToFaultPages :: "logic_ctx \<Rightarrow> (u16 \<Rightarrow> u64) \<Rightarrow> fault_center \<Rightarrow> fault_center" where
  "applyToFaultPages ctx clk faults = foldl (applyOne ctx clk) faults [1, 2, 3, 4]"

section \<open>Tables\<close>

lemma signals_distinct: "distinct (map fst (bms_signals now x))"
  by (simp add: bms_signals_def f1_signals_def f2_signals_def level3_def level2_def)

lemma signals_implemented: "set (map fst (bms_signals now x)) \<subseteq> set kImplementedBmsSignals"
  by (simp add: bms_signals_def f1_signals_def f2_signals_def level3_def level2_def kImplementedBmsSignals_def)

lemma codes_evaluated: "snd ` set bms_codes \<subseteq> set (map fst (bms_signals now x))"
  by (simp add: bms_signals_def f1_signals_def f2_signals_def level3_def level2_def bms_codes_def)

lemma codes_increasing: "successively (<) (map fst bms_codes)"
  by (simp add: bms_codes_def)

section \<open>Keys\<close>

lemma to_string_digit: "n < 10 \<Longrightarrow> to_string n = [digit_char n]"
  by (simp add: to_string.simps)

lemma digit_char_inj: "n < 10 \<Longrightarrow> k < 10 \<Longrightarrow> digit_char n = digit_char k \<longleftrightarrow> n = k"
proof
  assume n: "n < 10" "k < 10" "digit_char n = digit_char k"
  have "(of_char (digit_char j) :: nat) = 48 + j" if "j < 10" for j using that by (simp add: digit_char_def)
  with n show "n = k" by (metis add_left_cancel)
qed simp

lemma instance_small: "inst \<in> set instances \<Longrightarrow> unat inst < 10"
  by (auto simp: instances_def)

lemma key_inj:
  assumes "inst \<in> set instances" "j \<in> set instances"
  shows "makeSignalKey inst s = makeSignalKey j t \<longleftrightarrow> inst = j \<and> s = t"
  using instance_small [OF assms(1)] instance_small [OF assms(2)]
  by (auto simp: makeSignalKey_def makeInstName_def to_string_digit digit_char_inj word_unat_eq_iff)

lemma setConfirmed_fold:
  assumes "distinct (map fst xs)"
  shows "foldl (setConfirmed inst) m xs (makeSignalKey inst s) =
     (case map_of xs s of None \<Rightarrow> m (makeSignalKey inst s) | Some on \<Rightarrow> Some on)"
  using assms
proof (induction xs arbitrary: m)
  case (Cons x xs)
  have k: "makeSignalKey inst a = makeSignalKey inst b \<longleftrightarrow> a = b" for a b by (simp add: makeSignalKey_def)
  have "map_of xs (fst x) = None" using Cons.prems by (auto simp: map_of_eq_None_iff)
  with Cons show ?case by (cases x) (auto simp: setConfirmed_def k split: option.splits)
qed simp

lemma setConfirmed_fold_False:
  "s \<in> set ss \<Longrightarrow> foldl (setConfirmed inst) m (map (\<lambda>s. (s, False)) ss) (makeSignalKey inst s) = Some False"
proof (induction ss rule: rev_induct)
  case (snoc t ts)
  have k: "makeSignalKey inst a = makeSignalKey inst b \<longleftrightarrow> a = b" for a b by (simp add: makeSignalKey_def)
  from snoc show ?case by (auto simp: setConfirmed_def k)
qed simp

lemma setConfirmed_fold_other:
  assumes "\<And>t. k \<noteq> makeSignalKey inst t"
  shows "foldl (setConfirmed inst) m xs k = m k"
  using assms by (induction xs arbitrary: m) (simp_all add: setConfirmed_def)

lemma evaluateOne_other:
  assumes "inst \<in> set instances" "j \<in> set instances" "j \<noteq> inst"
  shows "evaluateOne j xo now m (makeSignalKey inst s) = m (makeSignalKey inst s)"
proof -
  have "makeSignalKey inst s \<noteq> makeSignalKey j t" for t using key_inj [OF assms(1,2)] assms(3) by auto
  then show ?thesis
    by (simp add: evaluateOne_def clearInstSignals_def setConfirmed_fold_other split: option.splits)
qed

text \<open>The value an evaluation confirms for a signal of the table.\<close>

definition battery_signal :: "u64 \<Rightarrow> bms_cache_item option \<Rightarrow> string \<Rightarrow> bool" where
  "battery_signal now xo s =
     (case xo of None \<Rightarrow> False | Some x \<Rightarrow> seen_once (x_health x) \<and> map_of (bms_signals now x) s = Some True)"

lemma evaluateOne_own:
  assumes "s \<in> snd ` set bms_codes"
  shows "evaluateOne inst xo now m (makeSignalKey inst s) = Some (battery_signal now xo s)"
proof -
  have e: "s \<in> set (map fst (bms_signals now x))" for x using codes_evaluated assms by blast
  then have "s \<in> set kImplementedBmsSignals" using signals_implemented by blast
  moreover have "(case map_of (bms_signals now x) s of None \<Rightarrow> m (makeSignalKey inst s) | Some on \<Rightarrow> Some on) =
      Some (map_of (bms_signals now x) s = Some True)" for x
    using e [of x] by (cases "map_of (bms_signals now x) s") (auto simp: map_of_eq_None_iff)
  ultimately show ?thesis
    by (simp add: evaluateOne_def clearInstSignals_def setConfirmed_fold_False battery_signal_def
        setConfirmed_fold [OF signals_distinct] split: option.splits)
qed

lemma evaluateAll_signal:
  assumes "inst \<in> set instances" "s \<in> snd ` set bms_codes"
  shows "c_bms_confirmed (evaluateAll cache now ctx) (makeSignalKey inst s) =
     Some (battery_signal now (cache (makeInstName inst)) s)"
proof -
  have i: "set instances = {1, 2, 3, 4}" by (auto simp: instances_def)
  from assms(1) i have "inst = 1 \<or> inst = 2 \<or> inst = 3 \<or> inst = 4" by simp
  moreover have "foldl (\<lambda>m k. evaluateOne k (cache (makeInstName k)) now m) (c_bms_confirmed ctx) instances =
      evaluateOne 4 (cache (makeInstName 4)) now (evaluateOne 3 (cache (makeInstName 3)) now
        (evaluateOne 2 (cache (makeInstName 2)) now (evaluateOne 1 (cache (makeInstName 1)) now (c_bms_confirmed ctx))))"
    by (simp add: instances_def)
  ultimately show ?thesis
    by (elim disjE) (simp_all add: evaluateAll_def evaluateOne_own [OF assms(2)] evaluateOne_other i)
qed

section \<open>Codes\<close>

lemma codes_distinct: "distinct (map fst bms_codes)"
proof -
  have "sorted_wrt (<) (map fst bms_codes)"
    using codes_increasing by (simp add: successively_conv_sorted_wrt)
  then show ?thesis by (simp add: strict_sorted_iff)
qed

lemma codes_range: "p \<in> set bms_codes \<Longrightarrow> 0x2000 \<le> unat (fst p) \<and> unat (fst p) < 0x2100"
  by (auto simp: bms_codes_def)

lemma codeByInst_unat:
  assumes "inst \<in> {1, 2, 3, 4}" "unat c < 0x2100"
  shows "unat (codeByInst inst c) = unat c + (unat inst - 1) * 256"
proof -
  have "(unat c + k) mod 65536 = unat c + k" if "k \<le> 768" for k using assms(2) that by simp
  then show ?thesis using assms by (auto simp: codeByInst_def unat_word_ariths)
qed

lemma codeByInst_inj:
  assumes "i \<in> {1, 2, 3, 4}" "j \<in> {1, 2, 3, 4}" "0x2000 \<le> unat c" "unat c < 0x2100" "0x2000 \<le> unat d" "unat d < 0x2100"
  shows "codeByInst i c = codeByInst j d \<longleftrightarrow> i = j \<and> c = d"
proof
  assume "codeByInst i c = codeByInst j d"
  then have "unat c + (unat i - 1) * 256 = unat d + (unat j - 1) * 256"
    using codeByInst_unat [OF assms(1,4)] codeByInst_unat [OF assms(2,6)] by simp
  moreover define a where "a = unat c - 0x2000"
  moreover define b where "b = unat d - 0x2000"
  ultimately have e: "a + (unat i - 1) * 256 = b + (unat j - 1) * 256" "a < 256" "b < 256" using assms by auto
  then have "(a + (unat i - 1) * 256) div 256 = (b + (unat j - 1) * 256) div 256" by simp
  then have "unat i - 1 = unat j - 1" using e by simp
  then have "i = j" using assms(1,2) by auto
  then have "unat c = unat d" using e(1) assms by (simp add: a_def b_def)
  then show "i = j \<and> c = d" using \<open>i = j\<close> by (simp add: word_unat_eq_iff)
qed simp

definition code_states :: "logic_ctx \<Rightarrow> u8 \<Rightarrow> (u16 \<times> bool) list" where
  "code_states ctx inst = map (\<lambda>(code, signal). (codeByInst inst code, confirmedOn ctx inst signal)) bms_codes"

lemma applyToFaultPages_batch:
  "applyToFaultPages ctx clk s =
     foldl (\<lambda>s (c, on). setActive (clk c) c on s) s (concat (map (code_states ctx) [1, 2, 3, 4]))"
  by (simp add: applyToFaultPages_def applyOne_def code_states_def)

lemma code_states_fst: "map fst (code_states ctx inst) = map (codeByInst inst) (map fst bms_codes)"
  by (simp add: code_states_def split_beta)

lemma all_codes_distinct: "distinct (map fst (concat (map (code_states ctx) [1, 2, 3, 4])))"
proof -
  have d: "distinct (map (codeByInst i) (map fst bms_codes))" if "i \<in> {1, 2, 3, 4}" for i
    unfolding distinct_map [of "codeByInst i"]
  proof
    show "distinct (map fst bms_codes)" by (rule codes_distinct)
    show "inj_on (codeByInst i) (set (map fst bms_codes))"
      using codeByInst_inj [OF that that] codes_range by (auto simp: inj_on_def)
  qed
  have "codeByInst i c \<noteq> codeByInst j d" if "i \<in> {1, 2, 3, 4}" "j \<in> {1, 2, 3, 4}" "i \<noteq> j"
    "c \<in> set (map fst bms_codes)" "d \<in> set (map fst bms_codes)" for i j c d
    using codeByInst_inj [OF that(1,2), of c d] codes_range that(3-5) by auto
  then have x: "codeByInst i ` set (map fst bms_codes) \<inter> codeByInst j ` set (map fst bms_codes) = {}"
    if "i \<in> {1, 2, 3, 4}" "j \<in> {1, 2, 3, 4}" "i \<noteq> j" for i j using that by blast
  define K where "K = map fst bms_codes"
  have k: "map fst (code_states ctx inst) = map (codeByInst inst) K" for inst by (simp only: code_states_fst K_def)
  have "map fst (concat (map (code_states ctx) [1, 2, 3, 4])) =
      map (codeByInst 1) K @ map (codeByInst 2) K @ map (codeByInst 3) K @ map (codeByInst 4) K"
    by (simp add: k)
  then show ?thesis
    using d [folded K_def] x [folded K_def, of 1 2] x [folded K_def, of 1 3] x [folded K_def, of 1 4]
      x [folded K_def, of 2 3] x [folded K_def, of 2 4] x [folded K_def, of 3 4]
    by (simp add: Int_Un_distrib)
qed

lemma active_after_apply:
  assumes "inst \<in> {1, 2, 3, 4}" "(code, sig) \<in> set bms_codes"
  shows "isActive (applyToFaultPages ctx clk s) (codeByInst inst code) = confirmedOn ctx inst sig"
proof -
  let ?xs = "concat (map (code_states ctx) [1, 2, 3, 4])"
  have "(codeByInst inst code, confirmedOn ctx inst sig) \<in> set (code_states ctx inst)"
    using assms(2) by (force simp: code_states_def)
  then have "(codeByInst inst code, confirmedOn ctx inst sig) \<in> set ?xs" using assms(1) by auto
  then have "map_of ?xs (codeByInst inst code) = Some (confirmedOn ctx inst sig)"
    by (rule map_of_is_SomeI [OF all_codes_distinct])
  then show ?thesis
    by (simp only: applyToFaultPages_batch center.is_active_batch [OF all_codes_distinct] option.case)
qed

lemma inactive_after_apply:
  assumes "\<And>inst code sig. inst \<in> {1, 2, 3, 4} \<Longrightarrow> (code, sig) \<in> set bms_codes \<Longrightarrow> c \<noteq> codeByInst inst code"
  shows "isActive (applyToFaultPages ctx clk s) c = isActive s c"
proof -
  have "c \<notin> fst ` set (code_states ctx i)" if i: "i \<in> {1, 2, 3, 4}" for i
  proof
    assume "c \<in> fst ` set (code_states ctx i)"
    then obtain k t where "(k, t) \<in> set bms_codes" "c = codeByInst i k" by (auto simp: code_states_def)
    with assms [OF i] show False by blast
  qed
  then have "map_of (concat (map (code_states ctx) [1, 2, 3, 4])) c = None"
    by (auto simp: map_of_eq_None_iff image_Un)
  then show ?thesis
    by (simp only: applyToFaultPages_batch center.is_active_batch [OF all_codes_distinct] option.case)
qed

section \<open>Properties\<close>

lemma confirmedOn_evaluated:
  assumes "inst \<in> {1, 2, 3, 4}" "(code, sig) \<in> set bms_codes"
  shows "confirmedOn (evaluateAll cache now ctx) inst sig = battery_signal now (cache (makeInstName (ucast inst))) sig"
proof -
  have i: "(ucast inst :: u32) \<in> set instances" "unat (ucast inst :: u32) = unat inst"
    using assms(1) by (auto simp: instances_def)
  have "sig \<in> snd ` set bms_codes" using assms(2) by force
  from evaluateAll_signal [OF i(1) this, of cache now ctx] show ?thesis
    by (simp add: confirmedOn_def makeSignalKey_def makeInstName_def i(2))
qed

lemma offline_no_signals: "\<not> bms_online (x_health x) \<Longrightarrow> map_of (bms_signals now x) s \<noteq> Some True"
proof
  assume o: "\<not> bms_online (x_health x)" and "map_of (bms_signals now x) s = Some True"
  then have "(s, True) \<in> set (bms_signals now x)" by (rule_tac map_of_SomeD)
  moreover have "\<forall>p \<in> set (bms_signals now x). \<not> snd p"
    using o by (simp add: bms_signals_def f1_signals_def f2_signals_def level3_def level2_def fire_alarm_on_def
        tms_unit_fault_on_def)
  ultimately show False by fastforce
qed

text \<open>C14: the way of a battery fault. After an evaluation and the mapping that follows, the fault code of a
  battery is active exactly if that battery is in the cache, was seen and its signal holds now; a battery
  that is unknown, was never seen or is offline has no active code, whatever was active before; and the
  codes of other devices keep their state.\<close>

theorem battery_faults_reach_center:
  assumes "inst \<in> {1, 2, 3, 4}" and "(code, sig) \<in> set bms_codes"
    and "s' = applyToFaultPages (evaluateAll (c_bms ctx) now ctx) clk s"
    and "xo = c_bms ctx (makeInstName (ucast inst))"
  shows "(isActive s' (codeByInst inst code) \<longleftrightarrow>
       (\<exists>x. xo = Some x \<and> seen_once (x_health x) \<and> map_of (bms_signals now x) sig = Some True))
    \<and> (xo = None \<or> (\<exists>x. xo = Some x \<and> (\<not> seen_once (x_health x) \<or> \<not> bms_online (x_health x))) \<longrightarrow>
         \<not> isActive s' (codeByInst inst code))
    \<and> (\<forall>c. unat c < 0x2000 \<or> 0x2400 \<le> unat c \<longrightarrow> isActive s' c = isActive s c)"
proof -
  have a: "isActive s' (codeByInst inst code) = battery_signal now xo sig"
    unfolding assms(3,4) by (simp add: active_after_apply [OF assms(1,2)] confirmedOn_evaluated [OF assms(1,2)])
  have "isActive s' c = isActive s c" if c: "unat c < 0x2000 \<or> 0x2400 \<le> unat c" for c
    unfolding assms(3)
  proof (rule inactive_after_apply)
    fix i k t assume i: "i \<in> {1, 2, 3, 4 :: u8}" and k: "(k, t) \<in> set bms_codes"
    have "unat (codeByInst i k) = unat k + (unat i - 1) * 256" "unat i \<le> 4"
      using codes_range [OF k] codeByInst_unat [OF i, of k] i by auto
    then show "c \<noteq> codeByInst i k" using c codes_range [OF k] by auto
  qed
  then show ?thesis
    using a offline_no_signals by (auto simp: battery_signal_def split: option.splits)
qed

theorem battery_faults_reach_center_witness:
  "\<not> isActive (applyToFaultPages (evaluateAll Map.empty 9 ctx_init) (\<lambda>_. 9) center_init) (codeByInst 2 0x2002)"
  using battery_faults_reach_center [of 2 "0x2002" "''cell_overvoltage_lvl3''" _ ctx_init 9 "\<lambda>_. 9" center_init, OF _ _ refl refl]
  by (simp add: bms_codes_def ctx_init_def)

text \<open>The faults with three levels: the code of level 1 and the level a battery reports.\<close>

definition level_groups :: "(u16 \<times> (bms_cache_item \<Rightarrow> int)) list" where
  "level_groups =
     [(0x2000, \<lambda>x. f1_over_ucell (x_f1 x)), (0x2003, \<lambda>x. f1_low_ucell (x_f1 x)),
      (0x2007, \<lambda>x. f1_pack_over_hvolt (x_f1 x)), (0x200A, \<lambda>x. f1_pack_low_hvolt (x_f1 x)),
      (0x200D, \<lambda>x. f1_over_temp (x_f1 x)), (0x2011, \<lambda>x. f1_del_temp (x_f1 x)),
      (0x2015, \<lambda>x. f2_over_dischrg_curr_level (x_f2 x)), (0x2018, \<lambda>x. f2_over_chrg_curr_in_drive_level (x_f2 x)),
      (0x201F, \<lambda>x. f1_low_soc (x_f1 x)), (0x2025, \<lambda>x. f1_low_ins_res (x_f1 x))]"

definition level_row :: "u16 \<Rightarrow> int \<Rightarrow> (bms_cache_item \<Rightarrow> int) \<Rightarrow> bool" where
  "level_row c k lev \<longleftrightarrow> (\<exists>sig. map_of bms_codes c = Some sig \<and>
     (\<forall>now x. map_of (bms_signals now x) sig = Some True \<longleftrightarrow> bms_online (x_health x) \<and> lev x = k))"

lemma level_codes:
  "map_of bms_codes 0x2000 = Some ''cell_overvoltage_lvl1''"
  "map_of bms_codes 0x2001 = Some ''cell_overvoltage_lvl2''"
  "map_of bms_codes 0x2002 = Some ''cell_overvoltage_lvl3''"
  "map_of bms_codes 0x2003 = Some ''cell_undervoltage_lvl1''"
  "map_of bms_codes 0x2004 = Some ''cell_undervoltage_lvl2''"
  "map_of bms_codes 0x2005 = Some ''cell_undervoltage_lvl3''"
  "map_of bms_codes 0x2007 = Some ''total_voltage_overvoltage_lvl1''"
  "map_of bms_codes 0x2008 = Some ''total_voltage_overvoltage_lvl2''"
  "map_of bms_codes 0x2009 = Some ''total_voltage_overvoltage_lvl3''"
  "map_of bms_codes 0x200A = Some ''total_voltage_undervoltage_lvl1''"
  "map_of bms_codes 0x200B = Some ''total_voltage_undervoltage_lvl2''"
  "map_of bms_codes 0x200C = Some ''total_voltage_undervoltage_lvl3''"
  "map_of bms_codes 0x200D = Some ''cell_overtemp_lvl1''"
  "map_of bms_codes 0x200E = Some ''cell_overtemp_lvl2''"
  "map_of bms_codes 0x200F = Some ''cell_overtemp_lvl3''"
  "map_of bms_codes 0x2011 = Some ''temp_diff_over_lvl1''"
  "map_of bms_codes 0x2012 = Some ''temp_diff_over_lvl2''"
  "map_of bms_codes 0x2013 = Some ''temp_diff_over_lvl3''"
  "map_of bms_codes 0x2015 = Some ''pulse_discharge_current_overflow_lvl1''"
  "map_of bms_codes 0x2016 = Some ''pulse_discharge_current_overflow_lvl2''"
  "map_of bms_codes 0x2017 = Some ''pulse_discharge_current_overflow_lvl3''"
  "map_of bms_codes 0x2018 = Some ''pulse_charge_current_overflow_lvl1''"
  "map_of bms_codes 0x2019 = Some ''pulse_charge_current_overflow_lvl2''"
  "map_of bms_codes 0x201A = Some ''pulse_charge_current_overflow_lvl3''"
  "map_of bms_codes 0x201F = Some ''soc_low_lvl1''"
  "map_of bms_codes 0x2020 = Some ''soc_low_lvl2''"
  "map_of bms_codes 0x2021 = Some ''soc_low_lvl3''"
  "map_of bms_codes 0x2025 = Some ''driving_insulation_low_lvl1''"
  "map_of bms_codes 0x2026 = Some ''driving_insulation_low_lvl2''"
  "map_of bms_codes 0x2027 = Some ''driving_insulation_low_lvl3''"
  by (simp_all add: bms_codes_def)

lemma level_values:
  "map_of (bms_signals now x) ''cell_overvoltage_lvl1'' =
     Some (bms_online (x_health x) \<and> f1_over_ucell (x_f1 x) = 1)"
  "map_of (bms_signals now x) ''cell_overvoltage_lvl2'' =
     Some (bms_online (x_health x) \<and> f1_over_ucell (x_f1 x) = 2)"
  "map_of (bms_signals now x) ''cell_overvoltage_lvl3'' =
     Some (bms_online (x_health x) \<and> f1_over_ucell (x_f1 x) = 3)"
  "map_of (bms_signals now x) ''cell_undervoltage_lvl1'' =
     Some (bms_online (x_health x) \<and> f1_low_ucell (x_f1 x) = 1)"
  "map_of (bms_signals now x) ''cell_undervoltage_lvl2'' =
     Some (bms_online (x_health x) \<and> f1_low_ucell (x_f1 x) = 2)"
  "map_of (bms_signals now x) ''cell_undervoltage_lvl3'' =
     Some (bms_online (x_health x) \<and> f1_low_ucell (x_f1 x) = 3)"
  "map_of (bms_signals now x) ''total_voltage_overvoltage_lvl1'' =
     Some (bms_online (x_health x) \<and> f1_pack_over_hvolt (x_f1 x) = 1)"
  "map_of (bms_signals now x) ''total_voltage_overvoltage_lvl2'' =
     Some (bms_online (x_health x) \<and> f1_pack_over_hvolt (x_f1 x) = 2)"
  "map_of (bms_signals now x) ''total_voltage_overvoltage_lvl3'' =
     Some (bms_online (x_health x) \<and> f1_pack_over_hvolt (x_f1 x) = 3)"
  "map_of (bms_signals now x) ''total_voltage_undervoltage_lvl1'' =
     Some (bms_online (x_health x) \<and> f1_pack_low_hvolt (x_f1 x) = 1)"
  "map_of (bms_signals now x) ''total_voltage_undervoltage_lvl2'' =
     Some (bms_online (x_health x) \<and> f1_pack_low_hvolt (x_f1 x) = 2)"
  "map_of (bms_signals now x) ''total_voltage_undervoltage_lvl3'' =
     Some (bms_online (x_health x) \<and> f1_pack_low_hvolt (x_f1 x) = 3)"
  "map_of (bms_signals now x) ''cell_overtemp_lvl1'' =
     Some (bms_online (x_health x) \<and> f1_over_temp (x_f1 x) = 1)"
  "map_of (bms_signals now x) ''cell_overtemp_lvl2'' =
     Some (bms_online (x_health x) \<and> f1_over_temp (x_f1 x) = 2)"
  "map_of (bms_signals now x) ''cell_overtemp_lvl3'' =
     Some (bms_online (x_health x) \<and> f1_over_temp (x_f1 x) = 3)"
  "map_of (bms_signals now x) ''temp_diff_over_lvl1'' =
     Some (bms_online (x_health x) \<and> f1_del_temp (x_f1 x) = 1)"
  "map_of (bms_signals now x) ''temp_diff_over_lvl2'' =
     Some (bms_online (x_health x) \<and> f1_del_temp (x_f1 x) = 2)"
  "map_of (bms_signals now x) ''temp_diff_over_lvl3'' =
     Some (bms_online (x_health x) \<and> f1_del_temp (x_f1 x) = 3)"
  "map_of (bms_signals now x) ''pulse_discharge_current_overflow_lvl1'' =
     Some (bms_online (x_health x) \<and> f2_over_dischrg_curr_level (x_f2 x) = 1)"
  "map_of (bms_signals now x) ''pulse_discharge_current_overflow_lvl2'' =
     Some (bms_online (x_health x) \<and> f2_over_dischrg_curr_level (x_f2 x) = 2)"
  "map_of (bms_signals now x) ''pulse_discharge_current_overflow_lvl3'' =
     Some (bms_online (x_health x) \<and> f2_over_dischrg_curr_level (x_f2 x) = 3)"
  "map_of (bms_signals now x) ''pulse_charge_current_overflow_lvl1'' =
     Some (bms_online (x_health x) \<and> f2_over_chrg_curr_in_drive_level (x_f2 x) = 1)"
  "map_of (bms_signals now x) ''pulse_charge_current_overflow_lvl2'' =
     Some (bms_online (x_health x) \<and> f2_over_chrg_curr_in_drive_level (x_f2 x) = 2)"
  "map_of (bms_signals now x) ''pulse_charge_current_overflow_lvl3'' =
     Some (bms_online (x_health x) \<and> f2_over_chrg_curr_in_drive_level (x_f2 x) = 3)"
  "map_of (bms_signals now x) ''soc_low_lvl1'' =
     Some (bms_online (x_health x) \<and> f1_low_soc (x_f1 x) = 1)"
  "map_of (bms_signals now x) ''soc_low_lvl2'' =
     Some (bms_online (x_health x) \<and> f1_low_soc (x_f1 x) = 2)"
  "map_of (bms_signals now x) ''soc_low_lvl3'' =
     Some (bms_online (x_health x) \<and> f1_low_soc (x_f1 x) = 3)"
  "map_of (bms_signals now x) ''driving_insulation_low_lvl1'' =
     Some (bms_online (x_health x) \<and> f1_low_ins_res (x_f1 x) = 1)"
  "map_of (bms_signals now x) ''driving_insulation_low_lvl2'' =
     Some (bms_online (x_health x) \<and> f1_low_ins_res (x_f1 x) = 2)"
  "map_of (bms_signals now x) ''driving_insulation_low_lvl3'' =
     Some (bms_online (x_health x) \<and> f1_low_ins_res (x_f1 x) = 3)"
  by (simp_all add: bms_signals_def f1_signals_def f2_signals_def level3_def level2_def)

lemma level_rows:
  "(base, lev) \<in> set level_groups \<Longrightarrow> level_row base 1 lev \<and> level_row (base + 1) 2 lev \<and> level_row (base + 2) 3 lev"
  unfolding level_groups_def level_row_def by (auto simp: level_codes level_values)

text \<open>For each of the ten faults with three levels, the code of level k of a battery is active after an
  evaluation exactly if the battery was seen, is online and reports level k; so at most one of the three
  codes is active.\<close>

theorem fault_level_shown_exactly:
  assumes "inst \<in> {1, 2, 3, 4}" and "(base, lev) \<in> set level_groups" and "k \<in> {1, 2, 3}"
    and "s' = applyToFaultPages (evaluateAll (c_bms ctx) now ctx) clk s"
    and "c_bms ctx (makeInstName (ucast inst)) = Some x"
  shows "isActive s' (codeByInst inst (base + word_of_int (k - 1))) \<longleftrightarrow>
     seen_once (x_health x) \<and> bms_online (x_health x) \<and> lev x = k"
proof -
  have "level_row (base + word_of_int (k - 1)) k lev" using level_rows [OF assms(2)] assms(3) by auto
  then obtain sig where sig: "map_of bms_codes (base + word_of_int (k - 1)) = Some sig"
    "map_of (bms_signals now x) sig = Some True \<longleftrightarrow> bms_online (x_health x) \<and> lev x = k"
    by (auto simp: level_row_def)
  from map_of_SomeD [OF sig(1)] have c: "(base + word_of_int (k - 1), sig) \<in> set bms_codes" .
  show ?thesis
    unfolding assms(4) active_after_apply [OF assms(1) c] confirmedOn_evaluated [OF assms(1) c] assms(5)
    by (simp add: battery_signal_def sig(2))
qed

definition example_fault_ctx :: logic_ctx where
  "example_fault_ctx = ctx_init\<lparr>c_bms := [makeInstName 2 \<mapsto> bms_item_init
     \<lparr>x_health := health_init\<lparr>seen_once := True, bms_online := True\<rparr>, x_f1 := f1_init\<lparr>f1_over_ucell := 3\<rparr>\<rparr>]\<rparr>"

theorem fault_level_shown_exactly_witness:
  "isActive (applyToFaultPages (evaluateAll (c_bms example_fault_ctx) 9 example_fault_ctx) (\<lambda>_. 9) center_init)
     (codeByInst 2 0x2002)"
  using fault_level_shown_exactly [of 2 "0x2000" "\<lambda>x. f1_over_ucell (x_f1 x)" 3 _ example_fault_ctx 9 "\<lambda>_. 9" center_init,
      OF _ _ _ refl]
  by (simp add: level_groups_def example_fault_ctx_def)

end
