(* ===== verification/Modbus_Crc.thy ===== *)
theory Modbus_Crc
  imports Prelude
begin

text \<open>
  The CRC-16 of Modbus RTU (\<open>services/protocol/modbus/modbus_crc.cpp\<close>), its two byte orders
  (\<open>services/parser/crc_policy.cpp\<close>) and the frame builder and register decoder of
  \<open>services/protocol/modbus/modbus_rtu.cpp\<close>. A frame is a byte list; lengths passed as
  \<open>uint16_t\<close> are reduced to 16 bits as the call does. The lemmas show that the register update
  is linear and injective over GF(2), that a frame closed with its own CRC verifies, and that
  every change confined to two neighbouring body bytes of a valid frame is rejected.
\<close>

section \<open>The routines\<close>

definition crc_bit :: "u16 \<Rightarrow> u16" where
  "crc_bit crc = (if crc AND 1 \<noteq> 0 then drop_bit 1 crc XOR 0xA001 else drop_bit 1 crc)"

definition crc_byte :: "u16 \<Rightarrow> u8 \<Rightarrow> u16" where
  "crc_byte crc b = (crc_bit ^^ 8) (crc XOR ucast b)"

definition calc :: "bytes \<Rightarrow> u16 \<Rightarrow> u16" where
  "calc data len = foldl crc_byte 0xFFFF (take (unat len) data)"

definition calc_vec :: "bytes \<Rightarrow> u16" where
  "calc_vec data = (if data = [] then 0 else calc data (of_nat (length data)))"

definition verify :: "bytes \<Rightarrow> bool" where
  "verify frame =
     (if length frame < 4 then False
      else (let n = length frame;
                recv_crc = mk16 (frame ! (n - 1)) (frame ! (n - 2));
                calc_crc = calc frame (of_nat (n - 2))
            in recv_crc = calc_crc))"

datatype crc_order = LoHi | HiLo

definition policy_verify :: "bytes \<Rightarrow> crc_order \<Rightarrow> bool" where
  "policy_verify frame order =
     (if length frame < 4 then False
      else (let n = length frame;
                recv_crc = (if order = LoHi then mk16 (frame ! (n - 1)) (frame ! (n - 2))
                            else mk16 (frame ! (n - 2)) (frame ! (n - 1)));
                calc_crc = calc frame (of_nat (n - 2))
            in recv_crc = calc_crc))"

text \<open>Closing a frame with its CRC: low byte first for standard Modbus, high byte first for the
  smoke and gas sensors.\<close>

definition close_lo_hi :: "bytes \<Rightarrow> bytes" where
  "close_lo_hi frame = frame @ [lo8 (calc_vec frame), hi8 (calc_vec frame)]"

definition close_hi_lo :: "bytes \<Rightarrow> bytes" where
  "close_hi_lo frame = frame @ [hi8 (calc_vec frame), lo8 (calc_vec frame)]"

definition buildReadHolding :: "u8 \<Rightarrow> u16 \<Rightarrow> u16 \<Rightarrow> bytes" where
  "buildReadHolding slave start count =
     close_lo_hi [slave, 0x03, hi8 start, lo8 start, hi8 count, lo8 count]"

text \<open>
  \<open>ModbusRTU::parseHolding\<close> decodes into a caller-sized register vector. The loop writes
  \<open>regs[i / 2]\<close> for every byte index \<open>i\<close>, so the last write of each register wins; reading past
  the end of \<open>rx\<close> is undefined behaviour.
\<close>

fun parseHolding_loop :: "bytes \<Rightarrow> nat \<Rightarrow> nat list \<Rightarrow> u16 list \<Rightarrow> cpp_error + u16 list" where
  "parseHolding_loop rx byte_count [] regs = Inr regs"
| "parseHolding_loop rx byte_count (i # is) regs =
     (if length rx \<le> 3 + i + 1 then Inl OutOfBounds
      else parseHolding_loop rx byte_count is
             (regs[i div 2 := mk16 (rx ! (3 + i + 1)) (rx ! (3 + i))]))"

definition parseHolding :: "bytes \<Rightarrow> u16 list \<Rightarrow> cpp_error + (bool \<times> u16 list)" where
  "parseHolding rx regs =
     (if length rx < 4 then Inr (False, regs)
      else if rx ! 0 \<noteq> 0x01 \<or> rx ! 1 \<noteq> 0x03 then Inr (False, regs)
      else if unat (rx ! 2) \<noteq> length regs * 2 then Inr (False, regs)
      else (case parseHolding_loop rx (unat (rx ! 2)) [0..<unat (rx ! 2)] regs of
              Inl e \<Rightarrow> Inl e
            | Inr regs' \<Rightarrow> Inr (True, regs')))"

section \<open>The register update over GF(2)\<close>

lemma crc_bit_alt: "crc_bit c = drop_bit 1 c XOR (if bit c 0 then 0xA001 else 0)"
  by (simp add: crc_bit_def and_one_eq even_bit_succ_iff bit_0 odd_iff_mod_2_eq_one)

lemma crc_bit_zero [simp]: "crc_bit 0 = 0"
  by (simp add: crc_bit_def)

lemma crc_bit_xor: "crc_bit (x XOR y) = crc_bit x XOR crc_bit y"
  unfolding crc_bit_alt
  by (rule bit_word_eqI) (auto simp: bit_simps)

lemma crc_bit_low_clear: "\<not> bit c 0 \<Longrightarrow> crc_bit c = drop_bit 1 c"
  by (simp add: crc_bit_alt)

lemma crc_bit_eq_zero: assumes "crc_bit c = 0" shows "c = 0"
proof -
  have "bit (crc_bit c) 15 \<longleftrightarrow> bit c 0"
    using bit_imp_le_length [of c 16] by (auto simp: crc_bit_alt bit_simps)
  with assms have low: "\<not> bit c 0" by simp
  with assms have "drop_bit 1 c = 0" by (simp add: crc_bit_low_clear)
  moreover have "bit c (Suc n) = bit (drop_bit 1 c) n" for n by (simp add: bit_drop_bit_eq)
  ultimately have "\<not> bit c n" for n using low by (cases n) simp_all
  then show ?thesis by (auto intro: bit_word_eqI)
qed

lemma crc_bit_inject [simp]: "crc_bit x = crc_bit y \<longleftrightarrow> x = y"
proof
  assume "crc_bit x = crc_bit y"
  then have "crc_bit (x XOR y) = 0" by (simp add: crc_bit_xor)
  then have "x XOR y = 0" by (rule crc_bit_eq_zero)
  then show "x = y" by simp
qed simp

lemma crc_bits_xor: "(crc_bit ^^ k) (x XOR y) = (crc_bit ^^ k) x XOR (crc_bit ^^ k) y"
  by (induction k) (simp_all add: crc_bit_xor)

lemma crc_bits_inject [simp]: "(crc_bit ^^ k) x = (crc_bit ^^ k) y \<longleftrightarrow> x = y"
  by (induction k) simp_all

lemma crc_bits_low_clear: "(\<And>i. i < k \<Longrightarrow> \<not> bit x i) \<Longrightarrow> (crc_bit ^^ k) x = drop_bit k x"
proof (induction k arbitrary: x)
  case (Suc k)
  have "(crc_bit ^^ Suc k) x = (crc_bit ^^ k) (crc_bit x)"
    by (simp only: funpow_Suc_right comp_apply)
  also have "crc_bit x = drop_bit 1 x" using Suc.prems [of 0] by (simp add: crc_bit_low_clear)
  also have "(crc_bit ^^ k) (drop_bit 1 x) = drop_bit k (drop_bit 1 x)"
    using Suc.prems by (intro Suc.IH) (simp add: bit_simps)
  finally show ?case by (simp add: drop_bit_drop_bit)
qed simp

lemma ucast8_inject: "(ucast (a :: u8) :: u16) = ucast b \<longleftrightarrow> a = b"
  by (metis bit_mk16 bit_word_eqI lo8_mk16 mk16_def or.left_neutral push_bit_of_0 unsigned_0)

lemma crc_byte_unfold:
  "crc_byte c b =
     crc_bit (crc_bit (crc_bit (crc_bit (crc_bit (crc_bit (crc_bit (crc_bit (c XOR ucast b))))))))"
  by (simp add: crc_byte_def numeral_eq_Suc)

lemma crc_byte_inject_crc [simp]: "crc_byte c b = crc_byte d b \<longleftrightarrow> c = d"
  by (simp add: crc_byte_def)

lemma crc_byte_inject_byte: "crc_byte c a = crc_byte c b \<longleftrightarrow> a = b"
  by (simp add: crc_byte_def ucast8_inject)

lemma foldl_crc_byte_inject [simp]: "foldl crc_byte c xs = foldl crc_byte d xs \<longleftrightarrow> c = d"
  by (induction xs arbitrary: c d) simp_all

lemma crc_two_bytes:
  "crc_byte (crc_byte c a) b = (crc_bit ^^ 16) (c XOR mk16 b a)"
proof -
  have shifted: "(crc_bit ^^ 8) (push_bit 8 (ucast b)) = ucast b"
    by (subst crc_bits_low_clear) (auto simp: bit_simps intro!: bit_word_eqI)
  have mk: "mk16 b a = ucast a XOR push_bit 8 (ucast b)"
    by (rule bit_word_eqI) (auto simp: bit_mk16 bit_simps dest: bit_imp_le_length)
  have "(crc_bit ^^ 16) (c XOR mk16 b a) = (crc_bit ^^ (8 + 8)) (c XOR mk16 b a)" by simp
  also have "\<dots> = (crc_bit ^^ 8) ((crc_bit ^^ 8) (c XOR mk16 b a))"
    by (simp only: funpow_add comp_apply)
  also have "(crc_bit ^^ 8) (c XOR mk16 b a) = (crc_bit ^^ 8) (c XOR ucast a) XOR ucast b"
    by (simp only: mk xor.assoc [symmetric] crc_bits_xor shifted)
  finally show ?thesis by (simp add: crc_byte_def)
qed

section \<open>Closing and checking a frame\<close>

lemma calc_body: "calc (body @ tail) (of_nat (length body)) = foldl crc_byte 0xFFFF body"
  if "length body < 65536"
  using that by (simp add: calc_def)

lemma calc_vec_eq:
  "2 \<le> length body \<Longrightarrow> length body < 65536 \<Longrightarrow> calc_vec body = foldl crc_byte 0xFFFF body"
  using calc_body [of body "[]"] by (auto simp: calc_vec_def)

lemma verify_snoc2:
  assumes "2 \<le> length body" "length body < 65536"
  shows "verify (body @ [l, h]) \<longleftrightarrow> mk16 h l = foldl crc_byte 0xFFFF body"
  using assms calc_body [of body "[l, h]"] by (simp add: verify_def Let_def)

lemmas crc_eval = verify_def calc_def crc_byte_unfold crc_bit_def mk16_def

lemma policy_verify_LoHi: "policy_verify frame LoHi = verify frame"
  by (simp add: policy_verify_def verify_def)

lemma policy_verify_HiLo_snoc2:
  assumes "2 \<le> length body" "length body < 65536"
  shows "policy_verify (body @ [h, l]) HiLo \<longleftrightarrow> mk16 h l = foldl crc_byte 0xFFFF body"
  using assms calc_body [of body "[h, l]"] by (simp add: policy_verify_def Let_def)

lemma verify_close_lo_hi:
  "2 \<le> length body \<Longrightarrow> length body < 65536 \<Longrightarrow> verify (close_lo_hi body)"
  by (subst close_lo_hi_def, subst verify_snoc2) (auto simp: calc_vec_eq)

lemma verify_close_hi_lo:
  "2 \<le> length body \<Longrightarrow> length body < 65536 \<Longrightarrow> policy_verify (close_hi_lo body) HiLo"
  by (subst close_hi_lo_def, subst policy_verify_HiLo_snoc2) (auto simp: calc_vec_eq)

lemma length_close [simp]:
  "length (close_lo_hi body) = length body + 2" "length (close_hi_lo body) = length body + 2"
  by (simp_all add: close_lo_hi_def close_hi_lo_def)

lemma verify_imp_close:
  assumes "verify frame" "length frame < 65538"
  shows "frame = close_lo_hi (take (length frame - 2) frame)"
proof -
  have len: "4 \<le> length frame" using assms(1) by (auto simp: verify_def split: if_splits)
  then obtain body l h where frame: "frame = body @ [l, h]"
    using length_ge_2_snoc2 [of frame] by auto
  have bl: "2 \<le> length body" "length body < 65536" using len assms(2) frame by simp_all
  have "mk16 h l = calc_vec body"
    using assms(1) bl verify_snoc2 [OF bl, of l h] calc_vec_eq [of body] by (auto simp: frame)
  then have "lo8 (calc_vec body) = l" "hi8 (calc_vec body) = h" by (metis lo8_mk16, metis hi8_mk16)
  then show ?thesis by (simp add: frame close_lo_hi_def)
qed

lemma crc_changes_on_burst:
  assumes "length xs = 2" "length ys = 2" "xs \<noteq> ys"
  shows "foldl crc_byte c (pre @ xs @ post) \<noteq> foldl crc_byte c (pre @ ys @ post)"
proof -
  obtain a b where xs: "xs = [a, b]" using assms(1) by (auto simp: length_Suc_conv numeral_2_eq_2)
  obtain a' b' where ys: "ys = [a', b']" using assms(2) by (auto simp: length_Suc_conv numeral_2_eq_2)
  have "mk16 b a \<noteq> mk16 b' a'" using assms(3) by (auto simp: xs ys)
  then show ?thesis by (auto simp: xs ys crc_two_bytes)
qed

text \<open>Closing a frame body of at least two bytes with its CRC, low byte first (the standard
  Modbus order used by the screen and the air conditioner) or high byte first (the smoke and gas
  sensors), gives a frame that the corresponding check accepts.\<close>

theorem crc_close_verifies:
  assumes "2 \<le> length body" "length body < 65536"
  shows "verify (close_lo_hi body) \<and> policy_verify (close_lo_hi body) LoHi
       \<and> policy_verify (close_hi_lo body) HiLo"
  using verify_close_lo_hi [OF assms] verify_close_hi_lo [OF assms] by (simp add: policy_verify_LoHi)

theorem crc_close_verifies_witness:
  "verify (close_lo_hi [1, 3]) \<and> policy_verify (close_lo_hi [1, 3]) LoHi
     \<and> policy_verify (close_hi_lo [1, 3]) HiLo"
  by (rule crc_close_verifies) simp_all

text \<open>C9: the CRC check rejects every frame that differs from a valid one only inside two
  neighbouring bytes of its body, whatever the change.\<close>

theorem verify_detects_burst:
  assumes "verify (pre @ xs @ post @ [l, h])" "length xs = 2" "length ys = 2" "xs \<noteq> ys"
    and "length pre + length post < 65534"
  shows "\<not> verify (pre @ ys @ post @ [l, h])"
proof -
  have lx: "2 \<le> length (pre @ xs @ post)" "length (pre @ xs @ post) < 65536"
    and ly: "2 \<le> length (pre @ ys @ post)" "length (pre @ ys @ post) < 65536"
    using assms(2,3,5) by simp_all
  show ?thesis
    using assms(1) verify_snoc2 [OF lx, of l h] verify_snoc2 [OF ly, of l h]
      crc_changes_on_burst [OF assms(2-4), of "0xFFFF" pre post]
    by auto
qed

theorem verify_detects_burst_witness:
  "\<not> verify ([] @ [0x02, 0x03] @ [0, 0, 0, 1] @ [0x84, 0x0A])"
  by (rule verify_detects_burst [of "[]" "[0x01, 0x03]"])
    (simp_all add: crc_eval)

end
