(* ===== verification/Frame_Assembler.thy ===== *)
theory Frame_Assembler
  imports Modbus_Crc "HOL-Library.Sublist"
begin

text \<open>
  The three assemblers that cut a serial byte stream into frames: \<open>FrameAssembler\<close>
  (\<open>services/parser/frame_assembler.cpp\<close>, responses on the RS485 master ports),
  \<open>ModbusRtuReqAssembler\<close> (\<open>modbus_rtu_req_assembler.cpp\<close>, requests on the HMI slave port) and
  \<open>AsciiFrameAssembler\<close> (\<open>232ups_ascii/ascii_frame_assembler.cpp\<close>, UPS lines), together with the
  receive loop of \<open>ProtocolParserThread::threadLoop\<close> that feeds them. Each keeps one buffer per
  link. The locale \<open>frame_assembler\<close> states what the receive loop relies on, \<open>lossless_assembler\<close>
  adds what makes a stream of well-formed frames come out unchanged however it is fragmented.
\<close>

section \<open>Buffers\<close>

type_synonym buffers = "int \<rightharpoonup> bytes"

definition buffered :: "int \<Rightarrow> buffers \<Rightarrow> bytes" where
  "buffered link st = (case st link of None \<Rightarrow> [] | Some b \<Rightarrow> b)"

lemma buffered_upd [simp]:
  "buffered link (st(link' \<mapsto> b)) = (if link = link' then b else buffered link st)"
  by (simp add: buffered_def)

section \<open>FrameAssembler: Modbus responses\<close>

definition fa_onBytes :: "int \<Rightarrow> bytes \<Rightarrow> buffers \<Rightarrow> buffers" where
  "fa_onBytes link_index bytes bufs =
     bufs(link_index \<mapsto> buffered link_index bufs @ bytes)"

definition isExceptionFunc :: "u8 \<Rightarrow> bool" where
  "isExceptionFunc func = (func AND 0x80 \<noteq> 0)"

definition cut :: "nat \<Rightarrow> bytes \<Rightarrow> bytes \<times> bytes option" where
  "cut n buf = (drop n buf, Some (take n buf))"

definition fa_step :: "bytes \<Rightarrow> bytes \<times> bytes option" where
  "fa_step buf =
     (if length buf < 5 then (buf, None)
      else let func = buf ! 1 in
        if isExceptionFunc func then
          (if length buf < 5 then (buf, None) else cut 5 buf)
        else if func = 0x03 then
          (if length buf < 5 then (buf, None)
           else let byte_cnt = buf ! 2 in
             if byte_cnt = 0 \<or> 0x7D < byte_cnt then (tl buf, None)
             else let expect_len = 3 + unat byte_cnt + 2 in
               if length buf < expect_len then (buf, None) else cut expect_len buf)
        else if func = 0x06 then
          (if length buf < 8 then (buf, None) else cut 8 buf)
        else if func = 0x10 then
          (if length buf < 8 then (buf, None) else cut 8 buf)
        else (tl buf, None))"

definition on_link :: "(bytes \<Rightarrow> bytes \<times> bytes option) \<Rightarrow> int \<Rightarrow> buffers \<Rightarrow> buffers \<times> bytes option" where
  "on_link step link st =
     (case step (buffered link st) of (buf', out) \<Rightarrow> (st(link \<mapsto> buf'), out))"

definition fa_tryGetFrame :: "int \<Rightarrow> buffers \<Rightarrow> buffers \<times> bytes option" where
  "fa_tryGetFrame = on_link fa_step"

section \<open>ModbusRtuReqAssembler: Modbus requests\<close>

definition req_onBytes :: "int \<Rightarrow> bytes \<Rightarrow> buffers \<Rightarrow> buffers" where
  "req_onBytes idx bytes bufs =
     bufs(idx \<mapsto> foldl (\<lambda>b v. b @ [v]) (buffered idx bufs) bytes)"

definition expectedLen :: "bytes \<Rightarrow> int" where
  "expectedLen buf =
     (if length buf < 2 then -1
      else let func = buf ! 1 in
        if func = 0x01 \<or> func = 0x02 \<or> func = 0x03 \<or> func = 0x04 \<or> func = 0x05 \<or> func = 0x06
        then 8
        else if func = 0x0F \<or> func = 0x10 then
          (if length buf < 7 then -1 else 7 + uint (buf ! 6) + 2)
        else -2)"

lemma expectedLen_cases: "expectedLen buf = -1 \<or> expectedLen buf = -2 \<or> 8 \<le> expectedLen buf"
  by (simp add: expectedLen_def Let_def)

function req_scan :: "bytes \<Rightarrow> bytes \<times> bytes option" where
  "req_scan b =
     (if length b < 4 then (b, None)
      else let e = expectedLen b in
        if e = -1 then (b, None)
        else if e = -2 then req_scan (tl b)
        else if int (length b) < e then (b, None)
        else let frame = take (nat e) b; rest = drop (nat e) b in
          if \<not> verify frame then req_scan (tl frame @ rest)
          else (rest, Some frame))"
  by pat_completeness auto
termination
proof (relation "measure length", goal_cases)
  case (3 b e frame rest)
  then have "8 \<le> nat e" using expectedLen_cases [of b] by auto
  with 3 show ?case by auto
qed auto

declare req_scan.simps [simp del]

definition req_tryGetFrame :: "int \<Rightarrow> buffers \<Rightarrow> buffers \<times> bytes option" where
  "req_tryGetFrame idx bufs =
     (case bufs idx of None \<Rightarrow> (bufs, None)
      | Some b \<Rightarrow> (case req_scan b of (b', frame) \<Rightarrow> (bufs(idx \<mapsto> b'), frame)))"

section \<open>AsciiFrameAssembler: UPS lines\<close>

definition MAX_ASCII_FRAME_LEN :: nat where
  "MAX_ASCII_FRAME_LEN = 256"

definition ascii_onBytes :: "int \<Rightarrow> bytes \<Rightarrow> buffers \<Rightarrow> buffers" where
  "ascii_onBytes link_index bytes bufs =
     (let buf = buffered link_index bufs @ bytes in
      if MAX_ASCII_FRAME_LEN * 2 < length buf then bufs(link_index \<mapsto> [])
      else bufs(link_index \<mapsto> buf))"

text \<open>\<open>std::find\<close>: the index of the first occurrence, or none.\<close>

fun find_byte :: "u8 \<Rightarrow> bytes \<Rightarrow> nat option" where
  "find_byte v [] = None"
| "find_byte v (x # xs) = (if x = v then Some 0 else map_option Suc (find_byte v xs))"

definition ascii_step :: "bytes \<Rightarrow> bytes \<times> bytes option" where
  "ascii_step buf =
     (if buf = [] then (buf, None)
      else case (case find_byte 0x0D buf of None \<Rightarrow> find_byte 0x0A buf | Some i \<Rightarrow> Some i) of
        None \<Rightarrow> (buf, None)
      | Some frame_len \<Rightarrow>
          if frame_len = 0 \<or> MAX_ASCII_FRAME_LEN < frame_len then (tl buf, None)
          else let erase_len =
                     (if buf ! frame_len = 0x0D \<and> frame_len + 1 < length buf
                         \<and> buf ! (frame_len + 1) = 0x0A
                      then frame_len + 2 else frame_len + 1)
               in (drop erase_len buf, Some (take frame_len buf)))"

definition ascii_tryGetFrame :: "int \<Rightarrow> buffers \<Rightarrow> buffers \<times> bytes option" where
  "ascii_tryGetFrame = on_link ascii_step"

section \<open>The receive loop\<close>

text \<open>
  \<open>while (tryGetFrame(idx, frame)) { ... }\<close>, collecting the frames handed to the body; \<open>None\<close>
  is a loop that never ends. \<open>feed\<close> is a sequence of received chunks, each followed by the loop.
\<close>

partial_function (option) drain ::
  "(int \<Rightarrow> buffers \<Rightarrow> buffers \<times> bytes option) \<Rightarrow> int \<Rightarrow> buffers \<Rightarrow> (buffers \<times> bytes list) option" where
  "drain try_get idx st =
     (case try_get idx st of
        (st', None) \<Rightarrow> Some (st', [])
      | (st', Some f) \<Rightarrow>
          Option.bind (drain try_get idx st') (\<lambda>(st'', fs). Some (st'', f # fs)))"

fun feed :: "(int \<Rightarrow> bytes \<Rightarrow> buffers \<Rightarrow> buffers) \<Rightarrow> (int \<Rightarrow> buffers \<Rightarrow> buffers \<times> bytes option) \<Rightarrow>
    int \<Rightarrow> bytes list \<Rightarrow> buffers \<Rightarrow> (buffers \<times> bytes list) option" where
  "feed on_bytes try_get idx [] st = Some (st, [])"
| "feed on_bytes try_get idx (c # cs) st =
     (case drain try_get idx (on_bytes idx c st) of None \<Rightarrow> None
      | Some (st1, fs) \<Rightarrow>
         (case feed on_bytes try_get idx cs st1 of None \<Rightarrow> None
          | Some (st2, gs) \<Rightarrow> Some (st2, fs @ gs)))"

text \<open>Frames that stand in a byte sequence one after the other, without overlap.\<close>

inductive frames_in :: "bytes list \<Rightarrow> bytes \<Rightarrow> bytes \<Rightarrow> bool" where
  none: "suffix rest xs \<Longrightarrow> frames_in [] xs rest"
| more: "xs = pre @ f @ post \<Longrightarrow> f \<noteq> [] \<Longrightarrow> frames_in fs post rest \<Longrightarrow> frames_in (f # fs) xs rest"

lemma frames_in_skip: "frames_in fs xs rest \<Longrightarrow> frames_in fs (skip @ xs) rest"
proof (induction rule: frames_in.induct)
  case (none rest xs)
  then show ?case by (auto intro: frames_in.none suffix_appendI)
next
  case (more xs pre f post fs rest)
  then have "skip @ xs = (skip @ pre) @ f @ post" by simp
  with more show ?case by (blast intro: frames_in.more)
qed

section \<open>The contract of an assembler\<close>

locale frame_assembler =
  fixes on_bytes :: "int \<Rightarrow> bytes \<Rightarrow> buffers \<Rightarrow> buffers"
    and try_get :: "int \<Rightarrow> buffers \<Rightarrow> buffers \<times> bytes option"
  assumes on_bytes_other: "l \<noteq> link \<Longrightarrow> on_bytes link bs st l = st l"
    and try_get_other: "l \<noteq> link \<Longrightarrow> fst (try_get link st) l = st l"
    and try_get_none: "try_get link st = (st', None) \<Longrightarrow> suffix (buffered link st') (buffered link st)"
    and try_get_some: "try_get link st = (st', Some f) \<Longrightarrow>
          f \<noteq> [] \<and> (\<exists>pre post. buffered link st = pre @ f @ post \<and> suffix (buffered link st') post)"
begin

lemma drain_returns:
  "\<exists>st' fs. drain try_get link st = Some (st', fs) \<and> frames_in fs (buffered link st) (buffered link st')
     \<and> (\<forall>l. l \<noteq> link \<longrightarrow> st' l = st l)"
proof (induction "length (buffered link st)" arbitrary: st rule: less_induct)
  case less
  obtain s1 out where g: "try_get link st = (s1, out)" by fastforce
  have oth: "\<forall>l. l \<noteq> link \<longrightarrow> s1 l = st l" using try_get_other [of _ link st] g by auto
  show ?case
  proof (cases out)
    case None
    with g oth show ?thesis
      using try_get_none [of link st s1] by (subst drain.simps) (auto intro: frames_in.none)
  next
    case (Some f)
    with g try_get_some obtain pre post where b: "buffered link st = pre @ f @ post"
      and suf: "suffix (buffered link s1) post" and ne: "f \<noteq> []" by blast
    have "length (buffered link s1) < length (buffered link st)"
      using suffix_length_le [OF suf] b ne by (cases f) auto
    from less [OF this] obtain s2 fs where d: "drain try_get link s1 = Some (s2, fs)"
      and fr: "frames_in fs (buffered link s1) (buffered link s2)"
      and o2: "\<forall>l. l \<noteq> link \<longrightarrow> s2 l = s1 l" by blast
    obtain skip where "post = skip @ buffered link s1" using suf by (auto simp: suffix_def)
    with fr have "frames_in fs post (buffered link s2)" by (simp add: frames_in_skip)
    with b ne have "frames_in (f # fs) (buffered link st) (buffered link s2)"
      by (rule frames_in.more)
    with Some g d o2 oth show ?thesis by (subst drain.simps) auto
  qed
qed

lemma try_get_empty:
  "buffered link st = [] \<Longrightarrow> \<exists>st'. try_get link st = (st', None) \<and> buffered link st' = []"
proof -
  assume e: "buffered link st = []"
  obtain st' out where g: "try_get link st = (st', out)" by fastforce
  with e try_get_some [of link st st'] have "out = None" by (cases out) auto
  with e g try_get_none [of link st st'] show ?thesis by auto
qed

end

text \<open>The bytes left after the frames received so far are the beginning of the next frame.\<close>

fun pending :: "bytes \<Rightarrow> bytes list \<Rightarrow> bool" where
  "pending r [] = (r = [])"
| "pending r (f # fs) = strict_prefix r f"

locale lossless_assembler = frame_assembler +
  fixes good :: "bytes \<Rightarrow> bool"
  assumes on_bytes_appends: "buffered link (on_bytes link bs st) = buffered link st @ bs"
    and good_head: "good f \<Longrightarrow> buffered link st = f @ rest \<Longrightarrow>
          \<exists>st'. try_get link st = (st', Some f) \<and> buffered link st' = rest"
    and good_part: "good f \<Longrightarrow> strict_prefix (buffered link st) f \<Longrightarrow>
          \<exists>st'. try_get link st = (st', None) \<and> buffered link st' = buffered link st"
begin

lemma drain_prefix:
  assumes "\<forall>f \<in> set fs. good f" "buffered link st @ y = concat fs"
  shows "\<exists>fs1 fs2 st'. fs = fs1 @ fs2 \<and> drain try_get link st = Some (st', fs1)
           \<and> buffered link st = concat fs1 @ buffered link st' \<and> pending (buffered link st') fs2"
  using assms
proof (induction fs arbitrary: st)
  case Nil
  then obtain st' where "try_get link st = (st', None)" "buffered link st' = []"
    using try_get_empty [of link st] by auto
  with Nil show ?case by (intro exI [of _ "[]"]) (auto simp: drain.simps [of try_get link st])
next
  case (Cons f fs)
  show ?case
  proof (cases "\<exists>rest. buffered link st = f @ rest")
    case True
    then obtain rest where b: "buffered link st = f @ rest" by blast
    moreover have "good f" using Cons.prems(1) by simp
    ultimately obtain s1 where g: "try_get link st = (s1, Some f)" "buffered link s1 = rest"
      using good_head by blast
    obtain fs1 fs2 s2 where IH: "fs = fs1 @ fs2" "drain try_get link s1 = Some (s2, fs1)"
        "buffered link s1 = concat fs1 @ buffered link s2" "pending (buffered link s2) fs2"
      using Cons.IH [of s1] Cons.prems b g(2) by auto
    with b g show ?thesis
      by (intro exI [of _ "f # fs1"] exI [of _ fs2] exI [of _ s2])
        (simp add: drain.simps [of try_get link st])
  next
    case False
    with Cons.prems(2) have sp: "strict_prefix (buffered link st) f"
      by (auto simp: append_eq_append_conv2 strict_prefix_def prefix_def)
    moreover have "good f" using Cons.prems(1) by simp
    ultimately obtain s1 where "try_get link st = (s1, None)" "buffered link s1 = buffered link st"
      using good_part by blast
    with sp show ?thesis
      by (intro exI [of _ "[]"] exI [of _ "f # fs"] exI [of _ s1])
        (simp add: drain.simps [of try_get link st])
  qed
qed

lemma feed_stream:
  assumes "\<forall>f \<in> set fs. good f" "buffered link st @ concat cs = concat fs"
    "pending (buffered link st) fs"
  shows "\<exists>st'. feed on_bytes try_get link cs st = Some (st', fs) \<and> buffered link st' = []"
  using assms
proof (induction cs arbitrary: st fs)
  case Nil
  then show ?case by (cases fs) (auto simp: strict_prefix_def)
next
  case (Cons c cs)
  let ?s = "on_bytes link c st"
  from Cons.prems obtain fs1 fs2 s1 where d: "fs = fs1 @ fs2" "drain try_get link ?s = Some (s1, fs1)"
    "buffered link ?s = concat fs1 @ buffered link s1" "pending (buffered link s1) fs2"
    using drain_prefix [of fs link ?s "concat cs"] by (auto simp: on_bytes_appends)
  have "(concat fs1 @ buffered link s1) @ concat cs = concat fs1 @ concat fs2"
    using Cons.prems(2) d(1) unfolding d(3) [symmetric] on_bytes_appends by simp
  then have "buffered link s1 @ concat cs = concat fs2" by simp
  with Cons.IH [of fs2 s1] Cons.prems(1) d show ?case by auto
qed

lemma good_nonempty: "good f \<Longrightarrow> f \<noteq> []"
  using good_head [of f link Map.empty "[]"] try_get_some [of link Map.empty]
  by (force simp: buffered_def)

lemma feed_fresh:
  assumes "\<forall>f \<in> set fs. good f" "concat cs = concat fs" "buffered link st = []"
  shows "\<exists>st'. feed on_bytes try_get link cs st = Some (st', fs) \<and> buffered link st' = []"
proof -
  have "pending [] fs" using assms(1) good_nonempty by (cases fs) (auto simp: strict_prefix_def)
  then show ?thesis using assms feed_stream [of fs link st cs] by simp
qed

end

section \<open>Responses\<close>

lemma isExceptionFunc_known [simp]:
  "\<not> isExceptionFunc 0x03" "\<not> isExceptionFunc 0x06" "\<not> isExceptionFunc 0x10"
  by (simp_all add: isExceptionFunc_def)

lemma cut_law:
  assumes "0 < n" "n \<le> length b" "n \<le> m"
  shows "take n b \<noteq> [] \<and> (\<exists>pre post. b = pre @ take n b @ post \<and> suffix (drop m b) post)"
proof -
  have "drop m b = drop (m - n) (drop n b)" using assms(3) by simp
  then have "suffix (drop m b) (drop n b)" by (metis suffix_drop)
  moreover have "b = [] @ take n b @ drop n b" by simp
  moreover have "take n b \<noteq> []" using assms by auto
  ultimately show ?thesis by blast
qed

lemma fa_step_cases:
  "fa_step buf = (buf, None) \<or> fa_step buf = (tl buf, None)
   \<or> (\<exists>n. 5 \<le> n \<and> n \<le> length buf \<and> fa_step buf = (drop n buf, Some (take n buf)))"
  by (auto simp: fa_step_def cut_def Let_def intro: exI [of _ "5 + unat (buf ! 2)"] exI [of _ 8])

text \<open>The response frames the assembler knows.\<close>

definition response_frame :: "bytes \<Rightarrow> bool" where
  "response_frame f =
     (5 \<le> length f \<and>
      (if isExceptionFunc (f ! 1) then length f = 5
       else if f ! 1 = 0x03 then 0 < f ! 2 \<and> f ! 2 \<le> 0x7D \<and> length f = 5 + unat (f ! 2)
       else (f ! 1 = 0x06 \<or> f ! 1 = 0x10) \<and> length f = 8))"

lemma on_link_other: "l \<noteq> link \<Longrightarrow> fst (on_link step link st) l = st l"
  by (simp add: on_link_def split: prod.splits)

lemma fa_step_response:
  "response_frame f \<Longrightarrow> fa_step (f @ rest) = (rest, Some f)"
  by (auto simp: response_frame_def fa_step_def cut_def Let_def nth_append word_gt_0 not_le
      split: if_splits)

lemma fa_step_partial:
  assumes "response_frame f" "strict_prefix p f"
  shows "fa_step p = (p, None)"
proof -
  obtain z where f: "f = p @ z" and z: "z \<noteq> []"
    using assms(2) by (auto simp: strict_prefix_def prefix_def)
  show ?thesis
  proof (cases "length p < 5")
    case False
    then have "f ! 1 = p ! 1" "f ! 2 = p ! 2" by (simp_all add: f nth_append)
    moreover have "length p < length f" by (simp add: f z)
    ultimately show ?thesis using assms(1) False
      by (simp add: response_frame_def fa_step_def Let_def word_gt_0 not_le split: if_splits) auto
  qed (simp add: fa_step_def)
qed

interpretation fa: lossless_assembler fa_onBytes fa_tryGetFrame response_frame
proof (unfold_locales, goal_cases)
  case (4 link st st' f)
  then obtain n where "5 \<le> n" "n \<le> length (buffered link st)"
    and "f = take n (buffered link st)" "buffered link st' = drop n (buffered link st)"
    using fa_step_cases [of "buffered link st"]
    by (auto simp: fa_tryGetFrame_def on_link_def)
  then show ?case using cut_law [of n "buffered link st" n] by simp
next
  case (3 link st st')
  then show ?case using fa_step_cases [of "buffered link st"]
    by (auto simp: fa_tryGetFrame_def on_link_def suffix_tl)
next
  case (7 f link st)
  then show ?case by (simp add: fa_tryGetFrame_def on_link_def fa_step_partial)
next
  case (2 l link st)
  then show ?case by (simp add: fa_tryGetFrame_def on_link_other)
qed (auto simp: fa_onBytes_def fa_tryGetFrame_def on_link_def fa_step_response)

section \<open>Requests\<close>

definition request_frame :: "bytes \<Rightarrow> bool" where
  "request_frame f \<longleftrightarrow> expectedLen f = int (length f) \<and> verify f"

lemma request_frame_length: "request_frame f \<Longrightarrow> 8 \<le> length f"
  using expectedLen_cases [of f] by (auto simp: request_frame_def)

lemma expectedLen_append:
  "0 \<le> expectedLen f \<Longrightarrow> expectedLen (f @ rest) = expectedLen f"
  by (auto simp: expectedLen_def Let_def nth_append split: if_splits)

lemma expectedLen_take:
  assumes "expectedLen b = int n" "n \<le> length b"
  shows "expectedLen (take n b) = int n"
proof -
  have "8 \<le> n" using expectedLen_cases [of b] assms(1) by auto
  with assms show ?thesis by (auto simp: expectedLen_def Let_def split: if_splits)
qed

lemma req_scan_sound:
  "req_scan b = (b', out) \<Longrightarrow>
     (case out of None \<Rightarrow> suffix b' b | Some f \<Rightarrow> request_frame f \<and> suffix (f @ b') b)"
proof (induction b arbitrary: b' out rule: req_scan.induct)
  case (1 b)
  consider (stop) "length b < 4 \<or> expectedLen b = -1"
    | (skip) "4 \<le> length b" "expectedLen b = -2"
    | (wait) "4 \<le> length b" "8 \<le> expectedLen b" "int (length b) < expectedLen b"
    | (bad) n where "4 \<le> length b" "expectedLen b = int n" "8 \<le> n" "n \<le> length b"
        "\<not> verify (take n b)"
    | (got) n where "4 \<le> length b" "expectedLen b = int n" "8 \<le> n" "n \<le> length b"
        "verify (take n b)"
    using expectedLen_cases [of b] by (cases "expectedLen b") (force simp: not_less)+
  then show ?case
  proof cases
    case stop
    then have "req_scan b = (b, None)" by (auto simp: req_scan.simps [of b] Let_def)
    with 1(3) show ?thesis by auto
  next
    case skip
    with 1(3) have "req_scan (tl b) = (b', out)" by (simp add: req_scan.simps [of b])
    with 1(1) skip show ?thesis by (auto split: option.splits intro: suffix_order.trans [OF _ suffix_tl])
  next
    case wait
    with 1(3) show ?thesis by (auto simp: req_scan.simps [of b])
  next
    case bad
    then have tl: "tl (take n b) @ drop n b = tl b"
      by (metis append_take_drop_id list.size(3) not_numeral_le_zero take_eq_Nil tl_append2)
    with 1(3) bad have "req_scan (tl b) = (b', out)" by (simp add: req_scan.simps [of b])
    with 1(2) bad tl show ?thesis
      by (auto split: option.splits intro: suffix_order.trans [OF _ suffix_tl])
  next
    case got
    with 1(3) show ?thesis
      by (auto simp: req_scan.simps [of b] request_frame_def expectedLen_take)
  qed
qed

lemma req_scan_head: "request_frame f \<Longrightarrow> req_scan (f @ rest) = (rest, Some f)"
  using request_frame_length [of f] expectedLen_append [of f rest]
  by (simp add: req_scan.simps [of "f @ rest"] request_frame_def)

lemma req_scan_partial:
  assumes "request_frame f" "strict_prefix p f"
  shows "req_scan p = (p, None)"
proof -
  obtain z where f: "f = p @ z" and z: "z \<noteq> []"
    using assms(2) by (auto simp: strict_prefix_def prefix_def)
  then have len: "int (length p) < expectedLen f" using assms(1) by (simp add: request_frame_def)
  have "length p < 4 \<or> expectedLen p = -1 \<or> expectedLen p = expectedLen f"
    using len by (auto simp: expectedLen_def Let_def f nth_append split: if_splits)
  with len show ?thesis by (auto simp: req_scan.simps [of p])
qed

interpretation req: lossless_assembler req_onBytes req_tryGetFrame request_frame
proof (unfold_locales, goal_cases)
  case (3 link st st')
  then show ?case using req_scan_sound
    by (force simp: req_tryGetFrame_def buffered_def split: option.splits prod.splits)
next
  case (4 link st st' f)
  then have "req_scan (buffered link st) = (buffered link st', Some f)"
    by (auto simp: req_tryGetFrame_def buffered_def split: option.splits prod.splits)
  from req_scan_sound [OF this] request_frame_length [of f]
  show ?case by (auto simp: suffix_def)
next
  case (5 link bs st)
  have "foldl (\<lambda>b v. b @ [v]) xs bs = xs @ bs" for xs by (induction bs arbitrary: xs) simp_all
  then show ?case by (simp add: req_onBytes_def)
next
  case (6 f link st rest)
  then have "req_scan (buffered link st) = (rest, Some f)" by (simp add: req_scan_head)
  with 6 request_frame_length [of f] show ?case
    by (cases "st link") (auto simp: req_tryGetFrame_def buffered_def)
next
  case (7 f link st)
  then have "req_scan (buffered link st) = (buffered link st, None)" by (rule req_scan_partial)
  then show ?case by (cases "st link") (simp_all add: req_tryGetFrame_def buffered_def)
qed (auto simp: req_onBytes_def req_tryGetFrame_def split: option.splits prod.splits)

section \<open>ASCII lines\<close>

lemma find_byte_Some:
  "find_byte v xs = Some i \<longleftrightarrow> i < length xs \<and> xs ! i = v \<and> v \<notin> set (take i xs)"
proof (induction xs arbitrary: i)
  case (Cons x xs)
  then show ?case by (cases i) auto
qed simp

lemma find_byte_None: "find_byte v xs = None \<longleftrightarrow> v \<notin> set xs"
  by (induction xs) auto

lemma find_byte_append: "v \<notin> set xs \<Longrightarrow> find_byte v (xs @ v # ys) = Some (length xs)"
  by (induction xs) auto

lemma ascii_step_some:
  assumes "ascii_step buf = (buf', Some f)"
  shows "\<exists>n m. f = take n buf \<and> buf' = drop m buf \<and> 0 < n \<and> n \<le> 256 \<and> n < length buf \<and> n \<le> m
           \<and> 0x0D \<notin> set f"
proof -
  obtain n where n: "find_byte 0x0D buf = Some n \<or> find_byte 0x0D buf = None \<and> find_byte 0x0A buf = Some n"
    and "0 < n" "n \<le> 256" "f = take n buf" and m: "buf' = drop (n + 1) buf \<or> buf' = drop (n + 2) buf"
    using assms by (auto simp: ascii_step_def Let_def MAX_ASCII_FRAME_LEN_def
        split: if_splits option.splits)
  moreover have "n < length buf \<and> 0x0D \<notin> set (take n buf)"
    using n by (auto simp: find_byte_Some find_byte_None dest: in_set_takeD)
  ultimately show ?thesis by (metis le_add1)
qed

lemma ascii_step_none: "ascii_step buf = (buf', None) \<Longrightarrow> suffix buf' buf"
  by (auto simp: ascii_step_def Let_def suffix_tl split: if_splits option.splits)

interpretation ascii: frame_assembler ascii_onBytes ascii_tryGetFrame
proof (unfold_locales, goal_cases)
  case (4 link st st' f)
  then have "ascii_step (buffered link st) = (buffered link st', Some f)"
    by (auto simp: ascii_tryGetFrame_def on_link_def split: prod.splits)
  from ascii_step_some [OF this] show ?case using cut_law [of _ "buffered link st"] by fastforce
next
  case (3 link st st')
  then show ?case using ascii_step_none [of "buffered link st"]
    by (auto simp: ascii_tryGetFrame_def on_link_def split: prod.splits)
qed (auto simp: ascii_onBytes_def ascii_tryGetFrame_def on_link_other Let_def)

definition ascii_line :: "bytes \<Rightarrow> bool" where
  "ascii_line l = (0 < length l \<and> length l \<le> 256 \<and> 0x0D \<notin> set l \<and> 0x0A \<notin> set l)"

lemma ascii_step_line:
  assumes "ascii_line l" "eol = [0x0D, 0x0A] \<or> eol = [0x0D] \<and> (rest = [] \<or> hd rest \<noteq> 0x0A)"
  shows "ascii_step (l @ eol @ rest) = (rest, Some l)"
proof -
  have "find_byte 0x0D (l @ eol @ rest) = Some (length l)"
    using assms find_byte_append [of "0x0D" l] by (auto simp: ascii_line_def)
  then show ?thesis using assms
    by (cases rest) (auto simp: ascii_step_def ascii_line_def nth_append MAX_ASCII_FRAME_LEN_def)
qed

lemma drain_ascii_lines:
  assumes "\<forall>l \<in> set ls. ascii_line l"
    "buffered link st = concat (map (\<lambda>l. l @ [0x0D, 0x0A]) ls)"
  shows "\<exists>st'. drain ascii_tryGetFrame link st = Some (st', ls) \<and> buffered link st' = []"
  using assms
proof (induction ls arbitrary: st)
  case Nil
  then show ?case
    using ascii.try_get_empty [of link st] by (auto simp: drain.simps [of _ link st])
next
  case (Cons l ls)
  let ?r = "concat (map (\<lambda>l. l @ [0x0D, 0x0A]) ls)"
  have "ascii_step (l @ [0x0D, 0x0A] @ ?r) = (?r, Some l)"
    using Cons.prems(1) by (intro ascii_step_line) auto
  then have "ascii_tryGetFrame link st = (st(link \<mapsto> ?r), Some l)"
    using Cons.prems(2) by (simp add: ascii_tryGetFrame_def on_link_def)
  moreover obtain st' where "drain ascii_tryGetFrame link (st(link \<mapsto> ?r)) = Some (st', ls)"
    "buffered link st' = []"
    using Cons.IH [of "st(link \<mapsto> ?r)"] Cons.prems(1) by (auto simp del: fun_upd_apply)
  ultimately show ?case by (simp add: drain.simps [of _ link st])
qed

section \<open>Properties\<close>

lemma req_drain_frames:
  "drain req_tryGetFrame link st = Some (st', fs) \<Longrightarrow> \<forall>f \<in> set fs. request_frame f"
proof (induction fs arbitrary: st)
  case (Cons f fs)
  then obtain s1 where g: "req_tryGetFrame link st = (s1, Some f)"
    and d: "drain req_tryGetFrame link s1 = Some (st', fs)"
    by (auto simp: drain.simps [of _ link st] bind_eq_Some_conv split: prod.splits option.splits)
  then have "req_scan (buffered link st) = (buffered link s1, Some f)"
    by (auto simp: req_tryGetFrame_def buffered_def split: option.splits prod.splits)
  then have "request_frame f" using req_scan_sound by fastforce
  with Cons.IH [OF d] show ?case by simp
qed simp

text \<open>Whatever bytes are buffered on the HMI port, the receive loop ends; the frames it hands
  to the slave are complete requests with a correct CRC, they stand in the received bytes in order
  and without overlap, what stays buffered is the end of those bytes, and no other link's buffer
  changes.\<close>

theorem req_drain_sound:
  "\<exists>st' fs. drain req_tryGetFrame link st = Some (st', fs)
     \<and> (\<forall>f \<in> set fs. expectedLen f = int (length f) \<and> verify f)
     \<and> frames_in fs (buffered link st) (buffered link st')
     \<and> (\<forall>l. l \<noteq> link \<longrightarrow> st' l = st l)"
  using req.drain_returns [of link st] req_drain_frames [of link st]
  by (fastforce simp: request_frame_def)

theorem req_drain_sound_witness:
  "\<exists>st' fs. drain req_tryGetFrame 3 (Map.empty(3 \<mapsto> [0x01])) = Some (st', fs)
     \<and> (\<forall>f \<in> set fs. expectedLen f = int (length f) \<and> verify f)
     \<and> frames_in fs (buffered 3 (Map.empty(3 \<mapsto> [0x01]))) (buffered 3 st')
     \<and> (\<forall>l. l \<noteq> 3 \<longrightarrow> st' l = (Map.empty(3 \<mapsto> [0x01])) l)"
  by (rule req_drain_sound)

text \<open>C4: a sequence of valid Modbus requests is recovered exactly, frame by frame and in order,
  however the serial driver fragments the byte stream, and nothing stays buffered.\<close>

theorem req_stream_reassembled:
  assumes "\<forall>f \<in> set fs. expectedLen f = int (length f) \<and> verify f"
    and "concat chunks = concat fs" and "buffered link st = []"
  shows "\<exists>st'. feed req_onBytes req_tryGetFrame link chunks st = Some (st', fs)
           \<and> buffered link st' = []"
  using assms by (intro req.feed_fresh) (simp_all add: request_frame_def)

theorem req_stream_reassembled_witness:
  "\<exists>st'. feed req_onBytes req_tryGetFrame 2
      [[0x01, 0x06, 0x20], [0x01, 0x00, 0x05, 0x13], [0xC9]] Map.empty
    = Some (st', [[0x01, 0x06, 0x20, 0x01, 0x00, 0x05, 0x13, 0xC9]]) \<and> buffered 2 st' = []"
  by (rule req_stream_reassembled)
    (simp_all add: expectedLen_def crc_eval buffered_def)

text \<open>The same for the responses on the master ports: response frames of the four kinds the
  assembler knows come out unchanged under every fragmentation of the stream.\<close>

theorem fa_stream_reassembled:
  assumes "\<forall>f \<in> set fs. response_frame f"
    and "concat chunks = concat fs" and "buffered link st = []"
  shows "\<exists>st'. feed fa_onBytes fa_tryGetFrame link chunks st = Some (st', fs)
           \<and> buffered link st' = []"
  using assms by (rule fa.feed_fresh)

theorem fa_stream_reassembled_witness:
  "\<exists>st'. feed fa_onBytes fa_tryGetFrame 0 [[0x01, 0x83, 0x02], [0xC0, 0xF1, 0x01, 0x03], [0x02, 0, 7, 1, 2]]
      Map.empty = Some (st', [[0x01, 0x83, 0x02, 0xC0, 0xF1], [0x01, 0x03, 0x02, 0, 7, 1, 2]])
    \<and> buffered 0 st' = []"
  by (rule fa_stream_reassembled) (simp_all add: response_frame_def isExceptionFunc_def buffered_def)

text \<open>UPS lines ended by CR LF and received in one chunk of at most 512 bytes come out one by
  one, without their terminators, and leave the buffer empty.\<close>

theorem ascii_lines_received:
  assumes "\<forall>l \<in> set ls. ascii_line l"
    and "length (concat (map (\<lambda>l. l @ [0x0D, 0x0A]) ls)) \<le> 512" and "buffered link st = []"
  shows "\<exists>st'. feed ascii_onBytes ascii_tryGetFrame link
             [concat (map (\<lambda>l. l @ [0x0D, 0x0A]) ls)] st = Some (st', ls)
           \<and> buffered link st' = []"
  using assms drain_ascii_lines [of ls link "st(link \<mapsto> concat (map (\<lambda>l. l @ [0x0D, 0x0A]) ls))"]
  by (auto simp: ascii_onBytes_def MAX_ASCII_FRAME_LEN_def)

theorem ascii_lines_received_witness:
  "\<exists>st'. feed ascii_onBytes ascii_tryGetFrame 1
      [concat (map (\<lambda>l. l @ [0x0D, 0x0A]) [[0x28, 0x32], [0x28, 0x33]])] Map.empty
    = Some (st', [[0x28, 0x32], [0x28, 0x33]]) \<and> buffered 1 st' = []"
  by (rule ascii_lines_received) (simp_all add: ascii_line_def buffered_def)

end
