(* ===== verification/Hmi_Table.thy ===== *)
theory Hmi_Table
  imports Prelude
begin

text \<open>
  The sparse register table shared with the touch panel
  (\<open>services/protocol/rs485/hmi/hmi_address_table.cpp\<close>): four areas of 4096 addresses, two the
  panel may write (coils, holding registers) and two it may only read (discrete inputs, input
  registers). A read of an address never written yields false or 0. The locale \<open>reg_bank\<close> is the
  interface the panel protocol and the fault pages use: reading back what was set.
\<close>

section \<open>Address areas\<close>

definition HMI_BOOL_RW_START :: u16 where "HMI_BOOL_RW_START = 0x1000"
definition HMI_BOOL_RW_END :: u16 where "HMI_BOOL_RW_END = 0x1FFF"
definition HMI_INT_RW_START :: u16 where "HMI_INT_RW_START = 0x2000"
definition HMI_INT_RW_END :: u16 where "HMI_INT_RW_END = 0x2FFF"
definition HMI_BOOL_RD_START :: u16 where "HMI_BOOL_RD_START = 0x3000"
definition HMI_BOOL_RD_END :: u16 where "HMI_BOOL_RD_END = 0x3FFF"
definition HMI_INT_RD_START :: u16 where "HMI_INT_RD_START = 0x4000"
definition HMI_INT_RD_END :: u16 where "HMI_INT_RD_END = 0x4FFF"

lemmas hmi_area_defs =
  HMI_BOOL_RW_START_def HMI_BOOL_RW_END_def HMI_INT_RW_START_def HMI_INT_RW_END_def
  HMI_BOOL_RD_START_def HMI_BOOL_RD_END_def HMI_INT_RD_START_def HMI_INT_RD_END_def

definition inRange :: "u16 \<Rightarrow> u16 \<Rightarrow> u16 \<Rightarrow> bool" where
  "inRange addr s e = (s \<le> addr \<and> addr \<le> e)"

section \<open>The table\<close>

record hmi_table =
  bool_rw :: "u16 \<rightharpoonup> bool"
  int_rw :: "u16 \<rightharpoonup> u16"
  bool_rd :: "u16 \<rightharpoonup> bool"
  int_rd :: "u16 \<rightharpoonup> u16"

text \<open>The address mappings are the identity on their area and undefined outside.\<close>

definition mapCoilAddr :: "u16 \<Rightarrow> u16 option" where
  "mapCoilAddr a = (if inRange a HMI_BOOL_RW_START HMI_BOOL_RW_END then Some a else None)"

definition mapHoldingAddr :: "u16 \<Rightarrow> u16 option" where
  "mapHoldingAddr a = (if inRange a HMI_INT_RW_START HMI_INT_RW_END then Some a else None)"

definition mapDiscreteAddr :: "u16 \<Rightarrow> u16 option" where
  "mapDiscreteAddr a = (if inRange a HMI_BOOL_RD_START HMI_BOOL_RD_END then Some a else None)"

definition mapInputRegAddr :: "u16 \<Rightarrow> u16 option" where
  "mapInputRegAddr a = (if inRange a HMI_INT_RD_START HMI_INT_RD_END then Some a else None)"

definition readBoolRw :: "u16 \<Rightarrow> hmi_table \<Rightarrow> bool" where
  "readBoolRw addr t = (case bool_rw t addr of None \<Rightarrow> False | Some v \<Rightarrow> v)"

definition writeBoolRw :: "u16 \<Rightarrow> bool \<Rightarrow> hmi_table \<Rightarrow> bool \<times> hmi_table" where
  "writeBoolRw addr v t =
     (if \<not> inRange addr HMI_BOOL_RW_START HMI_BOOL_RW_END then (False, t)
      else (True, t\<lparr>bool_rw := (bool_rw t)(addr \<mapsto> v)\<rparr>))"

definition readIntRw :: "u16 \<Rightarrow> hmi_table \<Rightarrow> u16" where
  "readIntRw addr t = (case int_rw t addr of None \<Rightarrow> 0 | Some v \<Rightarrow> v)"

definition writeIntRw :: "u16 \<Rightarrow> u16 \<Rightarrow> hmi_table \<Rightarrow> bool \<times> hmi_table" where
  "writeIntRw addr v t =
     (if \<not> inRange addr HMI_INT_RW_START HMI_INT_RW_END then (False, t)
      else (True, t\<lparr>int_rw := (int_rw t)(addr \<mapsto> v)\<rparr>))"

definition readBoolRead :: "u16 \<Rightarrow> hmi_table \<Rightarrow> bool" where
  "readBoolRead addr t = (case bool_rd t addr of None \<Rightarrow> False | Some v \<Rightarrow> v)"

definition readIntRead :: "u16 \<Rightarrow> hmi_table \<Rightarrow> u16" where
  "readIntRead addr t = (case int_rd t addr of None \<Rightarrow> 0 | Some v \<Rightarrow> v)"

definition setBoolRead :: "u16 \<Rightarrow> bool \<Rightarrow> hmi_table \<Rightarrow> hmi_table" where
  "setBoolRead addr v t =
     (if \<not> inRange addr HMI_BOOL_RD_START HMI_BOOL_RD_END then t
      else t\<lparr>bool_rd := (bool_rd t)(addr \<mapsto> v)\<rparr>)"

definition setIntRead :: "u16 \<Rightarrow> u16 \<Rightarrow> hmi_table \<Rightarrow> hmi_table" where
  "setIntRead addr v t =
     (if \<not> inRange addr HMI_INT_RD_START HMI_INT_RD_END then t
      else t\<lparr>int_rd := (int_rd t)(addr \<mapsto> v)\<rparr>)"

section \<open>Register banks\<close>

text \<open>Consecutive writes from a start address, with 16-bit address arithmetic.\<close>

definition write_block :: "(u16 \<Rightarrow> 'v \<Rightarrow> 's \<Rightarrow> 's) \<Rightarrow> u16 \<Rightarrow> 'v list \<Rightarrow> 's \<Rightarrow> 's" where
  "write_block set_at start vs s =
     foldl (\<lambda>s i. set_at (start + of_nat i) (vs ! i) s) s [0..<length vs]"

locale reg_bank =
  fixes set_at :: "u16 \<Rightarrow> 'v \<Rightarrow> 's \<Rightarrow> 's" and get_at :: "u16 \<Rightarrow> 's \<Rightarrow> 'v" and ok :: "u16 \<Rightarrow> bool"
  assumes get_set: "get_at a (set_at b v s) = (if a = b \<and> ok b then v else get_at a s)"
begin

lemma get_block:
  assumes "length vs \<le> 65536"
  shows "get_at a (write_block set_at start vs s) =
     (if unat (a - start) < length vs \<and> ok a then vs ! unat (a - start) else get_at a s)"
  using assms
proof (induction vs rule: rev_induct)
  case (snoc v vs)
  have *: "foldl (\<lambda>s i. set_at (start + of_nat i) ((vs @ [v]) ! i) s) s [0..<length vs]
      = write_block set_at start vs s"
    unfolding write_block_def by (rule foldl_cong) (auto simp: nth_append)
  have step: "write_block set_at start (vs @ [v]) s =
      set_at (start + of_nat (length vs)) v (write_block set_at start vs s)"
    unfolding write_block_def [of _ _ "vs @ [v]"] by (simp add: *)
  have "a = start + of_nat (length vs) \<longleftrightarrow> unat (a - start) = length vs"
  proof -
    have "a = start + of_nat (length vs) \<longleftrightarrow> a - start = of_nat (length vs)"
      by (auto simp: algebra_simps)
    also have "\<dots> \<longleftrightarrow> unat (a - start) = length vs"
      using snoc.prems by (auto simp: word_unat_eq_iff)
    finally show ?thesis .
  qed
  with snoc show ?case by (auto simp: step get_set nth_append less_Suc_eq)
qed (simp add: write_block_def)

end

interpretation int_rd: reg_bank setIntRead readIntRead
    "\<lambda>a. inRange a HMI_INT_RD_START HMI_INT_RD_END"
  by unfold_locales (simp add: setIntRead_def readIntRead_def)

interpretation bool_rd: reg_bank setBoolRead readBoolRead
    "\<lambda>a. inRange a HMI_BOOL_RD_START HMI_BOOL_RD_END"
  by unfold_locales (simp add: setBoolRead_def readBoolRead_def)

interpretation int_rw: reg_bank "\<lambda>a v t. snd (writeIntRw a v t)" readIntRw
    "\<lambda>a. inRange a HMI_INT_RW_START HMI_INT_RW_END"
  by unfold_locales (simp add: writeIntRw_def readIntRw_def)

interpretation bool_rw: reg_bank "\<lambda>a v t. snd (writeBoolRw a v t)" readBoolRw
    "\<lambda>a. inRange a HMI_BOOL_RW_START HMI_BOOL_RW_END"
  by unfold_locales (simp add: writeBoolRw_def readBoolRw_def)

section \<open>Invariant\<close>

definition hmi_table_ok :: "hmi_table \<Rightarrow> bool" where
  "hmi_table_ok t \<longleftrightarrow>
     dom (bool_rw t) \<subseteq> {HMI_BOOL_RW_START..HMI_BOOL_RW_END} \<and>
     dom (int_rw t) \<subseteq> {HMI_INT_RW_START..HMI_INT_RW_END} \<and>
     dom (bool_rd t) \<subseteq> {HMI_BOOL_RD_START..HMI_BOOL_RD_END} \<and>
     dom (int_rd t) \<subseteq> {HMI_INT_RD_START..HMI_INT_RD_END}"

lemma hmi_table_ok_ops [simp, intro]:
  assumes "hmi_table_ok t"
  shows "hmi_table_ok (snd (writeBoolRw a b t))" "hmi_table_ok (snd (writeIntRw a v t))"
    "hmi_table_ok (setBoolRead a b t)" "hmi_table_ok (setIntRead a v t)"
  using assms
  by (auto simp: hmi_table_ok_def writeBoolRw_def writeIntRw_def setBoolRead_def setIntRead_def
      inRange_def)

lemma write_frame [simp]:
  "bool_rd (snd (writeBoolRw a b t)) = bool_rd t" "int_rd (snd (writeBoolRw a b t)) = int_rd t"
  "int_rw (snd (writeBoolRw a b t)) = int_rw t"
  "bool_rd (snd (writeIntRw a v t)) = bool_rd t" "int_rd (snd (writeIntRw a v t)) = int_rd t"
  "bool_rw (snd (writeIntRw a v t)) = bool_rw t"
  by (simp_all add: writeBoolRw_def writeIntRw_def)

end
