(* ===== verification/Hmi_Proto.thy ===== *)
theory Hmi_Proto
  imports Modbus_Crc Hmi_Table
begin

text \<open>
  The Modbus slave the touch panel talks to (\<open>services/protocol/rs485/hmi/hmi_proto.cpp\<close>): one
  definition per handler, on a record of the slave's id, its table and the events delivered to the
  write callback. A handler returns the C++ return value, the response bytes (empty when the
  request is swallowed) and the new state.
\<close>

section \<open>State\<close>

record hmi_write_event =
  ev_addr :: u16
  ev_is_bool :: bool
  ev_value_u16 :: u16
  ev_is_multi :: bool

record hmi =
  hmi_id :: u8
  hmi_tab :: hmi_table
  hmi_on_write :: bool
  hmi_events :: "hmi_write_event list"

definition hmi_init :: "u8 \<Rightarrow> hmi" where
  "hmi_init slave_id =
     \<lparr>hmi_id = slave_id,
      hmi_tab = \<lparr>bool_rw = Map.empty, int_rw = Map.empty, bool_rd = Map.empty, int_rd = Map.empty\<rparr>,
      hmi_on_write = False, hmi_events = []\<rparr>"

definition setOnWrite :: "hmi \<Rightarrow> hmi" where
  "setOnWrite h = h\<lparr>hmi_on_write := True\<rparr>"

definition appendCrc :: "bytes \<Rightarrow> bytes" where
  "appendCrc out = (let crc = calc_vec out in out @ [lo8 crc, hi8 crc])"

definition be16 :: "bytes \<Rightarrow> nat \<Rightarrow> u16" where
  "be16 p i = mk16 (p ! i) (p ! (i + 1))"

definition notify_write :: "hmi_write_event \<Rightarrow> hmi \<Rightarrow> hmi" where
  "notify_write ev h = (if hmi_on_write h then h\<lparr>hmi_events := hmi_events h @ [ev]\<rparr> else h)"

section \<open>Handlers\<close>

definition readBit :: "u8 \<Rightarrow> u16 \<Rightarrow> hmi_table \<Rightarrow> bool" where
  "readBit func addr t =
     (if func = 0x01 then (case mapCoilAddr addr of Some _ \<Rightarrow> readBoolRw addr t | None \<Rightarrow> False)
      else (case mapDiscreteAddr addr of Some _ \<Rightarrow> readBoolRead addr t | None \<Rightarrow> False))"

definition handleReadBits :: "u8 \<Rightarrow> u16 \<Rightarrow> u16 \<Rightarrow> hmi \<Rightarrow> bool \<times> bytes \<times> hmi" where
  "handleReadBits func start qty h =
     (let byte_count = (unat qty + 7) div 8;
          resp0 = [hmi_id h, func, of_nat byte_count] @ replicate byte_count 0;
          resp = foldl (\<lambda>resp i.
                   if readBit func (start + of_nat i) (hmi_tab h)
                   then resp[3 + i div 8 := (resp ! (3 + i div 8)) OR push_bit (i mod 8) 1]
                   else resp) resp0 [0..<unat qty]
      in (True, appendCrc resp, h))"

definition readReg :: "u8 \<Rightarrow> u16 \<Rightarrow> hmi_table \<Rightarrow> u16" where
  "readReg func addr t =
     (if func = 0x03 then (case mapHoldingAddr addr of Some _ \<Rightarrow> readIntRw addr t | None \<Rightarrow> 0)
      else (case mapInputRegAddr addr of Some _ \<Rightarrow> readIntRead addr t | None \<Rightarrow> 0))"

definition handleReadRegs :: "u8 \<Rightarrow> u16 \<Rightarrow> u16 \<Rightarrow> hmi \<Rightarrow> bool \<times> bytes \<times> hmi" where
  "handleReadRegs func start qty h =
     (let byte_count = qty * 2;
          resp0 = [hmi_id h, func, lo8 byte_count];
          resp = foldl (\<lambda>resp i.
                   let v = readReg func (start + of_nat i) (hmi_tab h) in resp @ [hi8 v, lo8 v])
                 resp0 [0..<unat qty]
      in (True, appendCrc resp, h))"

definition handleWriteSingleCoil :: "bytes \<Rightarrow> u16 \<Rightarrow> u16 \<Rightarrow> hmi \<Rightarrow> bool \<times> bytes \<times> hmi" where
  "handleWriteSingleCoil req addr value h =
     (case mapCoilAddr addr of None \<Rightarrow> (True, [], h)
      | Some _ \<Rightarrow>
         let v = (value = 0xFF00);
             h1 = h\<lparr>hmi_tab := snd (writeBoolRw addr v (hmi_tab h))\<rparr>;
             h2 = notify_write \<lparr>ev_addr = addr, ev_is_bool = True,
                    ev_value_u16 = (if v then 1 else 0), ev_is_multi = False\<rparr> h1
         in (True, appendCrc (take 6 req), h2))"

definition handleWriteSingleReg :: "bytes \<Rightarrow> u16 \<Rightarrow> u16 \<Rightarrow> hmi \<Rightarrow> bool \<times> bytes \<times> hmi" where
  "handleWriteSingleReg req addr value h =
     (case mapHoldingAddr addr of None \<Rightarrow> (True, [], h)
      | Some _ \<Rightarrow>
         let h1 = h\<lparr>hmi_tab := snd (writeIntRw addr value (hmi_tab h))\<rparr>;
             h2 = notify_write \<lparr>ev_addr = addr, ev_is_bool = False,
                    ev_value_u16 = value, ev_is_multi = False\<rparr> h1
         in (True, appendCrc (take 6 req), h2))"

definition write_coil_at :: "u16 \<Rightarrow> bool \<Rightarrow> hmi \<Rightarrow> hmi" where
  "write_coil_at addr v h =
     (case mapCoilAddr addr of None \<Rightarrow> h
      | Some _ \<Rightarrow> notify_write \<lparr>ev_addr = addr, ev_is_bool = True,
                    ev_value_u16 = (if v then 1 else 0), ev_is_multi = True\<rparr>
                  (h\<lparr>hmi_tab := snd (writeBoolRw addr v (hmi_tab h))\<rparr>))"

text \<open>The loop over the coils leaves at the first index whose byte is not in the request.\<close>

fun write_coils :: "bytes \<Rightarrow> u16 \<Rightarrow> nat \<Rightarrow> nat list \<Rightarrow> hmi \<Rightarrow> hmi" where
  "write_coils req start bytecount [] h = h"
| "write_coils req start bytecount (i # is) h =
     (if bytecount \<le> i div 8 then h
      else write_coils req start bytecount is
             (write_coil_at (start + of_nat i) (drop_bit (i mod 8) (req ! (7 + i div 8)) AND 1 \<noteq> 0) h))"

definition handleWriteMultiCoils :: "bytes \<Rightarrow> u16 \<Rightarrow> u16 \<Rightarrow> hmi \<Rightarrow> bool \<times> bytes \<times> hmi" where
  "handleWriteMultiCoils req start qty h =
     (if length req < 9 then (True, [], h)
      else let bytecount = unat (req ! 6) in
        if length req < 7 + bytecount + 2 then (True, [], h)
        else let h' = write_coils req start bytecount [0..<unat qty] h
          in (True, appendCrc [hmi_id h, 0x0F, hi8 start, lo8 start, hi8 qty, lo8 qty], h'))"

definition write_reg_at :: "u16 \<Rightarrow> u16 \<Rightarrow> hmi \<Rightarrow> hmi" where
  "write_reg_at addr v h =
     (case mapHoldingAddr addr of None \<Rightarrow> h
      | Some _ \<Rightarrow> notify_write \<lparr>ev_addr = addr, ev_is_bool = False,
                    ev_value_u16 = v, ev_is_multi = True\<rparr>
                  (h\<lparr>hmi_tab := snd (writeIntRw addr v (hmi_tab h))\<rparr>))"

definition handleWriteMultiRegs :: "bytes \<Rightarrow> u16 \<Rightarrow> u16 \<Rightarrow> hmi \<Rightarrow> bool \<times> bytes \<times> hmi" where
  "handleWriteMultiRegs req start qty h =
     (if length req < 9 then (True, [], h)
      else let bytecount = unat (req ! 6) in
        if length req < 7 + bytecount + 2 then (True, [], h)
        else let reg_n = bytecount div 2;
                 n = (if unat qty < reg_n then unat qty else reg_n);
                 h' = foldl (\<lambda>h i. write_reg_at (start + of_nat i)
                        (mk16 (req ! (7 + i * 2)) (req ! (7 + i * 2 + 1))) h) h [0..<n]
          in (True, appendCrc [hmi_id h, 0x10, hi8 start, lo8 start, hi8 qty, lo8 qty], h'))"

definition handleRequest :: "bytes \<Rightarrow> hmi \<Rightarrow> bool \<times> bytes \<times> hmi" where
  "handleRequest req h =
     (if length req < 8 then (False, [], h)
      else let ra = req ! 0; func = req ! 1 in
        if ra \<noteq> hmi_id h then (False, [], h)
        else if \<not> verify req then (True, [], h)
        else let start = be16 req 2; v_or_qty = be16 req 4 in
          if func = 0x01 \<or> func = 0x02 then
            (if v_or_qty = 0 then (True, [], h) else handleReadBits func start v_or_qty h)
          else if func = 0x03 \<or> func = 0x04 then
            (if v_or_qty = 0 then (True, [], h) else handleReadRegs func start v_or_qty h)
          else if func = 0x05 then handleWriteSingleCoil req start v_or_qty h
          else if func = 0x06 then handleWriteSingleReg req start v_or_qty h
          else if func = 0x0F then handleWriteMultiCoils req start v_or_qty h
          else if func = 0x10 then handleWriteMultiRegs req start v_or_qty h
          else (True, [], h))"

section \<open>Elementary facts\<close>

lemma appendCrc_close: "appendCrc out = close_lo_hi out"
  by (simp add: appendCrc_def close_lo_hi_def Let_def)

lemma notify_write_simps [simp]:
  "hmi_id (notify_write ev h) = hmi_id h" "hmi_tab (notify_write ev h) = hmi_tab h"
  "hmi_on_write (notify_write ev h) = hmi_on_write h"
  by (simp_all add: notify_write_def)

lemma write_coil_at_tab [simp]:
  "hmi_tab (write_coil_at a v h) = snd (writeBoolRw a v (hmi_tab h))"
  "hmi_id (write_coil_at a v h) = hmi_id h"
  by (auto simp: write_coil_at_def mapCoilAddr_def writeBoolRw_def)

lemma write_reg_at_tab [simp]:
  "hmi_tab (write_reg_at a v h) = snd (writeIntRw a v (hmi_tab h))"
  "hmi_id (write_reg_at a v h) = hmi_id h"
  by (auto simp: write_reg_at_def mapHoldingAddr_def writeIntRw_def)

definition event_ok :: "hmi_write_event \<Rightarrow> bool" where
  "event_ok ev =
     (if ev_is_bool ev then mapCoilAddr (ev_addr ev) \<noteq> None else mapHoldingAddr (ev_addr ev) \<noteq> None)"

text \<open>What a request may change: the writable areas, inside their address ranges, and the event
  list at its end.\<close>

definition hmi_step_ok :: "hmi \<Rightarrow> hmi \<Rightarrow> bool" where
  "hmi_step_ok h h' \<longleftrightarrow>
     hmi_id h' = hmi_id h \<and> bool_rd (hmi_tab h') = bool_rd (hmi_tab h) \<and>
     int_rd (hmi_tab h') = int_rd (hmi_tab h) \<and>
     (hmi_table_ok (hmi_tab h) \<longrightarrow> hmi_table_ok (hmi_tab h')) \<and>
     (\<exists>evs. hmi_events h' = hmi_events h @ evs \<and> (\<forall>ev \<in> set evs. event_ok ev))"

lemma hmi_step_ok_refl [simp]: "hmi_step_ok h h"
  by (simp add: hmi_step_ok_def)

lemma hmi_step_ok_trans [trans]: "hmi_step_ok h1 h2 \<Longrightarrow> hmi_step_ok h2 h3 \<Longrightarrow> hmi_step_ok h1 h3"
  by (auto simp: hmi_step_ok_def)

lemma hmi_step_ok_coil [simp]: "hmi_step_ok h (write_coil_at a v h)"
  by (auto simp: hmi_step_ok_def)
    (auto simp: write_coil_at_def notify_write_def event_ok_def split: option.splits)

lemma hmi_step_ok_reg [simp]: "hmi_step_ok h (write_reg_at a v h)"
  by (auto simp: hmi_step_ok_def)
    (auto simp: write_reg_at_def notify_write_def event_ok_def split: option.splits)

lemma hmi_step_ok_coils: "hmi_step_ok h (write_coils req start bc is h)"
  by (induction req start bc "is" h rule: write_coils.induct)
    (auto intro: hmi_step_ok_trans [OF hmi_step_ok_coil])

lemma hmi_step_ok_foldl:
  "(\<And>h i. hmi_step_ok h (f h i)) \<Longrightarrow> hmi_step_ok h (foldl f h is)"
  by (induction "is" arbitrary: h) (auto intro: hmi_step_ok_trans)

lemma hmi_step_ok_single:
  "hmi_step_ok h (snd (snd (handleWriteSingleCoil req a v h)))"
  "hmi_step_ok h (snd (snd (handleWriteSingleReg req a v h)))"
  by (auto simp: hmi_step_ok_def handleWriteSingleCoil_def handleWriteSingleReg_def Let_def
      split: option.splits) (auto simp: notify_write_def event_ok_def)

lemma hmi_step_ok_request: "hmi_step_ok h (snd (snd (handleRequest req h)))"
  by (auto simp: handleRequest_def handleReadBits_def handleReadRegs_def handleWriteMultiCoils_def
      handleWriteMultiRegs_def Let_def hmi_step_ok_single hmi_step_ok_coils
      intro!: hmi_step_ok_foldl)

section \<open>Well-formed requests\<close>

definition request :: "u8 \<Rightarrow> u8 \<Rightarrow> u16 \<Rightarrow> u16 \<Rightarrow> bytes \<Rightarrow> bytes" where
  "request sid func start v data =
     close_lo_hi ([sid, func, hi8 start, lo8 start, hi8 v, lo8 v] @ data)"

lemma request_fields [simp]:
  "length (request i f s v data) = 8 + length data"
  "request i f s v data ! 0 = i" "request i f s v data ! Suc 0 = f"
  "be16 (request i f s v data) 2 = s" "be16 (request i f s v data) 4 = v"
  "take 6 (request i f s v data) = [i, f, hi8 s, lo8 s, hi8 v, lo8 v]"
  "k < length data \<Longrightarrow> request i f s v data ! (6 + k) = data ! k"
  by (simp_all add: request_def close_lo_hi_def be16_def numeral_nat nth_append)

lemma request_verify [simp]: "length data < 65000 \<Longrightarrow> verify (request i f s v data)"
  unfolding request_def by (rule verify_close_lo_hi) simp_all

section \<open>Holding registers\<close>

definition reg_bytes :: "u16 list \<Rightarrow> bytes" where
  "reg_bytes vs = concat (map (\<lambda>v. [hi8 v, lo8 v]) vs)"

lemma reg_bytes_simps [simp]:
  "reg_bytes [] = []" "reg_bytes (v # vs) = hi8 v # lo8 v # reg_bytes vs"
  "reg_bytes (us @ vs) = reg_bytes us @ reg_bytes vs" "length (reg_bytes vs) = 2 * length vs"
  by (simp_all add: reg_bytes_def length_concat comp_def sum_list_triv)

lemma reg_bytes_nth [simp]:
  "i < length vs \<Longrightarrow> reg_bytes vs ! (2 * i) = hi8 (vs ! i)"
  "i < length vs \<Longrightarrow> reg_bytes vs ! Suc (2 * i) = lo8 (vs ! i)"
  by (induction vs arbitrary: i) (auto simp: nth_Cons' less_Suc_eq_0_disj)

lemma handleReadRegs_eq:
  "handleReadRegs f start qty h =
     (True, close_lo_hi ([hmi_id h, f, lo8 (qty * 2)] @
        reg_bytes (map (\<lambda>i. readReg f (start + of_nat i) (hmi_tab h)) [0..<unat qty])), h)"
proof -
  have "foldl (\<lambda>resp i. let v = g i in resp @ [hi8 v, lo8 v]) r is = r @ reg_bytes (map g is)"
    for g :: "nat \<Rightarrow> u16" and r and "is" :: "nat list"
    by (induction "is" arbitrary: r) (simp_all add: Let_def)
  then show ?thesis by (simp add: handleReadRegs_def Let_def appendCrc_close)
qed

lemma write_regs_tab:
  assumes "\<And>i. i < length vs \<Longrightarrow> w i = vs ! i"
  shows "hmi_tab (foldl (\<lambda>h i. write_reg_at (start + of_nat i) (w i) h) h [0..<length vs]) =
     write_block (\<lambda>a v t. snd (writeIntRw a v t)) start vs (hmi_tab h)"
proof -
  have "hmi_tab (foldl (\<lambda>h i. write_reg_at (start + of_nat i) (w i) h) h [0..<n]) =
      foldl (\<lambda>s i. snd (writeIntRw (start + of_nat i) (vs ! i) s)) (hmi_tab h) [0..<n]"
    if "n \<le> length vs" for n
    using that assms by (induction n) simp_all
  then show ?thesis by (simp add: write_block_def)
qed

lemma multi_regs_tab:
  assumes "length vs \<le> 123" "req = request i 0x10 start (of_nat (length vs)) (of_nat (2 * length vs) # reg_bytes vs)"
  shows "hmi_tab (snd (snd (handleWriteMultiRegs req start (of_nat (length vs)) h))) =
     write_block (\<lambda>a v t. snd (writeIntRw a v t)) start vs (hmi_tab h)"
proof -
  have "unat (of_nat (2 * length vs) :: u8) = 2 * length vs"
    using assms(1) unfolding unat_of_nat by simp
  then have six: "unat (req ! 6) = 2 * length vs"
    using request_fields(7) [of 0 "of_nat (2 * length vs) # reg_bytes vs"]
    unfolding assms(2) by simp
  have w: "mk16 (req ! (7 + k * 2)) (req ! (7 + k * 2 + 1)) = vs ! k" if "k < length vs" for k
    using that request_fields(7) [of "Suc (2 * k)" "of_nat (2 * length vs) # reg_bytes vs"]
      request_fields(7) [of "Suc (Suc (2 * k))" "of_nat (2 * length vs) # reg_bytes vs"]
      reg_bytes_nth [of k vs] by (simp add: assms(2) mult.commute)
  have len: "length req = 9 + 2 * length vs" by (simp add: assms(2))
  show ?thesis using assms(1) write_regs_tab [of vs, OF w]
    by (simp add: handleWriteMultiRegs_def six Let_def len)
qed

section \<open>Coils\<close>

lemma drop_bit_and_1: "drop_bit k (w :: u8) AND 1 \<noteq> 0 \<longleftrightarrow> bit w k"
  by (simp add: and_one_eq bit_iff_odd_drop_bit odd_iff_mod_2_eq_one)

lemma write_coils_tab:
  assumes "n \<le> 8 * bc"
  shows "hmi_tab (write_coils req start bc [0..<n] h) =
     write_block (\<lambda>a v t. snd (writeBoolRw a v t)) start
       (map (\<lambda>i. bit (req ! (7 + i div 8)) (i mod 8)) [0..<n]) (hmi_tab h)"
proof -
  have 1: "write_coils req start bc is h =
      foldl (\<lambda>h i. write_coil_at (start + of_nat i) (bit (req ! (7 + i div 8)) (i mod 8)) h) h is"
    if "\<forall>i \<in> set is. i < 8 * bc" for "is" h
    using that by (induction "is" arbitrary: h) (auto simp: drop_bit_and_1)
  have 2: "hmi_tab (foldl (\<lambda>h i. write_coil_at (start + of_nat i) (b i) h) h [0..<m]) =
      foldl (\<lambda>t i. snd (writeBoolRw (start + of_nat i) (map b [0..<n] ! i) t)) (hmi_tab h) [0..<m]"
    if "m \<le> n" for m b
    using that by (induction m) simp_all
  show ?thesis using assms 2 [of n] by (simp add: 1 write_block_def)
qed

lemma multi_coils_tab:
  assumes "n \<le> 1968" "length data = (n + 7) div 8"
    "req = request i 0x0F start (of_nat n) (of_nat (length data) # data)"
  shows "hmi_tab (snd (snd (handleWriteMultiCoils req start (of_nat n) h))) =
     write_block (\<lambda>a v t. snd (writeBoolRw a v t)) start
       (map (\<lambda>i. bit (req ! (7 + i div 8)) (i mod 8)) [0..<n]) (hmi_tab h)"
proof -
  have "unat (of_nat (length data) :: u8) = length data"
    using assms(1,2) unfolding unat_of_nat by simp
  then have six: "unat (req ! 6) = length data"
    using request_fields(7) [of 0 "of_nat (length data) # data"] unfolding assms(3) by simp
  have len: "length req = 9 + length data" by (simp add: assms(3))
  have "n \<le> 8 * length data" "n < 65536" using assms(1,2) by simp_all
  then show ?thesis
    by (simp add: handleWriteMultiCoils_def six Let_def len write_coils_tab)
qed

text \<open>Bit \<open>k\<close> of data byte \<open>j\<close> after \<open>m\<close> rounds of the packing loop.\<close>

lemma read_bits_loop:
  fixes val :: "nat \<Rightarrow> bool" and r :: bytes
  defines "step \<equiv> \<lambda>resp i. if val i then resp[3 + i div 8 := (resp ! (3 + i div 8)) OR push_bit (i mod 8) 1] else resp"
  assumes "m \<le> 8 * bc" "length r = 3"
  shows "\<exists>data. foldl step (r @ replicate bc 0) [0..<m] = r @ data \<and> length data = bc
           \<and> (\<forall>j < bc. \<forall>k < 8. bit (data ! j) k \<longleftrightarrow> 8 * j + k < m \<and> val (8 * j + k))"
  using assms(2)
proof (induction m)
  case (Suc m)
  then obtain data where d: "foldl step (r @ replicate bc 0) [0..<m] = r @ data" "length data = bc"
    and b: "\<forall>j < bc. \<forall>k < 8. bit (data ! j) k \<longleftrightarrow> 8 * j + k < m \<and> val (8 * j + k)"
    by auto
  let ?j = "m div 8"
  have j: "?j < bc" using Suc.prems by auto
  have pos: "8 * j + k = m \<longleftrightarrow> j = ?j \<and> k = m mod 8" if "k < 8" for j k using that by auto
  have lt: "8 * j + k < Suc m \<longleftrightarrow> 8 * j + k < m \<or> 8 * j + k = m" for j k by auto
  let ?data = "if val m then data[?j := (data ! ?j) OR push_bit (m mod 8) 1] else data"
  have "foldl step (r @ replicate bc 0) [0..<Suc m] = r @ ?data"
    using d assms(3) by (simp add: step_def list_update_append nth_append)
  moreover have "bit (?data ! i) k \<longleftrightarrow> 8 * i + k < Suc m \<and> val (8 * i + k)" if "i < bc" "k < 8" for i k
  proof -
    have "bit (?data ! i) k \<longleftrightarrow> bit (data ! i) k \<or> val m \<and> i = ?j \<and> k = m mod 8"
      using that d(2) j by (cases "i = ?j") (auto simp: bit_or_iff bit_push_bit_iff bit_exp_iff)
    with b that pos [of k i] show ?thesis unfolding lt by auto
  qed
  moreover have "length ?data = bc" using d by simp
  ultimately show ?case by blast
qed (auto intro!: exI [of _ "replicate bc 0"])

lemma handleReadBits_bits:
  assumes "handleReadBits f start qty h = (ok, resp, h')"
  shows "\<exists>data. resp = close_lo_hi ([hmi_id h, f, of_nat (length data)] @ data)
     \<and> length data = (unat qty + 7) div 8 \<and> ok \<and> h' = h
     \<and> (\<forall>i < 8 * length data. bit (data ! (i div 8)) (i mod 8) \<longleftrightarrow>
           i < unat qty \<and> readBit f (start + of_nat i) (hmi_tab h))"
proof -
  let ?bc = "(unat qty + 7) div 8"
  obtain data where "resp = close_lo_hi ([hmi_id h, f, of_nat ?bc] @ data)" "length data = ?bc"
    and b: "\<forall>j < ?bc. \<forall>k < 8. bit (data ! j) k \<longleftrightarrow>
          8 * j + k < unat qty \<and> readBit f (start + of_nat (8 * j + k)) (hmi_tab h)"
    using read_bits_loop [of "unat qty" ?bc "[hmi_id h, f, of_nat ?bc]"
        "\<lambda>i. readBit f (start + of_nat i) (hmi_tab h)"] assms
    by (force simp: handleReadBits_def Let_def appendCrc_close)
  moreover have "bit (data ! (i div 8)) (i mod 8) \<longleftrightarrow>
      i < unat qty \<and> readBit f (start + of_nat i) (hmi_tab h)" if "i < 8 * ?bc" for i
    using b [rule_format, of "i div 8" "i mod 8"] that by (simp add: less_mult_imp_div_less mult.commute)
  moreover have "ok" "h' = h" using assms by (auto simp: handleReadBits_def Let_def)
  ultimately show ?thesis by (intro exI [of _ data]) simp
qed

section \<open>Properties\<close>

text \<open>C3: no request changes the panel's read-only areas or the slave id, a table whose entries lie in
  their address ranges stays such a table, and every event handed to the write callback names a
  writable address of its kind. A frame that is too short, addressed to another slave or has a wrong
  CRC gets no response and changes nothing at all.\<close>

theorem hmi_request_safe:
  "hmi_step_ok h (snd (snd (handleRequest req h)))
   \<and> (length req < 8 \<or> req ! 0 \<noteq> hmi_id h \<or> \<not> verify req \<longrightarrow>
        snd (handleRequest req h) = ([], h))"
  using hmi_step_ok_request by (auto simp: handleRequest_def Let_def)

theorem hmi_request_safe_witness:
  "snd (handleRequest [3, 6, 0x20, 0, 0, 7, 0, 0]
      (setOnWrite (hmi_init 3)))
   = ([], (setOnWrite (hmi_init 3)))"
  by (rule hmi_request_safe [THEN conjunct2, rule_format]) (simp add: crc_eval)

text \<open>Writing consecutive holding registers (FC10) and reading them back (FC03) returns exactly the
  values written, in a response that is closed with its CRC; the read changes nothing.\<close>

theorem hmi_registers_roundtrip:
  assumes n: "1 \<le> length vs" "length vs \<le> 123"
    and range: "0x2000 \<le> unat start" "unat start + length vs \<le> 0x3000"
    and h': "h' = snd (snd (handleRequest
          (request (hmi_id h) 0x10 start (of_nat (length vs)) (of_nat (2 * length vs) # reg_bytes vs)) h))"
  shows "handleRequest (request (hmi_id h) 0x03 start (of_nat (length vs)) []) h' =
     (True, close_lo_hi ([hmi_id h, 0x03, of_nat (2 * length vs)] @ reg_bytes vs), h')"
proof -
  have id: "hmi_id h' = hmi_id h" using hmi_step_ok_request unfolding h' by (simp add: hmi_step_ok_def)
  have tab: "hmi_tab h' = write_block (\<lambda>a v t. snd (writeIntRw a v t)) start vs (hmi_tab h)"
    using n unfolding h' by (simp add: handleRequest_def multi_regs_tab Let_def del: of_nat_mult)
  have rd: "readReg 0x03 (start + of_nat i) (hmi_tab h') = vs ! i" if i: "i < length vs" for i
  proof -
    have "unat (start + of_nat i) = unat start + i"
      using range i by (simp add: unat_word_ariths)
    then have "inRange (start + of_nat i) HMI_INT_RW_START HMI_INT_RW_END"
      using range i by (simp add: inRange_def hmi_area_defs word_le_nat_alt)
    then show ?thesis using i n int_rw.get_block [of vs "start + of_nat i"]
      by (simp add: readReg_def mapHoldingAddr_def tab)
  qed
  have "map (\<lambda>i. readReg 0x03 (start + of_nat i) (hmi_tab h')) [0..<length vs] = vs"
    by (rule nth_equalityI) (simp_all add: rd)
  moreover have "(of_nat (length vs) :: u16) \<noteq> 0"
  proof
    assume "(of_nat (length vs) :: u16) = 0"
    then have "unat (of_nat (length vs) :: u16) = 0" by simp
    with n show False by simp
  qed
  moreover have "lo8 (of_nat (length vs) * 2) = of_nat (2 * length vs)"
    using lo8_of_nat [of "2 * length vs"] by (simp add: mult.commute)
  ultimately show ?thesis using n
    by (simp add: handleRequest_def id handleReadRegs_eq Let_def)
qed

theorem hmi_registers_roundtrip_witness:
  "\<exists>h'. handleRequest (request 3 0x03 0x2010 2 []) h' =
     (True, close_lo_hi ([3, 0x03, 4] @ reg_bytes [500, 65535]), h')"
  using hmi_registers_roundtrip [of "[500, 65535]" "0x2010" _ "setOnWrite (hmi_init 3)"]
  by (auto simp: setOnWrite_def hmi_init_def)

text \<open>Writing consecutive coils (FC0F) and reading them back (FC01) returns the bits written, in the
  same positions, with the unused bits of the last byte cleared.\<close>

theorem hmi_coils_roundtrip:
  assumes n: "1 \<le> n" "n \<le> 1968" and data: "length data = (n + 7) div 8"
    and range: "0x1000 \<le> unat start" "unat start + n \<le> 0x2000"
    and h': "h' = snd (snd (handleRequest
          (request (hmi_id h) 0x0F start (of_nat n) (of_nat (length data) # data)) h))"
  shows "\<exists>out. handleRequest (request (hmi_id h) 0x01 start (of_nat n) []) h' =
       (True, close_lo_hi ([hmi_id h, 0x01, of_nat (length data)] @ out), h')
     \<and> length out = length data
     \<and> (\<forall>i < 8 * length data. bit (out ! (i div 8)) (i mod 8) \<longleftrightarrow> i < n \<and> bit (data ! (i div 8)) (i mod 8))"
proof -
  let ?req = "request (hmi_id h) 0x0F start (of_nat n) (of_nat (length data) # data)"
  let ?bits = "map (\<lambda>i. bit (?req ! (7 + i div 8)) (i mod 8)) [0..<n]"
  have un: "unat (of_nat n :: u16) = n" using n by simp
  have un0: "(of_nat n :: u16) \<noteq> 0" using un n by (metis not_one_le_zero unat_0)
  have id: "hmi_id h' = hmi_id h" using hmi_step_ok_request unfolding h' by (simp add: hmi_step_ok_def)
  have tab: "hmi_tab h' = write_block (\<lambda>a v t. snd (writeBoolRw a v t)) start ?bits (hmi_tab h)"
    using n data multi_coils_tab [OF n(2) data refl, of "hmi_id h" start h] unfolding h'
    by (simp add: handleRequest_def Let_def)
  have bits: "?bits ! i = bit (data ! (i div 8)) (i mod 8)" if "i < n" for i
    using that data request_fields(7) [of "Suc (i div 8)" "of_nat (length data) # data"] by simp
  have rd: "readBit 0x01 (start + of_nat i) (hmi_tab h') = bit (data ! (i div 8)) (i mod 8)"
    if i: "i < n" for i
  proof -
    have "unat (start + of_nat i) = unat start + i" using range i n by (simp add: unat_word_ariths)
    then have "inRange (start + of_nat i) HMI_BOOL_RW_START HMI_BOOL_RW_END"
      using range i by (simp add: inRange_def hmi_area_defs word_le_nat_alt)
    then show ?thesis using i n bits [OF i] bool_rw.get_block [of ?bits "start + of_nat i"]
      by (simp add: readBit_def mapCoilAddr_def tab)
  qed
  obtain ok resp h2 where g: "handleReadBits 0x01 start (of_nat n) h' = (ok, resp, h2)"
    using prod_cases3 by blast
  obtain out where o: "resp = close_lo_hi ([hmi_id h, 0x01, of_nat (length data)] @ out)"
      "length out = length data" "ok" "h2 = h'"
    and b: "\<forall>i < 8 * length data. bit (out ! (i div 8)) (i mod 8) \<longleftrightarrow>
          i < n \<and> readBit 0x01 (start + of_nat i) (hmi_tab h')"
    using handleReadBits_bits [OF g] unfolding un id data by (metis data)
  from b rd have "\<forall>i < 8 * length data. bit (out ! (i div 8)) (i mod 8) \<longleftrightarrow>
      i < n \<and> bit (data ! (i div 8)) (i mod 8)" by blast
  with o show ?thesis using g un0 id by (intro exI [of _ out]) (simp add: handleRequest_def Let_def)
qed

theorem hmi_coils_roundtrip_witness:
  "\<exists>h' out. handleRequest (request 3 0x01 0x1000 3 []) h' =
       (True, close_lo_hi ([3, 0x01, 1] @ out), h') \<and> length out = 1 \<and> bit (out ! 0) 2 \<and> \<not> bit (out ! 0) 3"
proof -
  let ?h = "setOnWrite (hmi_init 3)"
  obtain h' out where *: "handleRequest (request 3 0x01 0x1000 3 []) h' =
       (True, close_lo_hi ([3, 0x01, 1] @ out), h')" "length out = 1"
    "\<forall>i < 8. bit (out ! (i div 8)) (i mod 8) \<longleftrightarrow> i < 3 \<and> bit ([0x0D :: u8] ! (i div 8)) (i mod 8)"
    using hmi_coils_roundtrip [of 3 "[0x0D]" "0x1000" _ ?h]
    by (auto simp: setOnWrite_def hmi_init_def)
  have "bit (out ! 0) 2" "\<not> bit (out ! 0) 3"
    using spec [OF *(3), of 2] spec [OF *(3), of 3] by simp_all
  with *(1,2) show ?thesis by blast
qed

text \<open>A well-formed write of one register (FC06) in range stores the value, reports it to the
  callback as a single-register event and is answered with the request itself.\<close>

theorem hmi_write_register_echo:
  assumes "0x2000 \<le> addr" "addr \<le> 0x2FFF" "hmi_on_write h"
    and "req = request (hmi_id h) 0x06 addr value []"
  shows "handleRequest req h =
     (True, req, h\<lparr>hmi_tab := (hmi_tab h)\<lparr>int_rw := (int_rw (hmi_tab h))(addr \<mapsto> value)\<rparr>,
        hmi_events := hmi_events h @ [\<lparr>ev_addr = addr, ev_is_bool = False, ev_value_u16 = value,
          ev_is_multi = False\<rparr>]\<rparr>)"
proof -
  have "inRange addr HMI_INT_RW_START HMI_INT_RW_END"
    using assms by (simp add: inRange_def hmi_area_defs)
  moreover have "appendCrc (take 6 req) = req"
    unfolding assms(4) by (simp add: appendCrc_close) (simp add: request_def)
  ultimately show ?thesis using assms(3)
    by (simp add: assms(4) handleRequest_def handleWriteSingleReg_def mapHoldingAddr_def
        writeIntRw_def notify_write_def Let_def)
qed

theorem hmi_write_register_echo_witness:
  "fst (handleRequest (request 3 0x06 0x2001 5 [])
      (setOnWrite (hmi_init 3)))"
  using hmi_write_register_echo [of "0x2001" "setOnWrite (hmi_init 3)" _ 5]
  by (simp add: setOnWrite_def hmi_init_def)

end
