(* ===== verification/Rs485_Protocols.thy ===== *)
theory Rs485_Protocols
  imports Modbus_Crc Device_Data
begin

text \<open>
  The protocols of the three sensors on the serial bus: smoke sensor, gas detector and air conditioner
  (\<open>services/protocol/rs485/*_proto.cpp\<close>). Each builds its read and write frames and turns a response into
  device data. The smoke and gas sensors send the high byte of the CRC first, the air conditioner the low
  one; what the two orders share is a locale. The texts shown on the panel are given by their UTF-8 bytes.
\<close>

section \<open>Register responses\<close>

definition utf8 :: "nat list \<Rightarrow> string" where "utf8 = map char_of"

definition verifyCRC_HiLo :: "bytes \<Rightarrow> bool" where
  "verifyCRC_HiLo frame =
     (if length frame < 4 then False
      else let n = length frame in mk16 (frame ! (n - 2)) (frame ! (n - 1)) = calc frame (of_nat (n - 2)))"

definition verifyCRC_LoHi :: "bytes \<Rightarrow> bool" where
  "verifyCRC_LoHi frame =
     (if length frame < 4 then False
      else let n = length frame in mk16 (frame ! (n - 1)) (frame ! (n - 2)) = calc frame (of_nat (n - 2)))"

text \<open>The loop that collects the registers, high byte first.\<close>

fun regs_at :: "bytes \<Rightarrow> nat \<Rightarrow> nat \<Rightarrow> u16 list" where
  "regs_at rx idx 0 = []"
| "regs_at rx idx (Suc n) = mk16 (rx ! idx) (rx ! (idx + 1)) # regs_at rx (idx + 2) n"

text \<open>The three classes have the same parser up to the CRC check.\<close>

definition parse_regs03 :: "(bytes \<Rightarrow> bool) \<Rightarrow> bytes \<Rightarrow> u8 \<Rightarrow> u16 list option" where
  "parse_regs03 check rx expect_slave =
     (if length rx < 5 then None
      else if rx ! 0 \<noteq> expect_slave then None
      else if rx ! 1 \<noteq> 0x03 then None
      else if \<not> check rx then None
      else let byte_cnt = unat (rx ! 2) in
        if odd byte_cnt then None
        else if length rx \<noteq> 3 + byte_cnt + 2 then None
        else Some (regs_at rx 3 (byte_cnt div 2)))"

definition smoke_parseHoldingRegs03 :: "bytes \<Rightarrow> u8 \<Rightarrow> u16 list option" where
  "smoke_parseHoldingRegs03 = parse_regs03 verifyCRC_HiLo"

definition gas_parseHoldingRegs03 :: "bytes \<Rightarrow> u8 \<Rightarrow> u16 list option" where
  "gas_parseHoldingRegs03 = parse_regs03 verifyCRC_HiLo"

definition parseHoldingRegs03_LoHi :: "bytes \<Rightarrow> u8 \<Rightarrow> u16 list option" where
  "parseHoldingRegs03_LoHi = parse_regs03 verifyCRC_LoHi"

definition dbl16 :: "u16 \<Rightarrow> dbl" where "dbl16 v = dbl_of_int (uint v)"
definition flag32 :: "bool \<Rightarrow> u32" where "flag32 b = (if b then 1 else 0)"

section \<open>Smoke sensor\<close>

definition smoke_buildReadHolding :: "u8 \<Rightarrow> u16 \<Rightarrow> u16 \<Rightarrow> bytes" where
  "smoke_buildReadHolding slave start count =
     close_hi_lo [slave, 0x03, hi8 start, lo8 start, hi8 count, lo8 count]"

definition smoke_buildReadCmd :: "u8 \<Rightarrow> bytes" where
  "smoke_buildReadCmd addr = smoke_buildReadHolding addr 0 5"

definition smoke_buildWriteCmd :: "u8 \<Rightarrow> u16 \<Rightarrow> u16 \<Rightarrow> bytes" where
  "smoke_buildWriteCmd addr reg v = close_hi_lo [addr, 0x06, hi8 reg, lo8 reg, hi8 v, lo8 v]"

definition applyTemperature :: "u16 \<Rightarrow> int" where
  "applyTemperature raw = (if hi8 raw = 0x01 then - uint (lo8 raw) else uint (lo8 raw))"

definition alarmToString :: "u16 \<Rightarrow> string" where
  "alarmToString v = (if v AND 0xFF = 0 then utf8 [0xE6, 0xAD, 0xA3, 0xE5, 0xB8, 0xB8]
     else if v AND 0xFF = 1 then utf8 [0xE7, 0x83, 0x9F, 0xE9, 0x9B, 0xBE, 0xE6, 0x8A, 0xA5, 0xE8, 0xAD, 0xA6]
     else utf8 [0xE6, 0x9C, 0xAA, 0xE7, 0x9F, 0xA5, 0xE6, 0x8A, 0xA5, 0xE8, 0xAD, 0xA6])"

definition append_text :: "bool \<Rightarrow> string \<Rightarrow> string \<Rightarrow> string" where
  "append_text on s acc = (if on then (if acc \<noteq> [] then acc @ ''|'' else acc) @ s else acc)"

definition faultToString :: "u16 \<Rightarrow> string" where
  "faultToString v =
     (let f = v AND 0xFF in
      if f = 0 then utf8 [0xE6, 0x97, 0xA0, 0xE6, 0x95, 0x85, 0xE9, 0x9A, 0x9C]
      else let out = append_text (f AND 1 \<noteq> 0) (utf8 [0xE7, 0x83, 0x9F, 0xE9, 0x9B, 0xBE, 0xE4, 0xBC, 0xA0, 0xE6, 0x84, 0x9F, 0xE5, 0x99, 0xA8, 0xE6, 0x95, 0x85, 0xE9, 0x9A, 0x9C]) [];
               out = append_text (f AND 2 \<noteq> 0) (utf8 [0xE7, 0x83, 0x9F, 0xE9, 0x9B, 0xBE, 0xE6, 0xA3, 0x80, 0xE6, 0xB5, 0x8B, 0xE5, 0xAE, 0xA4, 0xE6, 0xB1, 0xA1, 0xE6, 0x9F, 0x93, 0xE6, 0x95, 0x85, 0xE9, 0x9A, 0x9C]) out;
               out = append_text (f AND 4 \<noteq> 0) (utf8 [0xE6, 0xB8, 0xA9, 0xE5, 0xBA, 0xA6, 0xE4, 0xBC, 0xA0, 0xE6, 0x84, 0x9F, 0xE5, 0x99, 0xA8, 0xE6, 0x95, 0x85, 0xE9, 0x9A, 0x9C]) out;
               out = append_text (f AND NOT 7 \<noteq> 0) (utf8 [0xE6, 0x9C, 0xAA, 0xE7, 0x9F, 0xA5, 0xE6, 0x95, 0x85, 0xE9, 0x9A, 0x9C, 0xE4, 0xBD, 0x8D]) out
           in if out = [] then utf8 [0xE6, 0x9C, 0xAA, 0xE7, 0x9F, 0xA5, 0xE6, 0x95, 0x85, 0xE9, 0x9A, 0x9C] else out)"

definition levelToString :: "u16 \<Rightarrow> string" where
  "levelToString v =
     (let l = v AND 0xFF in
      if l = 1 then utf8 [0x31, 0xE7, 0xBA, 0xA7, 0x28, 0x31, 0x7E, 0x32, 0x25, 0x4F, 0x42, 0x53, 0x29] else if l = 2 then utf8 [0x32, 0xE7, 0xBA, 0xA7, 0x28, 0x32, 0x7E, 0x34, 0x25, 0x4F, 0x42, 0x53, 0x29]
      else if l = 3 then utf8 [0x33, 0xE7, 0xBA, 0xA7, 0x28, 0x34, 0x7E, 0x36, 0x25, 0x4F, 0x42, 0x53, 0x29] else if l = 4 then utf8 [0x34, 0xE7, 0xBA, 0xA7, 0x28, 0x36, 0x7E, 0x38, 0x25, 0x4F, 0x42, 0x53, 0x29]
      else utf8 [0xE6, 0x9C, 0xAA, 0xE7, 0x9F, 0xA5, 0xE7, 0xBA, 0xA7, 0xE5, 0x88, 0xAB])"

definition smoke_data :: "u16 list \<Rightarrow> device_data \<Rightarrow> device_data" where
  "smoke_data regs out =
     (let alarm = regs ! 0; fault = regs ! 1; warn_level = regs ! 2; smoke = regs ! 3;
          temp_c = applyTemperature (regs ! 4);
          alarm_lo = alarm AND 0xFF; fault_lo = fault AND 0xFF
      in out\<lparr>device_name := ''SmokeSensor'',
           num := (num out)(''alarm'' \<mapsto> dbl16 alarm, ''fault'' \<mapsto> dbl16 fault, ''warn_level'' \<mapsto> dbl16 warn_level,
              ''smoke_percent'' \<mapsto> dbl16 smoke, ''temp'' \<mapsto> dbl_of_int temp_c),
           status := (status out)(''TSS_smoke_alarm'' \<mapsto> flag32 (alarm_lo = 1),
              ''TSS_SS_alarm'' \<mapsto> flag32 (fault_lo AND 1 \<noteq> 0),
              ''TSS_SPollution_alarm'' \<mapsto> flag32 (fault_lo AND 2 \<noteq> 0),
              ''TSS_temp_fault'' \<mapsto> flag32 (fault_lo AND 4 \<noteq> 0)),
           vals := (vals out)(''alarm_raw'' \<mapsto> uint alarm, ''fault_raw'' \<mapsto> uint fault,
              ''warn_level_raw'' \<mapsto> uint warn_level, ''temp_c'' \<mapsto> temp_c),
           str := (str out)(''alarm_text'' \<mapsto> alarmToString alarm, ''fault_text'' \<mapsto> faultToString fault,
              ''warn_level_text'' \<mapsto> levelToString warn_level)\<rparr>)"

definition smoke_parse :: "u8 \<Rightarrow> bytes \<Rightarrow> device_data \<Rightarrow> bool \<times> device_data" where
  "smoke_parse addr rx out =
     (case smoke_parseHoldingRegs03 rx addr of None \<Rightarrow> (False, out)
      | Some regs \<Rightarrow> if length regs < 5 then (False, out) else (True, smoke_data regs out))"

section \<open>Gas detector\<close>

definition applyGasDecimal :: "u16 \<Rightarrow> u16 \<Rightarrow> dbl" where
  "applyGasDecimal raw decimal_code =
     (if decimal_code = 1 then dbl_div (dbl16 raw) (Fin 10)
      else if decimal_code = 2 then dbl_div (dbl16 raw) (Fin 100)
      else dbl16 raw)"

definition gasTypeName :: "u16 \<Rightarrow> string" where
  "gasTypeName c = (if c = 0 then ''combustible'' else if c = 1 then ''CO'' else if c = 2 then ''O2''
     else if c = 3 then ''temperature'' else if c = 4 then ''humidity'' else if c = 5 then ''CO2'' else ''unknown'')"

definition gasUnitName :: "u16 \<Rightarrow> string" where
  "gasUnitName c = (if c = 0 then ''%LEL'' else if c = 1 then ''ppm'' else if c = 2 then ''%VOL''
     else if c = 3 then ''C'' else if c = 4 then ''%RH'' else ''unknown'')"

definition gas_kind_of :: "u16 \<Rightarrow> gas_type" where
  "gas_kind_of c = (if c = 0 then Combustible else if c = 1 then CO else if c = 2 then O2
     else if c = 3 then Temperature else if c = 4 then Humidity else if c = 5 then CO2 else UnknownGas)"

definition gas_buildReadCmd :: "u8 \<Rightarrow> bytes" where
  "gas_buildReadCmd addr = close_hi_lo [addr, 0x03, hi8 0, lo8 0, hi8 5, lo8 5]"

definition gas_data :: "u16 list \<Rightarrow> device_data" where
  "gas_data regs =
     (let raw = regs ! 0; st = regs ! 1; dec = regs ! 2; unit_code = regs ! 3; type_code = regs ! 4;
          v = applyGasDecimal raw dec;
          low = (st AND 2 \<noteq> 0); high = (st AND 4 \<noteq> 0)
      in dd_init\<lparr>device_name := ''GasDetector'',
           num := [''gas_raw'' \<mapsto> dbl16 raw, ''gas_value'' \<mapsto> v, ''status'' \<mapsto> dbl16 st, ''decimal'' \<mapsto> dbl16 dec,
              ''unit_code'' \<mapsto> dbl16 unit_code, ''type_code'' \<mapsto> dbl16 type_code],
           gas := \<lparr>gas_valid = True, gas_kind = gas_kind_of type_code, gas_type_code = type_code, gas_raw = raw,
              gas_status = st, gas_decimal_code = dec, gas_unit_code = unit_code, gas_value = v\<rparr>,
           status := [''fault_any'' \<mapsto> flag32 (st AND 1 \<noteq> 0), ''low_alarm'' \<mapsto> flag32 low,
              ''high_alarm'' \<mapsto> flag32 high, ''alarm_any'' \<mapsto> flag32 (low \<or> high)],
           vals := [''status_raw'' \<mapsto> uint st, ''type_code'' \<mapsto> uint type_code, ''unit_code'' \<mapsto> uint unit_code],
           str := [''gas_type'' \<mapsto> gasTypeName type_code, ''gas_unit'' \<mapsto> gasUnitName unit_code]\<rparr>)"

definition gas_parse :: "u8 \<Rightarrow> bytes \<Rightarrow> device_data \<Rightarrow> bool \<times> device_data" where
  "gas_parse addr rx out =
     (case gas_parseHoldingRegs03 rx addr of None \<Rightarrow> (False, out)
      | Some regs \<Rightarrow>
          if length regs < 5 then (False, out)
          else if 5 < regs ! 4 then (False, out)
          else (True, gas_data regs))"

section \<open>Air conditioner\<close>

datatype poll_stage = S0_Version | S1_RunState | S2_Sensors | S3_Alarms | S4_Params

fun stage_code :: "poll_stage \<Rightarrow> int" where
  "stage_code S0_Version = 0" | "stage_code S1_RunState = 1" | "stage_code S2_Sensors = 2"
| "stage_code S3_Alarms = 3" | "stage_code S4_Params = 4"

fun segmentOf :: "poll_stage \<Rightarrow> u16 \<times> u16" where
  "segmentOf S0_Version = (0x0000, 1)"
| "segmentOf S1_RunState = (0x0100, 6)"
| "segmentOf S2_Sensors = (0x0500, 9)"
| "segmentOf S3_Alarms = (0x0600, 0x21)"
| "segmentOf S4_Params = (0x0700, 0x0B)"

record aircon =
  ac_addr :: u8
  next_stage :: poll_stage
  poll_seq_index :: u8

definition aircon_init :: "u8 \<Rightarrow> aircon" where
  "aircon_init addr = \<lparr>ac_addr = addr, next_stage = S1_RunState, poll_seq_index = 0\<rparr>"

definition kSeq :: "poll_stage list" where
  "kSeq = [S1_RunState, S2_Sensors, S3_Alarms, S1_RunState, S2_Sensors, S3_Alarms, S4_Params,
           S1_RunState, S2_Sensors, S3_Alarms, S1_RunState, S2_Sensors, S3_Alarms, S0_Version]"

definition advanceStage :: "aircon \<Rightarrow> aircon" where
  "advanceStage a =
     a\<lparr>next_stage := kSeq ! (unat (poll_seq_index a) mod 14),
       poll_seq_index := of_nat ((unat (poll_seq_index a) + 1) mod 14)\<rparr>"

definition aircon_buildReadCmd :: "aircon \<Rightarrow> bytes \<times> aircon" where
  "aircon_buildReadCmd a =
     (case segmentOf (next_stage a) of (start, count) \<Rightarrow>
        (buildReadHolding (ac_addr a) start count, advanceStage a))"

definition aircon_buildWriteCmd :: "u8 \<Rightarrow> u16 \<Rightarrow> u16 \<Rightarrow> bytes" where
  "aircon_buildWriteCmd addr reg v = close_lo_hi [addr, 0x06, hi8 reg, lo8 reg, hi8 v, lo8 v]"

definition aircon_buildWriteMultiCmd :: "u8 \<Rightarrow> u16 \<Rightarrow> u16 list \<Rightarrow> bytes" where
  "aircon_buildWriteMultiCmd addr start values =
     (let qty = (of_nat (length values) :: u16);
          byteCnt = (ucast (qty * 2) :: u8)
      in close_lo_hi ([addr, 0x10, hi8 start, lo8 start, hi8 qty, lo8 qty, byteCnt] @
           concat (map (\<lambda>v. [hi8 v, lo8 v]) values)))"

definition inferStageByRegCount :: "nat \<Rightarrow> poll_stage option" where
  "inferStageByRegCount n =
     (if n = 1 then Some S0_Version else if n = 6 then Some S1_RunState else if n = 9 then Some S2_Sensors
      else if n = 33 then Some S3_Alarms else if n = 11 then Some S4_Params else None)"

definition alarm_keys :: "string list" where
  "alarm_keys =
     [''alarm.high_temp_alarm'',
      ''alarm.low_temp_alarm'',
      ''alarm.high_humidity_alarm'',
      ''alarm.low_humidity_alarm'',
      ''alarm.coil_freeze_protect'',
      ''alarm.exhaust_high_temp_alarm'',
      ''alarm.coil_temp_sensor_fault'',
      ''alarm.outdoor_temp_sensor_fault'',
      ''alarm.condenser_temp_sensor_fault'',
      ''alarm.indoor_temp_sensor_fault'',
      ''alarm.exhaust_temp_sensor_fault'',
      ''alarm.humidity_sensor_fault'',
      ''alarm.internal_fan_fault'',
      ''alarm.external_fan_fault'',
      ''alarm.compressor_fault'',
      ''alarm.heater_fault'',
      ''alarm.emergency_fan_fault'',
      ''alarm.high_pressure_alarm'',
      ''alarm.low_pressure_alarm'',
      ''alarm.water_alarm'',
      ''alarm.smoke_alarm'',
      ''alarm.gating_alarm'',
      ''alarm.high_pressure_lock'',
      ''alarm.low_pressure_lock'',
      ''alarm.exhaust_lock'',
      ''alarm.ac_over_voltage_alarm'',
      ''alarm.ac_under_voltage_alarm'',
      ''alarm.ac_power_loss'',
      ''alarm.lose_phase_alarm'',
      ''alarm.freq_fault'',
      ''alarm.anti_phase_alarm'',
      ''alarm.dc_over_voltage_alarm'',
      ''alarm.dc_under_voltage_alarm'']"

definition alarmKeyByOffset :: "nat \<Rightarrow> string" where
  "alarmKeyByOffset off = (if off < length alarm_keys then alarm_keys ! off else ''alarm.unknown'')"

definition dbls16 :: "u16 \<Rightarrow> dbl" where "dbls16 v = dbl_of_int (sint v)"
definition divSafe :: "u16 \<Rightarrow> dbl \<Rightarrow> dbl" where "divSafe v k = dbl_div (dbls16 v) k"

definition set_alarm :: "u16 list \<Rightarrow> device_data \<Rightarrow> nat \<Rightarrow> device_data" where
  "set_alarm regs d i = d\<lparr>status := (status d)(alarmKeyByOffset i \<mapsto> flag32 (regs ! i \<noteq> 0))\<rparr>"

definition fillSegmentData :: "poll_stage \<Rightarrow> u16 list \<Rightarrow> device_data \<Rightarrow> device_data" where
  "fillSegmentData s regs out0 =
     (let out = out0\<lparr>device_name := ''AirConditioner''\<rparr> in
      case s of
        S0_Version \<Rightarrow> (if 1 \<le> length regs then out\<lparr>num := (num out)(''version'' \<mapsto> dbl16 (regs ! 0))\<rparr> else out)
      | S1_RunState \<Rightarrow>
          (if 6 \<le> length regs then out\<lparr>num := (num out)(''run.overall'' \<mapsto> dbl16 (regs ! 0),
             ''run.inner_fan'' \<mapsto> dbl16 (regs ! 1), ''run.outer_fan'' \<mapsto> dbl16 (regs ! 2),
             ''run.compressor'' \<mapsto> dbl16 (regs ! 3), ''run.heater'' \<mapsto> dbl16 (regs ! 4),
             ''run.em_fan'' \<mapsto> dbl16 (regs ! 5))\<rparr> else out)
      | S2_Sensors \<Rightarrow>
          (if 9 \<le> length regs then out\<lparr>num := (num out)(''temp.coil_c'' \<mapsto> divSafe (regs ! 0) (Fin 10),
             ''temp.outdoor_c'' \<mapsto> divSafe (regs ! 1) (Fin 10), ''temp.condense_c'' \<mapsto> divSafe (regs ! 2) (Fin 10),
             ''temp.indoor_c'' \<mapsto> divSafe (regs ! 3) (Fin 10), ''humidity_percent'' \<mapsto> dbls16 (regs ! 4),
             ''temp.exhaust_c'' \<mapsto> divSafe (regs ! 5) (Fin 10), ''current_a'' \<mapsto> divSafe (regs ! 6) (Fin 1000),
             ''ac_voltage_v'' \<mapsto> dbls16 (regs ! 7), ''dc_voltage_v'' \<mapsto> divSafe (regs ! 8) (Fin 10))\<rparr> else out)
      | S3_Alarms \<Rightarrow>
          (let n = (if length regs \<le> 0x21 then length regs else 0x21);
               out = foldl (set_alarm regs) out [0..<n]
           in out\<lparr>status := (status out)(''alarm.any'' \<mapsto> flag32 (\<exists>v \<in> set (take n regs). v \<noteq> 0))\<rparr>)
      | S4_Params \<Rightarrow>
          (if 11 \<le> length regs then out\<lparr>num := (num out)(''param.cool_point_c'' \<mapsto> dbls16 (regs ! 0),
             ''param.cool_hys_c'' \<mapsto> dbls16 (regs ! 1), ''param.heat_point_c'' \<mapsto> dbls16 (regs ! 2),
             ''param.heat_hys_c'' \<mapsto> dbls16 (regs ! 3), ''param.high_temp_c'' \<mapsto> dbls16 (regs ! 6),
             ''param.low_temp_c'' \<mapsto> dbls16 (regs ! 7), ''param.high_hum_pct'' \<mapsto> dbls16 (regs ! 8),
             ''param.inner_fan_stop_c'' \<mapsto> dbls16 (regs ! 10))\<rparr> else out))"

definition parseWriteEcho :: "bytes \<Rightarrow> u8 \<Rightarrow> u8 \<Rightarrow> bool" where
  "parseWriteEcho rx expect_slave expect_func \<longleftrightarrow>
     length rx = 8 \<and> rx ! 0 = expect_slave \<and> rx ! 1 = expect_func \<and> verifyCRC_LoHi rx"

text \<open>The parser infers the stage of a response from the number of its registers; a segment that leaves no
  field behind besides the two bookkeeping values is refused.\<close>

definition aircon_parse :: "u8 \<Rightarrow> bytes \<Rightarrow> device_data \<Rightarrow> bool \<times> device_data" where
  "aircon_parse addr rx out =
     (if length rx < 5 then (False, out)
      else if rx ! 0 \<noteq> addr then (False, out)
      else let func = rx ! 1 in
        if func AND 0x80 \<noteq> 0 then (verifyCRC_LoHi rx, out)
        else if func = 0x03 then
          (case parseHoldingRegs03_LoHi rx addr of None \<Rightarrow> (False, out)
           | Some regs \<Rightarrow>
               (case inferStageByRegCount (length regs) of None \<Rightarrow> (False, out)
                | Some stage \<Rightarrow>
                    let d = fillSegmentData stage regs (dd_init\<lparr>device_name := ''AirConditioner'',
                              vals := [''__air_stage'' \<mapsto> stage_code stage, ''__air_regs_count'' \<mapsto> int (length regs)]\<rparr>)
                    in if num d = Map.empty \<and> status d = Map.empty \<and> card (dom (vals d)) \<le> 2
                       then (False, out) else (True, d)))
        else if func = 0x06 then (parseWriteEcho rx addr 0x06, out)
        else if func = 0x10 then (parseWriteEcho rx addr 0x10, out)
        else (False, out))"


section \<open>Closed frames\<close>

definition be_bytes :: "u16 list \<Rightarrow> bytes" where
  "be_bytes vs = concat (map (\<lambda>v. [hi8 v, lo8 v]) vs)"

definition response03 :: "(bytes \<Rightarrow> bytes) \<Rightarrow> u8 \<Rightarrow> u16 list \<Rightarrow> bytes" where
  "response03 close slave regs = close ([slave, 0x03, of_nat (2 * length regs)] @ be_bytes regs)"

lemma unat_of_nat_8: "n < 256 \<Longrightarrow> unat (of_nat n :: u8) = n"
  by (simp add: unat_of_nat take_bit_nat_eq_self)

lemma take_3: "3 \<le> length xs \<Longrightarrow> take 3 xs = [xs ! 0, xs ! 1, xs ! 2]"
  by (cases xs; cases "tl xs"; cases "tl (tl xs)") auto

lemma length_be_bytes [simp]: "length (be_bytes vs) = 2 * length vs"
  by (induction vs) (simp_all add: be_bytes_def)

lemma length_regs_at [simp]: "length (regs_at rx idx n) = n"
  by (induction n arbitrary: idx) simp_all

lemma regs_at_be_bytes: "regs_at (pre @ be_bytes vs @ suf) (length pre) (length vs) = vs"
proof (induction vs arbitrary: pre)
  case (Cons v vs)
  from Cons.IH [of "pre @ [hi8 v, lo8 v]"] show ?case
    by (simp add: be_bytes_def nth_append)
qed simp

lemma be_bytes_regs_at:
  "idx + 2 * n \<le> length rx \<Longrightarrow> be_bytes (regs_at rx idx n) = take (2 * n) (drop idx rx)"
proof (induction n arbitrary: idx)
  case (Suc n)
  then have "drop idx rx = rx ! idx # rx ! (idx + 1) # drop (idx + 2) rx"
    by (simp add: Cons_nth_drop_Suc)
  with Suc show ?case by (simp add: be_bytes_def)
qed (simp add: be_bytes_def)

text \<open>What the parsers rely on: a closed frame passes the check, and every frame that passes it is the closed
  form of its body.\<close>

locale crc_order =
  fixes check :: "bytes \<Rightarrow> bool" and close :: "bytes \<Rightarrow> bytes"
  assumes check_close: "2 \<le> length body \<Longrightarrow> length body < 65536 \<Longrightarrow> check (close body)"
    and check_imp_close:
      "check frame \<Longrightarrow> length frame < 65538 \<Longrightarrow> frame = close (take (length frame - 2) frame)"
    and close_extends: "\<exists>a b. close body = body @ [a, b]"
begin

lemma parse_accepts:
  assumes "length regs \<le> 127"
  shows "parse_regs03 check (response03 close slave regs) slave = Some regs"
proof -
  define body where "body = [slave, 0x03, of_nat (2 * length regs)] @ be_bytes regs"
  obtain a b where tail: "close body = body @ [a, b]" using close_extends by blast
  have cnt: "unat (of_nat (2 * length regs) :: u8) = 2 * length regs"
    using assms by (intro unat_of_nat_8) simp
  have "check (close body)" using assms by (intro check_close) (simp_all add: body_def)
  moreover have "regs_at (close body) 3 (length regs) = regs"
    using regs_at_be_bytes [of "[slave, 0x03, of_nat (2 * length regs)]" regs "[a, b]"]
    unfolding tail by (simp add: body_def numeral_3_eq_3)
  moreover have "length (close body) = 3 + 2 * length regs + 2" "close body ! 0 = slave"
    "close body ! 1 = 3" "close body ! 2 = of_nat (2 * length regs)"
    unfolding tail by (simp_all add: body_def)
  moreover have "response03 close slave regs = close body" by (simp add: response03_def body_def)
  ultimately show ?thesis
    using cnt by (simp add: parse_regs03_def Let_def del: of_nat_mult)
qed

lemma parse_only_accepts:
  assumes "parse_regs03 check rx slave = Some regs"
  shows "length regs \<le> 127 \<and> rx = response03 close slave regs"
proof -
  define n where "n = unat (rx ! 2) div 2"
  have facts: "5 \<le> length rx" "rx ! 0 = slave" "rx ! 1 = 3" "check rx" "even (unat (rx ! 2))"
    "length rx = 3 + unat (rx ! 2) + 2" "regs = regs_at rx 3 n"
    using assms by (auto simp: parse_regs03_def Let_def n_def split: if_splits)
  have small: "unat (rx ! 2) < 256" using unsigned_less [of "rx ! 2"] by simp
  have cnt: "unat (rx ! 2) = 2 * n" using facts(5) by (simp add: n_def)
  have len: "length rx = 5 + 2 * n" using facts(6) cnt by simp
  have head: "rx ! 2 = of_nat (2 * n)" using cnt by (metis word_unat_eq_iff unat_of_nat_8 small)
  have "take 3 rx = [rx ! 0, rx ! 1, rx ! 2]"
    using len by (simp add: take_3)
  moreover have "take (2 * n) (drop 3 rx) = be_bytes regs"
    using be_bytes_regs_at [of 3 n rx] len facts(7) by simp
  ultimately have "take (3 + 2 * n) rx = [slave, 3, of_nat (2 * n)] @ be_bytes regs"
    using facts(2,3) head by (simp add: take_add)
  moreover have "rx = close (take (length rx - 2) rx)"
    using facts(4) len small cnt by (intro check_imp_close) simp_all
  moreover have "length rx - 2 = 3 + 2 * n" using len by simp
  moreover have "length regs = n" "n \<le> 127" using facts(7) small cnt by simp_all
  ultimately show ?thesis by (simp add: response03_def)
qed

lemma parse_iff:
  "parse_regs03 check rx slave = Some regs \<longleftrightarrow> length regs \<le> 127 \<and> rx = response03 close slave regs"
  using parse_accepts parse_only_accepts by blast

end

lemma verifyCRC_LoHi_eq: "verifyCRC_LoHi = verify"
  by (simp add: fun_eq_iff verifyCRC_LoHi_def verify_def Let_def)

lemma verifyCRC_HiLo_snoc2:
  assumes "2 \<le> length body" "length body < 65536"
  shows "verifyCRC_HiLo (body @ [h, l]) \<longleftrightarrow> mk16 h l = foldl crc_byte 0xFFFF body"
  using assms calc_body [of body "[h, l]"] by (simp add: verifyCRC_HiLo_def Let_def)

lemma verifyCRC_HiLo_close:
  assumes "verifyCRC_HiLo frame" "length frame < 65538"
  shows "frame = close_hi_lo (take (length frame - 2) frame)"
proof -
  have len: "4 \<le> length frame" using assms(1) by (auto simp: verifyCRC_HiLo_def split: if_splits)
  then obtain body h l where frame: "frame = body @ [h, l]"
    using length_ge_2_snoc2 [of frame] by auto
  have bl: "2 \<le> length body" "length body < 65536" using len assms(2) frame by simp_all
  have "calc_vec body = mk16 h l"
    using assms(1) verifyCRC_HiLo_snoc2 [OF bl, of h l] calc_vec_eq [OF bl] by (auto simp: frame)
  then show ?thesis by (simp add: frame close_hi_lo_def)
qed

interpretation lohi: crc_order verifyCRC_LoHi close_lo_hi
proof
  fix frame :: bytes assume "verifyCRC_LoHi frame" "length frame < 65538"
  then show "frame = close_lo_hi (take (length frame - 2) frame)"
    by (simp add: verifyCRC_LoHi_eq verify_imp_close)
qed (simp_all add: verifyCRC_LoHi_eq verify_close_lo_hi, simp add: close_lo_hi_def)

interpretation hilo: crc_order verifyCRC_HiLo close_hi_lo
proof
  fix body :: bytes assume bl: "2 \<le> length body" "length body < 65536"
  show "verifyCRC_HiLo (close_hi_lo body)"
    unfolding close_hi_lo_def by (subst verifyCRC_HiLo_snoc2 [OF bl]) (simp add: calc_vec_eq [OF bl])
qed (erule verifyCRC_HiLo_close, assumption, simp add: close_hi_lo_def)


section \<open>Properties\<close>

text \<open>C36: A smoke sensor frame is accepted exactly when it is the closed response of the sensor's address with five to 127 registers, and
  then the data are those of the registers; every other byte sequence leaves the data as they were. The gas
  detector has the same contract and also refuses the reserved gas types.\<close>

theorem sensor_frames_accepted_exactly:
  "(smoke_parse addr rx out = (True, d) \<longleftrightarrow>
      (\<exists>regs. rx = response03 close_hi_lo addr regs \<and> 5 \<le> length regs \<and> length regs \<le> 127 \<and>
              d = smoke_data regs out)) \<and>
   (gas_parse addr rx out = (True, d) \<longleftrightarrow>
      (\<exists>regs. rx = response03 close_hi_lo addr regs \<and> 5 \<le> length regs \<and> length regs \<le> 127 \<and>
              regs ! 4 \<le> 5 \<and> d = gas_data regs)) \<and>
   (fst (smoke_parse addr rx out) \<or> smoke_parse addr rx out = (False, out)) \<and>
   (fst (gas_parse addr rx out) \<or> gas_parse addr rx out = (False, out))"
proof -
  have "smoke_parse addr rx out = (True, d) \<longleftrightarrow>
      (\<exists>regs. smoke_parseHoldingRegs03 rx addr = Some regs \<and> 5 \<le> length regs \<and> d = smoke_data regs out)"
    by (auto simp: smoke_parse_def split: option.splits)
  moreover have "gas_parse addr rx out = (True, d) \<longleftrightarrow>
      (\<exists>regs. gas_parseHoldingRegs03 rx addr = Some regs \<and> 5 \<le> length regs \<and> regs ! 4 \<le> 5 \<and> d = gas_data regs)"
    by (auto simp: gas_parse_def not_less split: option.splits)
  ultimately show ?thesis
    unfolding smoke_parseHoldingRegs03_def gas_parseHoldingRegs03_def hilo.parse_iff
    by (auto simp: smoke_parse_def gas_parse_def split: option.splits)
qed

lemma polled_stage:
  "next_stage ((advanceStage ^^ Suc k) a) = kSeq ! ((unat (poll_seq_index a) + k) mod 14) \<and>
   unat (poll_seq_index ((advanceStage ^^ Suc k) a)) = (unat (poll_seq_index a) + Suc k) mod 14"
proof (induction k)
  case 0
  have "(unat (poll_seq_index a) + 1) mod 14 < 256" by (rule less_trans [of _ 14]) simp_all
  then show ?case by (simp add: advanceStage_def unat_of_nat_8 del: of_nat_Suc)
next
  case (Suc k)
  define b where "b = (advanceStage ^^ Suc k) a"
  have "(unat (poll_seq_index b) + 1) mod 14 < 256" by (rule less_trans [of _ 14]) simp_all
  moreover have "(advanceStage ^^ Suc (Suc k)) a = advanceStage b" by (simp add: b_def)
  ultimately show ?case using Suc [folded b_def]
    by (simp only:) (simp add: advanceStage_def unat_of_nat_8 mod_Suc_eq del: of_nat_Suc funpow.simps)
qed

lemma stage_in_kSeq: "\<exists>j < 14. kSeq ! j = s"
proof (cases s)
  case S0_Version then show ?thesis by (intro exI [of _ 13]) (simp add: kSeq_def)
next
  case S1_RunState then show ?thesis by (intro exI [of _ 0]) (simp add: kSeq_def)
next
  case S2_Sensors then show ?thesis by (intro exI [of _ 1]) (simp add: kSeq_def)
next
  case S3_Alarms then show ?thesis by (intro exI [of _ 2]) (simp add: kSeq_def)
next
  case S4_Params then show ?thesis by (intro exI [of _ 6]) (simp add: kSeq_def)
qed

lemma stage_polled_soon: "\<exists>k \<le> 14. next_stage ((advanceStage ^^ k) a) = s"
proof -
  obtain j where j: "j < 14" "kSeq ! j = s" using stage_in_kSeq by blast
  define i where "i = unat (poll_seq_index a) mod 14"
  define k where "k = (14 + j - i) mod 14"
  have "i < 14" by (simp add: i_def)
  then have "(i + k) mod 14 = j" using j(1) by (auto simp: k_def mod_simps)
  then have "(unat (poll_seq_index a) + k) mod 14 = j" by (simp add: i_def mod_simps)
  moreover have "Suc k \<le> 14" by (simp add: k_def Suc_le_eq)
  ultimately show ?thesis using polled_stage [of k a] j(2) by blast
qed

lemma polls_advance: "((\<lambda>a. snd (aircon_buildReadCmd a)) ^^ k) a = (advanceStage ^^ k) a"
  by (induction k) (simp_all add: aircon_buildReadCmd_def split: prod.splits)

lemma fst_buildReadCmd:
  "fst (aircon_buildReadCmd a) =
     buildReadHolding (ac_addr a) (fst (segmentOf (next_stage a))) (snd (segmentOf (next_stage a)))"
  by (simp add: aircon_buildReadCmd_def split: prod.splits)

lemma ac_addr_advance [simp]: "ac_addr ((advanceStage ^^ k) a) = ac_addr a"
  by (induction k) (simp_all add: advanceStage_def)

lemma inferStage_segment: "inferStageByRegCount (unat (snd (segmentOf s))) = Some s"
  by (cases s) (simp_all add: inferStageByRegCount_def)

lemma foldl_set_alarm_vals [simp]: "vals (foldl (set_alarm regs) d js) = vals d"
  by (induction js arbitrary: d) (simp_all add: set_alarm_def)

lemma foldl_set_alarm_name [simp]: "device_name (foldl (set_alarm regs) d js) = device_name d"
  by (induction js arbitrary: d) (simp_all add: set_alarm_def)

lemma fillSegmentData_vals [simp]: "vals (fillSegmentData s regs d) = vals d"
  by (simp add: fillSegmentData_def Let_def split: poll_stage.split)

lemma fillSegmentData_name [simp]: "device_name (fillSegmentData s regs d) = ''AirConditioner''"
  by (simp add: fillSegmentData_def Let_def split: poll_stage.split)

lemma fillSegmentData_nonempty:
  "length regs = unat (snd (segmentOf s)) \<Longrightarrow>
   num (fillSegmentData s regs d) \<noteq> Map.empty \<or> status (fillSegmentData s regs d) \<noteq> Map.empty"
  by (cases s) (simp_all add: fillSegmentData_def Let_def)

lemma aircon_parse_response:
  assumes "length regs = unat (snd (segmentOf s))"
  shows "\<exists>d. aircon_parse addr (response03 close_lo_hi addr regs) out = (True, d) \<and>
             d = fillSegmentData s regs (dd_init\<lparr>device_name := ''AirConditioner'',
                   vals := [''__air_stage'' \<mapsto> stage_code s, ''__air_regs_count'' \<mapsto> int (length regs)]\<rparr>)"
proof -
  define rx where "rx = response03 close_lo_hi addr regs"
  have short: "length regs \<le> 127" using assms by (cases s) simp_all
  have parsed: "parseHoldingRegs03_LoHi rx addr = Some regs"
    unfolding parseHoldingRegs03_LoHi_def lohi.parse_iff using short by (simp add: rx_def)
  then have "5 \<le> length rx" "rx ! 0 = addr" "rx ! 1 = 3"
    by (auto simp: parseHoldingRegs03_LoHi_def parse_regs03_def split: if_splits)
  with parsed show ?thesis
    using fillSegmentData_nonempty [OF assms] inferStage_segment [of s] assms
    by (auto simp: aircon_parse_def Let_def rx_def [symmetric])
qed

text \<open>C37: Whatever the state of the poller, each of the five segments of the air conditioner is requested
  within fifteen polls, and the response to that request is recognised as the segment it answers.\<close>

theorem aircon_polls_every_segment:
  assumes "length regs = unat (snd (segmentOf s))"
  shows "(\<exists>k \<le> 14. fst (aircon_buildReadCmd (((\<lambda>a. snd (aircon_buildReadCmd a)) ^^ k) a)) =
            buildReadHolding (ac_addr a) (fst (segmentOf s)) (snd (segmentOf s))) \<and>
         (\<exists>d. aircon_parse (ac_addr a) (response03 close_lo_hi (ac_addr a) regs) out = (True, d) \<and>
              vals d ''__air_stage'' = Some (stage_code s) \<and> device_name d = ''AirConditioner'')"
proof
  obtain k where "k \<le> 14" "next_stage ((advanceStage ^^ k) a) = s" using stage_polled_soon by blast
  then show "\<exists>k \<le> 14. fst (aircon_buildReadCmd (((\<lambda>a. snd (aircon_buildReadCmd a)) ^^ k) a)) =
            buildReadHolding (ac_addr a) (fst (segmentOf s)) (snd (segmentOf s))"
    by (intro exI [of _ k]) (simp add: polls_advance fst_buildReadCmd)
  show "\<exists>d. aircon_parse (ac_addr a) (response03 close_lo_hi (ac_addr a) regs) out = (True, d) \<and>
              vals d ''__air_stage'' = Some (stage_code s) \<and> device_name d = ''AirConditioner''"
    using aircon_parse_response [OF assms, of "ac_addr a" out] by auto
qed

theorem aircon_polls_every_segment_witness:
  "(\<exists>k \<le> 14. fst (aircon_buildReadCmd (((\<lambda>a. snd (aircon_buildReadCmd a)) ^^ k) (aircon_init 1))) =
            buildReadHolding 1 0x0700 0x0B) \<and>
   (\<exists>d. aircon_parse 1 (response03 close_lo_hi 1 (replicate 11 25)) dd_init = (True, d) \<and>
              vals d ''__air_stage'' = Some 4 \<and> device_name d = ''AirConditioner'')"
  using aircon_polls_every_segment [of "replicate 11 25" S4_Params "aircon_init 1" dd_init]
  by (simp add: aircon_init_def)

end
