(* ===== verification/Ups_Proto.thy ===== *)
theory Ups_Proto
  imports Fault_Catalog
begin

text \<open>
  The line protocol of the uninterruptible power supply (\<open>services/protocol/rs232/ups_232_ascii_proto.cpp\<close>):
  the rotation of the three queries, the shutdown command, and the parse of the answers into device data.
  The conversions of the C library the parser calls (\<open>strtod\<close>, \<open>strtol\<close>) are modelled with their whole
  grammar on the 64-bit target.
\<close>

section \<open>Conversions of the C library\<close>

definition is_digit :: "char \<Rightarrow> bool" where "is_digit c \<longleftrightarrow> digit_val c < 10"
definition is_xdigit :: "char \<Rightarrow> bool" where "is_xdigit c \<longleftrightarrow> digit_val c < 16"

definition c_str :: "string \<Rightarrow> string" where "c_str s = takeWhile (\<lambda>c. c \<noteq> CHR 0x00) s"

definition num_of :: "nat \<Rightarrow> string \<Rightarrow> nat" where
  "num_of base ds = foldl (\<lambda>n c. n * base + digit_val c) 0 ds"

text \<open>An optional sign: the flag of a minus and the text after it.\<close>

definition take_sign :: "string \<Rightarrow> bool \<times> string" where
  "take_sign s = (case s of c # r \<Rightarrow> if c = CHR ''-'' then (True, r) else if c = CHR ''+'' then (False, r) else (False, s)
     | [] \<Rightarrow> (False, []))"

text \<open>The optional exponent part after a marker letter; without digits it is not consumed.\<close>

definition take_exponent :: "char \<Rightarrow> string \<Rightarrow> int \<times> string" where
  "take_exponent mark s =
     (case s of [] \<Rightarrow> (0, s)
      | c # r \<Rightarrow>
          if to_lower c \<noteq> mark then (0, s)
          else (case take_sign r of (neg, u) \<Rightarrow>
            let ds = takeWhile is_digit u in
            if ds = [] then (0, s)
            else ((if neg then - int (num_of 10 ds) else int (num_of 10 ds)), dropWhile is_digit u)))"

text \<open>Digits with an optional point: the digits before and after it, and the rest.\<close>

definition take_mantissa :: "(char \<Rightarrow> bool) \<Rightarrow> string \<Rightarrow> string \<times> string \<times> string" where
  "take_mantissa dig s =
     (let ip = takeWhile dig s; r = dropWhile dig s in
      case r of c # r' \<Rightarrow>
          if c = CHR ''.'' \<and> (ip \<noteq> [] \<or> takeWhile dig r' \<noteq> [])
          then (ip, takeWhile dig r', dropWhile dig r') else (ip, [], r)
      | [] \<Rightarrow> (ip, [], []))"

definition signed_dbl :: "bool \<Rightarrow> rat \<Rightarrow> dbl" where
  "signed_dbl neg r = dbl_round (if neg then - r else r)"

definition strtod_dec :: "bool \<Rightarrow> string \<Rightarrow> (dbl \<times> string) option" where
  "strtod_dec neg s =
     (case take_mantissa is_digit s of (ip, fp, r) \<Rightarrow>
        if ip = [] \<and> fp = [] then None
        else (case take_exponent (CHR ''e'') r of (e, r') \<Rightarrow>
          Some (signed_dbl neg (of_nat (num_of 10 (ip @ fp)) * 10 powi (e - int (length fp))), r')))"

definition strtod_hex :: "bool \<Rightarrow> string \<Rightarrow> (dbl \<times> string) option" where
  "strtod_hex neg s =
     (case take_mantissa is_xdigit s of (ip, fp, r) \<Rightarrow>
        if ip = [] \<and> fp = [] then None
        else (case take_exponent (CHR ''p'') r of (e, r') \<Rightarrow>
          Some (signed_dbl neg (of_nat (num_of 16 (ip @ fp)) * 2 powi (e - 4 * int (length fp))), r')))"

definition nan_tail :: "string \<Rightarrow> string" where
  "nan_tail r =
     (case r of c # u \<Rightarrow>
        if c = CHR ''('' then
          (case dropWhile (\<lambda>c. digit_val c < 36 \<or> c = CHR ''_'') u of
             d # v \<Rightarrow> if d = CHR '')'' then v else r | [] \<Rightarrow> r)
        else r
      | [] \<Rightarrow> r)"

text \<open>\<open>std::strtod\<close>: the value and the text after it, or None when nothing is converted.\<close>

definition strtod :: "string \<Rightarrow> (dbl \<times> string) option" where
  "strtod s =
     (case take_sign (dropWhile is_space s) of (neg, u) \<Rightarrow>
        let low = map to_lower u in
        if take 8 low = ''infinity'' then Some (Inf neg, drop 8 u)
        else if take 3 low = ''inf'' then Some (Inf neg, drop 3 u)
        else if take 3 low = ''nan'' then Some (NaN, nan_tail (drop 3 u))
        else if take 2 low = ''0x'' then
          (case strtod_hex neg (drop 2 u) of Some r \<Rightarrow> Some r | None \<Rightarrow> Some (Fin 0, drop 1 u))
        else strtod_dec neg u)"

text \<open>\<open>std::strtol\<close> in base 10 on a text of an optional sign and digits saturates at the bounds of \<open>long\<close>.\<close>

definition strtol_digits :: "string \<Rightarrow> int" where
  "strtol_digits s =
     (case take_sign s of (neg, ds) \<Rightarrow>
        let n = int (num_of 10 ds) in
        if neg then max (- (2 ^ 63)) (- n) else min (2 ^ 63 - 1) n)"

section \<open>Tokens\<close>

definition isDashDouble :: "string \<Rightarrow> bool" where
  "isDashDouble tok \<longleftrightarrow> tok \<noteq> [] \<and> CHR ''-'' \<in> set tok \<and>
     list_all (\<lambda>c. c = CHR ''-'' \<or> c = CHR ''.'' \<or> c = CHR ''_'') tok"

definition isDashInt :: "string \<Rightarrow> bool" where
  "isDashInt tok \<longleftrightarrow> tok \<noteq> [] \<and> CHR ''-'' \<in> set tok \<and> list_all (\<lambda>c. c = CHR ''-'') tok"

definition isBits01_8 :: "string \<Rightarrow> bool" where
  "isBits01_8 tok \<longleftrightarrow> length tok = 8 \<and> list_all (\<lambda>c. c = CHR ''0'' \<or> c = CHR ''1'') tok"

definition parseHexU32Token :: "string \<Rightarrow> u32 option" where
  "parseHexU32Token tok =
     (if tok = [] then None
      else if \<not> list_all is_xdigit tok then None
      else case stoul 16 tok of None \<Rightarrow> None
        | Some v \<Rightarrow> if 0xFFFFFFFF < v then None else Some (of_nat v))"

definition isValidShutdownDelay :: "string \<Rightarrow> bool" where
  "isValidShutdownDelay n =
     (if n = ''.2'' \<or> n = ''.3'' then True
      else if length n \<noteq> 2 then False
      else if \<not> is_digit (n ! 0) \<or> \<not> is_digit (n ! 1) then False
      else let v = digit_val (n ! 0) * 10 + digit_val (n ! 1) in 1 \<le> v \<and> v \<le> 10)"

definition parseDoubleToken :: "string \<Rightarrow> dbl option" where
  "parseDoubleToken tok =
     (if tok = [] then None
      else if isDashDouble tok then None
      else case strtod (c_str tok) of None \<Rightarrow> None
        | Some (v, r) \<Rightarrow> if r = [] then Some v else None)"

definition parseIntToken :: "string \<Rightarrow> int option" where
  "parseIntToken tok =
     (if tok = [] then None
      else if isDashInt tok then None
      else let ds = (if hd tok = CHR ''+'' \<or> hd tok = CHR ''-'' then tl tok else tok) in
        if ds = [] then None
        else if \<not> list_all is_digit ds then None
        else Some (signed_take_bit 31 (strtol_digits tok)))"

definition bytes_of :: "string \<Rightarrow> bytes" where "bytes_of s = map (\<lambda>c. of_nat (of_char c)) s"
definition string_of :: "bytes \<Rightarrow> string" where "string_of rx = map (\<lambda>b. char_of (unat b)) rx"

section \<open>Queries\<close>

datatype poll_kind = Q1 | Q6 | WA

fun kind_code :: "poll_kind \<Rightarrow> int" where
  "kind_code Q1 = 1" | "kind_code Q6 = 2" | "kind_code WA = 3"

fun ups_buildReadCmd :: "poll_kind \<Rightarrow> bytes \<times> poll_kind" where
  "ups_buildReadCmd Q1 = (bytes_of ''Q1'' @ [0x0D], Q6)"
| "ups_buildReadCmd Q6 = (bytes_of ''Q6'' @ [0x0D], WA)"
| "ups_buildReadCmd WA = (bytes_of ''WA'' @ [0x0D], Q1)"

definition buildShutdownCmd :: "string \<Rightarrow> bytes" where
  "buildShutdownCmd n = (if \<not> isValidShutdownDelay n then [] else bytes_of (''S'' @ n) @ [0x0D])"

section \<open>Answers\<close>

definition stripWrapper :: "string \<Rightarrow> string" where
  "stripWrapper s =
     (let t = dropWhile is_space s;
          t = (if t \<noteq> [] \<and> hd t = CHR ''('' then tl t else t);
          t = rev (dropWhile is_space (rev t));
          t = (if t \<noteq> [] \<and> last t = CHR '')'' then butlast t else t)
      in rev (dropWhile is_space (rev t)))"

function splitTokens :: "string \<Rightarrow> string list" where
  "splitTokens s =
     (let t = dropWhile is_space s in
      if t = [] then []
      else takeWhile (\<lambda>c. \<not> is_space c) t # splitTokens (dropWhile (\<lambda>c. \<not> is_space c) t))"
  by auto
termination
proof (relation "measure length", goal_cases)
  case (2 s t)
  then have "t \<noteq> []" by simp
  then obtain c r where t: "t = c # r" using list.exhaust by blast
  then have "\<not> is_space c" using 2 hd_dropWhile [of is_space s] by simp
  then have "length (dropWhile (\<lambda>c. \<not> is_space c) t) \<le> length r" using t by (simp add: length_dropWhile_le)
  also have "\<dots> < length t" using t by simp
  also have "length t \<le> length s" using 2 by (simp add: length_dropWhile_le)
  finally show ?case by simp
qed simp

declare splitTokens.simps [simp del]

definition markCmd :: "poll_kind \<Rightarrow> device_data \<Rightarrow> device_data" where
  "markCmd k out = out\<lparr>vals := (vals out)(''__ups_cmd'' \<mapsto> kind_code k)\<rparr>"

definition bit01 :: "char \<Rightarrow> u32" where "bit01 c = (if c = CHR ''1'' then 1 else 0)"

definition fillBits8 :: "string \<Rightarrow> string \<Rightarrow> device_data \<Rightarrow> device_data option" where
  "fillBits8 bits prefix out =
     (if \<not> isBits01_8 bits then None
      else let raw_val = foldl (\<lambda>v c. push_bit 1 v OR bit01 c) 0 bits in
        Some (out\<lparr>status := (status out)(prefix @ ''status.bits'' \<mapsto> raw_val,
          prefix @ ''mains_abnormal'' \<mapsto> bit01 (bits ! 0), prefix @ ''battery_low'' \<mapsto> bit01 (bits ! 1),
          prefix @ ''bypass'' \<mapsto> bit01 (bits ! 2), prefix @ ''fault'' \<mapsto> bit01 (bits ! 3),
          prefix @ ''backup_mode'' \<mapsto> bit01 (bits ! 4), prefix @ ''testing'' \<mapsto> bit01 (bits ! 5))\<rparr>))"

text \<open>The conversions of a group of tokens; the parser leaves at the first that fails.\<close>

fun double_tokens :: "string list \<Rightarrow> nat list \<Rightarrow> dbl list option" where
  "double_tokens t [] = Some []"
| "double_tokens t (i # is) =
     (case parseDoubleToken (t ! i) of None \<Rightarrow> None
      | Some v \<Rightarrow> map_option (\<lambda>vs. v # vs) (double_tokens t is))"

definition put_nums :: "string list \<Rightarrow> dbl list \<Rightarrow> device_data \<Rightarrow> device_data" where
  "put_nums keys vs out = out\<lparr>num := foldl (\<lambda>m (k, v). m(k \<mapsto> v)) (num out) (zip keys vs)\<rparr>"

definition parseQ1 :: "string list \<Rightarrow> device_data \<Rightarrow> bool \<times> device_data" where
  "parseQ1 t out =
     (if length t \<noteq> 8 then (False, out)
      else case (double_tokens t [0, 1, 2], parseIntToken (t ! 3), double_tokens t [4, 5, 6]) of
        (Some [vin, vin_last, vout], Some load, Some [fin, cell, temp]) \<Rightarrow>
          (case fillBits8 (t ! 7) ''q1.'' out of None \<Rightarrow> (False, out)
           | Some out \<Rightarrow>
               (True, put_nums [''input.v'', ''input.last.v'', ''output.v'', ''load.pct'', ''input.freq.hz'',
                  ''battery.cell.v'', ''battery.12v.v'', ''temp.c'']
                  [vin, vin_last, vout, dbl_of_int load, fin, cell, dbl_mul cell (Fin 6), temp] out))
      | _ \<Rightarrow> (False, out))"

definition wa_keys :: "string list" where
  "wa_keys = [''power.kw.r'', ''power.kw.s'', ''power.kw.t'', ''apparent.kva.r'', ''apparent.kva.s'',
     ''apparent.kva.t'', ''power.total.kw'', ''apparent.total.kva'', ''output.i.r'', ''output.i.s'', ''output.i.t'',
     ''load.pct'']"

definition parseWA :: "string list \<Rightarrow> device_data \<Rightarrow> bool \<times> device_data" where
  "parseWA t out =
     (if length t \<noteq> 13 then (False, out)
      else case (double_tokens t [0..<11], parseIntToken (t ! 11)) of
        (Some vs, Some load) \<Rightarrow>
          (case fillBits8 (t ! 12) ''wa.'' out of None \<Rightarrow> (False, out)
           | Some out \<Rightarrow> (True, put_nums wa_keys (vs @ [dbl_of_int load]) out))
      | _ \<Rightarrow> (False, out))"

definition set_valid :: "string \<Rightarrow> u32 \<Rightarrow> device_data \<Rightarrow> device_data" where
  "set_valid key v out = out\<lparr>status := (status out)(key @ ''.valid'' \<mapsto> v)\<rparr>"

definition q6_D :: "string list \<Rightarrow> nat \<Rightarrow> string \<Rightarrow> device_data \<Rightarrow> bool \<times> device_data" where
  "q6_D t i k out =
     (if length t \<le> i then (False, out)
      else if isDashDouble (t ! i) then (True, set_valid k 0 out)
      else case parseDoubleToken (t ! i) of None \<Rightarrow> (False, set_valid k 0 out)
        | Some v \<Rightarrow> (True, (set_valid k 1 out)\<lparr>num := (num out)(k \<mapsto> v)\<rparr>))"

definition q6_I :: "string list \<Rightarrow> nat \<Rightarrow> string \<Rightarrow> device_data \<Rightarrow> bool \<times> device_data" where
  "q6_I t i k out =
     (if length t \<le> i then (False, out)
      else if isDashInt (t ! i) then (True, set_valid k 0 out)
      else case parseIntToken (t ! i) of None \<Rightarrow> (False, set_valid k 0 out)
        | Some v \<Rightarrow> (True, (set_valid k 1 out)\<lparr>vals := (vals out)(k \<mapsto> v)\<rparr>))"

fun q6_each :: "(nat \<Rightarrow> string \<Rightarrow> device_data \<Rightarrow> bool \<times> device_data) \<Rightarrow> (nat \<times> string) list \<Rightarrow> device_data \<Rightarrow>
    bool \<times> device_data" where
  "q6_each f [] out = (True, out)"
| "q6_each f ((i, k) # r) out = (case f i k out of (ok, out') \<Rightarrow> if ok then q6_each f r out' else (False, out'))"

definition q6_dkeys :: "string list" where
  "q6_dkeys = [''input.v.r'', ''input.v.s'', ''input.v.t'', ''input.freq.hz'', ''output.v.r'', ''output.v.s'',
     ''output.v.t'', ''output.freq.hz'', ''output.i.r'', ''output.i.s'', ''output.i.t'', ''battery.v.pos'',
     ''battery.v.neg'', ''temp.c'']"

definition q6_flags :: "string list \<Rightarrow> device_data \<Rightarrow> bool \<times> device_data" where
  "q6_flags t out =
     (if length (t ! 16) < 2 \<or> \<not> is_digit (t ! 16 ! 0) \<or> \<not> is_digit (t ! 16 ! 1) then (False, out)
      else let out = out\<lparr>vals := (vals out)(''system.mode'' \<mapsto> int (digit_val (t ! 16 ! 0)),
                 ''battery.test.state'' \<mapsto> int (digit_val (t ! 16 ! 1)))\<rparr> in
        case parseHexU32Token (t ! 17) of None \<Rightarrow> (False, out)
        | Some fault_raw \<Rightarrow>
            (case parseHexU32Token (t ! 18) of None \<Rightarrow> (False, out)
             | Some warning_bits \<Rightarrow>
                 let out = out\<lparr>status := (status out)(''fault.bits'' \<mapsto> fault_raw, ''warning.bits'' \<mapsto> warning_bits),
                       vals := (vals out)(''fault.raw'' \<mapsto> sint fault_raw,
                         ''fault.code.1'' \<mapsto> uint (drop_bit 24 fault_raw AND 0xFF),
                         ''fault.code.2'' \<mapsto> uint (drop_bit 16 fault_raw AND 0xFF),
                         ''fault.code.3'' \<mapsto> uint (drop_bit 8 fault_raw AND 0xFF),
                         ''fault.code.4'' \<mapsto> uint (fault_raw AND 0xFF))\<rparr>
                 in if length (t ! 19) < 2 then (False, out)
                    else if (t ! 19 ! 0 \<noteq> CHR ''0'' \<and> t ! 19 ! 0 \<noteq> CHR ''1'') \<or>
                            (t ! 19 ! 1 \<noteq> CHR ''0'' \<and> t ! 19 ! 1 \<noteq> CHR ''1'') then (False, out)
                    else (True, out\<lparr>status := (status out)(''transformer.y'' \<mapsto> bit01 (t ! 19 ! 0),
                                ''lcd.phase.v'' \<mapsto> bit01 (t ! 19 ! 1))\<rparr>)))"

definition parseQ6 :: "string list \<Rightarrow> device_data \<Rightarrow> bool \<times> device_data" where
  "parseQ6 t out =
     (if length t < 20 then (False, out)
      else case q6_each (q6_D t) (zip [0..<14] q6_dkeys) out of (ok, out) \<Rightarrow>
        if \<not> ok then (False, out)
        else (case q6_each (q6_I t) [(14, ''battery.remain.sec''), (15, ''battery.capacity'')] out of (ok, out) \<Rightarrow>
          if \<not> ok then (False, out) else q6_flags t out))"

definition ups_parse :: "bytes \<Rightarrow> device_data \<Rightarrow> bool \<times> device_data" where
  "ups_parse rx out0 =
     (let out = out0\<lparr>device_name := ''UPS''\<rparr>; s = stripWrapper (string_of rx) in
      if s = [] then (False, out)
      else let tokens = splitTokens s in
        if tokens = [] then (False, out)
        else if length tokens = 8 then parseQ1 tokens (markCmd Q1 out)
        else if length tokens = 13 then parseWA tokens (markCmd WA out)
        else parseQ6 tokens (markCmd Q6 out))"

section \<open>Well-formed lines\<close>

text \<open>Lines the way the device prints them: decimal numbers with a point, words separated by one blank, and
  an opening parenthesis.\<close>

type_synonym decimal = "string \<times> string"

definition decimal_ok :: "decimal \<Rightarrow> bool" where
  "decimal_ok x = (case x of (ip, fp) \<Rightarrow> ip \<noteq> [] \<and> list_all is_digit ip \<and> list_all is_digit fp)"

definition decimal_text :: "decimal \<Rightarrow> string" where
  "decimal_text x = (case x of (ip, fp) \<Rightarrow> ip @ CHR ''.'' # fp)"

definition decimal_value :: "decimal \<Rightarrow> dbl" where
  "decimal_value x = (case x of (ip, fp) \<Rightarrow> dbl_round (of_nat (num_of 10 (ip @ fp)) / 10 ^ length fp))"

fun unwords :: "string list \<Rightarrow> string" where
  "unwords [] = []"
| "unwords [t] = t"
| "unwords (t # ts) = t @ CHR '' '' # unwords ts"

definition word_ok :: "string \<Rightarrow> bool" where
  "word_ok t \<longleftrightarrow> t \<noteq> [] \<and> (\<forall>c \<in> set t. \<not> is_space c \<and> c \<noteq> CHR '')'')"

lemma is_digit_code: "is_digit c \<longleftrightarrow> 48 \<le> (of_char c :: nat) \<and> (of_char c :: nat) \<le> 57"
  by (auto simp: is_digit_def digit_val_def Let_def)

lemma is_digit_distinct:
  assumes "is_digit c"
  shows "\<not> is_space c" "c \<noteq> CHR '')''" "c \<noteq> CHR ''-''" "c \<noteq> CHR ''+''" "c \<noteq> CHR ''.''" "c \<noteq> CHR 0x00"
    "to_lower c = c" "c \<noteq> CHR ''i''" "c \<noteq> CHR ''n''" "c \<noteq> CHR ''x''"
  using assms by (auto simp: is_digit_code is_space_def to_lower_def Let_def)

lemma takeWhile_word: "word_ok t \<Longrightarrow> takeWhile (\<lambda>c. \<not> is_space c) (t @ CHR '' '' # r) = t"
  "word_ok t \<Longrightarrow> dropWhile (\<lambda>c. \<not> is_space c) (t @ CHR '' '' # r) = CHR '' '' # r"
  by (simp_all add: word_ok_def takeWhile_append dropWhile_append is_space_def)

lemma word_head: "word_ok t \<Longrightarrow> dropWhile is_space (t @ r) = t @ r"
  by (cases t) (auto simp: word_ok_def)

lemma splitTokens_unwords: "\<forall>t \<in> set ts. word_ok t \<Longrightarrow> splitTokens (unwords ts) = ts"
proof (induction ts rule: unwords.induct)
  case 1
  then show ?case by (simp add: splitTokens.simps)
next
  case (2 t)
  have all: "takeWhile (\<lambda>c. \<not> is_space c) t = t" "dropWhile (\<lambda>c. \<not> is_space c) t = []"
    using 2 by (auto simp: word_ok_def)
  then have "splitTokens (dropWhile (\<lambda>c. \<not> is_space c) t) = []"
    by (simp only: all) (simp add: splitTokens.simps)
  with all(1) show ?case using 2 word_head [of t "[]"]
    by (simp add: splitTokens.simps [of t] word_ok_def Let_def)
next
  case (3 t u us)
  have blank: "splitTokens (CHR '' '' # r) = splitTokens r" for r
    by (simp add: splitTokens.simps [of "CHR '' '' # r"] splitTokens.simps [of r] is_space_def Let_def)
  have "word_ok t" using 3 by simp
  with 3 show ?case
    by (simp add: splitTokens.simps [of "t @ _"] word_head takeWhile_word blank Let_def)
qed

lemma unwords_last:
  assumes "ts \<noteq> []" "\<forall>t \<in> set ts. word_ok t"
  shows "unwords ts \<noteq> [] \<and> \<not> is_space (last (unwords ts)) \<and> last (unwords ts) \<noteq> CHR '')''"
  using assms by (induction ts rule: unwords.induct) (auto simp: word_ok_def)

lemma rev_dropWhile_last: "t \<noteq> [] \<Longrightarrow> \<not> P (last t) \<Longrightarrow> rev (dropWhile P (rev t)) = t"
  by (cases t rule: rev_cases) auto

lemma stripWrapper_line:
  assumes "ts \<noteq> []" "\<forall>t \<in> set ts. word_ok t"
  shows "stripWrapper (CHR ''('' # unwords ts) = unwords ts"
  using unwords_last [OF assms] by (simp add: stripWrapper_def is_space_def rev_dropWhile_last Let_def)

lemma string_of_bytes_of [simp]: "string_of (bytes_of s) = s"
proof -
  have "char_of (unat (of_nat (of_char c) :: u8)) = c" for c
    by (simp add: unat_of_nat take_bit_nat_eq_self)
  then show ?thesis by (simp add: string_of_def bytes_of_def comp_def)
qed

lemma takeWhile_all: "list_all P xs \<Longrightarrow> takeWhile P xs = xs" "list_all P xs \<Longrightarrow> dropWhile P xs = []"
  by (simp_all add: list_all_iff)

lemma take_mantissa_decimal:
  assumes "decimal_ok (ip, fp)"
  shows "take_mantissa is_digit (ip @ CHR ''.'' # fp) = (ip, fp, [])"
proof -
  have "\<not> is_digit (CHR ''.'')" by (simp add: is_digit_code)
  then have "takeWhile is_digit (ip @ CHR ''.'' # fp) = ip" "dropWhile is_digit (ip @ CHR ''.'' # fp) = CHR ''.'' # fp"
    using assms by (simp_all add: decimal_ok_def list_all_iff takeWhile_append dropWhile_append)
  with assms show ?thesis by (simp add: take_mantissa_def decimal_ok_def takeWhile_all Let_def)
qed

lemma strtod_decimal:
  assumes "decimal_ok (ip, fp)"
  shows "strtod (ip @ CHR ''.'' # fp) = Some (decimal_value (ip, fp), [])"
proof -
  obtain c r where ip: "ip = c # r" "is_digit c" "list_all is_digit r" "list_all is_digit fp"
    using assms by (cases ip) (auto simp: decimal_ok_def)
  note c = is_digit_distinct [OF ip(2)]
  let ?u = "ip @ CHR ''.'' # fp"
  have start: "take_sign (dropWhile is_space ?u) = (False, ?u)"
    using c by (simp add: ip(1) take_sign_def)
  have notx: "take 2 (map to_lower ?u) \<noteq> ''0x''"
    using is_digit_distinct(7,10) ip(3) by (cases r) (auto simp: ip(1) to_lower_def numeral_2_eq_2)
  have notword: "take 8 (map to_lower ?u) \<noteq> ''infinity''" "take 3 (map to_lower ?u) \<noteq> ''inf''"
    "take 3 (map to_lower ?u) \<noteq> ''nan''"
    using c by (auto simp: ip(1) numeral_eq_Suc)
  have powi: "(10 :: rat) powi (0 - int (length fp)) = inverse (10 ^ length fp)" by (simp add: power_int_minus)
  have tail: "take_exponent (CHR ''e'') [] = (0, [])" by (simp add: take_exponent_def)
  have nonempty: "ip \<noteq> []" by (simp add: ip(1))
  have dec: "strtod_dec False ?u = Some (decimal_value (ip, fp), [])"
    unfolding strtod_dec_def take_mantissa_decimal [OF assms] prod.case tail powi signed_dbl_def
      decimal_value_def divide_inverse by (simp only: nonempty simp_thms if_False)
  show ?thesis unfolding strtod_def start prod.case Let_def by (simp only: notx notword if_False dec)
qed

lemma decimal_word:
  assumes "decimal_ok x" shows "word_ok (decimal_text x)"
  using assms is_digit_distinct(1,2)
  by (auto simp: decimal_ok_def decimal_text_def word_ok_def list_all_iff is_space_def split: prod.splits)

lemma digits_word: "ds \<noteq> [] \<Longrightarrow> list_all is_digit ds \<Longrightarrow> word_ok ds"
  using is_digit_distinct(1,2) by (auto simp: word_ok_def list_all_iff)

lemma bits_word:
  assumes "isBits01_8 bits" shows "word_ok bits"
  unfolding word_ok_def
proof (intro conjI ballI)
  show "bits \<noteq> []" using assms by (auto simp: isBits01_8_def)
  fix c assume "c \<in> set bits"
  then have "c = CHR ''0'' \<or> c = CHR ''1''" using assms by (simp add: isBits01_8_def list_all_iff)
  then show "\<not> is_space c" "c \<noteq> CHR '')''" by (elim disjE; simp add: is_space_def)+
qed

lemma parseDoubleToken_decimal:
  assumes "decimal_ok x" shows "parseDoubleToken (decimal_text x) = Some (decimal_value x)"
proof -
  obtain ip fp where x: "x = (ip, fp)" by fastforce
  obtain c r where ip: "ip = c # r" "is_digit c" using assms x by (cases ip) (auto simp: decimal_ok_def)
  have "\<not> isDashDouble (decimal_text x)"
    using is_digit_distinct(3,5) [OF ip(2)] ip(2)
    by (auto simp: isDashDouble_def decimal_text_def x ip(1) is_digit_code)
  moreover have "c_str (decimal_text x) = decimal_text x"
    using assms is_digit_distinct(6) by (auto simp: c_str_def decimal_text_def decimal_ok_def x list_all_iff)
  ultimately show ?thesis
    using strtod_decimal [of ip fp] assms by (simp add: parseDoubleToken_def decimal_text_def x)
qed

lemma parseIntToken_digits:
  assumes "ds \<noteq> []" "list_all is_digit ds" "num_of 10 ds < 2 ^ 31"
  shows "parseIntToken ds = Some (int (num_of 10 ds))"
proof -
  obtain c r where ds: "ds = c # r" "is_digit c" using assms by (cases ds) auto
  note c = is_digit_distinct [OF ds(2)]
  have "signed_take_bit 31 (int (num_of 10 ds)) = int (num_of 10 ds)"
    using assms(3) by (intro signed_take_bit_int_eq_self) simp_all
  moreover have "min (2 ^ 63 - 1) (int (num_of 10 ds)) = int (num_of 10 ds)" using assms(3) by simp
  ultimately show ?thesis
    using assms c by (simp add: parseIntToken_def isDashInt_def strtol_digits_def take_sign_def ds(1) Let_def)
qed

definition q1_line :: "decimal list \<Rightarrow> string \<Rightarrow> string \<Rightarrow> string" where
  "q1_line xs load bits =
     CHR ''('' # unwords (map decimal_text (take 3 xs) @ [load] @ map decimal_text (drop 3 xs) @ [bits])"

text \<open>The combined value of the status bits.\<close>

definition combined_bits :: "string \<Rightarrow> u32" where
  "combined_bits bits = foldl (\<lambda>v c. push_bit 1 v OR bit01 c) 0 bits"

lemma bit_combined:
  "length xs \<le> 32 \<Longrightarrow> bit (combined_bits xs) n \<longleftrightarrow> n < length xs \<and> xs ! (length xs - 1 - n) = CHR ''1''"
proof (induction xs arbitrary: n rule: rev_induct)
  case Nil
  show ?case by (simp add: combined_bits_def)
next
  case (snoc c xs)
  have one: "bit (bit01 c) n \<longleftrightarrow> n = 0 \<and> c = CHR ''1''" by (simp add: bit01_def bit_1_iff)
  have "combined_bits (xs @ [c]) = push_bit 1 (combined_bits xs) OR bit01 c" by (simp add: combined_bits_def)
  then have step: "bit (combined_bits (xs @ [c])) n \<longleftrightarrow>
      n < 32 \<and> 1 \<le> n \<and> bit (combined_bits xs) (n - 1) \<or> n = 0 \<and> c = CHR ''1''"
    by (simp only: bit_or_iff bit_push_bit_iff one) auto
  show ?case
  proof (cases n)
    case 0
    then show ?thesis unfolding step by simp
  next
    case (Suc m)
    have IH: "bit (combined_bits xs) m \<longleftrightarrow> m < length xs \<and> xs ! (length xs - 1 - m) = CHR ''1''" using snoc by simp
    have "(xs @ [c]) ! (length xs - Suc m) = xs ! (length xs - Suc m)" if "m < length xs"
    proof -
      have "length xs - Suc m < length xs" using that by simp
      then show ?thesis by (simp only: nth_append if_True)
    qed
    with Suc IH snoc.prems show ?thesis unfolding step by auto
  qed
qed

lemma combined_bits_of:
  assumes "length bits = 8"
  shows "combined_bits bits < 256" "\<forall>i < 8. bit (combined_bits bits) (7 - i) \<longleftrightarrow> bits ! i = CHR ''1''"
proof -
  note b = bit_combined [of bits, unfolded assms, simplified]
  have "combined_bits bits = take_bit 8 (combined_bits bits)" by (rule bit_word_eqI) (auto simp: bit_take_bit_iff b)
  then have "uint (combined_bits bits) = take_bit 8 (uint (combined_bits bits))" by (metis unsigned_take_bit_eq)
  also have "\<dots> < 2 ^ 8" by (rule take_bit_int_less_exp)
  finally show "combined_bits bits < 256" by (simp add: word_less_def)
  show "\<forall>i < 8. bit (combined_bits bits) (7 - i) \<longleftrightarrow> bits ! i = CHR ''1''" by (auto simp: b)
qed

section \<open>Properties\<close>

text \<open>C38: The answer to the query Q1, printed with six unsigned decimal numbers with a point, the load as an unsigned number
  below \<open>2 ^ 31\<close> and eight status bits, is decoded to exactly these numbers (rounded to doubles), the load, the six named
  status bits, and the combined value, in which the first bit of the text is bit 7 and the last one bit 0; the two
  lowest bits have no entry of their own.\<close>

theorem ups_q1_decoded:
  assumes "list_all decimal_ok [vin, vlast, vout, freq, cell, temp]"
    and "load \<noteq> []" "list_all is_digit load" "num_of 10 load < 2 ^ 31" and "isBits01_8 bits"
  shows "\<exists>d. ups_parse (bytes_of (q1_line [vin, vlast, vout, freq, cell, temp] load bits)) out = (True, d) \<and>
     device_name d = ''UPS'' \<and> vals d ''__ups_cmd'' = Some 1 \<and>
     map (num d) [''input.v'', ''input.last.v'', ''output.v'', ''input.freq.hz'', ''battery.cell.v'', ''temp.c''] =
       map (\<lambda>x. Some (decimal_value x)) [vin, vlast, vout, freq, cell, temp] \<and>
     num d ''load.pct'' = Some (dbl_of_int (int (num_of 10 load))) \<and>
     num d ''battery.12v.v'' = Some (dbl_mul (decimal_value cell) (Fin 6)) \<and>
     map (\<lambda>k. status d (''q1.'' @ k)) [''mains_abnormal'', ''battery_low'', ''bypass'', ''fault'', ''backup_mode'', ''testing''] =
       map (\<lambda>c. Some (bit01 c)) (take 6 bits) \<and>
     (\<exists>v. status d ''q1.status.bits'' = Some v \<and> v < 256 \<and> (\<forall>i < 8. bit v (7 - i) \<longleftrightarrow> bits ! i = CHR ''1''))"
proof -
  define ts where "ts = [decimal_text vin, decimal_text vlast, decimal_text vout, load, decimal_text freq,
              decimal_text cell, decimal_text temp, bits]"
  have ok: "\<forall>t \<in> set ts. word_ok t"
    using assms decimal_word digits_word bits_word by (simp add: ts_def)
  have some: "ts \<noteq> []" "length ts = 8" by (simp_all add: ts_def)
  have line: "q1_line [vin, vlast, vout, freq, cell, temp] load bits = CHR ''('' # unwords ts"
    by (simp add: q1_line_def ts_def)
  have parse: "ups_parse (bytes_of (q1_line [vin, vlast, vout, freq, cell, temp] load bits)) out =
      parseQ1 ts (markCmd Q1 (out\<lparr>device_name := ''UPS''\<rparr>))"
    unfolding line ups_parse_def string_of_bytes_of stripWrapper_line [OF some(1) ok]
    using unwords_last [OF some(1) ok] splitTokens_unwords [OF ok] some by (simp add: Let_def)
  have six: "take 6 bits = [bits ! 0, bits ! 1, bits ! 2, bits ! 3, bits ! 4, bits ! 5]"
    using assms(5) by (simp add: isBits01_8_def list_eq_iff_nth_eq less_Suc_eq numeral_eq_Suc)
  have toks: "double_tokens ts [0, 1, 2] = Some [decimal_value vin, decimal_value vlast, decimal_value vout]"
    "double_tokens ts [4, 5, 6] = Some [decimal_value freq, decimal_value cell, decimal_value temp]"
    "parseIntToken (ts ! 3) = Some (int (num_of 10 load))" "ts ! 7 = bits"
    using assms by (simp_all add: ts_def parseDoubleToken_decimal parseIntToken_digits)
  define o1 where "o1 = markCmd Q1 (out\<lparr>device_name := ''UPS''\<rparr>)"
  have o1: "device_name o1 = ''UPS''" "vals o1 ''__ups_cmd'' = Some 1" by (simp_all add: o1_def markCmd_def)
  obtain o2 where o2: "fillBits8 bits ''q1.'' o1 = Some o2" "device_name o2 = device_name o1" "vals o2 = vals o1"
    "map (\<lambda>k. status o2 (''q1.'' @ k)) [''mains_abnormal'', ''battery_low'', ''bypass'', ''fault'', ''backup_mode'', ''testing''] =
       map (\<lambda>c. Some (bit01 c)) (take 6 bits)" "status o2 ''q1.status.bits'' = Some (combined_bits bits)"
    unfolding six using assms(5) by (simp add: fillBits8_def combined_bits_def Let_def)
  have len: "length bits = 8" using assms(5) by (simp add: isBits01_8_def)
  show ?thesis unfolding parse using toks some(2) o1 o2 combined_bits_of [OF len]
    by (simp add: parseQ1_def o1_def [symmetric] put_nums_def)
qed

theorem ups_q1_decoded_witness:
  "\<exists>d. ups_parse (bytes_of ''(221.5 221.5 220.1 037 50.0 2.25 28.0 00001001'') dd_init = (True, d) \<and>
     num d ''output.v'' = Some (dbl_round (2201 / 10)) \<and> num d ''load.pct'' = Some (dbl_of_int 37) \<and>
     status d ''q1.backup_mode'' = Some 1 \<and> status d ''q1.bypass'' = Some 0"
proof -
  have h: "list_all decimal_ok [(''221'', ''5''), (''221'', ''5''), (''220'', ''1''), (''50'', ''0''), (''2'', ''25''), (''28'', ''0'')]"
    "''037'' \<noteq> []" "list_all is_digit ''037''" "num_of 10 ''037'' < 2 ^ 31" "isBits01_8 ''00001001''"
    by (simp_all add: decimal_ok_def is_digit_code num_of_def digit_val_def isBits01_8_def)
  from ups_q1_decoded [OF h, of dd_init] obtain d where
    "ups_parse (bytes_of (q1_line [(''221'', ''5''), (''221'', ''5''), (''220'', ''1''), (''50'', ''0''), (''2'', ''25''),
       (''28'', ''0'')] ''037'' ''00001001'')) dd_init = (True, d)"
    "num d ''output.v'' = Some (decimal_value (''220'', ''1''))"
    "num d ''load.pct'' = Some (dbl_of_int (int (num_of 10 ''037'')))"
    "status d ''q1.backup_mode'' = Some (bit01 (CHR ''1''))" "status d ''q1.bypass'' = Some (bit01 (CHR ''0''))"
    by auto
  then show ?thesis
    by (intro exI [of _ d]) (simp add: q1_line_def decimal_text_def decimal_value_def num_of_def digit_val_def bit01_def)
qed

end
