(* ===== verification/Can_Rx.thy ===== *)
theory Can_Rx
  imports Bms_Signals Proto_Pcu "HOL-Library.AList" "HOL-Library.Multiset"
begin

text \<open>
  The receive path of the CAN buses: the dispatcher that parses frames of the conversion units at once and
  hands battery frames to a queue (\<open>services/protocol/can/can_dispatcher.cpp\<close>), the queue that keeps the
  newest frame of every identifier (\<open>bms_thread/bms_queue.cpp\<close>) and the worker thread that empties it
  (\<open>bms_thread/bms_worker.cpp\<close>). Receiver and worker run in different threads; every queue operation holds
  the queue's lock, so an execution is a sequence of such operations. The specification of the path is a
  mailbox that maps every identifier to its newest frame.
\<close>

section \<open>The queue\<close>

record bms_frame =
  bf_can_index :: int
  id29 :: u32
  bf_dlc :: u8
  bf_data :: bytes
  ts_ms :: u64

definition bms_frame_init :: bms_frame where
  "bms_frame_init = \<lparr>bf_can_index = 0, id29 = 0, bf_dlc = 8, bf_data = replicate 8 0, ts_ms = 0\<rparr>"

definition frame_key :: "bms_frame \<Rightarrow> u64" where
  "frame_key f = ucast (id29 f)"

text \<open>The hash table of the queue, as the list of its entries in the order an iteration visits them. The
  order is not specified; the step relation below may change it at any time.\<close>

type_synonym bms_queue = "(u64 \<times> bms_frame) list"

definition push :: "bms_queue \<Rightarrow> bms_frame \<Rightarrow> bms_queue" where
  "push q f = AList.update (frame_key f) f q"

definition popAll :: "bms_queue \<Rightarrow> bms_frame list \<times> bms_queue" where
  "popAll q = (map snd q, [])"

section \<open>The worker\<close>

record worker_cfg =
  max_frames_per_round :: u32
  dispatch_throttle_ms :: u32

text \<open>The settings of \<open>AppManager\<close>.\<close>

definition app_worker_cfg :: worker_cfg where
  "app_worker_cfg = \<lparr>max_frames_per_round = 0, dispatch_throttle_ms = 200\<rparr>"

record worker =
  w_running :: bool
  last_tick_ms :: u64

datatype worker_event = OnDeviceData device_data | OnTick

definition fillCanFrame :: "bms_frame \<Rightarrow> can_frame" where
  "fillCanFrame f = \<lparr>can_id = (id29 f AND CAN_EFF_MASK) OR CAN_EFF_FLAG, can_dlc = bf_dlc f,
     can_data = map (\<lambda>i. bf_data f ! i) [0..<8]\<rparr>"

text \<open>The parser of the batteries is the argument \<open>parse\<close>; in the program it is \<open>bms_parse\<close> on the
  generated message table.\<close>

definition worker_frame ::
    "(can_frame \<Rightarrow> device_data \<Rightarrow> bool \<times> device_data) \<Rightarrow> bms_frame \<Rightarrow> worker_event list" where
  "worker_frame parse f =
     (if id29 f = 0 \<and> bf_dlc f = 8 then []
      else (case parse (fillCanFrame f) dd_init of (ok, d) \<Rightarrow> if ok then [OnDeviceData d] else []))"

definition worker_tick :: "worker_cfg \<Rightarrow> u64 \<Rightarrow> worker \<Rightarrow> worker_event list \<times> worker" where
  "worker_tick cfg now w =
     (if 0 < dispatch_throttle_ms cfg \<and>
         (last_tick_ms w = 0 \<or> ucast (dispatch_throttle_ms cfg) \<le> now - last_tick_ms w)
      then ([OnTick], w\<lparr>last_tick_ms := now\<rparr>) else ([], w))"

text \<open>One pass of the loop of \<open>threadMain_\<close>; a worker that was stopped leaves after it has taken the frames.\<close>

definition worker_round ::
    "(can_frame \<Rightarrow> device_data \<Rightarrow> bool \<times> device_data) \<Rightarrow> worker_cfg \<Rightarrow> u64 \<Rightarrow> worker \<Rightarrow> bms_queue \<Rightarrow>
     worker_event list \<times> worker \<times> bms_queue" where
  "worker_round parse cfg now w q =
     (case popAll q of (frames, q') \<Rightarrow>
        if \<not> w_running w then ([], w, q')
        else let frames = (if 0 < max_frames_per_round cfg \<and> unat (max_frames_per_round cfg) < length frames
                           then take (unat (max_frames_per_round cfg)) frames else frames);
                 evs = concat (map (worker_frame parse) frames)
             in (case worker_tick cfg now w of (ticks, w') \<Rightarrow> (evs @ ticks, w', q')))"

definition worker_start :: "worker \<Rightarrow> worker" where
  "worker_start w = (if w_running w then w else w\<lparr>w_running := True, last_tick_ms := 0\<rparr>)"

definition worker_stop :: "worker \<Rightarrow> bms_queue \<Rightarrow> worker \<times> bms_queue" where
  "worker_stop w q =
     (if \<not> w_running w then (w, q) else (w\<lparr>w_running := False\<rparr>, push q bms_frame_init))"

section \<open>The dispatcher\<close>

record can_link =
  cl_can_index :: int
  cl_enable :: bool
  cl_protocol_type :: string
  cl_pcu_instance :: u8
  cl_id_pcu_status :: u32

record dispatcher =
  proto_by_can :: "int \<rightharpoonup> u32"
  pcu_instance_by_can :: "int \<rightharpoonup> u8"
  bms_can_index :: int
  bms_attached :: bool

datatype can_result = Parsed | Consumed | NoProto | ParseFail

definition dispatcher_new :: dispatcher where
  "dispatcher_new = \<lparr>proto_by_can = Map.empty, pcu_instance_by_can = Map.empty, bms_can_index = -1,
     bms_attached = False\<rparr>"

definition bind_link :: "dispatcher \<Rightarrow> can_link \<Rightarrow> dispatcher" where
  "bind_link d l =
     (if \<not> cl_enable l \<or> cl_protocol_type l \<noteq> ''emu_pcu_v1'' then d
      else let d = d\<lparr>proto_by_can := (proto_by_can d)(cl_can_index l \<mapsto> cl_id_pcu_status l)\<rparr> in
        if 1 \<le> cl_pcu_instance l \<and> cl_pcu_instance l \<le> 2
        then d\<lparr>pcu_instance_by_can := (pcu_instance_by_can d)(cl_can_index l \<mapsto> cl_pcu_instance l)\<rparr>
        else d)"

definition dispatcher_init :: "dispatcher \<Rightarrow> can_link list \<Rightarrow> dispatcher" where
  "dispatcher_init d links =
     foldl bind_link (d\<lparr>proto_by_can := Map.empty, pcu_instance_by_can := Map.empty\<rparr>) links"

definition setBmsAsync :: "dispatcher \<Rightarrow> int \<Rightarrow> dispatcher" where
  "setBmsAsync d i = d\<lparr>bms_can_index := i, bms_attached := True\<rparr>"

definition pcuRuntimeName :: "u8 \<Rightarrow> string" where
  "pcuRuntimeName inst = (if inst = 1 then ''PCU_0'' else if inst = 2 then ''PCU_1'' else [])"

definition canFrameRawHex :: "can_frame \<Rightarrow> string" where
  "canFrameRawHex fr = bytesToHex (can_data fr) (if 8 < can_dlc fr then 8 else unat (can_dlc fr))"

definition stamp_can :: "int \<Rightarrow> can_frame \<Rightarrow> device_data \<Rightarrow> device_data" where
  "stamp_can can_index fr out =
     (let out = out\<lparr>vals := (vals out)(''__can_index'' \<mapsto> can_index,
                ''__can_id'' \<mapsto> sint (can_id fr AND CAN_EFF_MASK), ''__can_dlc'' \<mapsto> uint (can_dlc fr)),
              str := (str out)(''__can.raw_hex'' \<mapsto> canFrameRawHex fr)\<rparr>
      in if (device_name out = ''PCU'' \<or> device_name out = ''PCU_CTRL'') \<and> str out ''__pcu.raw_hex'' = None
         then out\<lparr>str := (str out)(''__pcu.raw_hex'' \<mapsto> canFrameRawHex fr)\<rparr> else out)"

definition stampParsedMeta :: "dispatcher \<Rightarrow> int \<Rightarrow> can_frame \<Rightarrow> device_data \<Rightarrow> device_data" where
  "stampParsedMeta d can_index fr out0 =
     (let out = stamp_can can_index fr out0 in
      if device_name out \<noteq> ''PCU'' \<and> device_name out \<noteq> ''PCU_CTRL'' then out
      else case pcu_instance_by_can d can_index of None \<Rightarrow> out
        | Some inst \<Rightarrow>
            if inst < 1 \<or> 2 < inst then out
            else let runtime_name = pcuRuntimeName inst in
              if runtime_name = [] then out
              else let out = out\<lparr>vals := (vals out)(''__pcu.instance'' \<mapsto> uint inst,
                         ''__pcu.runtime_index'' \<mapsto> uint inst - 1, ''__pcu.can_index'' \<mapsto> can_index),
                       str := (str out)(''__pcu.instance_name'' \<mapsto> runtime_name,
                         ''__pcu.display_name'' \<mapsto> ''PCU'' @ to_string (unat inst))\<rparr>
                   in if str out ''__pcu.msg'' = None
                      then out\<lparr>str := (str out)(''__pcu.msg'' \<mapsto> ''PCU_STATUS'')\<rparr> else out)"

definition can_parse :: "dispatcher \<Rightarrow> int \<Rightarrow> can_frame \<Rightarrow> device_data \<Rightarrow> bool \<times> device_data" where
  "can_parse d can_index fr out =
     (case proto_by_can d can_index of None \<Rightarrow> (False, out)
      | Some expect \<Rightarrow>
          (case parsePcuStatus expect fr out of (ok, out') \<Rightarrow>
             if ok then (True, stampParsedMeta d can_index fr out') else (False, out')))"

definition bms_frame_of :: "int \<Rightarrow> can_frame \<Rightarrow> u64 \<Rightarrow> bms_frame" where
  "bms_frame_of can_index fr now = \<lparr>bf_can_index = can_index, id29 = can_id fr AND CAN_EFF_MASK,
     bf_dlc = can_dlc fr, bf_data = map (\<lambda>i. can_data fr ! i) [0..<8], ts_ms = now\<rparr>"

definition can_handle ::
    "dispatcher \<Rightarrow> int \<Rightarrow> can_frame \<Rightarrow> u64 \<Rightarrow> device_data \<Rightarrow> bms_queue \<Rightarrow>
     can_result \<times> device_data \<times> bms_queue" where
  "can_handle d can_index fr now out q =
     (if bms_attached d \<and> can_index = bms_can_index d then
        if can_id fr AND CAN_EFF_FLAG = 0 then (Consumed, out, q)
        else if can_dlc fr < 8 then (Consumed, out, q)
        else (Consumed, out, push q (bms_frame_of can_index fr now))
      else case proto_by_can d can_index of None \<Rightarrow> (NoProto, out, q)
        | Some expect \<Rightarrow>
            (case parsePcuStatus expect fr out of (ok, out') \<Rightarrow>
               if ok then (Parsed, stampParsedMeta d can_index fr out', q) else (ParseFail, out', q)))"

section \<open>Executions of the two threads\<close>

datatype label = Rx int can_frame u64 | Round u64 "worker_event list" | Rehash

type_synonym rx_sys = "bms_queue \<times> worker"

inductive rx_step ::
    "dispatcher \<Rightarrow> (can_frame \<Rightarrow> device_data \<Rightarrow> bool \<times> device_data) \<Rightarrow> worker_cfg \<Rightarrow>
     rx_sys \<Rightarrow> label \<Rightarrow> rx_sys \<Rightarrow> bool"
  for d parse cfg where
  rx: "can_handle d can_index fr now dd_init q = (r, out, q') \<Longrightarrow>
       rx_step d parse cfg (q, w) (Rx can_index fr now) (q', w)"
| round: "worker_round parse cfg now w q = (evs, w', q') \<Longrightarrow>
       rx_step d parse cfg (q, w) (Round now evs) (q', w')"
| rehash: "mset q' = mset q \<Longrightarrow> rx_step d parse cfg (q, w) Rehash (q', w)"

inductive rx_run ::
    "dispatcher \<Rightarrow> (can_frame \<Rightarrow> device_data \<Rightarrow> bool \<times> device_data) \<Rightarrow> worker_cfg \<Rightarrow>
     rx_sys \<Rightarrow> label list \<Rightarrow> rx_sys \<Rightarrow> bool"
  for d parse cfg where
  start: "rx_run d parse cfg s [] s"
| step: "rx_run d parse cfg s ls t \<Longrightarrow> rx_step d parse cfg t l u \<Longrightarrow> rx_run d parse cfg s (ls @ [l]) u"

inductive_cases rx_stepE [elim!]:
  "rx_step d parse cfg s (Rx i fr now) t" "rx_step d parse cfg s (Round now evs) t" "rx_step d parse cfg s Rehash t"

inductive_cases rx_run_snocE: "rx_run d parse cfg s ls t"

section \<open>Specification: a mailbox\<close>

text \<open>What the path promises: the mailbox holds, for every identifier, the newest well-formed battery frame
  received since the worker last looked.\<close>

type_synonym mailbox = "u64 \<rightharpoonup> bms_frame"

definition well_formed :: "dispatcher \<Rightarrow> int \<Rightarrow> can_frame \<Rightarrow> bool" where
  "well_formed d can_index fr \<longleftrightarrow>
     bms_attached d \<and> can_index = bms_can_index d \<and> can_id fr AND CAN_EFF_FLAG \<noteq> 0 \<and> 8 \<le> can_dlc fr"

fun mail :: "dispatcher \<Rightarrow> mailbox \<Rightarrow> label \<Rightarrow> mailbox" where
  "mail d m (Rx i fr now) =
     (if well_formed d i fr then m(ucast (can_id fr AND CAN_EFF_MASK) \<mapsto> bms_frame_of i fr now) else m)"
| "mail d m (Round now evs) = Map.empty"
| "mail d m Rehash = m"

definition queue_ok :: "bms_queue \<Rightarrow> bool" where
  "queue_ok q \<longleftrightarrow> distinct (map fst q) \<and> (\<forall>(k, f) \<in> set q. frame_key f = k)"

lemma queue_ok_Nil [simp]: "queue_ok []"
  by (simp add: queue_ok_def)

lemma set_AList_update: "set (AList.update k v al) \<subseteq> insert (k, v) (set al)"
  by (induction al) auto

lemma queue_ok_push: "queue_ok q \<Longrightarrow> queue_ok (push q f)"
  using set_AList_update [of "frame_key f" f q]
  by (auto simp: queue_ok_def push_def distinct_update)

lemma map_of_push [simp]: "map_of (push q f) = (map_of q)(frame_key f \<mapsto> f)"
  by (simp add: push_def update_conv')

lemma queue_ok_rehash: "mset q' = mset q \<Longrightarrow> queue_ok q \<Longrightarrow> queue_ok q'"
  unfolding queue_ok_def by (metis mset_map mset_eq_imp_distinct_iff mset_eq_setD)

lemma map_of_rehash: "mset q' = mset q \<Longrightarrow> queue_ok q \<Longrightarrow> map_of q' = map_of q"
  using queue_ok_rehash [of q' q] mset_eq_setD [of q' q]
  by (intro map_of_inject_set [THEN iffD2]) (auto simp: queue_ok_def)

lemma can_handle_queue:
  "can_handle d i fr now out q = (r, out', q') \<Longrightarrow>
   q' = (if well_formed d i fr then push q (bms_frame_of i fr now) else q)"
  by (auto simp: can_handle_def well_formed_def not_less split: if_splits option.splits prod.splits)

lemma worker_round_queue: "worker_round parse cfg now w q = (evs, w', q') \<Longrightarrow> q' = []"
  by (auto simp: worker_round_def popAll_def Let_def split: if_splits prod.splits)

text \<open>The concrete step implements the mailbox step.\<close>

lemma rx_step_refines:
  assumes "rx_step d parse cfg (q, w) l (q', w')" "queue_ok q"
  shows "queue_ok q' \<and> map_of q' = mail d (map_of q) l"
  using assms
proof cases
  case (rx i fr now r out)
  then show ?thesis
    using can_handle_queue [of d i fr now dd_init q r out q'] assms(2)
    by (auto simp: queue_ok_push frame_key_def bms_frame_of_def)
next
  case (round now evs)
  then have "q' = []" by (auto dest: worker_round_queue)
  with round show ?thesis by simp
next
  case rehash
  then have "mset q' = mset q" by simp
  from queue_ok_rehash [OF this assms(2)] map_of_rehash [OF this assms(2)] rehash show ?thesis by simp
qed

definition mailbox_after :: "dispatcher \<Rightarrow> label list \<Rightarrow> mailbox" where
  "mailbox_after d ls = foldl (mail d) Map.empty ls"

lemma rx_run_refines:
  assumes "rx_run d parse cfg s ls t" "fst s = []"
  shows "queue_ok (fst t) \<and> map_of (fst t) = mailbox_after d ls"
  using assms
proof (induction rule: rx_run.induct)
  case (start s)
  then show ?case by (simp add: mailbox_after_def)
next
  case (step s ls t l u)
  then show ?case
    using rx_step_refines [of d parse cfg "fst t" "snd t" l "fst u" "snd u"]
    by (simp add: mailbox_after_def)
qed

lemma ran_of_queue: "queue_ok q \<Longrightarrow> ran (map_of q) = set (map snd q)"
  by (auto simp: queue_ok_def ran_distinct)

text \<open>What the worker hands on for one frame.\<close>

lemma set_worker_frame:
  "OnDeviceData x \<in> set (worker_frame parse f) \<longleftrightarrow>
     \<not> (id29 f = 0 \<and> bf_dlc f = 8) \<and> parse (fillCanFrame f) dd_init = (True, x)"
  by (auto simp: worker_frame_def split: prod.splits)

definition round_frames :: "worker_cfg \<Rightarrow> bms_queue \<Rightarrow> bms_frame list" where
  "round_frames cfg q = (if 0 < max_frames_per_round cfg \<and> unat (max_frames_per_round cfg) < length q
     then take (unat (max_frames_per_round cfg)) (map snd q) else map snd q)"

lemma worker_round_shape:
  assumes "worker_round parse cfg now w q = (evs, w', q')"
  shows "(\<exists>ticks. set ticks \<subseteq> {OnTick} \<and>
     evs = (if w_running w then concat (map (worker_frame parse) (round_frames cfg q)) @ ticks else []))"
proof (cases "w_running w")
  case True
  then have "evs = concat (map (worker_frame parse) (round_frames cfg q)) @ fst (worker_tick cfg now w)"
    using assms by (auto simp: worker_round_def round_frames_def popAll_def Let_def split: prod.splits)
  moreover have "set (fst (worker_tick cfg now w)) \<subseteq> {OnTick}" by (simp add: worker_tick_def)
  ultimately show ?thesis using True by auto
next
  case False
  then have "evs = []" using assms by (auto simp: worker_round_def popAll_def)
  with False show ?thesis by (intro exI [of _ "[]"]) simp
qed

lemma round_frames_all: "max_frames_per_round cfg = 0 \<Longrightarrow> round_frames cfg q = map snd q"
  by (simp add: round_frames_def)

lemma worker_round_delivers:
  assumes "worker_round parse cfg now w q = (evs, w', q')" "w_running w" "max_frames_per_round cfg = 0"
  shows "OnDeviceData x \<in> set evs \<longleftrightarrow> (\<exists>f \<in> set (map snd q). OnDeviceData x \<in> set (worker_frame parse f))"
proof -
  obtain ticks where "set ticks \<subseteq> {OnTick}" "evs = concat (map (worker_frame parse) (map snd q)) @ ticks"
    using worker_round_shape [OF assms(1)] assms(2) round_frames_all [OF assms(3), of q] by auto
  then show ?thesis by auto
qed

lemma filter_concat_frames:
  "length (filter (\<lambda>e. e \<noteq> OnTick) (concat (map (worker_frame parse) fs))) \<le> length fs"
proof (induction fs)
  case (Cons f fs)
  have "length (filter (\<lambda>e. e \<noteq> OnTick) (worker_frame parse f)) \<le> 1"
    by (simp add: worker_frame_def split: prod.splits)
  with Cons show ?case by simp
qed simp

lemma worker_round_count:
  assumes "worker_round parse cfg now w q = (evs, w', q')"
  shows "length (filter (\<lambda>e. e \<noteq> OnTick) evs) \<le> length q"
proof -
  obtain ticks where t: "set ticks \<subseteq> {OnTick}"
    "evs = (if w_running w then concat (map (worker_frame parse) (round_frames cfg q)) @ ticks else [])"
    using worker_round_shape [OF assms] by auto
  have "filter (\<lambda>e. e \<noteq> OnTick) ticks = []" using t(1) by (auto simp: filter_empty_conv)
  moreover have "length (round_frames cfg q) \<le> length q" by (simp add: round_frames_def)
  ultimately show ?thesis using t(2) filter_concat_frames [of parse "round_frames cfg q"] by simp
qed

text \<open>Every frame but the marker of a stopped worker carries the received bytes unchanged to the parser.\<close>

lemma fillCanFrame_bms_frame_of:
  assumes "well_formed d i fr" "length (can_data fr) = 8"
  shows "fillCanFrame (bms_frame_of i fr now) = fr\<lparr>can_id := (can_id fr AND CAN_EFF_MASK) OR CAN_EFF_FLAG\<rparr>"
proof -
  have "map (\<lambda>i. map (\<lambda>i. can_data fr ! i) [0..<8] ! i) [0..<8] = can_data fr"
    using assms(2) by (intro nth_equalityI) simp_all
  then show ?thesis by (simp add: fillCanFrame_def bms_frame_of_def and.assoc)
qed

section \<open>Properties\<close>

text \<open>C12: In every interleaving of the receiver with the worker, whatever order the hash table iterates in, a round of the
  worker hands on exactly the data parsed from the newest well-formed frame of each identifier received since
  the previous round, at most one item per identifier, and leaves the mailbox empty: the queue refines the
  mailbox specification.\<close>

theorem worker_sees_newest_frames:
  assumes "rx_run d parse cfg ([], w0) ls (q, w)"
    and "rx_step d parse cfg (q, w) (Round now evs) (q', w')"
    and "w_running w" and "max_frames_per_round cfg = 0"
  shows "(\<forall>x. OnDeviceData x \<in> set evs \<longleftrightarrow>
            (\<exists>f \<in> ran (mailbox_after d ls). \<not> (id29 f = 0 \<and> bf_dlc f = 8) \<and>
               parse (fillCanFrame f) dd_init = (True, x))) \<and>
         length (filter (\<lambda>e. e \<noteq> OnTick) evs) \<le> card (dom (mailbox_after d ls)) \<and>
         mailbox_after d (ls @ [Round now evs]) = Map.empty \<and> q' = []"
proof (intro conjI allI)
  have inv: "queue_ok q" "map_of q = mailbox_after d ls" using rx_run_refines [OF assms(1)] by simp_all
  have evs: "worker_round parse cfg now w q = (evs, w', q')" using assms(2) by auto
  fix x
  show "OnDeviceData x \<in> set evs \<longleftrightarrow> (\<exists>f \<in> ran (mailbox_after d ls). \<not> (id29 f = 0 \<and> bf_dlc f = 8) \<and>
               parse (fillCanFrame f) dd_init = (True, x))"
    using worker_round_delivers [OF evs assms(3,4), of x] ran_of_queue [OF inv(1)] inv(2)
    by (simp add: set_worker_frame)
  have "card (dom (map_of q)) = length q"
    using inv(1) distinct_card [of "map fst q"] by (simp add: queue_ok_def dom_map_of_conv_image_fst)
  then show "length (filter (\<lambda>e. e \<noteq> OnTick) evs) \<le> card (dom (mailbox_after d ls))"
    using worker_round_count [OF evs] inv(2) by simp
  show "mailbox_after d (ls @ [Round now evs]) = Map.empty" by (simp add: mailbox_after_def)
  show "q' = []" using evs by (rule worker_round_queue)
qed

text \<open>Two frames of one identifier before the round: the second one is handed on.\<close>

definition wit_disp :: dispatcher where "wit_disp = setBmsAsync dispatcher_new 0"
definition wit_fr :: "u8 \<Rightarrow> can_frame" where
  "wit_fr b = \<lparr>can_id = 0x98000100, can_dlc = 8, can_data = b # replicate 7 0\<rparr>"
definition wit_parse :: "can_frame \<Rightarrow> device_data \<Rightarrow> bool \<times> device_data" where
  "wit_parse fr d = (True, d\<lparr>timestamp := ucast (can_data fr ! 0)\<rparr>)"
definition wit_worker :: worker where "wit_worker = \<lparr>w_running = True, last_tick_ms = 0\<rparr>"

lemma wit_push:
  "can_handle wit_disp 0 (wit_fr b) now dd_init q = (Consumed, dd_init, push q (bms_frame_of 0 (wit_fr b) now))"
  by (simp add: can_handle_def wit_disp_def setBmsAsync_def wit_fr_def CAN_EFF_FLAG_def)

lemma wit_queue:
  "push (push [] (bms_frame_of 0 (wit_fr 1) 5)) (bms_frame_of 0 (wit_fr 2) 6) =
     [(0x18000100, bms_frame_of 0 (wit_fr 2) 6)]"
  by (simp add: push_def frame_key_def bms_frame_of_def wit_fr_def CAN_EFF_MASK_def)

lemma wit_round:
  "worker_round wit_parse app_worker_cfg 9 wit_worker [(0x18000100, bms_frame_of 0 (wit_fr 2) 6)] =
     ([OnDeviceData (dd_init\<lparr>timestamp := 2\<rparr>), OnTick], wit_worker\<lparr>last_tick_ms := 9\<rparr>, [])"
  by (simp add: worker_round_def popAll_def app_worker_cfg_def wit_worker_def worker_frame_def worker_tick_def
      bms_frame_of_def wit_fr_def wit_parse_def fillCanFrame_def CAN_EFF_MASK_def Let_def)

theorem worker_sees_newest_frames_witness:
  "rx_run wit_disp wit_parse app_worker_cfg ([], wit_worker) [Rx 0 (wit_fr 1) 5, Rx 0 (wit_fr 2) 6]
     ([(0x18000100, bms_frame_of 0 (wit_fr 2) 6)], wit_worker) \<and>
   (\<exists>f \<in> ran (mailbox_after wit_disp [Rx 0 (wit_fr 1) 5, Rx 0 (wit_fr 2) 6]).
      \<not> (id29 f = 0 \<and> bf_dlc f = 8) \<and> wit_parse (fillCanFrame f) dd_init = (True, dd_init\<lparr>timestamp := 2\<rparr>))"
proof
  have "rx_run wit_disp wit_parse app_worker_cfg ([], wit_worker) (([] @ [Rx 0 (wit_fr 1) 5]) @ [Rx 0 (wit_fr 2) 6])
     (push (push [] (bms_frame_of 0 (wit_fr 1) 5)) (bms_frame_of 0 (wit_fr 2) 6), wit_worker)"
    by (rule rx_run.step [OF rx_run.step [OF rx_run.start]]) (rule rx_step.rx, rule wit_push)+
  then show run: "rx_run wit_disp wit_parse app_worker_cfg ([], wit_worker) [Rx 0 (wit_fr 1) 5, Rx 0 (wit_fr 2) 6]
     ([(0x18000100, bms_frame_of 0 (wit_fr 2) 6)], wit_worker)" by (simp add: wit_queue)
  have step: "rx_step wit_disp wit_parse app_worker_cfg ([(0x18000100, bms_frame_of 0 (wit_fr 2) 6)], wit_worker)
     (Round 9 [OnDeviceData (dd_init\<lparr>timestamp := 2\<rparr>), OnTick]) ([], wit_worker\<lparr>last_tick_ms := 9\<rparr>)"
    by (intro rx_step.intros wit_round)
  have on: "w_running wit_worker" "max_frames_per_round app_worker_cfg = 0"
    by (simp_all add: wit_worker_def app_worker_cfg_def)
  show "\<exists>f \<in> ran (mailbox_after wit_disp [Rx 0 (wit_fr 1) 5, Rx 0 (wit_fr 2) 6]).
      \<not> (id29 f = 0 \<and> bf_dlc f = 8) \<and> wit_parse (fillCanFrame f) dd_init = (True, dd_init\<lparr>timestamp := 2\<rparr>)"
    by (rule worker_sees_newest_frames [OF run step on, THEN conjunct1, THEN spec, THEN iffD1]) simp
qed

end
