(* ===== verification/System_Config.thy ===== *)
theory System_Config
  imports Can_Rx
begin

text \<open>
  The part of the system configuration that the router and the scheduler read
  (\<open>utils/config/config_loader.h\<close>). The JSON file is read by library code; a configuration that cannot be
  loaded is None.
\<close>

record poll_cfg =
  poll_enable :: bool
  interval_ms :: u32
  timeout_ms :: u32
  poll_disconnect_window_ms :: u32

datatype link_role = MasterPoll | SlaveHmi | UnknownRole

datatype rs485_type = GasType | SmokeType | AirConditionerType | HmiType | UnknownType

record rs485_link =
  l485_index :: int
  l485_name :: string
  l485_role :: link_role
  l485_type :: rs485_type
  l485_slave_id :: u8
  l485_crc_order :: string
  l485_poll :: poll_cfg

record rs232_link =
  l232_index :: int
  l232_name :: string
  l232_role :: link_role
  l232_type :: string
  l232_poll :: poll_cfg

record system_config =
  rs485_links :: "rs485_link list"
  rs232_links :: "rs232_link list"
  can_links :: "can_link list"

datatype link_type = LinkCAN | LinkRS485 | LinkRS232 | LinkDISPLAY_RS485 | LinkETH | LinkUnknown

end
