(* ===== verification/Std_Map.thy ===== *)
theory Std_Map
  imports Main
begin

text \<open>
  A \<open>std::map\<close> as the list of its entries in the order of the keys, the order in which the program iterates
  over it: insertion or assignment by key, and what a lookup finds after it.
\<close>

fun smap_put :: "'k :: linorder \<Rightarrow> 'v \<Rightarrow> ('k \<times> 'v) list \<Rightarrow> ('k \<times> 'v) list" where
  "smap_put k v [] = [(k, v)]"
| "smap_put k v ((k', v') # m) =
     (if k < k' then (k, v) # (k', v') # m else if k = k' then (k, v) # m else (k', v') # smap_put k v m)"

definition smap_ok :: "('k :: linorder \<times> 'v) list \<Rightarrow> bool" where
  "smap_ok m \<longleftrightarrow> sorted_wrt (<) (map fst m)"

lemma smap_ok_Nil [simp]: "smap_ok []"
  by (simp add: smap_ok_def)

lemma fst_set_smap_put: "fst ` set (smap_put k v m) = insert k (fst ` set m)"
  by (induction k v m rule: smap_put.induct) auto

lemma smap_ok_put [simp]: "smap_ok m \<Longrightarrow> smap_ok (smap_put k v m)"
proof (induction k v m rule: smap_put.induct)
  case (2 k v k' v' m)
  then show ?case
    using fst_set_smap_put [of k v m] by (auto simp: smap_ok_def)
qed (simp add: smap_ok_def)

lemma map_of_smap_put [simp]: "smap_ok m \<Longrightarrow> map_of (smap_put k v m) = (map_of m)(k \<mapsto> v)"
proof (induction k v m rule: smap_put.induct)
  case (2 k v k' v' m)
  then show ?case by (auto simp: smap_ok_def fun_eq_iff)
qed simp

lemma smap_ok_map [simp]: "smap_ok (map (\<lambda>(k, v). (k, f k v)) m) = smap_ok m"
  by (simp add: smap_ok_def case_prod_beta comp_def)

lemma smap_ok_distinct: "smap_ok m \<Longrightarrow> distinct (map fst m)"
  by (auto simp: smap_ok_def sorted_wrt_iff_nth_less distinct_conv_nth) (metis less_irrefl linorder_neqE_nat)

end
