(* ===== verification/Protocol_Parser.thy ===== *)
theory Protocol_Parser
  imports Frame_Assembler Hmi_Proto Rs485_Protocols Ups_Proto System_Config Std_Map
begin

text \<open>
  The router that owns the protocol objects (\<open>services/parser/protocol_router.cpp\<close>) and the parser thread
  (\<open>services/parser/protocol_parser_thread.cpp\<close>): received CAN frames and serial chunks wait in two queues; a
  pass of the loop takes one of them, assembles frames, lets the protocol parse or answer them, and reports
  messages to the application and bytes to the drivers. What the thread reports and sends is a list of
  events. The steady clock is a function of the number of times it was read.
\<close>

section \<open>The router\<close>

datatype proto = GasP u8 | SmokeP u8 | AirP aircon | HmiP hmi

fun slaveAddr :: "proto \<Rightarrow> u8" where
  "slaveAddr (GasP a) = a"
| "slaveAddr (SmokeP a) = a"
| "slaveAddr (AirP a) = ac_addr a"
| "slaveAddr (HmiP h) = hmi_id h"

fun proto_parse :: "proto \<Rightarrow> bytes \<Rightarrow> device_data \<Rightarrow> bool \<times> device_data" where
  "proto_parse (GasP a) rx out = gas_parse a rx out"
| "proto_parse (SmokeP a) rx out = smoke_parse a rx out"
| "proto_parse (AirP a) rx out = aircon_parse (ac_addr a) rx out"
| "proto_parse (HmiP h) rx out = (False, out)"

fun proto_buildReadCmd :: "proto \<Rightarrow> bytes \<times> proto" where
  "proto_buildReadCmd (GasP a) = (gas_buildReadCmd a, GasP a)"
| "proto_buildReadCmd (SmokeP a) = (smoke_buildReadCmd a, SmokeP a)"
| "proto_buildReadCmd (AirP a) = (case aircon_buildReadCmd a of (cmd, a') \<Rightarrow> (cmd, AirP a'))"
| "proto_buildReadCmd (HmiP h) = ([], HmiP h)"

fun handleSlaveRequest :: "proto \<Rightarrow> bytes \<Rightarrow> bool \<times> bytes \<times> proto" where
  "handleSlaveRequest (HmiP h) frame = (case handleRequest frame h of (ok, resp, h') \<Rightarrow> (ok, resp, HmiP h'))"
| "handleSlaveRequest p frame = (False, [], p)"

datatype rs485_device = DevGas | DevSmoke | DevAirConditioner | DevHMI

record rs485_cfg =
  rc_type :: rs485_device
  rc_addr :: u8
  rc_crc :: crc_order

record router =
  r_cfg :: "int \<rightharpoonup> rs485_cfg"
  r_proto :: "(int \<times> proto) list"
  r_rs232 :: "int \<rightharpoonup> poll_kind"
  r_can :: dispatcher

definition router_empty :: router where
  "router_empty = \<lparr>r_cfg = Map.empty, r_proto = [], r_rs232 = Map.empty, r_can = dispatcher_new\<rparr>"

definition bind_rs485 :: "int \<Rightarrow> rs485_device \<Rightarrow> u8 \<Rightarrow> crc_order \<Rightarrow> proto \<Rightarrow> router \<Rightarrow> router" where
  "bind_rs485 i ty addr crc p r =
     r\<lparr>r_cfg := (r_cfg r)(i \<mapsto> \<lparr>rc_type = ty, rc_addr = addr, rc_crc = crc\<rparr>),
       r_proto := smap_put i p (r_proto r)\<rparr>"

definition bind_rs485_link :: "router \<Rightarrow> rs485_link \<Rightarrow> router" where
  "bind_rs485_link r l =
     (let crc = (if l485_crc_order l = ''lohi'' then LoHi else HiLo); i = l485_index l; a = l485_slave_id l in
      case l485_type l of
        GasType \<Rightarrow> bind_rs485 i DevGas a crc (GasP a) r
      | SmokeType \<Rightarrow> bind_rs485 i DevSmoke a crc (SmokeP a) r
      | AirConditionerType \<Rightarrow> bind_rs485 i DevAirConditioner a crc (AirP (aircon_init a)) r
      | HmiType \<Rightarrow> bind_rs485 i DevHMI a crc (HmiP (hmi_init a)) r
      | UnknownType \<Rightarrow> r)"

definition bind_rs232_link :: "router \<Rightarrow> rs232_link \<Rightarrow> router" where
  "bind_rs232_link r l =
     (if l232_type l = ''ups_ascii'' then r\<lparr>r_rs232 := (r_rs232 r)(l232_index l \<mapsto> Q1)\<rparr> else r)"

definition router_fallback :: router where
  "router_fallback =
     (let r = bind_rs485 0 DevGas 0x01 HiLo (GasP 0x01) router_empty;
          r = bind_rs485 1 DevSmoke 0x02 HiLo (SmokeP 0x02) r;
          r = bind_rs485 2 DevAirConditioner 0x01 LoHi (AirP (aircon_init 0x01)) r;
          r = bind_rs485 3 DevHMI 0x01 LoHi (HmiP (hmi_init 0x01)) r
      in r\<lparr>r_rs232 := [0 \<mapsto> Q1]\<rparr>)"

definition router_new :: "system_config option \<Rightarrow> router" where
  "router_new sys =
     (case sys of None \<Rightarrow> router_fallback
      | Some sys \<Rightarrow>
          let r = foldl bind_rs485_link router_empty (rs485_links sys);
              r = foldl bind_rs232_link r (rs232_links sys)
          in r\<lparr>r_can := dispatcher_init (r_can r) (can_links sys)\<rparr>)"

definition parseRs485 :: "router \<Rightarrow> int \<Rightarrow> bytes \<Rightarrow> device_data \<Rightarrow> bool \<times> device_data" where
  "parseRs485 r i frame out =
     (if length frame < 2 then (False, out)
      else case map_of (r_proto r) i of Some p \<Rightarrow> proto_parse p frame out
        | None \<Rightarrow>
            (case find (\<lambda>(k, p). slaveAddr p = frame ! 0) (r_proto r) of
               Some (k, p) \<Rightarrow> proto_parse p frame out
             | None \<Rightarrow> (False, out)))"

definition buildQuery :: "router \<Rightarrow> int \<Rightarrow> bytes \<times> router" where
  "buildQuery r i =
     (case map_of (r_proto r) i of None \<Rightarrow> ([], r)
      | Some p \<Rightarrow> (case proto_buildReadCmd p of (cmd, p') \<Rightarrow> (cmd, r\<lparr>r_proto := smap_put i p' (r_proto r)\<rparr>)))"

definition parseRs232 :: "router \<Rightarrow> int \<Rightarrow> bytes \<Rightarrow> device_data \<Rightarrow> bool \<times> device_data" where
  "parseRs232 r i frame out = (case r_rs232 r i of None \<Rightarrow> (False, out) | Some _ \<Rightarrow> ups_parse frame out)"

definition buildQueryRs232 :: "router \<Rightarrow> int \<Rightarrow> bytes \<times> router" where
  "buildQueryRs232 r i =
     (case r_rs232 r i of None \<Rightarrow> ([], r)
      | Some k \<Rightarrow> (case ups_buildReadCmd k of (cmd, k') \<Rightarrow> (cmd, r\<lparr>r_rs232 := (r_rs232 r)(i \<mapsto> k')\<rparr>)))"

definition handleRs485Slave :: "router \<Rightarrow> int \<Rightarrow> bytes \<Rightarrow> bool \<times> bytes \<times> router" where
  "handleRs485Slave r i frame =
     (case map_of (r_proto r) i of None \<Rightarrow> (False, [], r)
      | Some p \<Rightarrow> (case handleSlaveRequest p frame of (ok, resp, p') \<Rightarrow>
          (ok, resp, r\<lparr>r_proto := smap_put i p' (r_proto r)\<rparr>)))"

definition isRs485SlavePort :: "router \<Rightarrow> int \<Rightarrow> bool" where
  "isRs485SlavePort r i = (case r_cfg r i of None \<Rightarrow> False | Some c \<Rightarrow> rc_type c = DevHMI)"

definition setBmsQueue :: "router \<Rightarrow> int \<Rightarrow> router" where
  "setBmsQueue r i = r\<lparr>r_can := setBmsAsync (r_can r) i\<rparr>"

section \<open>Messages\<close>

datatype parsed_type = ParsedDeviceData | ParsedError | ParsedTimeout | ParsedHmiHeartbeat

record parser_message =
  m_type :: parsed_type
  m_link_type :: link_type
  m_link_index :: int
  m_device_name :: string
  m_device_data :: device_data
  m_error_code :: int
  m_error_text :: string
  m_rx_ts_ms :: u64

datatype pevent = OnParsed parser_message | SendSerial link_type int bytes

record serial_packet =
  srx_type :: link_type
  srx_index :: int
  srx_bytes :: bytes

record parser =
  serial_q :: "serial_packet list"
  can_q :: "(int \<times> can_frame) list"
  g_ascii :: buffers
  g_frame :: buffers
  g_hmi_rtu :: buffers
  p_router :: router
  p_bms_queue :: bms_queue
  last_hmi_heartbeat_ts :: u64
  has_on_parsed :: bool
  has_send_serial :: bool
  clock_reads :: nat

definition pushSerial :: "parser \<Rightarrow> serial_packet \<Rightarrow> parser" where
  "pushSerial p rx = p\<lparr>serial_q := serial_q p @ [rx]\<rparr>"

definition pushCan :: "parser \<Rightarrow> int \<Rightarrow> can_frame \<Rightarrow> parser" where
  "pushCan p i fr = p\<lparr>can_q := can_q p @ [(i, fr)]\<rparr>"

definition read_clock :: "(nat \<Rightarrow> u64) \<Rightarrow> parser \<Rightarrow> u64 \<times> parser" where
  "read_clock clock p = (clock (clock_reads p), p\<lparr>clock_reads := Suc (clock_reads p)\<rparr>)"

definition report :: "parser \<Rightarrow> parser_message \<Rightarrow> pevent list" where
  "report p msg = (if has_on_parsed p then [OnParsed msg] else [])"

definition data_message :: "link_type \<Rightarrow> int \<Rightarrow> device_data \<Rightarrow> u64 \<Rightarrow> parser_message" where
  "data_message ty i d ts = \<lparr>m_type = ParsedDeviceData, m_link_type = ty, m_link_index = i,
     m_device_name = device_name d, m_device_data = d, m_error_code = 0, m_error_text = [], m_rx_ts_ms = ts\<rparr>"

definition error_message :: "link_type \<Rightarrow> int \<Rightarrow> string \<Rightarrow> u64 \<Rightarrow> parser_message" where
  "error_message ty i text ts = \<lparr>m_type = ParsedError, m_link_type = ty, m_link_index = i,
     m_device_name = [], m_device_data = dd_init, m_error_code = -1, m_error_text = text, m_rx_ts_ms = ts\<rparr>"

definition heartbeat_message :: "int \<Rightarrow> u64 \<Rightarrow> parser_message" where
  "heartbeat_message i ts = \<lparr>m_type = ParsedHmiHeartbeat, m_link_type = LinkRS485, m_link_index = i,
     m_device_name = ''HMI_SYS_HEARTBEAT'', m_device_data = dd_init, m_error_code = 0, m_error_text = [],
     m_rx_ts_ms = ts\<rparr>"

section \<open>The parser thread\<close>

definition sendPoll :: "parser \<Rightarrow> link_type \<Rightarrow> int \<Rightarrow> bool \<times> parser \<times> pevent list" where
  "sendPoll p ty i =
     (if \<not> has_send_serial p then (False, p, [])
      else if ty = LinkRS485 then
        (case buildQuery (p_router p) i of (req, r) \<Rightarrow>
           if req = [] then (False, p\<lparr>p_router := r\<rparr>, []) else (True, p\<lparr>p_router := r\<rparr>, [SendSerial ty i req]))
      else if ty = LinkRS232 then
        (case buildQueryRs232 (p_router p) i of (req, r) \<Rightarrow>
           if req = [] then (False, p\<lparr>p_router := r\<rparr>, []) else (True, p\<lparr>p_router := r\<rparr>, [SendSerial ty i req]))
      else (False, p, []))"

definition pass_can :: "(nat \<Rightarrow> u64) \<Rightarrow> int \<Rightarrow> can_frame \<Rightarrow> parser \<Rightarrow> parser \<times> pevent list" where
  "pass_can clock i fr p =
     (case read_clock clock p of (now, p1) \<Rightarrow>
      case can_handle (r_can (p_router p)) i fr now dd_init (p_bms_queue p) of (r, d, q) \<Rightarrow>
        (case r of
           Parsed \<Rightarrow> (p1, report p (data_message LinkCAN i d now))
         | Consumed \<Rightarrow> (p1\<lparr>p_bms_queue := q\<rparr>, [])
         | _ \<Rightarrow> (p1, report p (error_message LinkCAN i ''CAN parse failed'' now))))"

definition heartbeat :: "(nat \<Rightarrow> u64) \<Rightarrow> int \<Rightarrow> parser \<Rightarrow> parser \<times> pevent list" where
  "heartbeat clock i p =
     (case read_clock clock p of (now, p) \<Rightarrow>
        if 1000 < now - last_hmi_heartbeat_ts p
        then (p\<lparr>last_hmi_heartbeat_ts := now\<rparr>, report p (heartbeat_message i now)) else (p, []))"

definition slave_frame :: "(nat \<Rightarrow> u64) \<Rightarrow> int \<Rightarrow> bytes \<Rightarrow> parser \<Rightarrow> parser \<times> pevent list" where
  "slave_frame clock i frame p =
     (case handleRs485Slave (p_router p) i frame of (handled, tx, r) \<Rightarrow>
        let p = p\<lparr>p_router := r\<rparr> in
        if \<not> handled then (p, [])
        else (case heartbeat clock i p of (p, evs) \<Rightarrow>
          (p, evs @ (if tx \<noteq> [] \<and> has_send_serial p then [SendSerial LinkRS485 i tx] else []))))"

definition master_frame ::
    "(nat \<Rightarrow> u64) \<Rightarrow> (router \<Rightarrow> int \<Rightarrow> bytes \<Rightarrow> device_data \<Rightarrow> bool \<times> device_data) \<Rightarrow> link_type \<Rightarrow> string \<Rightarrow>
     int \<Rightarrow> bytes \<Rightarrow> parser \<Rightarrow> parser \<times> pevent list" where
  "master_frame clock parse ty text i frame p =
     (case parse (p_router p) i frame dd_init of (ok, d) \<Rightarrow>
        if ok then (case read_clock clock p of (now, p) \<Rightarrow> (p, report p (data_message ty i d now)))
        else if has_on_parsed p
          then (case read_clock clock p of (now, p) \<Rightarrow> (p, report p (error_message ty i text now)))
          else (p, []))"

text \<open>The bodies of the receive loops, frame after frame. The bodies do not touch the assemblers, so the
  frames can be drained first.\<close>

fun each_frame :: "(bytes \<Rightarrow> parser \<Rightarrow> parser \<times> pevent list) \<Rightarrow> bytes list \<Rightarrow> parser \<Rightarrow> parser \<times> pevent list" where
  "each_frame body [] p = (p, [])"
| "each_frame body (f # fs) p =
     (case body f p of (p1, evs) \<Rightarrow> case each_frame body fs p1 of (p2, evs') \<Rightarrow> (p2, evs @ evs'))"

definition pass_serial :: "(nat \<Rightarrow> u64) \<Rightarrow> serial_packet \<Rightarrow> parser \<Rightarrow> (parser \<times> pevent list) option" where
  "pass_serial clock srx p =
     (let i = srx_index srx in
      if srx_type srx = LinkRS485 then
        if isRs485SlavePort (p_router p) i then
          (case drain req_tryGetFrame i (req_onBytes i (srx_bytes srx) (g_hmi_rtu p)) of None \<Rightarrow> None
           | Some (b, fs) \<Rightarrow> Some (each_frame (slave_frame clock i) fs (p\<lparr>g_hmi_rtu := b\<rparr>)))
        else
          (case drain fa_tryGetFrame i (fa_onBytes i (srx_bytes srx) (g_frame p)) of None \<Rightarrow> None
           | Some (b, fs) \<Rightarrow> Some (each_frame (master_frame clock parseRs485 LinkRS485 ''RS485 parse failed'' i) fs
                              (p\<lparr>g_frame := b\<rparr>)))
      else if srx_type srx = LinkRS232 then
        (case drain ascii_tryGetFrame i (ascii_onBytes i (srx_bytes srx) (g_ascii p)) of None \<Rightarrow> None
         | Some (b, fs) \<Rightarrow> Some (each_frame (master_frame clock parseRs232 LinkRS232 ''RS232 parse failed'' i) fs
                            (p\<lparr>g_ascii := b\<rparr>)))
      else Some (p, []))"

text \<open>One pass of the loop; None is a pass that never ends. A pass that finds both queues empty sleeps.\<close>

definition parser_pass :: "(nat \<Rightarrow> u64) \<Rightarrow> parser \<Rightarrow> (parser \<times> pevent list) option" where
  "parser_pass clock p =
     (case can_q p of
        (i, fr) # cs \<Rightarrow> Some (pass_can clock i fr (p\<lparr>can_q := cs\<rparr>))
      | [] \<Rightarrow>
          (case serial_q p of [] \<Rightarrow> Some (p, [])
           | srx # rest \<Rightarrow> pass_serial clock srx (p\<lparr>serial_q := rest\<rparr>)))"

fun parser_run :: "(nat \<Rightarrow> u64) \<Rightarrow> nat \<Rightarrow> parser \<Rightarrow> (parser \<times> pevent list) option" where
  "parser_run clock 0 p = Some (p, [])"
| "parser_run clock (Suc n) p =
     (case parser_pass clock p of None \<Rightarrow> None
      | Some (p1, evs) \<Rightarrow> (case parser_run clock n p1 of None \<Rightarrow> None
          | Some (p2, evs') \<Rightarrow> Some (p2, evs @ evs')))"

section \<open>What the frame bodies leave alone\<close>

text \<open>The queues, the assemblers, the callbacks and the configuration of the router.\<close>

definition same_frame :: "parser \<Rightarrow> parser \<Rightarrow> bool" where
  "same_frame p p' \<longleftrightarrow> serial_q p' = serial_q p \<and> can_q p' = can_q p \<and> g_ascii p' = g_ascii p \<and>
     g_frame p' = g_frame p \<and> g_hmi_rtu p' = g_hmi_rtu p \<and> has_on_parsed p' = has_on_parsed p \<and>
     has_send_serial p' = has_send_serial p \<and> r_cfg (p_router p') = r_cfg (p_router p)"

lemma same_frame_refl [simp]: "same_frame p p"
  by (simp add: same_frame_def)

lemma same_frame_trans: "same_frame p q \<Longrightarrow> same_frame q r \<Longrightarrow> same_frame p r"
  by (simp add: same_frame_def)

lemma pass_can_same: "same_frame p (fst (pass_can clock i fr p))"
  by (simp add: pass_can_def read_clock_def same_frame_def split: prod.splits can_result.splits)

lemma slave_frame_same: "same_frame p (fst (slave_frame clock i f p))"
proof -
  obtain ok tx r where r: "handleRs485Slave (p_router p) i f = (ok, tx, r)"
    by (cases "handleRs485Slave (p_router p) i f") auto
  then have "r_cfg r = r_cfg (p_router p)"
    by (auto simp: handleRs485Slave_def split: option.splits prod.splits)
  with r show ?thesis
    by (simp add: slave_frame_def heartbeat_def read_clock_def same_frame_def Let_def)
qed

lemma master_frame_same: "same_frame p (fst (master_frame clock parse ty text i f p))"
  by (simp add: master_frame_def read_clock_def same_frame_def split: prod.splits)

lemma each_frame_same:
  assumes "\<And>f p. same_frame p (fst (body f p))"
  shows "same_frame p (fst (each_frame body fs p))"
proof (induction fs arbitrary: p)
  case (Cons f fs)
  obtain p1 evs where p1: "body f p = (p1, evs)" by fastforce
  have "same_frame p p1" using assms [of p f] p1 by simp
  from same_frame_trans [OF this Cons [of p1]] show ?case by (cases "each_frame body fs p1") (simp add: p1)
qed simp

lemma pass_serial_returns:
  "\<exists>p' evs. pass_serial clock srx p = Some (p', evs) \<and> serial_q p' = serial_q p \<and> can_q p' = can_q p"
proof -
  let ?i = "srx_index srx"
  obtain b1 fs1 where d1: "drain req_tryGetFrame ?i (req_onBytes ?i (srx_bytes srx) (g_hmi_rtu p)) = Some (b1, fs1)"
    using req.drain_returns by blast
  obtain b2 fs2 where d2: "drain fa_tryGetFrame ?i (fa_onBytes ?i (srx_bytes srx) (g_frame p)) = Some (b2, fs2)"
    using fa.drain_returns by blast
  obtain b3 fs3 where d3: "drain ascii_tryGetFrame ?i (ascii_onBytes ?i (srx_bytes srx) (g_ascii p)) = Some (b3, fs3)"
    using ascii.drain_returns by blast
  have same: "serial_q (fst (each_frame body fs q)) = serial_q q \<and> can_q (fst (each_frame body fs q)) = can_q q"
    if "\<And>f p. same_frame p (fst (body f p))" for body fs q
    using each_frame_same [of body q fs, OF that] by (simp add: same_frame_def)
  have result: "\<exists>p' evs. Some (each_frame body fs q) = Some (p', evs) \<and> serial_q p' = serial_q p \<and> can_q p' = can_q p"
    if "\<And>f p. same_frame p (fst (body f p))" "serial_q q = serial_q p" "can_q q = can_q p" for body fs q
    using same [of body fs q, OF that(1)] that(2,3) by (cases "each_frame body fs q") simp
  have idle: "\<exists>p' evs. Some (p, [] :: pevent list) = Some (p', evs) \<and> serial_q p' = serial_q p \<and> can_q p' = can_q p"
    by simp
  show ?thesis unfolding pass_serial_def Let_def d1 d2 d3 option.case prod.case
    by (split if_split)+ (intro conjI impI idle result slave_frame_same master_frame_same; simp)
qed

lemma parser_pass_returns:
  "\<exists>p' evs. parser_pass clock p = Some (p', evs) \<and>
     can_q p' = tl (can_q p) \<and> serial_q p' = (if can_q p = [] then tl (serial_q p) else serial_q p)"
proof (cases "can_q p")
  case Nil
  show ?thesis
  proof (cases "serial_q p")
    case (Cons srx rest)
    then show ?thesis using Nil pass_serial_returns [of clock srx "p\<lparr>serial_q := rest\<rparr>"]
      by (auto simp: parser_pass_def)
  qed (simp add: parser_pass_def Nil)
next
  case (Cons c cs)
  obtain i fr where c: "c = (i, fr)" by fastforce
  define p0 where "p0 = p\<lparr>can_q := cs\<rparr>"
  have "parser_pass clock p = Some (pass_can clock i fr p0)" by (simp add: parser_pass_def Cons c p0_def)
  moreover have "can_q (fst (pass_can clock i fr p0)) = cs" "serial_q (fst (pass_can clock i fr p0)) = serial_q p"
    using pass_can_same [of p0 clock i fr] by (simp_all add: same_frame_def p0_def)
  ultimately show ?thesis using Cons by (cases "pass_can clock i fr p0") simp
qed

lemma parser_run_drains:
  "\<exists>p' evs. parser_run clock (length (can_q p) + length (serial_q p)) p = Some (p', evs) \<and>
     can_q p' = [] \<and> serial_q p' = []"
proof (induction "length (can_q p) + length (serial_q p)" arbitrary: p)
  case (Suc n)
  obtain p1 evs where p1: "parser_pass clock p = Some (p1, evs)" "can_q p1 = tl (can_q p)"
    "serial_q p1 = (if can_q p = [] then tl (serial_q p) else serial_q p)"
    using parser_pass_returns by blast
  have "length (can_q p1) + length (serial_q p1) = n"
    using Suc(2) p1(2,3) by (cases "can_q p"; cases "serial_q p") auto
  then show ?case using Suc(1) [of p1] p1(1) Suc(2) [symmetric] by fastforce
qed simp

section \<open>Properties\<close>

text \<open>C13: Every pass of the parser loop ends, whatever bytes and frames were received and whatever state the
  assemblers are in, and as many passes as there are queued packets leave both queues empty.\<close>

theorem parser_loop_ends:
  "(\<exists>p' evs. parser_pass clock p = Some (p', evs)) \<and>
   (\<exists>p' evs. parser_run clock (length (can_q p) + length (serial_q p)) p = Some (p', evs) \<and>
      can_q p' = [] \<and> serial_q p' = [])"
  using parser_pass_returns [of clock p] parser_run_drains [of clock p] by blast

section \<open>The panel, end to end\<close>

text \<open>The specification: the requests are answered one after the other, each by the request handler on the
  state its predecessors left.\<close>

fun serve :: "bytes list \<Rightarrow> hmi \<Rightarrow> hmi \<times> bytes list" where
  "serve [] h = (h, [])"
| "serve (f # fs) h =
     (case handleRequest f h of (ok, resp, h1) \<Rightarrow>
      case serve fs h1 of (h2, txs) \<Rightarrow> (h2, (if ok \<and> resp \<noteq> [] then [resp] else []) @ txs))"

definition sent :: "pevent list \<Rightarrow> (link_type \<times> int \<times> bytes) list" where
  "sent evs = concat (map (\<lambda>e. case e of SendSerial ty i b \<Rightarrow> [(ty, i, b)] | _ \<Rightarrow> []) evs)"

lemma sent_append [simp]: "sent (a @ b) = sent a @ sent b"
  by (simp add: sent_def)

lemma sent_simps [simp]: "sent [] = []" "sent (SendSerial ty i b # evs) = (ty, i, b) # sent evs"
  "sent (OnParsed m # evs) = sent evs"
  by (simp_all add: sent_def)

definition panel_at :: "parser \<Rightarrow> int \<Rightarrow> hmi \<Rightarrow> bool" where
  "panel_at p i h \<longleftrightarrow> smap_ok (r_proto (p_router p)) \<and> map_of (r_proto (p_router p)) i = Some (HmiP h) \<and>
     isRs485SlavePort (p_router p) i \<and> has_send_serial p"

lemma slave_frame_panel:
  assumes "panel_at p i h" "handleRequest f h = (ok, resp, h')" "slave_frame clock i f p = (p', evs)"
  shows "panel_at p' i h' \<and>
    sent evs = (if ok \<and> resp \<noteq> [] then [(LinkRS485, i, resp)] else [])"
  using assms
  by (auto simp: panel_at_def slave_frame_def handleRs485Slave_def heartbeat_def read_clock_def report_def
      isRs485SlavePort_def Let_def split: if_splits)

lemma each_frame_panel:
  assumes "panel_at p i h" "each_frame (slave_frame clock i) fs p = (p', evs)"
  shows "panel_at p' i (fst (serve fs h)) \<and> sent evs = map (\<lambda>b. (LinkRS485, i, b)) (snd (serve fs h))"
  using assms
proof (induction fs arbitrary: p h p' evs)
  case (Cons f fs)
  obtain ok resp h1 where h1: "handleRequest f h = (ok, resp, h1)" by (cases "handleRequest f h") auto
  obtain p1 evs1 where p1: "slave_frame clock i f p = (p1, evs1)" by fastforce
  obtain evs2 where p2: "each_frame (slave_frame clock i) fs p1 = (p', evs2)" "evs = evs1 @ evs2"
    using Cons.prems(2) p1 by (auto split: prod.splits)
  note one = slave_frame_panel [OF Cons.prems(1) h1 p1]
  from Cons.IH [OF one [THEN conjunct1] p2(1)] one h1 p2(2) show ?case by (cases "serve fs h1") simp
qed simp

lemma serve_append:
  "serve (fs @ gs) h = (case serve fs h of (h1, a) \<Rightarrow> case serve gs h1 of (h2, b) \<Rightarrow> (h2, a @ b))"
  by (induction fs arbitrary: h) (auto split: prod.splits)

lemma panel_chunks:
  assumes "panel_at p i h" "can_q p = []"
    and "serial_q p = map (\<lambda>c. \<lparr>srx_type = LinkRS485, srx_index = i, srx_bytes = c\<rparr>) chunks"
    and "feed req_onBytes req_tryGetFrame i chunks (g_hmi_rtu p) = Some (b, fs)"
  shows "\<exists>p' evs. parser_run clock (length chunks) p = Some (p', evs) \<and> panel_at p' i (fst (serve fs h)) \<and>
     sent evs = map (\<lambda>b. (LinkRS485, i, b)) (snd (serve fs h)) \<and> g_hmi_rtu p' = b"
  using assms
proof (induction chunks arbitrary: p h b fs)
  case (Cons c cs)
  obtain b1 fs1 fs2 where d: "drain req_tryGetFrame i (req_onBytes i c (g_hmi_rtu p)) = Some (b1, fs1)"
    and f: "feed req_onBytes req_tryGetFrame i cs b1 = Some (b, fs2)" and fs: "fs = fs1 @ fs2"
    using Cons.prems(4) by (auto split: option.splits)
  define q where "q = p\<lparr>serial_q := map (\<lambda>c. \<lparr>srx_type = LinkRS485, srx_index = i, srx_bytes = c\<rparr>) cs, g_hmi_rtu := b1\<rparr>"
  obtain p1 evs1 where e: "each_frame (slave_frame clock i) fs1 q = (p1, evs1)" by fastforce
  have pass: "parser_pass clock p = Some (p1, evs1)"
    using Cons.prems(1-3) d e by (simp add: parser_pass_def pass_serial_def panel_at_def q_def Let_def)
  have "panel_at q i h" using Cons.prems(1) by (simp add: panel_at_def q_def)
  from each_frame_panel [OF this e] have one: "panel_at p1 i (fst (serve fs1 h))"
    "sent evs1 = map (\<lambda>b. (LinkRS485, i, b)) (snd (serve fs1 h))" by simp_all
  have kept: "same_frame q p1" using each_frame_same [of "slave_frame clock i" q fs1] slave_frame_same e by simp
  have "can_q p1 = []" "serial_q p1 = map (\<lambda>c. \<lparr>srx_type = LinkRS485, srx_index = i, srx_bytes = c\<rparr>) cs"
    "g_hmi_rtu p1 = b1" using kept Cons.prems(2) by (simp_all add: same_frame_def q_def)
  from Cons.IH [OF one(1) this(1,2)] f this(3) obtain p2 evs2 where
    "parser_run clock (length cs) p1 = Some (p2, evs2)" "panel_at p2 i (fst (serve fs2 (fst (serve fs1 h))))"
    "sent evs2 = map (\<lambda>b. (LinkRS485, i, b)) (snd (serve fs2 (fst (serve fs1 h))))" "g_hmi_rtu p2 = b"
    by auto
  then show ?case using pass one(2)
    by (cases "serve fs1 h"; cases "serve fs2 (fst (serve fs1 h))") (simp add: fs serve_append)
qed simp

text \<open>C11: Whatever way the bytes of a sequence of well-formed Modbus requests are cut into received chunks, the
  parser thread sends to the panel exactly the answers of the request handler, in order, on the same line,
  and the panel's table ends in the state the handler leaves.\<close>

theorem panel_requests_answered:
  assumes "panel_at p i h" and "can_q p = []" and "buffered i (g_hmi_rtu p) = []"
    and "serial_q p = map (\<lambda>c. \<lparr>srx_type = LinkRS485, srx_index = i, srx_bytes = c\<rparr>) chunks"
    and "\<forall>f \<in> set fs. expectedLen f = int (length f) \<and> verify f" and "concat chunks = concat fs"
  shows "\<exists>p' evs. parser_run clock (length chunks) p = Some (p', evs) \<and> panel_at p' i (fst (serve fs h)) \<and>
     sent evs = map (\<lambda>b. (LinkRS485, i, b)) (snd (serve fs h)) \<and> buffered i (g_hmi_rtu p') = []"
proof -
  obtain b where "feed req_onBytes req_tryGetFrame i chunks (g_hmi_rtu p) = Some (b, fs)" "buffered i b = []"
    using req.feed_fresh [of fs chunks i "g_hmi_rtu p"] assms(3,5,6) by (auto simp: request_frame_def)
  from panel_chunks [OF assms(1,2,4) this(1)] this(2) show ?thesis by blast
qed

definition wit_parser :: "bytes list \<Rightarrow> parser" where
  "wit_parser chunks = \<lparr>serial_q = map (\<lambda>c. \<lparr>srx_type = LinkRS485, srx_index = 3, srx_bytes = c\<rparr>) chunks,
     can_q = [], g_ascii = Map.empty, g_frame = Map.empty, g_hmi_rtu = Map.empty, p_router = router_fallback,
     p_bms_queue = [], last_hmi_heartbeat_ts = 0, has_on_parsed = True, has_send_serial = True, clock_reads = 0\<rparr>"

theorem panel_requests_answered_witness:
  "\<exists>p' evs. parser_run (\<lambda>n. of_nat n) 2 (wit_parser [[0x01, 0x06, 0x20], [0x01, 0x00, 0x05, 0x13, 0xC9]]) = Some (p', evs) \<and>
     sent evs = map (\<lambda>b. (LinkRS485, 3, b)) (snd (serve [[0x01, 0x06, 0x20, 0x01, 0x00, 0x05, 0x13, 0xC9]] (hmi_init 1)))"
proof -
  let ?p = "wit_parser [[0x01, 0x06, 0x20], [0x01, 0x00, 0x05, 0x13, 0xC9]]"
  have "panel_at ?p 3 (hmi_init 1)"
    by (simp add: panel_at_def wit_parser_def router_fallback_def bind_rs485_def router_empty_def
        isRs485SlavePort_def smap_ok_def Let_def)
  moreover have "can_q ?p = []" "buffered 3 (g_hmi_rtu ?p) = []"
    "serial_q ?p = map (\<lambda>c. \<lparr>srx_type = LinkRS485, srx_index = 3, srx_bytes = c\<rparr>)
       [[0x01, 0x06, 0x20], [0x01, 0x00, 0x05, 0x13, 0xC9]]" by (simp_all add: wit_parser_def buffered_def)
  moreover have "\<forall>f \<in> set [[0x01, 0x06, 0x20, 0x01, 0x00, 0x05, 0x13, 0xC9 :: u8]]. expectedLen f = int (length f) \<and> verify f"
    by (simp add: expectedLen_def crc_eval)
  ultimately have "\<exists>p' evs. parser_run (\<lambda>n. of_nat n) (length [[0x01, 0x06, 0x20], [0x01, 0x00, 0x05, 0x13, 0xC9 :: u8]]) ?p = Some (p', evs) \<and>
     panel_at p' 3 (fst (serve [[0x01, 0x06, 0x20, 0x01, 0x00, 0x05, 0x13, 0xC9]] (hmi_init 1))) \<and>
     sent evs = map (\<lambda>b. (LinkRS485, 3, b)) (snd (serve [[0x01, 0x06, 0x20, 0x01, 0x00, 0x05, 0x13, 0xC9]] (hmi_init 1))) \<and>
     buffered 3 (g_hmi_rtu p') = []"
    by (rule panel_requests_answered) simp
  then show ?thesis by (simp add: numeral_2_eq_2) blast
qed

end
