(* ===== verification/Device_Scheduler.thy ===== *)
theory Device_Scheduler
  imports Protocol_Parser "HOL-Library.Char_ord" "HOL-Library.List_Lexorder"
begin

text \<open>
  The scheduler that polls the serial devices (\<open>app/scheduler/device_scheduler.cpp\<close>) on the timer of
  \<open>app/scheduler/scheduler_timer.cpp\<close>: the tasks made from the configuration, the tick that ages the
  online states and collects the due tasks, and the reaction to received data. The table of contexts is a
  \<open>std::map\<close> in the order of the device names. What a tick does to the outside is its list of polls and of
  devices whose health changed.
\<close>

section \<open>State\<close>

datatype poll_state = ONLINE | OFFLINE

record poll_ctx =
  pc_state :: poll_state
  last_ok_ms :: u64
  last_send_ms :: u64
  disconnect_window_ms :: u32
  last_offline_ms :: u64
  disconnect_count :: u32
  online :: bool

definition ctx_init :: poll_ctx where
  "ctx_init = \<lparr>pc_state = OFFLINE, last_ok_ms = 0, last_send_ms = 0, disconnect_window_ms = 2000,
     last_offline_ms = 0, disconnect_count = 0, online = False\<rparr>"

record poll_task =
  pt_type :: link_type
  pt_index :: int
  pt_device_name :: string
  period_ms :: u32
  next_due_ms :: u64
  pt_disconnect_window_ms :: u32
  pt_enable :: bool

type_synonym poll_ctxs = "(string \<times> poll_ctx) list"

record timer_item =
  ti_interval_ms :: u32
  ti_next_tick :: u64

record scheduler =
  sched_running :: bool
  timer_running :: bool
  timer_items :: "timer_item list"
  tasks :: "poll_task list"
  poll_ctxs :: poll_ctxs
  has_parser :: bool

definition sched_new :: scheduler where
  "sched_new = \<lparr>sched_running = False, timer_running = False, timer_items = [], tasks = [], poll_ctxs = [],
     has_parser = False\<rparr>"

definition SCHED_TICK_MS :: u32 where "SCHED_TICK_MS = 50"

text \<open>\<open>poll_ctx_[name]\<close> makes a fresh context for an unknown name.\<close>

definition ctx_at :: "string \<Rightarrow> poll_ctxs \<Rightarrow> poll_ctx" where
  "ctx_at n m = (case map_of m n of Some c \<Rightarrow> c | None \<Rightarrow> ctx_init)"

section \<open>Start and stop\<close>

definition addTask :: "link_type \<Rightarrow> int \<Rightarrow> string \<Rightarrow> u32 \<Rightarrow> u32 \<Rightarrow> scheduler \<Rightarrow> scheduler" where
  "addTask ty i name period window s =
     s\<lparr>tasks := tasks s @ [\<lparr>pt_type = ty, pt_index = i, pt_device_name = name, period_ms = period,
         next_due_ms = 0, pt_disconnect_window_ms = window, pt_enable = True\<rparr>],
       poll_ctxs := smap_put name (ctx_init\<lparr>disconnect_window_ms := window\<rparr>) (poll_ctxs s)\<rparr>"

definition cfg_window :: "poll_cfg \<Rightarrow> u32" where
  "cfg_window poll =
     (let req_timeout = (if timeout_ms poll = 0 then 300 else timeout_ms poll);
          base_period = (if interval_ms poll = 0 then 1000 else interval_ms poll)
      in if poll_disconnect_window_ms poll = 0 then max req_timeout (max (base_period * 3) 1000)
         else poll_disconnect_window_ms poll)"

definition addTaskFromCfg :: "link_type \<Rightarrow> int \<Rightarrow> string \<Rightarrow> poll_cfg \<Rightarrow> scheduler \<Rightarrow> scheduler" where
  "addTaskFromCfg ty i name poll s =
     (let period = (if interval_ms poll = 0 then 1000 else interval_ms poll) in
      s\<lparr>tasks := tasks s @ [\<lparr>pt_type = ty, pt_index = i, pt_device_name = name, period_ms = period,
          next_due_ms = 0, pt_disconnect_window_ms = cfg_window poll, pt_enable = poll_enable poll\<rparr>],
        poll_ctxs := smap_put name (ctx_init\<lparr>disconnect_window_ms := cfg_window poll\<rparr>) (poll_ctxs s)\<rparr>)"

definition rs485_device_name :: "rs485_link \<Rightarrow> string" where
  "rs485_device_name l =
     (case l485_type l of GasType \<Rightarrow> ''GasDetector'' | SmokeType \<Rightarrow> ''SmokeSensor''
      | AirConditionerType \<Rightarrow> ''AirConditioner''
      | _ \<Rightarrow> if l485_name l \<noteq> [] then l485_name l else ''RS485Device'')"

definition add_rs485 :: "scheduler \<Rightarrow> rs485_link \<Rightarrow> scheduler" where
  "add_rs485 s l =
     (if l485_role l \<noteq> MasterPoll \<or> \<not> poll_enable (l485_poll l) then s
      else addTaskFromCfg LinkRS485 (l485_index l) (rs485_device_name l) (l485_poll l) s)"

definition add_rs232 :: "scheduler \<Rightarrow> rs232_link \<Rightarrow> scheduler" where
  "add_rs232 s l =
     (if l232_role l \<noteq> MasterPoll \<or> \<not> poll_enable (l232_poll l) then s
      else addTaskFromCfg LinkRS232 (l232_index l)
             (if l232_type l = ''ups_ascii'' then ''UPS'' else if l232_name l \<noteq> [] then l232_name l else ''RS232Device'')
             (l232_poll l) s)"

definition load_tasks :: "system_config option \<Rightarrow> scheduler \<Rightarrow> scheduler" where
  "load_tasks sys s =
     (case sys of None \<Rightarrow>
        addTask LinkRS232 0 ''UPS'' 200 2000 (addTask LinkRS485 1 ''AirConditioner'' 200 1500
          (addTask LinkRS485 2 ''SmokeSensor'' 200 1500 (addTask LinkRS485 3 ''GasDetector'' 200 1500 s)))
      | Some sys \<Rightarrow> foldl add_rs232 (foldl add_rs485 s (rs485_links sys)) (rs232_links sys))"

definition timer_addPeriodic :: "u32 \<Rightarrow> u64 \<Rightarrow> scheduler \<Rightarrow> scheduler" where
  "timer_addPeriodic interval now s =
     s\<lparr>timer_items := timer_items s @ [\<lparr>ti_interval_ms = interval, ti_next_tick = now + ucast interval\<rparr>]\<rparr>"

definition sched_start :: "system_config option \<Rightarrow> u64 \<Rightarrow> scheduler \<Rightarrow> scheduler" where
  "sched_start sys now s =
     (if sched_running s then s
      else let s = s\<lparr>sched_running := True\<rparr>;
               s = (if tasks s = [] then load_tasks sys s else s);
               s = timer_addPeriodic SCHED_TICK_MS now s
           in s\<lparr>timer_running := True\<rparr>)"

text \<open>\<open>stop\<close> clears the flag and then tests it again before it stops the timer.\<close>

definition sched_stop :: "scheduler \<Rightarrow> scheduler" where
  "sched_stop s =
     (if \<not> sched_running s then s
      else let s = s\<lparr>sched_running := False\<rparr> in
        if \<not> sched_running s then s
        else s\<lparr>sched_running := False, timer_running := False\<rparr>)"

section \<open>Data and ticks\<close>

text \<open>\<open>findTaskLocked\<close> returns the first task of the device.\<close>

fun postpone :: "string \<Rightarrow> u64 \<Rightarrow> poll_task list \<Rightarrow> poll_task list" where
  "postpone name now [] = []"
| "postpone name now (t # ts) =
     (if pt_device_name t = name then t\<lparr>next_due_ms := now + ucast (period_ms t)\<rparr> # ts
      else t # postpone name now ts)"

text \<open>The result is the new state and whether the health callback is called for the device; the data
  callback is always called.\<close>

definition sched_onDeviceData :: "u64 \<Rightarrow> string \<Rightarrow> scheduler \<Rightarrow> scheduler \<times> bool" where
  "sched_onDeviceData now name s =
     (let ctx = ctx_at name (poll_ctxs s); was_online = online ctx;
          ctx = ctx\<lparr>last_ok_ms := now, pc_state := ONLINE, online := True\<rparr>
      in (s\<lparr>poll_ctxs := smap_put name ctx (poll_ctxs s), tasks := postpone name now (tasks s)\<rparr>,
          \<not> was_online \<and> online ctx))"

definition fresh :: "u64 \<Rightarrow> poll_ctx \<Rightarrow> bool" where
  "fresh now ctx \<longleftrightarrow> last_ok_ms ctx \<noteq> 0 \<and> last_ok_ms ctx \<le> now \<and>
     now - last_ok_ms ctx \<le> ucast (disconnect_window_ms ctx)"

definition age_ctx :: "u64 \<Rightarrow> poll_ctx \<Rightarrow> poll_ctx" where
  "age_ctx now ctx =
     (let old_online = online ctx; new_online = fresh now ctx;
          ctx = ctx\<lparr>online := new_online, pc_state := (if new_online then ONLINE else OFFLINE)\<rparr>
      in if old_online \<and> \<not> new_online
         then ctx\<lparr>last_offline_ms := now, disconnect_count := disconnect_count ctx + 1\<rparr> else ctx)"

definition tick_task :: "u64 \<Rightarrow> poll_task \<Rightarrow> poll_task \<times> bool" where
  "tick_task now t =
     (if \<not> pt_enable t then (t, False)
      else let t = (if next_due_ms t = 0 then t\<lparr>next_due_ms := now\<rparr> else t) in
        if now < next_due_ms t then (t, False)
        else (t\<lparr>next_due_ms := now + ucast (period_ms t)\<rparr>, True))"

definition mark_sent :: "u64 \<Rightarrow> poll_ctxs \<Rightarrow> poll_task \<Rightarrow> poll_ctxs" where
  "mark_sent now m t = smap_put (pt_device_name t) ((ctx_at (pt_device_name t) m)\<lparr>last_send_ms := now\<rparr>) m"

text \<open>The due tasks and the devices whose health changed, with the new state.\<close>

definition pollTick :: "u64 \<Rightarrow> scheduler \<Rightarrow> scheduler \<times> poll_task list \<times> string list" where
  "pollTick now s =
     (if \<not> has_parser s then (s, [], [])
      else let aged = map (\<lambda>(n, c). (n, age_ctx now c)) (poll_ctxs s);
               changed = map fst (filter (\<lambda>(n, c). online c \<noteq> fresh now c) (poll_ctxs s));
               due = filter (\<lambda>t. snd (tick_task now t)) (tasks s)
           in (s\<lparr>tasks := map (\<lambda>t. fst (tick_task now t)) (tasks s),
                 poll_ctxs := foldl (mark_sent now) aged due\<rparr>, due, changed))"

definition getPollCtx :: "string \<Rightarrow> scheduler \<Rightarrow> poll_ctx option" where
  "getPollCtx name s = map_of (poll_ctxs s) name"

text \<open>The polls of a tick, handed to the parser in order.\<close>

fun send_polls :: "poll_task list \<Rightarrow> parser \<Rightarrow> parser \<times> pevent list" where
  "send_polls [] p = (p, [])"
| "send_polls (t # ts) p =
     (case sendPoll p (pt_type t) (pt_index t) of (ok, p1, evs) \<Rightarrow>
      case send_polls ts p1 of (p2, evs') \<Rightarrow> (p2, evs @ evs'))"

text \<open>One pass of the timer thread: every item that is due runs the tick of the scheduler.\<close>

fun timer_due :: "u64 \<Rightarrow> timer_item list \<Rightarrow> timer_item list \<times> nat" where
  "timer_due now [] = ([], 0)"
| "timer_due now (it # its) =
     (case timer_due now its of (its', n) \<Rightarrow>
        if ti_next_tick it \<le> now then (it\<lparr>ti_next_tick := now + ucast (ti_interval_ms it)\<rparr> # its', Suc n)
        else (it # its', n))"

fun ticks :: "nat \<Rightarrow> u64 \<Rightarrow> scheduler \<Rightarrow> scheduler \<times> poll_task list \<times> string list" where
  "ticks 0 now s = (s, [], [])"
| "ticks (Suc n) now s =
     (case pollTick now s of (s1, due, changed) \<Rightarrow>
      case ticks n now s1 of (s2, due', changed') \<Rightarrow> (s2, due @ due', changed @ changed'))"

definition timer_pass :: "u64 \<Rightarrow> scheduler \<Rightarrow> scheduler \<times> poll_task list \<times> string list" where
  "timer_pass now s =
     (if \<not> timer_running s then (s, [], [])
      else case timer_due now (timer_items s) of (its, n) \<Rightarrow> ticks n now (s\<lparr>timer_items := its\<rparr>))"

section \<open>Facts\<close>

lemma length_postpone [simp]: "length (postpone name now ts) = length ts"
  by (induction ts) simp_all

lemma postpone_nth:
  "k < length ts \<Longrightarrow> postpone name now ts ! k = ts ! k \<or>
     postpone name now ts ! k = (ts ! k)\<lparr>next_due_ms := now + ucast (period_ms (ts ! k))\<rparr>"
  by (induction ts arbitrary: k) (auto simp: nth_Cons split: nat.splits)

lemma age_ctx_fields [simp]:
  "last_ok_ms (age_ctx now c) = last_ok_ms c" "disconnect_window_ms (age_ctx now c) = disconnect_window_ms c"
  "online (age_ctx now c) = fresh now c" "fresh now' (age_ctx now c) = fresh now' c"
  "pc_state (age_ctx now c) = (if fresh now c then ONLINE else OFFLINE)"
  by (simp_all add: age_ctx_def fresh_def Let_def)

lemma map_of_map_snd: "map_of (map (\<lambda>(k, v). (k, f v)) m) k = map_option f (map_of m k)"
  by (induction m) auto

lemma mark_sent_lookup:
  assumes "smap_ok m" "map_of m n = Some c"
  shows "\<exists>x. map_of (foldl (mark_sent now) m due) n = Some (c\<lparr>last_send_ms := x\<rparr>) \<and>
             smap_ok (foldl (mark_sent now) m due)"
  using assms
proof (induction due arbitrary: m c)
  case Nil
  then show ?case by (intro exI [of _ "last_send_ms c"]) simp
next
  case (Cons t due)
  define m1 where "m1 = mark_sent now m t"
  have ok: "smap_ok m1" using Cons.prems(1) by (simp add: m1_def mark_sent_def)
  have "map_of m1 n = Some (if pt_device_name t = n then c\<lparr>last_send_ms := now\<rparr> else c)"
    using Cons.prems by (auto simp: m1_def mark_sent_def ctx_at_def)
  from Cons.IH [OF ok this] obtain x where
    "map_of (foldl (mark_sent now) m1 due) n = Some ((if pt_device_name t = n then c\<lparr>last_send_ms := now\<rparr> else c)\<lparr>last_send_ms := x\<rparr>)"
    "smap_ok (foldl (mark_sent now) m1 due)" by blast
  then show ?case by (intro exI [of _ x]) (simp add: m1_def split: if_splits)
qed

section \<open>Histories of one task\<close>

datatype sched_event = Tick u64 | Data u64 string

fun event_time :: "sched_event \<Rightarrow> u64" where
  "event_time (Tick now) = now" | "event_time (Data now n) = now"

text \<open>The times at which the task at position \<open>k\<close> is polled.\<close>

fun poll_times :: "nat \<Rightarrow> sched_event list \<Rightarrow> scheduler \<Rightarrow> u64 list" where
  "poll_times k [] s = []"
| "poll_times k (Tick now # es) s =
     (if has_parser s \<and> snd (tick_task now (tasks s ! k)) then [now] else []) @
     poll_times k es (fst (pollTick now s))"
| "poll_times k (Data now n # es) s = poll_times k es (fst (sched_onDeviceData now n s))"

lemma tick_keeps [simp]:
  "length (tasks (fst (pollTick now s))) = length (tasks s)"
  "has_parser (fst (pollTick now s)) = has_parser s"
  "length (tasks (fst (sched_onDeviceData now n s))) = length (tasks s)"
  "has_parser (fst (sched_onDeviceData now n s)) = has_parser s"
  by (simp_all add: pollTick_def sched_onDeviceData_def Let_def)

lemma tick_task_nth:
  "k < length (tasks s) \<Longrightarrow>
   tasks (fst (pollTick now s)) ! k = (if has_parser s then fst (tick_task now (tasks s ! k)) else tasks s ! k)"
  by (simp add: pollTick_def Let_def)

lemma tick_task_period [simp]: "period_ms (fst (tick_task now t)) = period_ms t"
  by (simp add: tick_task_def Let_def)

lemma add_period_unat:
  assumes "unat now < 2 ^ 63"
  shows "unat (now + ucast (period :: u32) :: u64) = unat now + unat period"
proof -
  have "unat period < 2 ^ 32" using unsigned_less [of period] by simp
  moreover have "unat (ucast period :: u64) = unat period" by transfer (simp add: take_bit_eq_mod)
  ultimately show ?thesis using assms by (simp add: unat_word_ariths)
qed

text \<open>The next due time lies at most one period after the time of the last event, and no poll happens before
  it.\<close>

lemma poll_times_spaced:
  fixes t0 :: u64
  assumes "k < length (tasks s)" "sorted_wrt (\<le>) (map event_time es)"
    and "\<forall>e \<in> set es. unat t0 \<le> unat (event_time e) \<and> unat (event_time e) < 2 ^ 63"
    and "unat (next_due_ms (tasks s ! k)) \<le> unat t0 + unat (period_ms (tasks s ! k))"
  shows "sorted_wrt (\<lambda>a b. unat a + unat (period_ms (tasks s ! k)) \<le> unat b) (poll_times k es s) \<and>
     (\<forall>b \<in> set (poll_times k es s). unat (next_due_ms (tasks s ! k)) \<le> unat b)"
  using assms
proof (induction es arbitrary: s t0)
  case (Cons e es)
  let ?now = "event_time e"
  define s1 where "s1 = (case e of Tick now \<Rightarrow> fst (pollTick now s) | Data now n \<Rightarrow> fst (sched_onDeviceData now n s))"
  define t where "t = tasks s ! k"
  define t1 where "t1 = tasks s1 ! k"
  define hit where "hit \<longleftrightarrow> (case e of Tick now \<Rightarrow> has_parser s \<and> snd (tick_task now t) | _ \<Rightarrow> False)"
  have now: "unat t0 \<le> unat ?now" "unat ?now < 2 ^ 63" using Cons.prems(3) by simp_all
  have due: "unat (next_due_ms t) \<le> unat ?now + unat (period_ms t)" using Cons.prems(4) now(1) by (simp add: t_def)
  have rest: "poll_times k (e # es) s = (if hit then [?now] else []) @ poll_times k es s1"
    by (cases e) (simp_all add: hit_def s1_def t_def)
  have step: "period_ms t1 = period_ms t \<and> unat (next_due_ms t1) \<le> unat ?now + unat (period_ms t) \<and>
      unat (next_due_ms t) \<le> unat (next_due_ms t1) \<and>
      (hit \<longrightarrow> unat (next_due_ms t) \<le> unat ?now \<and> unat (next_due_ms t1) = unat ?now + unat (period_ms t))"
  proof (cases e)
    case (Tick now)
    then have "t1 = (if has_parser s then fst (tick_task now t) else t)"
      using tick_task_nth [OF Cons.prems(1)] by (simp add: t1_def s1_def t_def)
    then show ?thesis
      using Tick due now(2) add_period_unat [of now "period_ms t"]
      by (auto simp: hit_def tick_task_def Let_def word_less_nat_alt split: if_splits)
  next
    case (Data now n)
    then have "t1 = t \<or> t1 = t\<lparr>next_due_ms := now + ucast (period_ms t)\<rparr>"
      using postpone_nth [OF Cons.prems(1)] by (simp add: t1_def s1_def t_def sched_onDeviceData_def Let_def)
    then show ?thesis using Data due now(2) add_period_unat [of now "period_ms t"] by (auto simp: hit_def)
  qed
  have "sorted_wrt (\<lambda>a b. unat a + unat (period_ms (tasks s1 ! k)) \<le> unat b) (poll_times k es s1) \<and>
     (\<forall>b \<in> set (poll_times k es s1). unat (next_due_ms (tasks s1 ! k)) \<le> unat b)"
  proof (rule Cons.IH [of s1 ?now])
    show "k < length (tasks s1)" using Cons.prems(1) by (cases e) (simp_all add: s1_def)
    show "sorted_wrt (\<le>) (map event_time es)" using Cons.prems(2) by simp
    show "\<forall>e' \<in> set es. unat ?now \<le> unat (event_time e') \<and> unat (event_time e') < 2 ^ 63"
      using Cons.prems(2,3) by (auto simp: word_le_nat_alt)
    show "unat (next_due_ms (tasks s1 ! k)) \<le> unat ?now + unat (period_ms (tasks s1 ! k))"
      using step by (simp add: t1_def)
  qed
  then show ?case using step unfolding rest by (force simp: t_def [symmetric] t1_def [symmetric])
qed simp

lemma tick_lookup:
  assumes "has_parser s" "smap_ok (poll_ctxs s)" "map_of (poll_ctxs s) name = Some c"
  shows "\<exists>x. getPollCtx name (fst (pollTick now s)) = Some ((age_ctx now c)\<lparr>last_send_ms := x\<rparr>)"
proof -
  define aged where "aged = map (\<lambda>(n, c). (n, age_ctx now c)) (poll_ctxs s)"
  have "smap_ok aged" using assms(2) smap_ok_map [of "\<lambda>n c. age_ctx now c"] by (simp add: aged_def)
  moreover have "map_of aged name = Some (age_ctx now c)"
    using assms(3) by (simp add: aged_def map_of_map_snd)
  ultimately obtain x where "map_of (foldl (mark_sent now) aged (filter (\<lambda>t. snd (tick_task now t)) (tasks s))) name =
      Some ((age_ctx now c)\<lparr>last_send_ms := x\<rparr>)"
    using mark_sent_lookup [of aged name "age_ctx now c" now "filter (\<lambda>t. snd (tick_task now t)) (tasks s)"] by blast
  then show ?thesis
    using assms(1) by (intro exI [of _ x]) (simp add: pollTick_def getPollCtx_def aged_def Let_def)
qed

lemma changed_iff:
  assumes "has_parser s" "smap_ok (poll_ctxs s)" "map_of (poll_ctxs s) name = Some c"
  shows "name \<in> set (snd (snd (pollTick now s))) \<longleftrightarrow> online c \<noteq> fresh now c"
proof -
  have "(name, c') \<in> set (poll_ctxs s) \<longleftrightarrow> c' = c" for c'
    using assms(3) map_of_is_SomeI [OF smap_ok_distinct [OF assms(2)], of name c'] map_of_SomeD by fastforce
  then show ?thesis using assms(1) by (force simp: pollTick_def Let_def image_iff)
qed

lemma pollTick_running:
  "pollTick now (s\<lparr>sched_running := b\<rparr>) =
     (case pollTick now s of (s', due, changed) \<Rightarrow> (s'\<lparr>sched_running := b\<rparr>, due, changed))"
  by (simp add: pollTick_def Let_def)

lemma ticks_running: "snd (ticks n now (s\<lparr>sched_running := b\<rparr>)) = snd (ticks n now s)"
proof (induction n arbitrary: s)
  case (Suc n)
  obtain s1 due changed where "pollTick now s = (s1, due, changed)" by (cases "pollTick now s") auto
  then show ?case using Suc [of s1] by (auto simp: pollTick_running split: prod.splits)
qed simp

lemma running_items: "s\<lparr>sched_running := b, timer_items := its\<rparr> = s\<lparr>timer_items := its, sched_running := b\<rparr>"
  by (cases s) simp

lemma query_nonempty [simp]:
  "buildReadHolding a st n \<noteq> []" "smoke_buildReadCmd a \<noteq> []" "bytes_of (c # cs) \<noteq> []"
  by (simp_all add: buildReadHolding_def smoke_buildReadCmd_def smoke_buildReadHolding_def close_lo_hi_def
      close_hi_lo_def bytes_of_def)

section \<open>Properties\<close>

text \<open>After a tick a device is online exactly when its last valid answer is at most its disconnect window
  old; the health callback is called exactly for the devices whose state changed, and a disconnection is
  counted exactly when an online device goes stale.\<close>

theorem tick_online_iff_fresh:
  assumes "has_parser s" and "smap_ok (poll_ctxs s)" and "map_of (poll_ctxs s) name = Some c"
  shows "\<exists>c'. getPollCtx name (fst (pollTick now s)) = Some c' \<and>
     (online c' \<longleftrightarrow> last_ok_ms c \<noteq> 0 \<and> last_ok_ms c \<le> now \<and> now - last_ok_ms c \<le> ucast (disconnect_window_ms c)) \<and>
     (pc_state c' = ONLINE \<longleftrightarrow> online c') \<and>
     (name \<in> set (snd (snd (pollTick now s))) \<longleftrightarrow> online c \<noteq> online c') \<and>
     disconnect_count c' = disconnect_count c + (if online c \<and> \<not> online c' then 1 else 0)"
proof -
  obtain x where x: "getPollCtx name (fst (pollTick now s)) = Some ((age_ctx now c)\<lparr>last_send_ms := x\<rparr>)"
    using tick_lookup [OF assms] by blast
  show ?thesis
    by (rule exI [of _ "(age_ctx now c)\<lparr>last_send_ms := x\<rparr>"])
      (simp add: x changed_iff [OF assms], simp add: fresh_def age_ctx_def Let_def)
qed

definition wit_sched :: scheduler where
  "wit_sched = (fst (sched_onDeviceData 1000 ''UPS'' (sched_start None 0 sched_new)))\<lparr>has_parser := True\<rparr>"

lemma wit_sched_ctx:
  "has_parser wit_sched" "smap_ok (poll_ctxs wit_sched)"
  "map_of (poll_ctxs wit_sched) ''UPS'' = Some \<lparr>pc_state = ONLINE, last_ok_ms = 1000, last_send_ms = 0,
     disconnect_window_ms = 2000, last_offline_ms = 0, disconnect_count = 0, online = True\<rparr>"
  by (simp_all add: wit_sched_def sched_onDeviceData_def sched_start_def load_tasks_def addTask_def sched_new_def
      timer_addPeriodic_def ctx_at_def ctx_init_def smap_ok_def Let_def)

theorem tick_online_iff_fresh_witness:
  "\<exists>c'. getPollCtx ''UPS'' (fst (pollTick 3001 wit_sched)) = Some c' \<and> \<not> online c' \<and> disconnect_count c' = 1 \<and>
     ''UPS'' \<in> set (snd (snd (pollTick 3001 wit_sched)))"
  using tick_online_iff_fresh [OF wit_sched_ctx, of 3001] by auto

text \<open>C35: Between two polls of a task at least its period passes, whatever data arrive in between: the polls
  of every task started by the scheduler keep their rate.\<close>

theorem polls_keep_period:
  assumes "k < length (tasks s)" and "next_due_ms (tasks s ! k) = 0"
    and "sorted_wrt (\<le>) (map event_time es)" and "\<forall>e \<in> set es. unat (event_time e) < 2 ^ 63"
  shows "sorted_wrt (\<lambda>a b. unat a + unat (period_ms (tasks s ! k)) \<le> unat b) (poll_times k es s)"
  using poll_times_spaced [of k s es 0] assms by simp

theorem polls_keep_period_witness:
  "sorted_wrt (\<lambda>a b. unat a + 200 \<le> unat b)
     (poll_times 0 [Tick 50, Tick 100, Tick 250, Data 300 ''GasDetector'', Tick 450, Tick 500]
        ((sched_start None 0 sched_new)\<lparr>has_parser := True\<rparr>))"
  using polls_keep_period [of 0 "(sched_start None 0 sched_new)\<lparr>has_parser := True\<rparr>"
      "[Tick 50, Tick 100, Tick 250, Data 300 ''GasDetector'', Tick 450, Tick 500]"]
  by (simp add: sched_start_def load_tasks_def addTask_def sched_new_def timer_addPeriodic_def Let_def)

text \<open>Stopping the scheduler does not stop its timer: every later pass of the timer still runs the ticks
  and polls the devices as if the scheduler were running.\<close>

theorem stop_leaves_timer_running:
  "timer_running (sched_stop s) = timer_running s \<and>
   snd (timer_pass now (sched_stop s)) = snd (timer_pass now s)"
proof -
  have "sched_stop s = s \<or> sched_stop s = s\<lparr>sched_running := False\<rparr>" by (simp add: sched_stop_def)
  moreover have "snd (timer_pass now (s\<lparr>sched_running := False\<rparr>)) = snd (timer_pass now s)"
    using ticks_running [of "snd (timer_due now (timer_items s))" now False
        "s\<lparr>timer_items := fst (timer_due now (timer_items s))\<rparr>"]
    by (cases "timer_due now (timer_items s)") (simp add: timer_pass_def running_items)
  ultimately show ?thesis by auto
qed

text \<open>Without a configuration file the tasks of the scheduler do not fit the links of the router: the
  poll of the gas detector reaches the panel's link and sends nothing, and the task named after the
  smoke sensor polls the air conditioner.\<close>

theorem fallback_polls_wrong_links:
  "let s = (sched_start None 0 sched_new)\<lparr>has_parser := True\<rparr>;
       p = (wit_parser [])\<lparr>p_router := router_new None\<rparr>
   in map (\<lambda>t. (pt_device_name t, snd (snd (sendPoll p (pt_type t) (pt_index t))))) (fst (snd (pollTick 50 s))) =
      [(''GasDetector'', []),
       (''SmokeSensor'', [SendSerial LinkRS485 2 (fst (aircon_buildReadCmd (aircon_init 1)))]),
       (''AirConditioner'', [SendSerial LinkRS485 1 (smoke_buildReadCmd 2)]),
       (''UPS'', [SendSerial LinkRS232 0 (bytes_of ''Q1'' @ [0x0D])])]"
  by (simp add: sched_start_def load_tasks_def addTask_def sched_new_def timer_addPeriodic_def pollTick_def
      tick_task_def sendPoll_def buildQuery_def buildQueryRs232_def router_new_def router_fallback_def bind_rs485_def
      router_empty_def wit_parser_def aircon_buildReadCmd_def aircon_init_def Let_def)

end
