(* ===== verification/Bms_Adapter.thy ===== *)
theory Bms_Adapter
  imports Bms_Types Bms_Signals
begin

text \<open>
  The adapter that copies the decoded battery messages into the cache of the control logic
  (\<open>services/control/bms/bms_logic_adapter.cpp\<close>): the lookups by key, the checks that mark measurements invalid,
  one update per message, and the handler that records arrival times, updates the fields of the message, decides
  whether the high voltage must open and summarises the faults. The document for the display that the same class
  builds is not part of the model. An update of a message is a list of updates of single fields, in the order of the
  source; each looks for the key \<open>bms.M.S\<close> first and for the bare signal name \<open>S\<close> next.
\<close>

section \<open>Identifying the battery and the message\<close>

definition isBmsDevice :: "device_data \<Rightarrow> bool" where "isBmsDevice d \<longleftrightarrow> device_name d = ''BMS''"

definition index_of_name :: "string \<Rightarrow> u32 option" where
  "index_of_name s =
     (if take 4 s = ''BMS_'' \<and> 4 < length s
      then let c = of_char (s ! 4) :: nat in if 49 \<le> c \<and> c \<le> 52 then Some (of_nat (c - 48)) else None
      else None)"

definition index_of_id :: "u32 \<Rightarrow> u32 option" where
  "index_of_id id29 =
     (let low12 = id29 AND 0xFFF; idx = drop_bit 8 low12 AND 0xF
      in if 1 \<le> idx \<and> idx \<le> 4 then Some idx else None)"

definition parseInstanceIndex :: "device_data \<Rightarrow> u32" where
  "parseInstanceIndex d =
     (case Option.bind (vals d ''__bms.instance_index'') (\<lambda>v. if 1 \<le> v \<and> v \<le> 4 then Some (word_of_int v) else None) of
        Some i \<Rightarrow> i
      | None \<Rightarrow>
          (case Option.bind (str d ''__bms.instance'') index_of_name of Some i \<Rightarrow> i
           | None \<Rightarrow>
               (case Option.bind (vals d ''__bms.id'') (\<lambda>i. index_of_id (word_of_int i)) of Some i \<Rightarrow> i
                | None \<Rightarrow> 0)))"

definition parseInstanceName :: "device_data \<Rightarrow> u32 \<Rightarrow> string" where
  "parseInstanceName d idx =
     (case str d ''__bms.instance'' of
        Some s \<Rightarrow> if s \<noteq> [] then s else if 1 \<le> idx \<and> idx \<le> 4 then bms_name (unat idx) else ''BMS_0''
      | None \<Rightarrow> if 1 \<le> idx \<and> idx \<le> 4 then bms_name (unat idx) else ''BMS_0'')"

definition parseMsgName :: "device_data \<Rightarrow> string" where
  "parseMsgName d = (case str d ''__bms.msg'' of Some s \<Rightarrow> if s \<noteq> [] then s else ''UNKNOWN'' | None \<Rightarrow> ''UNKNOWN'')"

definition parseRawHex :: "device_data \<Rightarrow> string" where
  "parseRawHex d = (case str d ''__bms.raw_hex'' of Some s \<Rightarrow> s | None \<Rightarrow> [])"

section \<open>Reading values\<close>

text \<open>Conversion of a floating-point number to an integer, used on values in range only, where it truncates.\<close>

fun dbl_trunc :: "dbl \<Rightarrow> int" where
  "dbl_trunc (Fin r) = (if 0 \<le> r then \<lfloor>r\<rfloor> else - \<lfloor>- r\<rfloor>)"
| "dbl_trunc _ = 0"

definition dbl_ge :: "dbl \<Rightarrow> dbl \<Rightarrow> bool" where
  "dbl_ge x y \<longleftrightarrow> dbl_less y x \<or> (x = y \<and> x \<noteq> NaN)"

fun readNum :: "device_data \<Rightarrow> string list \<Rightarrow> dbl option" where
  "readNum d [] = None"
| "readNum d (k # ks) = (case num d k of Some v \<Rightarrow> Some v | None \<Rightarrow> readNum d ks)"

fun readInt :: "device_data \<Rightarrow> string list \<Rightarrow> int option" where
  "readInt d [] = None"
| "readInt d (k # ks) =
     (case vals d k of Some v \<Rightarrow> Some v
      | None \<Rightarrow> (case status d k of Some v \<Rightarrow> Some (sint v)
          | None \<Rightarrow> (case num d k of Some v \<Rightarrow> Some (dbl_trunc v) | None \<Rightarrow> readInt d ks)))"

definition readBool :: "device_data \<Rightarrow> string list \<Rightarrow> bool option" where
  "readBool d keys = map_option (\<lambda>v. v \<noteq> 0) (readInt d keys)"

definition isSocInvalid :: "dbl \<Rightarrow> bool" where
  "isSocInvalid v \<longleftrightarrow> (dbl_ge v (Fin (509 / 2)) \<and> dbl_ge (Fin (511 / 2)) v) \<or>
     (dbl_ge v (Fin (203 / 2)) \<and> dbl_ge (Fin (205 / 2)) v)"

definition isSohInvalid :: "dbl \<Rightarrow> bool" where
  "isSohInvalid v \<longleftrightarrow> (dbl_ge v (Fin (509 / 2)) \<and> dbl_ge (Fin (511 / 2)) v) \<or>
     (dbl_ge v (Fin (203 / 2)) \<and> dbl_ge (Fin (205 / 2)) v)"

definition isPackCurrentInvalid :: "dbl \<Rightarrow> bool" where
  "isPackCurrentInvalid v \<longleftrightarrow> dbl_less (Fin 60000) v \<or> dbl_less v (Fin (-60000))"

definition isPackVoltageInvalid :: "dbl \<Rightarrow> bool" where
  "isPackVoltageInvalid v \<longleftrightarrow> dbl_less (Fin 60000) v \<or> dbl_less v (Fin (-1))"

definition isTempInvalid :: "dbl \<Rightarrow> bool" where
  "isTempInvalid v \<longleftrightarrow> dbl_less v (Fin (-100)) \<or> dbl_less (Fin 300) v"

definition isCurrentLimitInvalid :: "dbl \<Rightarrow> bool" where
  "isCurrentLimitInvalid v \<longleftrightarrow> dbl_less v (Fin (-1)) \<or> dbl_less (Fin 5000) v"

definition isInsResInvalid :: "dbl \<Rightarrow> bool" where
  "isInsResInvalid v \<longleftrightarrow> dbl_less v (Fin 0) \<or> dbl_less (Fin 60000) v"

definition energyInvalid :: "rat \<Rightarrow> dbl \<Rightarrow> bool" where
  "energyInvalid hi v \<longleftrightarrow> \<not> (dbl_ge v (Fin 0) \<and> dbl_ge (Fin hi) v)"

section \<open>Updates of single fields\<close>

definition sig_keys :: "string \<Rightarrow> string \<Rightarrow> string list" where
  "sig_keys m s = [''bms.'' @ m @ ''.'' @ s, s]"

definition apply_all :: "('a \<Rightarrow> 'a) list \<Rightarrow> 'a \<Rightarrow> 'a" where
  "apply_all us x = foldl (\<lambda>x u. u x) x us"

lemma apply_all_simps [simp]: "apply_all [] x = x" "apply_all (u # us) x = apply_all us (u x)"
  by (simp_all add: apply_all_def)

definition int_to :: "device_data \<Rightarrow> string \<Rightarrow> string \<Rightarrow> ((int \<Rightarrow> int) \<Rightarrow> 'a \<Rightarrow> 'a) \<Rightarrow> 'a \<Rightarrow> 'a" where
  "int_to d m s upd x = (case readInt d (sig_keys m s) of Some v \<Rightarrow> upd (\<lambda>_. v) x | None \<Rightarrow> x)"

definition bool_to :: "device_data \<Rightarrow> string \<Rightarrow> string \<Rightarrow> ((bool \<Rightarrow> bool) \<Rightarrow> 'a \<Rightarrow> 'a) \<Rightarrow> 'a \<Rightarrow> 'a" where
  "bool_to d m s upd x = (case readBool d (sig_keys m s) of Some v \<Rightarrow> upd (\<lambda>_. v) x | None \<Rightarrow> x)"

definition pick_bool :: "device_data \<Rightarrow> string \<Rightarrow> string \<Rightarrow> bool" where
  "pick_bool d m s = (case readBool d (sig_keys m s) of Some v \<Rightarrow> v | None \<Rightarrow> False)"

definition meas_to :: "device_data \<Rightarrow> string \<Rightarrow> string \<Rightarrow> (dbl \<Rightarrow> bool) \<Rightarrow> ((meas \<Rightarrow> meas) \<Rightarrow> 'a \<Rightarrow> 'a) \<Rightarrow> 'a \<Rightarrow> 'a" where
  "meas_to d m s invalid upd x =
     (case readNum d (sig_keys m s) of None \<Rightarrow> x
      | Some v \<Rightarrow> if invalid v then upd (m_valid_update (\<lambda>_. False)) x
                  else upd (\<lambda>_. \<lparr>m_valid = True, m_val = v\<rparr>) x)"

section \<open>Updates of the messages\<close>

definition updateFromFault1 :: "device_data \<Rightarrow> bms_f1 \<Rightarrow> bms_f1" where
  "updateFromFault1 d = apply_all
     [int_to d ''B2V_Fault1'' ''B2V_Fult1_DelTemp'' f1_del_temp_update,
      int_to d ''B2V_Fault1'' ''B2V_Fult1_OverTemp'' f1_over_temp_update,
      int_to d ''B2V_Fault1'' ''B2V_Fult1_OverUcell'' f1_over_ucell_update,
      int_to d ''B2V_Fault1'' ''B2V_Fult1_LowUcell'' f1_low_ucell_update,
      int_to d ''B2V_Fault1'' ''B2V_Fult1_PackOverHVolt'' f1_pack_over_hvolt_update,
      int_to d ''B2V_Fault1'' ''B2V_Fult1_PackLowHVolt'' f1_pack_low_hvolt_update,
      int_to d ''B2V_Fault1'' ''B2V_Fult1_LowSOC'' f1_low_soc_update,
      int_to d ''B2V_Fault1'' ''B2V_Fult1_LowInsRes'' f1_low_ins_res_update,
      bool_to d ''B2V_Fault1'' ''B2V_Fult1_UcellUniformity'' f1_ucell_uniformity_update,
      bool_to d ''B2V_Fault1'' ''B2V_Fult1_OverChg'' f1_over_chg_update,
      bool_to d ''B2V_Fault1'' ''B2V_Fult1_OverSOC'' f1_over_soc_update,
      bool_to d ''B2V_Fault1'' ''B2V_Fult1_SOCChangeFast'' f1_soc_change_fast_update,
      bool_to d ''B2V_Fault1'' ''B2V_Fult1_BatSysNotMatch'' f1_bat_sys_not_match_update,
      bool_to d ''B2V_Fault1'' ''B2V_Fult1_HVILFault'' f1_hvil_fault_update,
      int_to d ''B2V_Fault1'' ''B2V_Fult1_FaultNum_32960'' f1_fault_num_update]"

definition updateFromFault2 :: "device_data \<Rightarrow> bms_f2 \<Rightarrow> bms_f2" where
  "updateFromFault2 d = apply_all
     [f2_cell_over_dischrg_update (\<lambda>_. pick_bool d ''B2V_Fault2'' ''B2V_Fult2_CellOverDischrg''),
      f2_cell_low_temp_update (\<lambda>_. pick_bool d ''B2V_Fault2'' ''B2V_Fult2_CellLowTemp''),
      f2_pack_fire_warning_update (\<lambda>_. pick_bool d ''B2V_Fault2'' ''B2V_Fult2_PackFireWarning''),
      int_to d ''B2V_Fault2'' ''B2V_Fult2_OverDischrgCurr'' f2_over_dischrg_curr_level_update,
      int_to d ''B2V_Fault2'' ''B2V_Fult2_OverChrgCurrInTheDrive'' f2_over_chrg_curr_in_drive_level_update,
      f2_curr_sensor_err_update (\<lambda>_. pick_bool d ''B2V_Fault2'' ''B2V_Fult2_CurrSensorErr''),
      f2_power_supply_err_update (\<lambda>_. pick_bool d ''B2V_Fault2'' ''B2V_Fult2_PowerSupplyErr''),
      f2_soc_differ_err_update (\<lambda>_. pick_bool d ''B2V_Fault2'' ''B2V_Fult2_SOCDifferErr''),
      f2_chrg_connect_err_update (\<lambda>_. pick_bool d ''B2V_Fault2'' ''B2V_Fult2_ChrgConnectErr''),
      f2_over_dischrg_curr_when_in_chrg_update (\<lambda>_. pick_bool d ''B2V_Fault2'' ''B2V_Fult2_OverDischrgCurrWhenInChrg''),
      f2_over_chrg_curr_in_the_chrg_update (\<lambda>_. pick_bool d ''B2V_Fault2'' ''B2V_Fult2_OverChrgCurrInTheChrg''),
      f2_chrg_ntc_err_update (\<lambda>_. pick_bool d ''B2V_Fault2'' ''B2V_Fult2_ChrgNTCErr''),
      int_to d ''B2V_Fault2'' ''B2V_Fult2_ChrgNTCTempOver'' f2_chrg_ntc_temp_over_level_update,
      f2_tms_err_update (\<lambda>_. pick_bool d ''B2V_Fault2'' ''B2V_Fult2_TMSErr''),
      f2_pack_self_protect_update (\<lambda>_. pick_bool d ''B2V_Fault2'' ''B2V_Fult2_PackSelfProtect''),
      f2_main_loop_prechg_err_update (\<lambda>_. pick_bool d ''B2V_Fault2'' ''B2V_Fult2_MainLoopPrechrgErr''),
      f2_aux_loop_prechg_err_update (\<lambda>_. pick_bool d ''B2V_Fault2'' ''B2V_Fult2_AuxLoopPrechrgErr''),
      f2_chrg_ins_low_err_update (\<lambda>_. pick_bool d ''B2V_Fault2'' ''B2V_Fult2_ChrgInsLowErr''),
      f2_acan_lost_update (\<lambda>_. pick_bool d ''B2V_Fault2'' ''B2V_Fult2_ACANLost''),
      f2_inner_comm_err_update (\<lambda>_. pick_bool d ''B2V_Fault2'' ''B2V_Fult2_InnerCommunicationErr''),
      f2_dcdc_err_update (\<lambda>_. pick_bool d ''B2V_Fault2'' ''B2V_Fult2_DCDCErr''),
      f2_branch_break_err_update (\<lambda>_. pick_bool d ''B2V_Fault2'' ''B2V_Fult2_BranchBreakErr''),
      f2_heat_relay_update (open_err_update (\<lambda>_. pick_bool d ''B2V_Fault2'' ''B2V_Fult2_HeatRelayOpenErr'')),
      f2_heat_relay_update (weld_err_update (\<lambda>_. pick_bool d ''B2V_Fault2'' ''B2V_Fult2_HeatRelayWeldErr'')),
      f2_main_pos_update (open_err_update (\<lambda>_. pick_bool d ''B2V_Fault2'' ''B2V_Fult2_MainPosRelayOpenErr'')),
      f2_main_pos_update (weld_err_update (\<lambda>_. pick_bool d ''B2V_Fault2'' ''B2V_Fult2_MainPosRelayWeldErr'')),
      f2_main_neg_update (open_err_update (\<lambda>_. pick_bool d ''B2V_Fault2'' ''B2V_Fult2_MainNegRelayOpenErr'')),
      f2_main_neg_update (weld_err_update (\<lambda>_. pick_bool d ''B2V_Fault2'' ''B2V_Fult2_MainNegRelayWeldErr'')),
      f2_dc_chrg_pos1_update (open_err_update (\<lambda>_. pick_bool d ''B2V_Fault2'' ''B2V_Fult2_DCChrgPos1RelayOpenErr'')),
      f2_dc_chrg_pos1_update (weld_err_update (\<lambda>_. pick_bool d ''B2V_Fault2'' ''B2V_Fult2_DCChrgPos1RelayWeldErr'')),
      f2_dc_chrg_neg1_update (open_err_update (\<lambda>_. pick_bool d ''B2V_Fault2'' ''B2V_Fult2_DCChrgNeg1RelayOpenErr'')),
      f2_dc_chrg_neg1_update (weld_err_update (\<lambda>_. pick_bool d ''B2V_Fault2'' ''B2V_Fult2_DCChrgNeg1RelayWeldErr'')),
      f2_dc_chrg_pos2_update (open_err_update (\<lambda>_. pick_bool d ''B2V_Fault2'' ''B2V_Fult2_DCChrgPos2RelayOpenErr'')),
      f2_dc_chrg_pos2_update (weld_err_update (\<lambda>_. pick_bool d ''B2V_Fault2'' ''B2V_Fult2_DCChrgPos2RelayWeldErr'')),
      f2_dc_chrg_neg2_update (open_err_update (\<lambda>_. pick_bool d ''B2V_Fault2'' ''B2V_Fult2_DCChrgNeg2RelayOpenErr'')),
      f2_dc_chrg_neg2_update (weld_err_update (\<lambda>_. pick_bool d ''B2V_Fault2'' ''B2V_Fult2_DCChrgNeg2RelayWeldErr'')),
      f2_ac_chrg_pos_update (open_err_update (\<lambda>_. pick_bool d ''B2V_Fault2'' ''B2V_Fult2_ACChrgPosRelayOpenErr'')),
      f2_ac_chrg_pos_update (weld_err_update (\<lambda>_. pick_bool d ''B2V_Fault2'' ''B2V_Fult2_ACChrgPosRelayWeldErr'')),
      f2_ac_chrg_neg_update (open_err_update (\<lambda>_. pick_bool d ''B2V_Fault2'' ''B2V_Fult2_ACChrgNegRelayOpenErr'')),
      f2_ac_chrg_neg_update (weld_err_update (\<lambda>_. pick_bool d ''B2V_Fault2'' ''B2V_Fult2_ACChrgNegRelayWeldErr'')),
      f2_panto_chrg_pos_update (open_err_update (\<lambda>_. pick_bool d ''B2V_Fault2'' ''B2V_Fult2_PantoChrgPosRelayOpenErr'')),
      f2_panto_chrg_pos_update (weld_err_update (\<lambda>_. pick_bool d ''B2V_Fault2'' ''B2V_Fult2_PantoChrgPosRelayWeldErr'')),
      f2_panto_chrg_neg_update (open_err_update (\<lambda>_. pick_bool d ''B2V_Fault2'' ''B2V_Fult2_PantoChrgNegRelayOpenErr'')),
      f2_panto_chrg_neg_update (weld_err_update (\<lambda>_. pick_bool d ''B2V_Fault2'' ''B2V_Fult2_PantoChrgNegRelayWeldErr''))]"

definition updateFromSt1 :: "device_data \<Rightarrow> bms_st1 \<Rightarrow> bms_st1" where
  "updateFromSt1 d = apply_all
     [int_to d ''B2V_ST1'' ''B2V_ST1_MainPosRelaySt'' st1_main_pos_relay_st_update,
      int_to d ''B2V_ST1'' ''B2V_ST1_MainNegRelaySt'' st1_main_neg_relay_st_update,
      int_to d ''B2V_ST1'' ''B2V_ST1_PrechrgRelaySt'' st1_prechrg_relay_st_update,
      int_to d ''B2V_ST1'' ''B2V_ST1_HeatPosRelaySt'' st1_heat_pos_relay_st_update,
      int_to d ''B2V_ST1'' ''B2V_ST1_HeatNegRelaySt'' st1_heat_neg_relay_st_update,
      int_to d ''B2V_ST1'' ''B2V_ST1_BMS_HVStatus'' st1_bms_hv_status_update,
      int_to d ''B2V_ST1'' ''B2V_ST1_BMS_BalanceStatus'' st1_balance_status_update,
      int_to d ''B2V_ST1'' ''B2V_ST1_DCChrgConnectSt'' st1_dc_chrg_connect_st_update,
      int_to d ''B2V_ST1'' ''B2V_ST1_PantoChrgConnectSt'' st1_panto_chrg_connect_st_update,
      int_to d ''B2V_ST1'' ''B2V_ST1_ACChrgConnectSt'' st1_ac_chrg_connect_st_update,
      int_to d ''B2V_ST1'' ''B2V_ST1_ChrgMode'' st1_chrg_mode_update,
      int_to d ''B2V_ST1'' ''B2V_ST1_ChrgStatus'' st1_chrg_status_update,
      int_to d ''B2V_ST1'' ''B2V_ST1_HeatingStatus'' st1_heating_status_update,
      int_to d ''B2V_ST1'' ''B2V_ST1_CoolingStatus'' st1_cooling_status_update,
      int_to d ''B2V_ST1'' ''B2V_ST1_RechrgCycels'' st1_rechrg_cycles_update,
      int_to d ''B2V_ST1'' ''B2V_ST1_DCChrgPos1RelaySt'' st1_dc_chrg_pos1_relay_st_update,
      int_to d ''B2V_ST1'' ''B2V_ST1_DCChrgNeg1RelaySt'' st1_dc_chrg_neg1_relay_st_update,
      int_to d ''B2V_ST1'' ''B2V_ST1_DCChrgPos2RelaySt'' st1_dc_chrg_pos2_relay_st_update,
      int_to d ''B2V_ST1'' ''B2V_ST1_DCChrgNeg2RelaySt'' st1_dc_chrg_neg2_relay_st_update,
      int_to d ''B2V_ST1'' ''B2V_ST1_PantoChrgPosRelaySt'' st1_panto_chrg_pos_relay_st_update,
      int_to d ''B2V_ST1'' ''B2V_ST1_PantoChrgNegRelaySt'' st1_panto_chrg_neg_relay_st_update,
      int_to d ''B2V_ST1'' ''B2V_ST1_ACChrgPosRelaySt'' st1_ac_chrg_pos_relay_st_update,
      int_to d ''B2V_ST1'' ''B2V_ST1_ACChrgNegRelaySt'' st1_ac_chrg_neg_relay_st_update,
      int_to d ''B2V_ST1'' ''B2V_ST1_Aux1RelaySt'' st1_aux1_relay_st_update,
      int_to d ''B2V_ST1'' ''B2V_ST1_Aux2RelaySt'' st1_aux2_relay_st_update,
      int_to d ''B2V_ST1'' ''B2V_ST1_Aux3RelaySt'' st1_aux3_relay_st_update]"

definition num_or :: "device_data \<Rightarrow> string \<Rightarrow> string \<Rightarrow> (dbl \<Rightarrow> bool) \<Rightarrow> (dbl \<Rightarrow> 'a \<Rightarrow> 'a) \<Rightarrow> ('a \<Rightarrow> 'a) \<Rightarrow> 'a \<Rightarrow> 'a" where
  "num_or d m s invalid good bad x =
     (case readNum d (sig_keys m s) of None \<Rightarrow> x | Some v \<Rightarrow> if \<not> invalid v then good v x else bad x)"

definition st2_fields :: "device_data \<Rightarrow> bms_st2 \<Rightarrow> bms_st2" where
  "st2_fields d = apply_all
     [num_or d ''B2V_ST2'' ''B2V_ST2_SOC'' isSocInvalid (\<lambda>v s. s\<lparr>soc := v, soc_valid := True\<rparr>)
        (\<lambda>s. s\<lparr>soc_valid := False\<rparr>),
      num_or d ''B2V_ST2'' ''B2V_ST2_SOH'' isSohInvalid (\<lambda>v s. s\<lparr>soh := v, soh_valid := True\<rparr>)
        (\<lambda>s. s\<lparr>soh_valid := False\<rparr>),
      num_or d ''B2V_ST2'' ''B2V_ST2_PackInsideVolt'' isPackVoltageInvalid
        (\<lambda>v s. s\<lparr>pack_v := v, pack_v_valid := True\<rparr>) (\<lambda>s. s\<lparr>pack_v_valid := False\<rparr>),
      num_or d ''B2V_ST2'' ''B2V_ST2_PackCurrent'' isPackCurrentInvalid
        (\<lambda>v s. s\<lparr>pack_i := v, pack_i_valid := True\<rparr>) (\<lambda>s. s\<lparr>pack_i := Fin 0, pack_i_valid := False\<rparr>),
      int_to d ''B2V_ST2'' ''B2V_ST2_FaultLevel'' fault_level_update,
      int_to d ''B2V_ST2'' ''B2V_ST2_FaultCode'' fault_code_update,
      bool_to d ''B2V_ST2'' ''B2V_ST2_RqHVPoerOff'' rq_hv_power_off_update]"

definition updateFromSt2 :: "device_data \<Rightarrow> bms_cache_item \<Rightarrow> bms_cache_item" where
  "updateFromSt2 d x =
     (let s = st2_fields d (x_st2 x)
      in x\<lparr>x_st2 := s, x_ctl := (x_ctl x)\<lparr>alarm_any := (0 < fault_level s \<or> rq_hv_power_off s)\<rparr>\<rparr>)"

definition updateFromSt3 :: "device_data \<Rightarrow> bms_meas \<Rightarrow> bms_meas" where
  "updateFromSt3 d = apply_all
     [meas_to d ''B2V_ST3'' ''B2V_ST3_PosInsRes'' isInsResInvalid st3_ins_pos_update,
      meas_to d ''B2V_ST3'' ''B2V_ST3_NegInsRes'' isInsResInvalid st3_ins_neg_update,
      meas_to d ''B2V_ST3'' ''B2V_ST3_SysInsRes'' isInsResInvalid st3_ins_sys_update,
      (\<lambda>s. case readBool d (sig_keys ''B2V_ST3'' ''B2V_ST3_InsDetectorSt'') of None \<Rightarrow> s
         | Some v \<Rightarrow> s\<lparr>st3_ins_detector_on := v, st3_ins_detector_valid := True\<rparr>)]"

definition updateFromSt4 :: "device_data \<Rightarrow> bms_meas \<Rightarrow> bms_meas" where
  "updateFromSt4 d = apply_all
     [meas_to d ''B2V_ST4'' ''B2V_ST4_Max_Temp'' isTempInvalid st4_temp_max_update,
      meas_to d ''B2V_ST4'' ''B2V_ST4_Min_Temp'' isTempInvalid st4_temp_min_update,
      meas_to d ''B2V_ST4'' ''B2V_ST4_Avg_Temp'' isTempInvalid st4_temp_avg_update,
      (\<lambda>s. case readInt d (sig_keys ''B2V_ST4'' ''B2V_ST4_MaxTemp_Position'') of
           Some v \<Rightarrow> s\<lparr>st4_max_temp_pos := v, st4_max_temp_pos_valid := True\<rparr>
         | None \<Rightarrow> s\<lparr>st4_max_temp_pos := 0, st4_max_temp_pos_valid := False\<rparr>),
      (\<lambda>s. case readInt d (sig_keys ''B2V_ST4'' ''B2V_ST4_MinTemp_Position'') of
           Some v \<Rightarrow> s\<lparr>st4_min_temp_pos := v, st4_min_temp_pos_valid := True\<rparr>
         | None \<Rightarrow> s\<lparr>st4_min_temp_pos := 0, st4_min_temp_pos_valid := False\<rparr>)]"

definition updateFromSt5 :: "device_data \<Rightarrow> bms_meas \<Rightarrow> bms_meas" where
  "updateFromSt5 d = apply_all
     [meas_to d ''B2V_ST5'' ''B2V_ST5_Max_Ucell'' (\<lambda>_. False) st5_max_ucell_update,
      meas_to d ''B2V_ST5'' ''B2V_ST5_Min_Ucell'' (\<lambda>_. False) st5_min_ucell_update,
      meas_to d ''B2V_ST5'' ''B2V_ST5_Avg_Ucell'' (\<lambda>_. False) st5_avg_ucell_update]"

definition updateFromSt6 :: "device_data \<Rightarrow> bms_meas \<Rightarrow> bms_meas" where
  "updateFromSt6 d = apply_all
     [int_to d ''B2V_ST6'' ''B2V_ST6_MaxUcell_CSCNo'' st6_max_ucell_csc_no_update,
      int_to d ''B2V_ST6'' ''B2V_ST6_MaxUcell_Position'' st6_max_ucell_position_update,
      int_to d ''B2V_ST6'' ''B2V_ST6_MinUcell_CSCNo'' st6_min_ucell_csc_no_update,
      int_to d ''B2V_ST6'' ''B2V_ST6_MinUcell_Position'' st6_min_ucell_position_update]"

definition updateFromSt7 :: "device_data \<Rightarrow> bms_meas \<Rightarrow> bms_meas" where
  "updateFromSt7 d = apply_all
     [meas_to d ''B2V_ST7'' ''B2V_ST7_Gun1DCPosTemp'' (\<lambda>_. False) st7_gun1_dc_pos_temp_update,
      meas_to d ''B2V_ST7'' ''B2V_ST7_Gun1DCNegTemp'' (\<lambda>_. False) st7_gun1_dc_neg_temp_update,
      meas_to d ''B2V_ST7'' ''B2V_ST7_Gun2DCPosTemp'' (\<lambda>_. False) st7_gun2_dc_pos_temp_update,
      meas_to d ''B2V_ST7'' ''B2V_ST7_Gun2DCNegTemp'' (\<lambda>_. False) st7_gun2_dc_neg_temp_update,
      meas_to d ''B2V_ST7'' ''B2V_ST7_GunACPosTemp'' (\<lambda>_. False) st7_gun_ac_pos_temp_update,
      meas_to d ''B2V_ST7'' ''B2V_ST7_GunACNegTemp'' (\<lambda>_. False) st7_gun_ac_neg_temp_update]"

definition updateFromElecEnergy :: "device_data \<Rightarrow> bms_meas \<Rightarrow> bms_meas" where
  "updateFromElecEnergy d = apply_all
     [meas_to d ''B2V_ElecEnergy'' ''B2V_TotChgEnergy'' (energyInvalid 20000000) EE_tot_chg_energy_update,
      meas_to d ''B2V_ElecEnergy'' ''B2V_TotDischgEnergy'' (energyInvalid 20000000) EE_tot_dischg_energy_update,
      meas_to d ''B2V_ElecEnergy'' ''B2V_SingleChgEnergy'' (energyInvalid (13107 / 2)) EE_single_chg_energy_update]"

definition limit_fields :: "device_data \<Rightarrow> bms_limits \<Rightarrow> bms_limits" where
  "limit_fields d = apply_all
     [num_or d ''B2V_CurrentLimit'' ''B2V_AvailFollowChrgCurr'' isCurrentLimitInvalid
        (\<lambda>v l. l\<lparr>charge_limit_a := v, charge_limit_valid := True\<rparr>) (\<lambda>l. l\<lparr>charge_limit_valid := False\<rparr>),
      num_or d ''B2V_CurrentLimit'' ''B2V_AvailFollowDishrgCurr'' isCurrentLimitInvalid
        (\<lambda>v l. l\<lparr>discharge_limit_a := v, discharge_limit_valid := True\<rparr>) (\<lambda>l. l\<lparr>discharge_limit_valid := False\<rparr>)]"

definition limit_meas :: "device_data \<Rightarrow> bms_meas \<Rightarrow> bms_meas" where
  "limit_meas d = apply_all
     [meas_to d ''B2V_CurrentLimit'' ''B2V_AvailInpulseDischrgCurr'' isCurrentLimitInvalid CL_pulse_discharge_limit_update,
      meas_to d ''B2V_CurrentLimit'' ''B2V_AvailInpulseChrgCurr'' isCurrentLimitInvalid CL_pulse_charge_limit_update,
      meas_to d ''B2V_CurrentLimit'' ''B2V_AvailFollowChrgCurr'' isCurrentLimitInvalid CL_follow_charge_limit_update,
      meas_to d ''B2V_CurrentLimit'' ''B2V_AvailFollowDishrgCurr'' isCurrentLimitInvalid CL_follow_discharge_limit_update]"

definition updateFromCurrentLimit :: "device_data \<Rightarrow> bms_cache_item \<Rightarrow> bms_cache_item" where
  "updateFromCurrentLimit d x = x\<lparr>x_limits := limit_fields d (x_limits x), x_meas := limit_meas d (x_meas x)\<rparr>"

definition tms_fault :: "device_data \<Rightarrow> u64 \<Rightarrow> bms_tms \<Rightarrow> bms_tms" where
  "tms_fault d rx t =
     (case readInt d (sig_keys ''TM2B_Info'' ''TM2B_FaultCode_A'') of None \<Rightarrow> t
      | Some v \<Rightarrow> if v = 3 then t\<lparr>tms_fault_code := v, tms_panel_aircon_seen_ms := rx\<rparr>
                  else if v = 28 then t\<lparr>tms_fault_code := v, tms_ats_water_pump_seen_ms := rx\<rparr>
                  else t\<lparr>tms_fault_code := v\<rparr>)"

definition tms_fields :: "device_data \<Rightarrow> u64 \<Rightarrow> bms_tms \<Rightarrow> bms_tms" where
  "tms_fields d rx = apply_all
     [(\<lambda>t. case readInt d [''bms.TM2B_Info.T2B_WorkStatus_A'', ''bms.TM2B_Info.TM2B_Info_WorkState'',
           ''T2B_WorkStatus_A'', ''TM2B_Info_WorkState''] of Some v \<Rightarrow> t\<lparr>tms_work_state := v\<rparr> | None \<Rightarrow> t),
      tms_fault d rx,
      (\<lambda>t. case readInt d [''bms.TM2B_Info.TM2B_FaultLevel_A'', ''bms.TM2B_Info.TM2B_Info_FaultLevel'',
           ''TM2B_FaultLevel_A'', ''TM2B_Info_FaultLevel''] of Some v \<Rightarrow> t\<lparr>tms_fault_level := v\<rparr> | None \<Rightarrow> t)]"

definition updateFromTm2b :: "device_data \<Rightarrow> bms_cache_item \<Rightarrow> bms_cache_item" where
  "updateFromTm2b d x = x\<lparr>x_tms := tms_fields d (last_rx_ms (x_health x)) (x_tms x)\<rparr>"

definition fire_states :: "device_data \<Rightarrow> bms_fire \<Rightarrow> bms_fire" where
  "fire_states d = apply_all
     [int_to d ''Fire2B_state'' ''Fire_valueNumber'' fire_value_number_update,
      int_to d ''Fire2B_state'' ''Fire_valueAlarmLevel'' fire_value_alarm_level_update,
      bool_to d ''Fire2B_state'' ''Fire_byStartSts'' fire_by_start_sts_update,
      bool_to d ''Fire2B_state'' ''Fire_SnerrrorSts'' fire_sensor_error_sts_update,
      bool_to d ''Fire2B_state'' ''Fire_HwerrrorSts'' fire_hw_error_sts_update,
      bool_to d ''Fire2B_state'' ''Fire_byTempSenor1Err'' fire_temp_sensor1_err_update,
      bool_to d ''Fire2B_state'' ''Fire_byTempSenor2Err'' fire_temp_sensor2_err_update,
      bool_to d ''Fire2B_state'' ''Fire_byAirSenorErr'' fire_air_sensor_err_update,
      bool_to d ''Fire2B_state'' ''Fire_bySAMSenorErr'' fire_sam_sensor_err_update,
      bool_to d ''Fire2B_state'' ''Fire_Tmp_alarm'' fire_temp_alarm_update,
      bool_to d ''Fire2B_state'' ''Fire_Gus_alarm'' fire_gas_alarm_update,
      bool_to d ''Fire2B_state'' ''Fire_Fog_alarm'' fire_fog_alarm_update,
      bool_to d ''Fire2B_state'' ''Fire_Leak_alarm'' fire_leak_alarm_update]"

definition updateFromFire2b :: "device_data \<Rightarrow> bms_cache_item \<Rightarrow> bms_cache_item" where
  "updateFromFire2b d x =
     x\<lparr>x_fire := fire_states d (x_fire x),
       x_meas := apply_all
         [meas_to d ''Fire2B_state'' ''Fire_Max_Tmp'' (\<lambda>_. False) fire_max_temp_update,
          meas_to d ''Fire2B_state'' ''Fire_Max_Gus'' (\<lambda>_. False) fire_max_gas_update,
          meas_to d ''Fire2B_state'' ''Fire_Max_Fog'' (\<lambda>_. False) fire_max_fog_update] (x_meas x)\<rparr>"

section \<open>The handler\<close>

definition raw_faults :: "bms_cache_item \<Rightarrow> (string \<times> bool) list" where
  "raw_faults x =
     [(''raw_current_sensor_fault'', f2_curr_sensor_err (x_f2 x)),
      (''raw_low_voltage_supply_alarm'', f2_power_supply_err (x_f2 x)),
      (''raw_soc_jump_alarm'', f1_soc_change_fast (x_f1 x)),
            (''raw_fire_alarm'', 0 < fire_value_alarm_level (x_fire x) \<or> fire_by_start_sts (x_fire x) \<or>
         fire_sensor_error_sts (x_fire x) \<or> fire_hw_error_sts (x_fire x)),
            (''raw_tms_unit_fault'', tms_fault_code (x_tms x) \<noteq> 0 \<or> 0 < tms_fault_level (x_tms x) \<or>
         f2_tms_err (x_f2 x)),
      (''raw_battery_self_protect_fault'', f2_pack_self_protect (x_f2 x)),
      (''raw_precharge_fault'', f2_main_loop_prechg_err (x_f2 x) \<or> f2_aux_loop_prechg_err (x_f2 x)),
      (''raw_charge_insulation_low_alarm'', f2_chrg_ins_low_err (x_f2 x)),
      (''raw_acan_comm_fault'', f2_acan_lost (x_f2 x)),
      (''raw_internal_comm_fault'', f2_inner_comm_err (x_f2 x)),
      (''raw_branch_circuit_open_fault'', f2_branch_break_err (x_f2 x)),
      (''raw_hvil_alarm'', f1_hvil_fault (x_f1 x)),
      (''raw_storage_mismatch_alarm'', f1_bat_sys_not_match (x_f1 x)),
      (''raw_charge_gun_connection_abnormal'', f2_chrg_connect_err (x_f2 x)),
      (''raw_charge_discharge_current_overflow'', f2_over_dischrg_curr_when_in_chrg (x_f2 x)),
      (''raw_charge_current_overflow_alarm'', f2_over_chrg_curr_in_the_chrg (x_f2 x)),
      (''raw_charge_connector_ntc_fault'', f2_chrg_ntc_err (x_f2 x)),
      (''raw_charge_connector_overtemp_lvl1'', f2_chrg_ntc_temp_over_level (x_f2 x) = 1),
      (''raw_charge_connector_overtemp_lvl2'', 2 \<le> f2_chrg_ntc_temp_over_level (x_f2 x)),
            (''raw_internal_hv_circuit_open_fault'', f2_branch_break_err (x_f2 x) \<or> open_err (f2_main_pos (x_f2
         x)) \<or> open_err (f2_main_neg (x_f2 x))),
      (''raw_heat_relay_open_fault'', open_err (f2_heat_relay (x_f2 x))),
      (''raw_heat_relay_weld_fault'', weld_err (f2_heat_relay (x_f2 x))),
      (''raw_main_pos_relay_open_fault'', open_err (f2_main_pos (x_f2 x))),
      (''raw_main_pos_relay_weld_fault'', weld_err (f2_main_pos (x_f2 x))),
      (''raw_main_neg_relay_open_fault'', open_err (f2_main_neg (x_f2 x))),
      (''raw_main_neg_relay_weld_fault'', weld_err (f2_main_neg (x_f2 x))),
      (''raw_dc_chrg_pos1_relay_open_fault'', open_err (f2_dc_chrg_pos1 (x_f2 x))),
      (''raw_dc_chrg_pos1_relay_weld_fault'', weld_err (f2_dc_chrg_pos1 (x_f2 x))),
      (''raw_dc_chrg_neg1_relay_open_fault'', open_err (f2_dc_chrg_neg1 (x_f2 x))),
      (''raw_dc_chrg_neg1_relay_weld_fault'', weld_err (f2_dc_chrg_neg1 (x_f2 x))),
      (''raw_dc_chrg_pos2_relay_open_fault'', open_err (f2_dc_chrg_pos2 (x_f2 x))),
      (''raw_dc_chrg_pos2_relay_weld_fault'', weld_err (f2_dc_chrg_pos2 (x_f2 x))),
      (''raw_dc_chrg_neg2_relay_open_fault'', open_err (f2_dc_chrg_neg2 (x_f2 x))),
      (''raw_dc_chrg_neg2_relay_weld_fault'', weld_err (f2_dc_chrg_neg2 (x_f2 x))),
      (''raw_ac_chrg_pos_relay_open_fault'', open_err (f2_ac_chrg_pos (x_f2 x))),
      (''raw_ac_chrg_pos_relay_weld_fault'', weld_err (f2_ac_chrg_pos (x_f2 x))),
      (''raw_ac_chrg_neg_relay_open_fault'', open_err (f2_ac_chrg_neg (x_f2 x))),
      (''raw_ac_chrg_neg_relay_weld_fault'', weld_err (f2_ac_chrg_neg (x_f2 x))),
      (''raw_panto_chrg_pos_relay_open_fault'', open_err (f2_panto_chrg_pos (x_f2 x))),
      (''raw_panto_chrg_pos_relay_weld_fault'', weld_err (f2_panto_chrg_pos (x_f2 x))),
      (''raw_panto_chrg_neg_relay_open_fault'', open_err (f2_panto_chrg_neg (x_f2 x))),
      (''raw_panto_chrg_neg_relay_weld_fault'', weld_err (f2_panto_chrg_neg (x_f2 x)))]"

definition rebuildUnifiedRawFaults :: "bms_cache_item \<Rightarrow> bms_cache_item" where
  "rebuildUnifiedRawFaults x = x\<lparr>x_raw := (\<lambda>n. map_of (raw_faults x) n = Some True)\<rparr>"

definition group_update :: "string \<Rightarrow> (bms_group \<Rightarrow> bms_group) \<Rightarrow> bms_groups \<Rightarrow> bms_groups" where
  "group_update msg g =
     (if msg = ''B2V_ST1'' then g_st1_update g
      else if msg = ''B2V_ST2'' then g_st2_update g
      else if msg = ''B2V_ST3'' then g_st3_update g
      else if msg = ''B2V_ST4'' then g_st4_update g
      else if msg = ''B2V_ST5'' then g_st5_update g
      else if msg = ''B2V_ST6'' then g_st6_update g
      else if msg = ''B2V_ST7'' then g_st7_update g
      else if msg = ''B2V_ElecEnergy'' then g_elec_energy_update g
      else if msg = ''B2V_CurrentLimit'' then g_current_limit_update g
      else if msg = ''TM2B_Info'' then g_tm2b_update g
      else if msg = ''Fire2B_Info'' then g_fire2b_update g
      else if msg = ''B2V_Fault1'' then g_fault1_update g
      else if msg = ''B2V_Fault2'' then g_fault2_update g
      else id)"

definition update_message :: "string \<Rightarrow> device_data \<Rightarrow> bms_cache_item \<Rightarrow> bms_cache_item" where
  "update_message msg d x =
     (if msg = ''B2V_ST1'' then x\<lparr>x_st1 := updateFromSt1 d (x_st1 x)\<rparr>
      else if msg = ''B2V_ST2'' then updateFromSt2 d x
      else if msg = ''B2V_ST3'' then x\<lparr>x_meas := updateFromSt3 d (x_meas x)\<rparr>
      else if msg = ''B2V_ST4'' then x\<lparr>x_meas := updateFromSt4 d (x_meas x)\<rparr>
      else if msg = ''B2V_ST5'' then x\<lparr>x_meas := updateFromSt5 d (x_meas x)\<rparr>
      else if msg = ''B2V_ST6'' then x\<lparr>x_meas := updateFromSt6 d (x_meas x)\<rparr>
      else if msg = ''B2V_ST7'' then x\<lparr>x_meas := updateFromSt7 d (x_meas x)\<rparr>
      else if msg = ''B2V_ElecEnergy'' then x\<lparr>x_meas := updateFromElecEnergy d (x_meas x)\<rparr>
      else if msg = ''B2V_CurrentLimit'' then updateFromCurrentLimit d x
      else if msg = ''TM2B_Info'' then updateFromTm2b d x
      else if msg = ''Fire2B_Info'' then updateFromFire2b d x
      else if msg = ''B2V_Fault1'' then x\<lparr>x_f1 := updateFromFault1 d (x_f1 x)\<rparr>
      else if msg = ''B2V_Fault2'' then x\<lparr>x_f2 := updateFromFault2 d (x_f2 x)\<rparr>
      else x)"

definition hv_blocked :: "bms_cache_item \<Rightarrow> bool" where
  "hv_blocked x \<longleftrightarrow> rq_hv_power_off (x_st2 x) \<or> 2 \<le> fault_level (x_st2 x) \<or> 2 \<le> fire_fault_level (x_fire x) \<or>
     f1_hvil_fault (x_f1 x) \<or> f1_over_chg (x_f1 x) \<or> 3 \<le> f1_low_ins_res (x_f1 x) \<or>
     f2_pack_self_protect (x_f2 x) \<or> f2_main_loop_prechg_err (x_f2 x) \<or> f2_aux_loop_prechg_err (x_f2 x) \<or>
     f2_chrg_ins_low_err (x_f2 x)"

definition set_identity :: "device_data \<Rightarrow> bms_cache_item \<Rightarrow> bms_cache_item" where
  "set_identity d x =
     (let idx = parseInstanceIndex d in
      x\<lparr>instance_name := (if instance_name x = [] then parseInstanceName d idx else instance_name x),
        bms_index := (if bms_index x = 0 \<and> 1 \<le> idx \<and> idx \<le> 4 then idx else bms_index x)\<rparr>)"

definition arrive :: "device_data \<Rightarrow> u64 \<Rightarrow> bms_cache_item \<Rightarrow> bms_cache_item" where
  "arrive d ts x =
     (let msg = parseMsgName d; raw_hex = parseRawHex d in
      x\<lparr>x_health := (x_health x)\<lparr>seen_once := True, last_rx_ms := ts, last_ok_ms := ts\<rparr>,
        last_msg_name := msg,
        last_raw_hex_by_group :=
          (if raw_hex \<noteq> [] then (last_raw_hex_by_group x)(msg \<mapsto> raw_hex) else last_raw_hex_by_group x),
        last_group_rx_ms := (last_group_rx_ms x)(msg \<mapsto> ts),
        x_groups := group_update msg (grp_online_update (\<lambda>_. True)) (x_groups x)\<rparr>)"

definition conclude :: "bms_cache_item \<Rightarrow> bms_cache_item" where
  "conclude x =
     (let h = x_health x in
      rebuildUnifiedRawFaults
        (x\<lparr>x_ctl := (x_ctl x)\<lparr>hv_should_open := hv_blocked x, hv_allow_close := \<not> hv_blocked x\<rparr>,
           x_health := (if offline_reason_code h = 1 then h\<lparr>offline_reason_code := 0, offline_reason_text := ''None''\<rparr>
                        else h)\<rparr>))"

definition adapt_item :: "device_data \<Rightarrow> u64 \<Rightarrow> bms_cache_item \<Rightarrow> bms_cache_item" where
  "adapt_item d ts x =
     (let msg = parseMsgName d;
          x = update_message msg d (set_identity d (arrive d ts x));
          x = x\<lparr>x_groups := group_update msg (last_ms_update (\<lambda>_. ts)) (x_groups x)\<rparr>
      in conclude x)"

definition bms_onDeviceData :: "device_data \<Rightarrow> u64 \<Rightarrow> bms_cache \<Rightarrow> bms_cache" where
  "bms_onDeviceData d ts cache =
     (if \<not> isBmsDevice d then cache
      else let idx = parseInstanceIndex d; name = parseInstanceName d idx; cache = bms_ensure name idx cache
           in cache(name := map_option (adapt_item d ts) (cache name)))"

end
