(* ===== verification/Logic_Device_Data.thy ===== *)
theory Logic_Device_Data
  imports Logic_Context Bms_Adapter Fault_Condition Can_Rx Rs485_Protocols Ups_Proto
begin

text \<open>
  What the control logic does with received device data (\<open>services/control/logic/logic_device_data.cpp\<close>): the
  raw fault states of the UPS, the smoke detector, the gas detector and the air conditioner, the observations
  of the conversion units, the heartbeat of the panel and the remote unit. The one-bit fields of the UPS and
  of the air conditioner that the code copies from a bit field or from equally named entries are functions
  from the name of the field.
\<close>

section \<open>State\<close>

record ups_details =
  q1_seen :: bool
  q6_seen :: bool
  wa_seen :: bool
  work_mode :: int
  ups_battery_low :: int
  bypass_active :: int
  ups_fault_code :: int
  q1_status_bits :: u32
  wa_status_bits :: u32
  mains_abnormal :: bool
  battery_low_state :: bool
  bypass_mode :: bool
  ups_fault_state :: bool
  backup_mode :: bool
  self_test_active :: bool
  warning_bits :: u32
  ups_warning :: "string \<Rightarrow> bool"
  fault_bits :: u32
  fault_codes :: "int list"
  ups_fault :: "string \<Rightarrow> bool"
  battery_overcharge_persist :: bool

record air_details =
  run_state :: int
  power_state :: int
  indoor_temp_c :: dbl
  humidity_percent :: dbl
  air_flag :: "string \<Rightarrow> bool"

text \<open>The context of the control logic with the parts that received data and the fault evaluation add.\<close>

record ext_ctx =
  e_logic :: logic_ctx
  e_latest :: "string \<rightharpoonup> device_data"
  e_hmi_seen_once :: bool
  e_last_hmi_comm_ts :: u64
  e_hmi_comm_timeout_ms :: u32
  e_remote_seen_once :: bool
  e_last_remote_rx_ts :: u64
  e_remote_comm_timeout_ms :: u32
  e_ups :: ups_details
  e_air :: air_details
  e_engine :: fc_engine
  e_confirmed :: "string \<rightharpoonup> bool"

definition ext_init :: ext_ctx where
  "ext_init = \<lparr>e_logic = ctx_init, e_latest = Map.empty, e_hmi_seen_once = False, e_last_hmi_comm_ts = 0,
     e_hmi_comm_timeout_ms = 10000, e_remote_seen_once = False, e_last_remote_rx_ts = 0,
     e_remote_comm_timeout_ms = 10000,
     e_ups = \<lparr>q1_seen = False, q6_seen = False, wa_seen = False, work_mode = 0, ups_battery_low = 0,
       bypass_active = 0, ups_fault_code = 0, q1_status_bits = 0, wa_status_bits = 0, mains_abnormal = False,
       battery_low_state = False, bypass_mode = False, ups_fault_state = False, backup_mode = False,
       self_test_active = False, warning_bits = 0, ups_warning = (\<lambda>_. False), fault_bits = 0,
       fault_codes = [0, 0, 0, 0], ups_fault = (\<lambda>_. False), battery_overcharge_persist = False\<rparr>,
     e_air = \<lparr>run_state = 0, power_state = 0, indoor_temp_c = Fin 0, humidity_percent = Fin 0,
       air_flag = (\<lambda>_. False)\<rparr>,
     e_engine = Map.empty, e_confirmed = Map.empty\<rparr>"

section \<open>Reading device data\<close>

definition readU32 :: "device_data \<Rightarrow> string \<Rightarrow> u32 option" where
  "readU32 d key =
     (if key = [] then None
      else case vals d key of Some v \<Rightarrow> Some (word_of_int v)
        | None \<Rightarrow> (case status d key of Some v \<Rightarrow> Some v
            | None \<Rightarrow> map_option (\<lambda>x. word_of_int (dbl_trunc x)) (num d key)))"

definition readU32_either :: "device_data \<Rightarrow> string \<Rightarrow> string \<Rightarrow> u32 option" where
  "readU32_either d k k' = (case readU32 d k of Some v \<Rightarrow> Some v | None \<Rightarrow> readU32 d k')"

definition status_on :: "device_data \<Rightarrow> string \<Rightarrow> bool" where
  "status_on d key = (case status d key of None \<Rightarrow> False | Some v \<Rightarrow> v \<noteq> 0)"

definition status_u32 :: "device_data \<Rightarrow> string \<Rightarrow> u32" where
  "status_u32 d key = (case status d key of None \<Rightarrow> 0 | Some v \<Rightarrow> v)"

definition value_i32 :: "device_data \<Rightarrow> string \<Rightarrow> int \<Rightarrow> int" where
  "value_i32 d key defv = (case vals d key of None \<Rightarrow> defv | Some v \<Rightarrow> v)"

definition read_i32 :: "device_data \<Rightarrow> string \<Rightarrow> int \<Rightarrow> int" where
  "read_i32 d key defv =
     (case vals d key of Some v \<Rightarrow> v
      | None \<Rightarrow> (case status d key of Some v \<Rightarrow> sint v
          | None \<Rightarrow> (case num d key of Some x \<Rightarrow> dbl_trunc x | None \<Rightarrow> defv)))"

definition read_num :: "device_data \<Rightarrow> string \<Rightarrow> dbl \<Rightarrow> dbl" where
  "read_num d key defv = (case num d key of Some x \<Rightarrow> x | None \<Rightarrow> defv)"

definition seen :: "u64 \<Rightarrow> dev_flags \<Rightarrow> dev_flags" where
  "seen ts f = f\<lparr>d_seen_once := True, d_online := True, d_last_rx_ms := ts\<rparr>"

section \<open>Remote unit and UPS\<close>

definition is_remote :: "string \<Rightarrow> bool" where
  "is_remote dev \<longleftrightarrow> dev \<in> {''Remote'', ''REMOTE'', ''RemoteIO'', ''REMOTE_IO'', ''RemoteIo''}"

definition recoverRemote :: "device_data \<Rightarrow> ext_ctx \<Rightarrow> ext_ctx" where
  "recoverRemote d c =
     (let l = e_logic c;
          f = (c_faults l)\<lparr>remote_comm_fault := False\<rparr>;
          f = f\<lparr>any_fault := (system_estop f \<or> sdcard_fault f \<or> hmi_comm_fault f \<or> remote_comm_fault f \<or>
                pcu_any_offline f \<or> bms_any_offline f \<or> ups_offline f \<or> smoke_offline f \<or> gas_offline f \<or>
                air_offline f)\<rparr>
      in c\<lparr>e_remote_seen_once := True, e_last_remote_rx_ts := ucast (timestamp d), e_logic := l\<lparr>c_faults := f\<rparr>\<rparr>)"

definition ups_warning_bits :: "(string \<times> nat) list" where
  "ups_warning_bits =
     [(''internal_warning'', 0), (''epo_active'', 1), (''module_unlock'', 2), (''neutral_lost'', 4),
      (''mains_phase_error'', 5), (''ln_reverse'', 6), (''bypass_abnormal'', 7),
      (''bypass_phase_error'', 8), (''battery_not_connected'', 9), (''battery_low_warning'', 10),
      (''battery_overcharge'', 11), (''battery_reverse'', 12), (''overload_warning'', 13),
      (''overload_alarm'', 14), (''fan_fault'', 15), (''bypass_cover_open'', 16), (''charger_fault'', 17),
      (''position_error'', 18), (''boot_condition_not_met'', 19), (''redundancy_lost'', 20),
      (''module_loose'', 21), (''battery_maint_due'', 22), (''inspection_maint_due'', 23),
      (''warranty_maint_due'', 24), (''temp_low_warning'', 25), (''temp_high_warning'', 26),
      (''battery_overtemp'', 27), (''fan_maint_due'', 28), (''bus_cap_maint_due'', 29),
      (''system_overload'', 30), (''reserved_warning'', 31)]"

definition ups_fault_table :: "(string \<times> int) list" where
  "ups_fault_table =
     [(''bus_softstart_timeout'', 1), (''bus_overvoltage_fault'', 2), (''bus_undervoltage_fault'', 3),
      (''bus_imbalance_fault'', 4), (''bus_short_circuit'', 5), (''inv_softstart_timeout'', 6),
      (''inv_overvoltage_fault'', 7), (''inv_undervoltage_fault'', 8), (''output_short_circuit'', 9),
      (''r_inv_short_circuit'', 10), (''s_inv_short_circuit'', 11), (''t_inv_short_circuit'', 12),
      (''rs_short_circuit'', 13), (''st_short_circuit'', 14), (''tr_short_circuit'', 15),
      (''reverse_power_fault'', 16), (''r_reverse_power_fault'', 17), (''s_reverse_power_fault'', 18),
      (''t_reverse_power_fault'', 19), (''total_reverse_power_fault'', 20),
      (''current_imbalance_fault'', 21), (''overload_fault'', 22), (''overtemp_fault'', 23),
      (''inv_relay_fail_close'', 24), (''inv_relay_stuck'', 25), (''mains_scr_fault'', 26),
      (''battery_scr_fault'', 27), (''bypass_scr_fault'', 28), (''rectifier_fault'', 29),
      (''input_overcurrent_fault'', 30), (''wiring_error'', 31), (''comm_cable_disconnected'', 32),
      (''host_cable_fault'', 33), (''can_comm_fault'', 34), (''sync_signal_fault'', 35),
      (''power_supply_fault'', 36), (''all_fan_fault'', 37), (''dsp_error'', 38),
      (''charger_softstart_timeout'', 39), (''all_module_fault'', 40), (''mains_ntc_open_fault'', 41),
      (''mains_fuse_open_fault'', 42), (''output_imbalance_fault'', 43), (''input_mismatch_fault'', 44),
      (''eeprom_data_lost'', 45), (''mains_support_failed'', 46), (''power_failed'', 47),
      (''system_overload_fault'', 48), (''ads7869_error'', 49), (''bypass_mode_no_op'', 50),
      (''op_breaker_off_parallel'', 51), (''r_bus_fuse_fault'', 52), (''s_bus_fuse_fault'', 53),
      (''t_bus_fuse_fault'', 54), (''ntc_fault'', 55), (''parallel_cable_fault'', 56),
      (''battery_fault'', 57), (''frequent_overcurrent_fault'', 58), (''battery_overcharge_fault'', 59),
      (''epo_critical_fault'', 60)]"

definition apply_status_bits :: "u32 \<Rightarrow> ups_details \<Rightarrow> ups_details" where
  "apply_status_bits bits u =
     u\<lparr>battery_low_state := bit bits 6, bypass_mode := bit bits 5, ups_fault_state := bit bits 4,
       backup_mode := bit bits 3, self_test_active := bit bits 2,
       mains_abnormal := (bit bits 7 \<or> bit (warning_bits u) 3)\<rparr>"

definition apply_q6 :: "device_data \<Rightarrow> ups_details \<Rightarrow> ups_details" where
  "apply_q6 d u =
     (let wb = status_u32 d ''warning.bits'';
          fb = status_u32 d ''fault.bits'';
          codes = map (\<lambda>k. value_i32 d k 0) [''fault.code.1'', ''fault.code.2'', ''fault.code.3'', ''fault.code.4'']
      in u\<lparr>work_mode := value_i32 d ''system.mode'' (work_mode u), warning_bits := wb,
           ups_warning := (\<lambda>n. case map_of ups_warning_bits n of Some k \<Rightarrow> bit wb k | None \<Rightarrow> ups_warning u n),
           mains_abnormal := (bit wb 3 \<or> bit (q1_status_bits u) 7 \<or> bit (wa_status_bits u) 7),
           fault_bits := fb, ups_fault_code := sint fb, fault_codes := codes,
           ups_fault := (\<lambda>n. case map_of ups_fault_table n of Some k \<Rightarrow> k \<in> set codes | None \<Rightarrow> ups_fault u n),
           battery_overcharge_persist := False\<rparr>)"

definition onUps :: "device_data \<Rightarrow> u64 \<Rightarrow> ext_ctx \<Rightarrow> ext_ctx" where
  "onUps d ts c =
     (let l = e_logic c;
          ups_cmd = value_i32 d ''__ups_cmd'' 0;
          u = e_ups c;
          u = (if ups_cmd = 1 then u\<lparr>q1_seen := True\<rparr> else u);
          u = (if ups_cmd = 2 then u\<lparr>q6_seen := True\<rparr> else u);
          u = (if ups_cmd = 3 then u\<lparr>wa_seen := True\<rparr> else u);
          u = (if ups_cmd = 1 then apply_status_bits (status_u32 d ''q1.status.bits'')
                                     (u\<lparr>q1_status_bits := status_u32 d ''q1.status.bits''\<rparr>) else u);
          u = (if ups_cmd = 3 then apply_status_bits (status_u32 d ''wa.status.bits'')
                                     (u\<lparr>wa_status_bits := status_u32 d ''wa.status.bits''\<rparr>) else u);
          u = (if ups_cmd = 2 then apply_q6 d u else u);
          u = u\<lparr>ups_battery_low := (if battery_low_state u then 1 else 0),
                bypass_active := (if bypass_mode u then 1 else 0)\<rparr>;
          f = (seen ts (c_ups l))\<lparr>d_alarm_any := (mains_abnormal u \<or> battery_low_state u \<or> bypass_mode u \<or> warning_bits u \<noteq> 0),
                d_fault_any := (ups_fault_state u \<or> fault_bits u \<noteq> 0)\<rparr>
      in c\<lparr>e_ups := u, e_logic := l\<lparr>c_ups := f\<rparr>\<rparr>)"

section \<open>Smoke detector and gas detector\<close>

definition kTssTempAlarmHighC :: dbl where "kTssTempAlarmHighC = Fin 60"

definition onSmoke :: "device_data \<Rightarrow> u64 \<Rightarrow> ext_ctx \<Rightarrow> ext_ctx" where
  "onSmoke d ts c =
     (let l = e_logic c; s = c_smoke_d l;
          s = (case num d ''smoke_percent'' of Some x \<Rightarrow> s\<lparr>smoke_percent := x\<rparr> | None \<Rightarrow> s);
          s = (case num d ''temp'' of Some x \<Rightarrow> s\<lparr>smoke_temp_c := x\<rparr> | None \<Rightarrow> s);
          alarm = (case num d ''alarm'' of Some x \<Rightarrow> dbl_trunc x | None \<Rightarrow> 0);
          fault = (case num d ''fault'' of Some x \<Rightarrow> dbl_trunc x | None \<Rightarrow> 0);
          s = s\<lparr>smoke_alarm := (status_on d ''TSS_smoke_alarm'' \<or> alarm AND 0xFF = 1),
                temp_alarm := dbl_ge (smoke_temp_c s) kTssTempAlarmHighC,
                smoke_sensor_fault := (status_on d ''TSS_SS_alarm'' \<or> fault AND 1 \<noteq> 0),
                smoke_pollution_fault := (status_on d ''TSS_SPollution_alarm'' \<or> fault AND 2 \<noteq> 0),
                temp_sensor_fault := (status_on d ''TSS_temp_fault'' \<or> fault AND 4 \<noteq> 0)\<rparr>;
          f = (seen ts (c_smoke l))\<lparr>d_alarm_any := (smoke_alarm s \<or> temp_alarm s),
                d_fault_any := (smoke_sensor_fault s \<or> smoke_pollution_fault s \<or> temp_sensor_fault s)\<rparr>
      in c\<lparr>e_logic := l\<lparr>c_smoke := f, c_smoke_d := s\<rparr>\<rparr>)"

definition gas_status_of :: "device_data \<Rightarrow> u32 option" where
  "gas_status_of d =
     (case num d ''status'' of Some x \<Rightarrow> Some (word_of_int (dbl_trunc x))
      | None \<Rightarrow> if gas_valid (gas d) then Some (ucast (gas_status (gas d))) else None)"

definition onGas :: "device_data \<Rightarrow> u64 \<Rightarrow> ext_ctx \<Rightarrow> ext_ctx" where
  "onGas d ts c =
     (let l = e_logic c; g = c_gas_d l; f = seen ts (c_gas l);
          v = (case num d ''gas_value'' of Some x \<Rightarrow> x
               | None \<Rightarrow> if gas_valid (gas d) then gas_value (gas d) else gas_reading_value g);
          g = g\<lparr>gas_reading_value := v\<rparr>
      in case gas_status_of d of None \<Rightarrow> c\<lparr>e_logic := l\<lparr>c_gas := f, c_gas_d := g\<rparr>\<rparr>
         | Some st \<Rightarrow>
             let g = g\<lparr>gas_status_code := gas_status_code g OR st,
                       gas_sensor_fault := (gas_sensor_fault g \<or> st AND 1 \<noteq> 0),
                       low_alarm := (low_alarm g \<or> st AND 2 \<noteq> 0),
                       high_alarm := (high_alarm g \<or> st AND 4 \<noteq> 0)\<rparr>;
                 f = f\<lparr>d_alarm_any := (low_alarm g \<or> high_alarm g), d_fault_any := gas_sensor_fault g\<rparr>
             in c\<lparr>e_logic := l\<lparr>c_gas := f, c_gas_d := g\<rparr>\<rparr>)"

section \<open>Air conditioner\<close>

definition air_alarm_fields :: "string list" where
  "air_alarm_fields =
     [''high_temp_alarm'', ''low_temp_alarm'', ''high_humidity_alarm'', ''low_humidity_alarm'',
      ''coil_freeze_protect'', ''exhaust_high_temp_alarm'', ''coil_temp_sensor_fault'',
      ''outdoor_temp_sensor_fault'', ''condenser_temp_sensor_fault'', ''indoor_temp_sensor_fault'',
      ''exhaust_temp_sensor_fault'', ''humidity_sensor_fault'', ''internal_fan_fault'',
      ''external_fan_fault'', ''compressor_fault'', ''heater_fault'', ''emergency_fan_fault'',
      ''high_pressure_alarm'', ''low_pressure_alarm'', ''water_alarm'', ''smoke_alarm'', ''gating_alarm'',
      ''high_pressure_lock'', ''low_pressure_lock'', ''exhaust_lock'', ''ac_over_voltage_alarm'',
      ''ac_under_voltage_alarm'', ''ac_power_loss'', ''lose_phase_alarm'', ''freq_fault'',
      ''anti_phase_alarm'', ''dc_over_voltage_alarm'', ''dc_under_voltage_alarm'']"

definition air_alarm_any_fields :: "string list" where
  "air_alarm_any_fields =
     [''high_temp_alarm'', ''low_temp_alarm'', ''high_humidity_alarm'', ''low_humidity_alarm'',
      ''coil_freeze_protect'', ''exhaust_high_temp_alarm'', ''high_pressure_alarm'',
      ''low_pressure_alarm'', ''water_alarm'', ''smoke_alarm'', ''gating_alarm'', ''high_pressure_lock'',
      ''low_pressure_lock'', ''exhaust_lock'', ''ac_over_voltage_alarm'', ''ac_under_voltage_alarm'',
      ''ac_power_loss'', ''lose_phase_alarm'', ''freq_fault'', ''anti_phase_alarm'',
      ''dc_over_voltage_alarm'', ''dc_under_voltage_alarm'']"

definition air_fault_any_fields :: "string list" where
  "air_fault_any_fields =
     [''coil_temp_sensor_fault'', ''outdoor_temp_sensor_fault'', ''condenser_temp_sensor_fault'',
      ''indoor_temp_sensor_fault'', ''exhaust_temp_sensor_fault'', ''humidity_sensor_fault'',
      ''internal_fan_fault'', ''external_fan_fault'', ''compressor_fault'', ''heater_fault'',
      ''emergency_fan_fault'']"

definition is_alarm_segment :: "device_data \<Rightarrow> bool" where
  "is_alarm_segment d \<longleftrightarrow> value_i32 d ''__air_stage'' (-1) = 3 \<or>
     (\<exists>k \<in> dom (status d). take 6 k = ''alarm.'')"

definition onAir :: "device_data \<Rightarrow> u64 \<Rightarrow> ext_ctx \<Rightarrow> ext_ctx" where
  "onAir d ts c =
     (let l = e_logic c; a = e_air c; f = seen ts (c_air l);
          air_stage = value_i32 d ''__air_stage'' (-1);
          a = (if air_stage = 1 \<or> num d ''run.overall'' \<noteq> None
               then a\<lparr>run_state := read_i32 d ''run.overall'' (run_state a)\<rparr> else a);
          a = (if air_stage = 2 \<or> num d ''temp.indoor_c'' \<noteq> None \<or> num d ''humidity_percent'' \<noteq> None
               then a\<lparr>indoor_temp_c := read_num d ''temp.indoor_c'' (indoor_temp_c a),
                      humidity_percent := read_num d ''humidity_percent'' (humidity_percent a)\<rparr> else a);
          a = (if num d ''remote.power'' \<noteq> None
               then a\<lparr>power_state := read_i32 d ''remote.power'' (power_state a)\<rparr> else a)
      in if is_alarm_segment d then
           let flags = (\<lambda>n. if n \<in> set air_alarm_fields then read_i32 d (''alarm.'' @ n) 0 \<noteq> 0 else air_flag a n);
               f = f\<lparr>d_alarm_any := list_ex flags air_alarm_any_fields,
                     d_fault_any := list_ex flags air_fault_any_fields\<rparr>
           in c\<lparr>e_air := a\<lparr>air_flag := flags\<rparr>, e_logic := l\<lparr>c_air := f\<rparr>\<rparr>
         else c\<lparr>e_air := a, e_logic := l\<lparr>c_air := f\<rparr>\<rparr>)"

section \<open>Conversion units\<close>

definition tryResolvePcuInstance :: "device_data \<Rightarrow> u32 option" where
  "tryResolvePcuInstance d =
     (case readU32_either d ''__pcu.instance'' ''pcu_instance'' of
        Some v \<Rightarrow> if v = 1 then Some 0 else if v = 2 then Some 1
                  else if device_name d = ''PCU_0'' then Some 0 else if device_name d = ''PCU_1'' then Some 1 else None
      | None \<Rightarrow> if device_name d = ''PCU_0'' then Some 0 else if device_name d = ''PCU_1'' then Some 1 else None)"

definition heartbeat_step :: "u32 \<Rightarrow> u64 \<Rightarrow> pcu_online_state \<Rightarrow> pcu_online_state" where
  "heartbeat_step hb ts st =
     (if \<not> has_last_heartbeat st
      then st\<lparr>last_heartbeat := hb, has_last_heartbeat := True, last_hb_change_ms := ts, hb_repeat_count := 0,
              last_hb_delta := 0\<rparr>
      else let prev = last_heartbeat st in
        if prev = hb then st\<lparr>hb_repeat_count := hb_repeat_count st + 1, last_hb_delta := 0\<rparr>
        else let delta = sint (hb - prev);
                 delta = (if 240 < prev \<and> hb < 16 then sint (hb + 256 - prev) else delta);
                 st = st\<lparr>last_hb_delta := delta\<rparr>;
                 st = (if delta \<noteq> 1 then st\<lparr>hb_jump_err_count := hb_jump_err_count st + 1\<rparr> else st)
             in st\<lparr>last_heartbeat := hb, last_hb_change_ms := ts, hb_repeat_count := 0\<rparr>)"

definition observe_pcu :: "device_data \<Rightarrow> u32 \<Rightarrow> u64 \<Rightarrow> pcu_online_state \<Rightarrow> pcu_online_state" where
  "observe_pcu d hb ts st =
     (let st = st\<lparr>pcu_seen_once := True, pcu_last_rx_ms := ts\<rparr>;
          st = (case readU32_either d ''cabinet_id'' ''__pcu.cabinet_id'' of Some v \<Rightarrow> st\<lparr>cabinet_id := v\<rparr> | None \<Rightarrow> st);
          st = (case readU32_either d ''pcu_state'' ''__pcu.pcu_state_raw'' of
                  Some v \<Rightarrow> st\<lparr>pcu_state := v, pcu_state_valid := True\<rparr> | None \<Rightarrow> st);
          st = (case readU32_either d ''estop'' ''__pcu.estop_raw'' of Some v \<Rightarrow> st\<lparr>pcu_estop := (v \<noteq> 0)\<rparr> | None \<Rightarrow> st)
      in heartbeat_step hb ts st)"

definition updatePcuOnlineState :: "device_data \<Rightarrow> u64 \<Rightarrow> ext_ctx \<Rightarrow> ext_ctx" where
  "updatePcuOnlineState d ts c =
     (case tryResolvePcuInstance d of None \<Rightarrow> c
      | Some i \<Rightarrow>
          (case readU32_either d ''heartbeat'' ''__pcu.heartbeat'' of None \<Rightarrow> c
           | Some hb \<Rightarrow>
               let l = e_logic c in
               if i = 0 then c\<lparr>e_logic := l\<lparr>c_pcu0 := observe_pcu d hb ts (c_pcu0 l)\<rparr>\<rparr>
               else if i = 1 then c\<lparr>e_logic := l\<lparr>c_pcu1 := observe_pcu d hb ts (c_pcu1 l)\<rparr>\<rparr>
               else c))"

section \<open>The handler\<close>

definition feedHmiAlive :: "u64 \<Rightarrow> ext_ctx \<Rightarrow> ext_ctx" where
  "feedHmiAlive now c = c\<lparr>e_hmi_seen_once := True, e_last_hmi_comm_ts := now\<rparr>"

definition onDeviceData :: "device_data \<Rightarrow> u64 \<Rightarrow> ext_ctx \<Rightarrow> ext_ctx" where
  "onDeviceData d ts c0 =
     (let c = c0\<lparr>e_latest := (e_latest c0)(device_name d \<mapsto> d\<lparr>timestamp := ucast ts\<rparr>)\<rparr>;
          dev = device_name d
      in if is_remote dev then recoverRemote d c
         else if dev = ''HMI_SYS_HEARTBEAT'' then c\<lparr>e_hmi_seen_once := True, e_last_hmi_comm_ts := ts\<rparr>
         else if dev = ''BMS'' then c\<lparr>e_logic := (e_logic c)\<lparr>c_bms := bms_onDeviceData d ts (c_bms (e_logic c))\<rparr>\<rparr>
         else if dev = ''UPS'' then onUps d ts c
         else if dev = ''SmokeSensor'' then onSmoke d ts c
         else if dev = ''GasDetector'' then onGas d ts c
         else if dev = ''AirConditioner'' then onAir d ts c
         else if dev = ''PCU'' \<or> dev = ''PCU_0'' \<or> dev = ''PCU_1'' then updatePcuOnlineState d ts c
         else c)"

section \<open>Facts on the wire formats\<close>

lemma dbl_of_int_exact: "\<bar>i\<bar> < 2 ^ 53 \<Longrightarrow> dbl_of_int i = Fin (of_int i)"
  unfolding dbl_of_int_def by (rule dbl_round_int) simp

lemma dbl_trunc_of_int [simp]: "dbl_trunc (Fin (of_int i)) = i"
  by simp

lemma uint16_bound: "uint (v :: u16) < 65536" "0 \<le> uint (v :: u16)"
  using unsigned_less [of v, where 'a = int] by simp_all

lemma dbl16_exact: "dbl16 v = Fin (of_int (uint v))"
  unfolding dbl16_def using uint16_bound [of v] by (intro dbl_of_int_exact) simp

lemma applyTemperature_bound: "\<bar>applyTemperature v\<bar> < 256"
  using unsigned_less [of "lo8 v", where 'a = int] by (simp add: applyTemperature_def)

lemma flag32_nz [simp]: "flag32 b \<noteq> 0 \<longleftrightarrow> b" "sint (flag32 b) \<noteq> 0 \<longleftrightarrow> b" "sint (flag32 b) = 0 \<longleftrightarrow> \<not> b"
  by (simp_all add: flag32_def)

lemma uint_mask_iff:
  "uint (v :: u16) AND 255 = 1 \<longleftrightarrow> v AND 255 = 1" "uint (v :: u16) AND 1 = 0 \<longleftrightarrow> v AND 1 = 0"
  "uint (v :: u16) AND 2 = 0 \<longleftrightarrow> v AND 2 = 0" "uint (v :: u16) AND 4 = 0 \<longleftrightarrow> v AND 4 = 0"
  unfolding word_uint_eq_iff by (simp_all add: uint_and)

lemma and_FF_and: "((v :: u16) AND 0xFF) AND 1 = v AND 1" "((v :: u16) AND 0xFF) AND 2 = v AND 2"
  "((v :: u16) AND 0xFF) AND 4 = v AND 4"
  by (simp_all add: and.assoc)

lemma smoke_parse_response:
  assumes "5 \<le> length regs" "length regs \<le> 127"
  shows "smoke_parse addr (response03 close_hi_lo addr regs) out = (True, smoke_data regs out)"
  using assms hilo.parse_accepts [of regs addr]
  by (simp add: smoke_parse_def smoke_parseHoldingRegs03_def)

section \<open>Properties\<close>

text \<open>From the wire to the control logic: after the response of the smoke sensor has been parsed and
  handed to the logic, the smoke alarm, the over-temperature alarm from 60 degrees on and the three sensor
  faults are exactly what the five registers say, the sensor is online, and the two summary flags follow.\<close>

theorem smoke_frame_reaches_logic:
  assumes "5 \<le> length regs" and "length regs \<le> 127"
    and "smoke_parse addr (response03 close_hi_lo addr regs) dd_init = (ok, d)"
    and "c' = onDeviceData d ts c"
  shows "let s = c_smoke_d (e_logic c'); f = c_smoke (e_logic c') in
     ok \<and> (smoke_alarm s \<longleftrightarrow> regs ! 0 AND 0xFF = 1) \<and>
     (temp_alarm s \<longleftrightarrow> 60 \<le> applyTemperature (regs ! 4)) \<and>
     (smoke_sensor_fault s \<longleftrightarrow> regs ! 1 AND 1 \<noteq> 0) \<and> (smoke_pollution_fault s \<longleftrightarrow> regs ! 1 AND 2 \<noteq> 0) \<and>
     (temp_sensor_fault s \<longleftrightarrow> regs ! 1 AND 4 \<noteq> 0) \<and> d_online f \<and> d_last_rx_ms f = ts \<and>
     (d_alarm_any f \<longleftrightarrow> smoke_alarm s \<or> temp_alarm s) \<and>
     (d_fault_any f \<longleftrightarrow> smoke_sensor_fault s \<or> smoke_pollution_fault s \<or> temp_sensor_fault s)"
proof -
  have d: "ok" "d = smoke_data regs dd_init" using assms(3) smoke_parse_response [OF assms(1,2), of addr dd_init] by simp_all
  have temp: "dbl_of_int (applyTemperature (regs ! 4)) = Fin (of_int (applyTemperature (regs ! 4)))"
    using applyTemperature_bound [of "regs ! 4"] by (intro dbl_of_int_exact) simp
  have hot: "dbl_ge (Fin (of_int i)) kTssTempAlarmHighC \<longleftrightarrow> 60 \<le> i" for i :: int
    by (simp add: dbl_ge_def kTssTempAlarmHighC_def) linarith
  define a0 where "a0 = uint (regs ! 0)"
  define f0 where "f0 = uint (regs ! 1)"
  note masks = uint_mask_iff(1) [of "regs ! 0", folded a0_def] uint_mask_iff(2-4) [of "regs ! 1", folded f0_def]
  have lookups: "device_name d = ''SmokeSensor''" "num d ''alarm'' = Some (Fin (of_int a0))"
    "num d ''fault'' = Some (Fin (of_int f0))" "num d ''temp'' = Some (Fin (of_int (applyTemperature (regs ! 4))))"
    "status_on d ''TSS_smoke_alarm'' \<longleftrightarrow> regs ! 0 AND 0xFF = 1" "status_on d ''TSS_SS_alarm'' \<longleftrightarrow> regs ! 1 AND 1 \<noteq> 0"
    "status_on d ''TSS_SPollution_alarm'' \<longleftrightarrow> regs ! 1 AND 2 \<noteq> 0" "status_on d ''TSS_temp_fault'' \<longleftrightarrow> regs ! 1 AND 4 \<noteq> 0"
    unfolding d(2) by (simp_all add: smoke_data_def temp dbl16_exact a0_def f0_def status_on_def and_FF_and Let_def)
  have c': "c' = onSmoke d ts (c\<lparr>e_latest := (e_latest c)(''SmokeSensor'' \<mapsto> d\<lparr>timestamp := ucast ts\<rparr>)\<rparr>)"
    unfolding assms(4) onDeviceData_def Let_def lookups(1) by (simp add: is_remote_def)
  show ?thesis unfolding c'
    using d(1) masks by (simp add: onSmoke_def lookups hot seen_def Let_def)
qed

theorem smoke_frame_reaches_logic_witness:
  "let c' = onDeviceData (snd (smoke_parse 2 (response03 close_hi_lo 2 [1, 4, 2, 30, 75]) dd_init)) 1234 ext_init;
       s = c_smoke_d (e_logic c')
   in smoke_alarm s \<and> temp_alarm s \<and> \<not> smoke_sensor_fault s \<and> temp_sensor_fault s \<and> d_online (c_smoke (e_logic c'))"
proof -
  obtain ok d where p: "smoke_parse 2 (response03 close_hi_lo 2 [1, 4, 2, 30, 75]) dd_init = (ok, d)" by fastforce
  from smoke_frame_reaches_logic [OF _ _ p refl, of 1234 ext_init] show ?thesis
    by (simp add: p applyTemperature_def hi8_def lo8_def Let_def)
qed

section \<open>Alarms of the air conditioner\<close>

lemma alarm_keys_fields: "alarm_keys = map ((@) ''alarm.'') air_alarm_fields"
  by (simp add: alarm_keys_def air_alarm_fields_def)

lemma distinct_air_alarm_fields: "distinct air_alarm_fields"
  by (simp add: air_alarm_fields_def)

lemma length_air_alarm_fields: "length air_alarm_fields = 33"
  by (simp add: air_alarm_fields_def)

lemma alarmKeyByOffset_field: "i < 33 \<Longrightarrow> alarmKeyByOffset i = ''alarm.'' @ air_alarm_fields ! i"
  by (simp add: alarmKeyByOffset_def alarm_keys_fields length_air_alarm_fields)

lemma foldl_set_alarm_status:
  assumes "n \<le> 33" "i < 33"
  shows "status (foldl (set_alarm regs) d [0..<n]) (''alarm.'' @ air_alarm_fields ! i) =
     (if i < n then Some (flag32 (regs ! i \<noteq> 0)) else status d (''alarm.'' @ air_alarm_fields ! i))"
  using assms(1)
proof (induction n)
  case (Suc n)
  have "air_alarm_fields ! n = air_alarm_fields ! i \<longleftrightarrow> n = i"
    using Suc.prems assms(2) nth_eq_iff_index_eq [OF distinct_air_alarm_fields, of n i]
    by (simp add: length_air_alarm_fields)
  with Suc show ?case by (auto simp: set_alarm_def alarmKeyByOffset_field)
qed simp

lemma air_field_not_any: "i < 33 \<Longrightarrow> air_alarm_fields ! i \<noteq> ''any''"
proof -
  have "''any'' \<notin> set air_alarm_fields" by (simp add: air_alarm_fields_def)
  then show "i < 33 \<Longrightarrow> air_alarm_fields ! i \<noteq> ''any''" by (metis length_air_alarm_fields nth_mem)
qed

definition air_base :: "poll_stage \<Rightarrow> nat \<Rightarrow> device_data" where
  "air_base s n = dd_init\<lparr>device_name := ''AirConditioner'',
     vals := [''__air_stage'' \<mapsto> stage_code s, ''__air_regs_count'' \<mapsto> int n]\<rparr>"

lemma alarm_segment_flag:
  assumes "length regs = 33" "i < 33"
  shows "read_i32 (fillSegmentData S3_Alarms regs (air_base S3_Alarms 33)) (''alarm.'' @ air_alarm_fields ! i) 0 \<noteq> 0 \<longleftrightarrow>
     regs ! i \<noteq> 0"
proof -
  define d where "d = fillSegmentData S3_Alarms regs (air_base S3_Alarms 33)"
  have "vals d (''alarm.'' @ air_alarm_fields ! i) = None"
    by (simp add: d_def air_base_def)
  moreover have "status d (''alarm.'' @ air_alarm_fields ! i) = Some (flag32 (regs ! i \<noteq> 0))"
    using foldl_set_alarm_status [of 33 i regs] air_field_not_any [OF assms(2)] assms
    by (simp add: d_def fillSegmentData_def air_base_def dd_init_def Let_def)
  ultimately show ?thesis unfolding d_def [symmetric] by (simp add: read_i32_def)
qed

lemma other_segment_no_alarm:
  assumes "s \<noteq> S3_Alarms"
  shows "\<not> is_alarm_segment (fillSegmentData s regs (air_base s n))"
  using assms
  by (cases s) (simp_all add: is_alarm_segment_def value_i32_def fillSegmentData_def air_base_def dd_init_def Let_def)

lemma onDeviceData_air:
  "device_name d = ''AirConditioner'' \<Longrightarrow>
   onDeviceData d ts c = onAir d ts (c\<lparr>e_latest := (e_latest c)(''AirConditioner'' \<mapsto> d\<lparr>timestamp := ucast ts\<rparr>)\<rparr>)"
  by (simp add: onDeviceData_def is_remote_def Let_def)

text \<open>The response to the alarm segment sets each of the 33 alarm and fault flags of the air conditioner to
  whether its register is not zero and recomputes the summary flags; the responses to the other four segments
  leave all of them as they were.\<close>

theorem air_segments_reach_logic:
  assumes "length regs = unat (snd (segmentOf s))"
    and "aircon_parse addr (response03 close_lo_hi addr regs) dd_init = (ok, d)"
    and "c' = onDeviceData d ts c"
  shows "ok \<and> d_online (c_air (e_logic c')) \<and>
     (if s = S3_Alarms
      then (\<forall>i < 33. air_flag (e_air c') (air_alarm_fields ! i) \<longleftrightarrow> regs ! i \<noteq> 0) \<and>
           d_alarm_any (c_air (e_logic c')) = list_ex (air_flag (e_air c')) air_alarm_any_fields \<and>
           d_fault_any (c_air (e_logic c')) = list_ex (air_flag (e_air c')) air_fault_any_fields
      else air_flag (e_air c') = air_flag (e_air c) \<and>
           d_alarm_any (c_air (e_logic c')) = d_alarm_any (c_air (e_logic c)) \<and>
           d_fault_any (c_air (e_logic c')) = d_fault_any (c_air (e_logic c)))"
proof -
  have d: "ok" "d = fillSegmentData s regs (air_base s (length regs))"
    using aircon_parse_response [OF assms(1), of addr dd_init] assms(2) by (simp_all add: air_base_def)
  define c0 where "c0 = c\<lparr>e_latest := (e_latest c)(''AirConditioner'' \<mapsto> d\<lparr>timestamp := ucast ts\<rparr>)\<rparr>"
  have c': "c' = onAir d ts c0"
    unfolding assms(3) c0_def by (rule onDeviceData_air) (simp add: d(2))
  have online: "d_online (c_air (e_logic c'))" unfolding c' by (simp add: onAir_def seen_def Let_def)
  show ?thesis
  proof (cases "s = S3_Alarms")
    case True
    then have len: "length regs = 33" using assms(1) by simp
    have "is_alarm_segment d"
      unfolding d(2) True by (simp add: is_alarm_segment_def value_i32_def air_base_def)
    then have flags: "air_flag (e_air c') n \<longleftrightarrow> read_i32 d (''alarm.'' @ n) 0 \<noteq> 0" if "n \<in> set air_alarm_fields" for n
      using that unfolding c' by (simp add: onAir_def Let_def)
    have "air_flag (e_air c') (air_alarm_fields ! i) \<longleftrightarrow> regs ! i \<noteq> 0" if "i < 33" for i
      using flags [of "air_alarm_fields ! i"] alarm_segment_flag [OF len that] that
      unfolding d(2) True len by (simp add: length_air_alarm_fields)
    moreover have "d_alarm_any (c_air (e_logic c')) = list_ex (air_flag (e_air c')) air_alarm_any_fields"
      "d_fault_any (c_air (e_logic c')) = list_ex (air_flag (e_air c')) air_fault_any_fields"
      using \<open>is_alarm_segment d\<close> unfolding c' by (simp_all add: onAir_def Let_def)
    ultimately show ?thesis using True d(1) online by simp
  next
    case False
    then have "\<not> is_alarm_segment d" unfolding d(2) by (rule other_segment_no_alarm)
    then show ?thesis using False d(1) online unfolding c' by (simp add: onAir_def c0_def seen_def Let_def)
  qed
qed

theorem air_segments_reach_logic_witness:
  "let d = snd (aircon_parse 1 (response03 close_lo_hi 1 (1 # replicate 32 0)) dd_init);
       c' = onDeviceData d 99 ext_init
   in (\<forall>i < 33. air_flag (e_air c') (air_alarm_fields ! i) \<longleftrightarrow> (1 # replicate 32 (0 :: u16)) ! i \<noteq> 0)"
proof -
  obtain ok d where p: "aircon_parse 1 (response03 close_lo_hi 1 (1 # replicate 32 0)) dd_init = (ok, d)" by fastforce
  show ?thesis
    using air_segments_reach_logic [OF _ p refl, of S3_Alarms 99 ext_init] by (simp add: p)
qed

section \<open>Status of the conversion units\<close>

definition pcu_of :: "u8 \<Rightarrow> ext_ctx \<Rightarrow> pcu_online_state" where
  "pcu_of inst c = (if inst = 1 then c_pcu0 (e_logic c) else c_pcu1 (e_logic c))"

definition pcu_data :: "u8 \<Rightarrow> int \<Rightarrow> u32 \<Rightarrow> can_frame \<Rightarrow> device_data" where
  "pcu_data inst i expect fr =
     stampParsedMeta (dispatcher_new\<lparr>pcu_instance_by_can := [i \<mapsto> inst]\<rparr>) i fr (snd (parsePcuStatus expect fr dd_init))"

lemma stampParsedMeta_instance:
  "pcu_instance_by_can d i = pcu_instance_by_can d' i \<Longrightarrow> stampParsedMeta d i fr out = stampParsedMeta d' i fr out"
  by (simp only: stampParsedMeta_def Let_def)

lemma word_of_uint_ucast: "word_of_int (uint (b :: u8)) = (ucast b :: u32)"
  by (rule ucast_eq [symmetric])

lemma pcu_data_reads:
  assumes "can_id fr AND CAN_EFF_FLAG \<noteq> 0" "can_id fr AND CAN_EFF_MASK = expect AND CAN_EFF_MASK" "8 \<le> can_dlc fr"
    and "inst = 1 \<or> inst = 2"
  shows "device_name (pcu_data inst i expect fr) = ''PCU''"
    "tryResolvePcuInstance (pcu_data inst i expect fr) = Some (if inst = 1 then 0 else 1)"
    "readU32_either (pcu_data inst i expect fr) ''heartbeat'' ''__pcu.heartbeat'' = Some (ucast (can_data fr ! 0))"
    "readU32_either (pcu_data inst i expect fr) ''cabinet_id'' ''__pcu.cabinet_id'' = Some (ucast (can_data fr ! 3))"
    "readU32_either (pcu_data inst i expect fr) ''pcu_state'' ''__pcu.pcu_state_raw'' = Some (ucast (can_data fr ! 2))"
    "readU32_either (pcu_data inst i expect fr) ''estop'' ''__pcu.estop_raw'' =
       Some (if can_data fr ! 1 \<noteq> 0 then 1 else 0)"
proof -
  have len: "\<not> can_dlc fr < 8" using assms(3) by simp
  note simps = pcu_data_def parsePcuStatus_def stampParsedMeta_def stamp_can_def dispatcher_new_def dd_init_def
    readU32_either_def readU32_def tryResolvePcuInstance_def pcuRuntimeName_def word_of_uint_ucast Let_def
  show "device_name (pcu_data inst i expect fr) = ''PCU''"
    "tryResolvePcuInstance (pcu_data inst i expect fr) = Some (if inst = 1 then 0 else 1)"
    "readU32_either (pcu_data inst i expect fr) ''heartbeat'' ''__pcu.heartbeat'' = Some (ucast (can_data fr ! 0))"
    "readU32_either (pcu_data inst i expect fr) ''cabinet_id'' ''__pcu.cabinet_id'' = Some (ucast (can_data fr ! 3))"
    "readU32_either (pcu_data inst i expect fr) ''pcu_state'' ''__pcu.pcu_state_raw'' = Some (ucast (can_data fr ! 2))"
    "readU32_either (pcu_data inst i expect fr) ''estop'' ''__pcu.estop_raw'' =
       Some (if can_data fr ! 1 \<noteq> 0 then 1 else 0)"
    using assms(1,2,4) len by (elim disjE; simp add: simps)+
qed

lemma can_handle_pcu:
  assumes "proto_by_can d i = Some expect" "pcu_instance_by_can d i = Some inst" "\<not> (bms_attached d \<and> i = bms_can_index d)"
    and "can_id fr AND CAN_EFF_FLAG \<noteq> 0" "can_id fr AND CAN_EFF_MASK = expect AND CAN_EFF_MASK" "8 \<le> can_dlc fr"
  shows "can_handle d i fr now dd_init q = (Parsed, pcu_data inst i expect fr, q)"
proof -
  have "fst (parsePcuStatus expect fr dd_init)" using assms(4-6) by (simp add: parsePcuStatus_def Let_def)
  moreover have "stampParsedMeta d i fr out = stampParsedMeta (dispatcher_new\<lparr>pcu_instance_by_can := [i \<mapsto> inst]\<rparr>) i fr out" for out
    using assms(2) by (intro stampParsedMeta_instance) simp
  ultimately show ?thesis
    using assms(1,3) by (auto simp: can_handle_def pcu_data_def split: prod.splits)
qed

lemma observe_pcu_fields:
  assumes "readU32_either d ''cabinet_id'' ''__pcu.cabinet_id'' = Some cab"
    "readU32_either d ''pcu_state'' ''__pcu.pcu_state_raw'' = Some ps"
    "readU32_either d ''estop'' ''__pcu.estop_raw'' = Some es"
  shows "pcu_estop (observe_pcu d hb ts st) = (es \<noteq> 0)" "pcu_state (observe_pcu d hb ts st) = ps"
    "cabinet_id (observe_pcu d hb ts st) = cab" "pcu_last_rx_ms (observe_pcu d hb ts st) = ts"
    "pcu_seen_once (observe_pcu d hb ts st)" "last_heartbeat (observe_pcu d hb ts st) = hb"
    "last_hb_change_ms (observe_pcu d hb ts st) =
       (if has_last_heartbeat st \<and> last_heartbeat st = hb then last_hb_change_ms st else ts)"
  using assms by (simp_all add: observe_pcu_def heartbeat_step_def Let_def)

text \<open>C33: From the bus to the control logic: a status frame of a configured conversion unit is parsed by the
  dispatcher and updates exactly that unit: emergency stop, state and cabinet number are the bytes of the
  frame, the receive time is set, and the time of the last heartbeat change moves exactly when the heartbeat
  differs from the previous one or is the first.\<close>

theorem pcu_frame_reaches_logic:
  assumes "proto_by_can d i = Some expect" and "pcu_instance_by_can d i = Some inst" and "inst = 1 \<or> inst = 2"
    and "\<not> (bms_attached d \<and> i = bms_can_index d)"
    and "can_id fr AND CAN_EFF_FLAG \<noteq> 0" and "can_id fr AND CAN_EFF_MASK = expect AND CAN_EFF_MASK" and "8 \<le> can_dlc fr"
    and "can_handle d i fr now dd_init q = (r, dat, q')" and "c' = onDeviceData dat ts c"
  shows "r = Parsed \<and> q' = q \<and> (pcu_estop (pcu_of inst c') \<longleftrightarrow> can_data fr ! 1 \<noteq> 0) \<and>
     pcu_state (pcu_of inst c') = ucast (can_data fr ! 2) \<and> cabinet_id (pcu_of inst c') = ucast (can_data fr ! 3) \<and>
     pcu_last_rx_ms (pcu_of inst c') = ts \<and>
     last_hb_change_ms (pcu_of inst c') =
       (if has_last_heartbeat (pcu_of inst c) \<and> last_heartbeat (pcu_of inst c) = ucast (can_data fr ! 0)
        then last_hb_change_ms (pcu_of inst c) else ts) \<and>
     pcu_of (3 - inst) c' = pcu_of (3 - inst) c"
proof -
  have h: "r = Parsed" "dat = pcu_data inst i expect fr" "q' = q"
    using can_handle_pcu [OF assms(1,2,4-7), of now q] assms(8) by simp_all
  note reads = pcu_data_reads [OF assms(5-7,3), of i]
  define c0 where "c0 = c\<lparr>e_latest := (e_latest c)(''PCU'' \<mapsto> dat\<lparr>timestamp := ucast ts\<rparr>)\<rparr>"
  have "c' = updatePcuOnlineState dat ts c0"
    using assms(9) reads(1) by (simp add: h(2) c0_def onDeviceData_def is_remote_def Let_def)
  then have new: "pcu_of inst c' = observe_pcu dat (ucast (can_data fr ! 0)) ts (pcu_of inst c)"
    "pcu_of (3 - inst) c' = pcu_of (3 - inst) c"
    using assms(3) reads(2,3) by (auto simp: updatePcuOnlineState_def h(2) pcu_of_def c0_def Let_def)
  show ?thesis unfolding new using observe_pcu_fields [OF reads(4-6)] h by simp
qed

theorem pcu_frame_reaches_logic_witness:
  "let d = dispatcher_init dispatcher_new [\<lparr>cl_can_index = 1, cl_enable = True, cl_protocol_type = ''emu_pcu_v1'',
             cl_pcu_instance = 2, cl_id_pcu_status = 0x1801EFA0\<rparr>];
       fr = \<lparr>can_id = 0x9801EFA0, can_dlc = 8, can_data = [7, 1, 2, 5, 0, 0, 0, 0]\<rparr>;
       dat = fst (snd (can_handle d 1 fr 40 dd_init []));
       c' = onDeviceData dat 50 ext_init
   in pcu_estop (c_pcu1 (e_logic c')) \<and> pcu_state (c_pcu1 (e_logic c')) = 2 \<and> \<not> pcu_estop (c_pcu0 (e_logic c'))"
proof -
  define d where "d = dispatcher_init dispatcher_new [\<lparr>cl_can_index = 1, cl_enable = True, cl_protocol_type = ''emu_pcu_v1'',
             cl_pcu_instance = 2, cl_id_pcu_status = 0x1801EFA0\<rparr>]"
  define fr where "fr = \<lparr>can_id = 0x9801EFA0, can_dlc = 8, can_data = [7, 1, 2, 5, 0, 0, 0, 0]\<rparr>"
  obtain r dat q' where h: "can_handle d 1 fr 40 dd_init [] = (r, dat, q')" by (cases "can_handle d 1 fr 40 dd_init []") auto
  have "proto_by_can d 1 = Some 0x1801EFA0" "pcu_instance_by_can d 1 = Some 2" "(2 :: u8) = 1 \<or> (2 :: u8) = 2"
    "\<not> (bms_attached d \<and> 1 = bms_can_index d)" "can_id fr AND CAN_EFF_FLAG \<noteq> 0"
    "can_id fr AND CAN_EFF_MASK = 0x1801EFA0 AND CAN_EFF_MASK" "8 \<le> can_dlc fr"
    by (simp_all add: d_def fr_def dispatcher_init_def bind_link_def dispatcher_new_def CAN_EFF_FLAG_def CAN_EFF_MASK_def Let_def)
  note th = pcu_frame_reaches_logic [OF this h refl, of 50 ext_init]
  define c1 where "c1 = onDeviceData dat 50 ext_init"
  have "pcu_estop (pcu_of 1 ext_init) = False" by (simp add: pcu_of_def ext_init_def ctx_init_def pcu_init_def)
  with th [folded c1_def] have "pcu_estop (pcu_of 2 c1)" "pcu_state (pcu_of 2 c1) = 2" "\<not> pcu_estop (pcu_of 1 c1)"
    by (simp_all add: fr_def)
  then show ?thesis unfolding d_def [symmetric] fr_def [symmetric] Let_def h fst_conv snd_conv c1_def [symmetric]
    by (simp add: pcu_of_def)
qed

end
