(* ===== verification/Fault_Logic.thy ===== *)
theory Fault_Logic
  imports Logic_Device_Data
begin

text \<open>
  The evaluation of the logic faults (\<open>services/control/fault/fault_logic_evaluator.cpp\<close>): raw conditions are
  derived from the context and each is confirmed by its own debounced condition in the condition engine. The
  evaluation is a sequence of such confirmations; what it does to one signal is a debounce of that signal
  alone when the signal occurs once in the sequence, and the two emergency-stop signals that share a key
  disturb each other.
\<close>

section \<open>Raw conditions\<close>

definition fl_makeSignalKey :: "string \<Rightarrow> string" where "fl_makeSignalKey signal = ''logic.'' @ signal"

definition rawPcuOffline :: "pcu_online_state \<Rightarrow> bool" where "rawPcuOffline st \<longleftrightarrow> \<not> pcu_online st"
definition rawPcuEmergencyStop :: "pcu_online_state \<Rightarrow> bool" where
  "rawPcuEmergencyStop st \<longleftrightarrow> pcu_online st \<and> pcu_estop st"

definition rawHmiCommFault :: "ext_ctx \<Rightarrow> u64 \<Rightarrow> bool" where
  "rawHmiCommFault c now =
     (if \<not> e_hmi_seen_once c then False
      else if e_last_hmi_comm_ts c = 0 then False
      else if now < e_last_hmi_comm_ts c then False
      else ucast (e_hmi_comm_timeout_ms c) < now - e_last_hmi_comm_ts c)"

definition rawRemoteCommFault :: "ext_ctx \<Rightarrow> u64 \<Rightarrow> bool" where
  "rawRemoteCommFault c now =
     (if remote_comm_fault (c_faults (e_logic c)) then True
      else if \<not> e_remote_seen_once c then False
      else if e_last_remote_rx_ts c = 0 then False
      else if now < e_last_remote_rx_ts c then False
      else ucast (e_remote_comm_timeout_ms c) < now - e_last_remote_rx_ts c)"

definition rawSdcardFault :: "ext_ctx \<Rightarrow> bool" where
  "rawSdcardFault c = sdcard_fault (c_faults (e_logic c))"

section \<open>Confirmation\<close>

definition fl_setConfirmed :: "string \<Rightarrow> bool \<Rightarrow> ext_ctx \<Rightarrow> ext_ctx" where
  "fl_setConfirmed signal on c = c\<lparr>e_confirmed := (e_confirmed c)(fl_makeSignalKey signal \<mapsto> on)\<rparr>"

record signal_eval =
  sg_name :: string
  sg_raw :: bool
  sg_trigger :: u32
  sg_clear :: u32

definition eval_confirmed :: "u64 \<Rightarrow> ext_ctx \<Rightarrow> signal_eval \<Rightarrow> ext_ctx" where
  "eval_confirmed now c s =
     (let key = fl_makeSignalKey (sg_name s);
          engine = snd (updateConditionWithClear key (sg_raw s) (\<not> sg_raw s) now (sg_trigger s) (sg_clear s) (e_engine c))
      in fl_setConfirmed (sg_name s) (getConfirmed key engine) (c\<lparr>e_engine := engine\<rparr>))"

definition sg :: "string \<Rightarrow> bool \<Rightarrow> u32 \<Rightarrow> u32 \<Rightarrow> signal_eval" where
  "sg n r t c = \<lparr>sg_name = n, sg_raw = r, sg_trigger = t, sg_clear = c\<rparr>"

definition pcu_signals :: "logic_ctx \<Rightarrow> signal_eval list" where
  "pcu_signals l =
     [sg ''pcu0_offline'' (rawPcuOffline (c_pcu0 l)) 3000 0,
      sg ''pcu1_offline'' (rawPcuOffline (c_pcu1 l)) 3000 0,
      sg ''pcu1_comm_fault'' (rawPcuOffline (c_pcu0 l)) 3000 0,
      sg ''pcu2_comm_fault'' (rawPcuOffline (c_pcu1 l)) 3000 0,
      sg ''pcu0_emergency_stop'' (rawPcuEmergencyStop (c_pcu0 l)) 300 0,
      sg ''pcu1_emergency_stop'' (rawPcuEmergencyStop (c_pcu1 l)) 300 0,
      sg ''pcu1_emergency_stop'' (rawPcuEmergencyStop (c_pcu0 l)) 300 0,
      sg ''pcu2_emergency_stop'' (rawPcuEmergencyStop (c_pcu1 l)) 300 0]"

definition evaluatePcu :: "u64 \<Rightarrow> ext_ctx \<Rightarrow> ext_ctx" where
  "evaluatePcu now c = foldl (eval_confirmed now) c (pcu_signals (e_logic c))"

text \<open>The raw faults of the logic, written back before the signals are confirmed.\<close>

definition write_back :: "u64 \<Rightarrow> ext_ctx \<Rightarrow> ext_ctx" where
  "write_back now c =
     (let l = e_logic c;
          f = (c_faults l)\<lparr>hmi_comm_fault := rawHmiCommFault c now, remote_comm_fault := rawRemoteCommFault c now,
                sdcard_fault := rawSdcardFault c,
                env_any_alarm := (d_alarm_any (c_ups l) \<or> d_alarm_any (c_smoke l) \<or> d_alarm_any (c_gas l) \<or>
                  d_alarm_any (c_air l))\<rparr>;
          f = f\<lparr>any_fault := (system_estop f \<or> sdcard_fault f \<or> hmi_comm_fault f \<or> remote_comm_fault f \<or>
                pcu_any_offline f \<or> bms_any_offline f \<or> ups_offline f \<or> smoke_offline f \<or> gas_offline f \<or>
                air_offline f \<or> d_fault_any (c_ups l) \<or> d_fault_any (c_smoke l) \<or> d_fault_any (c_gas l) \<or>
                d_fault_any (c_air l))\<rparr>
      in c\<lparr>e_logic := l\<lparr>c_faults := f\<rparr>\<rparr>)"

definition bms_offline_at :: "logic_ctx \<Rightarrow> nat \<Rightarrow> bool" where
  "bms_offline_at l i =
     (case c_bms l (''BMS_'' @ to_string i) of None \<Rightarrow> True | Some x \<Rightarrow> \<not> bms_online (x_health x))"

definition comm_signals :: "logic_ctx \<Rightarrow> signal_eval list" where
  "comm_signals l =
     [sg ''env_any_alarm'' (env_any_alarm (c_faults l)) 2000 1000,
      sg ''any_fault'' (any_fault (c_faults l)) 2000 1000,
      sg ''hmi_comm_fault'' (hmi_comm_fault (c_faults l)) 3000 1000,
      sg ''remote_comm_fault'' (remote_comm_fault (c_faults l)) 3000 1000,
      sg ''aircon_comm_fault'' (\<not> d_online (c_air l)) 3000 1000,
      sg ''ups_comm_fault'' (\<not> d_online (c_ups l)) 3000 1000,
      sg ''tss_comm_fault'' (\<not> d_online (c_smoke l)) 3000 1000,
      sg ''cgs_comm_fault'' (\<not> d_online (c_gas l)) 3000 1000,
      sg ''pcu1_comm_fault'' (rawPcuOffline (c_pcu0 l)) 3000 1000,
      sg ''pcu2_comm_fault'' (rawPcuOffline (c_pcu1 l)) 3000 1000] @
     map (\<lambda>i. sg (''bms'' @ to_string i @ ''_comm_fault'') (bms_offline_at l i) 3000 1000) [1..<5] @
     [sg ''remote_comm_fault'' (remote_comm_fault (c_faults l)) 3000 1000,
      sg ''sdcard_fault'' (sdcard_fault (c_faults l)) 3000 1000]"

definition evaluateLogic :: "u64 \<Rightarrow> ext_ctx \<Rightarrow> ext_ctx" where
  "evaluateLogic now c =
     (let c = write_back now c in foldl (eval_confirmed now) c (comm_signals (e_logic c)))"

definition fl_evaluateAll :: "u64 \<Rightarrow> ext_ctx \<Rightarrow> ext_ctx" where
  "fl_evaluateAll now c = evaluateLogic now (evaluatePcu now c)"

section \<open>Facts\<close>

lemma eval_confirmed_other [simp]:
  "e_logic (eval_confirmed now c s) = e_logic c"
  "e_hmi_seen_once (eval_confirmed now c s) = e_hmi_seen_once c"
  "e_last_hmi_comm_ts (eval_confirmed now c s) = e_last_hmi_comm_ts c"
  by (simp_all add: eval_confirmed_def fl_setConfirmed_def Let_def)

lemma foldl_eval_logic [simp]: "e_logic (foldl (eval_confirmed now) c ss) = e_logic c"
  by (induction ss arbitrary: c) simp_all

lemma fl_makeSignalKey_inject [simp]: "fl_makeSignalKey a = fl_makeSignalKey b \<longleftrightarrow> a = b"
  by (simp add: fl_makeSignalKey_def)

definition debounce :: "u64 \<Rightarrow> signal_eval \<Rightarrow> fc_state \<Rightarrow> fc_state" where
  "debounce now s st = snd (updateWithClear (sg_raw s) (\<not> sg_raw s) now (fc_configure (sg_trigger s) (sg_clear s) st))"

lemma eval_confirmed_engine:
  "ensureState (fl_makeSignalKey n) (e_engine (eval_confirmed now c s)) =
     (if sg_name s = n then debounce now s (ensureState (fl_makeSignalKey n) (e_engine c))
      else ensureState (fl_makeSignalKey n) (e_engine c))"
  by (simp add: eval_confirmed_def fl_setConfirmed_def updateConditionWithClear_def ensureState_def debounce_def
      case_prod_beta Let_def)

lemma eval_confirmed_signal:
  "e_confirmed (eval_confirmed now c s) (fl_makeSignalKey n) =
     (if sg_name s = n then Some (confirmed_on (debounce now s (ensureState (fl_makeSignalKey n) (e_engine c))))
      else e_confirmed c (fl_makeSignalKey n))"
  by (auto simp: eval_confirmed_def fl_setConfirmed_def updateConditionWithClear_def debounce_def getConfirmed_def
      case_prod_beta Let_def)

text \<open>A sequence of confirmations treats every signal as if it were alone.\<close>

lemma foldl_eval_engine:
  "ensureState (fl_makeSignalKey n) (e_engine (foldl (eval_confirmed now) c ss)) =
     foldl (\<lambda>st s. debounce now s st) (ensureState (fl_makeSignalKey n) (e_engine c)) (filter (\<lambda>s. sg_name s = n) ss)"
  by (induction ss arbitrary: c) (simp_all add: eval_confirmed_engine)

lemma foldl_eval_signal:
  "e_confirmed (foldl (eval_confirmed now) c ss) (fl_makeSignalKey n) =
     (if filter (\<lambda>s. sg_name s = n) ss = [] then e_confirmed c (fl_makeSignalKey n)
      else Some (confirmed_on (ensureState (fl_makeSignalKey n) (e_engine (foldl (eval_confirmed now) c ss)))))"
proof (induction ss rule: rev_induct)
  case (snoc s ss)
  then show ?case by (auto simp: eval_confirmed_signal eval_confirmed_engine)
qed simp

section \<open>Histories\<close>

text \<open>A history of evaluations: the time of each and the logic context it finds.\<close>

definition fl_run :: "(u64 \<times> logic_ctx) list \<Rightarrow> ext_ctx \<Rightarrow> ext_ctx" where
  "fl_run steps c = foldl (\<lambda>c (now, l). fl_evaluateAll now (c\<lparr>e_logic := l\<rparr>)) c steps"

lemma fl_run_simps [simp]:
  "fl_run [] c = c"
  "fl_run (steps @ [(now, l)]) c = fl_evaluateAll now ((fl_run steps c)\<lparr>e_logic := l\<rparr>)"
  by (simp_all add: fl_run_def)

text \<open>All confirmations of one evaluation, in order.\<close>

definition all_signals :: "u64 \<Rightarrow> ext_ctx \<Rightarrow> signal_eval list" where
  "all_signals now c = pcu_signals (e_logic c) @ comm_signals (e_logic (write_back now (evaluatePcu now c)))"

lemma write_back_engine [simp]:
  "e_engine (write_back now c) = e_engine c" "e_confirmed (write_back now c) = e_confirmed c"
  by (simp_all add: write_back_def Let_def)

lemma fl_evaluateAll_engine:
  "ensureState (fl_makeSignalKey n) (e_engine (fl_evaluateAll now c)) =
     foldl (\<lambda>st s. debounce now s st) (ensureState (fl_makeSignalKey n) (e_engine c))
       (filter (\<lambda>s. sg_name s = n) (all_signals now c))"
  by (simp add: fl_evaluateAll_def evaluateLogic_def evaluatePcu_def foldl_eval_engine all_signals_def Let_def)

lemma fl_evaluateAll_signal:
  assumes "filter (\<lambda>s. sg_name s = n) (all_signals now c) \<noteq> []"
  shows "e_confirmed (fl_evaluateAll now c) (fl_makeSignalKey n) =
     Some (confirmed_on (ensureState (fl_makeSignalKey n) (e_engine (fl_evaluateAll now c))))"
proof -
  define c1 where "c1 = write_back now (evaluatePcu now c)"
  have all: "fl_evaluateAll now c = foldl (eval_confirmed now) c1 (comm_signals (e_logic c1))"
    by (simp add: fl_evaluateAll_def evaluateLogic_def c1_def Let_def)
  have pcu: "e_engine c1 = e_engine (evaluatePcu now c)" "e_confirmed c1 = e_confirmed (evaluatePcu now c)"
    by (simp_all add: c1_def)
  show ?thesis
    using assms unfolding all foldl_eval_signal foldl_eval_engine pcu all_signals_def c1_def [symmetric]
    by (auto simp: evaluatePcu_def foldl_eval_signal foldl_eval_engine)
qed

lemma filter_bms_signals:
  "filter (\<lambda>s. sg_name s = n) (map (\<lambda>i. sg (''bms'' @ to_string i @ ''_comm_fault'') (bms_offline_at l i) 3000 1000) [1..<5]) =
     map (\<lambda>i. sg (''bms'' @ to_string i @ ''_comm_fault'') (bms_offline_at l i) 3000 1000)
       (filter (\<lambda>i. ''bms'' @ to_string i @ ''_comm_fault'' = n) [1..<5])"
  by (simp add: filter_map sg_def comp_def)

text \<open>The signals that occur once, with their raw condition and delays.\<close>

definition own_signals :: "(string \<times> (logic_ctx \<Rightarrow> bool) \<times> u32 \<times> u32) list" where
  "own_signals =
     [(''pcu0_offline'', \<lambda>l. rawPcuOffline (c_pcu0 l), 3000, 0),
      (''pcu1_offline'', \<lambda>l. rawPcuOffline (c_pcu1 l), 3000, 0),
      (''pcu0_emergency_stop'', \<lambda>l. rawPcuEmergencyStop (c_pcu0 l), 300, 0),
      (''pcu2_emergency_stop'', \<lambda>l. rawPcuEmergencyStop (c_pcu1 l), 300, 0),
      (''aircon_comm_fault'', \<lambda>l. \<not> d_online (c_air l), 3000, 1000),
      (''ups_comm_fault'', \<lambda>l. \<not> d_online (c_ups l), 3000, 1000),
      (''tss_comm_fault'', \<lambda>l. \<not> d_online (c_smoke l), 3000, 1000),
      (''cgs_comm_fault'', \<lambda>l. \<not> d_online (c_gas l), 3000, 1000),
      (''env_any_alarm'', \<lambda>l. d_alarm_any (c_ups l) \<or> d_alarm_any (c_smoke l) \<or> d_alarm_any (c_gas l) \<or>
         d_alarm_any (c_air l), 2000, 1000)] @
     map (\<lambda>i. (''bms'' @ to_string i @ ''_comm_fault'', \<lambda>l. bms_offline_at l i, 3000, 1000)) [1..<5]"

lemma upt_1_5: "[1..<5] = [1, 2, 3, 4 :: nat]" by (simp add: upt_rec)

lemma write_back_reads [simp]:
  "c_air (e_logic (write_back now c)) = c_air (e_logic c)" "c_ups (e_logic (write_back now c)) = c_ups (e_logic c)"
  "c_smoke (e_logic (write_back now c)) = c_smoke (e_logic c)" "c_gas (e_logic (write_back now c)) = c_gas (e_logic c)"
  "c_bms (e_logic (write_back now c)) = c_bms (e_logic c)"
  "env_any_alarm (c_faults (e_logic (write_back now c))) \<longleftrightarrow> d_alarm_any (c_ups (e_logic c)) \<or>
     d_alarm_any (c_smoke (e_logic c)) \<or> d_alarm_any (c_gas (e_logic c)) \<or> d_alarm_any (c_air (e_logic c))"
  by (simp_all add: write_back_def Let_def)

lemma bms_offline_write_back [simp]: "bms_offline_at (e_logic (write_back now c)) i = bms_offline_at (e_logic c) i"
  by (simp add: bms_offline_at_def)

lemma evaluatePcu_logic [simp]: "e_logic (evaluatePcu now c) = e_logic c" by (simp add: evaluatePcu_def)

lemma to_string_digits: "to_string 1 = ''1''" "to_string 2 = ''2''" "to_string 3 = ''3''" "to_string 4 = ''4''"
  by code_simp+

lemma sg_name_sg [simp]: "sg_name (sg n r t c) = n" by (simp add: sg_def)

lemma own_signal_once:
  assumes "(n, raw, t, cl) \<in> set own_signals"
  shows "filter (\<lambda>s. sg_name s = n) (all_signals now c) = [sg n (raw (e_logic c)) t cl]"
proof -
  note lists = all_signals_def pcu_signals_def comm_signals_def upt_1_5 to_string_digits
  show ?thesis
    using assms unfolding own_signals_def upt_1_5 list.map to_string_digits append.simps list.set insert_iff empty_iff prod.inject
    by (elim disjE conjE FalseE) (hypsubst, simp add: lists del: upt_Suc One_nat_def)+
qed

lemma fl_evaluateAll_estop:
  "filter (\<lambda>s. sg_name s = ''pcu1_emergency_stop'') (all_signals now c) =
     [sg ''pcu1_emergency_stop'' (rawPcuEmergencyStop (c_pcu1 (e_logic c))) 300 0,
      sg ''pcu1_emergency_stop'' (rawPcuEmergencyStop (c_pcu0 (e_logic c))) 300 0]"
  by (simp add: all_signals_def pcu_signals_def comm_signals_def upt_1_5 to_string_digits del: upt_Suc One_nat_def)

section \<open>Properties\<close>

lemma debounce_own: "debounce now (sg n r t cl) (fc_configure t cl st) = snd (updateWithClear r (\<not> r) now (fc_configure t cl st))"
  by (simp add: debounce_def sg_def fc_configure_def)

lemma fc_configure_same: "assert_delay_ms st = t \<Longrightarrow> clear_delay_ms st = cl \<Longrightarrow> fc_configure t cl st = st"
  by (simp add: fc_configure_def)

lemma own_signal_engine:
  assumes "(n, raw, t, cl) \<in> set own_signals"
  shows "fc_configure t cl (ensureState (fl_makeSignalKey n) (e_engine (fl_run steps c))) =
     fc_run (map (\<lambda>(now, l). (raw l, \<not> raw l, now)) steps) (fc_configure t cl (ensureState (fl_makeSignalKey n) (e_engine c)))"
proof (induction steps rule: rev_induct)
  case (snoc x steps)
  obtain now l where x: "x = (now, l)" by (cases x)
  define st where "st = ensureState (fl_makeSignalKey n) (e_engine (fl_run steps c))"
  have "ensureState (fl_makeSignalKey n) (e_engine (fl_run (steps @ [x]) c)) = debounce now (sg n (raw l) t cl) st"
    by (simp add: x fl_evaluateAll_engine own_signal_once [OF assms] st_def)
  also have "\<dots> = snd (updateWithClear (raw l) (\<not> raw l) now (fc_configure t cl st))"
    by (simp add: debounce_def sg_def)
  finally show ?case
    using snoc.IH by (simp add: x st_def fc_configure_same) (simp add: fc_configure_def)
qed simp

lemma own_signal_confirmed:
  assumes "(n, raw, t, cl) \<in> set own_signals" and "steps \<noteq> []"
  shows "e_confirmed (fl_run steps c) (fl_makeSignalKey n) =
     Some (confirmed_on (fc_run (map (\<lambda>(now, l). (raw l, \<not> raw l, now)) steps)
       (fc_configure t cl (ensureState (fl_makeSignalKey n) (e_engine c)))))"
proof -
  obtain prev now l where steps: "steps = prev @ [(now, l)]" using assms(2) by (metis rev_exhaust surj_pair)
  have conf: "confirmed_on (fc_configure t cl st) = confirmed_on st" for st by (simp add: fc_configure_def)
  have "e_confirmed (fl_run steps c) (fl_makeSignalKey n) =
      Some (confirmed_on (ensureState (fl_makeSignalKey n) (e_engine (fl_run steps c))))"
    unfolding steps fl_run_simps by (rule fl_evaluateAll_signal) (simp add: own_signal_once [OF assms(1)])
  then show ?thesis by (simp only: own_signal_engine [OF assms(1), of steps c, symmetric] conf)
qed

text \<open>C34: Thirteen signals of the logic are debounced independently of all others: after any history of
  evaluations the confirmed flag of such a signal is that of a single condition, configured with the delays of that signal and
  fed the raw values of that signal alone. They are pcu0_offline, pcu1_offline, pcu0_emergency_stop, pcu2_emergency_stop,
  aircon_comm_fault, ups_comm_fault, tss_comm_fault, cgs_comm_fault, bms1_comm_fault to bms4_comm_fault and env_any_alarm. The
  signals that a pass evaluates twice are not among them (pcu1_emergency_stop, for which it is false,
  pcu1_comm_fault, pcu2_comm_fault and remote_comm_fault), nor are any_fault, hmi_comm_fault and sdcard_fault.\<close>

theorem logic_signals_debounced_alone:
  assumes "(n, raw, t, cl) \<in> set own_signals" and "steps \<noteq> []"
  shows "e_confirmed (fl_run steps c) (fl_makeSignalKey n) =
     Some (confirmed_on (fc_run (map (\<lambda>(now, l). (raw l, \<not> raw l, now)) steps)
       (fc_configure t cl (ensureState (fl_makeSignalKey n) (e_engine c)))))"
  using assms by (rule own_signal_confirmed)

theorem logic_signals_debounced_alone_witness:
  "e_confirmed (fl_run [(1000, ctx_init), (3999, ctx_init)] ext_init) (fl_makeSignalKey ''tss_comm_fault'') = Some False \<and>
   e_confirmed (fl_run [(1000, ctx_init), (4000, ctx_init)] ext_init) (fl_makeSignalKey ''tss_comm_fault'') = Some True"
proof -
  have m: "(''tss_comm_fault'', \<lambda>l. \<not> d_online (c_smoke l), 3000, 1000) \<in> set own_signals"
    by (simp add: own_signals_def)
  show ?thesis
    unfolding logic_signals_debounced_alone [OF m list.distinct(2)]
    by (simp add: ctx_init_def dev_flags_init_def ext_init_def ensureState_def fc_configure_def fc_init_def updateWithClear_def
        held_ms_def)
qed

lemma estop_pair:
  assumes "\<not> (r0 \<and> r1)" and "\<not> confirmed_on st"
  shows "\<not> confirmed_on (debounce now (sg n r0 300 0) (debounce now (sg n r1 300 0) st))"
  using assms by (auto simp: debounce_def sg_def fc_configure_def updateWithClear_def held_ms_def Let_def)

text \<open>The signal that reports the emergency stop of the first conversion unit can never be confirmed while
  only one unit is stopped. The key \<open>logic.pcu1_emergency_stop\<close> is evaluated twice, with the state of the
  second unit under its internal name and with the state of the first under its displayed name, and the two undo
  each other: over any history in which never both units are stopped, however long one of them is, the flag
  stays off. The signal of the second unit has its own key and is debounced as intended.\<close>

theorem emergency_stop_of_one_unit_masked:
  assumes "\<forall>(now, l) \<in> set steps. \<not> (rawPcuEmergencyStop (c_pcu0 l) \<and> rawPcuEmergencyStop (c_pcu1 l))"
    and "\<not> getConfirmed (fl_makeSignalKey ''pcu1_emergency_stop'') (e_engine c)" and "steps \<noteq> []"
  shows "e_confirmed (fl_run steps c) (fl_makeSignalKey ''pcu1_emergency_stop'') = Some False"
proof -
  let ?key = "fl_makeSignalKey ''pcu1_emergency_stop''"
  have off: "\<not> confirmed_on (ensureState ?key (e_engine (fl_run steps c)))" using assms(1)
  proof (induction steps rule: rev_induct)
    case Nil
    then show ?case using assms(2) by (auto simp: getConfirmed_def ensureState_def fc_init_def split: option.splits)
  next
    case (snoc x steps)
    obtain now l where x: "x = (now, l)" by (cases x)
    with snoc show ?case by (simp add: x fl_evaluateAll_engine fl_evaluateAll_estop estop_pair)
  qed
  obtain prev now l where steps: "steps = prev @ [(now, l)]" using assms(3) by (metis rev_exhaust surj_pair)
  have "e_confirmed (fl_run steps c) ?key = Some (confirmed_on (ensureState ?key (e_engine (fl_run steps c))))"
    unfolding steps fl_run_simps by (rule fl_evaluateAll_signal) (simp add: fl_evaluateAll_estop)
  with off show ?thesis by simp
qed

theorem emergency_stop_of_one_unit_masked_witness:
  "let stopped = pcu_init\<lparr>pcu_online := True, pcu_estop := True\<rparr>;
       l = ctx_init\<lparr>c_pcu0 := stopped\<rparr>
   in e_confirmed (fl_run [(0, l), (60000, l)] ext_init) (fl_makeSignalKey ''pcu1_emergency_stop'') = Some False"
proof -
  have "\<not> getConfirmed (fl_makeSignalKey ''pcu1_emergency_stop'') (e_engine ext_init)"
    by (simp add: getConfirmed_def ext_init_def)
  then show ?thesis unfolding Let_def
    by (rule emergency_stop_of_one_unit_masked [rotated])
      (simp_all add: rawPcuEmergencyStop_def ctx_init_def pcu_init_def)
qed

end
