(* ===== verification/Bms_Data_Path.thy ===== *)
theory Bms_Data_Path
  imports Bms_Table Bms_Adapter Logic_Tick
begin

text \<open>
  The path of a battery message from the frame to the cache and to the commands: the parser of \<open>Bms_Signals\<close> with
  the message table of \<open>Bms_Table\<close>, then the adapter of \<open>Bms_Adapter\<close>. The lemmas say what the parsed
  data holds under the keys the adapter looks up; the theorems say which bits of a frame become which fields of
  the cache, and which messages never get there.
\<close>

section \<open>What the parser stores\<close>

definition as_value :: "signal_def \<Rightarrow> bool" where
  "as_value s \<longleftrightarrow> isBoolLikeSignal s \<or> (\<not> shouldParseAsPhysical s \<and> isEnumLikeSignal s)"

definition sig_raw :: "bytes \<Rightarrow> signal_def \<Rightarrow> u64" where
  "sig_raw data s = extractBitsLsb data (uint (startbit_lsb s)) (uint (sig_length s))"

definition sig_value :: "bytes \<Rightarrow> signal_def \<Rightarrow> int" where
  "sig_value data s = (if isBoolLikeSignal s then of_bool (sig_raw data s \<noteq> 0)
     else sint (ucast (sig_raw data s) :: u32))"

lemma put_text_fields [simp]:
  "vals (put_text s r k k' out) = vals out" "num (put_text s r k k' out) = num out"
  "status (put_text s r k k' out) = status out" "device_name (put_text s r k k' out) = device_name out"
  by (simp_all add: put_text_def split: option.splits)

lemma put_num_fields [simp]:
  "vals (put_num k k' v out) = vals out" "status (put_num k k' v out) = status out"
  "str (put_num k k' v out) = str out" "device_name (put_num k k' v out) = device_name out"
  by (simp_all add: put_num_def Let_def)

lemma parse_signal_vals:
  "vals (parse_signal P data s out) k =
     (if sig_name s \<noteq> [] \<and> as_value s \<and> (k = P @ sig_name s \<or> k = sig_name s) then Some (sig_value data s)
      else vals out k)"
  by (simp add: parse_signal_def as_value_def sig_value_def sig_raw_def put_value_def Let_def)

lemma parse_signal_num:
  assumes "k \<noteq> sig_name s"
  shows "num (parse_signal P data s out) k =
     (if sig_name s \<noteq> [] \<and> \<not> as_value s \<and> k = P @ sig_name s then Some (rawToPhys s (sig_raw data s)) else num out k)"
  using assms by (auto simp: parse_signal_def as_value_def sig_raw_def put_num_def put_value_def Let_def)

lemma parse_signal_other [simp]:
  "status (parse_signal P data s out) = status out"
  "device_name (parse_signal P data s out) = device_name out"
  by (simp_all add: parse_signal_def put_value_def Let_def)

lemma put_text_str: "drop (length k - 5) k \<noteq> ''.text'' \<Longrightarrow> str (put_text s r a b out) k = str out k"
  by (auto simp: put_text_def split: option.splits)

lemma parse_signal_str: "drop (length k - 5) k \<noteq> ''.text'' \<Longrightarrow> str (parse_signal P data s out) k = str out k"
  by (simp add: parse_signal_def put_text_str put_value_def Let_def)

abbreviation parse_signals :: "string \<Rightarrow> bytes \<Rightarrow> device_data \<Rightarrow> signal_def list \<Rightarrow> device_data" where
  "parse_signals P data \<equiv> foldl (\<lambda>out s. parse_signal P data s out)"

lemma parse_signals_other:
  "status (parse_signals P data out sigs) = status out"
  "device_name (parse_signals P data out sigs) = device_name out"
  "drop (length k - 5) k \<noteq> ''.text'' \<Longrightarrow> str (parse_signals P data out sigs) k = str out k"
  by (induction sigs arbitrary: out) (simp_all add: parse_signal_str)

text \<open>The prefixed key of a signal is written by the signals of that name only.\<close>

definition plain_names :: "signal_def list \<Rightarrow> bool" where
  "plain_names sigs \<longleftrightarrow> (\<forall>s \<in> set sigs. sig_name s \<noteq> [] \<and> CHR ''.'' \<notin> set (sig_name s))"

lemma parse_signals_filter:
  assumes "plain_names sigs" and "CHR ''.'' \<in> set P"
  shows "vals (parse_signals P data out sigs) (P @ n) =
       vals (parse_signals P data out (filter (\<lambda>s. sig_name s = n) sigs)) (P @ n)"
    and "num (parse_signals P data out sigs) (P @ n) =
       num (parse_signals P data out (filter (\<lambda>s. sig_name s = n) sigs)) (P @ n)"
proof -
  have "vals (parse_signals P data out sigs) (P @ n) =
       vals (parse_signals P data out (filter (\<lambda>s. sig_name s = n) sigs)) (P @ n) \<and>
     num (parse_signals P data out sigs) (P @ n) =
       num (parse_signals P data out (filter (\<lambda>s. sig_name s = n) sigs)) (P @ n)"
    using assms(1)
  proof (induction sigs rule: rev_induct)
    case (snoc s sigs)
    have "CHR ''.'' \<notin> set (sig_name s)" using snoc.prems by (simp add: plain_names_def)
    then have "P @ n \<noteq> sig_name s" using assms(2) by (metis Un_iff set_append)
    moreover have "plain_names sigs" using snoc.prems by (simp add: plain_names_def)
    ultimately show ?case using snoc.IH by (auto simp: parse_signal_vals parse_signal_num)
  qed simp
  then show "vals (parse_signals P data out sigs) (P @ n) =
       vals (parse_signals P data out (filter (\<lambda>s. sig_name s = n) sigs)) (P @ n)"
    "num (parse_signals P data out sigs) (P @ n) =
       num (parse_signals P data out (filter (\<lambda>s. sig_name s = n) sigs)) (P @ n)" by simp_all
qed

lemma parse_signals_one:
  assumes "plain_names sigs" and "CHR ''.'' \<in> set P" and "filter (\<lambda>s. sig_name s = n) sigs = [s]"
  shows "vals (parse_signals P data out sigs) (P @ n) =
       (if as_value s then Some (sig_value data s) else vals out (P @ n))"
    and "num (parse_signals P data out sigs) (P @ n) =
       (if as_value s then num out (P @ n) else Some (rawToPhys s (sig_raw data s)))"
proof -
  have "s \<in> set (filter (\<lambda>s. sig_name s = n) sigs)" by (simp add: assms(3))
  then have s: "s \<in> set sigs" "sig_name s = n" by simp_all
  then have "n \<noteq> []" "P \<noteq> []" using assms(1,2) by (auto simp: plain_names_def)
  with s show "vals (parse_signals P data out sigs) (P @ n) =
       (if as_value s then Some (sig_value data s) else vals out (P @ n))"
    "num (parse_signals P data out sigs) (P @ n) =
       (if as_value s then num out (P @ n) else Some (rawToPhys s (sig_raw data s)))"
    unfolding parse_signals_filter [OF assms(1,2)] assms(3) by (simp_all add: parse_signal_vals parse_signal_num)
qed

section \<open>Frames of a battery\<close>

definition battery_frame :: "u32 \<Rightarrow> u32 \<Rightarrow> can_frame \<Rightarrow> bool" where
  "battery_frame code i fr \<longleftrightarrow> can_id fr AND CAN_EFF_FLAG \<noteq> 0 \<and>
     decodeRuntimeId (can_id fr AND CAN_EFF_MASK) = (True, i, code) \<and> can_dlc fr = 8 \<and> length (can_data fr) = 8"

definition table_message :: "u32 \<Rightarrow> message_def" where
  "table_message code = the (gen_findMessage (protoIdFromMsgCode code))"

lemma table_ids:
  "map msg_id kMessages = [0x1802F3EF, 0x1881EFF3, 0x1882EFF3, 0x1883EFF3, 0x1884EFF3, 0x1885EFF3, 0x1886EFF3,
     0x1887EFF3, 0x1888EFF3, 0x1889EFF3, 0x18C3EFF3, 0x18C4EFF3, 0x18FF45F4, 0x18FFC13A, 0x18FFF10F]"
  by (simp add: kMessages_def)

lemma gen_findMessage_id: "gen_findMessage x = Some m \<Longrightarrow> m \<in> set kMessages \<and> msg_id m = x"
  unfolding gen_findMessage_def by (auto simp: find_Some_iff)

lemma gen_findMessage_defined: "gen_findMessage x \<noteq> None \<longleftrightarrow> x \<in> set (map msg_id kMessages)"
  by (auto simp: gen_findMessage_def find_None_iff)

lemma gen_findMessage_template:
  assumes "c \<in> set known_codes"
  shows "gen_findMessage (protoIdFromMsgCode c) = Some (table_message c)"
proof -
  have "protoIdFromMsgCode c \<in> set (map msg_id kMessages)"
    using assms unfolding table_ids by (auto simp: known_codes_def protoIdFromMsgCode_def)
  then show ?thesis using gen_findMessage_defined [of "protoIdFromMsgCode c"] by (auto simp: table_message_def)
qed

lemma decode_fields:
  assumes "decodeRuntimeId x = (True, i, c)"
  shows "extractInstanceIndex x = i" "isValidInstance i" "c \<in> set known_codes" "c = (clean29 x AND 0xFFF) AND 0xFF"
  using assms protoIdFromMsgCode_nonzero [of c]
  by (auto simp: decodeRuntimeId_def Let_def extractMsgCode_def low12_def split: if_splits)

lemma findMessage_runtime:
  assumes "decodeRuntimeId x = (True, i, c)"
  shows "findMessage gen_findMessage x = Some (table_message c)"
proof (cases "gen_findMessage (x AND kCanId29Mask)")
  case None
  have "msgCodeFromProtoId (clean29 x) = c" using decode_msgCode [OF assms] by (simp add: msgCodeFromProtoId_def)
  then have "normalizeToProtoId x = protoIdFromMsgCode c"
    using decode_fields(3) [OF assms] protoIdFromMsgCode_nonzero by (simp add: normalizeToProtoId_def Let_def)
  with None gen_findMessage_template [OF decode_fields(3) [OF assms]] show ?thesis
    by (auto simp: findMessage_def Let_def)
next
  case (Some m)
  then have "clean29 x \<in> set (map msg_id kMessages)"
    using gen_findMessage_id [OF Some] by (force simp: clean29_def)
  moreover have "(clean29 x AND 0xFFF) AND 0xFF \<in> set known_codes"
    using decode_fields(3,4) [OF assms] by simp
  ultimately have x: "clean29 x = 0x18FFF10F"
    using bspec [OF templates_not_runtime, of "clean29 x"] unfolding table_ids by auto
  then have "c = 0x0F" using decode_fields(4) [OF assms] by simp
  moreover have "protoIdFromMsgCode 0x0F = 0x18FFF10F" by (simp add: protoIdFromMsgCode_def)
  ultimately have "protoIdFromMsgCode c = x AND kCanId29Mask" using x by (simp add: clean29_def)
  then show ?thesis using Some by (simp add: findMessage_def table_message_def)
qed

definition msg_prefix :: "message_def \<Rightarrow> string" where
  "msg_prefix msg = ''bms.'' @ canonicalMsgName (msg_name msg) @ ''.''"

lemma parse_battery_frame:
  assumes "battery_frame code i fr" and "msg_name (table_message code) \<noteq> []"
  shows "bms_parse gen_findMessage ''BMS'' ''bms'' fr out =
     (True, parse_signals (msg_prefix (table_message code)) (can_data fr)
        (parse_header ''BMS'' (can_id fr AND CAN_EFF_MASK) (table_message code) fr out) (signals (table_message code)))"
  using assms findMessage_runtime [of "can_id fr AND CAN_EFF_MASK" i code]
  by (simp add: battery_frame_def bms_parse_def msg_prefix_def)

lemma sdef_fields [simp]:
  "sig_name (sdef t (n, a, l, f, ofs)) = n" "startbit_lsb (sdef t (n, a, l, f, ofs)) = a"
  "sig_length (sdef t (n, a, l, f, ofs)) = l" "factor (sdef t (n, a, l, f, ofs)) = f"
  "offset (sdef t (n, a, l, f, ofs)) = ofs" "enums (sdef t (n, a, l, f, ofs)) = enums_of t n"
  by (simp_all add: sdef_def)

lemmas kRows_defs = kRows_V2B_CMD_rows kRows_B2V_Fult1_32960_rows kRows_B2V_Fult2_rows
  kRows_B2V_ST1_rows kRows_B2V_ST2_def kRows_B2V_ST3_def kRows_B2V_ST4_def kRows_B2V_ST5_def
  kRows_B2V_ST6_def kRows_B2V_ST7_def kRows_B2V_ElecEnergy_def kRows_B2V_CurrentLimit_def
  kRows_B2TM_Info_rows kRows_TM2B_state_def kRows_Fire2B_state_rows

lemmas kSignals_defs = kSignals_V2B_CMD_def kSignals_B2V_Fult1_32960_def kSignals_B2V_Fult2_def
  kSignals_B2V_ST1_def kSignals_B2V_ST2_def kSignals_B2V_ST3_def kSignals_B2V_ST4_def kSignals_B2V_ST5_def
  kSignals_B2V_ST6_def kSignals_B2V_ST7_def kSignals_B2V_ElecEnergy_def kSignals_B2V_CurrentLimit_def
  kSignals_B2TM_Info_def kSignals_TM2B_state_def kSignals_Fire2B_state_def

lemma plain_names_sdef:
  "plain_names (map (sdef t) l) \<longleftrightarrow> list_all (\<lambda>n. n \<noteq> [] \<and> list_all (\<lambda>c. c \<noteq> CHR ''.'') n) (map fst l)"
proof (induction l)
  case (Cons x l)
  obtain n a k f ofs where x: "x = (n, a, k, f, ofs)" by (cases x)
  have "list_all (\<lambda>c. c \<noteq> CHR ''.'') n \<longleftrightarrow> CHR ''.'' \<notin> set n" by (induction n) auto
  with Cons show ?case by (simp add: plain_names_def x)
qed (simp add: plain_names_def)

lemma table_plain: "list_all (\<lambda>m. plain_names (signals m)) kMessages"
  unfolding kMessages_def list.pred_inject message_def.select_convs kSignals_defs plain_names_sdef kRows_defs
  by simp

lemma table_names: "list_all (\<lambda>m. msg_name m \<noteq> [] \<and> canonicalMsgName (msg_name m) \<noteq> ''Fire2B_Info'') kMessages"
  by (simp add: kMessages_def canonicalMsgName_def)

lemma table_message_ok:
  assumes "c \<in> set known_codes"
  shows "plain_names (signals (table_message c))" "msg_name (table_message c) \<noteq> []"
  using gen_findMessage_id [OF gen_findMessage_template [OF assms]] table_plain table_names by (auto simp: list_all_iff)

section \<open>What the adapter reads\<close>

lemma parse_header_fields:
  "num (parse_header dev x msg fr out) = Map.empty" "status (parse_header dev x msg fr out) = Map.empty"
  "device_name (parse_header dev x msg fr out) = dev"
  "str (parse_header dev x msg fr out) ''__bms.instance'' = Some (makeInstanceName (extractInstanceIndex x))"
  "msg_name msg \<noteq> [] \<Longrightarrow> str (parse_header dev x msg fr out) ''__bms.msg'' = Some (canonicalMsgName (msg_name msg))"
  "vals (parse_header dev x msg fr out) ''__bms.instance_index'' = Some (sint (extractInstanceIndex x))"
  "vals (parse_header dev x msg fr out) (msg_prefix m @ n) = None"
  by (simp_all add: parse_header_def msg_prefix_def Let_def)

lemma parse_signals_meta:
  assumes "plain_names sigs"
  shows "vals (parse_signals (msg_prefix m) data out sigs) ''__bms.instance_index'' = vals out ''__bms.instance_index''"
  using assms
proof (induction sigs rule: rev_induct)
  case (snoc s sigs)
  have "CHR ''.'' \<notin> set (sig_name s)" "CHR ''.'' \<in> set ''__bms.instance_index''"
    using snoc.prems by (simp_all add: plain_names_def)
  then have "''__bms.instance_index'' \<noteq> sig_name s" by metis
  with snoc show ?case by (simp add: parse_signal_vals plain_names_def msg_prefix_def)
qed simp

lemma valid_index_facts:
  "isValidInstance i \<Longrightarrow> 1 \<le> sint i \<and> sint i \<le> 4 \<and> makeInstanceName i = bms_name (unat i) \<and> word_of_int (sint i) = i"
  using valid_instances [of i] by (auto simp: makeInstanceName_def bms_name_def)

lemma decoded_identity:
  assumes "battery_frame code i fr" and "bms_parse gen_findMessage ''BMS'' ''bms'' fr out = (ok, d)"
  shows "ok" "isBmsDevice d" "parseInstanceIndex d = i" "parseInstanceName d i = bms_name (unat i)"
    "parseMsgName d = canonicalMsgName (msg_name (table_message code))"
proof -
  note dec = decode_fields [of "can_id fr AND CAN_EFF_MASK" i code]
  have c: "code \<in> set known_codes" "isValidInstance i" "extractInstanceIndex (can_id fr AND CAN_EFF_MASK) = i"
    using dec assms(1) by (auto simp: battery_frame_def)
  note tab = table_message_ok [OF c(1)]
  note v = valid_index_facts [OF c(2)]
  have ok: "ok" and d: "d = parse_signals (msg_prefix (table_message code)) (can_data fr)
      (parse_header ''BMS'' (can_id fr AND CAN_EFF_MASK) (table_message code) fr out) (signals (table_message code))"
    using parse_battery_frame [OF assms(1) tab(2), of out] assms(2) by simp_all
  have m: "canonicalMsgName (msg_name (table_message code)) \<noteq> []" using tab(2) by (simp add: canonicalMsgName_def)
  have "bms_name (unat i) \<noteq> []" by (simp add: bms_name_def)
  moreover have "str d ''__bms.instance'' = Some (bms_name (unat i))"
    "str d ''__bms.msg'' = Some (canonicalMsgName (msg_name (table_message code)))"
    using v c(3) tab(2) by (simp_all add: d parse_signals_other parse_header_fields)
  moreover have "vals d ''__bms.instance_index'' = Some (sint i)"
    by (simp add: d parse_signals_meta [OF tab(1)] parse_header_fields c(3))
  ultimately show "ok" "isBmsDevice d" "parseInstanceIndex d = i" "parseInstanceName d i = bms_name (unat i)"
    "parseMsgName d = canonicalMsgName (msg_name (table_message code))"
    using ok v m by (simp_all add: isBmsDevice_def parseInstanceIndex_def parseInstanceName_def parseMsgName_def
      d parse_signals_other parse_header_fields)
qed

lemma decoded_reads:
  assumes "battery_frame code i fr" and "bms_parse gen_findMessage ''BMS'' ''bms'' fr out = (ok, d)"
    and "canonicalMsgName (msg_name (table_message code)) = m"
    and "filter (\<lambda>s. sig_name s = n) (signals (table_message code)) = [s]"
  shows "readInt d (sig_keys m n) =
       Some (if as_value s then sig_value (can_data fr) s else dbl_trunc (rawToPhys s (sig_raw (can_data fr) s)))"
    and "\<not> as_value s \<Longrightarrow> readNum d (sig_keys m n) = Some (rawToPhys s (sig_raw (can_data fr) s))"
proof -
  have c: "code \<in> set known_codes" using decode_fields [of "can_id fr AND CAN_EFF_MASK" i code] assms(1)
    by (auto simp: battery_frame_def)
  note tab = table_message_ok [OF c]
  define msg where "msg = table_message code"
  have d: "d = parse_signals (msg_prefix msg) (can_data fr) (parse_header ''BMS'' (can_id fr AND CAN_EFF_MASK) msg fr out)
      (signals msg)"
    using parse_battery_frame [OF assms(1) tab(2), of out] assms(2) by (simp add: msg_def)
  have "CHR ''.'' \<in> set (msg_prefix msg)" by (simp add: msg_prefix_def)
  note one = parse_signals_one [OF tab(1) [folded msg_def] this assms(4) [folded msg_def], of "can_data fr"
      "parse_header ''BMS'' (can_id fr AND CAN_EFF_MASK) msg fr out", folded d, unfolded parse_header_fields]
  have k: "sig_keys m n = [msg_prefix msg @ n, n]" by (simp add: sig_keys_def msg_prefix_def msg_def assms(3))
  have st: "status d = Map.empty" by (simp add: d parse_signals_other parse_header_fields)
  show "readInt d (sig_keys m n) =
       Some (if as_value s then sig_value (can_data fr) s else dbl_trunc (rawToPhys s (sig_raw (can_data fr) s)))"
    using one by (simp add: k st)
  show "readNum d (sig_keys m n) = Some (rawToPhys s (sig_raw (can_data fr) s))" if "\<not> as_value s"
    using one that by (simp add: k)
qed

section \<open>What the adapter changes\<close>

lemma message_updates_keep:
  "x_f1 (updateFromSt2 d x) = x_f1 x" "x_f2 (updateFromSt2 d x) = x_f2 x" "x_st1 (updateFromSt2 d x) = x_st1 x"
  "x_fire (updateFromSt2 d x) = x_fire x" "x_health (updateFromSt2 d x) = x_health x"
  "x_groups (updateFromSt2 d x) = x_groups x" "x_st2 (updateFromSt2 d x) = st2_fields d (x_st2 x)"
  by (simp_all add: updateFromSt2_def Let_def)

lemma update_message_fields:
  "x_f1 (update_message msg d x) = (if msg = ''B2V_Fault1'' then updateFromFault1 d (x_f1 x) else x_f1 x)"
  "x_f2 (update_message msg d x) = (if msg = ''B2V_Fault2'' then updateFromFault2 d (x_f2 x) else x_f2 x)"
  "x_st1 (update_message msg d x) = (if msg = ''B2V_ST1'' then updateFromSt1 d (x_st1 x) else x_st1 x)"
  "x_st2 (update_message msg d x) = (if msg = ''B2V_ST2'' then st2_fields d (x_st2 x) else x_st2 x)"
  "x_fire (update_message msg d x) = (if msg = ''Fire2B_Info'' then fire_states d (x_fire x) else x_fire x)"
proof -
  note keep = message_updates_keep updateFromTm2b_def updateFromCurrentLimit_def updateFromFire2b_def
  show "x_f1 (update_message msg d x) = (if msg = ''B2V_Fault1'' then updateFromFault1 d (x_f1 x) else x_f1 x)"
    by (cases "msg = ''B2V_Fault1''") (simp_all add: update_message_def if_distrib [of x_f1] keep cong: if_cong split del: if_split)
  show "x_f2 (update_message msg d x) = (if msg = ''B2V_Fault2'' then updateFromFault2 d (x_f2 x) else x_f2 x)"
    by (cases "msg = ''B2V_Fault2''") (simp_all add: update_message_def if_distrib [of x_f2] keep cong: if_cong split del: if_split)
  show "x_st1 (update_message msg d x) = (if msg = ''B2V_ST1'' then updateFromSt1 d (x_st1 x) else x_st1 x)"
    by (cases "msg = ''B2V_ST1''") (simp_all add: update_message_def if_distrib [of x_st1] keep cong: if_cong split del: if_split)
  show "x_st2 (update_message msg d x) = (if msg = ''B2V_ST2'' then st2_fields d (x_st2 x) else x_st2 x)"
    by (cases "msg = ''B2V_ST2''") (simp_all add: update_message_def if_distrib [of x_st2] keep cong: if_cong split del: if_split)
  show "x_fire (update_message msg d x) = (if msg = ''Fire2B_Info'' then fire_states d (x_fire x) else x_fire x)"
    by (cases "msg = ''Fire2B_Info''") (simp_all add: update_message_def if_distrib [of x_fire] keep cong: if_cong split del: if_split)
qed

lemma conclude_fields:
  "x_f1 (conclude x) = x_f1 x" "x_f2 (conclude x) = x_f2 x" "x_st1 (conclude x) = x_st1 x"
  "x_st2 (conclude x) = x_st2 x" "x_fire (conclude x) = x_fire x" "x_groups (conclude x) = x_groups x"
  "hv_should_open (x_ctl (conclude x)) = hv_blocked x"
  by (simp_all add: conclude_def rebuildUnifiedRawFaults_def Let_def)

lemma arrive_fields:
  "x_f1 (set_identity d (arrive d ts x)) = x_f1 x" "x_f2 (set_identity d (arrive d ts x)) = x_f2 x"
  "x_st1 (set_identity d (arrive d ts x)) = x_st1 x" "x_st2 (set_identity d (arrive d ts x)) = x_st2 x"
  "x_fire (set_identity d (arrive d ts x)) = x_fire x"
  by (simp_all add: arrive_def set_identity_def Let_def)

lemma adapt_item_fields:
  "x_f1 (adapt_item d ts x) = (if parseMsgName d = ''B2V_Fault1'' then updateFromFault1 d (x_f1 x) else x_f1 x)"
  "x_f2 (adapt_item d ts x) = (if parseMsgName d = ''B2V_Fault2'' then updateFromFault2 d (x_f2 x) else x_f2 x)"
  "x_st1 (adapt_item d ts x) = (if parseMsgName d = ''B2V_ST1'' then updateFromSt1 d (x_st1 x) else x_st1 x)"
  "x_st2 (adapt_item d ts x) = (if parseMsgName d = ''B2V_ST2'' then st2_fields d (x_st2 x) else x_st2 x)"
  "x_fire (adapt_item d ts x) = (if parseMsgName d = ''Fire2B_Info'' then fire_states d (x_fire x) else x_fire x)"
  by (simp_all add: adapt_item_def conclude_fields update_message_fields arrive_fields Let_def)

lemma adapt_item_blocked: "hv_should_open (x_ctl (adapt_item d ts x)) = hv_blocked (adapt_item d ts x)"
  by (simp add: adapt_item_def conclude_fields hv_blocked_def Let_def)

section \<open>Bits and fields\<close>

definition field :: "bytes \<Rightarrow> nat \<Rightarrow> nat \<Rightarrow> int" where
  "field data start len = uint (take_bit len (drop_bit start (load64 data)))"

lemma extract_take_bit:
  assumes "0 < len" "start + len \<le> 64"
  shows "extractBitsLsb data (int start) (int len) = take_bit len (drop_bit start (load64 data))"
proof (rule bit_word_eqI)
  fix n
  assume "n < LENGTH(64)"
  have "field_mask (int len) = mask len"
    using assms bit_field_mask [of "int len"] by (intro bit_word_eqI) (auto simp: bit_simps)
  then show "bit (extractBitsLsb data (int start) (int len)) n = bit (take_bit len (drop_bit start (load64 data))) n"
    using assms by (auto simp: extractBitsLsb_def bit_simps)
qed

lemma kEps_not_negative: "\<not> dbl_less kEps (Fin 0)"
proof -
  have "0 \<le> round_half_even r" if "0 \<le> r" for r :: rat
  proof -
    have "0 \<le> \<lfloor>r\<rfloor>" using that by simp
    then show ?thesis by (auto simp: round_half_even_def Let_def)
  qed
  then show ?thesis by (auto simp: kEps_def dbl_round_def Let_def not_less)
qed

lemma as_value_bool: "sig_length s = 1 \<Longrightarrow> as_value s" by (simp add: as_value_def isBoolLikeSignal_def)

lemma as_value_enum:
  assumes "sig_length s \<noteq> 1" "sig_length s < 8" "factor s = Fin 1" "offset s = Fin 0" "enums s \<noteq> []"
  shows "as_value s"
  using assms kEps_not_negative
  by (auto simp: as_value_def isBoolLikeSignal_def shouldParseAsPhysical_def isEnumLikeSignal_def dbl_round_def)

lemma not_as_value:
  assumes "sig_length s \<noteq> 1" "8 \<le> sig_length s \<or> enums s = []"
  shows "\<not> as_value s"
  using assms by (auto simp: as_value_def isBoolLikeSignal_def shouldParseAsPhysical_def isEnumLikeSignal_def)

lemma sig_value_bool:
  assumes "sig_length s = 1" "startbit_lsb s < 64"
  shows "sig_value data s = of_bool (bit (load64 data) (unat (startbit_lsb s)))"
proof -
  have "unat (startbit_lsb s) < 64" using assms(2) by (simp add: word_less_nat_alt)
  then have "sig_raw data s = take_bit 1 (drop_bit (unat (startbit_lsb s)) (load64 data))"
    using extract_take_bit [of 1 "unat (startbit_lsb s)" data] by (simp add: sig_raw_def assms(1))
  then have "sig_raw data s \<noteq> 0 \<longleftrightarrow> bit (load64 data) (unat (startbit_lsb s))"
    by (simp add: take_bit_Suc bit_iff_odd_drop_bit odd_iff_mod_2_eq_one)
  then show ?thesis by (simp add: sig_value_def isBoolLikeSignal_def assms(1))
qed

lemma sig_value_field:
  assumes "sig_length s \<noteq> 1" "0 < sig_length s" "sig_length s < 8" "unat (startbit_lsb s) + unat (sig_length s) \<le> 64"
  shows "sig_value data s = field data (unat (startbit_lsb s)) (unat (sig_length s))"
proof -
  define w where "w = take_bit (unat (sig_length s)) (drop_bit (unat (startbit_lsb s)) (load64 data))"
  have "sig_raw data s = w"
    using extract_take_bit [of "unat (sig_length s)" "unat (startbit_lsb s)" data] assms
    by (simp add: sig_raw_def w_def word_less_nat_alt)
  have len: "unat (sig_length s) < 8" using assms(3) by (simp add: word_less_nat_alt)
  have "uint w < 2 ^ unat (sig_length s)"
    by (simp add: w_def unsigned_take_bit_eq)
  also have "(2 :: int) ^ unat (sig_length s) \<le> 2 ^ 7" using len by (intro power_increasing) simp_all
  finally have "uint w < 128" by simp
  then have "uint (ucast w :: u32) = uint w" by (simp add: unsigned_ucast_eq take_bit_int_eq_self)
  moreover have "signed_take_bit 31 (uint w) = uint w"
  proof (rule signed_take_bit_int_eq_self)
    show "- (2 ^ 31) \<le> uint w" by (rule order_trans [OF _ uint_nonnegative]) simp
    show "uint w < 2 ^ 31" using \<open>uint w < 128\<close> by simp
  qed
  ultimately have "sint (ucast w :: u32) = uint w" by (simp add: sint_uint)
  with \<open>sig_raw data s = w\<close> show ?thesis
    using assms(1) by (simp add: sig_value_def isBoolLikeSignal_def field_def w_def)
qed

text \<open>All reads of a message at once, from the entries of its table.\<close>

definition entry_read :: "enum_texts \<Rightarrow> bytes \<Rightarrow> string \<Rightarrow> device_data \<Rightarrow> signal_row \<Rightarrow> bool" where
  "entry_read t data m d e = (case e of (n, st, len, f, ofs) \<Rightarrow>
     (len = 1 \<and> st < 64 \<longrightarrow> readInt d (sig_keys m n) = Some (of_bool (bit (load64 data) (unat st)))) \<and>
     (1 < len \<and> len < 8 \<and> f = Fin 1 \<and> ofs = Fin 0 \<and> enums_of t n \<noteq> [] \<and> unat st + unat len \<le> 64 \<longrightarrow>
        readInt d (sig_keys m n) = Some (field data (unat st) (unat len))) \<and>
     (len \<noteq> 1 \<and> (8 \<le> len \<or> enums_of t n = []) \<longrightarrow>
        readNum d (sig_keys m n) = Some (rawToPhys (sdef t e) (sig_raw data (sdef t e))) \<and>
        readInt d (sig_keys m n) = Some (dbl_trunc (rawToPhys (sdef t e) (sig_raw data (sdef t e))))))"

lemma entry_reads:
  assumes "battery_frame code i fr" and "bms_parse gen_findMessage ''BMS'' ''bms'' fr out = (ok, d)"
    and "canonicalMsgName (msg_name (table_message code)) = m"
    and "signals (table_message code) = map (sdef t) es"
    and "e \<in> set es" and "filter (\<lambda>e'. fst e' = fst e) es = [e]"
  shows "entry_read t (can_data fr) m d e"
proof -
  obtain n st len f ofs where e: "e = (n, st, len, f, ofs)" by (cases e)
  have nm: "sig_name (sdef t e') = fst e'" for e' by (cases e') simp
  have "filter (\<lambda>s. sig_name s = n) (signals (table_message code)) = [sdef t e]"
    using assms(6) by (simp add: assms(4) filter_map comp_def nm e)
  note reads = decoded_reads [OF assms(1-3) this]
  have "as_value (sdef t e) \<and> sig_value (can_data fr) (sdef t e) = of_bool (bit (load64 (can_data fr)) (unat st))"
    if "len = 1" "st < 64"
    using that by (simp add: e as_value_bool sig_value_bool)
  moreover have "as_value (sdef t e) \<and> sig_value (can_data fr) (sdef t e) = field (can_data fr) (unat st) (unat len)"
    if "1 < len" "len < 8" "f = Fin 1" "ofs = Fin 0" "enums_of t n \<noteq> []" "unat st + unat len \<le> 64"
  proof -
    have "len \<noteq> 1" "0 < len" using that(1) by (auto simp: word_less_nat_alt)
    then show ?thesis
      using that as_value_enum [of "sdef t e"] sig_value_field [of "sdef t e" "can_data fr"] by (simp add: e)
  qed
  moreover have "\<not> as_value (sdef t e)" if "len \<noteq> 1" "8 \<le> len \<or> enums_of t n = []"
    using that by (intro not_as_value) (simp_all add: e)
  ultimately show ?thesis
    unfolding entry_read_def e using reads [unfolded e] by (auto simp: e)
qed

text \<open>A signal without scaling is read as the number its bits hold.\<close>

lemma sint_raw:
  assumes "0 < len" "len \<le> 32" "start + len \<le> 64"
  shows "sint (extractBitsLsb data (int start) (int len)) = field data start len" "field data start len < 2 ^ 32"
    "0 \<le> field data start len"
proof -
  define w where "w = extractBitsLsb data (int start) (int len)"
  have w: "w = take_bit len (drop_bit start (load64 data))" unfolding w_def by (rule extract_take_bit [OF assms(1,3)])
  have "uint w < 2 ^ len" by (simp add: w unsigned_take_bit_eq)
  also have "(2 :: int) ^ len \<le> 2 ^ 32" using assms(2) by (intro power_increasing) simp_all
  finally have u: "uint w < 2 ^ 32" .
  have "signed_take_bit 63 (uint w) = uint w"
  proof (rule signed_take_bit_int_eq_self)
    show "- (2 ^ 63) \<le> uint w" by (rule order_trans [OF _ uint_nonnegative]) simp
    show "uint w < 2 ^ 63" using u by simp
  qed
  then show "sint (extractBitsLsb data (int start) (int len)) = field data start len"
    "field data start len < 2 ^ 32" "0 \<le> field data start len"
    using u by (simp_all add: sint_uint field_def flip: w_def w)
qed

lemma plain_number:
  assumes "1 < len" "len \<le> 32" "unat st + unat len \<le> 64"
  shows "rawToPhys (sdef t (n, st, len, Fin 1, Fin 0)) (sig_raw data (sdef t (n, st, len, Fin 1, Fin 0))) =
     Fin (of_int (field data (unat st) (unat len)))"
proof -
  have l: "0 < unat len" "unat len \<le> 32" using assms(1,2) by (simp_all add: word_less_nat_alt word_le_nat_alt)
  define k where "k = field data (unat st) (unat len)"
  note raw = sint_raw [OF l assms(3), of data, folded k_def]
  have "\<bar>k\<bar> < 2 ^ 53" using raw(2,3) by simp
  then have r: "dbl_of_int k = Fin (of_int k)" "dbl_round (of_int k) = Fin (of_int k)"
    by (simp_all only: dbl_round_int dbl_of_int_def)
  have "sint (sig_raw data (sdef t (n, st, len, Fin 1, Fin 0))) = k"
    using raw(1) by (simp add: sig_raw_def)
  then show ?thesis using r by (simp add: rawToPhys_def Let_def flip: k_def)
qed

lemma dbl_trunc_int: "dbl_trunc (Fin (of_int k)) = k"
  by simp

section \<open>The fault messages\<close>

text \<open>Which bits of the two fault messages stand for which fault.\<close>

definition fault1_of :: "bytes \<Rightarrow> bms_f1" where
  "fault1_of data = \<lparr>f1_del_temp = field data 2 2,
     f1_over_temp = field data 4 2,
     f1_over_ucell = field data 12 2,
     f1_low_ucell = field data 14 2,
     f1_pack_over_hvolt = field data 6 2,
     f1_pack_low_hvolt = field data 8 2,
     f1_low_soc = field data 10 2,
     f1_low_ins_res = field data 16 2,
     f1_ucell_uniformity = field data 18 2 \<noteq> 0,
     f1_over_chg = field data 20 2 \<noteq> 0,
     f1_over_soc = field data 22 2 \<noteq> 0,
     f1_soc_change_fast = bit (load64 data) 24,
     f1_bat_sys_not_match = bit (load64 data) 25,
     f1_hvil_fault = bit (load64 data) 26,
     f1_fault_num = field data 27 5\<rparr>"

definition fault2_of :: "bytes \<Rightarrow> bms_f2" where
  "fault2_of data = \<lparr>f2_cell_over_dischrg = bit (load64 data) 8,
     f2_cell_low_temp = bit (load64 data) 9,
     f2_pack_fire_warning = bit (load64 data) 10,
     f2_over_dischrg_curr_level = field data 11 2,
     f2_over_chrg_curr_in_drive_level = field data 13 2,
     f2_curr_sensor_err = bit (load64 data) 15,
     f2_power_supply_err = bit (load64 data) 16,
     f2_soc_differ_err = bit (load64 data) 59,
     f2_tms_err = bit (load64 data) 17,
     f2_pack_self_protect = bit (load64 data) 19,
     f2_main_loop_prechg_err = bit (load64 data) 20,
     f2_aux_loop_prechg_err = bit (load64 data) 21,
     f2_chrg_ins_low_err = bit (load64 data) 22,
     f2_chrg_connect_err = bit (load64 data) 49,
     f2_over_dischrg_curr_when_in_chrg = bit (load64 data) 50,
     f2_over_chrg_curr_in_the_chrg = bit (load64 data) 51,
     f2_chrg_ntc_err = bit (load64 data) 52,
     f2_chrg_ntc_temp_over_level = field data 53 2,
     f2_acan_lost = bit (load64 data) 23,
     f2_inner_comm_err = bit (load64 data) 24,
     f2_dcdc_err = bit (load64 data) 25,
     f2_branch_break_err = bit (load64 data) 26,
     f2_heat_relay = \<lparr>open_err = bit (load64 data) 27, weld_err = bit (load64 data) 28\<rparr>,
     f2_main_pos = \<lparr>open_err = bit (load64 data) 29, weld_err = bit (load64 data) 30\<rparr>,
     f2_main_neg = \<lparr>open_err = bit (load64 data) 31, weld_err = bit (load64 data) 32\<rparr>,
     f2_dc_chrg_pos1 = \<lparr>open_err = bit (load64 data) 33, weld_err = bit (load64 data) 34\<rparr>,
     f2_dc_chrg_neg1 = \<lparr>open_err = bit (load64 data) 35, weld_err = bit (load64 data) 36\<rparr>,
     f2_dc_chrg_pos2 = \<lparr>open_err = bit (load64 data) 37, weld_err = bit (load64 data) 38\<rparr>,
     f2_dc_chrg_neg2 = \<lparr>open_err = bit (load64 data) 39, weld_err = bit (load64 data) 40\<rparr>,
     f2_ac_chrg_pos = \<lparr>open_err = bit (load64 data) 41, weld_err = bit (load64 data) 42\<rparr>,
     f2_ac_chrg_neg = \<lparr>open_err = bit (load64 data) 43, weld_err = bit (load64 data) 44\<rparr>,
     f2_panto_chrg_pos = \<lparr>open_err = bit (load64 data) 45, weld_err = bit (load64 data) 46\<rparr>,
     f2_panto_chrg_neg = \<lparr>open_err = bit (load64 data) 47, weld_err = bit (load64 data) 48\<rparr>\<rparr>"

lemma fault_messages:
  "canonicalMsgName (msg_name (table_message 3)) = ''B2V_Fault2''" "signals (table_message 3) = kSignals_B2V_Fult2"
  "canonicalMsgName (msg_name (table_message 2)) = ''B2V_Fault1''" "signals (table_message 2) = kSignals_B2V_Fult1_32960"
  "canonicalMsgName (msg_name (table_message 5)) = ''B2V_ST2''" "signals (table_message 5) = kSignals_B2V_ST2"
  by (simp_all add: table_message_def gen_findMessage_def protoIdFromMsgCode_def kMessages_def canonicalMsgName_def)

lemma unique_row:
  assumes "distinct (filter (\<lambda>n. n \<noteq> r) (map fst es))" "e \<in> set es" "fst e \<noteq> r"
  shows "filter (\<lambda>e'. fst e' = fst e) es = [e]"
  using assms
proof (induction es)
  case (Cons x es)
  show ?case
  proof (cases "x = e")
    case True
    with Cons.prems have "\<forall>e' \<in> set es. fst e' \<noteq> fst e" by (auto simp: image_iff)
    with True show ?thesis by simp
  next
    case False
    with Cons.prems have "e \<in> set es" by simp
    moreover have "fst x \<noteq> fst e" using Cons.prems \<open>e \<in> set es\<close> by (auto simp: image_iff)
    ultimately show ?thesis using Cons by (auto split: if_splits)
  qed
qed simp

lemma all_reads:
  assumes "battery_frame code i fr" and "bms_parse gen_findMessage ''BMS'' ''bms'' fr out = (ok, d)"
    and "canonicalMsgName (msg_name (table_message code)) = m"
    and "signals (table_message code) = map (sdef t) es" and "distinct (filter (\<lambda>n. n \<noteq> ''Reserved'') (map fst es))"
  shows "list_all (\<lambda>e. fst e = ''Reserved'' \<or> entry_read t (can_data fr) m d e) es"
  unfolding list_all_iff using entry_reads [OF assms(1-4)] unique_row [OF assms(5)] by blast

text \<open>The one-bit signals of a message with their bit, and the short unscaled ones with their bit field.\<close>

definition bit_rows :: "signal_row list \<Rightarrow> (string \<times> nat) list" where
  "bit_rows es = map (\<lambda>(n, st, len, f, ofs). (n, unat st))
     (filter (\<lambda>(n, st, len, f, ofs). len = 1 \<and> st < 64 \<and> n \<noteq> ''Reserved'') es)"

definition field_rows :: "enum_texts \<Rightarrow> signal_row list \<Rightarrow> (string \<times> nat \<times> nat) list" where
  "field_rows t es = map (\<lambda>(n, st, len, f, ofs). (n, unat st, unat len))
     (filter (\<lambda>(n, st, len, f, ofs). enums_of t n \<noteq> [])
       (filter (\<lambda>(n, st, len, f, ofs). 1 < len \<and> len < 8 \<and> f = Fin 1 \<and> ofs = Fin 0 \<and> unat st + unat len \<le> 64) es))"

lemma row_reads:
  assumes "battery_frame code i fr" and "bms_parse gen_findMessage ''BMS'' ''bms'' fr out = (ok, d)"
    and "canonicalMsgName (msg_name (table_message code)) = m"
    and "signals (table_message code) = map (sdef t) es" and "distinct (filter (\<lambda>n. n \<noteq> ''Reserved'') (map fst es))"
  shows "list_all (\<lambda>(n, k). readInt d (sig_keys m n) = Some (of_bool (bit (load64 (can_data fr)) k))) (bit_rows es)"
    and "list_all (\<lambda>(n, k, l). n = ''Reserved'' \<or> readInt d (sig_keys m n) = Some (field (can_data fr) k l))
       (field_rows t es)"
  using all_reads [OF assms] by (force simp: list_all_iff bit_rows_def field_rows_def entry_read_def)+

lemma relay_set: "r\<lparr>open_err := a, weld_err := b\<rparr> = \<lparr>open_err = a, weld_err = b\<rparr>"
  by (cases r) simp

lemma fault2_read:
  assumes "battery_frame 3 i fr" and "bms_parse gen_findMessage ''BMS'' ''bms'' fr out = (ok, d)"
  shows "updateFromFault2 d f = fault2_of (can_data fr)"
proof -
  have "distinct (filter (\<lambda>n. n \<noteq> ''Reserved'') (map fst kRows_B2V_Fult2))" by (simp add: kRows_B2V_Fult2_rows)
  note reads = row_reads [OF assms fault_messages(1) fault_messages(2) [unfolded kSignals_B2V_Fult2_def] this]
  have "field_rows kEnums_B2V_Fult2 kRows_B2V_Fult2 =
    [(''B2V_Fult2_OverDischrgCurr'', 11, 2), (''B2V_Fult2_OverChrgCurrInTheDrive'', 13, 2),
     (''B2V_Fult2_ChrgNTCTempOver'', 53, 2), (''B2V_Fult2_ContiChrgCurrOverLoad'', 57, 2),
     (''B2V_Fult2_ContiDischrgCurrOverLoad'', 60, 2)]"
    by (simp add: kRows_B2V_Fult2_rows field_rows_def kEnums_B2V_Fult2_texts enums_of_def)
  note fields = reads(2) [unfolded this, simplified]
  note bits = reads(1) [unfolded kRows_B2V_Fult2_rows bit_rows_def, simplified]
  show ?thesis
    by (cases f) (simp add: bits fields relay_set updateFromFault2_def fault2_of_def pick_bool_def readBool_def int_to_def)
qed

lemma fault1_read:
  assumes "battery_frame 2 i fr" and "bms_parse gen_findMessage ''BMS'' ''bms'' fr out = (ok, d)"
  shows "updateFromFault1 d f = fault1_of (can_data fr)"
proof -
  have dist: "distinct (filter (\<lambda>n. n \<noteq> ''Reserved'') (map fst kRows_B2V_Fult1_32960))"
    by (simp add: kRows_B2V_Fult1_32960_rows)
  note sigs = fault_messages(4) [unfolded kSignals_B2V_Fult1_32960_def]
  note reads = row_reads [OF assms fault_messages(3) sigs dist]
  let ?num = "(''B2V_Fult1_FaultNum_32960'', 27, 5, Fin 1, Fin 0) :: signal_row"
  have mem: "?num \<in> set kRows_B2V_Fult1_32960" by (simp add: kRows_B2V_Fult1_32960_rows)
  have "enums_of kEnums_B2V_Fult1_32960 ''B2V_Fult1_FaultNum_32960'' = []"
    by (simp add: enums_of_def kEnums_B2V_Fult1_32960_def)
  then have num: "readInt d (sig_keys ''B2V_Fault1'' ''B2V_Fult1_FaultNum_32960'') = Some (field (can_data fr) 27 5)"
    using entry_reads [OF assms fault_messages(3) sigs mem unique_row [OF dist mem]]
      plain_number [of 5 27 kEnums_B2V_Fult1_32960 "''B2V_Fult1_FaultNum_32960''" "can_data fr"]
    by (simp add: entry_read_def)
  have "field_rows kEnums_B2V_Fult1_32960 kRows_B2V_Fult1_32960 =
    [(''B2V_Fult1_DelTemp'', 2, 2), (''B2V_Fult1_OverTemp'', 4, 2), (''B2V_Fult1_PackOverHVolt'', 6, 2),
     (''B2V_Fult1_PackLowHVolt'', 8, 2), (''B2V_Fult1_LowSOC'', 10, 2), (''B2V_Fult1_OverUcell'', 12, 2),
     (''B2V_Fult1_LowUcell'', 14, 2), (''B2V_Fult1_LowInsRes'', 16, 2), (''B2V_Fult1_UcellUniformity'', 18, 2),
     (''B2V_Fult1_OverChg'', 20, 2), (''B2V_Fult1_OverSOC'', 22, 2)]"
    by (simp add: kRows_B2V_Fult1_32960_rows field_rows_def kEnums_B2V_Fult1_32960_def enums_of_def)
  note fields = reads(2) [unfolded this, simplified]
  note bits = reads(1) [unfolded kRows_B2V_Fult1_32960_rows bit_rows_def, simplified]
  show ?thesis
    by (cases f) (simp add: bits fields num updateFromFault1_def fault1_of_def readBool_def int_to_def bool_to_def)
qed

lemma st2_read:
  assumes "battery_frame 5 i fr" and "bms_parse gen_findMessage ''BMS'' ''bms'' fr out = (ok, d)"
  shows "fault_level (st2_fields d s) = field (can_data fr) 56 3"
    and "rq_hv_power_off (st2_fields d s) = bit (load64 (can_data fr)) 59"
proof -
  have dist: "distinct (filter (\<lambda>n. n \<noteq> ''Reserved'') (map fst kRows_B2V_ST2))" by (simp add: kRows_B2V_ST2_def)
  note reads = row_reads [OF assms fault_messages(5) fault_messages(6) [unfolded kSignals_B2V_ST2_def] dist]
  have "field_rows kEnums_B2V_ST2 kRows_B2V_ST2 = [(''B2V_ST2_FaultLevel'', 56, 3), (''B2V_ST2_Life'', 60, 4)]"
    by (simp add: kRows_B2V_ST2_def field_rows_def kEnums_B2V_ST2_def enums_of_def)
  note fields = reads(2) [unfolded this, simplified]
  note bits = reads(1) [unfolded kRows_B2V_ST2_def bit_rows_def, simplified]
  show "fault_level (st2_fields d s) = field (can_data fr) 56 3"
    "rq_hv_power_off (st2_fields d s) = bit (load64 (can_data fr)) 59"
    by (simp_all add: st2_fields_def int_to_def bool_to_def readBool_def bits fields split: option.splits)
qed

end
