(* ===== verification/Double_Facts.thy ===== *)
theory Double_Facts
  imports Prelude
begin

text \<open>
  How to compute with the doubles of \<open>Prelude\<close>: the exponent \<open>flog2\<close> is the floor of the binary logarithm, so
  the rounding of a number whose exponent is known is the rounding of an integer.
\<close>

lemma bitlen_bounds: "0 < n \<Longrightarrow> 2 ^ (bitlen n - 1) \<le> n \<and> n < 2 ^ bitlen n \<and> 0 < bitlen n"
proof (induction n rule: bitlen.induct)
  case (1 n)
  show ?case
  proof (cases "n div 2 = 0")
    case True
    then have "n = 1" using 1 by auto
    then show ?thesis by (simp add: bitlen.simps)
  next
    case False
    with 1 have IH: "2 ^ (bitlen (n div 2) - 1) \<le> n div 2" "n div 2 < 2 ^ bitlen (n div 2)" "0 < bitlen (n div 2)" by auto
    have b: "bitlen n = Suc (bitlen (n div 2))" using 1 by (subst bitlen.simps) simp
    obtain k where k: "bitlen (n div 2) = Suc k" using IH(3) by (cases "bitlen (n div 2)") auto
    have "2 * 2 ^ k \<le> 2 * (n div 2)" "2 * (n div 2) \<le> n" using IH(1) k by simp_all
    moreover have "n < 2 * (2 * 2 ^ k)" using IH(2) k by simp
    ultimately show ?thesis using b k by simp
  qed
qed

lemma flog2_bounds:
  assumes "0 < r"
  shows "2 powi flog2 r \<le> r" "r < 2 powi (flog2 r + 1)"
proof -
  obtain p q where pq: "quotient_of r = (p, q)" by (cases "quotient_of r")
  have q: "0 < q" using pq by (rule quotient_of_denom_pos)
  have r: "r = of_int p / of_int q" using pq by (rule quotient_of_div)
  have p: "0 < p" using assms q by (simp add: r zero_less_divide_iff)
  define a b where "a = bitlen (nat p)" and "b = bitlen (nat q)"
  have "2 ^ (a - 1) \<le> nat p" "nat p < 2 ^ a" "0 < a" "2 ^ (b - 1) \<le> nat q" "nat q < 2 ^ b" "0 < b"
    using bitlen_bounds [of "nat p"] bitlen_bounds [of "nat q"] p q by (auto simp: a_def b_def)
  then have pi: "2 ^ (a - 1) \<le> p" "p < 2 ^ a" and qi: "2 ^ (b - 1) \<le> q" "q < 2 ^ b"
    using p q by (auto simp: nat_less_iff le_nat_iff)
  define A B P Q where "A = (2 :: rat) ^ a" and "B = (2 :: rat) ^ b" and "P = (of_int p :: rat)" and "Q = (of_int q :: rat)"
  have "2 ^ a = (2 :: rat) * 2 ^ (a - 1)" "2 ^ b = (2 :: rat) * 2 ^ (b - 1)"
    using \<open>0 < a\<close> \<open>0 < b\<close> by (simp_all flip: power_Suc)
  moreover have "(2 :: rat) ^ (a - 1) \<le> P" "P < A" "(2 :: rat) ^ (b - 1) \<le> Q" "Q < B"
    unfolding A_def B_def P_def Q_def using pi qi
    by (metis of_int_le_iff of_int_less_iff of_int_numeral of_int_power)+
  ultimately have b: "A \<le> 2 * P" "P < A" "B \<le> 2 * Q" "Q < B" by (simp_all add: A_def B_def)
  have pos: "0 < A" "0 < B" "0 < Q" "0 < P" using p q by (simp_all add: A_def B_def P_def Q_def)
  define k where "k = int a - int b"
  have k: "2 powi k = A / B" by (simp add: k_def A_def B_def power_int_diff)
  have rr: "r = P / Q" by (simp add: r P_def Q_def)
  have f: "flog2 r = (if r < 2 powi k then k - 1 else k)"
    by (simp add: flog2_def pq k_def a_def b_def Let_def)
  have hi: "r < 2 * (2 powi k)"
  proof -
    have "P * B < A * B" using b pos by simp
    also have "A * B \<le> A * (2 * Q)" using b(3) pos by simp
    finally show ?thesis using pos by (simp add: rr k field_simps)
  qed
  have lo: "2 powi k \<le> 2 * r"
  proof -
    have "A * Q \<le> A * B" using b(4) pos by simp
    also have "\<dots> \<le> (2 * P) * B" using b(1) pos by simp
    finally show ?thesis using pos by (simp add: rr k field_simps)
  qed
  have e: "2 powi (k + 1) = 2 * (2 powi k :: rat)" "2 powi (k - 1) * 2 = (2 powi k :: rat)"
    by (simp_all add: power_int_add power_int_diff)
  show "2 powi flog2 r \<le> r" "r < 2 powi (flog2 r + 1)"
    using hi lo e by (auto simp: f)
qed

lemma flog2_eq:
  assumes "2 powi k \<le> r" "r < 2 powi (k + 1)"
  shows "flog2 r = k"
proof -
  have "(0 :: rat) < 2 powi k" by simp
  with assms(1) have "0 < r" by linarith
  note b = flog2_bounds [OF this]
  have "(2 :: rat) powi flog2 r < 2 powi (k + 1)" "(2 :: rat) powi k < 2 powi (flog2 r + 1)" using b assms by linarith+
  then have "flog2 r < k + 1" "k < flog2 r + 1"
    using power_int_increasing [of "k + 1" "flog2 r" "2 :: rat"] power_int_increasing [of "flog2 r + 1" k "2 :: rat"]
    by (auto simp: linorder_not_le [symmetric])
  then show ?thesis by simp
qed

text \<open>A positive number with exponent \<open>e + 52\<close>, scaled by \<open>2 ^ e\<close>.\<close>

lemma dbl_round_scaled:
  assumes "2 powi (e + 52) \<le> r" "r < 2 powi (e + 53)" "-1074 \<le> e" "e < 900"
  shows "dbl_round r = Fin (of_int (round_half_even (r / 2 powi e)) * 2 powi e)"
proof -
  have "(0 :: rat) < 2 powi (e + 52)" by simp
  with assms(1) have r: "0 < r" by linarith
  have f: "flog2 r = e + 52" using assms by (intro flog2_eq) (simp_all add: add.assoc)
  define m where "m = round_half_even (r / 2 powi e)"
  have "r / 2 powi e < 2 ^ 53"
    using assms(2) power_int_add [of "2 :: rat" e 53] by (simp add: field_simps)
  then have "\<lfloor>r / 2 powi e\<rfloor> < 2 ^ 53" by (simp add: floor_less_iff)
  then have "m \<le> 2 ^ 53" by (auto simp: m_def round_half_even_def Let_def)
  then have "of_int m * 2 powi e \<le> (2 :: rat) ^ 53 * 2 powi e"
    using of_int_le_iff [of m "2 ^ 53", where 'a = rat] by (intro mult_right_mono) simp_all
  also have "\<dots> = 2 powi (53 + e)" by (simp add: power_int_add)
  also have "\<dots> < 2 powi 1024" using assms(4) by (intro power_int_strict_increasing) simp_all
  finally have "\<not> 2 ^ 1024 \<le> of_int m * (2 :: rat) powi e" by (simp add: not_le flip: power_int_numeral)
  moreover have "max (- 1074) (e + 52 - 52) = e" using assms(3) by simp
  ultimately show ?thesis using r by (simp add: dbl_round_def f m_def Let_def)
qed

text \<open>The same for a quotient of integers, with all conditions and the result on integers.\<close>

definition round_div :: "int \<Rightarrow> int \<Rightarrow> int" where
  "round_div p q =
     (let f = p div q; m = 2 * (p mod q) in
      if m < q then f else if q < m then f + 1 else if even f then f else f + 1)"

lemma round_half_even_div: "0 < q \<Longrightarrow> round_half_even (of_int p / of_int q) = round_div p q"
proof -
  assume q: "0 < q"
  have f: "\<lfloor>of_int p / of_int q :: rat\<rfloor> = p div q" by (rule floor_divide_of_int_eq)
  define d where "d = (of_int p / of_int q - of_int (p div q) :: rat)"
  have "(of_int p :: rat) = of_int (p div q) * of_int q + of_int (p mod q)"
    by (metis div_mult_mod_eq of_int_add of_int_mult)
  then have d: "d = of_int (p mod q) / of_int q" using q by (simp add: d_def field_simps)
  have "d < 1 / 2 \<longleftrightarrow> (of_int (2 * (p mod q)) :: rat) < of_int q"
    "1 / 2 < d \<longleftrightarrow> (of_int q :: rat) < of_int (2 * (p mod q))"
    using q by (simp_all add: d field_simps)
  then have d: "d < 1 / 2 \<longleftrightarrow> 2 * (p mod q) < q" "1 / 2 < d \<longleftrightarrow> q < 2 * (p mod q)"
    by (simp_all only: of_int_less_iff)
  show ?thesis unfolding round_half_even_def round_div_def Let_def f d_def [symmetric] d ..
qed

lemma dbl_round_quotient:
  assumes "0 < q" "2 ^ 52 * q \<le> p * 2 ^ k" "p * 2 ^ k < 2 ^ 53 * q" "k \<le> 1074"
  shows "dbl_round (of_int p / of_int q) = Fin (of_int (round_div (p * 2 ^ k) q) / 2 ^ k)"
proof -
  let ?r = "of_int p / of_int q :: rat"
  have e: "(2 :: rat) powi (- int k) = 1 / 2 ^ k" by (simp add: power_int_minus field_simps)
  have s: "?r / 2 powi (- int k) = of_int (p * 2 ^ k) / of_int q" by (simp add: e)
  have "of_int (2 ^ 52 * q) \<le> (of_int (p * 2 ^ k) :: rat)" "of_int (p * 2 ^ k) < (of_int (2 ^ 53 * q) :: rat)"
    using assms(2,3) by (simp_all only: of_int_le_iff of_int_less_iff)
  then have b: "(2 :: rat) ^ 52 / 2 ^ k \<le> ?r" "?r < (2 :: rat) ^ 53 / 2 ^ k" using assms(1) by (simp_all add: field_simps)
  have "(2 :: rat) powi (- int k + 52) = 2 ^ 52 / 2 ^ k" "(2 :: rat) powi (- int k + 53) = 2 ^ 53 / 2 ^ k"
    using power_int_add [of "2 :: rat" "- int k" 52] power_int_add [of "2 :: rat" "- int k" 53] e by simp_all
  then have "dbl_round ?r = Fin (of_int (round_half_even (?r / 2 powi (- int k))) * 2 powi (- int k))"
    using b assms(4) by (intro dbl_round_scaled) simp_all
  also have "round_half_even (?r / 2 powi (- int k)) = round_div (p * 2 ^ k) q"
    unfolding s by (rule round_half_even_div [OF assms(1)])
  finally show ?thesis by (simp add: e)
qed

lemma dbl_round_minus: "dbl_round r = Fin v \<Longrightarrow> dbl_round (- r) = Fin (- v)"
  by (auto simp: dbl_round_def Let_def split: if_splits)

end
