(* ===== verification/Bms_Chain.thy ===== *)
theory Bms_Chain
  imports Bms_Data_Path Double_Facts
begin

text \<open>
  Properties of the whole path of a battery message: from the received frame through the parser and the adapter into
  the cache, and from the cache through the tick to the commands. \<open>bms_receive\<close> composes what the worker thread and
  the control logic do with one frame.
\<close>

section \<open>Receiving a frame\<close>

definition bms_receive :: "can_frame \<Rightarrow> u64 \<Rightarrow> bms_cache \<Rightarrow> bms_cache" where
  "bms_receive fr ts cache =
     (case bms_parse gen_findMessage ''BMS'' ''bms'' fr dd_init of
        (ok, d) \<Rightarrow> if ok then bms_onDeviceData d ts cache else cache)"

definition item_of :: "bms_cache \<Rightarrow> u32 \<Rightarrow> bms_cache_item" where
  "item_of cache i = (case cache (bms_name (unat i)) of None \<Rightarrow> bms_item_init | Some x \<Rightarrow> x)"

lemma bms_ensure_at:
  obtains x where "bms_ensure name idx cache = cache(name \<mapsto> x)"
    "\<And>y. y = (case cache name of None \<Rightarrow> bms_item_init | Some x \<Rightarrow> x) \<Longrightarrow>
       x_f1 x = x_f1 y \<and> x_f2 x = x_f2 y \<and> x_st2 x = x_st2 y \<and> x_fire x = x_fire y"
proof
  let ?x = "the (bms_ensure name idx cache name)"
  show "bms_ensure name idx cache = cache(name \<mapsto> ?x)" by (simp add: bms_ensure_def Let_def)
  show "x_f1 ?x = x_f1 y \<and> x_f2 ?x = x_f2 y \<and> x_st2 ?x = x_st2 y \<and> x_fire ?x = x_fire y"
    if "y = (case cache name of None \<Rightarrow> bms_item_init | Some x \<Rightarrow> x)" for y
    using that by (simp add: bms_ensure_def Let_def)
qed

lemma receive_frame:
  assumes "battery_frame code i fr"
  obtains d x where "bms_parse gen_findMessage ''BMS'' ''bms'' fr dd_init = (True, d)"
    "parseMsgName d = canonicalMsgName (msg_name (table_message code))"
    "bms_receive fr ts cache = cache(bms_name (unat i) \<mapsto> adapt_item d ts x)"
    "x_f1 x = x_f1 (item_of cache i) \<and> x_f2 x = x_f2 (item_of cache i) \<and> x_st2 x = x_st2 (item_of cache i) \<and>
     x_fire x = x_fire (item_of cache i)"
proof -
  obtain ok d where p: "bms_parse gen_findMessage ''BMS'' ''bms'' fr dd_init = (ok, d)"
    by (cases "bms_parse gen_findMessage ''BMS'' ''bms'' fr dd_init")
  note id = decoded_identity [OF assms p]
  obtain x where x: "bms_ensure (bms_name (unat i)) i cache = cache(bms_name (unat i) \<mapsto> x)"
    "x_f1 x = x_f1 (item_of cache i) \<and> x_f2 x = x_f2 (item_of cache i) \<and> x_st2 x = x_st2 (item_of cache i) \<and>
     x_fire x = x_fire (item_of cache i)"
    using bms_ensure_at [of "bms_name (unat i)" i cache] item_of_def by metis
  have "bms_receive fr ts cache = cache(bms_name (unat i) \<mapsto> adapt_item d ts x)"
    using id by (simp add: bms_receive_def p bms_onDeviceData_def x(1) Let_def)
  with x(2) id(1,5) p that show ?thesis by simp
qed

lemma adapt_item_allow: "hv_allow_close (x_ctl (adapt_item d ts x)) \<longleftrightarrow> \<not> hv_blocked (adapt_item d ts x)"
  by (simp add: adapt_item_def conclude_def rebuildUnifiedRawFaults_def hv_blocked_def Let_def)

text \<open>No message of the table is called by the name the adapter expects for the fire message.\<close>

lemma parsed_not_fire:
  assumes "bms_parse gen_findMessage ''BMS'' ''bms'' fr out = (True, d)"
  shows "parseMsgName d \<noteq> ''Fire2B_Info''"
proof -
  obtain msg where msg: "findMessage gen_findMessage (can_id fr AND CAN_EFF_MASK) = Some msg"
    and d: "d = parse_signals (''bms'' @ ''.'' @ canonicalMsgName (if msg_name msg \<noteq> [] then msg_name msg else ''UNKNOWN'') @ ''.'')
       (can_data fr) (parse_header ''BMS'' (can_id fr AND CAN_EFF_MASK) msg fr out) (signals msg)"
    using assms by (auto simp: bms_parse_def Let_def split: if_splits option.splits)
  have "msg \<in> set kMessages" using msg gen_findMessage_id
    by (auto simp: findMessage_def Let_def split: option.splits if_splits)
  then have m: "msg_name msg \<noteq> []" "canonicalMsgName (msg_name msg) \<noteq> ''Fire2B_Info''"
    using table_names by (auto simp: list_all_iff)
  have "str d ''__bms.msg'' = Some (canonicalMsgName (msg_name msg))"
    using m(1) by (simp add: d parse_signals_other parse_header_fields)
  then show ?thesis using m(2) by (simp add: parseMsgName_def)
qed

lemma receive_keeps_fire:
  assumes "\<And>n. \<forall>x. cache n = Some x \<longrightarrow> x_fire x = fire_init"
  shows "\<forall>x. bms_receive fr ts cache n = Some x \<longrightarrow> x_fire x = fire_init"
proof (cases "bms_parse gen_findMessage ''BMS'' ''bms'' fr dd_init")
  case (Pair ok d)
  show ?thesis
  proof (cases "ok \<and> isBmsDevice d")
    case True
    define idx where "idx = parseInstanceIndex d"
    define name where "name = parseInstanceName d idx"
    obtain y where y: "bms_ensure name idx cache = cache(name \<mapsto> y)"
      "x_fire y = x_fire (case cache name of None \<Rightarrow> bms_item_init | Some x \<Rightarrow> x)"
      using bms_ensure_at [of name idx cache] by metis
    then have "x_fire y = fire_init" using assms [of name] by (auto simp: bms_item_init_def split: option.splits)
    moreover have "parseMsgName d \<noteq> ''Fire2B_Info''" using parsed_not_fire [of fr dd_init d] Pair True by simp
    ultimately have "x_fire (adapt_item d ts y) = fire_init" by (simp add: adapt_item_fields)
    then show ?thesis using assms True y(1)
      by (simp add: bms_receive_def Pair bms_onDeviceData_def Let_def flip: name_def idx_def)
  qed (use assms in \<open>auto simp: bms_receive_def Pair bms_onDeviceData_def\<close>)
qed

section \<open>Properties\<close>

text \<open>C6: The fault messages of a battery arrive. After a frame of the battery's first or second fault message or of
  its state message, the battery's record holds exactly the faults whose bits are set in the frame (\<open>fault1_of\<close>,
  \<open>fault2_of\<close>), the fault level in bits 56 to 58 and the request to power off in bit 59; the other fault records of
  the battery and the records of the other batteries are unchanged; and the contactors must open exactly when one of
  the blocking faults is present.\<close>

theorem fault_frames_fill_cache:
  assumes "battery_frame code i fr" and "code \<in> {2, 3, 5}"
  shows "\<exists>x. bms_receive fr ts cache (bms_name (unat i)) = Some x \<and>
     x_f1 x = (if code = 2 then fault1_of (can_data fr) else x_f1 (item_of cache i)) \<and>
     x_f2 x = (if code = 3 then fault2_of (can_data fr) else x_f2 (item_of cache i)) \<and>
     fault_level (x_st2 x) = (if code = 5 then field (can_data fr) 56 3 else fault_level (x_st2 (item_of cache i))) \<and>
     rq_hv_power_off (x_st2 x) =
       (if code = 5 then bit (load64 (can_data fr)) 59 else rq_hv_power_off (x_st2 (item_of cache i))) \<and>
     hv_should_open (x_ctl x) = hv_blocked x \<and>
     (\<forall>n. n \<noteq> bms_name (unat i) \<longrightarrow> bms_receive fr ts cache n = cache n)"
proof -
  obtain d x where p: "bms_parse gen_findMessage ''BMS'' ''bms'' fr dd_init = (True, d)"
    and r: "parseMsgName d = canonicalMsgName (msg_name (table_message code))"
      "bms_receive fr ts cache = cache(bms_name (unat i) \<mapsto> adapt_item d ts x)"
      "x_f1 x = x_f1 (item_of cache i) \<and> x_f2 x = x_f2 (item_of cache i) \<and> x_st2 x = x_st2 (item_of cache i) \<and>
       x_fire x = x_fire (item_of cache i)"
    by (rule receive_frame [OF assms(1)])
  note facts = adapt_item_fields adapt_item_blocked fault_messages
  note fr = assms(1)
  from assms(2) consider "code = 2" | "code = 3" | "code = 5" by auto
  then show ?thesis
  proof cases
    case 1
    show ?thesis using r fault1_read [OF fr [unfolded 1] p] by (simp add: facts 1)
  next
    case 2
    show ?thesis using r fault2_read [OF fr [unfolded 2] p] by (simp add: facts 2)
  next
    case 3
    show ?thesis using r st2_read [OF fr [unfolded 3] p] by (simp add: facts 3)
  qed
qed

text \<open>A frame of battery 2's second fault message with the bit of a failed precharge of the main loop.\<close>

definition example_fault_frame :: can_frame where
  "example_fault_frame = \<lparr>can_id = 0x9882E203, can_dlc = 8, can_data = [0, 0, 0x10, 0, 0, 0, 0, 0]\<rparr>"

lemma example_fault_frame: "battery_frame 3 2 example_fault_frame" "can_data example_fault_frame = [0, 0, 0x10, 0, 0, 0, 0, 0]"
  by (simp_all add: battery_frame_def example_fault_frame_def router_defs CAN_EFF_FLAG_def CAN_EFF_MASK_def)

lemma example_bits: "load64 [0, 0, 0x10, 0, 0, 0, 0, 0] = 0x100000"
  by (simp add: load64_def upt_rec)

theorem fault_frames_fill_cache_witness:
  "\<exists>x. bms_receive example_fault_frame 70 Map.empty (bms_name 2) = Some x \<and> f2_main_loop_prechg_err (x_f2 x) \<and>
     \<not> f2_aux_loop_prechg_err (x_f2 x)"
  using fault_frames_fill_cache [OF example_fault_frame(1), of 70 Map.empty]
  by (auto simp: example_fault_frame(2) example_bits fault2_of_def)

text \<open>The bits of a fault message that demand the battery's contactors open.\<close>

definition demands_open :: "u32 \<Rightarrow> bytes \<Rightarrow> bool" where
  "demands_open code data \<longleftrightarrow>
     (code = 2 \<and> (bit (load64 data) 26 \<or> field data 20 2 \<noteq> 0 \<or> field data 16 2 = 3)) \<or>
     (code = 3 \<and> (bit (load64 data) 19 \<or> bit (load64 data) 20 \<or> bit (load64 data) 21 \<or> bit (load64 data) 22)) \<or>
     (code = 5 \<and> (bit (load64 data) 59 \<or> 2 \<le> field data 56 3))"

lemma demand_blocks:
  assumes "battery_frame code i fr" and "demands_open code (can_data fr)"
  shows "\<exists>x. bms_receive fr ts cache (bms_name (unat i)) = Some x \<and> \<not> hv_allow_close (x_ctl x)"
proof -
  obtain d x where p: "bms_parse gen_findMessage ''BMS'' ''bms'' fr dd_init = (True, d)"
    and r: "parseMsgName d = canonicalMsgName (msg_name (table_message code))"
      "bms_receive fr ts cache = cache(bms_name (unat i) \<mapsto> adapt_item d ts x)"
    by (rule receive_frame [OF assms(1)])
  note fr = assms(1)
  note facts = adapt_item_fields fault_messages hv_blocked_def
  have "hv_blocked (adapt_item d ts x)"
    using assms(2) unfolding demands_open_def
  proof (elim disjE conjE, goal_cases)
    case 1 then show ?case using r fault1_read [OF fr [unfolded 1(1)] p] by (simp add: facts fault1_of_def)
  next
    case 2 then show ?case using r fault1_read [OF fr [unfolded 2(1)] p] by (simp add: facts fault1_of_def)
  next
    case 3 then show ?case using r fault1_read [OF fr [unfolded 3(1)] p] by (simp add: facts fault1_of_def)
  next
    case 4 then show ?case using r fault2_read [OF fr [unfolded 4(1)] p] by (simp add: facts fault2_of_def)
  next
    case 5 then show ?case using r fault2_read [OF fr [unfolded 5(1)] p] by (simp add: facts fault2_of_def)
  next
    case 6 then show ?case using r fault2_read [OF fr [unfolded 6(1)] p] by (simp add: facts fault2_of_def)
  next
    case 7 then show ?case using r fault2_read [OF fr [unfolded 7(1)] p] by (simp add: facts fault2_of_def)
  next
    case 8 then show ?case using r st2_read [OF fr [unfolded 8(1)] p] by (simp add: facts)
  next
    case 9 then show ?case using r st2_read [OF fr [unfolded 9(1)] p] by (simp add: facts)
  qed
  then show ?thesis using r(2) by (simp add: adapt_item_allow)
qed

text \<open>C5: A fault on the bus stops the power. If a battery's frame demands that its contactors open (interlock,
  overcharge, third level of low insulation, self protection, failed precharge, low charge insulation, request to power
  off, fault level 2 or more), then whatever else the controller knows, every command that the next tick sends to that
  battery, with the transmitter bound to the generated table as its initialisation leaves it, carries the power-off code.\<close>

theorem fault_frame_stops_power:
  assumes "battery_frame code i fr" and "demands_open code (can_data fr)"
    and "ctx' = ctx\<lparr>c_bms := bms_receive fr ts0 (c_bms ctx)\<rparr>"
    and "bound_v2b (mgr_tx (le_mgr e))"
    and "SendCan sc \<in> set (snd (onTick ts (e, ctx') []))" and "sc_mirror sc = None"
    and "fst (snd (decodeRuntimeId (can_id (sc_frame sc)))) = i"
  shows "extractBitsLsb (can_data (sc_frame sc)) 8 2 = 2"
proof -
  obtain x where x: "c_bms ctx' (bms_name (unat i)) = Some x" "\<not> hv_allow_close (x_ctl x)"
    using demand_blocks [OF assms(1,2), of ts0 "c_bms ctx"] by (auto simp: assms(3))
  have "makeName i = bms_name (unat i)" by (simp add: makeName_def bms_name_def)
  with x have "\<not> (\<exists>x. c_bms ctx' (makeName i) = Some x \<and> may_close ts x)" by (auto simp: may_close_def)
  then show ?thesis using assms(7) by (rule_tac battery_commands_of_tick [OF assms(4-6)]) auto
qed

theorem fault_frame_stops_power_witness:
  "\<exists>sc. SendCan sc \<in> set (snd (onTick 9 (example_engine,
       example_ctx\<lparr>c_bms := bms_receive example_fault_frame 7 (c_bms example_ctx)\<rparr>) [])) \<and>
     extractBitsLsb (can_data (sc_frame sc)) 8 2 = 2"
proof -
  let ?ctx = "example_ctx\<lparr>c_bms := bms_receive example_fault_frame 7 (c_bms example_ctx)\<rparr>"
  obtain sc where sc: "SendCan sc \<in> set (snd (onTick 9 (example_engine, ?ctx) []))" "sc_mirror sc = None"
    "decodeRuntimeId (can_id (sc_frame sc)) = (True, 2, 1)"
    using due_battery_served [of example_engine 2 9 ?ctx] example_engine_facts by auto
  have "demands_open 3 (can_data example_fault_frame)"
    by (simp add: demands_open_def example_fault_frame(2) example_bits)
  from fault_frame_stops_power [OF example_fault_frame(1) this refl example_engine_facts(1) sc(1,2)] sc
  show ?thesis by auto
qed

text \<open>The fire messages of a battery never arrive. The message table calls the message \<open>Fire2B_state\<close>, the adapter
  waits for \<open>Fire2B_Info\<close>: whatever frames are received, the fire record of every battery keeps its initial values, so
  no fire alarm, no fire fault level and no block because of fire can ever occur.\<close>

theorem fire_messages_lost:
  "\<forall>x. foldl (\<lambda>cache (fr, ts). bms_receive fr ts cache) Map.empty frames n = Some x \<longrightarrow> x_fire x = fire_init"
proof (induction frames arbitrary: n rule: rev_induct)
  case (snoc a frames)
  obtain fr ts where a: "a = (fr, ts)" by (cases a)
  define cache where "cache = foldl (\<lambda>cache (fr, ts). bms_receive fr ts cache) Map.empty frames"
  have IH: "\<forall>x. cache n = Some x \<longrightarrow> x_fire x = fire_init" for n using snoc.IH by (simp add: cache_def)
  have "\<forall>x. bms_receive fr ts cache n = Some x \<longrightarrow> x_fire x = fire_init"
    by (rule receive_keeps_fire) (rule IH)
  then show ?case by (simp add: a cache_def)
qed simp

text \<open>A fire message of battery 1 with alarm level 3 and the flag of a fire that was detected.\<close>

definition example_fire_frame :: can_frame where
  "example_fire_frame = \<lparr>can_id = 0x98FFF10F, can_dlc = 8, can_data = [1, 3, 1, 0, 1, 0, 0, 0]\<rparr>"

lemma example_fire_frame: "battery_frame 0xF 1 example_fire_frame"
  by (simp add: battery_frame_def example_fire_frame_def router_defs CAN_EFF_FLAG_def CAN_EFF_MASK_def)

theorem fire_messages_lost_witness:
  "\<exists>x. bms_receive example_fire_frame 5 Map.empty (bms_name 1) = Some x \<and> x_fire x = fire_init"
proof -
  obtain x where x: "bms_receive example_fire_frame 5 Map.empty (bms_name 1) = Some x"
    using receive_frame [OF example_fire_frame, of 5 Map.empty] by (metis fun_upd_same unat_1)
  then show ?thesis using fire_messages_lost [of "[(example_fire_frame, 5)]" "bms_name 1"] by simp
qed

section \<open>Markers of invalid measurements\<close>

lemma one_tenth: "dec 1 10 = Fin (3602879701896397 / 36028797018963968)"
  using dbl_round_quotient [of 10 1 56] by (simp add: dec_def round_div_def)

lemma rawToPhys_current:
  "rawToPhys (sdef t (n, 16, 16, dec 1 10, Fin (-1000))) 65535 = Fin (- (8796972631510221 / 8796093022208))"
proof -
  have "dbl_round (3602879701896397 / 36028797018963968) = Fin (3602879701896397 / 36028797018963968)"
    using dbl_round_quotient [of 36028797018963968 3602879701896397 56] by (simp add: round_div_def)
  note tenth = dbl_round_minus [OF this]
  have "dbl_round (36032399898665864397 / 36028797018963968) = Fin (8796972631510221 / 8796093022208)"
    using dbl_round_quotient [of 36028797018963968 36032399898665864397 43] by (simp add: round_div_def)
  note sum = dbl_round_minus [OF this]
  have "dbl_of_int (-1) = Fin (-1)" using dbl_round_int [of "-1"] by (simp add: dbl_of_int_def)
  moreover have "sint (signExtend 65535 16) = -1" by (simp add: signExtend_def)
  ultimately show ?thesis by (simp add: rawToPhys_def one_tenth tenth sum)
qed

lemma rawToPhys_voltage: "rawToPhys (sdef t (n, 32, 16, dec 1 10, Fin 0)) 65535 = Fin (13107 / 2)"
proof -
  have "dbl_round (236114721263780377395 / 36028797018963968) = Fin (13107 / 2)"
    using dbl_round_quotient [of 36028797018963968 236114721263780377395 40] by (simp add: round_div_def)
  moreover have "dbl_round (13107 / 2) = Fin (13107 / 2)"
    using dbl_round_quotient [of 2 13107 40] by (simp add: round_div_def)
  moreover have "dbl_of_int 65535 = Fin 65535" using dbl_round_int [of 65535] by (simp add: dbl_of_int_def)
  ultimately show ?thesis by (simp add: rawToPhys_def one_tenth)
qed

lemma st2_numbers:
  assumes "battery_frame 5 i fr" and "bms_parse gen_findMessage ''BMS'' ''bms'' fr out = (ok, d)"
  shows "readNum d (sig_keys ''B2V_ST2'' ''B2V_ST2_PackCurrent'') =
      Some (rawToPhys (sdef kEnums_B2V_ST2 (''B2V_ST2_PackCurrent'', 16, 16, dec 1 10, Fin (-1000)))
        (take_bit 16 (drop_bit 16 (load64 (can_data fr)))))"
    and "readNum d (sig_keys ''B2V_ST2'' ''B2V_ST2_PackInsideVolt'') =
      Some (rawToPhys (sdef kEnums_B2V_ST2 (''B2V_ST2_PackInsideVolt'', 32, 16, dec 1 10, Fin 0))
        (take_bit 16 (drop_bit 32 (load64 (can_data fr)))))"
proof -
  have dist: "distinct (filter (\<lambda>n. n \<noteq> ''Reserved'') (map fst kRows_B2V_ST2))" by (simp add: kRows_B2V_ST2_def)
  note reads = entry_reads [OF assms fault_messages(5) fault_messages(6) [unfolded kSignals_B2V_ST2_def] _
      unique_row [OF dist], unfolded entry_read_def]
  note raw = extract_take_bit [of 16 16 "can_data fr", simplified] extract_take_bit [of 16 32 "can_data fr", simplified]
  show "readNum d (sig_keys ''B2V_ST2'' ''B2V_ST2_PackCurrent'') =
      Some (rawToPhys (sdef kEnums_B2V_ST2 (''B2V_ST2_PackCurrent'', 16, 16, dec 1 10, Fin (-1000)))
        (take_bit 16 (drop_bit 16 (load64 (can_data fr)))))"
    using reads [of "(''B2V_ST2_PackCurrent'', 16, 16, dec 1 10, Fin (-1000))"]
    by (simp add: kRows_B2V_ST2_def sig_raw_def raw)
  show "readNum d (sig_keys ''B2V_ST2'' ''B2V_ST2_PackInsideVolt'') =
      Some (rawToPhys (sdef kEnums_B2V_ST2 (''B2V_ST2_PackInsideVolt'', 32, 16, dec 1 10, Fin 0))
        (take_bit 16 (drop_bit 32 (load64 (can_data fr)))))"
    using reads [of "(''B2V_ST2_PackInsideVolt'', 32, 16, dec 1 10, Fin 0)"]
    by (simp add: kRows_B2V_ST2_def sig_raw_def raw)
qed

lemma field_all_ones: "field data start 16 = 65535 \<longleftrightarrow> take_bit 16 (drop_bit start (load64 data)) = 65535"
  using word_uint_eq_iff [of "take_bit 16 (drop_bit start (load64 data))" 65535] by (simp add: field_def)

text \<open>C39: The markers of an invalid current and an invalid voltage are taken as measurements. The table gives the value
  65535 of the two signals the meaning ``Signal Invalid''; a state message that carries it leaves a valid current of
  -1000.1 A (the marker is sign-extended to -1) and a valid voltage of 6553.5 V in the cache.\<close>

theorem invalid_markers_become_measurements:
  assumes "battery_frame 5 i fr"
  shows "\<exists>x. bms_receive fr ts cache (bms_name (unat i)) = Some x \<and>
     (field (can_data fr) 16 16 = 65535 \<longrightarrow>
        pack_i_valid (x_st2 x) \<and> pack_i (x_st2 x) = Fin (- (8796972631510221 / 8796093022208))) \<and>
     (field (can_data fr) 32 16 = 65535 \<longrightarrow> pack_v_valid (x_st2 x) \<and> pack_v (x_st2 x) = Fin (13107 / 2))"
proof -
  obtain d x where p: "bms_parse gen_findMessage ''BMS'' ''bms'' fr dd_init = (True, d)"
    and r: "parseMsgName d = canonicalMsgName (msg_name (table_message 5))"
      "bms_receive fr ts cache = cache(bms_name (unat i) \<mapsto> adapt_item d ts x)"
    by (rule receive_frame [OF assms])
  note num = st2_numbers [OF assms p]
  have i: "pack_i_valid (st2_fields d s) \<and> pack_i (st2_fields d s) = Fin (- (8796972631510221 / 8796093022208))"
    if "field (can_data fr) 16 16 = 65535" for s
    using that num(1) by (simp add: field_all_ones rawToPhys_current st2_fields_def num_or_def int_to_def bool_to_def
        isPackCurrentInvalid_def split: option.splits)
  have v: "pack_v_valid (st2_fields d s) \<and> pack_v (st2_fields d s) = Fin (13107 / 2)"
    if "field (can_data fr) 32 16 = 65535" for s
    using that num(2) by (simp add: field_all_ones rawToPhys_voltage st2_fields_def num_or_def int_to_def bool_to_def
        isPackVoltageInvalid_def split: option.splits)
  show ?thesis using r i v by (simp add: adapt_item_fields fault_messages)
qed

definition example_state_frame :: can_frame where
  "example_state_frame = \<lparr>can_id = 0x9884E105, can_dlc = 8, can_data = [0, 0, 0xFF, 0xFF, 0xFF, 0xFF, 0, 0]\<rparr>"

lemma example_state_frame: "battery_frame 5 1 example_state_frame"
  "can_data example_state_frame = [0, 0, 0xFF, 0xFF, 0xFF, 0xFF, 0, 0]"
  by (simp_all add: battery_frame_def example_state_frame_def router_defs CAN_EFF_FLAG_def CAN_EFF_MASK_def)

theorem invalid_markers_become_measurements_witness:
  "\<exists>x. bms_receive example_state_frame 8 Map.empty (bms_name 1) = Some x \<and> pack_i_valid (x_st2 x) \<and>
     pack_v (x_st2 x) = Fin (13107 / 2)"
proof -
  have "load64 [0, 0, 0xFF, 0xFF, 0xFF, 0xFF, 0, 0] = 0xFFFFFFFF0000" by (simp add: load64_def upt_rec)
  then show ?thesis
    using invalid_markers_become_measurements [OF example_state_frame(1), of 8 Map.empty]
    by (auto simp: example_state_frame(2) field_def)
qed

section \<open>Types of the decoded data\<close>

lemma sig_value_range:
  assumes "as_value s"
  shows "0 \<le> sig_value data s" "sig_value data s < 128"
proof -
  have "0 \<le> sig_value data s \<and> sig_value data s < 128"
  proof (cases "isBoolLikeSignal s")
    case False
    then have "sig_length s < 8" using assms
      by (auto simp: as_value_def shouldParseAsPhysical_def isEnumLikeSignal_def split: if_splits)
    then have len: "uint (sig_length s) < 8" by (simp add: word_less_def)
    define w where "w = sig_raw data s"
    have "bit (field_mask l) n \<Longrightarrow> n < 7" if "l \<le> 7" "0 < l" for l n
      using that by (simp add: bit_field_mask)
    moreover have "sig_raw data s = 0 \<or> (\<exists>l. 0 < l \<and> l \<le> 7 \<and> (\<exists>v. sig_raw data s = v AND field_mask l))"
    proof (cases "uint (sig_length s) \<le> 0 \<or> 64 \<le> uint (startbit_lsb s)")
      case True
      then show ?thesis by (auto simp: sig_raw_def extractBitsLsb_def)
    next
      case False
      let ?b = "uint (startbit_lsb s)" and ?l = "uint (sig_length s)"
      let ?e = "if 64 < ?b + ?l then 64 - ?b else ?l"
      have "0 < ?e" using False by (cases "64 < ?b + ?l"; simp only: if_True if_False; linarith)
      moreover have "?e \<le> 7" using False len by (cases "64 < ?b + ?l"; simp only: if_True if_False; linarith)
      moreover have "sig_raw data s = drop_bit (nat ?b) (load64 data) AND field_mask ?e"
        using False by (simp add: sig_raw_def extractBitsLsb_def Let_def)
      ultimately show ?thesis by blast
    qed
    ultimately have "\<And>n. bit w n \<Longrightarrow> n < 7" by (auto simp: w_def bit_simps)
    then have "take_bit 7 w = w" by (intro bit_word_eqI) (auto simp: bit_simps)
    then have "uint w = take_bit 7 (uint w)" by (metis unsigned_take_bit_eq)
    also have "\<dots> < 128" using take_bit_int_less_exp [of 7 "uint w"] by simp
    finally have u: "uint w < 128" .
    have "uint (ucast w :: u32) = uint w" using u by (simp add: unsigned_ucast_eq take_bit_int_eq_self)
    moreover have "signed_take_bit 31 (uint w) = uint w"
    proof (rule signed_take_bit_int_eq_self)
      show "- (2 ^ 31) \<le> uint w" by (rule order_trans [OF _ uint_nonnegative]) simp
      show "uint w < 2 ^ 31" using u by simp
    qed
    ultimately have "sint (ucast w :: u32) = uint w" by (simp add: sint_uint)
    then show ?thesis using False u by (simp add: sig_value_def flip: w_def)
  qed (simp add: sig_value_def)
  then show "0 \<le> sig_value data s" "sig_value data s < 128" by simp_all
qed

text \<open>C7: The decoded data is typed by the message table. Every signal of a battery message whose name occurs once in
  the message is found under its prefixed key in exactly one of the two maps of the data: signals of one bit and short
  enumerations among the integers, with a value between 0 and 127, all others among the floating-point numbers, with
  the converted value.\<close>

theorem decoded_data_typed:
  assumes "battery_frame code i fr" and "bms_parse gen_findMessage ''BMS'' ''bms'' fr out = (ok, d)"
    and "filter (\<lambda>s'. sig_name s' = sig_name s) (signals (table_message code)) = [s]"
  shows "ok \<and> (let key = msg_prefix (table_message code) @ sig_name s in
     if as_value s then (\<exists>v. vals d key = Some v \<and> 0 \<le> v \<and> v < 128) \<and> num d key = None
     else vals d key = None \<and> num d key = Some (rawToPhys s (sig_raw (can_data fr) s)))"
proof -
  have c: "code \<in> set known_codes" using decode_fields [of "can_id fr AND CAN_EFF_MASK" i code] assms(1)
    by (auto simp: battery_frame_def)
  note tab = table_message_ok [OF c]
  have d: "ok" "d = parse_signals (msg_prefix (table_message code)) (can_data fr)
      (parse_header ''BMS'' (can_id fr AND CAN_EFF_MASK) (table_message code) fr out) (signals (table_message code))"
    using parse_battery_frame [OF assms(1) tab(2), of out] assms(2) by simp_all
  have "CHR ''.'' \<in> set (msg_prefix (table_message code))" by (simp add: msg_prefix_def)
  from parse_signals_one [OF tab(1) this assms(3), of "can_data fr"
      "parse_header ''BMS'' (can_id fr AND CAN_EFF_MASK) (table_message code) fr out", folded d(2), unfolded parse_header_fields]
  show ?thesis using d(1) sig_value_range [of s "can_data fr"] by (simp add: Let_def)
qed

theorem decoded_data_typed_witness:
  "let d = snd (bms_parse gen_findMessage ''BMS'' ''bms'' example_fault_frame dd_init) in
     \<exists>v. vals d ''bms.B2V_Fault2.B2V_Fult2_MainLoopPrechrgErr'' = Some v \<and> 0 \<le> v \<and> v < 128"
proof -
  let ?s = "sdef kEnums_B2V_Fult2 (''B2V_Fult2_MainLoopPrechrgErr'', 20, 1, Fin 1, Fin 0)"
  obtain ok d where p: "bms_parse gen_findMessage ''BMS'' ''bms'' example_fault_frame dd_init = (ok, d)"
    by (cases "bms_parse gen_findMessage ''BMS'' ''bms'' example_fault_frame dd_init")
  have one: "filter (\<lambda>s'. sig_name s' = sig_name ?s) (signals (table_message 3)) = [?s]"
    by (simp add: fault_messages kSignals_B2V_Fult2_def kRows_B2V_Fult2_rows)
  have "msg_prefix (table_message 3) @ sig_name ?s = ''bms.B2V_Fault2.B2V_Fult2_MainLoopPrechrgErr''"
    by (simp add: msg_prefix_def fault_messages)
  moreover have "as_value ?s" by (simp add: as_value_bool)
  ultimately show ?thesis
    using decoded_data_typed [OF example_fault_frame(1) p one] by (simp add: p Let_def del: sdef_fields)
qed

end
