(* ===== verification/Fault_Runtime.thy ===== *)
theory Fault_Runtime
  imports Fault_Logic Fault_Center Bms_Fault
begin

text \<open>
  The rules that turn device states into fault codes (\<open>services/control/fault/fault_runtime_mapper.cpp\<close>): the
  normal forms of sources and signals, the load of the rules, the evaluation of a signal against the state
  of a device, the debounce of the signals of the UPS, the air conditioner, the smoke and the gas detector,
  and the pass over all rules that sets their codes in the fault centre. As in the fault catalogue the JSON
  reader is library code: a file is a list of lines, each not parsable, without a list of items, or with its
  items. Blank lines and comment lines are lines without items.
\<close>

section \<open>Normal forms\<close>

definition is_alnum :: "char \<Rightarrow> bool" where
  "is_alnum c = (let n = (of_char c :: nat) in (48 \<le> n \<and> n \<le> 57) \<or> (65 \<le> n \<and> n \<le> 90) \<or> (97 \<le> n \<and> n \<le> 122))"

definition token_step :: "string \<Rightarrow> char \<Rightarrow> string" where
  "token_step out c =
     (if is_alnum c then out @ [to_lower c]
      else if out = [] \<or> last out = CHR ''_'' then out else out @ ''_'')"

definition normalizeToken :: "string \<Rightarrow> string" where
  "normalizeToken s =
     (let out = foldl token_step [] s;
          out = dropWhile (\<lambda>c. c = CHR ''_'') out
      in rev (dropWhile (\<lambda>c. c = CHR ''_'') (rev out)))"

type_synonym aliases = "(string list \<times> string) list"

definition alias_of :: "aliases \<Rightarrow> string \<Rightarrow> string" where
  "alias_of t s = (case find (\<lambda>(names, _). s \<in> set names) t of Some (_, r) \<Rightarrow> r | None \<Rightarrow> s)"

definition source_aliases :: aliases where
  "source_aliases =
     [([''bms''], ''bms''),
      ([''pcu'', ''pcu1'', ''pcu2''], ''pcu''),
      ([''ups'', ''ups232'', ''ups_ascii'', ''rs232_ups''], ''ups''),
      ([''smoke'', ''smokesensor'', ''smoke_sensor'', ''tss'', ''tss_smoke'', ''tss_sensor''], ''smoke''),
      ([''gas'', ''gasdetector'', ''gas_detector'', ''cgs'', ''cgs_sensor''], ''gas''),
      ([''air'', ''aircon'', ''air_conditioner'', ''airconditioner'', ''ac''], ''air''),
      ([''logic'', ''vcu'', ''system''], ''logic''),
      ([''hmi'', ''screen'', ''display''], ''logic''),
      ([''remote'', ''remoteio'', ''remote_io''], ''logic''),
      ([''sd'', ''sdcard'', ''tf'', ''tfcard''], ''logic'')]"

definition normalizeSource :: "string \<Rightarrow> string" where
  "normalizeSource s = alias_of source_aliases (normalizeToken s)"

definition signal_aliases :: aliases where
  "signal_aliases =
     [([''offline'', ''runtime_offline''], ''offline''),
      ([''online'', ''runtime_online''], ''online''),
      ([''pcu1_comm_fault'', ''pcu_1_comm_fault''], ''pcu0_offline''),
      ([''pcu2_comm_fault'', ''pcu_2_comm_fault''], ''pcu1_offline''),
      ([''ups_comm_fault'', ''ups_offline'', ''ups_runtime_offline''], ''ups_offline''),
      ([''tss_offline'', ''tss_comm_fault'', ''smoke_offline'', ''smoke_comm_fault'', ''smokesensor_comm_fault'',
        ''smoke_sensor_comm_fault''], ''tss_offline''),
      ([''gas_offline'', ''gas_comm_fault'', ''cgs_comm_fault'', ''gasdetector_comm_fault'',
        ''gas_detector_comm_fault''], ''gas_offline''),
      ([''air_offline'', ''air_comm_fault'', ''aircon_comm_fault'', ''airconditioner_comm_fault'',
        ''air_conditioner_comm_fault''], ''air_offline''),
      ([''hmi_comm_fault'', ''screen_comm_fault'', ''display_comm_fault''], ''hmi_comm_fault''),
      ([''remote_comm_fault'', ''remoteio_comm_fault'', ''remote_io_comm_fault''], ''remote_comm_fault''),
      ([''sdcard_fault'', ''sd_fault'', ''tfcard_fault'', ''tf_fault''], ''sdcard_fault''),
      ([''alarm_any'', ''env_alarm_any''], ''alarm_any''),
      ([''fault_any''], ''fault_any''),
      ([''logic_any_fault''], ''any_fault''),
      ([''env_any_alarm''], ''env_any_alarm''),
      ([''system_estop'', ''estop''], ''system_estop''),
      ([''ups_alarm_any''], ''alarm_any''),
      ([''ups_fault_any''], ''fault_any''),
      ([''ups_fault_code_nonzero''], ''fault_code_nonzero''),
      ([''ups_battery_low''], ''battery_low''),
      ([''ups_bypass'', ''ups_bypass_active''], ''bypass_active''),
      ([''tss_smoke_alarm''], ''tss_smoke_alarm''),
      ([''tss_temp_alarm''], ''tss_temp_alarm''),
      ([''tss_ss_alarm''], ''tss_ss_alarm''),
      ([''tss_spollution_alarm'', ''tss_pollution_alarm'', ''tss_s_pollution_alarm''], ''tss_spollution_alarm''),
      ([''tss_temp_fault''], ''tss_temp_fault''),
      ([''gas_alarm_any''], ''gas_alarm_any''),
      ([''gas_fault_any''], ''gas_fault_any''),
      ([''gas_sensor_fault''], ''gas_sensor_fault''),
      ([''gas_low_alarm''], ''gas_low_alarm''),
      ([''gas_high_alarm''], ''gas_high_alarm''),
      ([''gas_status_nonzero''], ''gas_status_nonzero''),
      ([''air_alarm_any'', ''aircon_alarm_any''], ''alarm_any''),
      ([''air_fault_any'', ''aircon_fault_any''], ''fault_any'')]"

definition normalizeSignal :: "string \<Rightarrow> string" where
  "normalizeSignal s = alias_of signal_aliases (normalizeToken s)"

definition parseBoolToken :: "string \<Rightarrow> bool \<Rightarrow> bool" where
  "parseBoolToken s defv =
     (let t = normalizeToken s in
      if t \<in> {''1'', ''true'', ''yes'', ''y''} then True
      else if t \<in> {''0'', ''false'', ''no'', ''n''} then False else defv)"

fun contains :: "string \<Rightarrow> string \<Rightarrow> bool" where
  "contains p [] \<longleftrightarrow> p = []"
| "contains p (c # cs) \<longleftrightarrow> take (length p) (c # cs) = p \<or> contains p cs"

definition instance_patterns :: "((string \<Rightarrow> bool) \<times> u32) list" where
  "instance_patterns =
     [(\<lambda>t. contains ''bms1'' t \<or> contains ''bms_1'' t, 1), (\<lambda>t. contains ''bms2'' t \<or> contains ''bms_2'' t, 2),
      (\<lambda>t. contains ''bms3'' t \<or> contains ''bms_3'' t, 3), (\<lambda>t. contains ''bms4'' t \<or> contains ''bms_4'' t, 4),
      (\<lambda>t. contains ''pcu1commfault'' t \<or> contains ''pcu_1_comm_fault'' t, 1),
      (\<lambda>t. contains ''pcu2commfault'' t \<or> contains ''pcu_2_comm_fault'' t, 2),
      (\<lambda>t. t = ''pcu0offline'' \<or> t = ''pcu_0_offline'', 1), (\<lambda>t. t = ''pcu1offline'' \<or> t = ''pcu_1_offline'', 2),
      (\<lambda>t. contains ''pcu1offline'' t \<or> contains ''pcu_1_offline'' t, 1),
      (\<lambda>t. contains ''pcu2offline'' t \<or> contains ''pcu_2_offline'' t, 2)]"

definition tryParseInstanceFromSignal :: "string \<Rightarrow> u32 option" where
  "tryParseInstanceFromSignal signal =
     (let t = normalizeToken signal in map_option snd (find (\<lambda>(p, _). p t) instance_patterns))"

section \<open>The rules\<close>

record rt_rule =
  ru_code :: u16
  ru_code_hex :: string
  ru_name :: string
  ru_source :: string
  ru_signal :: string
  ru_instance :: u32
  ru_show_current :: bool
  ru_show_history :: bool
  source_norm :: string
  signal_norm :: string

record load_stats =
  total_items :: nat
  accepted_rules :: nat
  skipped_no_source_or_signal :: nat
  skipped_unsupported_source :: nat

record rule_item =
  ri_code_hex :: "string option"
  ri_path :: "string option"
  ri_name :: "string option"
  ri_source :: "string option"
  ri_signal :: "string option"
  ri_instance :: "json_value option"
  ri_show_current :: "json_value option"
  ri_show_history :: "json_value option"

datatype rule_line = RuleUnparsable | RuleNoItems | RuleItems "rule_item list"

definition parseU32Loose :: "json_value \<Rightarrow> u32 \<Rightarrow> u32" where
  "parseU32Loose v defv =
     (case v of JNum i \<Rightarrow> if 0 \<le> i then word_of_int i else defv
      | JStr s \<Rightarrow> if s = [] then defv else (case stoul (prefix_base s) s of Some n \<Rightarrow> of_nat n | None \<Rightarrow> defv)
      | _ \<Rightarrow> defv)"

definition item_rule :: "u16 \<Rightarrow> string \<Rightarrow> rule_item \<Rightarrow> rt_rule" where
  "item_rule code code_s it =
     (let src = trim (text_or '''' (ri_source it)); sig = trim (text_or '''' (ri_signal it)) in
      \<lparr>ru_code = code, ru_code_hex = text_or code_s (ri_code_hex it), ru_name = text_or '''' (ri_name it),
       ru_source = src, ru_signal = sig,
       ru_instance = (case ri_instance it of Some v \<Rightarrow> parseU32Loose v 0 | None \<Rightarrow> 0),
       ru_show_current = parseBoolLoose (ri_show_current it) False,
       ru_show_history = parseBoolLoose (ri_show_history it) False,
       source_norm = normalizeSource src, signal_norm = normalizeSignal sig\<rparr>)"

definition supported_sources :: "string list" where
  "supported_sources = [''pcu'', ''ups'', ''smoke'', ''gas'', ''air'', ''logic'']"

type_synonym rule_store = "load_stats \<times> rt_rule list"

definition add_rule :: "rule_store \<Rightarrow> rule_item \<Rightarrow> rule_store" where
  "add_rule st it =
     (let code_s = text_or '''' (ri_code_hex it);
          code_s = (if code_s = [] then text_or '''' (ri_path it) else code_s)
      in if code_s = [] then st
         else case parseCode code_s of None \<Rightarrow> st
         | Some code \<Rightarrow>
             let (stats, rules) = st;
                 stats = stats\<lparr>total_items := total_items stats + 1\<rparr>;
                 r = item_rule code code_s it
             in if source_norm r = [] \<or> signal_norm r = []
                then (stats\<lparr>skipped_no_source_or_signal := skipped_no_source_or_signal stats + 1\<rparr>, rules)
                else if source_norm r \<notin> set supported_sources
                then (stats\<lparr>skipped_unsupported_source := skipped_unsupported_source stats + 1\<rparr>, rules)
                else let r = (if source_norm r = ''pcu'' \<and> ru_instance r = 0
                              then (case tryParseInstanceFromSignal (signal_norm r) of
                                      Some i \<Rightarrow> r\<lparr>ru_instance := i\<rparr> | None \<Rightarrow> r)
                              else r)
                     in (stats\<lparr>accepted_rules := accepted_rules stats + 1\<rparr>, rules @ [r]))"

fun add_rule_lines :: "rule_line list \<Rightarrow> rule_store \<Rightarrow> bool \<times> rule_store" where
  "add_rule_lines [] st = (True, st)"
| "add_rule_lines (RuleUnparsable # ls) st = (False, st)"
| "add_rule_lines (RuleNoItems # ls) st = add_rule_lines ls st"
| "add_rule_lines (RuleItems its # ls) st = add_rule_lines ls (foldl add_rule st its)"

definition load_stats_init :: load_stats where
  "load_stats_init = \<lparr>total_items = 0, accepted_rules = 0, skipped_no_source_or_signal = 0,
     skipped_unsupported_source = 0\<rparr>"

definition rules_loadJsonl :: "rule_line list option \<Rightarrow> bool \<times> rule_store" where
  "rules_loadJsonl file =
     (case file of None \<Rightarrow> (False, (load_stats_init, [])) | Some ls \<Rightarrow> add_rule_lines ls (load_stats_init, []))"

section \<open>Evaluation of a signal\<close>

definition evalPcuSignal :: "pcu_online_state \<Rightarrow> string \<Rightarrow> bool" where
  "evalPcuSignal x signal =
     (let s = normalizeToken signal in
      if s \<in> set [''offline'', ''runtime_offline'', ''comm_fault'', ''communication_fault'', ''pcu_comm_fault'',
           ''pcu1_comm_fault'', ''pcu2_comm_fault''] then \<not> pcu_online x
      else if s \<in> set [''online'', ''runtime_online''] then pcu_online x
      else if s = ''rx_timeout'' then pcu_seen_once x \<and> \<not> rx_alive x
      else if s = ''heartbeat_stale'' then pcu_seen_once x \<and> rx_alive x \<and> \<not> hb_alive x
      else if s = ''heartbeat_missing'' then \<not> has_last_heartbeat x
      else if s \<in> set [''estop'', ''emergency_stop'', ''fault_estop'', ''pcu_emergency_stop'',
           ''pcu1_emergency_stop'', ''pcu2_emergency_stop''] then pcu_online x \<and> pcu_estop x
      else False)"

definition ups_warning_signals :: "string list" where
  "ups_warning_signals =
     [''internal_warning'', ''epo_active'', ''module_unlock'', ''neutral_lost'', ''mains_phase_error'',
      ''ln_reverse'', ''bypass_abnormal'', ''bypass_phase_error'', ''battery_not_connected'',
      ''battery_low_warning'', ''battery_overcharge'', ''battery_reverse'', ''overload_warning'',
      ''overload_alarm'', ''fan_fault'', ''bypass_cover_open'', ''charger_fault'', ''position_error'',
      ''boot_condition_not_met'', ''redundancy_lost'', ''module_loose'', ''battery_maint_due'',
      ''inspection_maint_due'', ''warranty_maint_due'', ''temp_low_warning'', ''temp_high_warning'',
      ''battery_overtemp'', ''fan_maint_due'', ''bus_cap_maint_due'', ''system_overload'', ''reserved_warning'']"

definition ups_fault_signals :: "string list" where
  "ups_fault_signals =
     [''bus_softstart_timeout'', ''bus_overvoltage_fault'', ''bus_undervoltage_fault'', ''bus_imbalance_fault'',
      ''bus_short_circuit'', ''inv_softstart_timeout'', ''inv_overvoltage_fault'', ''inv_undervoltage_fault'',
      ''output_short_circuit'', ''r_inv_short_circuit'', ''s_inv_short_circuit'', ''t_inv_short_circuit'',
      ''rs_short_circuit'', ''st_short_circuit'', ''tr_short_circuit'', ''reverse_power_fault'',
      ''r_reverse_power_fault'', ''s_reverse_power_fault'', ''t_reverse_power_fault'',
      ''total_reverse_power_fault'', ''current_imbalance_fault'', ''overload_fault'', ''overtemp_fault'',
      ''inv_relay_fail_close'', ''inv_relay_stuck'', ''mains_scr_fault'', ''battery_scr_fault'',
      ''bypass_scr_fault'', ''rectifier_fault'', ''input_overcurrent_fault'', ''wiring_error'',
      ''comm_cable_disconnected'', ''host_cable_fault'', ''can_comm_fault'', ''sync_signal_fault'',
      ''power_supply_fault'', ''all_fan_fault'', ''dsp_error'', ''charger_softstart_timeout'',
      ''all_module_fault'', ''mains_ntc_open_fault'', ''mains_fuse_open_fault'', ''output_imbalance_fault'',
      ''input_mismatch_fault'', ''eeprom_data_lost'', ''mains_support_failed'', ''power_failed'',
      ''system_overload_fault'', ''ads7869_error'', ''bypass_mode_no_op'', ''op_breaker_off_parallel'',
      ''r_bus_fuse_fault'', ''s_bus_fuse_fault'', ''t_bus_fuse_fault'', ''ntc_fault'', ''parallel_cable_fault'',
      ''battery_fault'', ''frequent_overcurrent_fault'', ''battery_overcharge_fault'', ''epo_critical_fault'']"

definition evalUpsSignal :: "dev_flags \<Rightarrow> ups_details \<Rightarrow> string \<Rightarrow> bool" where
  "evalUpsSignal f x signal =
     (let s = normalizeToken signal in
      if s \<in> set [''offline'', ''runtime_offline'', ''ups_offline'', ''ups_comm_fault''] then \<not> d_online f
      else if s \<in> set [''online'', ''runtime_online'', ''ups_online''] then d_online f
      else if \<not> d_online f then False
      else if s = ''alarm_any'' then d_alarm_any f
      else if s = ''fault_any'' then d_fault_any f
      else if s = ''battery_low'' then battery_low_state x \<or> ups_warning x ''battery_low_warning''
      else if s = ''bypass_active'' \<or> s = ''bypass'' then bypass_mode x \<or> ups_warning x ''bypass_abnormal''
      else if s = ''fault_code_nonzero'' then fault_bits x \<noteq> 0
      else if s = ''mains_abnormal'' then mains_abnormal x
      else if s = ''battery_low_state'' then battery_low_state x
      else if s = ''bypass_mode'' then bypass_mode x
      else if s = ''ups_fault_state'' then ups_fault_state x
      else if s = ''backup_mode'' then backup_mode x
      else if s = ''self_test_active'' then self_test_active x
      else if s \<in> set ups_warning_signals then ups_warning x s
      else if s \<in> set ups_fault_signals then ups_fault x s
      else False)"

definition evalSmokeSignal :: "dev_flags \<Rightarrow> smoke_details \<Rightarrow> string \<Rightarrow> bool" where
  "evalSmokeSignal f x signal =
     (let s = normalizeToken signal in
      if s \<in> set [''tss_offline'', ''smoke_offline'', ''tss_comm_fault'', ''smoke_comm_fault''] then \<not> d_online f
      else if \<not> d_online f then False
      else if s = ''tss_smoke_alarm'' then smoke_alarm x
      else if s = ''tss_temp_alarm'' then temp_alarm x
      else if s = ''tss_ss_alarm'' then smoke_sensor_fault x
      else if s = ''tss_spollution_alarm'' then smoke_pollution_fault x
      else if s = ''tss_temp_fault'' then temp_sensor_fault x
      else if s = ''alarm_any'' then d_alarm_any f
      else if s = ''fault_any'' then d_fault_any f
      else False)"

definition evalGasSignal :: "dev_flags \<Rightarrow> gas_details \<Rightarrow> string \<Rightarrow> bool" where
  "evalGasSignal f x signal =
     (let s = normalizeToken signal in
      if s \<in> set [''gas_offline'', ''cgs_comm_fault'', ''gas_comm_fault''] then \<not> d_online f
      else if s = ''gas_online'' then d_online f
      else if \<not> d_online f then False
      else if s \<in> set [''gas_alarm'', ''gas_alarm_any'', ''alarm_any''] then d_alarm_any f
      else if s \<in> set [''gas_sensor_fault'', ''gas_fault_any'', ''fault_any''] then gas_sensor_fault x \<or> d_fault_any f
      else if s = ''gas_status_nonzero'' then gas_status_code x \<noteq> 0
      else if s = ''gas_low_alarm'' then low_alarm x
      else if s = ''gas_high_alarm'' then high_alarm x
      else False)"

definition air_flag_signals :: "string list" where
  "air_flag_signals =
     [''high_temp_alarm'', ''low_temp_alarm'', ''high_humidity_alarm'', ''low_humidity_alarm'',
      ''coil_freeze_protect'', ''exhaust_high_temp_alarm'', ''coil_temp_sensor_fault'',
      ''outdoor_temp_sensor_fault'', ''condenser_temp_sensor_fault'', ''indoor_temp_sensor_fault'',
      ''exhaust_temp_sensor_fault'', ''humidity_sensor_fault'', ''internal_fan_fault'', ''external_fan_fault'',
      ''compressor_fault'', ''heater_fault'', ''emergency_fan_fault'', ''high_pressure_alarm'',
      ''low_pressure_alarm'', ''water_alarm'', ''smoke_alarm'', ''gating_alarm'', ''high_pressure_lock'',
      ''low_pressure_lock'', ''exhaust_lock'', ''ac_over_voltage_alarm'', ''ac_under_voltage_alarm'',
      ''ac_power_loss'', ''lose_phase_alarm'', ''freq_fault'', ''anti_phase_alarm'', ''dc_over_voltage_alarm'',
      ''dc_under_voltage_alarm'']"

definition evalAirSignal :: "dev_flags \<Rightarrow> air_details \<Rightarrow> string \<Rightarrow> bool" where
  "evalAirSignal f x signal =
     (let s = normalizeToken signal in
      if s \<in> set [''offline'', ''runtime_offline'', ''air_offline'', ''aircon_comm_fault'', ''air_comm_fault'']
      then \<not> d_online f
      else if s \<in> set [''online'', ''runtime_online'', ''air_online''] then d_online f
      else if \<not> d_online f then False
      else if s = ''alarm_any'' then d_alarm_any f
      else if s = ''fault_any'' then d_fault_any f
      else if s = ''run_state_zero'' then run_state x = 0
      else if s = ''power_off'' then power_state x = 0
      else if s \<in> set air_flag_signals then air_flag x s
      else False)"

definition evalLogicSignal :: "logic_faults \<Rightarrow> string \<Rightarrow> bool" where
  "evalLogicSignal x signal =
     (let s = normalizeSignal signal in
      if s = ''any_fault'' then any_fault x
      else if s = ''pcu_any_offline'' then pcu_any_offline x
      else if s = ''bms_any_offline'' then bms_any_offline x
      else if s = ''ups_offline'' then ups_offline x
      else if s = ''smoke_offline'' then smoke_offline x
      else if s = ''gas_offline'' then gas_offline x
      else if s = ''air_offline'' then air_offline x
      else if s = ''env_any_alarm'' then env_any_alarm x
      else if s = ''system_estop'' then system_estop x
      else if s = ''hmi_comm_fault'' then hmi_comm_fault x
      else if s = ''remote_comm_fault'' then remote_comm_fault x
      else if s = ''sdcard_fault'' then sdcard_fault x
      else if s \<in> set [''pcu0_offline'', ''pcu1_comm_fault'', ''pcu1_offline''] then pcu_any_offline x
      else if s \<in> set [''pcu1_offline'', ''pcu2_comm_fault'', ''pcu2_offline''] then pcu_any_offline x
      else if s = ''ups_comm_fault'' then ups_offline x
      else if s = ''tss_comm_fault'' \<or> s = ''smoke_comm_fault'' then smoke_offline x
      else if s = ''cgs_comm_fault'' \<or> s = ''gas_comm_fault'' then gas_offline x
      else if s = ''aircon_comm_fault'' \<or> s = ''air_comm_fault'' then air_offline x
      else False)"

text \<open>The list of known signals is only meant for log lines; nothing calls it.\<close>

definition known_bms_signals :: "string list" where
  "known_bms_signals =
     [''offline'', ''online'', ''runtime_stale'', ''fault_block_hv'', ''ins_low_any'', ''alarm_any'', ''fault_any'',
      ''st2_stale'', ''current_limit_stale'', ''fault1_stale'', ''fault2_stale'', ''rq_hv_power_off'',
      ''fault_level_ge_1'', ''fault_level_ge_2'', ''tms_fault_level_ge_1'', ''tms_fault_level_ge_2'',
      ''fire_fault_level_ge_1'', ''fire_fault_level_ge_2'', ''f1_del_temp'', ''f1_over_temp'', ''f1_over_ucell'',
      ''f1_low_ucell'', ''f1_low_ins_res'', ''f1_ucell_uniformity'', ''f1_over_chg'', ''f1_over_soc'',
      ''f1_soc_change_fast'', ''f1_bat_sys_not_match'', ''f1_hvil_fault'', ''f2_tms_err'', ''f2_pack_self_protect'',
      ''f2_main_loop_prechg_err'', ''f2_aux_loop_prechg_err'', ''f2_chrg_ins_low_err'', ''f2_acan_lost'',
      ''f2_inner_comm_err'', ''f2_dcdc_err'', ''f2_branch_break_err'', ''f2_heat_relay_open_err'',
      ''f2_heat_relay_weld_err'', ''f2_main_pos_open_err'', ''f2_main_pos_weld_err'', ''f2_main_neg_open_err'',
      ''f2_main_neg_weld_err'']"

definition isKnownSignalForSource :: "string \<Rightarrow> string \<Rightarrow> bool" where
  "isKnownSignalForSource src signal =
     (if src \<in> set [''ups'', ''air'', ''smoke'', ''gas''] then signal \<noteq> []
      else if src = ''bms'' then signal \<in> set known_bms_signals
      else if src = ''pcu'' then signal \<in> set [''offline'', ''online'', ''runtime_offline'', ''runtime_online'',
        ''rx_timeout'', ''heartbeat_stale'', ''heartbeat_missing'', ''estop'', ''emergency_stop'', ''fault_estop'',
        ''pcu_emergency_stop'', ''pcu1_comm_fault'', ''pcu2_comm_fault'', ''pcu1_emergency_stop'',
        ''pcu2_emergency_stop'']
      else if src = ''logic'' then signal \<in> set [''any_fault'', ''pcu_any_offline'', ''bms_any_offline'',
        ''ups_offline'', ''smoke_offline'', ''gas_offline'', ''air_offline'', ''env_any_alarm'', ''alarm_any'',
        ''fault_any'', ''system_estop'', ''hmi_comm_fault'', ''remote_comm_fault'', ''sdcard_fault'',
        ''pcu0_offline'', ''pcu1_offline'', ''pcu1_comm_fault'', ''pcu2_comm_fault'']
      else False)"

section \<open>Debounce\<close>

record debounce_state =
  db_initialized :: bool
  db_last_raw :: bool
  db_output :: bool
  db_raw_since_ms :: u64

record debounce_policy =
  dp_enable :: bool
  dp_trigger_ms :: u32
  dp_clear_ms :: u32

definition debounce_init :: debounce_state where
  "debounce_init = \<lparr>db_initialized = False, db_last_raw = False, db_output = False, db_raw_since_ms = 0\<rparr>"

definition isRuntimeDebounceSource :: "string \<Rightarrow> bool" where
  "isRuntimeDebounceSource s \<longleftrightarrow> s = ''ups'' \<or> s = ''air'' \<or> s = ''smoke'' \<or> s = ''gas''"

definition isOfflineSignal :: "rt_rule \<Rightarrow> bool" where
  "isOfflineSignal r =
     (let src = normalizeToken (source_norm r); sig = normalizeToken (signal_norm r) in
      if src = ''ups'' then sig \<in> set [''offline'', ''runtime_offline'', ''ups_offline'', ''ups_comm_fault'']
      else if src = ''air''
      then sig \<in> set [''offline'', ''runtime_offline'', ''air_offline'', ''aircon_comm_fault'', ''air_comm_fault'']
      else if src = ''smoke'' then sig \<in> set [''tss_offline'', ''smoke_offline'', ''tss_comm_fault'', ''smoke_comm_fault'']
      else if src = ''gas'' then sig \<in> set [''gas_offline'', ''cgs_comm_fault'', ''gas_comm_fault'']
      else False)"

definition policyForRule :: "rt_rule \<Rightarrow> debounce_policy" where
  "policyForRule r =
     (if \<not> isRuntimeDebounceSource (source_norm r) then \<lparr>dp_enable = False, dp_trigger_ms = 0, dp_clear_ms = 0\<rparr>
      else if isOfflineSignal r then \<lparr>dp_enable = True, dp_trigger_ms = 3000, dp_clear_ms = 0\<rparr>
      else \<lparr>dp_enable = True, dp_trigger_ms = 3000, dp_clear_ms = 1000\<rparr>)"

definition makeDebounceKey :: "rt_rule \<Rightarrow> string" where
  "makeDebounceKey r =
     source_norm r @ ''|'' @ signal_norm r @ ''|'' @ to_string (unat (ru_instance r)) @ ''|'' @ to_string (unat (ru_code r))"

definition debounce_step :: "debounce_policy \<Rightarrow> bool \<Rightarrow> u64 \<Rightarrow> debounce_state \<Rightarrow> debounce_state" where
  "debounce_step p raw now st =
     (if \<not> db_initialized st
      then st\<lparr>db_initialized := True, db_last_raw := raw, db_raw_since_ms := now,
              db_output := (raw \<and> dp_trigger_ms p = 0)\<rparr>
      else let st = (if db_last_raw st \<noteq> raw then st\<lparr>db_last_raw := raw, db_raw_since_ms := now\<rparr> else st);
               st = (if now < db_raw_since_ms st then st\<lparr>db_raw_since_ms := now\<rparr> else st);
               held = now - db_raw_since_ms st
           in if raw \<noteq> db_output st
              then let need = (if raw then dp_trigger_ms p else dp_clear_ms p) in
                   if need = 0 \<or> ucast need \<le> held then st\<lparr>db_output := raw\<rparr> else st
              else st)"

type_synonym debounce_states = "string \<rightharpoonup> debounce_state"

definition debounceRule :: "rt_rule \<Rightarrow> bool \<Rightarrow> u64 \<Rightarrow> debounce_states \<Rightarrow> bool \<times> debounce_states" where
  "debounceRule r raw now dm =
     (let p = policyForRule r in
      if \<not> dp_enable p then (raw, dm)
      else let key = makeDebounceKey r;
               st = (case dm key of Some st \<Rightarrow> st | None \<Rightarrow> debounce_init);
               st = debounce_step p raw now st
           in (db_output st, dm(key \<mapsto> st)))"

section \<open>The pass over the rules\<close>

definition pcu_instance_of :: "rt_rule \<Rightarrow> u32" where
  "pcu_instance_of r =
     (if ru_instance r = 0
      then (case tryParseInstanceFromSignal (signal_norm r) of Some i \<Rightarrow> i | None \<Rightarrow> 0) else ru_instance r)"

definition confirmed_keys :: "rt_rule \<Rightarrow> string list" where
  "confirmed_keys r =
     (let s = signal_norm r; add = (\<lambda>names keys. if s \<in> set names then keys else []) in
      if source_norm r = ''pcu'' then
        (let i = pcu_instance_of r in
         if i = 1 then
           add [''pcu1_comm_fault'', ''offline'', ''runtime_offline''] [''logic.pcu1_comm_fault'', ''logic.pcu0_offline''] @
           add [''pcu1_emergency_stop'', ''estop'', ''emergency_stop'', ''fault_estop'']
             [''logic.pcu1_emergency_stop'', ''logic.pcu0_emergency_stop'']
         else if i = 2 then
           add [''pcu2_comm_fault'', ''offline'', ''runtime_offline''] [''logic.pcu2_comm_fault'', ''logic.pcu1_offline''] @
           add [''pcu2_emergency_stop'', ''estop'', ''emergency_stop'', ''fault_estop'']
             [''logic.pcu2_emergency_stop'', ''logic.pcu1_emergency_stop'']
         else [])
      else if source_norm r = ''logic'' then
        [''logic.'' @ s] @
        add [''pcu1_comm_fault'', ''pcu1_offline''] [''logic.pcu0_offline'', ''logic.pcu1_comm_fault''] @
        add [''pcu2_comm_fault'', ''pcu2_offline''] [''logic.pcu1_offline'', ''logic.pcu2_comm_fault''] @
        add [''ups_comm_fault''] [''logic.ups_comm_fault''] @
        add [''ups_offline''] [''logic.ups_comm_fault''] @
        add [''tss_offline'', ''tss_comm_fault''] [''logic.tss_comm_fault''] @
        add [''cgs_comm_fault'', ''gas_comm_fault''] [''logic.cgs_comm_fault''] @
        add [''air_offline'', ''air_comm_fault'', ''aircon_comm_fault''] [''logic.air_comm_fault'']
      else [])"

fun first_present :: "(string \<rightharpoonup> bool) \<Rightarrow> string list \<Rightarrow> bool option" where
  "first_present m [] = None"
| "first_present m (k # ks) = (case m k of Some b \<Rightarrow> Some b | None \<Rightarrow> first_present m ks)"

definition tryConfirmedSignal :: "ext_ctx \<Rightarrow> rt_rule \<Rightarrow> bool option" where
  "tryConfirmedSignal c r = first_present (e_confirmed c) (confirmed_keys r)"

definition fallback_active :: "ext_ctx \<Rightarrow> rt_rule \<Rightarrow> bool" where
  "fallback_active c r =
     (if source_norm r = ''pcu'' then
        (let i = pcu_instance_of r in
         if i = 1 then evalPcuSignal (c_pcu0 (e_logic c)) (signal_norm r)
         else if i = 2 then evalPcuSignal (c_pcu1 (e_logic c)) (signal_norm r)
         else False)
      else if source_norm r = ''logic'' then evalLogicSignal (c_faults (e_logic c)) (signal_norm r)
      else False)"

definition rule_state :: "u64 \<Rightarrow> ext_ctx \<Rightarrow> rt_rule \<Rightarrow> debounce_states \<Rightarrow> bool \<times> debounce_states" where
  "rule_state now c r dm =
     (let l = e_logic c; s = source_norm r in
      if s = ''ups'' then debounceRule r (evalUpsSignal (c_ups l) (e_ups c) (signal_norm r)) now dm
      else if s = ''air'' then debounceRule r (evalAirSignal (c_air l) (e_air c) (signal_norm r)) now dm
      else if s = ''smoke'' then debounceRule r (evalSmokeSignal (c_smoke l) (c_smoke_d l) (signal_norm r)) now dm
      else if s = ''gas'' then debounceRule r (evalGasSignal (c_gas l) (c_gas_d l) (signal_norm r)) now dm
      else case tryConfirmedSignal c r of Some on \<Rightarrow> (on, dm) | None \<Rightarrow> (fallback_active c r, dm))"

definition apply_rule ::
    "(u16 \<Rightarrow> u64) \<Rightarrow> u64 \<Rightarrow> ext_ctx \<Rightarrow> debounce_states \<times> fault_center \<Rightarrow> rt_rule \<Rightarrow> debounce_states \<times> fault_center" where
  "apply_rule clk now c s r =
     (let (dm, fc) = s; (on, dm) = rule_state now c r dm in (dm, setActive (clk (ru_code r)) (ru_code r) on fc))"

definition applyAll ::
    "rt_rule list \<Rightarrow> (u16 \<Rightarrow> u64) \<Rightarrow> u64 \<Rightarrow> ext_ctx \<Rightarrow> debounce_states \<times> fault_center \<Rightarrow> debounce_states \<times> fault_center" where
  "applyAll rules clk now c s = foldl (apply_rule clk now c) s rules"

section \<open>Facts on texts\<close>

lemma to_string_nonempty [simp]: "to_string n \<noteq> []"
  by (subst to_string.simps) simp

lemma to_string_inject: "to_string n = to_string m \<longleftrightarrow> n = m"
proof (induction n arbitrary: m rule: to_string.induct)
  case (1 n)
  have step: "to_string k = to_string (k div 10) @ [digit_char (k mod 10)]" if "\<not> k < 10" for k
    using that by (subst to_string.simps) simp
  show ?case
  proof (cases "n < 10 \<or> m < 10")
    case True
    then show ?thesis
      by (cases "n < 10"; cases "m < 10") (auto simp: to_string_digit step digit_char_inj dest: arg_cong [where f = length])
  next
    case False
    then have "to_string n = to_string m \<longleftrightarrow> n div 10 = m div 10 \<and> n mod 10 = m mod 10"
      using 1 [of "m div 10"] by (simp add: step digit_char_inj)
    also have "\<dots> \<longleftrightarrow> n = m" by (metis div_mult_mod_eq)
    finally show ?thesis .
  qed
qed

lemma to_string_no_bar: "CHR ''|'' \<notin> set (to_string n)"
proof (induction n rule: to_string.induct)
  case (1 n)
  have d: "k < 10 \<Longrightarrow> digit_char k \<noteq> CHR ''|''" for k
    by (auto simp: digit_char_def dest!: arg_cong [where f = "of_char :: char \<Rightarrow> nat"])
  show ?case using 1 d [of n] d [of "n mod 10"] by (subst to_string.simps) (auto simp del: d)
qed

lemma debounce_key_code:
  assumes "makeDebounceKey r = makeDebounceKey r'"
  shows "ru_code r = ru_code r'"
proof -
  have last: "rev (takeWhile (\<lambda>c. c \<noteq> CHR ''|'') (rev (makeDebounceKey r))) = to_string (unat (ru_code r))" for r :: rt_rule
    by (simp add: makeDebounceKey_def takeWhile_append to_string_no_bar)
  show ?thesis using last [of r] last [of r'] assms by (simp add: to_string_inject word_unat_eq_iff)
qed

section \<open>The debounce is the condition engine\<close>

definition debounce_run :: "debounce_policy \<Rightarrow> (bool \<times> u64) list \<Rightarrow> debounce_state \<Rightarrow> debounce_state" where
  "debounce_run p samples st = foldl (\<lambda>st (raw, now). debounce_step p raw now st) st samples"

definition same_condition :: "debounce_state \<Rightarrow> fc_state \<Rightarrow> u64 \<Rightarrow> bool" where
  "same_condition st f now \<longleftrightarrow>
     db_initialized st \<and> db_output st = confirmed_on f \<and> db_raw_since_ms st \<le> now \<and>
     (if confirmed_on f
      then db_last_raw st = (\<not> raw_clear f) \<and> (raw_clear f \<longrightarrow> db_raw_since_ms st = raw_clear_since_ms f)
      else db_last_raw st = raw_on f \<and> (raw_on f \<longrightarrow> db_raw_since_ms st = raw_on_since_ms f))"

lemma same_condition_first:
  "same_condition (debounce_step p raw now debounce_init)
     (snd (updateWithClear raw (\<not> raw) now (fc_configure (dp_trigger_ms p) (dp_clear_ms p) fc_init))) now"
  by (cases raw) (auto simp: same_condition_def debounce_step_def debounce_init_def updateWithClear_def fc_configure_def
      fc_init_def held_ms_def Let_def unsigned_eq_0_iff)

lemma same_condition_step:
  assumes "same_condition st f t" "t \<le> now" "assert_delay_ms f = dp_trigger_ms p" "clear_delay_ms f = dp_clear_ms p"
  shows "same_condition (debounce_step p raw now st) (snd (updateWithClear raw (\<not> raw) now f)) now"
  using assms
  by (cases raw; cases "confirmed_on f"; cases "raw_clear f"; cases "raw_on f")
    (auto simp: same_condition_def debounce_step_def updateWithClear_def held_ms_def Let_def not_less)

lemma same_condition_run:
  assumes "sorted (map snd samples)" "samples \<noteq> []"
  shows "same_condition (debounce_run p samples debounce_init)
     (fc_run (map (\<lambda>(raw, now). (raw, \<not> raw, now)) samples) (fc_configure (dp_trigger_ms p) (dp_clear_ms p) fc_init))
     (snd (last samples))"
  using assms
proof (induction samples rule: rev_induct)
  case (snoc x xs)
  obtain raw now where x: "x = (raw, now)" by (cases x)
  show ?case
  proof (cases "xs = []")
    case True
    then show ?thesis using same_condition_first [of p raw now] by (simp add: x debounce_run_def)
  next
    case False
    then have "snd (last xs) \<le> now" using snoc.prems by (auto simp: x sorted_append)
    with snoc False show ?thesis
      by (auto simp: x debounce_run_def sorted_append fc_configure_def intro!: same_condition_step [where t = "snd (last xs)"])
  qed
qed simp

section \<open>One pass\<close>

definition raw_signal :: "ext_ctx \<Rightarrow> rt_rule \<Rightarrow> bool" where
  "raw_signal c r =
     (let l = e_logic c; s = source_norm r in
      if s = ''ups'' then evalUpsSignal (c_ups l) (e_ups c) (signal_norm r)
      else if s = ''air'' then evalAirSignal (c_air l) (e_air c) (signal_norm r)
      else if s = ''smoke'' then evalSmokeSignal (c_smoke l) (c_smoke_d l) (signal_norm r)
      else evalGasSignal (c_gas l) (c_gas_d l) (signal_norm r))"

lemma rule_state_direct:
  "isRuntimeDebounceSource (source_norm r) \<Longrightarrow> rule_state now c r dm = debounceRule r (raw_signal c r) now dm"
  by (auto simp: isRuntimeDebounceSource_def rule_state_def raw_signal_def Let_def)

lemma rule_state_other:
  "\<not> isRuntimeDebounceSource (source_norm r) \<Longrightarrow>
     rule_state now c r dm = ((case tryConfirmedSignal c r of Some on \<Rightarrow> on | None \<Rightarrow> fallback_active c r), dm)"
  by (auto simp: isRuntimeDebounceSource_def rule_state_def Let_def split: option.splits)

lemma rule_state_local:
  "k \<noteq> makeDebounceKey r \<Longrightarrow> snd (rule_state now c r dm) k = dm k"
  "dm' (makeDebounceKey r) = dm (makeDebounceKey r) \<Longrightarrow> fst (rule_state now c r dm') = fst (rule_state now c r dm)"
  "dm' (makeDebounceKey r) = dm (makeDebounceKey r) \<Longrightarrow>
     snd (rule_state now c r dm') (makeDebounceKey r) = snd (rule_state now c r dm) (makeDebounceKey r)"
  by (cases "isRuntimeDebounceSource (source_norm r)";
      simp add: rule_state_direct rule_state_other debounceRule_def Let_def)+

lemma apply_rule_eq:
  "apply_rule clk now c (dm, fc) r =
     (snd (rule_state now c r dm), setActive (clk (ru_code r)) (ru_code r) (fst (rule_state now c r dm)) fc)"
  by (simp add: apply_rule_def split: prod.splits)

lemma applyAll_simps [simp]:
  "applyAll [] clk now c s = s"
  "applyAll (r # rs) clk now c s = applyAll rs clk now c (apply_rule clk now c s r)"
  by (simp_all add: applyAll_def)

lemma applyAll_other:
  "k \<notin> makeDebounceKey ` set rules \<Longrightarrow> fst (applyAll rules clk now c (dm, fc)) k = dm k"
  "d \<notin> ru_code ` set rules \<Longrightarrow> isActive (snd (applyAll rules clk now c (dm, fc))) d = isActive fc d"
proof -
  show "k \<notin> makeDebounceKey ` set rules \<Longrightarrow> fst (applyAll rules clk now c (dm, fc)) k = dm k"
    by (induction rules arbitrary: dm fc) (auto simp: apply_rule_eq rule_state_local(1))
  show "d \<notin> ru_code ` set rules \<Longrightarrow> isActive (snd (applyAll rules clk now c (dm, fc))) d = isActive fc d"
    by (induction rules arbitrary: dm fc) (auto simp: apply_rule_eq center.is_active_set)
qed

lemma applyAll_own:
  assumes "distinct (map ru_code rules)" "r \<in> set rules"
  shows "isActive (snd (applyAll rules clk now c (dm, fc))) (ru_code r) = fst (rule_state now c r dm)"
    "fst (applyAll rules clk now c (dm, fc)) (makeDebounceKey r) = snd (rule_state now c r dm) (makeDebounceKey r)"
proof -
  have "isActive (snd (applyAll rules clk now c (dm, fc))) (ru_code r) = fst (rule_state now c r dm) \<and>
      fst (applyAll rules clk now c (dm, fc)) (makeDebounceKey r) = snd (rule_state now c r dm) (makeDebounceKey r)"
    using assms
  proof (induction rules arbitrary: dm fc)
    case (Cons q rules)
    show ?case
    proof (cases "q = r")
      case True
      with Cons.prems have "ru_code r \<notin> ru_code ` set rules" by auto
      moreover from this have "makeDebounceKey r \<notin> makeDebounceKey ` set rules" by (auto dest: debounce_key_code)
      ultimately show ?thesis by (simp add: True apply_rule_eq applyAll_other center.is_active_set)
    next
      case False
      with Cons.prems have r: "r \<in> set rules" "ru_code q \<noteq> ru_code r" by auto
      then have "makeDebounceKey r \<noteq> makeDebounceKey q" using debounce_key_code by metis
      then have "snd (rule_state now c q dm) (makeDebounceKey r) = dm (makeDebounceKey r)" by (rule rule_state_local(1))
      note local = rule_state_local(2,3) [where dm' = "snd (rule_state now c q dm)" and dm = dm, OF this]
      show ?thesis using Cons.IH [OF _ r(1)] Cons.prems(1) by (simp only: applyAll_simps apply_rule_eq) (simp add: local)
    qed
  qed simp
  then show "isActive (snd (applyAll rules clk now c (dm, fc))) (ru_code r) = fst (rule_state now c r dm)"
    "fst (applyAll rules clk now c (dm, fc)) (makeDebounceKey r) = snd (rule_state now c r dm) (makeDebounceKey r)"
    by simp_all
qed

section \<open>Passes over time\<close>

definition rule_passes ::
    "rt_rule list \<Rightarrow> (u64 \<Rightarrow> u16 \<Rightarrow> u64) \<Rightarrow> (u64 \<times> ext_ctx) list \<Rightarrow> debounce_states \<times> fault_center \<Rightarrow>
       debounce_states \<times> fault_center" where
  "rule_passes rules clk steps s = foldl (\<lambda>s (now, c). applyAll rules (clk now) now c s) s steps"

lemma rule_passes_state:
  assumes "distinct (map ru_code rules)" "r \<in> set rules" "isRuntimeDebounceSource (source_norm r)"
  shows "(case fst (rule_passes rules clk steps (Map.empty, fc)) (makeDebounceKey r) of
       Some st \<Rightarrow> st | None \<Rightarrow> debounce_init) =
     debounce_run (policyForRule r) (map (\<lambda>(now, c). (raw_signal c r, now)) steps) debounce_init \<and>
     (steps \<noteq> [] \<longrightarrow> isActive (snd (rule_passes rules clk steps (Map.empty, fc))) (ru_code r) =
        db_output (debounce_run (policyForRule r) (map (\<lambda>(now, c). (raw_signal c r, now)) steps) debounce_init))"
proof (induction steps rule: rev_induct)
  case (snoc x steps)
  obtain now c where x: "x = (now, c)" by (cases x)
  obtain dm fc' where s: "rule_passes rules clk steps (Map.empty, fc) = (dm, fc')" by fastforce
  have en: "dp_enable (policyForRule r)" using assms(3) by (simp add: policyForRule_def)
  have run: "rule_passes rules clk (steps @ [x]) (Map.empty, fc) = applyAll rules (clk now) now c (dm, fc')"
    using s by (simp add: rule_passes_def x)
  show ?case
    using snoc.IH unfolding run applyAll_own [OF assms(1,2)] rule_state_direct [OF assms(3)]
    by (simp add: s x debounceRule_def en debounce_run_def Let_def)
qed (simp add: rule_passes_def debounce_run_def)

lemma direct_policy:
  "isRuntimeDebounceSource (source_norm r) \<Longrightarrow>
     dp_trigger_ms (policyForRule r) = 3000 \<and> dp_clear_ms (policyForRule r) = (if isOfflineSignal r then 0 else 1000)"
  by (simp add: policyForRule_def)

section \<open>Properties\<close>

text \<open>C29: The debounce of the device rules is the condition engine, rule by rule. After any number of passes at
  non-decreasing times over rules with different codes, the code of a rule of the UPS, the air conditioner, the
  smoke or the gas detector is active in the fault centre exactly when one condition of the engine, with an
  assert delay of 3000 ms and a clear delay of 1000 ms (0 for an offline signal), fed with the raw values of
  this rule alone, is confirmed.\<close>

theorem device_rules_debounced_like_conditions:
  assumes "distinct (map ru_code rules)" and "r \<in> set rules" and "isRuntimeDebounceSource (source_norm r)"
    and "sorted (map fst steps)" and "steps \<noteq> []"
  shows "isActive (snd (rule_passes rules clk steps (Map.empty, fc))) (ru_code r) \<longleftrightarrow>
     confirmed_on (fc_run (map (\<lambda>(now, c). (raw_signal c r, \<not> raw_signal c r, now)) steps)
       (fc_configure 3000 (if isOfflineSignal r then 0 else 1000) fc_init))"
proof -
  define samples where "samples = map (\<lambda>(now, c). (raw_signal c r, now)) steps"
  have fsts: "map snd samples = map fst steps" by (simp add: samples_def case_prod_unfold o_def)
  have "same_condition (debounce_run (policyForRule r) samples debounce_init)
      (fc_run (map (\<lambda>(raw, now). (raw, \<not> raw, now)) samples)
        (fc_configure (dp_trigger_ms (policyForRule r)) (dp_clear_ms (policyForRule r)) fc_init)) (snd (last samples))"
    by (rule same_condition_run) (use assms(4,5) in \<open>simp_all only: fsts\<close>, simp add: samples_def)
  moreover have "map (\<lambda>(raw, now). (raw, \<not> raw, now)) samples = map (\<lambda>(now, c). (raw_signal c r, \<not> raw_signal c r, now)) steps"
    by (auto simp: samples_def)
  ultimately show ?thesis
    using rule_passes_state [OF assms(1-3), of clk steps fc, folded samples_def] assms(5) direct_policy [OF assms(3)]
    by (simp add: same_condition_def)
qed

definition example_ups_rule :: rt_rule where
  "example_ups_rule = \<lparr>ru_code = 0x105A, ru_code_hex = ''0x105A'', ru_name = ''Battery low'', ru_source = ''UPS'',
     ru_signal = ''battery_low'', ru_instance = 0, ru_show_current = True, ru_show_history = True,
     source_norm = ''ups'', signal_norm = ''battery_low''\<rparr>"

definition example_ups_ctx :: "bool \<Rightarrow> ext_ctx" where
  "example_ups_ctx low = ext_init\<lparr>e_logic := ctx_init\<lparr>c_ups := dev_flags_init\<lparr>d_online := True\<rparr>\<rparr>,
     e_ups := (e_ups ext_init)\<lparr>battery_low_state := low\<rparr>\<rparr>"

lemmas normalize_simps = normalizeToken_def token_step_def is_alnum_def to_lower_def

lemma example_ups_raw: "raw_signal (example_ups_ctx low) example_ups_rule = low"
  by (simp add: raw_signal_def example_ups_rule_def example_ups_ctx_def evalUpsSignal_def normalize_simps ext_init_def
      dev_flags_init_def Let_def)

theorem device_rules_debounced_like_conditions_witness:
  "\<not> isActive (snd (rule_passes [example_ups_rule] (\<lambda>_ _. 0) [(100, example_ups_ctx True), (3099, example_ups_ctx True)]
       (Map.empty, center_init))) 0x105A \<and>
   isActive (snd (rule_passes [example_ups_rule] (\<lambda>_ _. 0) [(100, example_ups_ctx True), (3100, example_ups_ctx True)]
       (Map.empty, center_init))) 0x105A"
proof -
  have direct: "isRuntimeDebounceSource (source_norm example_ups_rule)" "ru_code example_ups_rule = 0x105A"
    by (simp_all add: example_ups_rule_def isRuntimeDebounceSource_def)
  have "\<not> isOfflineSignal example_ups_rule" by (simp add: example_ups_rule_def isOfflineSignal_def normalize_simps)
  then show ?thesis
    using device_rules_debounced_like_conditions [of "[example_ups_rule]" example_ups_rule
        "[(100, example_ups_ctx True), (3099, example_ups_ctx True)]" "\<lambda>_ _. 0" center_init]
      device_rules_debounced_like_conditions [of "[example_ups_rule]" example_ups_rule
        "[(100, example_ups_ctx True), (3100, example_ups_ctx True)]" "\<lambda>_ _. 0" center_init] direct
    by (simp add: example_ups_raw fc_configure_def fc_init_def updateWithClear_def held_ms_def)
qed

section \<open>Normal forms are fixed\<close>

definition token_ok :: "string \<Rightarrow> bool" where
  "token_ok t \<longleftrightarrow> (\<forall>c \<in> set t. c = CHR ''_'' \<or> is_alnum c \<and> to_lower c = c) \<and> (t \<noteq> [] \<longrightarrow> hd t \<noteq> CHR ''_'') \<and>
     successively (\<lambda>a b. \<not> (a = CHR ''_'' \<and> b = CHR ''_'')) t"

lemma lower_alnum: "is_alnum c \<Longrightarrow> is_alnum (to_lower c) \<and> to_lower (to_lower c) = to_lower c \<and> to_lower c \<noteq> CHR ''_''"
  by (auto simp: is_alnum_def to_lower_def Let_def of_char_of take_bit_eq_mod dest!: arg_cong [where f = "of_char :: char \<Rightarrow> nat"])

lemma underscore_not_alnum: "\<not> is_alnum (CHR ''_'')" by (simp add: is_alnum_def)

lemma token_step_ok: "token_ok t \<Longrightarrow> token_ok (token_step t c)"
  using lower_alnum [of c]
  by (auto simp: token_step_def token_ok_def successively_append_iff hd_append split: if_splits)

lemma tokens_ok: "token_ok (foldl token_step [] s)"
proof -
  have "token_ok t \<Longrightarrow> token_ok (foldl token_step t s)" for t
    by (induction s arbitrary: t) (auto intro: token_step_ok)
  from this [of "[]"] show ?thesis by (simp add: token_ok_def)
qed

lemma token_ok_butlast: "token_ok (t @ [c]) \<Longrightarrow> token_ok t"
  by (auto simp: token_ok_def successively_append_iff hd_append split: if_splits)

lemma foldl_token_ok: "token_ok t \<Longrightarrow> foldl token_step [] t = t"
proof (induction t rule: rev_induct)
  case (snoc c t)
  from snoc.prems have "token_ok t" by (rule token_ok_butlast)
  with snoc.IH have "foldl token_step [] t = t" by simp
  moreover have "c \<noteq> CHR ''_'' \<Longrightarrow> is_alnum c \<and> to_lower c = c" using snoc.prems by (simp add: token_ok_def)
  moreover have "c = CHR ''_'' \<Longrightarrow> t \<noteq> [] \<and> last t \<noteq> CHR ''_''"
    using snoc.prems by (cases "t = []") (simp_all add: token_ok_def successively_append_iff)
  ultimately show ?case by (cases "c = CHR ''_''") (simp_all add: token_step_def [of t] underscore_not_alnum)
qed simp

lemma normalizeToken_shape: "\<exists>t. normalizeToken s = t \<and> token_ok t \<and> (t \<noteq> [] \<longrightarrow> last t \<noteq> CHR ''_'')"
proof -
  define out where "out = foldl token_step [] s"
  have ok: "token_ok out" by (simp add: out_def tokens_ok)
  then have d: "dropWhile (\<lambda>c. c = CHR ''_'') out = out" by (cases out) (simp_all add: token_ok_def)
  show ?thesis
  proof (cases out rule: rev_cases)
    case (snoc t c)
    show ?thesis
    proof (cases "c = CHR ''_''")
      case True
      have t: "token_ok t" using ok token_ok_butlast snoc by simp
      have l: "t \<noteq> [] \<longrightarrow> last t \<noteq> CHR ''_''"
        using ok snoc True by (auto simp: token_ok_def successively_append_iff)
      then have "dropWhile (\<lambda>c. c = CHR ''_'') (rev t) = rev t" by (cases t rule: rev_cases) simp_all
      then have "normalizeToken s = t" using d snoc True by (simp add: normalizeToken_def out_def [symmetric])
      with t l show ?thesis by simp
    next
      case False
      then have "normalizeToken s = out" using d snoc by (simp add: normalizeToken_def out_def [symmetric])
      with ok snoc False show ?thesis by simp
    qed
  qed (use d ok in \<open>simp add: normalizeToken_def out_def [symmetric]\<close>)
qed

lemma normalizeToken_idem [simp]: "normalizeToken (normalizeToken s) = normalizeToken s"
proof -
  obtain t where t: "normalizeToken s = t" "token_ok t" "t \<noteq> [] \<longrightarrow> last t \<noteq> CHR ''_''" using normalizeToken_shape by blast
  then have "dropWhile (\<lambda>c. c = CHR ''_'') t = t" by (cases t) (simp_all add: token_ok_def)
  moreover have "dropWhile (\<lambda>c. c = CHR ''_'') (rev t) = rev t" using t(3) by (cases t rule: rev_cases) simp_all
  ultimately show ?thesis using t by (simp add: normalizeToken_def foldl_token_ok)
qed

definition aliases_fixed :: "aliases \<Rightarrow> bool" where
  "aliases_fixed t \<longleftrightarrow> list_all (\<lambda>(_, r). normalizeToken r = r \<and> alias_of t r = r) t"

lemma alias_normal:
  assumes "aliases_fixed t"
  shows "alias_of t (normalizeToken (alias_of t (normalizeToken s))) = alias_of t (normalizeToken s)"
proof (cases "find (\<lambda>(names, _). normalizeToken s \<in> set names) t")
  case (Some x)
  then have "x \<in> set t" by (metis find_Some_iff nth_mem)
  then have "normalizeToken (snd x) = snd x \<and> alias_of t (snd x) = snd x"
    using assms by (auto simp: aliases_fixed_def list_all_iff)
  moreover have "alias_of t (normalizeToken s) = snd x" using Some by (simp add: alias_of_def split: prod.splits)
  ultimately show ?thesis by simp
qed (simp add: alias_of_def)

lemma source_aliases_fixed: "aliases_fixed source_aliases"
  by code_simp

lemma signal_aliases_fixed: "aliases_fixed signal_aliases"
  by code_simp

lemma normalize_idem [simp]:
  "normalizeSource (normalizeSource s) = normalizeSource s" "normalizeSignal (normalizeSignal s) = normalizeSignal s"
  by (simp_all add: normalizeSource_def normalizeSignal_def alias_normal source_aliases_fixed signal_aliases_fixed)

definition store_ok :: "rule_store \<Rightarrow> bool" where
  "store_ok s \<longleftrightarrow> (case s of (st, rules) \<Rightarrow>
     total_items st = accepted_rules st + skipped_no_source_or_signal st + skipped_unsupported_source st \<and>
     accepted_rules st = length rules \<and>
     (\<forall>r \<in> set rules. source_norm r \<in> set supported_sources \<and> signal_norm r \<noteq> [] \<and>
        normalizeSource (source_norm r) = source_norm r \<and> normalizeSignal (signal_norm r) = signal_norm r))"

lemma item_rule_norms [simp]:
  "normalizeSource (source_norm (item_rule c s it)) = source_norm (item_rule c s it)"
  "normalizeSignal (signal_norm (item_rule c s it)) = signal_norm (item_rule c s it)"
  by (simp_all add: item_rule_def Let_def)

lemma store_ok_push:
  assumes "store_ok (st, rules)" and "source_norm r \<in> set supported_sources" "signal_norm r \<noteq> []"
    "normalizeSource (source_norm r) = source_norm r" "normalizeSignal (signal_norm r) = signal_norm r"
  shows "store_ok (st\<lparr>total_items := total_items st + 1, accepted_rules := accepted_rules st + 1\<rparr>, rules @ [r])"
  using assms by (auto simp: store_ok_def)

lemma add_rule_ok:
  assumes "store_ok s"
  shows "store_ok (add_rule s it)"
proof -
  obtain st rules where s: "s = (st, rules)" by (cases s)
  have skip: "store_ok (st\<lparr>total_items := total_items st + 1, skipped_no_source_or_signal := skipped_no_source_or_signal st + 1\<rparr>, rules)"
    "store_ok (st\<lparr>total_items := total_items st + 1, skipped_unsupported_source := skipped_unsupported_source st + 1\<rparr>, rules)"
    using assms by (auto simp: store_ok_def s)
  have push: "store_ok (st\<lparr>total_items := total_items st + 1, accepted_rules := accepted_rules st + 1\<rparr>,
      rules @ [if b then (case i of Some i \<Rightarrow> r\<lparr>ru_instance := i\<rparr> | None \<Rightarrow> r) else r])"
    if "r = item_rule c cs it" "source_norm r \<in> set supported_sources" "signal_norm r \<noteq> []" for b i r c cs
    using store_ok_push [OF assms [unfolded s]] that by (auto split: option.split)
  show ?thesis
  proof (cases "let code_s = text_or '''' (ri_code_hex it) in
      parseCode (if code_s = [] then text_or '''' (ri_path it) else code_s)")
    case None
    then show ?thesis using assms by (simp add: add_rule_def Let_def)
  next
    case (Some code)
    then show ?thesis using assms skip push by (simp add: add_rule_def s Let_def)
  qed
qed

lemma add_rules_ok: "store_ok s \<Longrightarrow> store_ok (foldl add_rule s its)"
  by (induction its arbitrary: s) (simp_all add: add_rule_ok)

lemma add_rule_lines_ok: "store_ok s \<Longrightarrow> store_ok (snd (add_rule_lines ls s))"
  by (induction ls s rule: add_rule_lines.induct) (simp_all add: add_rules_ok)

text \<open>Every loaded rule is in normal form. However the file looks, each rule that the load keeps has one of the six
  supported sources and a signal, both in a normal form that a second normalisation leaves as it is, and the counters
  add up: every item with a code is kept, skipped for a missing source or signal, or skipped for its source.\<close>

theorem loaded_rules_normal:
  "case rules_loadJsonl file of (ok, st, rules) \<Rightarrow>
     total_items st = accepted_rules st + skipped_no_source_or_signal st + skipped_unsupported_source st \<and>
     accepted_rules st = length rules \<and>
     (\<forall>r \<in> set rules. source_norm r \<in> set supported_sources \<and> signal_norm r \<noteq> [] \<and>
        normalizeSource (source_norm r) = source_norm r \<and> normalizeSignal (signal_norm r) = signal_norm r)"
proof -
  have "store_ok (load_stats_init, [])" by (simp add: store_ok_def load_stats_init_def)
  then have "store_ok (snd (rules_loadJsonl file))"
    by (simp add: rules_loadJsonl_def add_rule_lines_ok split: option.split)
  then show ?thesis by (auto simp: store_ok_def split: prod.splits)
qed

section \<open>Communication faults\<close>

lemma fl_run_other_signal:
  assumes "\<And>now c. filter (\<lambda>s. sg_name s = n) (all_signals now c) = []"
  shows "e_confirmed (fl_run steps c) (fl_makeSignalKey n) = e_confirmed c (fl_makeSignalKey n)"
proof -
  have "e_confirmed (fl_evaluateAll now c) (fl_makeSignalKey n) = e_confirmed c (fl_makeSignalKey n)" for now c
    using assms [of now c]
    by (simp add: fl_evaluateAll_def evaluateLogic_def evaluatePcu_def foldl_eval_signal all_signals_def Let_def)
  then show ?thesis by (induction steps rule: rev_induct) auto
qed

text \<open>The communication rules of the shipped rule file: the signal in the file and the confirmed signal behind it.\<close>

definition vcu_comm_rules :: "(string \<times> string) list" where
  "vcu_comm_rules =
     [(''pcu1_comm_fault'', ''pcu0_offline''), (''pcu2_comm_fault'', ''pcu1_offline''),
      (''bms1_comm_fault'', ''bms1_comm_fault''), (''bms2_comm_fault'', ''bms2_comm_fault''),
      (''bms3_comm_fault'', ''bms3_comm_fault''), (''bms4_comm_fault'', ''bms4_comm_fault'')]"

lemma vcu_norm: "normalizeSource ''VCU'' = ''logic''" "normalizeSource ''PCU'' = ''pcu''"
  by code_simp+

lemma vcu_signals: "list_all (\<lambda>(s, n). normalizeSignal s = n) vcu_comm_rules"
  by code_simp

lemma first_confirmed_key:
  assumes "source_norm r = ''logic''" "signal_norm r = n" "e_confirmed c (fl_makeSignalKey n) = Some on"
  shows "rule_state now c r dm = (on, dm)"
  using assms by (simp add: rule_state_other isRuntimeDebounceSource_def tryConfirmedSignal_def confirmed_keys_def
      fl_makeSignalKey_def Let_def)

text \<open>The communication faults of the conversion units and of the batteries that the rule file declares for the
  controller reach the fault centre on time: after any history of evaluations and a pass over rules with different codes,
  the code of such a rule is active exactly when a single condition with the delays of that signal, fed with the
  offline state of that unit alone, is confirmed. The file names the units 1 and 2, the code 0 and 1; the rules
  match them in this order.\<close>

theorem comm_faults_reach_center:
  assumes "(s, n) \<in> set vcu_comm_rules" and "(n, raw, t, cl) \<in> set own_signals"
    and "source_norm r = normalizeSource ''VCU''" and "signal_norm r = normalizeSignal s"
    and "distinct (map ru_code rules)" and "r \<in> set rules" and "steps \<noteq> []"
  shows "isActive (snd (applyAll rules clk now (fl_run steps c) (dm, fc))) (ru_code r) \<longleftrightarrow>
     confirmed_on (fc_run (map (\<lambda>(now, l). (raw l, \<not> raw l, now)) steps)
       (fc_configure t cl (ensureState (fl_makeSignalKey n) (e_engine c))))"
proof -
  have "signal_norm r = n" using vcu_signals assms(1,4) by (auto simp: list_all_iff)
  then show ?thesis
    using first_confirmed_key [OF _ _ own_signal_confirmed [OF assms(2,7)], of r] assms(3)
    by (simp add: applyAll_own(1) [OF assms(5,6)] vcu_norm)
qed

definition example_item :: rule_item where
  "example_item = \<lparr>ri_code_hex = Some ''0x1006'', ri_path = None, ri_name = None,
     ri_source = Some ''VCU'', ri_signal = Some ''pcu2_comm_fault'', ri_instance = Some (JNum 2), ri_show_current = None,
     ri_show_history = None\<rparr>"

definition example_comm_rule :: rt_rule where
  "example_comm_rule = item_rule 0x1006 ''0x1006'' example_item"

lemma example_comm_rule: "source_norm example_comm_rule = normalizeSource ''VCU''"
  "signal_norm example_comm_rule = normalizeSignal ''pcu2_comm_fault''" "ru_code example_comm_rule = 0x1006"
  by code_simp+

theorem loaded_rules_normal_witness:
  "source_norm example_comm_rule = ''logic'' \<and> example_comm_rule \<in> set (snd (snd (rules_loadJsonl (Some [RuleItems [example_item]])))) \<and>
   normalizeSignal (signal_norm example_comm_rule) = signal_norm example_comm_rule"
proof -
  have "parseCode ''0x1006'' = Some 0x1006"
    by (simp add: parseCode_def parseHexU16_def stoul_def sto_parts_def strip_0x_def is_space_def digit_val_def)
  moreover have "signal_norm example_comm_rule = ''pcu1_offline''"
    unfolding example_comm_rule by code_simp
  moreover have n: "source_norm example_comm_rule = ''logic''" using example_comm_rule(1) vcu_norm by simp
  ultimately have "snd (snd (rules_loadJsonl (Some [RuleItems [example_item]]))) = [example_comm_rule]"
    using example_comm_rule_def
    by (simp add: rules_loadJsonl_def add_rule_def example_item_def text_or_def supported_sources_def Let_def load_stats_init_def)
  with loaded_rules_normal [of "Some [RuleItems [example_item]]"] n
  show ?thesis by (auto split: prod.splits)
qed

theorem comm_faults_reach_center_witness:
  "isActive (snd (applyAll [example_comm_rule] (\<lambda>_. 0) 4000 (fl_run [(1000, ctx_init), (4000, ctx_init)] ext_init)
     (Map.empty, center_init))) 0x1006"
proof -
  have m: "(''pcu2_comm_fault'', ''pcu1_offline'') \<in> set vcu_comm_rules"
    "(''pcu1_offline'', \<lambda>l. rawPcuOffline (c_pcu1 l), 3000, 0) \<in> set own_signals"
    by (simp_all add: vcu_comm_rules_def own_signals_def)
  have "\<not> pcu_online (c_pcu1 ctx_init)" by (simp add: ctx_init_def pcu_init_def)
  then show ?thesis
    using comm_faults_reach_center [OF m example_comm_rule(1,2), of "[example_comm_rule]"
        "[(1000, ctx_init), (4000, ctx_init)]" "\<lambda>_. 0" 4000 ext_init Map.empty center_init]
    by (simp add: example_comm_rule(3) rawPcuOffline_def ensureState_def ext_init_def fc_configure_def fc_init_def
        updateWithClear_def held_ms_def)
qed

lemma unit_signals: "normalizeToken ''pcu0_offline'' = ''pcu0_offline''" "normalizeToken ''pcu1_offline'' = ''pcu1_offline''"
  by code_simp+

lemma unit_signals_dead: "evalPcuSignal x ''pcu0_offline'' = False" "evalPcuSignal x ''pcu1_offline'' = False"
  by (simp_all add: evalPcuSignal_def unit_signals)

lemma unit_signals_alias:
  assumes "normalizeToken s \<in> {''pcu1_comm_fault'', ''pcu_1_comm_fault'', ''pcu2_comm_fault'', ''pcu_2_comm_fault''}"
  shows "normalizeSignal s = ''pcu0_offline'' \<or> normalizeSignal s = ''pcu1_offline''"
proof -
  have "alias_of signal_aliases ''pcu1_comm_fault'' = ''pcu0_offline''" "alias_of signal_aliases ''pcu_1_comm_fault'' = ''pcu0_offline''"
    "alias_of signal_aliases ''pcu2_comm_fault'' = ''pcu1_offline''" "alias_of signal_aliases ''pcu_2_comm_fault'' = ''pcu1_offline''"
    by code_simp+
  with assms show ?thesis unfolding normalizeSignal_def by (elim insertE emptyE) simp_all
qed

text \<open>C31: Two kinds of rules can never report anything. A rule of source PCU whose signal is pcu1_comm_fault,
  pcu2_comm_fault, pcu_1_comm_fault or pcu_2_comm_fault is renamed by the load to a signal that the rest of the mapper does not know
  for this source, so its code is inactive after every pass, in every state (rules of this source with another communication-fault signal,
  such as comm_fault, do work). The SD-card rule of the shipped file asks for the signal sd_card_not_inserted, while the evaluator
  confirms sdcard_fault: after any history of evaluations that starts without confirmed signals its code is inactive, whatever the
  state of the card. Both hold for a rule list in which no code occurs twice.\<close>

theorem dead_rules:
  assumes "distinct (map ru_code rules)" and "r \<in> set rules"
    and "source_norm r = normalizeSource ''PCU'' \<and> signal_norm r = normalizeSignal s \<and>
           normalizeToken s \<in> {''pcu1_comm_fault'', ''pcu_1_comm_fault'', ''pcu2_comm_fault'', ''pcu_2_comm_fault''} \<or>
         source_norm r = normalizeSource ''VCU'' \<and> signal_norm r = normalizeSignal ''sd_card_not_inserted'' \<and>
           c = fl_run steps c0 \<and> e_confirmed c0 = Map.empty"
  shows "\<not> isActive (snd (applyAll rules clk now c (dm, fc))) (ru_code r)"
  using assms(3)
proof (elim disjE conjE)
  assume r: "source_norm r = normalizeSource ''PCU''" "signal_norm r = normalizeSignal s"
    and s: "normalizeToken s \<in> {''pcu1_comm_fault'', ''pcu_1_comm_fault'', ''pcu2_comm_fault'', ''pcu_2_comm_fault''}"
  have "signal_norm r = ''pcu0_offline'' \<or> signal_norm r = ''pcu1_offline''"
    unfolding r(2) by (rule unit_signals_alias [OF s])
  moreover have "\<not> evalPcuSignal x (signal_norm r)" for x
    using calculation by (elim disjE) (simp_all only: unit_signals_dead not_False_eq_True)
  moreover have "confirmed_keys r = []"
    using calculation(1) by (elim disjE) (simp_all add: confirmed_keys_def r(1) vcu_norm Let_def)
  ultimately show ?thesis using r(1)
    by (simp add: applyAll_own(1) [OF assms(1,2)] rule_state_other isRuntimeDebounceSource_def vcu_norm tryConfirmedSignal_def
        fallback_active_def Let_def)
next
  assume r: "source_norm r = normalizeSource ''VCU''" "signal_norm r = normalizeSignal ''sd_card_not_inserted''"
    and c: "c = fl_run steps c0" "e_confirmed c0 = Map.empty"
  have n: "normalizeSignal ''sd_card_not_inserted'' = ''sd_card_not_inserted''" by code_simp
  have "e_confirmed c (fl_makeSignalKey ''sd_card_not_inserted'') = None"
    unfolding c(1) by (subst fl_run_other_signal)
      (simp_all add: c(2) all_signals_def pcu_signals_def comm_signals_def upt_1_5 to_string_digits del: upt_Suc One_nat_def)
  then show ?thesis using r
    by (simp add: applyAll_own(1) [OF assms(1,2)] rule_state_other isRuntimeDebounceSource_def vcu_norm n tryConfirmedSignal_def
        confirmed_keys_def fallback_active_def evalLogicSignal_def fl_makeSignalKey_def Let_def)
qed

definition example_dead_rule :: rt_rule where
  "example_dead_rule = item_rule 0x1005 ''0x1005'' \<lparr>ri_code_hex = Some ''0x1005'', ri_path = None, ri_name = None,
     ri_source = Some ''PCU'', ri_signal = Some ''pcu1_comm_fault'', ri_instance = Some (JNum 1), ri_show_current = None,
     ri_show_history = None\<rparr>"

definition example_card_rule :: rt_rule where
  "example_card_rule = item_rule 0x10B9 ''0x10B9'' \<lparr>ri_code_hex = Some ''0x10B9'', ri_path = None, ri_name = None,
     ri_source = Some ''VCU'', ri_signal = Some ''sd_card_not_inserted'', ri_instance = Some (JNum 1), ri_show_current = None,
     ri_show_history = None\<rparr>"

lemma example_dead_rules: "source_norm example_dead_rule = normalizeSource ''PCU''"
  "signal_norm example_dead_rule = normalizeSignal ''pcu1_comm_fault''" "ru_code example_dead_rule = 0x1005"
  "normalizeToken ''pcu1_comm_fault'' = ''pcu1_comm_fault''"
  "source_norm example_card_rule = normalizeSource ''VCU''"
  "signal_norm example_card_rule = normalizeSignal ''sd_card_not_inserted''" "ru_code example_card_rule = 0x10B9"
  by code_simp+

theorem dead_rules_witness:
  "\<not> isActive (snd (applyAll [example_dead_rule] (\<lambda>_. 0) 4000 (fl_run [(1000, ctx_init), (4000, ctx_init)] ext_init)
     (Map.empty, center_init))) 0x1005 \<and>
   \<not> isActive (snd (applyAll [example_card_rule] (\<lambda>_. 0) 4000 (fl_run [(1000, ctx_init), (4000, ctx_init)] ext_init)
     (Map.empty, center_init))) 0x10B9"
  using dead_rules [of "[example_dead_rule]" example_dead_rule "''pcu1_comm_fault''"
      "fl_run [(1000, ctx_init), (4000, ctx_init)] ext_init" "[]" ext_init "\<lambda>_. 0" 4000 Map.empty center_init]
    dead_rules [of "[example_card_rule]" example_card_rule "''''"
      "fl_run [(1000, ctx_init), (4000, ctx_init)] ext_init" "[(1000, ctx_init), (4000, ctx_init)]" ext_init
      "\<lambda>_. 0" 4000 Map.empty center_init]
  by (simp add: example_dead_rules ext_init_def)

end
