(* ===== verification/Fault_History.thy ===== *)
theory Fault_History
  imports Fault_Center
begin

text \<open>
  The fault history on disk and the cache the panel pages are read from
  (\<open>services/snapshot/sqlite/sqlite_fault_sink/sqlite_fault_sink.cpp\<close>,
  \<open>services/control/fault/fault_history_cache.cpp\<close>). The table is the list of its rows by ascending identifier;
  the statements of the sink are written out as what they say on it. The database engine may refuse any
  statement: \<open>hd_ok n\<close> tells whether it executes the \<open>n\<close>-th one. Log lines are left out.
\<close>

section \<open>The table\<close>

record hist_db =
  hd_opened :: bool
  hd_rows :: "db_record list"
  hd_last_id :: int
  hd_load_limit :: u32
  hd_ok :: "nat \<Rightarrow> bool"
  hd_calls :: nat

definition run_stmt :: "hist_db \<Rightarrow> bool \<times> hist_db" where
  "run_stmt db = (if \<not> hd_opened db then (False, db) else (hd_ok db (hd_calls db), db\<lparr>hd_calls := hd_calls db + 1\<rparr>))"

definition insertHistoryBegin :: "db_record \<Rightarrow> hist_db \<Rightarrow> (bool \<times> int) \<times> hist_db" where
  "insertHistoryBegin rec db =
     (let (ok, db) = run_stmt db in
      if \<not> ok then ((False, 0), db)
      else let row = hd_last_id db + 1
           in ((True, row), db\<lparr>hd_rows := hd_rows db @ [rec\<lparr>db_id := row\<rparr>], hd_last_id := row\<rparr>))"

definition clear_row :: "u64 \<Rightarrow> db_record \<Rightarrow> db_record" where
  "clear_row ts r = r\<lparr>db_hist := (db_hist r)\<lparr>clear_ms := ts, h_state := 0\<rparr>\<rparr>"

definition open_row :: "u16 \<Rightarrow> db_record \<Rightarrow> bool" where
  "open_row code r \<longleftrightarrow> h_code (db_hist r) = code \<and> clear_ms (db_hist r) = 0"

definition markHistoryCleared :: "u16 \<Rightarrow> u64 \<Rightarrow> hist_db \<Rightarrow> bool \<times> hist_db" where
  "markHistoryCleared code ts db =
     (let (ok, db) = run_stmt db in
      if \<not> ok then (False, db)
      else case find (open_row code) (rev (hd_rows db)) of None \<Rightarrow> (True, db)
        | Some r \<Rightarrow> (True, db\<lparr>hd_rows := map (\<lambda>x. if db_id x = db_id r then clear_row ts x else x) (hd_rows db)\<rparr>))"

definition markHistoryClearedById :: "int \<Rightarrow> u64 \<Rightarrow> hist_db \<Rightarrow> bool \<times> hist_db" where
  "markHistoryClearedById row ts db =
     (if row \<le> 0 then (False, db)
      else let (ok, db) = run_stmt db in
        if \<not> ok then (False, db)
        else (True, db\<lparr>hd_rows := map (\<lambda>x. if db_id x = row then clear_row ts x else x) (hd_rows db)\<rparr>))"

text \<open>The rows of a query, newest first. A negative limit is no limit, a negative offset is 0.\<close>

definition newest_first :: "bool \<Rightarrow> hist_db \<Rightarrow> db_record list" where
  "newest_first only_cleared db = rev (filter (\<lambda>r. only_cleared \<longrightarrow> clear_ms (db_hist r) \<noteq> 0) (hd_rows db))"

definition sql_limit :: "u32 \<Rightarrow> 'a list \<Rightarrow> 'a list" where
  "sql_limit n rows = (if sint n < 0 then rows else take (nat (sint n)) rows)"

definition sql_offset :: "u32 \<Rightarrow> 'a list \<Rightarrow> 'a list" where
  "sql_offset n rows = (if sint n < 0 then rows else drop (nat (sint n)) rows)"

definition loadRecentHistory :: "hist_db \<Rightarrow> db_record list option \<times> hist_db" where
  "loadRecentHistory db =
     (let (ok, db) = run_stmt db in
      (if ok then Some (rev (sql_limit (hd_load_limit db) (newest_first False db))) else None, db))"

definition countHistoryRows :: "bool \<Rightarrow> hist_db \<Rightarrow> u32 option \<times> hist_db" where
  "countHistoryRows only_cleared db =
     (let (ok, db) = run_stmt db in
      (if ok then Some (of_nat (length (newest_first only_cleared db))) else None, db))"

definition loadLatestHistory :: "u32 \<Rightarrow> bool \<Rightarrow> hist_db \<Rightarrow> db_record list option \<times> hist_db" where
  "loadLatestHistory limit only_cleared db =
     (let (ok, db) = run_stmt db in (if ok then Some (sql_limit limit (newest_first only_cleared db)) else None, db))"

definition loadHistoryRange :: "u32 \<Rightarrow> u32 \<Rightarrow> bool \<Rightarrow> hist_db \<Rightarrow> db_record list option \<times> hist_db" where
  "loadHistoryRange offset limit only_cleared db =
     (if \<not> hd_opened db then (None, db)
      else if limit = 0 then (Some [], db)
      else let (ok, db) = run_stmt db in
        (if ok then Some (sql_limit limit (sql_offset offset (newest_first only_cleared db))) else None, db))"

definition loadHistoryPage :: "u32 \<Rightarrow> u32 \<Rightarrow> bool \<Rightarrow> hist_db \<Rightarrow> db_record list option \<times> hist_db" where
  "loadHistoryPage page_no page_size only_cleared db =
     (if page_no = 0 \<or> page_size = 0 then (None, db)
      else loadHistoryRange ((page_no - 1) * page_size) page_size only_cleared db)"

section \<open>The cache\<close>

record view_row =
  vr_db_id :: int
  vr_code :: u16
  vr_first_on_ms :: u64
  vr_clear_ms :: u64
  vr_seq_no :: u16
  vr_state :: u16
  vr_name :: string
  vr_classification :: string
  vr_priority_rank :: int

definition fromDb :: "db_record \<Rightarrow> view_row" where
  "fromDb r = (let h = db_hist r in
     \<lparr>vr_db_id = db_id r, vr_code = h_code h, vr_first_on_ms = first_on_ms h, vr_clear_ms = clear_ms h,
      vr_seq_no = seq_no h, vr_state = h_state h, vr_name = db_name r, vr_classification = db_classification r,
      vr_priority_rank = db_priority r\<rparr>)"

record hist_cache =
  hc_db :: "hist_db option"
  page_size :: u16
  hot_rows_limit :: u16
  window_pages :: u16
  hc_valid :: bool
  total_rows :: u32
  total_pages :: u16
  hot_rows :: "view_row list"
  window_rows :: "view_row list"
  window_start_page :: u16
  window_end_page :: u16

definition hist_cache_init :: hist_cache where
  "hist_cache_init = \<lparr>hc_db = None, page_size = 5, hot_rows_limit = 10, window_pages = 3, hc_valid = False,
     total_rows = 0, total_pages = 0, hot_rows = [], window_rows = [], window_start_page = 0, window_end_page = 0\<rparr>"

definition setPageSize :: "u16 \<Rightarrow> hist_cache \<Rightarrow> hist_cache" where
  "setPageSize n c = (if 0 < n then c\<lparr>page_size := n\<rparr> else c)"

definition setHotCacheRows :: "u16 \<Rightarrow> hist_cache \<Rightarrow> hist_cache" where
  "setHotCacheRows n c = (if 0 < n then c\<lparr>hot_rows_limit := n\<rparr> else c)"

definition setWindowPages :: "u16 \<Rightarrow> hist_cache \<Rightarrow> hist_cache" where
  "setWindowPages n c = (if 0 < n then c\<lparr>window_pages := n\<rparr> else c)"

definition cache_invalidate :: "hist_cache \<Rightarrow> hist_cache" where
  "cache_invalidate c = c\<lparr>total_rows := 0, total_pages := 0, hot_rows := [], window_rows := [],
     window_start_page := 0, window_end_page := 0, hc_valid := (hc_db c \<noteq> None)\<rparr>"

definition cache_bindDb :: "hist_db option \<Rightarrow> hist_cache \<Rightarrow> bool \<times> hist_cache" where
  "cache_bindDb db c =
     (let c = cache_invalidate (c\<lparr>hc_db := db\<rparr>); c = c\<lparr>hc_valid := (db \<noteq> None)\<rparr> in (hc_valid c, c))"

definition calcTotalPages :: "u32 \<Rightarrow> u16 \<Rightarrow> u16" where
  "calcTotalPages rows psize =
     (if psize = 0 \<or> rows = 0 then 0 else ucast ((rows + ucast psize - 1) div ucast psize))"

definition clampPage :: "hist_cache \<Rightarrow> u16 \<Rightarrow> u16" where
  "clampPage c page =
     (if total_pages c = 0 then 1 else if page < 1 then 1 else if total_pages c < page then total_pages c else page)"

definition refreshMeta :: "hist_cache \<Rightarrow> bool \<times> hist_cache" where
  "refreshMeta c =
     (case hc_db c of None \<Rightarrow> (False, c)
      | Some db \<Rightarrow>
          (case countHistoryRows True db of (None, db) \<Rightarrow> (False, c\<lparr>hc_db := Some db\<rparr>)
           | (Some n, db) \<Rightarrow>
               (True, c\<lparr>hc_db := Some db, total_rows := n, total_pages := calcTotalPages n (page_size c),
                        hc_valid := True\<rparr>)))"

definition refreshHotCache :: "hist_cache \<Rightarrow> bool \<times> hist_cache" where
  "refreshHotCache c =
     (case hc_db c of None \<Rightarrow> (False, c)
      | Some db \<Rightarrow>
          (case loadLatestHistory (ucast (hot_rows_limit c)) True db of (None, db) \<Rightarrow> (False, c\<lparr>hc_db := Some db\<rparr>)
           | (Some rows, db) \<Rightarrow> (True, c\<lparr>hc_db := Some db, hot_rows := map fromDb rows, hc_valid := True\<rparr>)))"

text \<open>The first and the last page of the window around a page. The sums are computed in 32 bits.\<close>

definition window_range :: "u16 \<Rightarrow> u16 \<Rightarrow> u16 \<Rightarrow> u16 \<times> u16" where
  "window_range pages wp page =
     (if wp \<le> 1 then (page, page)
      else let half = wp div 2 in
        if uint page \<le> 1 + uint half then (1, min pages wp)
        else if uint pages \<le> uint page + uint half
        then (if uint wp - 1 < uint pages then pages - wp + 1 else 1, pages)
        else (page - half, page - half + wp - 1))"

definition refreshWindow :: "u16 \<Rightarrow> hist_cache \<Rightarrow> bool \<times> hist_cache" where
  "refreshWindow center c =
     (if hc_db c = None then (False, c)
      else case refreshMeta c of (False, c) \<Rightarrow> (False, c)
      | (True, c) \<Rightarrow>
          if total_pages c = 0
          then (True, c\<lparr>window_rows := [], window_start_page := 0, window_end_page := 0, hc_valid := True\<rparr>)
          else let (s, e) = window_range (total_pages c) (window_pages c) (clampPage c center);
                   offset = (ucast s - 1) * ucast (page_size c);
                   limit = (ucast e - ucast s + 1) * ucast (page_size c)
               in case loadHistoryRange offset limit True (the (hc_db c)) of
                    (None, db) \<Rightarrow> (False, c\<lparr>hc_db := Some db\<rparr>)
                  | (Some rows, db) \<Rightarrow>
                      (True, c\<lparr>hc_db := Some db, window_rows := map fromDb rows, window_start_page := s,
                               window_end_page := e, hc_valid := True\<rparr>))"

definition hasPageInWindow :: "hist_cache \<Rightarrow> u16 \<Rightarrow> bool" where
  "hasPageInWindow c page \<longleftrightarrow>
     window_start_page c \<noteq> 0 \<and> window_end_page c \<noteq> 0 \<and> window_start_page c \<le> page \<and> page \<le> window_end_page c"

definition ensurePageLoaded :: "u16 \<Rightarrow> hist_cache \<Rightarrow> bool \<times> hist_cache" where
  "ensurePageLoaded page c =
     (if hc_db c = None then (False, c)
      else case (if \<not> hc_valid c then refreshMeta c else (True, c)) of (False, c) \<Rightarrow> (False, c)
      | (True, c) \<Rightarrow>
          if total_pages c = 0 then (True, c\<lparr>window_rows := [], window_start_page := 0, window_end_page := 0\<rparr>)
          else let p = clampPage c page in if hasPageInWindow c p then (True, c) else refreshWindow p c)"

definition sliceFromWindow :: "hist_cache \<Rightarrow> u16 \<Rightarrow> view_row list option" where
  "sliceFromWindow c page =
     (if \<not> hasPageInWindow c page then None
      else let begin = unat (page - window_start_page c) * unat (page_size c)
           in Some (take (unat (page_size c)) (drop begin (window_rows c))))"

definition sliceFromHot :: "hist_cache \<Rightarrow> u16 \<Rightarrow> view_row list option" where
  "sliceFromHot c page =
     (if page = 0 \<or> page_size c = 0 then None
      else let offset = (ucast page - 1 :: u32) * ucast (page_size c)
           in if length (hot_rows c) \<le> unat offset then None
              else Some (take (unat (page_size c)) (drop (unat offset) (hot_rows c))))"

definition pageRows :: "hist_cache \<Rightarrow> u16 \<Rightarrow> view_row list" where
  "pageRows c page =
     (if \<not> hc_valid c \<or> total_pages c = 0 then []
      else let p = clampPage c page in
        case sliceFromWindow c p of Some rows \<Rightarrow> rows
        | None \<Rightarrow> (case sliceFromHot c p of Some rows \<Rightarrow> rows | None \<Rightarrow> []))"

section \<open>Facts\<close>

definition db_page :: "hist_db \<Rightarrow> nat \<Rightarrow> nat \<Rightarrow> view_row list" where
  "db_page db ps p = take ps (drop ((p - 1) * ps) (map fromDb (newest_first True db)))"

lemma newest_first_calls [simp]: "newest_first b (db\<lparr>hd_calls := n\<rparr>) = newest_first b db"
  by (simp add: newest_first_def)

lemma run_stmt_rows: "run_stmt db = (ok, db') \<Longrightarrow> newest_first b db' = newest_first b db"
  by (auto simp: run_stmt_def split: if_splits)

lemma sql_small:
  assumes "unat (n :: u32) < 2 ^ 31"
  shows "sint n = int (unat n)"
proof -
  have u: "uint n = int (unat n)" by simp
  have "signed_take_bit 31 (uint n) = uint n"
  proof (rule signed_take_bit_int_eq_self)
    show "- (2 ^ 31) \<le> uint n" by (rule order_trans [OF _ uint_nonnegative]) simp
    have "int (unat n) < int (2 ^ 31)" using assms by (rule of_nat_less_iff [THEN iffD2])
    then show "uint n < 2 ^ 31" unfolding u by simp
  qed
  then show ?thesis unfolding u by (simp add: sint_uint)
qed

lemma window_range_ok:
  assumes "1 \<le> page" "page \<le> pages" "1 \<le> wp" "window_range pages wp page = (s, e)"
  shows "1 \<le> unat s \<and> unat s \<le> unat page \<and> unat page \<le> unat e \<and> unat e \<le> unat pages"
proof -
  have n: "1 \<le> unat page" "unat page \<le> unat pages" "1 \<le> unat wp" "unat pages < 65536"
    using assms(1-3) unsigned_less [of pages, where 'a = nat] by (simp_all add: word_le_nat_alt)
  define h where "h = wp div 2"
  have h: "unat h = unat wp div 2" by (simp add: h_def unat_div)
  have tests: "uint page \<le> 1 + uint h \<longleftrightarrow> unat page \<le> 1 + unat h"
    "uint pages \<le> uint page + uint h \<longleftrightarrow> unat pages \<le> unat page + unat h"
    "uint wp - 1 < uint pages \<longleftrightarrow> unat wp - 1 < unat pages"
    using n(3) unfolding uint_nat by linarith+
  have range: "(s, e) = (if wp \<le> 1 then (page, page)
      else if unat page \<le> 1 + unat h then (1, min pages wp)
      else if unat pages \<le> unat page + unat h then (if unat wp - 1 < unat pages then pages - wp + 1 else 1, pages)
      else (page - h, page - h + wp - 1))"
    using assms(4) unfolding window_range_def Let_def h_def [symmetric] tests by simp
  consider "wp \<le> 1" | "\<not> wp \<le> 1" "unat page \<le> 1 + unat h" | "\<not> wp \<le> 1" "\<not> unat page \<le> 1 + unat h" "unat pages \<le> unat page + unat h"
    | "\<not> wp \<le> 1" "\<not> unat page \<le> 1 + unat h" "\<not> unat pages \<le> unat page + unat h" by blast
  then show ?thesis
  proof cases
    case 1
    then show ?thesis using range n by simp
  next
    case 2
    then show ?thesis using range n h by (auto simp: min_def word_le_nat_alt)
  next
    case 3
    show ?thesis
    proof (cases "unat wp - 1 < unat pages")
      case True
      then have "unat (pages - wp) = unat pages - unat wp" by (simp add: unat_sub word_le_nat_alt)
      then have "unat (pages - wp + 1) = unat pages - unat wp + 1" using n by (simp add: unat_word_ariths)
      then show ?thesis using range 3 True n h by simp
    next
      case False
      then show ?thesis using range 3 n by simp
    qed
  next
    case 4
    then have "unat (page - h) = unat page - unat h" by (simp add: unat_sub word_le_nat_alt)
    moreover from this have "unat (page - h + wp) = unat page - unat h + unat wp" using 4 n h by (simp add: unat_word_ariths)
    moreover from this have "unat (page - h + wp - 1) = unat page - unat h + unat wp - 1"
      using n by (subst unat_sub) (simp_all add: word_le_nat_alt)
    moreover have "1 < unat wp" using 4(1) by (simp add: word_le_nat_alt)
    ultimately show ?thesis using range 4 n h by simp presburger
  qed
qed

lemma unat_u16_u32 [simp]: "unat (ucast (x :: u16) :: u32) = unat x"
  using unsigned_less [of x, where 'a = nat] by (simp add: unsigned_ucast_eq take_bit_nat_eq_self)

lemma pages_needed:
  assumes "1 \<le> ps" "0 < n" "1 \<le> p"
  shows "p \<le> (n + ps - 1) div ps \<longleftrightarrow> (p - 1) * ps < (n :: nat)"
proof -
  have "p \<le> (n + ps - 1) div ps \<longleftrightarrow> p * ps \<le> n + ps - 1" using assms(1) by (simp add: less_eq_div_iff_mult_less_eq)
  also have "p * ps = (p - 1) * ps + ps" using assms(3) by (cases p) simp_all
  finally show ?thesis using assms by auto
qed

lemma calcTotalPages_nat:
  assumes "1 \<le> unat ps" "n \<le> 65535 * unat ps" "n + unat ps < 2 ^ 31"
  shows "unat (calcTotalPages (of_nat n) ps) = (n + unat ps - 1) div unat ps"
proof (cases "n = 0")
  case True
  then show ?thesis using assms(1) by (simp add: calcTotalPages_def)
next
  case False
  have n32: "unat (of_nat n :: u32) = n" using assms(3) by (simp add: unsigned_of_nat take_bit_nat_eq_self)
  have ps: "unat (ucast ps :: u32) = unat ps" by (rule unat_u16_u32)
  have sum: "unat (of_nat n + ucast ps :: u32) = n + unat ps" using assms(3) n32 ps by (simp add: unat_word_ariths)
  then have "unat (of_nat n + ucast ps - 1 :: u32) = n + unat ps - 1"
    using assms(1) by (subst unat_sub) (simp_all add: word_le_nat_alt)
  then have d: "unat ((of_nat n + ucast ps - 1 :: u32) div ucast ps) = (n + unat ps - 1) div unat ps"
    by (simp only: unat_div ps)
  have "(n + unat ps - 1) div unat ps < 65536"
    using assms(1,2) by (subst div_less_iff_less_mult) auto
  moreover have "ps \<noteq> 0" "(of_nat n :: u32) \<noteq> 0" using assms(1) False n32 by auto
  ultimately show ?thesis by (simp add: calcTotalPages_def unsigned_ucast_eq d take_bit_nat_eq_self)
qed

lemma refreshMeta_cases:
  assumes "hc_db c = Some db" "refreshMeta c = (True, c')"
  shows "\<exists>db'. newest_first True db' = newest_first True db \<and> hd_opened db' \<and>
     c' = c\<lparr>hc_db := Some db', total_rows := of_nat (length (newest_first True db)),
            total_pages := calcTotalPages (of_nat (length (newest_first True db))) (page_size c), hc_valid := True\<rparr>"
  using assms by (auto simp: refreshMeta_def countHistoryRows_def run_stmt_def split: if_splits
      intro!: exI [of _ "db\<lparr>hd_calls := Suc (hd_calls db)\<rparr>"])

lemma loadHistoryRange_rows:
  assumes "loadHistoryRange ofs lm True db = (Some rows, db')" "unat ofs < 2 ^ 31" "unat lm < 2 ^ 31"
  shows "rows = take (unat lm) (drop (unat ofs) (newest_first True db)) \<and> newest_first True db' = newest_first True db"
proof (cases "lm = 0")
  case True
  then show ?thesis using assms(1) by (auto simp: loadHistoryRange_def split: if_splits)
next
  case False
  then show ?thesis using assms
    by (auto simp: loadHistoryRange_def run_stmt_def sql_limit_def sql_offset_def sql_small split: if_splits)
qed

lemma window_words:
  fixes s e ps :: u16
  assumes "1 \<le> unat s" "unat s \<le> unat e" "unat e * unat ps < 2 ^ 31"
  shows "unat ((ucast s - 1) * ucast ps :: u32) = (unat s - 1) * unat ps"
    "unat ((ucast e - ucast s + 1) * ucast ps :: u32) = (unat e - unat s + 1) * unat ps"
proof -
  have u: "unat (ucast x :: u32) = unat (x :: u16)" for x by (rule unat_u16_u32)
  have less: "k * unat ps < 2 ^ 32" if "k \<le> unat e" for k
  proof -
    have "k * unat ps \<le> unat e * unat ps" using that by (rule mult_le_mono1)
    also note assms(3)
    finally show ?thesis by simp
  qed
  have "unat (ucast s - 1 :: u32) = unat s - 1" using assms(1) by (subst unat_sub) (simp_all add: word_le_nat_alt u)
  then show "unat ((ucast s - 1) * ucast ps :: u32) = (unat s - 1) * unat ps"
    using less [of "unat s - 1"] assms(2) by (simp add: unat_word_ariths u)
  have "unat (ucast e - ucast s :: u32) = unat e - unat s" using assms(2) by (subst unat_sub) (simp_all add: word_le_nat_alt u)
  moreover from this have "unat (ucast e - ucast s + 1 :: u32) = unat e - unat s + 1"
    using unsigned_less [of e, where 'a = nat] by (simp add: unat_word_ariths)
  ultimately show "unat ((ucast e - ucast s + 1) * ucast ps :: u32) = (unat e - unat s + 1) * unat ps"
    using less [of "unat e - unat s + 1"] assms(1,2) by (simp add: unat_word_ariths u)
qed

lemma window_page:
  assumes "1 \<le> s" "s \<le> p" "p \<le> (e :: nat)"
  shows "take ps (drop ((p - s) * ps) (take ((e - s + 1) * ps) (drop ((s - 1) * ps) R))) = take ps (drop ((p - 1) * ps) R)"
proof -
  have "(p - s) * ps + (s - 1) * ps = (p - 1) * ps" using assms by (simp flip: add_mult_distrib)
  moreover have "ps \<le> (e - s + 1) * ps - (p - s) * ps"
  proof -
    have "(e - s + 1) - (p - s) = e - p + 1" using assms by simp
    then have "(e - s + 1) * ps - (p - s) * ps = (e - p + 1) * ps" by (metis diff_mult_distrib)
    then show ?thesis by simp
  qed
  ultimately show ?thesis by (simp add: drop_take min_absorb1)
qed

text \<open>A refresh of the window reads the pages of the database.\<close>

lemma refreshWindow_database:
  assumes "hc_db c = Some db" and "0 < page_size c" and "0 < window_pages c"
    and "length (newest_first True db) \<le> 65535 * unat (page_size c)"
    and "length (newest_first True db) + unat (page_size c) < 2 ^ 31"
    and "refreshWindow center c = (True, c')"
  shows "let ps = unat (page_size c); n = length (newest_first True db) in
     unat (total_pages c') = (n + ps - 1) div ps \<and>
     (0 < n \<longrightarrow> hasPageInWindow c' (clampPage c' center)) \<and>
     (\<forall>p. hasPageInWindow c' p \<longrightarrow> pageRows c' p = db_page db ps (unat p))"
proof -
  define ps where "ps = unat (page_size c)"
  define R where "R = newest_first True db"
  have ps: "1 \<le> ps" using assms(2) by (simp add: ps_def word_less_nat_alt)
  obtain c1 where meta: "refreshMeta c = (True, c1)" using assms(1,6) by (auto simp: refreshWindow_def split: prod.splits bool.splits)
  from refreshMeta_cases [OF assms(1) meta] obtain db1 where c1: "newest_first True db1 = R" "hc_db c1 = Some db1"
    "page_size c1 = page_size c" "window_pages c1 = window_pages c" "hc_valid c1"
    "total_pages c1 = calcTotalPages (of_nat (length R)) (page_size c)" by (auto simp: R_def)
  have pages: "unat (total_pages c1) = (length R + ps - 1) div ps"
    using calcTotalPages_nat [of "page_size c" "length R"] ps assms(4,5) by (simp add: c1(6) ps_def R_def)
  show ?thesis
  proof (cases "total_pages c1 = 0")
    case True
    then have "c' = c1\<lparr>window_rows := [], window_start_page := 0, window_end_page := 0, hc_valid := True\<rparr>"
      using assms(1,6) meta by (simp add: refreshWindow_def)
    moreover have "length R = 0" using True pages ps by (cases R) (auto simp: div_eq_0_iff)
    ultimately show ?thesis using pages by (simp add: hasPageInWindow_def R_def ps_def Let_def)
  next
    case False
    define pg where "pg = clampPage c1 center"
    obtain s e where w: "window_range (total_pages c1) (window_pages c) pg = (s, e)" by fastforce
    have pg: "1 \<le> pg" "pg \<le> total_pages c1"
      using False by (auto simp: pg_def clampPage_def word_le_nat_alt word_less_nat_alt Suc_le_eq unat_gt_0 not_less)
    have se: "1 \<le> unat s" "unat s \<le> unat pg" "unat pg \<le> unat e" "unat e \<le> unat (total_pages c1)"
      using window_range_ok [OF pg _ w] assms(3) by (auto simp: word_less_nat_alt word_le_nat_alt)
    obtain rows db2 where load: "loadHistoryRange ((ucast s - 1) * ucast (page_size c)) ((ucast e - ucast s + 1) * ucast (page_size c)) True db1
        = (Some rows, db2)"
      and c': "c' = c1\<lparr>hc_db := Some db2, window_rows := map fromDb rows, window_start_page := s, window_end_page := e, hc_valid := True\<rparr>"
      using assms(1,6) meta False w c1 by (auto simp: refreshWindow_def pg_def split: prod.splits option.splits)
    have "unat e * ps \<le> unat (total_pages c1) * ps" using se(4) by simp
    also have "\<dots> \<le> length R + ps - 1" unfolding pages by (rule div_times_less_eq_dividend)
    finally have small: "unat e * ps < 2 ^ 31" using assms(5) ps by (simp add: R_def ps_def)
    note ww = window_words [OF se(1) order_trans [OF se(2,3)] small [unfolded ps_def], folded ps_def]
    have "(unat s - 1) * ps \<le> unat e * ps" "(unat e - unat s + 1) * ps \<le> unat e * ps"
      by (rule mult_le_mono1, use se in simp)+
    then have "(unat s - 1) * ps < 2 ^ 31" "(unat e - unat s + 1) * ps < 2 ^ 31" using small by (blast intro: order_le_less_trans)+
    then have rows: "rows = take ((unat e - unat s + 1) * ps) (drop ((unat s - 1) * ps) R)"
      using loadHistoryRange_rows [OF load, folded ps_def, unfolded ww c1(1)] by blast
    have "pageRows c' p = db_page db ps (unat p)" if "hasPageInWindow c' p" for p
    proof -
      have p: "unat s \<le> unat p" "unat p \<le> unat e" using that by (auto simp: hasPageInWindow_def c' word_le_nat_alt)
      then have "unat (p - s) = unat p - unat s" by (simp add: unat_sub word_le_nat_alt)
      moreover have "clampPage c' p = p"
        using p se False by (auto simp: clampPage_def c' word_less_nat_alt word_le_nat_alt)
      ultimately have "pageRows c' p = take ps (drop ((unat p - unat s) * ps) (map fromDb rows))"
        using that False by (simp add: pageRows_def sliceFromWindow_def c' c1(3) ps_def Let_def)
      also have "\<dots> = db_page db ps (unat p)"
        unfolding rows db_page_def R_def [symmetric] drop_map [symmetric] take_map [symmetric]
        by (subst window_page) (use se p in simp_all)
      finally show ?thesis .
    qed
    moreover have "clampPage c' center = pg" by (simp add: pg_def clampPage_def c')
    then have "hasPageInWindow c' (clampPage c' center)" using se by (auto simp: hasPageInWindow_def c' word_le_nat_alt)
    ultimately show ?thesis using pages by (simp add: c' R_def ps_def Let_def)
  qed
qed

section \<open>Properties\<close>

text \<open>C30: The pages of the panel are the pages of the database. As long as the number of closed faults fits the 16-bit
  page counter, a successful refresh of the window around any page counts the pages right, loads the wanted page
  (clamped to the last one), and from then on every page in the window is read exactly as the database has it, newest
  fault first, whatever the cache held before.\<close>

theorem history_window_matches_database:
  assumes "hc_db c = Some db" and "0 < page_size c" and "0 < window_pages c"
    and "length (newest_first True db) \<le> 65535 * unat (page_size c)"
    and "length (newest_first True db) + unat (page_size c) < 2 ^ 31"
    and "refreshWindow center c = (True, c')"
  shows "let ps = unat (page_size c); n = length (newest_first True db) in
     unat (total_pages c') = (n + ps - 1) div ps \<and>
     (0 < n \<longrightarrow> hasPageInWindow c' (clampPage c' center)) \<and>
     (\<forall>p. hasPageInWindow c' p \<longrightarrow> pageRows c' p = db_page db ps (unat p))"
  using refreshWindow_database [OF assms] .

definition example_row :: "int \<Rightarrow> u16 \<Rightarrow> db_record" where
  "example_row i code = \<lparr>db_id = i, db_hist = \<lparr>h_code = code, first_on_ms = 1000, clear_ms = 2000, seq_no = of_int i, h_state = 0\<rparr>,
     db_name = '''', db_classification = ''B1'', db_priority = 1\<rparr>"

definition example_db :: hist_db where
  "example_db = \<lparr>hd_opened = True, hd_rows = map (\<lambda>i. example_row (int i) (0x1000 + of_nat i)) [1..<8], hd_last_id = 7,
     hd_load_limit = 1000, hd_ok = (\<lambda>_. True), hd_calls = 0\<rparr>"

theorem history_window_matches_database_witness:
  "let c' = snd (refreshWindow 9 (snd (cache_bindDb (Some example_db) hist_cache_init))) in
     total_pages c' = 2 \<and> map vr_code (pageRows c' 2) = [0x1002, 0x1001]"
proof -
  define c where "c = snd (cache_bindDb (Some example_db) hist_cache_init)"
  have c: "hc_db c = Some example_db" "page_size c = 5" "window_pages c = 3"
    by (simp_all add: c_def cache_bindDb_def cache_invalidate_def hist_cache_init_def Let_def)
  have rows: "newest_first True example_db = map (\<lambda>i. example_row i (0x1000 + of_int i)) [7, 6, 5, 4, 3, 2, 1]"
    by (simp add: newest_first_def example_db_def example_row_def upt_rec)
  have "fst (refreshWindow 9 c)"
    using c by (simp add: refreshWindow_def refreshMeta_def countHistoryRows_def loadHistoryRange_def run_stmt_def
        example_db_def newest_first_def example_row_def calcTotalPages_def clampPage_def window_range_def upt_rec)
  then obtain c' where c': "refreshWindow 9 c = (True, c')" by (metis prod.collapse)
  note ok = history_window_matches_database [OF c(1) _ _ _ _ c', unfolded c rows Let_def, simplified]
  then have "total_pages c' = 2" by (simp add: word_unat_eq_iff)
  with ok show ?thesis unfolding c_def [symmetric]
    by (simp add: c' clampPage_def rows db_page_def fromDb_def example_row_def)
qed

end
