(* ===== verification/Hmi_Map.thy ===== *)
theory Hmi_Map
  imports Ups_Proto Hmi_Table
begin

text \<open>
  The map of the operator panel (\<open>services/normal/hmi_map_model.h\<close>, \<open>services/normal/hmi_map_loader.cpp\<close>):
  which variable is shown or written at which address. The loader reads a file of blocks, one JSON object per
  line, and fills a model with the items and five indices. The JSON reader is library code: a line is blank, not
  parsable, not an object, or an object with its text, number and truth values by key and its list of items. A
  floating-point number is its sign and magnitude, an item that is no object is None.
\<close>

section \<open>The model\<close>

datatype hmi_type = UnknownType | BoolRead | BoolRw | IntRead | IntRw | TypeU16 | TypeS16 | TypeBit

datatype item_kind = EmptyItem | NormalItem | FaultNum | FaultButton | RwItem | OtherHmi

definition isBoolMapType :: "hmi_type \<Rightarrow> bool" where
  "isBoolMapType t \<longleftrightarrow> t = BoolRead \<or> t = BoolRw \<or> t = TypeBit"

definition isIntMapType :: "hmi_type \<Rightarrow> bool" where
  "isIntMapType t \<longleftrightarrow> t = IntRead \<or> t = IntRw \<or> t = TypeU16 \<or> t = TypeS16"

definition isRwMapType :: "hmi_type \<Rightarrow> bool" where
  "isRwMapType t \<longleftrightarrow> t = BoolRw \<or> t = IntRw"

definition isReadOutputMapType :: "hmi_type \<Rightarrow> bool" where
  "isReadOutputMapType t \<longleftrightarrow> t = BoolRead \<or> t = IntRead \<or> t = TypeU16 \<or> t = TypeS16 \<or> t = TypeBit"

text \<open>The parameters a block gives to its items.\<close>

record item_params =
  p_def :: "dbl option"
  p_scale :: "dbl option"
  p_offset :: "dbl option"
  p_min :: "dbl option"
  p_max :: "dbl option"
  p_bit_index :: "int option"

record hmi_block =
  b_type :: hmi_type
  b_type_text :: string
  b_base :: "u16 option"
  b_src :: string
  b_params :: item_params
  b_line_no :: nat
  b_item_indexes :: "nat list"

text \<open>The flags \<open>has_base\<close> and \<open>has_addr\<close> of the code with their values are options here.\<close>

record hmi_item =
  i_type :: hmi_type
  i_kind :: item_kind
  i_block_index :: nat
  i_item_index :: nat
  i_line_no :: nat
  i_block_base :: "u16 option"
  i_addr :: "u16 option"
  i_words :: u16
  i_path :: string
  i_name :: string
  i_value_type :: string
  i_src :: string
  i_type_text :: string
  i_params :: item_params
  i_eq :: "dbl option"
  i_gt :: "dbl option"
  i_ge :: "dbl option"
  i_lt :: "dbl option"
  i_le :: "dbl option"

definition hasPath :: "hmi_item \<Rightarrow> bool" where
  "hasPath it \<longleftrightarrow> i_path it \<noteq> [] \<and> i_path it \<noteq> ''_''"

record hmi_model =
  m_blocks :: "hmi_block list"
  m_items :: "hmi_item list"
  m_normal_items :: "nat list"
  m_fault_num_items :: "nat list"
  m_fault_button_items :: "nat list"
  m_rw_items :: "nat list"
  m_by_path :: "string \<rightharpoonup> nat list"
  m_by_addr :: "u16 \<rightharpoonup> nat list"

definition model_init :: hmi_model where
  "model_init = \<lparr>m_blocks = [], m_items = [], m_normal_items = [], m_fault_num_items = [], m_fault_button_items = [],
     m_rw_items = [], m_by_path = Map.empty, m_by_addr = Map.empty\<rparr>"

definition itemAt :: "hmi_model \<Rightarrow> nat \<Rightarrow> hmi_item option" where
  "itemAt m i = (if length (m_items m) \<le> i then None else Some (m_items m ! i))"

definition findByPath :: "hmi_model \<Rightarrow> string \<Rightarrow> nat list option" where
  "findByPath m p = m_by_path m p"

definition findByAddr :: "hmi_model \<Rightarrow> u16 \<Rightarrow> nat list option" where
  "findByAddr m a = m_by_addr m a"

definition firstByPath :: "hmi_model \<Rightarrow> string \<Rightarrow> hmi_item option" where
  "firstByPath m p = (case findByPath m p of Some (i # _) \<Rightarrow> itemAt m i | _ \<Rightarrow> None)"

definition firstByAddr :: "hmi_model \<Rightarrow> u16 \<Rightarrow> hmi_item option" where
  "firstByAddr m a = (case findByAddr m a of Some (i # _) \<Rightarrow> itemAt m i | _ \<Rightarrow> None)"

section \<open>Values of the file\<close>

datatype jv = VNull | VBool bool | VInt int | VFloat bool rat | VStr string | VOther

type_synonym jobj = "string \<rightharpoonup> jv"

definition startsWith :: "string \<Rightarrow> string \<Rightarrow> bool" where
  "startsWith s p \<longleftrightarrow> length p \<le> length s \<and> take (length p) s = p"

text \<open>\<open>std::to_string\<close> of an integer and of a finite double (six decimals, correctly rounded).\<close>

definition int_text :: "int \<Rightarrow> string" where
  "int_text i = (if i < 0 then ''-'' else []) @ to_string (nat \<bar>i\<bar>)"

definition float_text :: "bool \<Rightarrow> rat \<Rightarrow> string" where
  "float_text neg m =
     (let n = nat (round_half_even (m * 10 ^ 6)); frac = to_string (n mod 10 ^ 6) in
      (if neg then ''-'' else []) @ to_string (n div 10 ^ 6) @ ''.'' @ replicate (6 - length frac) (CHR ''0'') @ frac)"

definition jsonToString :: "jv \<Rightarrow> string option" where
  "jsonToString v =
     (case v of VStr s \<Rightarrow> Some s | VBool b \<Rightarrow> Some (if b then ''1'' else ''0'') | VInt i \<Rightarrow> Some (int_text i)
      | VFloat neg m \<Rightarrow> Some (float_text neg m) | _ \<Rightarrow> None)"

text \<open>The value of the first key for which the conversion succeeds.\<close>

fun read_any :: "(jv \<Rightarrow> 'a option) \<Rightarrow> jobj \<Rightarrow> string list \<Rightarrow> 'a option" where
  "read_any conv j [] = None"
| "read_any conv j (k # ks) =
     (case Option.bind (j k) conv of Some x \<Rightarrow> Some x | None \<Rightarrow> read_any conv j ks)"

definition readStringAny :: "jobj \<Rightarrow> string list \<Rightarrow> string option" where
  "readStringAny j ks = map_option trim (read_any jsonToString j ks)"

text \<open>\<open>std::stoul\<close> and \<open>std::stol\<close> with base 0 of a text that they consume completely.\<close>

definition after_sign :: "string \<Rightarrow> string" where
  "after_sign s = (if s \<noteq> [] \<and> (hd s = CHR ''-'' \<or> hd s = CHR ''+'') then tl s else s)"

definition all_digits :: "nat \<Rightarrow> string \<Rightarrow> bool" where
  "all_digits base s \<longleftrightarrow> list_all (\<lambda>c. digit_val c < base) (strip_0x base (after_sign s))"

definition stoul_all :: "string \<Rightarrow> nat option" where
  "stoul_all s = (let b = prefix_base s in if all_digits b s then stoul b s else None)"

definition stol_all :: "string \<Rightarrow> int option" where
  "stol_all s =
     (let b = prefix_base s in
      if \<not> all_digits b s then None
      else case sto_parts b s of None \<Rightarrow> None
        | Some (neg, n) \<Rightarrow> let i = (if neg then - int n else int n) in
            if i < - (2 ^ 63) \<or> 2 ^ 63 \<le> i then None else Some i)"

definition float_val :: "bool \<Rightarrow> rat \<Rightarrow> rat" where
  "float_val neg m = (if neg then - m else m)"

definition parseU32Any :: "jv \<Rightarrow> u32 option" where
  "parseU32Any v =
     (case v of VInt i \<Rightarrow> if 0 \<le> i then Some (word_of_int i) else None
      | VFloat neg m \<Rightarrow> (let x = float_val neg m in
          if x < 0 \<or> 4294967295 < x then None else Some (word_of_int \<lfloor>x\<rfloor>))
      | VStr s \<Rightarrow> (let t = trim s in if t = [] then None else map_option of_nat (stoul_all t))
      | _ \<Rightarrow> None)"

definition parseU16Any :: "jv \<Rightarrow> u16 option" where
  "parseU16Any v = (case parseU32Any v of None \<Rightarrow> None | Some x \<Rightarrow> if 0xFFFF < x then None else Some (ucast x))"

definition readU16Any :: "jobj \<Rightarrow> string list \<Rightarrow> u16 option" where
  "readU16Any j ks = read_any parseU16Any j ks"

text \<open>\<open>std::stod\<close> of a text it consumes completely. It throws when the text overflows, or underflows inexactly;
  \<open>exact_value\<close> is the number that a text of digits denotes.\<close>

definition exact_value :: "string \<Rightarrow> rat option" where
  "exact_value s =
     (case take_sign s of (neg, u) \<Rightarrow>
        let (dig, base, u, mark, ebase) = (if take 2 (map to_lower u) = ''0x''
               then (is_xdigit, 16, drop 2 u, CHR ''p'', 2) else (is_digit, 10, u, CHR ''e'', 10));
            (ip, fp, r) = take_mantissa dig u; (e, _) = take_exponent mark r
        in if ip = [] \<and> fp = [] then None
           else Some (of_nat (num_of base (ip @ fp)) * ebase powi e / of_nat base ^ length fp))"

definition stod_all :: "string \<Rightarrow> dbl option" where
  "stod_all s =
     (case strtod s of Some (v, []) \<Rightarrow>
        (case exact_value s of None \<Rightarrow> Some v
         | Some x \<Rightarrow>
             (case v of Fin r \<Rightarrow> if x \<noteq> 0 \<and> x < 1 / 2 ^ 1022 \<and> \<bar>r\<bar> \<noteq> x then None else Some v
              | Inf _ \<Rightarrow> None | NaN \<Rightarrow> Some v))
      | _ \<Rightarrow> None)"

definition parseDoubleAny :: "jv \<Rightarrow> dbl option" where
  "parseDoubleAny v =
     (case v of VInt i \<Rightarrow> Some (dbl_of_int i) | VFloat neg m \<Rightarrow> Some (Fin (float_val neg m))
      | VBool b \<Rightarrow> Some (Fin (if b then 1 else 0))
      | VStr s \<Rightarrow> (let t = trim s in if t = [] then None else stod_all t)
      | _ \<Rightarrow> None)"

definition readDoubleAny :: "jobj \<Rightarrow> string list \<Rightarrow> dbl option" where
  "readDoubleAny j ks = read_any parseDoubleAny j ks"

text \<open>The conversion of a double to an \<open>int\<close> truncates; outside the range it is undefined in C++ and saturates on
  the target.\<close>

definition int_of_float :: "rat \<Rightarrow> int" where
  "int_of_float x = max (- (2 ^ 31)) (min (2 ^ 31 - 1) (if 0 \<le> x then \<lfloor>x\<rfloor> else - \<lfloor>- x\<rfloor>))"

definition parseIntAny :: "jv \<Rightarrow> int option" where
  "parseIntAny v =
     (case v of VInt i \<Rightarrow> Some (signed_take_bit 31 i)
      | VFloat neg m \<Rightarrow> Some (int_of_float (float_val neg m))
      | VStr s \<Rightarrow> (let t = trim s in if t = [] then None else map_option (signed_take_bit 31) (stol_all t))
      | _ \<Rightarrow> None)"

definition readIntAny :: "jobj \<Rightarrow> string list \<Rightarrow> int option" where
  "readIntAny j ks = read_any parseIntAny j ks"

section \<open>Items\<close>

definition classifyItem :: "hmi_item \<Rightarrow> item_kind" where
  "classifyItem it =
     (if \<not> hasPath it then EmptyItem
      else if startsWith (i_path it) ''hmi.fault.num.'' then FaultNum
      else if startsWith (i_path it) ''hmi.fault.btn.'' then FaultButton
      else if isRwMapType (i_type it) then RwItem
      else if startsWith (i_path it) ''hmi.'' then OtherHmi
      else NormalItem)"

definition or_else :: "'a option \<Rightarrow> 'a option \<Rightarrow> 'a option" where
  "or_else x y = (case x of None \<Rightarrow> y | Some _ \<Rightarrow> x)"

definition inheritBlockDefaults :: "hmi_block \<Rightarrow> hmi_item \<Rightarrow> hmi_item" where
  "inheritBlockDefaults blk it =
     (let b = b_params blk; p = i_params it in
      it\<lparr>i_params := \<lparr>p_def = or_else (p_def p) (p_def b), p_scale = or_else (p_scale p) (p_scale b),
           p_offset = or_else (p_offset p) (p_offset b), p_min = or_else (p_min p) (p_min b),
           p_max = or_else (p_max p) (p_max b), p_bit_index = or_else (p_bit_index p) (p_bit_index b)\<rparr>,
         i_src := (if i_src it = [] then b_src blk else i_src it)\<rparr>)"

definition push_at :: "'k \<Rightarrow> nat \<Rightarrow> ('k \<rightharpoonup> nat list) \<Rightarrow> ('k \<rightharpoonup> nat list)" where
  "push_at k i m = m(k \<mapsto> (case m k of None \<Rightarrow> [] | Some is \<Rightarrow> is) @ [i])"

definition snoc_if :: "bool \<Rightarrow> nat \<Rightarrow> nat list \<Rightarrow> nat list" where
  "snoc_if b i is = (if b then is @ [i] else is)"

definition appendItemToModel :: "hmi_item \<Rightarrow> hmi_model \<times> hmi_block \<Rightarrow> hmi_model \<times> hmi_block" where
  "appendItemToModel it mb =
     (let (m, blk) = mb; it = it\<lparr>i_kind := classifyItem it\<rparr>; idx = length (m_items m) in
      (m\<lparr>m_items := m_items m @ [it],
         m_by_path := (if hasPath it then push_at (i_path it) idx (m_by_path m) else m_by_path m),
         m_by_addr := (case i_addr it of Some a \<Rightarrow> push_at a idx (m_by_addr m) | None \<Rightarrow> m_by_addr m),
         m_fault_num_items := snoc_if (i_kind it = FaultNum) idx (m_fault_num_items m),
         m_fault_button_items := snoc_if (i_kind it = FaultButton) idx (m_fault_button_items m),
         m_rw_items := snoc_if (isRwMapType (i_type it)) idx (m_rw_items m),
         m_normal_items := snoc_if (hasPath it \<and> isReadOutputMapType (i_type it) \<and> i_kind it \<noteq> FaultNum) idx
                                   (m_normal_items m)\<rparr>,
       blk\<lparr>b_item_indexes := b_item_indexes blk @ [idx]\<rparr>))"

section \<open>The load\<close>

definition lower :: "string \<Rightarrow> string" where
  "lower s = map to_lower s"

definition type_names :: "(string list \<times> hmi_type) list" where
  "type_names =
     [([''bool_read'', ''bool'', ''di''], BoolRead),
      ([''bool_rw'', ''coil'', ''do''], BoolRw),
      ([''int_read'', ''input_register'', ''input_reg''], IntRead),
      ([''int_rw'', ''holding_register'', ''holding_reg''], IntRw),
      ([''u16'', ''uint16''], TypeU16),
      ([''s16'', ''int16''], TypeS16),
      ([''bit''], TypeBit)]"

definition parseType :: "string \<Rightarrow> hmi_type option" where
  "parseType s = (let t = lower (trim s) in map_option snd (find (\<lambda>(names, _). t \<in> set names) type_names))"

definition parseU16HexOrDec :: "string \<Rightarrow> u16 option" where
  "parseU16HexOrDec s =
     (let x = trim s in
      if x = [] then None
      else case stoul_all x of None \<Rightarrow> None | Some v \<Rightarrow> if 0xFFFF < v then None else Some (of_nat v))"

text \<open>The Chinese keys, as the UTF-8 bytes of the file.\<close>

definition k_start_addr :: string where
  "k_start_addr = [CHR 0xE8, CHR 0xB5, CHR 0xB7, CHR 0xE5, CHR 0xA7, CHR 0x8B, CHR 0xE5, CHR 0x9C, CHR 0xB0, CHR 0xE5, CHR 0x9D, CHR 0x80]"
definition k_scale :: string where
  "k_scale = [CHR 0xE7, CHR 0xBC, CHR 0xA9, CHR 0xE6, CHR 0x94, CHR 0xBE]"
definition k_offset :: string where
  "k_offset = [CHR 0xE5, CHR 0x81, CHR 0x8F, CHR 0xE7, CHR 0xA7, CHR 0xBB]"
definition k_min :: string where
  "k_min = [CHR 0xE6, CHR 0x9C, CHR 0x80, CHR 0xE5, CHR 0xB0, CHR 0x8F, CHR 0xE5, CHR 0x80, CHR 0xBC]"
definition k_max :: string where
  "k_max = [CHR 0xE6, CHR 0x9C, CHR 0x80, CHR 0xE5, CHR 0xA4, CHR 0xA7, CHR 0xE5, CHR 0x80, CHR 0xBC]"
definition k_description :: string where
  "k_description = [CHR 0xE5, CHR 0x8F, CHR 0x98, CHR 0xE9, CHR 0x87, CHR 0x8F, CHR 0xE6, CHR 0x8F, CHR 0x8F, CHR 0xE8, CHR 0xBF, CHR 0xB0]"
definition k_var_type :: string where
  "k_var_type = [CHR 0xE5, CHR 0x8F, CHR 0x98, CHR 0xE9, CHR 0x87, CHR 0x8F, CHR 0xE7, CHR 0xB1, CHR 0xBB, CHR 0xE5, CHR 0x9E, CHR 0x8B]"
definition k_addr_hex :: string where
  "k_addr_hex = [CHR 0xE5, CHR 0x9C, CHR 0xB0, CHR 0xE5, CHR 0x9D, CHR 0x80, CHR 0x68, CHR 0x65, CHR 0x78]"
definition k_addr :: string where
  "k_addr = [CHR 0xE5, CHR 0x9C, CHR 0xB0, CHR 0xE5, CHR 0x9D, CHR 0x80]"
definition k_len16 :: string where
  "k_len16 = [CHR 0xE9, CHR 0x95, CHR 0xBF, CHR 0xE5, CHR 0xBA, CHR 0xA6, CHR 0x2F, CHR 0x69, CHR 0x6E, CHR 0x74, CHR 0x31, CHR 0x36]"
definition k_len :: string where
  "k_len = [CHR 0xE9, CHR 0x95, CHR 0xBF, CHR 0xE5, CHR 0xBA, CHR 0xA6]"

datatype map_error = OpenFailed | ParseFailed nat | NotObject nat | MissingType nat | UnsupportedType nat string |
  MissingItems nat | AddressOverflow nat nat

datatype map_line = BlankLine | BadLine | NoObject | Object jobj "jobj option list option"

definition readParams :: "jobj \<Rightarrow> item_params" where
  "readParams j =
     \<lparr>p_def = readDoubleAny j [''def'', ''default''], p_scale = readDoubleAny j [''scale'', k_scale],
      p_offset = readDoubleAny j [''offset'', k_offset], p_min = readDoubleAny j [''min'', k_min],
      p_max = readDoubleAny j [''max'', k_max], p_bit_index = readIntAny j [''bit'', ''bit_index'']\<rparr>"

text \<open>The item before its own fields are read.\<close>

definition new_item :: "hmi_model \<Rightarrow> hmi_block \<Rightarrow> nat \<Rightarrow> hmi_item" where
  "new_item m blk i =
     \<lparr>i_type = b_type blk, i_kind = EmptyItem, i_block_index = length (m_blocks m), i_item_index = i,
      i_line_no = b_line_no blk, i_block_base = b_base blk, i_addr = None, i_words = 1, i_path = [], i_name = [],
      i_value_type = [], i_src = b_src blk, i_type_text = b_type_text blk,
      i_params = \<lparr>p_def = None, p_scale = None, p_offset = None, p_min = None, p_max = None, p_bit_index = None\<rparr>,
      i_eq = None, i_gt = None, i_ge = None, i_lt = None, i_le = None\<rparr>"

text \<open>The address in sequence, computed in 32 bits. None: the block has no base, or the address does not fit; the
  flag tells the second case.\<close>

definition seq_addr :: "hmi_block \<Rightarrow> nat \<Rightarrow> u16 option \<times> bool" where
  "seq_addr blk i =
     (case b_base blk of None \<Rightarrow> (None, False)
      | Some base \<Rightarrow> let a = (ucast base :: u32) + of_nat i in
          if 0xFFFF < a then (None, True) else (Some (ucast a), False))"

definition explicit_addr :: "jobj \<Rightarrow> u16 option" where
  "explicit_addr one = readU16Any one [k_addr_hex, ''addr'', ''address'', k_addr]"

definition object_item :: "jobj \<Rightarrow> u16 option \<Rightarrow> hmi_item \<Rightarrow> hmi_item" where
  "object_item one addr it =
     it\<lparr>i_path := text_or [] (readStringAny one [''path'']),
        i_name := text_or [] (readStringAny one [k_description, ''name'', ''desc'', ''description'']),
        i_value_type := text_or [] (readStringAny one [k_var_type, ''var_type'', ''value_type'', ''type_name'']),
        i_addr := addr,
        i_words := (case readU16Any one [k_len16, ''words'', ''length'', k_len] of
                      Some w \<Rightarrow> if w = 0 then 1 else w | None \<Rightarrow> 1),
        i_params := readParams one,
        i_eq := readDoubleAny one [''eq''], i_gt := readDoubleAny one [''gt''], i_ge := readDoubleAny one [''ge''],
        i_lt := readDoubleAny one [''lt''], i_le := readDoubleAny one [''le'']\<rparr>"

definition read_item :: "hmi_model \<Rightarrow> hmi_block \<Rightarrow> nat \<Rightarrow> jobj option \<Rightarrow> hmi_item option" where
  "read_item m blk i one =
     (let it = new_item m blk i; (seq, overflow) = seq_addr blk i in
      case one of
        Some j \<Rightarrow>
          (case explicit_addr j of Some a \<Rightarrow> Some (object_item j (Some a) it)
           | None \<Rightarrow> if overflow then None else Some (object_item j seq it))
      | None \<Rightarrow> Some (it\<lparr>i_path := ''_'', i_words := 1, i_addr := seq\<rparr>))"

fun load_items ::
  "nat \<Rightarrow> jobj option list \<Rightarrow> hmi_model \<times> hmi_block \<Rightarrow> nat + (hmi_model \<times> hmi_block)" where
  "load_items i [] mb = Inr mb"
| "load_items i (one # arr) mb =
     (case read_item (fst mb) (snd mb) i one of None \<Rightarrow> Inl i
      | Some it \<Rightarrow> load_items (Suc i) arr (appendItemToModel (inheritBlockDefaults (snd mb) it) mb))"

definition first_explicit :: "jobj option list \<Rightarrow> u16 option" where
  "first_explicit arr =
     (case List.map_filter (\<lambda>one. Option.bind one explicit_addr) arr of [] \<Rightarrow> None | a # _ \<Rightarrow> Some a)"

definition load_line :: "nat \<Rightarrow> map_line \<Rightarrow> hmi_model \<Rightarrow> map_error + hmi_model" where
  "load_line no jl m =
     (case jl of BlankLine \<Rightarrow> Inr m | BadLine \<Rightarrow> Inl (ParseFailed no) | NoObject \<Rightarrow> Inl (NotObject no)
      | Object j items \<Rightarrow>
          (case readStringAny j [''type''] of None \<Rightarrow> Inl (MissingType no)
           | Some type_text \<Rightarrow>
               (case parseType type_text of None \<Rightarrow> Inl (UnsupportedType no type_text)
                | Some t \<Rightarrow>
                    (case items of None \<Rightarrow> Inl (MissingItems no)
                     | Some arr \<Rightarrow>
                         (let blk = \<lparr>b_type = t, b_type_text = type_text,
                                b_base = readU16Any j [''base'', k_start_addr, ''addr_base'', ''address_base''],
                                b_src = text_or [] (readStringAny j [''src'', ''source'', ''bit_src'']),
                                b_params = readParams j, b_line_no = no, b_item_indexes = []\<rparr>
                          in case load_items 0 arr (m, blk) of Inl i \<Rightarrow> Inl (AddressOverflow no i)
                             | Inr (m, blk) \<Rightarrow>
                                 (let blk = (case b_base blk of None \<Rightarrow> blk\<lparr>b_base := first_explicit arr\<rparr>
                                             | Some _ \<Rightarrow> blk)
                                  in Inr (m\<lparr>m_blocks := m_blocks m @ [blk]\<rparr>)))))))"

fun load_lines :: "nat \<Rightarrow> map_line list \<Rightarrow> hmi_model \<Rightarrow> map_error + hmi_model" where
  "load_lines no [] m = Inr m"
| "load_lines no (jl # rest) m =
     (case load_line (Suc no) jl m of Inl e \<Rightarrow> Inl e | Inr m \<Rightarrow> load_lines (Suc no) rest m)"

definition map_loadJsonl :: "map_line list option \<Rightarrow> map_error + hmi_model" where
  "map_loadJsonl file = (case file of None \<Rightarrow> Inl OpenFailed | Some rest \<Rightarrow> load_lines 0 rest model_init)"

section \<open>Facts\<close>

text \<open>The indices of the items with a property, in the order of the file.\<close>

definition indices :: "(hmi_item \<Rightarrow> bool) \<Rightarrow> hmi_item list \<Rightarrow> nat list" where
  "indices P its = filter (\<lambda>i. P (its ! i)) [0..<length its]"

definition some_list :: "'a list \<Rightarrow> 'a list option" where
  "some_list xs = (if xs = [] then None else Some xs)"

lemma indices_snoc: "indices P (its @ [it]) = snoc_if (P it) (length its) (indices P its)"
proof -
  have "filter (\<lambda>i. P ((its @ [it]) ! i)) [0..<length its] = filter (\<lambda>i. P (its ! i)) [0..<length its]"
    by (rule filter_cong) (simp_all add: nth_append)
  then show ?thesis by (simp add: indices_def snoc_if_def)
qed

lemma push_at_lookup:
  "m k = some_list is \<Longrightarrow> push_at k' i m k = some_list (snoc_if (k = k') i is)"
  by (auto simp: push_at_def some_list_def snoc_if_def split: if_splits)

definition model_ok :: "hmi_model \<Rightarrow> bool" where
  "model_ok m \<longleftrightarrow> (let its = m_items m in
     (\<forall>it \<in> set its. i_kind it = classifyItem it \<and> i_words it \<noteq> 0) \<and>
     (\<forall>p. findByPath m p = some_list (indices (\<lambda>it. hasPath it \<and> i_path it = p) its)) \<and>
     (\<forall>a. findByAddr m a = some_list (indices (\<lambda>it. i_addr it = Some a) its)) \<and>
     m_rw_items m = indices (\<lambda>it. isRwMapType (i_type it)) its \<and>
     m_fault_num_items m = indices (\<lambda>it. hasPath it \<and> startsWith (i_path it) ''hmi.fault.num.'') its \<and>
     m_fault_button_items m = indices (\<lambda>it. hasPath it \<and> startsWith (i_path it) ''hmi.fault.btn.'') its \<and>
     m_normal_items m = indices (\<lambda>it. hasPath it \<and> isReadOutputMapType (i_type it) \<and>
                          \<not> startsWith (i_path it) ''hmi.fault.num.'') its)"

lemma startsWith_num_btn: "startsWith s ''hmi.fault.num.'' \<Longrightarrow> \<not> startsWith s ''hmi.fault.btn.''"
  by (auto simp: startsWith_def)

lemma classify_iff:
  "classifyItem it = FaultNum \<longleftrightarrow> hasPath it \<and> startsWith (i_path it) ''hmi.fault.num.''"
  "classifyItem it = FaultButton \<longleftrightarrow> hasPath it \<and> startsWith (i_path it) ''hmi.fault.btn.''"
  by (auto simp: classifyItem_def dest: startsWith_num_btn)

lemma kind_irrelevant [simp]:
  "hasPath (it\<lparr>i_kind := k\<rparr>) = hasPath it" "classifyItem (it\<lparr>i_kind := k\<rparr>) = classifyItem it"
  by (simp_all add: hasPath_def classifyItem_def)

lemma append_ok:
  assumes "model_ok m" "i_words it \<noteq> 0"
  shows "model_ok (fst (appendItemToModel it (m, blk)))"
proof -
  define it' where "it' = it\<lparr>i_kind := classifyItem it\<rparr>"
  have it': "i_kind it' = classifyItem it'" "i_words it' \<noteq> 0"
    and eqs: "hasPath it = hasPath it'" "i_path it = i_path it'" "i_addr it = i_addr it'" "i_type it = i_type it'"
      "classifyItem it = classifyItem it'"
    using assms(2) by (simp_all add: it'_def)
  define m' where "m' = fst (appendItemToModel it (m, blk))"
  have m': "m_items m' = m_items m @ [it']"
    "m_by_path m' = (if hasPath it' then push_at (i_path it') (length (m_items m)) (m_by_path m) else m_by_path m)"
    "m_by_addr m' = (case i_addr it' of Some a \<Rightarrow> push_at a (length (m_items m)) (m_by_addr m) | None \<Rightarrow> m_by_addr m)"
    "m_fault_num_items m' = snoc_if (classifyItem it' = FaultNum) (length (m_items m)) (m_fault_num_items m)"
    "m_fault_button_items m' = snoc_if (classifyItem it' = FaultButton) (length (m_items m)) (m_fault_button_items m)"
    "m_rw_items m' = snoc_if (isRwMapType (i_type it')) (length (m_items m)) (m_rw_items m)"
    "m_normal_items m' = snoc_if (hasPath it' \<and> isReadOutputMapType (i_type it') \<and> classifyItem it' \<noteq> FaultNum)
       (length (m_items m)) (m_normal_items m)"
    by (simp_all add: m'_def appendItemToModel_def Let_def it'_def)
  note ok = assms(1) [unfolded model_ok_def Let_def]
  have "findByPath m' p = some_list (indices (\<lambda>it. hasPath it \<and> i_path it = p) (m_items m'))" for p
  proof -
    have "m_by_path m p = some_list (indices (\<lambda>it. hasPath it \<and> i_path it = p) (m_items m))"
      using ok by (simp add: findByPath_def)
    from push_at_lookup [where m = "m_by_path m" and k = p, OF this] this show ?thesis
      by (auto simp: findByPath_def m' indices_snoc snoc_if_def)
  qed
  moreover have "findByAddr m' a = some_list (indices (\<lambda>it. i_addr it = Some a) (m_items m'))" for a
  proof -
    have "m_by_addr m a = some_list (indices (\<lambda>it. i_addr it = Some a) (m_items m))"
      using ok by (simp add: findByAddr_def)
    from push_at_lookup [where m = "m_by_addr m" and k = a, OF this] this show ?thesis
      by (auto simp: findByAddr_def m' indices_snoc snoc_if_def split: option.split)
  qed
  moreover have "\<forall>it \<in> set (m_items m'). i_kind it = classifyItem it \<and> i_words it \<noteq> 0"
    using ok it' by (simp add: m')
  moreover have "m_rw_items m' = indices (\<lambda>it. isRwMapType (i_type it)) (m_items m')"
    using ok by (simp add: m' indices_snoc)
  moreover have "m_fault_num_items m' = indices (\<lambda>it. hasPath it \<and> startsWith (i_path it) ''hmi.fault.num.'') (m_items m')"
    using ok by (simp add: m' indices_snoc classify_iff)
  moreover have "m_fault_button_items m' = indices (\<lambda>it. hasPath it \<and> startsWith (i_path it) ''hmi.fault.btn.'') (m_items m')"
    using ok by (simp add: m' indices_snoc classify_iff)
  moreover have "m_normal_items m' = indices (\<lambda>it. hasPath it \<and> isReadOutputMapType (i_type it) \<and>
      \<not> startsWith (i_path it) ''hmi.fault.num.'') (m_items m')"
    using ok by (simp add: m' indices_snoc classify_iff conj_commute cong: conj_cong)
  ultimately show ?thesis unfolding m'_def [symmetric] model_ok_def Let_def by blast
qed

lemma read_item_words: "read_item m blk i one = Some it \<Longrightarrow> i_words it \<noteq> 0"
  by (auto simp: read_item_def object_item_def Let_def split: option.splits prod.splits if_splits)

lemma inherit_words [simp]: "i_words (inheritBlockDefaults blk it) = i_words it"
  by (simp add: inheritBlockDefaults_def Let_def)

lemma load_items_ok:
  "load_items i arr mb = Inr mb' \<Longrightarrow> model_ok (fst mb) \<Longrightarrow> model_ok (fst mb')"
proof (induction i arr mb rule: load_items.induct)
  case (2 i one arr mb)
  then obtain it where it: "read_item (fst mb) (snd mb) i one = Some it"
    "load_items (Suc i) arr (appendItemToModel (inheritBlockDefaults (snd mb) it) mb) = Inr mb'"
    by (auto split: option.splits)
  have "model_ok (fst (appendItemToModel (inheritBlockDefaults (snd mb) it) mb))"
    using append_ok [of "fst mb" _ "snd mb"] 2(3) read_item_words [OF it(1)] by simp
  then show ?case using 2(1) [OF it] by blast
qed simp

lemma blocks_ok: "model_ok m \<Longrightarrow> model_ok (m\<lparr>m_blocks := bs\<rparr>)"
  by (simp add: model_ok_def findByPath_def findByAddr_def)

lemma load_line_ok: "load_line no l m = Inr m' \<Longrightarrow> model_ok m \<Longrightarrow> model_ok m'"
  by (auto simp: load_line_def Let_def blocks_ok dest!: load_items_ok split: map_line.splits option.splits sum.splits)

lemma load_lines_ok: "load_lines no ls m = Inr m' \<Longrightarrow> model_ok m \<Longrightarrow> model_ok m'"
  by (induction no ls m rule: load_lines.induct) (auto split: sum.splits dest: load_line_ok)

lemma model_init_ok: "model_ok model_init"
  by (simp add: model_ok_def model_init_def findByPath_def findByAddr_def indices_def some_list_def)

lemma loaded_model_ok: "map_loadJsonl f = Inr m \<Longrightarrow> model_ok m"
  by (auto simp: map_loadJsonl_def split: option.splits dest!: load_lines_ok intro: model_init_ok)

text \<open>Where the items of a block end up.\<close>

lemma seq_addr_nat:
  assumes "i < 2 ^ 31"
  shows "seq_addr blk i = (case b_base blk of None \<Rightarrow> (None, False)
    | Some base \<Rightarrow> if unat base + i \<le> 0xFFFF then (Some (base + of_nat i), False) else (None, True))"
proof (cases "b_base blk")
  case (Some base)
  have unat_base: "unat (ucast base :: u32) = unat base"
    using unsigned_less [of base, where 'a = nat] by (simp add: unsigned_ucast_eq take_bit_nat_eq_self)
  have b: "unat base < 2 ^ 16" using unsigned_less [of base, where 'a = nat] by simp
  have n: "unat ((ucast base :: u32) + of_nat i) = unat base + i"
    using b assms by (simp add: unat_word_ariths unat_of_nat unat_base)
  have "(0xFFFF < (ucast base :: u32) + of_nat i) = (\<not> unat base + i \<le> 0xFFFF)"
    by (simp add: word_less_nat_alt n not_le)
  moreover have "ucast ((ucast base :: u32) + of_nat i) = base + of_nat i" if "unat base + i \<le> 0xFFFF"
  proof -
    have "unat (ucast ((ucast base :: u32) + of_nat i) :: u16) = unat base + i"
      unfolding unsigned_ucast_eq n using that by (simp add: take_bit_nat_eq_self)
    moreover have "unat (base + of_nat i) = unat base + i" using that by (simp add: unat_word_ariths)
    ultimately show ?thesis by (simp add: word_unat_eq_iff)
  qed
  ultimately show ?thesis using Some by (simp add: seq_addr_def Let_def)
qed (simp add: seq_addr_def)

definition placed_addr :: "u16 option \<Rightarrow> nat \<Rightarrow> jobj option \<Rightarrow> u16 option" where
  "placed_addr base i one =
     or_else (Option.bind one explicit_addr)
       (case base of Some b \<Rightarrow> if unat b + i \<le> 0xFFFF then Some (b + of_nat i) else None | None \<Rightarrow> None)"

lemma read_item_placed:
  assumes "read_item m blk i one = Some it" "i < 2 ^ 31"
  shows "i_item_index it = i" "i_addr it = placed_addr (b_base blk) i one" "i_type it = b_type blk"
    "i_path it = (case one of Some j \<Rightarrow> text_or [] (readStringAny j [''path'']) | None \<Rightarrow> ''_'')"
  using assms
  by (auto simp: read_item_def seq_addr_nat object_item_def new_item_def placed_addr_def or_else_def Let_def
      split: option.splits if_splits)

lemma append_base [simp]: "b_base (snd (appendItemToModel it mb)) = b_base (snd mb)"
    "b_type (snd (appendItemToModel it mb)) = b_type (snd mb)"
  by (simp_all add: appendItemToModel_def Let_def case_prod_beta)

lemma append_items [simp]:
  "m_items (fst (appendItemToModel it mb)) = m_items (fst mb) @ [it\<lparr>i_kind := classifyItem it\<rparr>]"
  by (simp add: appendItemToModel_def Let_def case_prod_beta)

lemma load_items_placed:
  assumes "load_items k arr mb = Inr mb'" "k + length arr < 2 ^ 31"
  shows "\<exists>its. m_items (fst mb') = m_items (fst mb) @ its \<and>
     map (\<lambda>it. (i_item_index it, i_addr it, i_type it, i_path it)) its =
     map (\<lambda>i. (k + i, placed_addr (b_base (snd mb)) (k + i) (arr ! i), b_type (snd mb),
        case arr ! i of Some j \<Rightarrow> text_or [] (readStringAny j [''path'']) | None \<Rightarrow> ''_'')) [0..<length arr]"
  using assms
proof (induction k arr mb rule: load_items.induct)
  case (2 k one arr mb)
  then obtain it where it: "read_item (fst mb) (snd mb) k one = Some it"
    "load_items (Suc k) arr (appendItemToModel (inheritBlockDefaults (snd mb) it) mb) = Inr mb'"
    by (auto split: option.splits)
  define it' where "it' = (inheritBlockDefaults (snd mb) it)\<lparr>i_kind := classifyItem (inheritBlockDefaults (snd mb) it)\<rparr>"
  have it': "i_item_index it' = i_item_index it" "i_addr it' = i_addr it" "i_type it' = i_type it" "i_path it' = i_path it"
    by (simp_all add: it'_def inheritBlockDefaults_def Let_def)
  have small: "Suc k + length arr < 2 ^ 31" using 2(3) by simp
  obtain its where its: "m_items (fst mb') = m_items (fst mb) @ it' # its"
    "map (\<lambda>it. (i_item_index it, i_addr it, i_type it, i_path it)) its =
     map (\<lambda>i. (Suc k + i, placed_addr (b_base (snd mb)) (Suc k + i) (arr ! i), b_type (snd mb),
        case arr ! i of Some j \<Rightarrow> text_or [] (readStringAny j [''path'']) | None \<Rightarrow> ''_'')) [0..<length arr]"
    using 2(1) [OF it small] by (auto simp: it'_def)
  have k: "k < 2 ^ 31" using small by simp
  have "[0..<length (one # arr)] = 0 # map Suc [0..<length arr]" by (simp add: map_Suc_upt upt_conv_Cons del: upt_Suc)
  then show ?case
    using its(1) its(2) it' read_item_placed [OF it(1) k]
    by (intro exI [of _ "it' # its"]) (simp add: comp_def)
qed simp

lemma load_items_error:
  assumes "load_items k arr mb = Inl i" "k + length arr < 2 ^ 31"
  shows "i < k + length arr \<and> k \<le> i \<and> (\<exists>j b. arr ! (i - k) = Some j \<and> explicit_addr j = None \<and>
     b_base (snd mb) = Some b \<and> 0xFFFF < unat b + i)"
  using assms
proof (induction k arr mb rule: load_items.induct)
  case (2 k one arr mb)
  show ?case
  proof (cases "read_item (fst mb) (snd mb) k one")
    case None
    then have "i = k" using 2(2) by simp
    moreover have "k < 2 ^ 31" using 2(3) by simp
    ultimately show ?thesis using None
      by (auto simp: read_item_def seq_addr_nat Let_def split: option.splits if_splits)
  next
    case (Some it)
    then show ?thesis using 2 by (auto simp: nth_Cons')
  qed
qed simp

section \<open>Properties\<close>

text \<open>C26: The indices of a loaded panel map are exact. Whatever the file holds, after a successful load the list found
  under a path, or under an address, is the list of exactly the items with this path or address, in the order of
  the file, and no list when there is none. The list of writable items holds exactly the items of a writable type; the lists of the
  fault numbers and of the fault buttons hold exactly the items whose path starts with the prefix of the fault
  registers or the fault buttons, which are also the items classified so; the list of normal outputs holds exactly the items with a
  path and an output type whose path does not start with the prefix of the fault registers. Each list is in the order of the
  file, no register of a fault page is among the normal outputs, and every item takes at least one word.\<close>

theorem loaded_map_indexed:
  assumes "map_loadJsonl f = Inr m"
  shows "findByPath m p = some_list (indices (\<lambda>it. hasPath it \<and> i_path it = p) (m_items m)) \<and>
     findByAddr m a = some_list (indices (\<lambda>it. i_addr it = Some a) (m_items m)) \<and>
     m_rw_items m = indices (\<lambda>it. i_type it \<in> {BoolRw, IntRw}) (m_items m) \<and>
     m_fault_num_items m = indices (\<lambda>it. startsWith (i_path it) ''hmi.fault.num.'') (m_items m) \<and>
     m_fault_button_items m = indices (\<lambda>it. startsWith (i_path it) ''hmi.fault.btn.'') (m_items m) \<and>
     m_normal_items m = indices (\<lambda>it. hasPath it \<and> i_type it \<in> {BoolRead, IntRead, TypeU16, TypeS16, TypeBit} \<and>
       \<not> startsWith (i_path it) ''hmi.fault.num.'') (m_items m) \<and>
     m_fault_num_items m = indices (\<lambda>it. i_kind it = FaultNum) (m_items m) \<and>
     m_fault_button_items m = indices (\<lambda>it. i_kind it = FaultButton) (m_items m) \<and>
     set (m_normal_items m) \<inter> set (m_fault_num_items m) = {} \<and>
     (\<forall>it \<in> set (m_items m). i_words it \<noteq> 0)"
proof -
  have ok: "model_ok m" by (rule loaded_model_ok [OF assms])
  have kind: "i_kind it = classifyItem it" if "it \<in> set (m_items m)" for it
    using ok that by (simp add: model_ok_def Let_def)
  have "indices (\<lambda>it. i_kind it = k) (m_items m) = indices (\<lambda>it. classifyItem it = k) (m_items m)" for k
    unfolding indices_def by (rule filter_cong) (simp_all add: kind)
  moreover have "set (m_normal_items m) \<inter> set (m_fault_num_items m) = {}"
    using ok by (auto simp: model_ok_def Let_def indices_def)
  moreover have "hasPath it \<and> startsWith (i_path it) (CHR ''h'' # p) \<longleftrightarrow> startsWith (i_path it) (CHR ''h'' # p)" for it p
    by (auto simp: hasPath_def startsWith_def)
  moreover have "isRwMapType t \<longleftrightarrow> t = BoolRw \<or> t = IntRw"
    "isReadOutputMapType t \<longleftrightarrow> t = BoolRead \<or> t = IntRead \<or> t = TypeU16 \<or> t = TypeS16 \<or> t = TypeBit" for t
    by (auto simp: isRwMapType_def isReadOutputMapType_def)
  ultimately show ?thesis using ok by (simp add: model_ok_def Let_def classify_iff)
qed

text \<open>C27: The items of a block are placed as the file says: the \<open>i\<close>-th item of a successfully loaded block has the
  address it names, otherwise the base of the block plus \<open>i\<close>, otherwise none; an item that is no object keeps its
  place; and the load refuses a block only because an item without an address of its own lies beyond 0xFFFF.\<close>

theorem block_items_placed:
  assumes "length arr < 2 ^ 31"
  shows "case load_items 0 arr (m, blk) of
     Inr (m', blk') \<Rightarrow> \<exists>its. m_items m' = m_items m @ its \<and> length its = length arr \<and>
       (\<forall>i < length arr. i_item_index (its ! i) = i \<and> i_type (its ! i) = b_type blk \<and>
          i_addr (its ! i) = (case Option.bind (arr ! i) explicit_addr of Some a \<Rightarrow> Some a
            | None \<Rightarrow> (case b_base blk of Some b \<Rightarrow> if unat b + i \<le> 0xFFFF then Some (b + of_nat i) else None
                       | None \<Rightarrow> None)))
   | Inl i \<Rightarrow> i < length arr \<and> (\<exists>j b. arr ! i = Some j \<and> explicit_addr j = None \<and> b_base blk = Some b \<and>
       0xFFFF < unat b + i)"
proof (cases "load_items 0 arr (m, blk)")
  case (Inr mb')
  from load_items_placed [OF Inr] assms obtain its where its: "m_items (fst mb') = m_items m @ its"
    and m: "map (\<lambda>it. (i_item_index it, i_addr it, i_type it, i_path it)) its =
     map (\<lambda>i. (i, placed_addr (b_base blk) i (arr ! i), b_type blk,
        case arr ! i of Some j \<Rightarrow> text_or [] (readStringAny j [''path'']) | None \<Rightarrow> ''_'')) [0..<length arr]"
    by auto
  have len: "length its = length arr" using arg_cong [OF m, of length] by simp
  have "i_item_index (its ! i) = i \<and> i_addr (its ! i) = placed_addr (b_base blk) i (arr ! i) \<and> i_type (its ! i) = b_type blk"
    if "i < length arr" for i
    using arg_cong [OF m, of "\<lambda>xs. xs ! i"] that len by simp
  then show ?thesis using Inr its len
    by (auto simp: placed_addr_def or_else_def split: prod.split option.split)
next
  case (Inl i)
  from load_items_error [OF Inl] assms show ?thesis using Inl by simp
qed

section \<open>An example\<close>

definition example_object :: "string \<Rightarrow> string \<Rightarrow> jobj" where
  "example_object addr path = [k_addr_hex \<mapsto> VStr addr, k_len16 \<mapsto> VInt 1, ''path'' \<mapsto> VStr path]"

definition example_map :: "map_line list" where
  "example_map =
     [Object [''type'' \<mapsto> VStr ''bool_rw'']
        (Some [Some (example_object ''0x1001'' ''hmi.ctrl.btn.hv_on''), Some (example_object ''0x1002'' ''hmi.ctrl.btn.hv_off'')]),
      BlankLine,
      Object [''type'' \<mapsto> VStr '' INT_READ'', ''base'' \<mapsto> VStr ''16384'']
        (Some [None, Some [''path'' \<mapsto> VStr ''hmi.fault.num.cur_total_page'']])]"

lemma example_addrs:
  "stoul_all ''0x1001'' = Some 0x1001" "stoul_all ''0x1002'' = Some 0x1002" "stoul_all ''16384'' = Some 16384"
  by (simp_all add: is_space_def stoul_all_def prefix_base_def strip_0x_def all_digits_def after_sign_def digit_val_def
      stoul_def sto_parts_def Let_def)

lemma example_types: "parseType ''bool_rw'' = Some BoolRw" "parseType ''INT_READ'' = Some IntRead"
  by code_simp+

definition example_model :: hmi_model where
  "example_model = (case map_loadJsonl (Some example_map) of Inr m \<Rightarrow> m | Inl _ \<Rightarrow> model_init)"

lemmas example_load_simps =
  example_map_def example_object_def example_addrs example_types map_loadJsonl_def load_line_def readStringAny_def
  jsonToString_def trim_def is_space_def readU16Any_def readParams_def readDoubleAny_def readIntAny_def read_item_def
  seq_addr_def explicit_addr_def object_item_def new_item_def appendItemToModel_def inheritBlockDefaults_def or_else_def
  classifyItem_def hasPath_def startsWith_def push_at_def snoc_if_def isRwMapType_def isReadOutputMapType_def
  first_explicit_def model_init_def text_or_def
  k_start_addr_def k_scale_def k_offset_def k_min_def k_max_def k_description_def k_var_type_def k_addr_hex_def k_addr_def
  k_len16_def k_len_def

lemma example_loaded:
  "map_loadJsonl (Some example_map) = Inr example_model"
  "map (\<lambda>it. (i_addr it, i_path it, i_type it, i_words it)) (m_items example_model) =
     [(Some 0x1001, ''hmi.ctrl.btn.hv_on'', BoolRw, 1), (Some 0x1002, ''hmi.ctrl.btn.hv_off'', BoolRw, 1),
      (Some 0x4000, ''_'', IntRead, 1), (Some 0x4001, ''hmi.fault.num.cur_total_page'', IntRead, 1)]"
  unfolding example_model_def by (simp_all add: example_load_simps Let_def parseU16Any_def parseU32Any_def)

lemma example_items:
  obtains a b c d where "m_items example_model = [a, b, c, d]"
    "i_addr a = Some 0x1001" "i_path a = ''hmi.ctrl.btn.hv_on''" "i_type a = BoolRw"
    "i_addr b = Some 0x1002" "i_path b = ''hmi.ctrl.btn.hv_off''" "i_type b = BoolRw"
    "i_addr c = Some 0x4000" "i_path c = ''_''" "i_type c = IntRead"
    "i_addr d = Some 0x4001" "i_path d = ''hmi.fault.num.cur_total_page''" "i_type d = IntRead"
    "i_words a = 1" "i_words b = 1"
  using example_loaded(2) by (auto simp: map_eq_Cons_conv)

theorem loaded_map_indexed_witness:
  "findByAddr example_model 0x1002 = Some [1] \<and>
   findByPath example_model ''hmi.fault.num.cur_total_page'' = Some [3] \<and> findByPath example_model ''_'' = None \<and>
   m_rw_items example_model = [0, 1] \<and> m_normal_items example_model = []"
proof -
  obtain a b c d where "m_items example_model = [a, b, c, d]"
    "i_addr a = Some 0x1001" "i_path a = ''hmi.ctrl.btn.hv_on''" "i_type a = BoolRw"
    "i_addr b = Some 0x1002" "i_path b = ''hmi.ctrl.btn.hv_off''" "i_type b = BoolRw"
    "i_addr c = Some 0x4000" "i_path c = ''_''" "i_type c = IntRead"
    "i_addr d = Some 0x4001" "i_path d = ''hmi.fault.num.cur_total_page''" "i_type d = IntRead"
    by (rule example_items)
  then show ?thesis
    using loaded_map_indexed [OF example_loaded(1), where p = "''hmi.fault.num.cur_total_page''" and a = "0x1002"]
      loaded_map_indexed [OF example_loaded(1), where p = "''_''" and a = "0"]
    by (simp add: indices_def some_list_def hasPath_def startsWith_def upt_rec)
qed

definition example_block :: hmi_block where
  "example_block = \<lparr>b_type = IntRead, b_type_text = ''int_read'', b_base = Some 0xFFFE, b_src = [],
     b_params = readParams Map.empty, b_line_no = 1, b_item_indexes = []\<rparr>"

theorem block_items_placed_witness:
  "case load_items 0 [Some (example_object ''0x1001'' ''a''), None] (model_init, example_block) of
     Inr (m', _) \<Rightarrow> map i_addr (m_items m') = [Some 0x1001, Some 0xFFFF] | Inl i \<Rightarrow> False"
proof -
  have e: "explicit_addr (example_object ''0x1001'' ''a'') = Some 0x1001"
    by (simp add: explicit_addr_def readU16Any_def example_object_def parseU16Any_def parseU32Any_def trim_def is_space_def
        example_addrs k_addr_hex_def k_len16_def Let_def)
  note t = block_items_placed [where arr = "[Some (example_object ''0x1001'' ''a''), None]" and m = model_init and blk = example_block]
  show ?thesis
  proof (cases "load_items 0 [Some (example_object ''0x1001'' ''a''), None] (model_init, example_block)")
    case (Inl i)
    with t show ?thesis by (cases i) (auto simp: e nth_Cons')
  next
    case (Inr mb)
    obtain m' blk' where mb: "mb = (m', blk')" by fastforce
    with t Inr obtain its where its: "m_items m' = its" "length its = 2" and
      *: "\<forall>i < 2. i_addr (its ! i) = (case Option.bind ([Some (example_object ''0x1001'' ''a''), None] ! i) explicit_addr of
        Some a \<Rightarrow> Some a | None \<Rightarrow> (case b_base example_block of Some b \<Rightarrow>
          if unat b + i \<le> 0xFFFF then Some (b + of_nat i) else None | None \<Rightarrow> None))"
      by (auto simp: model_init_def)
    obtain x y where xy: "its = [x, y]" using its(2) by (auto simp: numeral_2_eq_2 length_Suc_conv)
    have "i_addr x = Some 0x1001" using *[rule_format, of 0] by (simp add: xy e)
    moreover have "i_addr y = Some 0xFFFF" using *[rule_format, of 1] by (simp add: xy example_block_def)
    ultimately show ?thesis using Inr mb its xy by simp
  qed
qed

end
