(* ===== verification/Fault_Pages.thy ===== *)
theory Fault_Pages
  imports Hmi_Map Fault_History
begin

text \<open>
  The fault pages of the operator panel (\<open>services/control/fault/fault_page_manager.cpp\<close>): the layout derived from
  the panel map, and the output of the current page and of a history page to the input registers. The output
  is the list of the register writes in the order of the code; a flush performs them. Log lines and the texts of
  errors are left out.
\<close>

section \<open>The layout\<close>

record fault_block =
  fb_base :: u16
  fb_count :: u16
  fb_words :: u16

definition block_init :: fault_block where
  "block_init = \<lparr>fb_base = 0, fb_count = 0, fb_words = 1\<rparr>"

definition block_valid :: "fault_block \<Rightarrow> bool" where
  "block_valid b \<longleftrightarrow> fb_base b \<noteq> 0 \<and> fb_count b \<noteq> 0 \<and> fb_words b \<noteq> 0"

record fault_layout =
  current_rows :: u16
  history_rows :: u16
  cur_total_pages :: fault_block
  cur_page_index :: fault_block
  cur_seq :: fault_block
  cur_code :: fault_block
  cur_on_time :: fault_block
  his_total_pages :: fault_block
  his_page_index :: fault_block
  his_seq :: fault_block
  his_code :: fault_block
  his_on_time :: fault_block
  his_off_time :: fault_block
  his_state :: fault_block
  lay_loaded :: bool

definition layout_init :: fault_layout where
  "layout_init = \<lparr>current_rows = 5, history_rows = 5, cur_total_pages = block_init, cur_page_index = block_init,
     cur_seq = block_init, cur_code = block_init, cur_on_time = block_init, his_total_pages = block_init,
     his_page_index = block_init, his_seq = block_init, his_code = block_init, his_on_time = block_init,
     his_off_time = block_init, his_state = block_init, lay_loaded = False\<rparr>"

definition currentValid :: "fault_layout \<Rightarrow> bool" where
  "currentValid L \<longleftrightarrow> block_valid (cur_total_pages L) \<and> block_valid (cur_page_index L) \<and> block_valid (cur_seq L) \<and>
     block_valid (cur_code L) \<and> block_valid (cur_on_time L)"

definition historyValid :: "fault_layout \<Rightarrow> bool" where
  "historyValid L \<longleftrightarrow> block_valid (his_total_pages L) \<and> block_valid (his_page_index L) \<and> block_valid (his_seq L) \<and>
     block_valid (his_code L) \<and> block_valid (his_on_time L) \<and> block_valid (his_off_time L) \<and> block_valid (his_state L)"

definition clampRowsByBlock :: "u16 \<Rightarrow> fault_block list \<Rightarrow> u16" where
  "clampRowsByBlock want bs =
     (let out = foldl (\<lambda>out b. if block_valid b then min out (fb_count b) else out) want bs in
      if out = 0 then want else out)"

definition rowNoBetween :: "string \<Rightarrow> string \<Rightarrow> string \<Rightarrow> nat" where
  "rowNoBetween s prefix suffix =
     (if s = [] \<or> \<not> startsWith s prefix \<or> length s \<le> length prefix + length suffix \<or>
         drop (length s - length suffix) s \<noteq> suffix
      then 0
      else let mid = take (length s - length prefix - length suffix) (drop (length prefix) s) in
        if mid = [] \<or> \<not> list_all is_digit mid then 0
        else case stoi mid of None \<Rightarrow> 0 | Some n \<Rightarrow> if 0 < n \<and> n \<le> 999 then nat n else 0)"

definition faultMapItemUsable :: "hmi_item \<Rightarrow> bool" where
  "faultMapItemUsable it \<longleftrightarrow> i_addr it \<noteq> None \<and> i_words it \<noteq> 0 \<and> i_path it \<noteq> [] \<and>
     startsWith (i_path it) ''hmi.fault.num.''"

definition item_block :: "hmi_item \<Rightarrow> u16 \<Rightarrow> fault_block" where
  "item_block it n = \<lparr>fb_base = the (i_addr it), fb_count = n, fb_words = (if i_words it = 0 then 1 else i_words it)\<rparr>"

definition buildSingleBlock :: "hmi_model \<Rightarrow> string \<Rightarrow> fault_block" where
  "buildSingleBlock m path =
     (if path = [] then block_init
      else case findByPath m path of None \<Rightarrow> block_init
        | Some owners \<Rightarrow>
            (case find faultMapItemUsable (List.map_filter (itemAt m) owners) of None \<Rightarrow> block_init
             | Some it \<Rightarrow> item_block it 1))"

definition collect_row :: "string \<Rightarrow> string \<Rightarrow> (nat \<rightharpoonup> hmi_item) \<Rightarrow> hmi_item \<Rightarrow> (nat \<rightharpoonup> hmi_item)" where
  "collect_row prefix suffix rows it =
     (if \<not> faultMapItemUsable it then rows
      else let row = rowNoBetween (i_path it) prefix suffix in
        if row = 0 then rows else if rows row = None then rows(row \<mapsto> it) else rows)"

definition row_items :: "hmi_model \<Rightarrow> hmi_item list" where
  "row_items m = (if m_fault_num_items m \<noteq> [] then List.map_filter (itemAt m) (m_fault_num_items m) else m_items m)"

definition buildRowBlock :: "hmi_model \<Rightarrow> string \<Rightarrow> string \<Rightarrow> fault_block" where
  "buildRowBlock m prefix suffix =
     (let rows = foldl (collect_row prefix suffix) Map.empty (row_items m) in
      case rows 1 of None \<Rightarrow> block_init
      | Some first \<Rightarrow>
          let count = length (takeWhile (\<lambda>i. rows i \<noteq> None) [1..<1000])
          in if count = 0 then block_init else item_block first (of_nat count))"

definition layout_blocks :: "hmi_model \<Rightarrow> fault_layout" where
  "layout_blocks m = layout_init
     \<lparr>cur_total_pages := buildSingleBlock m ''hmi.fault.num.cur_total_page'',
      cur_page_index := buildSingleBlock m ''hmi.fault.num.cur_show_page'',
      cur_seq := buildRowBlock m ''hmi.fault.num.cur_row'' ''_snum'',
      cur_code := buildRowBlock m ''hmi.fault.num.cur_row'' ''_code'',
      cur_on_time := buildRowBlock m ''hmi.fault.num.cur_row'' ''_triggertime'',
      his_total_pages := buildSingleBlock m ''hmi.fault.num.his_total_page'',
      his_page_index := buildSingleBlock m ''hmi.fault.num.his_show_page'',
      his_seq := buildRowBlock m ''hmi.fault.num.his_row'' ''_snum'',
      his_code := buildRowBlock m ''hmi.fault.num.his_row'' ''_code'',
      his_on_time := buildRowBlock m ''hmi.fault.num.his_row'' ''_triggertime'',
      his_off_time := buildRowBlock m ''hmi.fault.num.his_row'' ''_disapptime'',
      his_state := buildRowBlock m ''hmi.fault.num.his_row'' ''_state''\<rparr>"

definition buildLayoutFromHmiMap :: "hmi_model \<Rightarrow> fault_layout \<Rightarrow> bool \<times> fault_layout" where
  "buildLayoutFromHmiMap m L =
     (let next = layout_blocks m;
          next = next\<lparr>current_rows := clampRowsByBlock (current_rows next) [cur_seq next, cur_code next, cur_on_time next],
            history_rows := clampRowsByBlock (history_rows next)
              [his_seq next, his_code next, his_on_time next, his_off_time next, his_state next]\<rparr>
      in if \<not> currentValid next then (False, L\<lparr>lay_loaded := False\<rparr>)
         else if \<not> historyValid next then (False, L\<lparr>lay_loaded := False\<rparr>)
         else (True, next\<lparr>lay_loaded := True\<rparr>))"

section \<open>The output\<close>

type_synonym reg_writes = "(u16 \<times> u16) list"

definition perform :: "reg_writes \<Rightarrow> hmi_table \<Rightarrow> hmi_table" where
  "perform ws t = foldl (\<lambda>t (a, v). setIntRead a v t) t ws"

definition u32ToBlockRow :: "fault_block \<Rightarrow> nat \<Rightarrow> u32 \<Rightarrow> reg_writes" where
  "u32ToBlockRow blk row value =
     (if \<not> block_valid blk \<or> unat (fb_count blk) \<le> row then []
      else let base = fb_base blk + of_nat row * fb_words blk in
        if fb_words blk \<le> 1 then [(base, ucast (value AND 0xFFFF))]
        else [(base, ucast (drop_bit 16 value AND 0xFFFF)), (base + 1, ucast (value AND 0xFFFF))] @
             map (\<lambda>i. (base + of_nat i, 0)) [2..<unat (fb_words blk)])"

definition current_row_writes :: "fault_layout \<Rightarrow> nat \<Rightarrow> current_row option \<Rightarrow> reg_writes" where
  "current_row_writes L i row =
     (let r = (case row of Some r \<Rightarrow> r | None \<Rightarrow> \<lparr>cr_seq_no = 0, cr_code = 0, cr_on_time = 0\<rparr>) in
      [(fb_base (cur_seq L) + of_nat i, cr_seq_no r), (fb_base (cur_code L) + of_nat i, cr_code r)] @
      u32ToBlockRow (cur_on_time L) i (cr_on_time r))"

definition clearCurrentToHmi :: "fault_layout \<Rightarrow> reg_writes" where
  "clearCurrentToHmi L =
     (if \<not> currentValid L then []
      else [(fb_base (cur_total_pages L), 0), (fb_base (cur_page_index L), 0)] @
           concat (map (\<lambda>i. current_row_writes L i None) [0..<unat (current_rows L)]))"

definition flushCurrentToHmi :: "fault_layout \<Rightarrow> fault_center option \<Rightarrow> reg_writes" where
  "flushCurrentToHmi L center =
     (if \<not> currentValid L then []
      else case center of None \<Rightarrow> clearCurrentToHmi L
        | Some fc \<Rightarrow>
            let rows = buildCurrentRows fc; total = currentTotalPages fc;
                index = (if total = 0 then 0 else current_page fc + 1)
            in [(fb_base (cur_total_pages L), total), (fb_base (cur_page_index L), index)] @
               concat (map (\<lambda>i. current_row_writes L i (if i < length rows then Some (rows ! i) else None))
                 [0..<unat (current_rows L)]))"

text \<open>The row of the history page as it goes to the panel: times in seconds.\<close>

definition history_row_writes :: "fault_layout \<Rightarrow> nat \<Rightarrow> view_row option \<Rightarrow> reg_writes" where
  "history_row_writes L i row =
     (let (seq, code, on_sec, off_sec, state) =
            (case row of Some r \<Rightarrow> (vr_seq_no r, vr_code r, ucast (vr_first_on_ms r div 1000),
                                   ucast (vr_clear_ms r div 1000), vr_state r)
             | None \<Rightarrow> (0, 0, 0, 0, 0))
      in [(fb_base (his_seq L) + of_nat i, seq), (fb_base (his_code L) + of_nat i, code)] @
         u32ToBlockRow (his_on_time L) i on_sec @ u32ToBlockRow (his_off_time L) i off_sec @
         [(fb_base (his_state L) + of_nat i, state)])"

definition clearHistoryToHmi :: "fault_layout \<Rightarrow> reg_writes" where
  "clearHistoryToHmi L =
     (if \<not> historyValid L then []
      else [(fb_base (his_total_pages L), 0), (fb_base (his_page_index L), 0)] @
           concat (map (\<lambda>i. history_row_writes L i None) [0..<unat (history_rows L)]))"

definition flushHistoryToHmi :: "fault_layout \<Rightarrow> hist_cache option \<Rightarrow> u16 \<Rightarrow> reg_writes" where
  "flushHistoryToHmi L cache page_no =
     (if \<not> historyValid L then []
      else case cache of None \<Rightarrow> clearHistoryToHmi L
        | Some hc \<Rightarrow>
            let rows = pageRows hc page_no; total = total_pages hc; index = (if total = 0 then 0 else page_no)
            in [(fb_base (his_total_pages L), total), (fb_base (his_page_index L), index)] @
               concat (map (\<lambda>i. history_row_writes L i (if i < length rows then Some (rows ! i) else None))
                 [0..<unat (history_rows L)]))"

definition flushToHmi ::
  "fault_layout \<Rightarrow> fault_center option \<Rightarrow> hist_cache option \<Rightarrow> u16 \<Rightarrow> hmi_table \<Rightarrow> hmi_table" where
  "flushToHmi L center cache page_no t =
     (if \<not> lay_loaded L then t
      else perform (flushHistoryToHmi L cache page_no) (perform (flushCurrentToHmi L center) t))"

section \<open>Facts on the output\<close>

lemma read_perform:
  "readIntRead a (perform ws t) =
     (if inRange a HMI_INT_RD_START HMI_INT_RD_END
      then (case map_of (rev ws) a of Some v \<Rightarrow> v | None \<Rightarrow> readIntRead a t) else readIntRead a t)"
  unfolding perform_def
  by (induction ws rule: rev_induct) (auto simp: int_rd.get_set split: option.splits)

lemma perform_append: "perform (ws @ ws') t = perform ws' (perform ws t)"
  by (simp add: perform_def)

lemma read_written:
  assumes "distinct (map fst ws)" "(a, v) \<in> set ws" "inRange a HMI_INT_RD_START HMI_INT_RD_END"
  shows "readIntRead a (perform ws t) = v"
proof -
  have "map_of (rev ws) a = Some v" using assms(1,2) by (intro map_of_is_SomeI) (simp_all add: rev_map [symmetric])
  then show ?thesis using assms(3) by (simp add: read_perform)
qed

lemma read_unwritten: "a \<notin> set (map fst ws) \<Longrightarrow> readIntRead a (perform ws t) = readIntRead a t"
proof -
  assume "a \<notin> set (map fst ws)"
  then have "map_of (rev ws) a = None" by (simp add: map_of_eq_None_iff)
  then show ?thesis by (simp add: read_perform)
qed

text \<open>The registers of a layout: the output writes the same ones whatever it shows.\<close>

definition layout_regs :: "fault_layout \<Rightarrow> u16 list" where
  "layout_regs L = map fst (clearCurrentToHmi L @ clearHistoryToHmi L)"

lemma fst_u32: "map fst (u32ToBlockRow b i v) = map fst (u32ToBlockRow b i 0)"
  by (simp add: u32ToBlockRow_def Let_def comp_def)

lemma fst_rows:
  "map fst (current_row_writes L i r) = map fst (current_row_writes L i None)"
  "map fst (history_row_writes L i r') = map fst (history_row_writes L i None)"
  using fst_u32 by (simp_all add: current_row_writes_def history_row_writes_def Let_def case_prod_beta split: option.split) metis+

lemma fst_concat: "(\<And>i. map fst (f i) = map fst (g i)) \<Longrightarrow> map fst (concat (map f is)) = map fst (concat (map g is))"
  by (induction "is") simp_all

lemma flush_regs:
  "map fst (flushCurrentToHmi L (Some fc) @ flushHistoryToHmi L (Some hc) page_no) = layout_regs L"
proof -
  have "map fst (flushCurrentToHmi L (Some fc)) = map fst (clearCurrentToHmi L)"
    by (simp add: flushCurrentToHmi_def clearCurrentToHmi_def Let_def) (intro impI fst_concat fst_rows)
  moreover have "map fst (flushHistoryToHmi L (Some hc) page_no) = map fst (clearHistoryToHmi L)"
    by (simp add: flushHistoryToHmi_def clearHistoryToHmi_def Let_def) (intro impI fst_concat fst_rows)
  ultimately show ?thesis by (simp add: layout_regs_def)
qed

definition layout_ok :: "fault_layout \<Rightarrow> bool" where
  "layout_ok L \<longleftrightarrow> lay_loaded L \<and> currentValid L \<and> historyValid L \<and>
     fb_words (cur_on_time L) = 2 \<and> fb_words (his_on_time L) = 2 \<and> fb_words (his_off_time L) = 2 \<and>
     current_rows L \<le> fb_count (cur_on_time L) \<and> history_rows L \<le> fb_count (his_on_time L) \<and>
     history_rows L \<le> fb_count (his_off_time L) \<and>
     distinct (layout_regs L) \<and> (\<forall>a \<in> set (layout_regs L). inRange a HMI_INT_RD_START HMI_INT_RD_END)"

text \<open>A number in two registers, high half first.\<close>

definition reg32 :: "u16 \<Rightarrow> hmi_table \<Rightarrow> u32" where
  "reg32 a t = (push_bit 16 (ucast (readIntRead a t)) OR ucast (readIntRead (a + 1) t))"

lemma join_halves: "push_bit 16 (ucast (ucast (drop_bit 16 v AND 0xFFFF :: u32) :: u16)) OR ucast (ucast (v AND 0xFFFF :: u32) :: u16) = v"
proof -
  have m: "(0xFFFF :: u32) = mask 16" by (simp add: mask_eq_exp_minus_1)
  show ?thesis unfolding m by (rule bit_word_eqI) (auto simp: bit_simps)
qed

lemma flush_written:
  assumes "layout_ok L"
    and "(a, v) \<in> set (flushCurrentToHmi L (Some fc) @ flushHistoryToHmi L (Some hc) page_no)"
  shows "readIntRead a (flushToHmi L (Some fc) (Some hc) page_no t) = v"
proof -
  have "a \<in> set (layout_regs L)" using assms(2) unfolding flush_regs [of L fc hc page_no, symmetric] by force
  then show ?thesis
    using read_written [OF _ assms(2)] assms(1) flush_regs [of L fc hc page_no]
    by (simp add: flushToHmi_def layout_ok_def perform_append [symmetric] del: map_append)
qed

lemma flush_u32:
  assumes "layout_ok L" "fb_words b = 2" "block_valid b" "i < unat (fb_count b)"
    and "set (u32ToBlockRow b i v) \<subseteq> set (flushCurrentToHmi L (Some fc) @ flushHistoryToHmi L (Some hc) page_no)"
  shows "reg32 (fb_base b + of_nat i * 2) (flushToHmi L (Some fc) (Some hc) page_no t) = v"
proof -
  have "u32ToBlockRow b i v = [(fb_base b + of_nat i * 2, ucast (drop_bit 16 v AND 0xFFFF)),
      (fb_base b + of_nat i * 2 + 1, ucast (v AND 0xFFFF))]"
    using assms(2,3,4) by (simp add: u32ToBlockRow_def Let_def word_le_nat_alt)
  with assms(5) have "readIntRead (fb_base b + of_nat i * 2) (flushToHmi L (Some fc) (Some hc) page_no t) = ucast (drop_bit 16 v AND 0xFFFF)"
    "readIntRead (fb_base b + of_nat i * 2 + 1) (flushToHmi L (Some fc) (Some hc) page_no t) = ucast (v AND 0xFFFF)"
    by (auto intro!: flush_written [OF assms(1)])
  then show ?thesis unfolding reg32_def by (simp only: join_halves)
qed

text \<open>What the panel shows of the current faults and of a history page.\<close>

definition row_or :: "'a \<Rightarrow> 'a list \<Rightarrow> nat \<Rightarrow> 'a" where
  "row_or z rows i = (if i < length rows then rows ! i else z)"

definition shows_current :: "fault_layout \<Rightarrow> fault_center \<Rightarrow> hmi_table \<Rightarrow> bool" where
  "shows_current L fc t \<longleftrightarrow>
     readIntRead (fb_base (cur_total_pages L)) t = currentTotalPages fc \<and>
     readIntRead (fb_base (cur_page_index L)) t = (if currentTotalPages fc = 0 then 0 else current_page fc + 1) \<and>
     (\<forall>i < unat (current_rows L).
        let r = row_or \<lparr>cr_seq_no = 0, cr_code = 0, cr_on_time = 0\<rparr> (buildCurrentRows fc) i in
        readIntRead (fb_base (cur_seq L) + of_nat i) t = cr_seq_no r \<and>
        readIntRead (fb_base (cur_code L) + of_nat i) t = cr_code r \<and>
        reg32 (fb_base (cur_on_time L) + of_nat i * 2) t = cr_on_time r)"

definition empty_view_row :: view_row where
  "empty_view_row = \<lparr>vr_db_id = 0, vr_code = 0, vr_first_on_ms = 0, vr_clear_ms = 0, vr_seq_no = 0, vr_state = 0,
     vr_name = [], vr_classification = [], vr_priority_rank = 0\<rparr>"

definition shows_history :: "fault_layout \<Rightarrow> hist_cache \<Rightarrow> u16 \<Rightarrow> hmi_table \<Rightarrow> bool" where
  "shows_history L hc page_no t \<longleftrightarrow>
     readIntRead (fb_base (his_total_pages L)) t = total_pages hc \<and>
     readIntRead (fb_base (his_page_index L)) t = (if total_pages hc = 0 then 0 else page_no) \<and>
     (\<forall>i < unat (history_rows L).
        let r = row_or empty_view_row (pageRows hc page_no) i in
        readIntRead (fb_base (his_seq L) + of_nat i) t = vr_seq_no r \<and>
        readIntRead (fb_base (his_code L) + of_nat i) t = vr_code r \<and>
        reg32 (fb_base (his_on_time L) + of_nat i * 2) t = ucast (vr_first_on_ms r div 1000) \<and>
        reg32 (fb_base (his_off_time L) + of_nat i * 2) t = ucast (vr_clear_ms r div 1000) \<and>
        readIntRead (fb_base (his_state L) + of_nat i) t = vr_state r)"

lemma flush_shows_current:
  assumes ok: "layout_ok L"
  shows "shows_current L fc (flushToHmi L (Some fc) (Some hc) p t)"
proof -
  define W where "W = flushCurrentToHmi L (Some fc) @ flushHistoryToHmi L (Some hc) p"
  note written = flush_written [OF ok, of _ _ fc hc p t, folded W_def]
  have v: "currentValid L" using ok by (simp add: layout_ok_def)
  have heads: "(fb_base (cur_total_pages L), currentTotalPages fc) \<in> set W"
    "(fb_base (cur_page_index L), if currentTotalPages fc = 0 then 0 else current_page fc + 1) \<in> set W"
    using v by (simp_all add: W_def flushCurrentToHmi_def Let_def)
  have row: "let r = row_or \<lparr>cr_seq_no = 0, cr_code = 0, cr_on_time = 0\<rparr> (buildCurrentRows fc) i in
        readIntRead (fb_base (cur_seq L) + of_nat i) (flushToHmi L (Some fc) (Some hc) p t) = cr_seq_no r \<and>
        readIntRead (fb_base (cur_code L) + of_nat i) (flushToHmi L (Some fc) (Some hc) p t) = cr_code r \<and>
        reg32 (fb_base (cur_on_time L) + of_nat i * 2) (flushToHmi L (Some fc) (Some hc) p t) = cr_on_time r"
    if i: "i < unat (current_rows L)" for i
  proof -
    let ?rows = "buildCurrentRows fc"
    define r where "r = row_or \<lparr>cr_seq_no = 0, cr_code = 0, cr_on_time = 0\<rparr> ?rows i"
    have sub: "set (current_row_writes L i (if i < length ?rows then Some (?rows ! i) else None)) \<subseteq> set W"
      using v i by (auto simp: W_def flushCurrentToHmi_def Let_def)
    have w: "current_row_writes L i (if i < length ?rows then Some (?rows ! i) else None) =
       [(fb_base (cur_seq L) + of_nat i, cr_seq_no r), (fb_base (cur_code L) + of_nat i, cr_code r)] @
       u32ToBlockRow (cur_on_time L) i (cr_on_time r)"
      by (simp add: current_row_writes_def r_def row_or_def Let_def)
    have "set (u32ToBlockRow (cur_on_time L) i (cr_on_time r)) \<subseteq> set W" using sub w by auto
    from flush_u32 [OF ok _ _ _ this [unfolded W_def]] v i ok
    have "reg32 (fb_base (cur_on_time L) + of_nat i * 2) (flushToHmi L (Some fc) (Some hc) p t) = cr_on_time r"
      by (simp add: layout_ok_def currentValid_def word_le_nat_alt)
    then show ?thesis using sub w written unfolding r_def [symmetric] Let_def by auto
  qed
  show ?thesis unfolding shows_current_def using heads row by (auto intro!: written)
qed

lemma flush_shows_history:
  assumes ok: "layout_ok L"
  shows "shows_history L hc p (flushToHmi L (Some fc) (Some hc) p t)"
proof -
  define W where "W = flushCurrentToHmi L (Some fc) @ flushHistoryToHmi L (Some hc) p"
  note written = flush_written [OF ok, of _ _ fc hc p t, folded W_def]
  have v: "historyValid L" using ok by (simp add: layout_ok_def)
  have heads: "(fb_base (his_total_pages L), total_pages hc) \<in> set W"
    "(fb_base (his_page_index L), if total_pages hc = 0 then 0 else p) \<in> set W"
    using v by (simp_all add: W_def flushHistoryToHmi_def Let_def)
  have row: "let r = row_or empty_view_row (pageRows hc p) i; t' = flushToHmi L (Some fc) (Some hc) p t in
        readIntRead (fb_base (his_seq L) + of_nat i) t' = vr_seq_no r \<and>
        readIntRead (fb_base (his_code L) + of_nat i) t' = vr_code r \<and>
        reg32 (fb_base (his_on_time L) + of_nat i * 2) t' = ucast (vr_first_on_ms r div 1000) \<and>
        reg32 (fb_base (his_off_time L) + of_nat i * 2) t' = ucast (vr_clear_ms r div 1000) \<and>
        readIntRead (fb_base (his_state L) + of_nat i) t' = vr_state r"
    if i: "i < unat (history_rows L)" for i
  proof -
    let ?rows = "pageRows hc p"
    define r where "r = row_or empty_view_row ?rows i"
    have sub: "set (history_row_writes L i (if i < length ?rows then Some (?rows ! i) else None)) \<subseteq> set W"
      using v i by (auto simp: W_def flushHistoryToHmi_def Let_def)
    have w: "history_row_writes L i (if i < length ?rows then Some (?rows ! i) else None) =
       [(fb_base (his_seq L) + of_nat i, vr_seq_no r), (fb_base (his_code L) + of_nat i, vr_code r)] @
       u32ToBlockRow (his_on_time L) i (ucast (vr_first_on_ms r div 1000)) @
       u32ToBlockRow (his_off_time L) i (ucast (vr_clear_ms r div 1000)) @ [(fb_base (his_state L) + of_nat i, vr_state r)]"
      by (simp add: history_row_writes_def r_def row_or_def empty_view_row_def Let_def)
    have on: "set (u32ToBlockRow (his_on_time L) i (ucast (vr_first_on_ms r div 1000))) \<subseteq> set W"
      and off: "set (u32ToBlockRow (his_off_time L) i (ucast (vr_clear_ms r div 1000))) \<subseteq> set W"
      using sub w by auto
    from flush_u32 [OF ok _ _ _ on [unfolded W_def]] flush_u32 [OF ok _ _ _ off [unfolded W_def]] v i ok
    have "reg32 (fb_base (his_on_time L) + of_nat i * 2) (flushToHmi L (Some fc) (Some hc) p t) = ucast (vr_first_on_ms r div 1000)"
      "reg32 (fb_base (his_off_time L) + of_nat i * 2) (flushToHmi L (Some fc) (Some hc) p t) = ucast (vr_clear_ms r div 1000)"
      by (simp_all add: layout_ok_def historyValid_def word_le_nat_alt)
    then show ?thesis using sub w written unfolding r_def [symmetric] Let_def by auto
  qed
  show ?thesis unfolding shows_history_def using heads row by (auto intro!: written simp: Let_def)
qed

lemma flush_other_regs:
  assumes "a \<notin> set (layout_regs L)"
  shows "readIntRead a (flushToHmi L (Some fc) (Some hc) p t) = readIntRead a t"
  using read_unwritten [of a "flushCurrentToHmi L (Some fc) @ flushHistoryToHmi L (Some hc) p"] assms
  by (simp add: flushToHmi_def perform_append [symmetric] flush_regs del: map_append set_map)

section \<open>Facts on the layout\<close>

lemma digit_char_facts:
  assumes "n < 10"
  shows "digit_val (digit_char n) = n" "\<not> is_space (digit_char n)" "digit_char n \<noteq> CHR ''-''" "digit_char n \<noteq> CHR ''+''"
proof -
  have c: "(of_char (digit_char n) :: nat) = 48 + n" using assms by (simp add: digit_char_def)
  show "digit_val (digit_char n) = n" "\<not> is_space (digit_char n)"
    using assms by (simp_all add: digit_val_def is_space_def c Let_def)
  have "(of_char (CHR ''-'') :: nat) = 45" "(of_char (CHR ''+'') :: nat) = 43" by simp_all
  with c show "digit_char n \<noteq> CHR ''-''" "digit_char n \<noteq> CHR ''+''" by (auto simp del: of_char_of)
qed

lemma digits_val_snoc:
  "list_all is_digit ds \<Longrightarrow> is_digit c \<Longrightarrow> digits_val 10 (ds @ [c]) acc = digits_val 10 ds acc * 10 + digit_val c"
  by (induction ds arbitrary: acc) (simp_all add: is_digit_def)

lemma to_string_number: "list_all is_digit (to_string n) \<and> digits_val 10 (to_string n) 0 = n"
proof (induction n rule: to_string.induct)
  case (1 n)
  show ?case
  proof (cases "n < 10")
    case True
    then show ?thesis by (subst (1 2) to_string.simps) (simp add: is_digit_def digit_char_facts)
  next
    case False
    then have "to_string n = to_string (n div 10) @ [digit_char (n mod 10)]" by (subst to_string.simps) simp
    moreover have "is_digit (digit_char (n mod 10))" by (simp add: is_digit_def digit_char_facts(1))
    ultimately show ?thesis using 1 [OF False] by (simp add: digits_val_snoc digit_char_facts(1))
  qed
qed

lemma stoi_to_string:
  assumes "k < 2 ^ 31"
  shows "stoi (to_string k) = Some (int k)"
proof -
  obtain c cs where cs: "to_string k = c # cs" by (cases "to_string k") (auto simp: to_string.simps [of k] split: if_splits)
  have c: "is_digit c" using to_string_number [of k] by (simp add: cs)
  then have n: "c \<noteq> CHR ''-''" "c \<noteq> CHR ''+''" "\<not> is_space c"
    by (auto simp: is_digit_def digit_val_def is_space_def Let_def split: if_splits)
  have "strip_0x 10 (c # cs) = c # cs" by (simp add: strip_0x_def split: list.split)
  then have "sto_parts 10 (to_string k) = Some (False, k)"
    using c n to_string_number [of k] by (simp add: sto_parts_def cs is_digit_def Let_def)
  then show ?thesis using assms by (simp add: stoi_def Let_def)
qed

text \<open>The number of a row is read back from its name.\<close>

lemma row_name_number:
  assumes "1 \<le> k" "k \<le> 999"
  shows "rowNoBetween (p @ to_string k @ s) p s = k"
proof -
  have "to_string k \<noteq> []" by (subst to_string.simps) simp
  then show ?thesis
    using assms to_string_number [of k] stoi_to_string [of k]
    by (simp add: rowNoBetween_def startsWith_def Let_def)
qed

lemma collect_rows:
  "foldl (collect_row p s) rows its k =
     (if k = 0 then rows 0
      else case rows k of Some it \<Rightarrow> Some it
        | None \<Rightarrow> find (\<lambda>it. faultMapItemUsable it \<and> rowNoBetween (i_path it) p s = k) its)"
proof (induction its arbitrary: rows)
  case (Cons it its)
  then show ?case by (auto simp: collect_row_def Let_def split: option.splits)
qed (simp split: option.split)

definition row_item :: "hmi_model \<Rightarrow> string \<Rightarrow> string \<Rightarrow> nat \<Rightarrow> hmi_item option" where
  "row_item m p s k = find (\<lambda>it. faultMapItemUsable it \<and> rowNoBetween (i_path it) p s = k) (m_items m)"

lemma find_filter: "(\<And>x. P x \<Longrightarrow> Q x) \<Longrightarrow> find P (filter Q xs) = find P xs"
  by (induction xs) auto

lemma items_at_indices: "List.map_filter (itemAt m) (indices P (m_items m)) = filter P (m_items m)"
proof -
  have "List.map_filter (itemAt m) (filter (\<lambda>i. P (m_items m ! i)) is) = map ((!) (m_items m)) (filter (\<lambda>i. P (m_items m ! i)) is)"
    if "\<forall>i \<in> set is. i < length (m_items m)" for "is"
    using that by (induction "is") (simp_all add: List.map_filter_def itemAt_def)
  moreover have "map ((!) xs) (filter (\<lambda>i. P (xs ! i)) [0..<length xs]) = filter P xs" for xs :: "hmi_item list"
  proof -
    have "filter P xs = filter P (map ((!) xs) [0..<length xs])" by (simp only: map_nth)
    then show ?thesis by (simp only: filter_map comp_def)
  qed
  ultimately show ?thesis by (simp add: indices_def)
qed

lemma row_items_find:
  assumes "model_ok m"
  shows "find (\<lambda>it. faultMapItemUsable it \<and> rowNoBetween (i_path it) p s = k) (row_items m) = row_item m p s k"
proof -
  have fault: "hasPath it \<and> startsWith (i_path it) ''hmi.fault.num.''" if "faultMapItemUsable it" for it
    using that by (auto simp: faultMapItemUsable_def hasPath_def startsWith_def)
  have "m_fault_num_items m = indices (\<lambda>it. hasPath it \<and> startsWith (i_path it) ''hmi.fault.num.'') (m_items m)"
    using assms by (simp add: model_ok_def Let_def)
  then show ?thesis unfolding row_items_def row_item_def
    using fault by (simp add: items_at_indices) (intro impI find_filter, blast)
qed

lemma row_block:
  assumes "model_ok m" "block_valid (buildRowBlock m p s)"
  shows "\<exists>it. row_item m p s 1 = Some it \<and> i_addr it = Some (fb_base (buildRowBlock m p s)) \<and>
     i_words it = fb_words (buildRowBlock m p s) \<and>
     (\<forall>k. 1 \<le> k \<and> k \<le> unat (fb_count (buildRowBlock m p s)) \<longrightarrow> row_item m p s k \<noteq> None)"
proof -
  have rows: "foldl (collect_row p s) Map.empty (row_items m) k = row_item m p s k" if "k \<noteq> 0" for k
    using that by (simp add: collect_rows row_items_find [OF assms(1)])
  define n where "n = length (takeWhile (\<lambda>i. row_item m p s i \<noteq> None) [1..<1000])"
  have n: "n = length (takeWhile (\<lambda>i. foldl (collect_row p s) Map.empty (row_items m) i \<noteq> None) [1..<1000])"
    unfolding n_def by (rule arg_cong [where f = length], rule takeWhile_cong) (simp_all add: rows)
  obtain it where it: "row_item m p s 1 = Some it" "buildRowBlock m p s = item_block it (of_nat n)"
    using assms(2) rows [of 1] n
    by (auto simp: buildRowBlock_def block_valid_def block_init_def Let_def split: option.splits if_splits)
  have "faultMapItemUsable it" using it(1) unfolding row_item_def by (auto simp: find_Some_iff)
  then have u: "i_addr it = Some (the (i_addr it))" "i_words it \<noteq> 0" by (auto simp: faultMapItemUsable_def)
  have "row_item m p s k \<noteq> None" if "1 \<le> k" "k \<le> unat (of_nat n :: u16)" for k
  proof -
    have "n < 2 ^ 16" using length_takeWhile_le [of "\<lambda>i. row_item m p s i \<noteq> None" "[1..<1000]"] by (simp add: n_def)
    then have "k - 1 < n" using that by (simp add: unat_of_nat)
    have "([1..<1000] ! (k - 1)) \<in> set (takeWhile (\<lambda>i. row_item m p s i \<noteq> None) [1..<1000])"
      using \<open>k - 1 < n\<close> unfolding n_def by (metis nth_mem takeWhile_nth)
    then have "row_item m p s ([1..<1000] ! (k - 1)) \<noteq> None" by (rule set_takeWhileD [THEN conjunct2])
    moreover have "k - 1 < length [1..<1000]"
      using \<open>k - 1 < n\<close> length_takeWhile_le [of "\<lambda>i. row_item m p s i \<noteq> None" "[1..<1000]"] unfolding n_def by (rule order_less_le_trans)
    then have "[1..<1000] ! (k - 1) = k" using that(1) by simp
    ultimately show ?thesis by simp
  qed
  then show ?thesis using it u by (simp add: item_block_def)
qed

lemma foldl_min_le: "foldl (\<lambda>out b. min out (f b)) w bs \<le> (w :: u16)"
proof (induction bs arbitrary: w)
  case (Cons b bs)
  have "foldl (\<lambda>out b. min out (f b)) (min w (f b)) bs \<le> min w (f b)" by (rule Cons)
  also have "\<dots> \<le> w" by (rule min.cobounded1)
  finally show ?case by simp
qed simp

lemma clampRows_bounds:
  assumes "0 < want" "\<forall>b \<in> set bs. block_valid b"
  shows "clampRowsByBlock want bs \<le> want" "0 < clampRowsByBlock want bs"
    "b \<in> set bs \<Longrightarrow> clampRowsByBlock want bs \<le> fb_count b"
proof -
  have *: "foldl (\<lambda>out b. if block_valid b then min out (fb_count b) else out) w bs = foldl (\<lambda>out b. min out (fb_count b)) w bs" for w
    using assms(2) by (induction bs arbitrary: w) simp_all
  have mem: "b \<in> set bs \<Longrightarrow> foldl (\<lambda>out b. min out (fb_count b)) w bs \<le> fb_count b" for w b
  proof (induction bs arbitrary: w)
    case (Cons c bs)
    have "foldl (\<lambda>out b. min out (fb_count b)) (min w (fb_count c)) bs \<le> fb_count c" for w
      by (rule order_trans [OF foldl_min_le]) simp
    with Cons show ?case by auto
  qed simp
  have pos: "0 < w \<Longrightarrow> 0 < foldl (\<lambda>out b. min out (fb_count b)) w bs" for w
    using assms(2) by (induction bs arbitrary: w) (auto simp: block_valid_def word_neq_0_conv min_def)
  show "clampRowsByBlock want bs \<le> want" "0 < clampRowsByBlock want bs"
    "b \<in> set bs \<Longrightarrow> clampRowsByBlock want bs \<le> fb_count b"
    using foldl_min_le [of fb_count want bs] pos [OF assms(1)] mem [of b want] by (auto simp: clampRowsByBlock_def * Let_def)
qed

lemma layout_rows [simp]: "current_rows (layout_blocks m) = 5" "history_rows (layout_blocks m) = 5"
  by (simp_all add: layout_blocks_def layout_init_def)

definition row_blocks :: "fault_layout \<Rightarrow> (fault_block \<times> string \<times> string) list" where
  "row_blocks L =
     [(cur_seq L, ''hmi.fault.num.cur_row'', ''_snum''), (cur_code L, ''hmi.fault.num.cur_row'', ''_code''),
      (cur_on_time L, ''hmi.fault.num.cur_row'', ''_triggertime''), (his_seq L, ''hmi.fault.num.his_row'', ''_snum''),
      (his_code L, ''hmi.fault.num.his_row'', ''_code''), (his_on_time L, ''hmi.fault.num.his_row'', ''_triggertime''),
      (his_off_time L, ''hmi.fault.num.his_row'', ''_disapptime''), (his_state L, ''hmi.fault.num.his_row'', ''_state'')]"

section \<open>Properties\<close>

text \<open>C25: The layout of the fault pages follows the panel map. A layout built from a loaded map has all its registers; each
  of its eight columns starts at the address of the first item of the map that names row 1 of the column, with the
  width of that item, and the map names every further row of it; it has at least one and at most five rows per page
  and never more than any of its columns. The names are read as they are written: row \<open>k\<close> is the item with the
  decimal text of \<open>k\<close> between the prefix and the suffix.\<close>

theorem layout_follows_map:
  assumes "map_loadJsonl f = Inr m" and "buildLayoutFromHmiMap m L0 = (True, L)"
  shows "lay_loaded L \<and> currentValid L \<and> historyValid L \<and>
     (\<forall>(b, p, s) \<in> set (row_blocks L). \<exists>it. row_item m p s 1 = Some it \<and> i_addr it = Some (fb_base b) \<and>
        i_words it = fb_words b \<and> (\<forall>k. 1 \<le> k \<and> k \<le> unat (fb_count b) \<longrightarrow> row_item m p s k \<noteq> None)) \<and>
     1 \<le> current_rows L \<and> current_rows L \<le> 5 \<and> (\<forall>(b, _) \<in> set (take 3 (row_blocks L)). current_rows L \<le> fb_count b) \<and>
     1 \<le> history_rows L \<and> history_rows L \<le> 5 \<and> (\<forall>(b, _) \<in> set (drop 3 (row_blocks L)). history_rows L \<le> fb_count b) \<and>
     (\<forall>p s k. 1 \<le> k \<and> k \<le> 999 \<longrightarrow> rowNoBetween (p @ to_string k @ s) p s = k)"
proof -
  have ok: "model_ok m" by (rule loaded_model_ok [OF assms(1)])
  define B where "B = layout_blocks m"
  define cur where "cur = clampRowsByBlock 5 [cur_seq B, cur_code B, cur_on_time B]"
  define his where "his = clampRowsByBlock 5 [his_seq B, his_code B, his_on_time B, his_off_time B, his_state B]"
  have L: "L = B\<lparr>current_rows := cur, history_rows := his, lay_loaded := True\<rparr>"
    and valid: "currentValid L" "historyValid L"
    using assms(2) by (auto simp: buildLayoutFromHmiMap_def B_def cur_def his_def Let_def currentValid_def historyValid_def
        split: if_splits)
  have cv: "\<forall>b \<in> set [cur_seq B, cur_code B, cur_on_time B]. block_valid b"
    and hv: "\<forall>b \<in> set [his_seq B, his_code B, his_on_time B, his_off_time B, his_state B]. block_valid b"
    using valid by (simp_all add: L currentValid_def historyValid_def)
  have blocks: "b = buildRowBlock m p s \<and> block_valid b" if "(b, p, s) \<in> set (row_blocks L)" for b p s
    using that cv hv by (auto simp: row_blocks_def L B_def layout_blocks_def)
  have cols: "\<forall>(b, p, s) \<in> set (row_blocks L). \<exists>it. row_item m p s 1 = Some it \<and> i_addr it = Some (fb_base b) \<and>
        i_words it = fb_words b \<and> (\<forall>k. 1 \<le> k \<and> k \<le> unat (fb_count b) \<longrightarrow> row_item m p s k \<noteq> None)"
    using row_block [OF ok] blocks by blast
  have five: "(0 :: u16) < 5" by simp
  have c: "1 \<le> current_rows L \<and> current_rows L \<le> 5 \<and> (\<forall>(b, _) \<in> set (take 3 (row_blocks L)). current_rows L \<le> fb_count b)"
    using clampRows_bounds [OF five cv, folded cur_def] by (simp add: L row_blocks_def word_le_nat_alt word_less_nat_alt)
  have h: "1 \<le> history_rows L \<and> history_rows L \<le> 5 \<and> (\<forall>(b, _) \<in> set (drop 3 (row_blocks L)). history_rows L \<le> fb_count b)"
    using clampRows_bounds [OF five hv, folded his_def] by (simp add: L row_blocks_def word_le_nat_alt word_less_nat_alt)
  have "lay_loaded L" by (simp add: L)
  then show ?thesis using valid cols c h row_name_number by blast
qed

text \<open>C24: The panel shows the page of the fault centre and the page of the history cache. If the registers of the layout
  are distinct and lie in the area the panel may only read, then after a flush the counters and the page numbers, and
  for every row the sequence number, the code, the times and the state, are those of the row of the page (zero below
  the last row), and no register outside the layout has changed.\<close>

theorem panel_shows_pages:
  assumes "layout_ok L"
  shows "let t' = flushToHmi L (Some fc) (Some hc) page_no t in
     shows_current L fc t' \<and> shows_history L hc page_no t' \<and>
     (\<forall>a. a \<notin> set (layout_regs L) \<longrightarrow> readIntRead a t' = readIntRead a t)"
  using flush_shows_current [OF assms] flush_shows_history [OF assms] flush_other_regs by (simp add: Let_def)

section \<open>Examples\<close>

text \<open>The layout of the shipped panel map.\<close>

definition shipped_layout :: fault_layout where
  "shipped_layout =
     (let b = (\<lambda>base n w. \<lparr>fb_base = base, fb_count = n, fb_words = w\<rparr>) in
      \<lparr>current_rows = 5, history_rows = 5, cur_total_pages = b 0x411B 1 1, cur_page_index = b 0x411C 1 1,
       cur_seq = b 0x411D 8 1, cur_code = b 0x4125 8 1, cur_on_time = b 0x412D 8 2, his_total_pages = b 0x4141 1 1,
       his_page_index = b 0x4142 1 1, his_seq = b 0x4143 12 1, his_code = b 0x414F 12 1, his_on_time = b 0x415B 12 2,
       his_off_time = b 0x4173 12 2, his_state = b 0x418B 12 1, lay_loaded = True\<rparr>)"

lemma shipped_layout_regs:
  "layout_regs shipped_layout =
     [0x411B, 0x411C, 0x411D, 0x4125, 0x412D, 0x412E, 0x411E, 0x4126, 0x412F, 0x4130, 0x411F, 0x4127, 0x4131, 0x4132,
      0x4120, 0x4128, 0x4133, 0x4134, 0x4121, 0x4129, 0x4135, 0x4136,
      0x4141, 0x4142, 0x4143, 0x414F, 0x415B, 0x415C, 0x4173, 0x4174, 0x418B, 0x4144, 0x4150, 0x415D, 0x415E, 0x4175,
      0x4176, 0x418C, 0x4145, 0x4151, 0x415F, 0x4160, 0x4177, 0x4178, 0x418D, 0x4146, 0x4152, 0x4161, 0x4162, 0x4179,
      0x417A, 0x418E, 0x4147, 0x4153, 0x4163, 0x4164, 0x417B, 0x417C, 0x418F]"
  by (simp add: layout_regs_def clearCurrentToHmi_def clearHistoryToHmi_def currentValid_def historyValid_def
      block_valid_def current_row_writes_def history_row_writes_def u32ToBlockRow_def shipped_layout_def Let_def upt_rec
      word_le_nat_alt)

lemma shipped_layout_ok: "layout_ok shipped_layout"
  unfolding layout_ok_def shipped_layout_regs
  by (simp add: currentValid_def historyValid_def block_valid_def shipped_layout_def Let_def inRange_def hmi_area_defs
      word_le_nat_alt)

definition example_history_cache :: hist_cache where
  "example_history_cache = hist_cache_init\<lparr>hc_valid := True, total_rows := 1, total_pages := 1, window_start_page := 1,
     window_end_page := 1,
     window_rows := [empty_view_row\<lparr>vr_code := 0x1006, vr_seq_no := 7, vr_first_on_ms := 90000000000\<rparr>]\<rparr>"

theorem panel_shows_pages_witness:
  "let t' = flushToHmi shipped_layout (Some center_init) (Some example_history_cache) 1
       \<lparr>bool_rw = Map.empty, int_rw = Map.empty, bool_rd = Map.empty, int_rd = [0x4150 \<mapsto> 9, 0x4000 \<mapsto> 4]\<rparr> in
     readIntRead 0x414F t' = 0x1006 \<and> readIntRead 0x415B t' = 0x055D \<and> readIntRead 0x4150 t' = 0 \<and> readIntRead 0x4000 t' = 4"
proof -
  have rows: "pageRows example_history_cache 1 = [empty_view_row\<lparr>vr_code := 0x1006, vr_seq_no := 7, vr_first_on_ms := 90000000000\<rparr>]"
    by (simp add: pageRows_def example_history_cache_def hist_cache_init_def clampPage_def sliceFromWindow_def
        hasPageInWindow_def Let_def)
  define t where "t = \<lparr>bool_rw = Map.empty, int_rw = Map.empty, bool_rd = Map.empty, int_rd = [0x4150 \<mapsto> 9 :: u16, 0x4000 \<mapsto> 4]\<rparr>"
  define t' where "t' = flushToHmi shipped_layout (Some center_init) (Some example_history_cache) 1 t"
  have p: "shows_history shipped_layout example_history_cache 1 t'"
    "\<forall>a. a \<notin> set (layout_regs shipped_layout) \<longrightarrow> readIntRead a t' = readIntRead a t"
    using panel_shows_pages [OF shipped_layout_ok, of center_init example_history_cache 1 t] by (simp_all add: t'_def Let_def)
  have rows5: "unat (history_rows shipped_layout) = 5" "fb_base (his_code shipped_layout) = 0x414F"
    "fb_base (his_on_time shipped_layout) = 0x415B"
    by (simp_all add: shipped_layout_def Let_def)
  have "readIntRead 0x414F t' = 0x1006" and on: "reg32 0x415B t' = 90000000"
    using p(1) [unfolded shows_history_def, THEN conjunct2, THEN conjunct2, rule_format, of 0]
    by (simp_all add: rows5 rows row_or_def Let_def)
  moreover have "readIntRead 0x4150 t' = 0"
    using p(1) [unfolded shows_history_def, THEN conjunct2, THEN conjunct2, rule_format, of 1]
    by (simp add: rows5 rows row_or_def empty_view_row_def Let_def)
  moreover have "readIntRead 0x4000 t' = 4"
    using p(2) [rule_format, of "0x4000"] by (simp add: shipped_layout_regs t_def readIntRead_def)
  moreover have "readIntRead 0x415B t' = 0x055D"
  proof -
    have "ucast (drop_bit 16 (reg32 0x415B t')) = readIntRead 0x415B t'"
      unfolding reg32_def by (rule bit_word_eqI) (auto simp: bit_simps dest: bit_imp_le_length)
    then show ?thesis by (simp add: on drop_bit_eq_div)
  qed
  ultimately show ?thesis unfolding t'_def t_def Let_def by blast
qed

text \<open>A map with one row on each page.\<close>

definition example_paths :: "string list" where
  "example_paths =
     [''hmi.fault.num.cur_total_page'', ''hmi.fault.num.cur_show_page'', ''hmi.fault.num.cur_row1_snum'',
      ''hmi.fault.num.cur_row1_code'', ''hmi.fault.num.cur_row1_triggertime'', ''hmi.fault.num.his_total_page'',
      ''hmi.fault.num.his_show_page'', ''hmi.fault.num.his_row1_snum'', ''hmi.fault.num.his_row1_code'',
      ''hmi.fault.num.his_row1_triggertime'', ''hmi.fault.num.his_row1_disapptime'', ''hmi.fault.num.his_row1_state'']"

definition example_fault_map :: "map_line list" where
  "example_fault_map = [Object [''type'' \<mapsto> VStr ''int_read'', ''base'' \<mapsto> VInt 0x4100]
     (Some (map (\<lambda>p. Some [''path'' \<mapsto> VStr p]) example_paths))]"

definition example_fault_model :: hmi_model where
  "example_fault_model = (case map_loadJsonl (Some example_fault_map) of Inr m \<Rightarrow> m | Inl _ \<Rightarrow> model_init)"

lemma int_read_type: "parseType ''int_read'' = Some IntRead"
  by code_simp

lemma example_fault_loaded:
  "map_loadJsonl (Some example_fault_map) = Inr example_fault_model \<and>
   map (\<lambda>it. (i_addr it, i_path it)) (m_items example_fault_model) =
     map (\<lambda>i. (Some (0x4100 + of_nat i), example_paths ! i)) [0..<12]"
proof -
  define arr :: "jobj option list" where "arr = map (\<lambda>p. Some [''path'' \<mapsto> VStr p]) example_paths"
  define j :: jobj where "j = [''type'' \<mapsto> VStr ''int_read'', ''base'' \<mapsto> VInt 0x4100]"
  define blk where "blk = \<lparr>b_type = IntRead, b_type_text = ''int_read'', b_base = Some 0x4100, b_src = [],
     b_params = readParams j, b_line_no = 1, b_item_indexes = []\<rparr>"
  have len: "length arr = 12" by (simp add: arr_def example_paths_def)
  have arr: "arr ! i = Some [''path'' \<mapsto> VStr (example_paths ! i)]" if "i < 12" for i
    using that len by (simp add: arr_def)
  obtain mb' where mb': "load_items 0 arr (model_init, blk) = Inr mb'"
  proof (cases "load_items 0 arr (model_init, blk)")
    case (Inl i)
    from load_items_error [OF this] len show ?thesis by (auto simp: blk_def)
  qed (use that in blast)
  have base: "readU16Any j [''base'', k_start_addr, ''addr_base'', ''address_base''] = Some 0x4100"
    by (simp add: j_def readU16Any_def parseU16Any_def parseU32Any_def)
  have src: "readStringAny j [''src'', ''source'', ''bit_src''] = None"
    "readStringAny j [''type''] = Some ''int_read''"
    by (simp_all add: j_def readStringAny_def jsonToString_def trim_def is_space_def)
  have line: "load_line 1 (Object j (Some arr)) model_init =
      Inr ((fst mb')\<lparr>m_blocks := m_blocks (fst mb') @ [if b_base (snd mb') = None
        then (snd mb')\<lparr>b_base := first_explicit arr\<rparr> else snd mb']\<rparr>)"
    using mb' by (auto simp: load_line_def src int_read_type base blk_def text_or_def Let_def split: prod.split option.split)
  have "map_loadJsonl (Some example_fault_map) = load_line 1 (Object j (Some arr)) model_init"
    by (simp add: map_loadJsonl_def example_fault_map_def j_def [symmetric] arr_def [symmetric] comp_def split: sum.split)
  then have loaded: "map_loadJsonl (Some example_fault_map) = Inr example_fault_model"
    and items: "m_items example_fault_model = m_items (fst mb')"
    using line by (simp_all add: example_fault_model_def)
  obtain its where its: "m_items (fst mb') = its"
    "map (\<lambda>it. (i_item_index it, i_addr it, i_type it, i_path it)) its =
     map (\<lambda>i. (i, placed_addr (Some 0x4100) i (arr ! i), IntRead,
        case arr ! i of Some j \<Rightarrow> text_or [] (readStringAny j [''path'']) | None \<Rightarrow> ''_'')) [0..<12]"
    using load_items_placed [OF mb'] len by (auto simp: model_init_def blk_def)
  have "map (\<lambda>it. (i_addr it, i_path it)) its = map (\<lambda>(_, a, _, p). (a, p))
      (map (\<lambda>it. (i_item_index it, i_addr it, i_type it, i_path it)) its)"
    by simp
  also have "\<dots> = map (\<lambda>i. (placed_addr (Some 0x4100) i (arr ! i),
        case arr ! i of Some j \<Rightarrow> text_or [] (readStringAny j [''path'']) | None \<Rightarrow> ''_'')) [0..<12]"
    unfolding its(2) by (simp del: upt_Suc)
  also have "\<dots> = map (\<lambda>i. (Some (0x4100 + of_nat i), example_paths ! i)) [0..<12]"
  proof (rule map_cong [OF refl])
    fix i :: nat assume "i \<in> set [0..<12]"
    then have i: "i < 12" by simp
    then have "example_paths ! i \<in> set example_paths" by (intro nth_mem) (simp add: example_paths_def)
    then have "trim (example_paths ! i) = example_paths ! i"
      unfolding example_paths_def by (auto simp: trim_def is_space_def)
    then show "(placed_addr (Some 0x4100) i (arr ! i),
        case arr ! i of Some j \<Rightarrow> text_or [] (readStringAny j [''path'']) | None \<Rightarrow> ''_'') = (Some (0x4100 + of_nat i), example_paths ! i)"
      using i by (simp add: arr placed_addr_def or_else_def explicit_addr_def readU16Any_def readStringAny_def jsonToString_def
        text_or_def k_addr_hex_def k_addr_def)
  qed
  finally show ?thesis using loaded items its(1) by simp
qed

lemma example_fault_items:
  assumes "i < 12"
  shows "i < length (m_items example_fault_model)" "i_addr (m_items example_fault_model ! i) = Some (0x4100 + of_nat i)"
    "i_path (m_items example_fault_model ! i) = example_paths ! i"
proof -
  note m = example_fault_loaded [THEN conjunct2]
  have len: "length (m_items example_fault_model) = 12" using arg_cong [OF m, of length] by simp
  then show "i < length (m_items example_fault_model)" using assms by simp
  show "i_addr (m_items example_fault_model ! i) = Some (0x4100 + of_nat i)"
    "i_path (m_items example_fault_model ! i) = example_paths ! i"
    using arg_cong [OF m, of "\<lambda>xs. xs ! i"] assms len by simp_all
qed

lemma single_row_block:
  assumes "model_ok m" "row_item m p s 1 = Some it" "row_item m p s 2 = None"
  shows "buildRowBlock m p s = item_block it 1"
proof -
  have rows: "foldl (collect_row p s) Map.empty (row_items m) k = row_item m p s k" if "k \<noteq> 0" for k
    using that by (simp add: collect_rows row_items_find [OF assms(1)])
  have u: "[1..<n] = 1 # 2 # [3..<n]" if "2 < n" for n :: nat
    using that by (simp add: upt_conv_Cons numeral_3_eq_3 numeral_2_eq_2)
  have t: "takeWhile (\<lambda>i. foldl (collect_row p s) Map.empty (row_items m) i \<noteq> None) [1..<1000] = [1]"
    using u [of 1000] assms(2,3) rows [of 1] rows [of 2] by (simp del: upt_Suc)
  show ?thesis unfolding buildRowBlock_def Let_def t using assms(2) rows [of 1] by simp
qed

lemma example_usable:
  assumes "i < 12"
  shows "faultMapItemUsable (m_items example_fault_model ! i)"
proof -
  have "i_words (m_items example_fault_model ! i) \<noteq> 0"
    using loaded_model_ok [OF example_fault_loaded [THEN conjunct1]] example_fault_items(1) [OF assms]
    by (simp add: model_ok_def Let_def)
  moreover have "example_paths ! i \<in> set example_paths" using assms by (intro nth_mem) (simp add: example_paths_def)
  then have "example_paths ! i \<noteq> [] \<and> startsWith (example_paths ! i) ''hmi.fault.num.''"
    unfolding example_paths_def by (auto simp: startsWith_def)
  ultimately show ?thesis using example_fault_items [OF assms] by (simp add: faultMapItemUsable_def)
qed

lemma find_map_index:
  assumes "length xs = n" "\<And>i. i < n \<Longrightarrow> P (xs ! i) = Q i"
  shows "find P xs = map_option ((!) xs) (find Q [0..<n])"
proof -
  have "find P (map ((!) xs) is) = map_option ((!) xs) (find Q is)" if "\<forall>i \<in> set is. i < n" for "is"
    using that assms(2) by (induction "is") auto
  moreover have "map ((!) xs) [0..<n] = xs" using assms(1) map_nth [of xs] by simp
  ultimately show ?thesis using assms(1) by (metis atLeastLessThan_iff set_upt)
qed

lemma example_rows:
  "row_item example_fault_model p s k =
     map_option ((!) (m_items example_fault_model)) (find (\<lambda>i. rowNoBetween (example_paths ! i) p s = k) [0..<12])"
proof -
  have "length (m_items example_fault_model) = 12"
    using arg_cong [OF example_fault_loaded [THEN conjunct2], of length] by simp
  then show ?thesis unfolding row_item_def
    by (rule find_map_index) (simp add: example_usable example_fault_items)
qed

lemma example_columns:
  "find (\<lambda>i. rowNoBetween (example_paths ! i) ''hmi.fault.num.cur_row'' ''_snum'' = 1) [0..<12] = Some 2"
  "find (\<lambda>i. rowNoBetween (example_paths ! i) ''hmi.fault.num.cur_row'' ''_snum'' = 2) [0..<12] = None"
  "find (\<lambda>i. rowNoBetween (example_paths ! i) ''hmi.fault.num.cur_row'' ''_code'' = 1) [0..<12] = Some 3"
  "find (\<lambda>i. rowNoBetween (example_paths ! i) ''hmi.fault.num.cur_row'' ''_code'' = 2) [0..<12] = None"
  "find (\<lambda>i. rowNoBetween (example_paths ! i) ''hmi.fault.num.cur_row'' ''_triggertime'' = 1) [0..<12] = Some 4"
  "find (\<lambda>i. rowNoBetween (example_paths ! i) ''hmi.fault.num.cur_row'' ''_triggertime'' = 2) [0..<12] = None"
  "find (\<lambda>i. rowNoBetween (example_paths ! i) ''hmi.fault.num.his_row'' ''_snum'' = 1) [0..<12] = Some 7"
  "find (\<lambda>i. rowNoBetween (example_paths ! i) ''hmi.fault.num.his_row'' ''_snum'' = 2) [0..<12] = None"
  "find (\<lambda>i. rowNoBetween (example_paths ! i) ''hmi.fault.num.his_row'' ''_code'' = 1) [0..<12] = Some 8"
  "find (\<lambda>i. rowNoBetween (example_paths ! i) ''hmi.fault.num.his_row'' ''_code'' = 2) [0..<12] = None"
  "find (\<lambda>i. rowNoBetween (example_paths ! i) ''hmi.fault.num.his_row'' ''_triggertime'' = 1) [0..<12] = Some 9"
  "find (\<lambda>i. rowNoBetween (example_paths ! i) ''hmi.fault.num.his_row'' ''_triggertime'' = 2) [0..<12] = None"
  "find (\<lambda>i. rowNoBetween (example_paths ! i) ''hmi.fault.num.his_row'' ''_disapptime'' = 1) [0..<12] = Some 10"
  "find (\<lambda>i. rowNoBetween (example_paths ! i) ''hmi.fault.num.his_row'' ''_disapptime'' = 2) [0..<12] = None"
  "find (\<lambda>i. rowNoBetween (example_paths ! i) ''hmi.fault.num.his_row'' ''_state'' = 1) [0..<12] = Some 11"
  "find (\<lambda>i. rowNoBetween (example_paths ! i) ''hmi.fault.num.his_row'' ''_state'' = 2) [0..<12] = None"
  by code_simp+

lemma example_row_blocks:
  assumes "find (\<lambda>i. rowNoBetween (example_paths ! i) p s = 1) [0..<12] = Some i"
    and "find (\<lambda>i. rowNoBetween (example_paths ! i) p s = 2) [0..<12] = None"
  shows "buildRowBlock example_fault_model p s = item_block (m_items example_fault_model ! i) 1"
  using single_row_block [OF loaded_model_ok [OF example_fault_loaded [THEN conjunct1]]] assms example_rows [of p s]
  by simp

lemma example_block_valid: "i < 12 \<Longrightarrow> block_valid (item_block (m_items example_fault_model ! i) 1)"
proof -
  assume i: "i < 12"
  then have "unat (0x4100 + of_nat i :: u16) = 0x4100 + i" by (simp add: unat_word_ariths)
  then have "(0x4100 + of_nat i :: u16) \<noteq> 0" by (metis add_is_0 unsigned_0 zero_neq_numeral)
  then show ?thesis using example_fault_items(2) [OF i] by (simp add: block_valid_def item_block_def)
qed

lemma example_single_blocks:
  assumes "find (\<lambda>j. example_paths ! j = path) [0..<12] = Some i" "path \<noteq> []" "path \<noteq> ''_''"
  shows "buildSingleBlock example_fault_model path = item_block (m_items example_fault_model ! i) 1"
proof -
  have len: "length (m_items example_fault_model) = 12"
    using arg_cong [OF example_fault_loaded [THEN conjunct2], of length] by simp
  have "find (\<lambda>it. faultMapItemUsable it \<and> i_path it = path) (m_items example_fault_model) =
      map_option ((!) (m_items example_fault_model)) (find (\<lambda>j. example_paths ! j = path) [0..<12])"
    by (rule find_map_index [OF len]) (simp add: example_usable example_fault_items)
  moreover have "findByPath example_fault_model path =
      some_list (indices (\<lambda>it. hasPath it \<and> i_path it = path) (m_items example_fault_model))"
    using loaded_model_ok [OF example_fault_loaded [THEN conjunct1]] by (simp add: model_ok_def Let_def)
  moreover have "find faultMapItemUsable (filter (\<lambda>it. hasPath it \<and> i_path it = path) its) =
      find (\<lambda>it. faultMapItemUsable it \<and> i_path it = path) its" for its
    using assms(2,3) by (induction its) (auto simp: hasPath_def)
  ultimately have f: "find faultMapItemUsable (List.map_filter (itemAt example_fault_model)
      (indices (\<lambda>it. hasPath it \<and> i_path it = path) (m_items example_fault_model))) = Some (m_items example_fault_model ! i)"
    and p: "findByPath example_fault_model path = some_list (indices (\<lambda>it. hasPath it \<and> i_path it = path) (m_items example_fault_model))"
    using assms(1) by (simp_all add: items_at_indices)
  then have "indices (\<lambda>it. hasPath it \<and> i_path it = path) (m_items example_fault_model) \<noteq> []"
    by (auto simp: List.map_filter_simps)
  then show ?thesis using f p assms(2) by (simp add: buildSingleBlock_def some_list_def)
qed

lemma example_singles:
  "buildSingleBlock example_fault_model ''hmi.fault.num.cur_total_page'' = item_block (m_items example_fault_model ! 0) 1"
  "buildSingleBlock example_fault_model ''hmi.fault.num.cur_show_page'' = item_block (m_items example_fault_model ! 1) 1"
  "buildSingleBlock example_fault_model ''hmi.fault.num.his_total_page'' = item_block (m_items example_fault_model ! 5) 1"
  "buildSingleBlock example_fault_model ''hmi.fault.num.his_show_page'' = item_block (m_items example_fault_model ! 6) 1"
  by (rule example_single_blocks; code_simp)+

theorem layout_follows_map_witness:
  "\<exists>L. buildLayoutFromHmiMap example_fault_model layout_init = (True, L) \<and> fb_base (cur_code L) = 0x4103 \<and>
     1 \<le> current_rows L \<and> rowNoBetween ''hmi.fault.num.cur_row12_code'' ''hmi.fault.num.cur_row'' ''_code'' = 12"
proof -
  have ok: "fst (buildLayoutFromHmiMap example_fault_model layout_init)"
    by (simp add: buildLayoutFromHmiMap_def layout_blocks_def currentValid_def historyValid_def Let_def example_singles
        example_block_valid example_row_blocks [OF example_columns(1,2)] example_row_blocks [OF example_columns(3,4)]
        example_row_blocks [OF example_columns(5,6)] example_row_blocks [OF example_columns(7,8)]
        example_row_blocks [OF example_columns(9,10)] example_row_blocks [OF example_columns(11,12)]
        example_row_blocks [OF example_columns(13,14)] example_row_blocks [OF example_columns(15,16)])
  then obtain L where L: "buildLayoutFromHmiMap example_fault_model layout_init = (True, L)" by (metis prod.collapse)
  note t = layout_follows_map [OF example_fault_loaded [THEN conjunct1] L]
  have "(cur_code L, ''hmi.fault.num.cur_row'', ''_code'') \<in> set (row_blocks L)" by (simp add: row_blocks_def)
  then obtain it where "row_item example_fault_model ''hmi.fault.num.cur_row'' ''_code'' 1 = Some it" "i_addr it = Some (fb_base (cur_code L))"
    using t by fastforce
  then have "fb_base (cur_code L) = 0x4103"
    using example_fault_items(2) [of 3] by (simp add: example_rows example_columns del: One_nat_def)
  moreover have "\<forall>p s k. 1 \<le> k \<and> k \<le> 999 \<longrightarrow> rowNoBetween (p @ to_string k @ s) p s = k" using t by blast
  then have "rowNoBetween (''hmi.fault.num.cur_row'' @ to_string 12 @ ''_code'') ''hmi.fault.num.cur_row'' ''_code'' = 12"
    by (elim allE [of _ "''hmi.fault.num.cur_row''"] allE [of _ "''_code''"] allE [of _ "12"]) simp
  moreover have "to_string 12 = ''12''" by code_simp
  ultimately show ?thesis using L t by auto
qed

end
