(* ===== verification/Hmi_Input.thy ===== *)
theory Hmi_Input
  imports Fault_Pages Fault_Runtime Hmi_Proto
begin

text \<open>
  The panel and the control logic: the writes of the operator
  (\<open>services/control/logic/logic_hmi_input.cpp\<close>), the output of the fault pages
  (\<open>services/control/logic/logic_hmi_output.cpp\<close>) and the periodic refresh of the faults
  (\<open>services/control/logic/logic_fault_refresh.cpp\<close>, \<open>services/control/logic/logic_tick.cpp\<close>). The context of the
  logic is \<open>ext_ctx\<close> with the state of the panel, the fault centre, the page manager and the history cache
  added. The page manager is bound to the fault centre of the context, as the load of the panel map does.
\<close>

section \<open>State\<close>

type_synonym i32 = "32 word"

record write_event =
  w_start_addr :: u16
  w_bits :: "u8 list"
  w_regs :: "u16 list"
  w_ts :: u64

record button_state =
  is_down :: bool
  armed :: bool
  press_ts :: u64
  release_ts :: u64

record hmi_ctx =
  h_map :: "hmi_model option"
  h_last_addr :: u16
  h_last_value :: u16
  h_button_ts :: u64
  h_button_addr :: u16
  h_button_path :: string
  h_button_name :: string
  hv_on_requested :: bool
  hv_off_requested :: bool
  hv_on_request_ts :: u64
  hv_off_request_ts :: u64
  h_coil_state :: "u16 \<rightharpoonup> u16"
  h_reg_state :: "u16 \<rightharpoonup> u16"
  h_param_values :: "string \<rightharpoonup> i32"
  h_param_addr :: "string \<rightharpoonup> u16"
  h_param_name :: "string \<rightharpoonup> string"
  h_param_ts :: "string \<rightharpoonup> u64"
  h_last_param_ts :: u64
  h_last_param_addr :: u16
  h_last_param_value :: u16
  h_last_param_path :: string
  h_last_param_name :: string
  h_buttons :: "u16 \<rightharpoonup> button_state"

record panel_ctx =
  x_ext :: ext_ctx
  x_hmi :: hmi_ctx
  x_center :: fault_center
  x_layout :: fault_layout
  x_cache :: "hist_cache option"
  x_page_no :: u16
  x_history_view :: bool
  x_cache_version :: u64
  x_table :: "hmi_table option"
  x_fault_map_loaded :: bool
  x_last_event_ts :: u64

definition button_init :: button_state where
  "button_init = \<lparr>is_down = False, armed = False, press_ts = 0, release_ts = 0\<rparr>"

definition hmi_ctx_init :: hmi_ctx where
  "hmi_ctx_init = \<lparr>h_map = None, h_last_addr = 0, h_last_value = 0, h_button_ts = 0, h_button_addr = 0,
     h_button_path = [], h_button_name = [], hv_on_requested = False, hv_off_requested = False,
     hv_on_request_ts = 0, hv_off_request_ts = 0, h_coil_state = Map.empty, h_reg_state = Map.empty,
     h_param_values = Map.empty, h_param_addr = Map.empty, h_param_name = Map.empty, h_param_ts = Map.empty,
     h_last_param_ts = 0, h_last_param_addr = 0, h_last_param_value = 0, h_last_param_path = [],
     h_last_param_name = [], h_buttons = Map.empty\<rparr>"

definition panel_init :: panel_ctx where
  "panel_init = \<lparr>x_ext = ext_init, x_hmi = hmi_ctx_init, x_center = center_init, x_layout = layout_init, x_cache = None,
     x_page_no = 1, x_history_view = False, x_cache_version = 0, x_table = None, x_fault_map_loaded = False,
     x_last_event_ts = 0\<rparr>"

section \<open>Looking up the written address\<close>

definition firstRegOrZero :: "write_event \<Rightarrow> u16" where
  "firstRegOrZero w = (case w_regs w of [] \<Rightarrow> 0 | r # _ \<Rightarrow> r)"

definition firstBitOrZero :: "write_event \<Rightarrow> u8" where
  "firstBitOrZero w = (case w_bits w of [] \<Rightarrow> 0 | b # _ \<Rightarrow> if b \<noteq> 0 then 1 else 0)"

definition isBoolWrite :: "write_event \<Rightarrow> bool" where
  "isBoolWrite w \<longleftrightarrow> w_bits w \<noteq> []"

definition isRegWrite :: "write_event \<Rightarrow> bool" where
  "isRegWrite w \<longleftrightarrow> w_regs w \<noteq> []"

datatype lookup_kind = AnyRw | LookBoolRw | LookIntRw

definition matchLookupKind :: "hmi_type \<Rightarrow> lookup_kind \<Rightarrow> bool" where
  "matchLookupKind t k =
     (case k of LookBoolRw \<Rightarrow> t = BoolRw | LookIntRw \<Rightarrow> t = IntRw | AnyRw \<Rightarrow> t = BoolRw \<or> t = IntRw)"

record mapped_item =
  mi_addr :: u16
  mi_base_addr :: u16
  mi_word_offset :: u16
  mi_words :: u16
  mi_type :: hmi_type
  mi_path :: string
  mi_name :: string
  mi_value_type :: string

definition isEmptyOrPlaceholderPath :: "string \<Rightarrow> bool" where
  "isEmptyOrPlaceholderPath p \<longleftrightarrow> p = [] \<or> p = ''_''"

definition fillMappedWriteItem :: "hmi_item \<Rightarrow> u16 \<Rightarrow> lookup_kind \<Rightarrow> mapped_item option" where
  "fillMappedWriteItem it write_addr kind =
     (case i_addr it of None \<Rightarrow> None
      | Some a \<Rightarrow>
          if \<not> matchLookupKind (i_type it) kind then None
          else if isEmptyOrPlaceholderPath (i_path it) then None
          else let words = (if i_words it = 0 then 1 else i_words it) in
            if uint write_addr < uint a \<or> uint a + uint words \<le> uint write_addr then None
            else Some \<lparr>mi_addr = write_addr, mi_base_addr = a, mi_word_offset = write_addr - a, mi_words = words,
                   mi_type = i_type it, mi_path = i_path it, mi_name = i_name it, mi_value_type = i_value_type it\<rparr>)"

fun first_mapped :: "hmi_model \<Rightarrow> u16 \<Rightarrow> lookup_kind \<Rightarrow> nat list \<Rightarrow> mapped_item option" where
  "first_mapped m addr kind [] = None"
| "first_mapped m addr kind (i # is) =
     (case Option.bind (itemAt m i) (\<lambda>it. fillMappedWriteItem it addr kind) of
        Some x \<Rightarrow> Some x | None \<Rightarrow> first_mapped m addr kind is)"

definition findHmiWriteItemByAddress :: "hmi_ctx \<Rightarrow> u16 \<Rightarrow> lookup_kind \<Rightarrow> mapped_item option" where
  "findHmiWriteItemByAddress h addr kind =
     (case h_map h of None \<Rightarrow> None
      | Some m \<Rightarrow>
          (case (case findByAddr m addr of None \<Rightarrow> None | Some owners \<Rightarrow> first_mapped m addr kind owners) of
             Some x \<Rightarrow> Some x
           | None \<Rightarrow> first_mapped m addr kind (m_rw_items m)))"

section \<open>Registers and parameters\<close>

definition cacheWrittenRegs :: "write_event \<Rightarrow> hmi_ctx \<Rightarrow> hmi_ctx" where
  "cacheWrittenRegs w h =
     h\<lparr>h_reg_state := foldl (\<lambda>m i. m(w_start_addr w + of_nat i \<mapsto> w_regs w ! i)) (h_reg_state h)
        [0..<min (length (w_regs w)) (65536 - unat (w_start_addr w))]\<rparr>"

definition regStateOrZero :: "hmi_ctx \<Rightarrow> u16 \<Rightarrow> u16" where
  "regStateOrZero h a = (case h_reg_state h a of None \<Rightarrow> 0 | Some v \<Rightarrow> v)"

definition readMappedRegValue :: "hmi_ctx \<Rightarrow> mapped_item \<Rightarrow> i32" where
  "readMappedRegValue h it =
     (if 2 \<le> mi_words it
      then push_bit 16 (ucast (regStateOrZero h (mi_base_addr it))) OR ucast (regStateOrZero h (mi_base_addr it + 1))
      else ucast (regStateOrZero h (mi_base_addr it)))"

definition cacheHmiParam :: "u16 \<Rightarrow> i32 \<Rightarrow> string \<Rightarrow> string \<Rightarrow> u64 \<Rightarrow> hmi_ctx \<Rightarrow> hmi_ctx" where
  "cacheHmiParam addr v path name ts h =
     h\<lparr>h_param_values := (h_param_values h)(path \<mapsto> v), h_param_addr := (h_param_addr h)(path \<mapsto> addr),
       h_param_name := (h_param_name h)(path \<mapsto> name), h_param_ts := (h_param_ts h)(path \<mapsto> ts),
       h_last_param_ts := ts, h_last_param_addr := addr, h_last_param_value := ucast (v AND 0xFFFF),
       h_last_param_path := path, h_last_param_name := name\<rparr>"

section \<open>The output of the fault pages\<close>

definition applyFaultHmi :: "panel_ctx \<Rightarrow> panel_ctx" where
  "applyFaultHmi x =
     (case x_table x of None \<Rightarrow> x
      | Some t \<Rightarrow>
          if \<not> x_fault_map_loaded x then x
          else x\<lparr>x_table := Some (flushToHmi (x_layout x) (Some (x_center x)) (x_cache x) (x_page_no x) t)\<rparr>)"

section \<open>Buttons\<close>

definition refreshHistoryCacheForPage :: "u16 \<Rightarrow> panel_ctx \<Rightarrow> panel_ctx" where
  "refreshHistoryCacheForPage page x =
     (case x_cache x of None \<Rightarrow> x
      | Some c \<Rightarrow>
          (case refreshMeta c of (False, c) \<Rightarrow> x\<lparr>x_cache := Some c\<rparr>
           | (True, c) \<Rightarrow>
               if total_pages c = 0 then x\<lparr>x_page_no := 1, x_cache := Some (snd (refreshWindow 1 c))\<rparr>
               else let page = (if page < 1 then 1 else page);
                        page = (if total_pages c < page then total_pages c else page)
                    in x\<lparr>x_page_no := page, x_cache := Some (snd (ensurePageLoaded page c))\<rparr>))"

definition history_step :: "(u16 \<Rightarrow> u16 \<Rightarrow> u16) \<Rightarrow> panel_ctx \<Rightarrow> hist_cache \<Rightarrow> panel_ctx" where
  "history_step target x c =
     (case refreshMeta c of (False, c) \<Rightarrow> x\<lparr>x_cache := Some c\<rparr>
      | (True, c) \<Rightarrow>
          if total_pages c = 0 then x\<lparr>x_page_no := 1, x_cache := Some (snd (refreshWindow 1 c))\<rparr>
          else refreshHistoryCacheForPage (target (x_page_no x) (total_pages c)) (x\<lparr>x_cache := Some c\<rparr>))"

definition enter_history :: "panel_ctx \<Rightarrow> panel_ctx" where
  "enter_history x = x\<lparr>x_history_view := True, x_center := enterHistoryView (x_center x)\<rparr>"

definition page_button :: "string \<Rightarrow> panel_ctx \<Rightarrow> panel_ctx option" where
  "page_button path x =
     (if path = ''hmi.fault.btn.his_page_enter'' then
        (let x = enter_history x in
         Some (case x_cache x of Some _ \<Rightarrow> refreshHistoryCacheForPage 1 x | None \<Rightarrow> x\<lparr>x_page_no := 1\<rparr>))
      else if path = ''hmi.fault.btn.cur_page_next'' then
        Some (x\<lparr>x_history_view := False, x_center := nextCurrentPage (x_center x)\<rparr>)
      else if path = ''hmi.fault.btn.cur_page_prev'' then
        Some (x\<lparr>x_history_view := False, x_center := prevCurrentPage (x_center x)\<rparr>)
      else if path = ''hmi.fault.btn.his_page_next'' then
        (let x = enter_history x in
         Some (case x_cache x of
                 Some c \<Rightarrow> history_step (\<lambda>p n. if p < n then p + 1 else n) x c
               | None \<Rightarrow> x\<lparr>x_center := nextHistoryPage (x_center x)\<rparr>))
      else if path = ''hmi.fault.btn.his_page_prev'' then
        (let x = enter_history x in
         Some (case x_cache x of
                 Some c \<Rightarrow> history_step (\<lambda>p n. if 1 < p then p - 1 else 1) x c
               | None \<Rightarrow> x\<lparr>x_center := prevHistoryPage (x_center x)\<rparr>))
      else if path = ''hmi.fault.btn.cur_page_first'' then
        Some (x\<lparr>x_history_view := False, x_center := toFirstCurrentPage (x_center x)\<rparr>)
      else if path = ''hmi.fault.btn.his_page_first'' then
        (let x = enter_history x in
         Some (case x_cache x of
                 Some c \<Rightarrow> (case refreshMeta c of (False, c) \<Rightarrow> x\<lparr>x_cache := Some c\<rparr>
                             | (True, c) \<Rightarrow> refreshHistoryCacheForPage 1 (x\<lparr>x_cache := Some c\<rparr>))
               | None \<Rightarrow> x))
      else None)"

definition onHmiButtonClick :: "u16 \<Rightarrow> string \<Rightarrow> string \<Rightarrow> panel_ctx \<Rightarrow> panel_ctx" where
  "onHmiButtonClick addr path name x0 =
     (let x = x0\<lparr>x_hmi := (x_hmi x0)\<lparr>h_button_ts := x_last_event_ts x0, h_button_addr := addr, h_button_path := path,
                h_button_name := name\<rparr>\<rparr> in
      if path = ''hmi.ctrl.btn.hv_on''
      then x\<lparr>x_hmi := (x_hmi x)\<lparr>hv_on_requested := True, hv_off_requested := False,
               hv_on_request_ts := x_last_event_ts x\<rparr>\<rparr>
      else if path = ''hmi.ctrl.btn.hv_off''
      then x\<lparr>x_hmi := (x_hmi x)\<lparr>hv_off_requested := True, hv_on_requested := False,
               hv_off_request_ts := x_last_event_ts x\<rparr>\<rparr>
      else case page_button path x of None \<Rightarrow> x | Some x \<Rightarrow> applyFaultHmi x)"

section \<open>Writes\<close>

definition button_of :: "hmi_ctx \<Rightarrow> u16 \<Rightarrow> button_state" where
  "button_of h a = (case h_buttons h a of None \<Rightarrow> button_init | Some st \<Rightarrow> st)"

definition set_button :: "u16 \<Rightarrow> button_state \<Rightarrow> panel_ctx \<Rightarrow> panel_ctx" where
  "set_button a st x = x\<lparr>x_hmi := (x_hmi x)\<lparr>h_buttons := (h_buttons (x_hmi x))(a \<mapsto> st)\<rparr>\<rparr>"

definition handleHmiCoilWrite :: "write_event \<Rightarrow> panel_ctx \<Rightarrow> panel_ctx" where
  "handleHmiCoilWrite w x0 =
     (let addr = w_start_addr w; curr = (ucast (firstBitOrZero w) :: u16);
          x = x0\<lparr>x_hmi := (x_hmi x0)\<lparr>h_coil_state := (h_coil_state (x_hmi x0))(addr \<mapsto> curr)\<rparr>\<rparr>
      in case findHmiWriteItemByAddress (x_hmi x) addr LookBoolRw of None \<Rightarrow> x
      | Some mi \<Rightarrow>
          if mi_type mi \<noteq> BoolRw then x
          else let st = button_of (x_hmi x) addr in
            if curr \<noteq> 0
            then set_button addr (if \<not> is_down st then st\<lparr>is_down := True, armed := True, press_ts := w_ts w\<rparr> else st) x
            else let pressed = (is_down st \<and> armed st);
                     x = set_button addr (st\<lparr>release_ts := w_ts w, is_down := False, armed := False\<rparr>) x
                 in if pressed then onHmiButtonClick addr (mi_path mi) (mi_name mi) x else x)"

definition note_write :: "write_event \<Rightarrow> ext_ctx \<Rightarrow> ext_ctx" where
  "note_write w c =
     (let f = (c_faults (e_logic c))\<lparr>hmi_comm_fault := False\<rparr>;
          f = f\<lparr>any_fault := (system_estop f \<or> sdcard_fault f \<or> hmi_comm_fault f \<or> remote_comm_fault f \<or>
                pcu_any_offline f \<or> bms_any_offline f \<or> ups_offline f \<or> smoke_offline f \<or> gas_offline f \<or> air_offline f)\<rparr>
      in c\<lparr>e_last_hmi_comm_ts := w_ts w, e_hmi_seen_once := True, e_logic := (e_logic c)\<lparr>c_faults := f\<rparr>\<rparr>)"

definition onHmiWrite :: "write_event \<Rightarrow> panel_ctx \<Rightarrow> panel_ctx" where
  "onHmiWrite w x0 =
     (let x = x0\<lparr>x_ext := note_write w (x_ext x0), x_hmi := (x_hmi x0)\<lparr>h_last_addr := w_start_addr w\<rparr>\<rparr> in
      if isBoolWrite w
      then handleHmiCoilWrite w (x\<lparr>x_hmi := (x_hmi x)\<lparr>h_last_value := ucast (firstBitOrZero w)\<rparr>\<rparr>)
      else if isRegWrite w
      then let h = cacheWrittenRegs w ((x_hmi x)\<lparr>h_last_value := firstRegOrZero w\<rparr>) in
        case findHmiWriteItemByAddress h (w_start_addr w) LookIntRw of None \<Rightarrow> x\<lparr>x_hmi := h\<rparr>
        | Some mi \<Rightarrow>
            if startsWith (mi_path mi) ''hmi.param.''
            then x\<lparr>x_hmi := cacheHmiParam (mi_base_addr mi) (readMappedRegValue h mi) (mi_path mi) (mi_name mi) (w_ts w) h\<rparr>
            else x\<lparr>x_hmi := h\<rparr>
      else x)"

text \<open>The write callback of the application turns the events of the Modbus slave into events of the control loop.\<close>

definition write_event_of :: "u64 \<Rightarrow> hmi_write_event \<Rightarrow> write_event" where
  "write_event_of ts ev =
     \<lparr>w_start_addr = ev_addr ev, w_bits = (if ev_is_bool ev then [if ev_value_u16 ev \<noteq> 0 then 1 else 0] else []),
      w_regs = (if ev_is_bool ev then [] else [ev_value_u16 ev]), w_ts = ts\<rparr>"

section \<open>The refresh of the faults\<close>

record fault_mapper =
  fr_rules :: "rt_rule list"
  fr_states :: debounce_states

text \<open>The sink of the history is one object: the fault centre writes to it and the cache reads from it. It is kept
  with the cache; while the centre is active it has the replies of that sink, and its calls are performed on it
  afterwards.\<close>

definition perform_call :: "hist_db \<Rightarrow> db_call \<Rightarrow> hist_db" where
  "perform_call db call =
     (case call of InsertHistoryBegin r \<Rightarrow> snd (insertHistoryBegin r db)
      | MarkHistoryClearedById row ts \<Rightarrow> snd (markHistoryClearedById row ts db)
      | MarkHistoryCleared code ts \<Rightarrow> snd (markHistoryCleared code ts db))"

definition lend_db :: "hist_db \<Rightarrow> fault_db" where
  "lend_db db = \<lparr>db_calls = [], insert_reply = (\<lambda>calls r. fst (insertHistoryBegin r (foldl perform_call db calls)))\<rparr>"

definition calls_of :: "fault_center \<Rightarrow> db_call list" where
  "calls_of fc = (case fc_db fc of None \<Rightarrow> [] | Some d \<Rightarrow> db_calls d)"

definition lent_center :: "panel_ctx \<Rightarrow> fault_center" where
  "lent_center x = (x_center x)\<lparr>fc_db := map_option lend_db (Option.bind (x_cache x) hc_db)\<rparr>"

definition return_center :: "fault_center \<Rightarrow> panel_ctx \<Rightarrow> panel_ctx" where
  "return_center fc x =
     x\<lparr>x_center := fc\<lparr>fc_db := None\<rparr>,
       x_cache := map_option (\<lambda>c. c\<lparr>hc_db := map_option (\<lambda>db. foldl perform_call db (calls_of fc)) (hc_db c)\<rparr>) (x_cache x)\<rparr>"

definition applyFaultPages ::
  "(u16 \<Rightarrow> u64) \<Rightarrow> (u16 \<Rightarrow> u64) \<Rightarrow> u64 \<Rightarrow> fault_mapper \<times> panel_ctx \<Rightarrow> fault_mapper \<times> panel_ctx" where
  "applyFaultPages clk clk' now mx =
     (let (fm, x) = mx;
          fc = applyToFaultPages (e_logic (x_ext x)) clk (lent_center x);
          (dm, fc) = applyAll (fr_rules fm) clk' now (x_ext x) (fr_states fm, fc)
      in (fm\<lparr>fr_states := dm\<rparr>, return_center fc x))"

text \<open>The cache follows the history: everything is read again after a change, otherwise only the window when the
  shown page is outside it.\<close>

definition refresh_all :: "u16 \<Rightarrow> hist_cache \<Rightarrow> bool \<times> hist_cache" where
  "refresh_all page c =
     (case refreshMeta c of (False, c) \<Rightarrow> (False, c)
      | (True, c) \<Rightarrow> (case refreshHotCache c of (False, c) \<Rightarrow> (False, c) | (True, c) \<Rightarrow> refreshWindow page c))"

definition refresh_history_cache :: "panel_ctx \<Rightarrow> panel_ctx" where
  "refresh_history_cache x =
     (case x_cache x of None \<Rightarrow> x
      | Some c \<Rightarrow>
          let (changed, ver, fc) = consumeHistoryDirty (x_center x); x = x\<lparr>x_center := fc\<rparr> in
          if changed
          then let (ok, c) = refresh_all (x_page_no x) c;
                   x = x\<lparr>x_cache := Some c\<rparr>
               in if ok then x\<lparr>x_cache_version := ver\<rparr> else x
          else if \<not> hasPageInWindow c (x_page_no x)
          then (case refreshMeta c of (False, c) \<Rightarrow> x\<lparr>x_cache := Some c\<rparr>
                | (True, c) \<Rightarrow> x\<lparr>x_cache := Some (snd (refreshWindow (x_page_no x) c))\<rparr>)
          else x)"

definition refreshFaultPagesOnly ::
  "(u16 \<Rightarrow> u64) \<Rightarrow> (u16 \<Rightarrow> u64) \<Rightarrow> u64 \<Rightarrow> fault_mapper \<times> panel_ctx \<Rightarrow> fault_mapper \<times> panel_ctx" where
  "refreshFaultPagesOnly clk clk' ts mx =
     (let (fm, x) = mx;
          x = x\<lparr>x_last_event_ts := ts\<rparr>;
          c = x_ext x;
          c = c\<lparr>e_logic := evaluateAll (c_bms (e_logic c)) ts (e_logic c)\<rparr>;
          x = x\<lparr>x_ext := fl_evaluateAll ts c\<rparr>;
          (fm, x) = applyFaultPages clk clk' ts (fm, x)
      in (fm, applyFaultHmi (refresh_history_cache x)))"

section \<open>Facts\<close>

lemma x_hmi_output [simp]: "x_hmi (applyFaultHmi x) = x_hmi x"
  by (simp add: applyFaultHmi_def split: option.split)

lemma x_hmi_history [simp]: "x_hmi (refreshHistoryCacheForPage p x) = x_hmi x"
  by (simp add: refreshHistoryCacheForPage_def Let_def split: option.split prod.split bool.split)

lemma x_hmi_step [simp]: "x_hmi (history_step f x c) = x_hmi x"
  by (simp add: history_step_def split: prod.split bool.split)

lemma x_hmi_enter [simp]: "x_hmi (enter_history x) = x_hmi x"
  by (simp add: enter_history_def)

lemma x_hmi_page_button: "page_button path x = Some x' \<Longrightarrow> x_hmi x' = x_hmi x"
  by (auto simp: page_button_def Let_def split: if_splits option.splits prod.splits bool.splits)

text \<open>A click notes the button; a power button sets its request and clears the other one.\<close>

lemma click_hmi:
  "x_hmi (onHmiButtonClick a path name x) =
     (let h = (x_hmi x)\<lparr>h_button_ts := x_last_event_ts x, h_button_addr := a, h_button_path := path, h_button_name := name\<rparr> in
      if path = ''hmi.ctrl.btn.hv_on''
      then h\<lparr>hv_on_requested := True, hv_off_requested := False, hv_on_request_ts := x_last_event_ts x\<rparr>
      else if path = ''hmi.ctrl.btn.hv_off''
      then h\<lparr>hv_off_requested := True, hv_on_requested := False, hv_off_request_ts := x_last_event_ts x\<rparr>
      else h)"
  by (auto simp: onHmiButtonClick_def Let_def split: option.split dest!: x_hmi_page_button)

lemma find_item_map: "findHmiWriteItemByAddress h a k = findHmiWriteItemByAddress (hmi_ctx_init\<lparr>h_map := h_map h\<rparr>) a k"
  by (simp add: findHmiWriteItemByAddress_def hmi_ctx_init_def)

lemma first_mapped_fits:
  "first_mapped m a k is = Some mi \<Longrightarrow> matchLookupKind (mi_type mi) k \<and> mi_addr mi = a \<and>
     uint (mi_base_addr mi) \<le> uint a \<and> uint a < uint (mi_base_addr mi) + uint (mi_words mi)"
  by (induction "is") (auto simp: fillMappedWriteItem_def Let_def split: option.splits if_splits bind_splits)

lemma find_item_fits:
  "findHmiWriteItemByAddress h a k = Some mi \<Longrightarrow> matchLookupKind (mi_type mi) k \<and> mi_addr mi = a \<and>
     uint (mi_base_addr mi) \<le> uint a \<and> uint a < uint (mi_base_addr mi) + uint (mi_words mi)"
  by (auto simp: findHmiWriteItemByAddress_def split: option.splits dest: first_mapped_fits)

section \<open>Buttons take effect when they are released\<close>

text \<open>The variable that a map has at the address of a coil or of a register.\<close>

definition coil_item :: "hmi_model \<Rightarrow> u16 \<Rightarrow> mapped_item option" where
  "coil_item m a = findHmiWriteItemByAddress (hmi_ctx_init\<lparr>h_map := Some m\<rparr>) a LookBoolRw"

definition reg_item :: "hmi_model \<Rightarrow> u16 \<Rightarrow> mapped_item option" where
  "reg_item m a = findHmiWriteItemByAddress (hmi_ctx_init\<lparr>h_map := Some m\<rparr>) a LookIntRw"

lemma find_coil [simp]: "h_map h = Some m \<Longrightarrow> findHmiWriteItemByAddress h a LookBoolRw = coil_item m a"
  by (subst find_item_map) (simp add: coil_item_def)

lemma find_reg [simp]: "h_map h = Some m \<Longrightarrow> findHmiWriteItemByAddress h a LookIntRw = reg_item m a"
  by (subst find_item_map) (simp add: reg_item_def)

lemma coil_item_type [simp]: "coil_item m a = Some mi \<Longrightarrow> mi_type mi = BoolRw"
  unfolding coil_item_def by (drule find_item_fits) (simp add: matchLookupKind_def)

text \<open>The buttons that a list of writes presses and releases, in the order of the releases.\<close>

fun clicked :: "hmi_model \<Rightarrow> (u16 \<Rightarrow> bool) \<Rightarrow> write_event list \<Rightarrow> string list" where
  "clicked m down [] = []"
| "clicked m down (w # ws) =
     (if isBoolWrite w \<and> coil_item m (w_start_addr w) \<noteq> None
      then let a = w_start_addr w; on = (firstBitOrZero w \<noteq> 0) in
        (if \<not> on \<and> down a then [mi_path (the (coil_item m a))] else []) @ clicked m (down(a := on)) ws
      else clicked m down ws)"

definition power_buttons :: "string set" where
  "power_buttons = {''hmi.ctrl.btn.hv_on'', ''hmi.ctrl.btn.hv_off''}"

fun power_request :: "bool \<times> bool \<Rightarrow> string list \<Rightarrow> bool \<times> bool" where
  "power_request r [] = r"
| "power_request r (p # ps) =
     power_request (if p = ''hmi.ctrl.btn.hv_on'' then (True, False)
       else if p = ''hmi.ctrl.btn.hv_off'' then (False, True) else r) ps"

definition writes :: "write_event list \<Rightarrow> panel_ctx \<Rightarrow> panel_ctx" where
  "writes ws x = foldl (\<lambda>x w. onHmiWrite w x) x ws"

definition buttons_at :: "hmi_ctx \<Rightarrow> (u16 \<Rightarrow> bool) \<Rightarrow> bool" where
  "buttons_at h down \<longleftrightarrow> (\<forall>a. is_down (button_of h a) = down a \<and> armed (button_of h a) = down a)"

definition requests :: "hmi_ctx \<Rightarrow> bool \<times> bool" where
  "requests h = (hv_on_requested h, hv_off_requested h)"

lemma note_write_hmi [simp]:
  "x_hmi (x\<lparr>x_ext := e\<rparr>) = x_hmi x" by simp

lemma button_of_update [simp]:
  "button_of (h\<lparr>h_buttons := (h_buttons h)(a \<mapsto> st)\<rparr>) b = (if b = a then st else button_of h b)"
  by (simp add: button_of_def)

lemma button_of_same: "h_buttons h' = h_buttons h \<Longrightarrow> button_of h' b = button_of h b"
  by (simp add: button_of_def)

lemma click_fields:
  "h_map (x_hmi (onHmiButtonClick a path name x)) = h_map (x_hmi x)"
  "h_buttons (x_hmi (onHmiButtonClick a path name x)) = h_buttons (x_hmi x)"
  "requests (x_hmi (onHmiButtonClick a path name x)) = power_request (requests (x_hmi x)) [path]"
  "h_button_path (x_hmi (onHmiButtonClick a path name x)) = path"
  by (simp_all add: click_hmi Let_def requests_def)

lemma power_request_append: "power_request r (ps @ qs) = power_request (power_request r ps) qs"
  by (induction ps arbitrary: r) simp_all

definition last_path :: "string \<Rightarrow> string list \<Rightarrow> string" where
  "last_path p ps = (if ps = [] then p else last ps)"

text \<open>One write, seen as a step of the abstract buttons.\<close>

lemma write_step:
  assumes m: "h_map (x_hmi x) = Some m" and b: "buttons_at (x_hmi x) down"
  shows "\<exists>down' ps. (\<forall>ws. clicked m down (w # ws) = ps @ clicked m down' ws) \<and>
     h_map (x_hmi (onHmiWrite w x)) = Some m \<and> buttons_at (x_hmi (onHmiWrite w x)) down' \<and>
     requests (x_hmi (onHmiWrite w x)) = power_request (requests (x_hmi x)) ps \<and>
     h_button_path (x_hmi (onHmiWrite w x)) = last_path (h_button_path (x_hmi x)) ps"
proof (cases "isBoolWrite w \<and> coil_item m (w_start_addr w) \<noteq> None")
  case False
  then have "h_map (x_hmi (onHmiWrite w x)) = Some m \<and> h_buttons (x_hmi (onHmiWrite w x)) = h_buttons (x_hmi x) \<and>
      requests (x_hmi (onHmiWrite w x)) = requests (x_hmi x) \<and>
      h_button_path (x_hmi (onHmiWrite w x)) = h_button_path (x_hmi x)"
    using m by (auto simp: onHmiWrite_def handleHmiCoilWrite_def cacheWrittenRegs_def cacheHmiParam_def requests_def
        Let_def split: option.split)
  with False b show ?thesis
    by (intro exI [of _ down] exI [of _ "[]"]) (auto simp: buttons_at_def last_path_def button_of_def)
next
  case True
  then obtain mi where mi: "coil_item m (w_start_addr w) = Some mi" by auto
  define a where "a = w_start_addr w"
  define on where "on = (firstBitOrZero w \<noteq> 0)"
  define ps where "ps = (if \<not> on \<and> down a then [mi_path mi] else [])"
  have on: "(ucast (firstBitOrZero w) :: u16) \<noteq> 0 \<longleftrightarrow> on"
    by (auto simp: on_def firstBitOrZero_def split: list.split)
  define x1 where "x1 = x\<lparr>x_ext := note_write w (x_ext x), x_hmi := (x_hmi x)\<lparr>h_last_addr := a,
    h_last_value := ucast (firstBitOrZero w), h_coil_state := (h_coil_state (x_hmi x))(a \<mapsto> ucast (firstBitOrZero w))\<rparr>\<rparr>"
  have x1: "h_map (x_hmi x1) = Some m" "button_of (x_hmi x1) c = button_of (x_hmi x) c"
    "requests (x_hmi x1) = requests (x_hmi x)" "h_button_path (x_hmi x1) = h_button_path (x_hmi x)" for c
    using m by (simp_all add: x1_def requests_def button_of_def)
  have st: "is_down (button_of (x_hmi x1) a) = down a" "armed (button_of (x_hmi x1) a) = down a"
    using b x1 by (simp_all add: buttons_at_def)
  have run: "onHmiWrite w x = (let st = button_of (x_hmi x1) a in
      if on then set_button a (if \<not> down a then st\<lparr>is_down := True, armed := True, press_ts := w_ts w\<rparr> else st) x1
      else let x2 = set_button a (st\<lparr>release_ts := w_ts w, is_down := False, armed := False\<rparr>) x1
           in if down a then onHmiButtonClick a (mi_path mi) (mi_name mi) x2 else x2)"
    using True m mi on st
    by (simp add: onHmiWrite_def handleHmiCoilWrite_def a_def [symmetric] x1_def [symmetric] Let_def cong: if_cong)
  show ?thesis
  proof (intro exI [of _ "down(a := on)"] exI [of _ ps] conjI allI)
    show "clicked m down (w # ws) = ps @ clicked m (down(a := on)) ws" for ws
      using True mi by (simp add: ps_def a_def on_def Let_def)
    show "h_map (x_hmi (onHmiWrite w x)) = Some m"
      by (simp add: run Let_def click_fields set_button_def x1)
    show "buttons_at (x_hmi (onHmiWrite w x)) (down(a := on))"
      using b st by (auto simp: run Let_def buttons_at_def click_fields set_button_def button_of_same [OF click_fields(2)] x1)
    show "requests (x_hmi (onHmiWrite w x)) = power_request (requests (x_hmi x)) ps"
      by (auto simp: run Let_def ps_def set_button_def x1 click_fields(3)) (simp_all add: requests_def x1_def)
    show "h_button_path (x_hmi (onHmiWrite w x)) = last_path (h_button_path (x_hmi x)) ps"
      by (auto simp: run Let_def ps_def set_button_def x1 click_fields last_path_def)
  qed
qed

lemma writes_buttons:
  assumes "h_map (x_hmi x) = Some m" "buttons_at (x_hmi x) down"
  shows "h_map (x_hmi (writes ws x)) = Some m \<and>
     requests (x_hmi (writes ws x)) = power_request (requests (x_hmi x)) (clicked m down ws) \<and>
     h_button_path (x_hmi (writes ws x)) = last_path (h_button_path (x_hmi x)) (clicked m down ws)"
  using assms
proof (induction ws arbitrary: x down)
  case (Cons w ws)
  from write_step [OF Cons.prems, of w] obtain down' ps where
    step: "clicked m down (w # ws) = ps @ clicked m down' ws" "h_map (x_hmi (onHmiWrite w x)) = Some m"
    "buttons_at (x_hmi (onHmiWrite w x)) down'"
    "requests (x_hmi (onHmiWrite w x)) = power_request (requests (x_hmi x)) ps"
    "h_button_path (x_hmi (onHmiWrite w x)) = last_path (h_button_path (x_hmi x)) ps" by blast
  from Cons.IH [OF step(2,3)] step show ?case
    by (simp add: writes_def power_request_append last_path_def del: clicked.simps)
qed (simp add: writes_def last_path_def)

lemma power_request_last:
  "power_request r ps = (case find (\<lambda>p. p \<in> power_buttons) (rev ps) of None \<Rightarrow> r
     | Some p \<Rightarrow> (p = ''hmi.ctrl.btn.hv_on'', p = ''hmi.ctrl.btn.hv_off''))"
  by (induction ps rule: rev_induct) (auto simp: power_request_append power_buttons_def split: option.split)

section \<open>Parameters in registers\<close>

text \<open>The value written last to a register.\<close>

fun last_written :: "hmi_write_event list \<Rightarrow> u16 \<Rightarrow> u16 option" where
  "last_written [] a = None"
| "last_written (ev # evs) a =
     (case last_written evs a of Some v \<Rightarrow> Some v
      | None \<Rightarrow> if \<not> ev_is_bool ev \<and> ev_addr ev = a then Some (ev_value_u16 ev) else None)"

definition or_zero :: "u16 option \<Rightarrow> u16" where
  "or_zero v = (case v of None \<Rightarrow> 0 | Some v \<Rightarrow> v)"

lemma last_written_snoc:
  "last_written (evs @ [ev]) a = (if \<not> ev_is_bool ev \<and> ev_addr ev = a then Some (ev_value_u16 ev) else last_written evs a)"
  by (induction evs) (auto split: option.split)

lemma coil_write_other:
  "h_reg_state (x_hmi (handleHmiCoilWrite w x)) = h_reg_state (x_hmi x)"
  "h_param_values (x_hmi (handleHmiCoilWrite w x)) = h_param_values (x_hmi x)"
  "h_map (x_hmi (handleHmiCoilWrite w x)) = h_map (x_hmi x)"
  by (auto simp: handleHmiCoilWrite_def set_button_def click_hmi Let_def split: option.split)

definition handle_events :: "(u64 \<times> hmi_write_event) list \<Rightarrow> panel_ctx \<Rightarrow> panel_ctx" where
  "handle_events evs = writes (map (\<lambda>(ts, ev). write_event_of ts ev) evs)"

lemma handle_events_snoc: "handle_events (evs @ [(ts, ev)]) x = onHmiWrite (write_event_of ts ev) (handle_events evs x)"
  by (simp add: handle_events_def writes_def)

lemma bool_event:
  assumes "ev_is_bool ev"
  shows "h_map (x_hmi (onHmiWrite (write_event_of ts ev) x)) = h_map (x_hmi x)"
    "h_reg_state (x_hmi (onHmiWrite (write_event_of ts ev) x)) = h_reg_state (x_hmi x)"
    "h_param_values (x_hmi (onHmiWrite (write_event_of ts ev) x)) = h_param_values (x_hmi x)"
  using assms by (simp_all add: onHmiWrite_def write_event_of_def isBoolWrite_def coil_write_other Let_def)

lemma reg_event:
  assumes "\<not> ev_is_bool ev" "h_map (x_hmi x) = Some m"
  shows "h_map (x_hmi (onHmiWrite (write_event_of ts ev) x)) = Some m"
    "h_reg_state (x_hmi (onHmiWrite (write_event_of ts ev) x)) = (h_reg_state (x_hmi x))(ev_addr ev \<mapsto> ev_value_u16 ev)"
    "h_param_values (x_hmi (onHmiWrite (write_event_of ts ev) x)) =
       (case reg_item m (ev_addr ev) of None \<Rightarrow> h_param_values (x_hmi x)
        | Some mi \<Rightarrow> if startsWith (mi_path mi) ''hmi.param.''
            then (h_param_values (x_hmi x))(mi_path mi \<mapsto>
              readMappedRegValue ((x_hmi x)\<lparr>h_reg_state := (h_reg_state (x_hmi x))(ev_addr ev \<mapsto> ev_value_u16 ev)\<rparr>) mi)
            else h_param_values (x_hmi x))"
proof -
  have "unat (ev_addr ev) < 65536" using unsigned_less [of "ev_addr ev", where ?'a = nat] by simp
  then have "min (Suc 0) (65536 - unat (ev_addr ev)) = Suc 0" by simp
  then have c: "cacheWrittenRegs (write_event_of ts ev) h = h\<lparr>h_reg_state := (h_reg_state h)(ev_addr ev \<mapsto> ev_value_u16 ev)\<rparr>" for h
    using assms(1) by (simp add: cacheWrittenRegs_def write_event_of_def)
  have "isBoolWrite (write_event_of ts ev) = False" "isRegWrite (write_event_of ts ev)"
    "w_start_addr (write_event_of ts ev) = ev_addr ev"
    using assms(1) by (simp_all add: isBoolWrite_def isRegWrite_def write_event_of_def)
  note f = this c
  show "h_map (x_hmi (onHmiWrite (write_event_of ts ev) x)) = Some m"
    "h_reg_state (x_hmi (onHmiWrite (write_event_of ts ev) x)) = (h_reg_state (x_hmi x))(ev_addr ev \<mapsto> ev_value_u16 ev)"
    using assms(2) by (simp_all add: onHmiWrite_def f cacheHmiParam_def Let_def split: option.split)
  show "h_param_values (x_hmi (onHmiWrite (write_event_of ts ev) x)) =
       (case reg_item m (ev_addr ev) of None \<Rightarrow> h_param_values (x_hmi x)
        | Some mi \<Rightarrow> if startsWith (mi_path mi) ''hmi.param.''
            then (h_param_values (x_hmi x))(mi_path mi \<mapsto>
              readMappedRegValue ((x_hmi x)\<lparr>h_reg_state := (h_reg_state (x_hmi x))(ev_addr ev \<mapsto> ev_value_u16 ev)\<rparr>) mi)
            else h_param_values (x_hmi x))"
    using assms(2)
    by (simp add: onHmiWrite_def f cacheHmiParam_def Let_def readMappedRegValue_def regStateOrZero_def split: option.split)
qed

definition pair_value :: "u16 option \<Rightarrow> u16 option \<Rightarrow> i32" where
  "pair_value hi lo = push_bit 16 (ucast (or_zero hi)) OR ucast (or_zero lo)"

text \<open>The registers of the parameter \<open>p\<close>: the pair from \<open>a\<close> on, and no other.\<close>

definition param_pair :: "hmi_model \<Rightarrow> string \<Rightarrow> u16 \<Rightarrow> bool" where
  "param_pair m p a \<longleftrightarrow> startsWith p ''hmi.param.'' \<and>
     (\<forall>b mi. reg_item m b = Some mi \<and> mi_path mi = p \<longrightarrow> mi_base_addr mi = a \<and> 2 \<le> mi_words mi) \<and>
     (\<forall>b. (\<exists>mi. reg_item m b = Some mi \<and> mi_path mi = p) \<longleftrightarrow> b = a \<or> b = a + 1)"

lemma param_pair_invariant:
  assumes "h_map (x_hmi x) = Some m" "h_reg_state (x_hmi x) = Map.empty" "h_param_values (x_hmi x) p = None"
    and p: "param_pair m p a"
  shows "h_map (x_hmi (handle_events evs x)) = Some m \<and>
     h_reg_state (x_hmi (handle_events evs x)) = last_written (map snd evs) \<and>
     h_param_values (x_hmi (handle_events evs x)) p =
       (if last_written (map snd evs) a = None \<and> last_written (map snd evs) (a + 1) = None then None
        else Some (pair_value (last_written (map snd evs) a) (last_written (map snd evs) (a + 1))))"
proof (induction evs rule: rev_induct)
  case Nil
  then show ?case using assms by (auto simp: handle_events_def writes_def)
next
  case (snoc e evs)
  obtain ts ev where e: "e = (ts, ev)" by fastforce
  let ?y = "handle_events evs x"
  define L where "L = last_written (map snd evs)"
  define L' where "L' = last_written (map snd (evs @ [e]))"
  have L': "L' b = (if \<not> ev_is_bool ev \<and> ev_addr ev = b then Some (ev_value_u16 ev) else L b)" for b
    by (simp add: L'_def L_def e last_written_snoc)
  note IH = snoc.IH [folded L_def]
  show ?case
  proof (cases "ev_is_bool ev")
    case True
    then show ?thesis using IH L' unfolding L'_def [symmetric] by (auto simp: e handle_events_snoc bool_event)
  next
    case False
    note r = reg_event [OF False, of ?y m ts]
    have m: "h_map (x_hmi ?y) = Some m" using IH by blast
    have reg: "h_reg_state (x_hmi (handle_events (evs @ [e]) x)) = L'"
      using IH r(2) [OF m] False L' by (auto simp: e handle_events_snoc)
    show ?thesis
    proof (cases "ev_addr ev = a \<or> ev_addr ev = a + 1")
      case here: True
      then obtain mi where mi: "reg_item m (ev_addr ev) = Some mi" "mi_path mi = p" "mi_base_addr mi = a" "2 \<le> mi_words mi"
        using p unfolding param_pair_def by metis
      have "startsWith p ''hmi.param.''" using p by (simp add: param_pair_def)
      then have "h_param_values (x_hmi (handle_events (evs @ [e]) x)) p = Some (pair_value (L' a) (L' (a + 1)))"
        using r(3) [OF m] mi IH L' False
        by (simp add: e handle_events_snoc readMappedRegValue_def regStateOrZero_def pair_value_def or_zero_def split: option.split)
      moreover have "L' a \<noteq> None \<or> L' (a + 1) \<noteq> None" using here False L' by auto
      ultimately show ?thesis using reg r(1) [OF m] unfolding L'_def [symmetric] by (auto simp: e handle_events_snoc)
    next
      case other: False
      then have "\<And>mi. reg_item m (ev_addr ev) = Some mi \<Longrightarrow> mi_path mi \<noteq> p" using p unfolding param_pair_def by metis
      then have "h_param_values (x_hmi (handle_events (evs @ [e]) x)) p = h_param_values (x_hmi ?y) p"
        using r(3) [OF m] by (auto simp: e handle_events_snoc split: option.split)
      moreover have "L' a = L a" "L' (a + 1) = L (a + 1)" using other L' by auto
      ultimately show ?thesis using IH reg r(1) [OF m] unfolding L'_def [symmetric] by (auto simp: e handle_events_snoc)
    qed
  qed
qed

section \<open>From the frames of the panel to the logic\<close>

text \<open>One request to the slave: it works on the table of the panel, and its write events are handled before the
  next request.\<close>

definition serve :: "u64 \<Rightarrow> bytes \<Rightarrow> hmi \<times> panel_ctx \<Rightarrow> hmi \<times> panel_ctx" where
  "serve ts req hx =
     (let (h, x) = hx;
          h = h\<lparr>hmi_tab := (case x_table x of Some t \<Rightarrow> t | None \<Rightarrow> hmi_tab h), hmi_events := []\<rparr>;
          (ok, reply, h) = handleRequest req h
      in (h, handle_events (map (\<lambda>ev. (ts, ev)) (hmi_events h)) (x\<lparr>x_table := map_option (\<lambda>_. hmi_tab h) (x_table x)\<rparr>)))"

text \<open>A command of the panel to a coil: when, which, and on or off.\<close>

type_synonym coil_command = "u64 \<times> u16 \<times> bool"

definition coil_frame :: "u8 \<Rightarrow> coil_command \<Rightarrow> bytes" where
  "coil_frame i cmd = (case cmd of (ts, a, on) \<Rightarrow> request i 0x05 a (if on then 0xFF00 else 0) [])"

definition coil_write :: "coil_command \<Rightarrow> write_event" where
  "coil_write cmd = (case cmd of (ts, a, on) \<Rightarrow>
     \<lparr>w_start_addr = a, w_bits = [if on then 1 else 0], w_regs = [], w_ts = ts\<rparr>)"

definition coil_session :: "coil_command list \<Rightarrow> hmi \<times> panel_ctx \<Rightarrow> hmi \<times> panel_ctx" where
  "coil_session cmds hx = foldl (\<lambda>hx cmd. serve (fst cmd) (coil_frame (hmi_id (fst hx)) cmd) hx) hx cmds"

lemma serve_coil:
  assumes "hmi_on_write h" "mapCoilAddr (fst (snd cmd)) \<noteq> None"
  shows "\<exists>h' t'. serve (fst cmd) (coil_frame (hmi_id h) cmd) (h, x) = (h', onHmiWrite (coil_write cmd) (x\<lparr>x_table := t'\<rparr>)) \<and>
     hmi_id h' = hmi_id h \<and> hmi_on_write h'"
proof -
  obtain ts a on where cmd: "cmd = (ts, a, on)" by (cases cmd)
  define h0 where "h0 = h\<lparr>hmi_tab := (case x_table x of Some t \<Rightarrow> t | None \<Rightarrow> hmi_tab h), hmi_events := []\<rparr>"
  have h0: "hmi_id h0 = hmi_id h" "hmi_on_write h0" "hmi_events h0 = []" using assms by (simp_all add: h0_def)
  obtain out h' where r: "handleRequest (coil_frame (hmi_id h) cmd) h0 = (True, out, h')"
    "hmi_events h' = [\<lparr>ev_addr = a, ev_is_bool = True, ev_value_u16 = (if on then 1 else 0), ev_is_multi = False\<rparr>]"
    "hmi_id h' = hmi_id h" "hmi_on_write h'"
    using assms(2) h0
    by (cases on) (auto simp: cmd coil_frame_def handleRequest_def handleWriteSingleCoil_def notify_write_def Let_def split: option.splits)
  have "serve ts (coil_frame (hmi_id h) cmd) (h, x) =
     (h', onHmiWrite (coil_write cmd) (x\<lparr>x_table := map_option (\<lambda>_. hmi_tab h') (x_table x)\<rparr>))"
    unfolding serve_def h0_def [symmetric] Let_def prod.case r
    by (simp add: r handle_events_def writes_def write_event_of_def coil_write_def cmd)
  with r(3,4) show ?thesis by (auto simp: cmd)
qed

lemma coil_session_buttons:
  assumes "hmi_on_write h" "\<forall>cmd \<in> set cmds. mapCoilAddr (fst (snd cmd)) \<noteq> None"
    and "h_map (x_hmi x) = Some m" "buttons_at (x_hmi x) down"
  shows "requests (x_hmi (snd (coil_session cmds (h, x)))) = power_request (requests (x_hmi x)) (clicked m down (map coil_write cmds))"
  using assms
proof (induction cmds arbitrary: h x down)
  case (Cons cmd cmds)
  from serve_coil [of h cmd x] Cons.prems obtain h' t' where
    s: "serve (fst cmd) (coil_frame (hmi_id h) cmd) (h, x) = (h', onHmiWrite (coil_write cmd) (x\<lparr>x_table := t'\<rparr>))"
    "hmi_id h' = hmi_id h" "hmi_on_write h'" by auto
  from Cons.prems(3,4) have x: "h_map (x_hmi (x\<lparr>x_table := t'\<rparr>)) = Some m" "buttons_at (x_hmi (x\<lparr>x_table := t'\<rparr>)) down" by simp_all
  from write_step [OF x, of "coil_write cmd"] obtain down' ps where
    step: "clicked m down (coil_write cmd # map coil_write cmds) = ps @ clicked m down' (map coil_write cmds)"
    "h_map (x_hmi (onHmiWrite (coil_write cmd) (x\<lparr>x_table := t'\<rparr>))) = Some m"
    "buttons_at (x_hmi (onHmiWrite (coil_write cmd) (x\<lparr>x_table := t'\<rparr>))) down'"
    "requests (x_hmi (onHmiWrite (coil_write cmd) (x\<lparr>x_table := t'\<rparr>))) = power_request (requests (x_hmi x)) ps" by auto
  from Cons.IH [OF s(3) _ step(2,3)] Cons.prems(2) step s(1) show ?case
    by (simp add: coil_session_def power_request_append del: clicked.simps)
qed (simp add: coil_session_def)

section \<open>Properties\<close>

text \<open>C23: a button takes effect when it is released. Whatever the panel writes, from a state in which no button is
  held, the button that the logic noted last is the one that was released last after having been pressed, and the
  operator's power requests are those of the last power button in this order: on, off or none, never both.\<close>

theorem released_buttons_act:
  assumes "h_map (x_hmi x0) = Some m" and "h_buttons (x_hmi x0) = Map.empty"
    and "\<not> hv_on_requested (x_hmi x0)" and "\<not> hv_off_requested (x_hmi x0)"
    and "ps = clicked m (\<lambda>_. False) ws" and "h = x_hmi (writes ws x0)"
  shows "(hv_on_requested h, hv_off_requested h) =
      (case find (\<lambda>p. p \<in> {''hmi.ctrl.btn.hv_on'', ''hmi.ctrl.btn.hv_off''}) (rev ps) of
         None \<Rightarrow> (False, False)
       | Some p \<Rightarrow> (p = ''hmi.ctrl.btn.hv_on'', p = ''hmi.ctrl.btn.hv_off''))
    \<and> (ps \<noteq> [] \<longrightarrow> h_button_path h = last ps)"
proof -
  have "buttons_at (x_hmi x0) (\<lambda>_. False)" using assms(2) by (simp add: buttons_at_def button_of_def button_init_def)
  from writes_buttons [OF assms(1) this, of ws] assms(3-6) show ?thesis
    by (simp add: requests_def power_request_last power_buttons_def last_path_def)
qed

definition example_item :: "hmi_type \<Rightarrow> u16 \<Rightarrow> u16 \<Rightarrow> string \<Rightarrow> hmi_item" where
  "example_item t a n path = \<lparr>i_type = t, i_kind = EmptyItem, i_block_index = 0, i_item_index = 0, i_line_no = 1,
     i_block_base = None, i_addr = Some a, i_words = n, i_path = path, i_name = [], i_value_type = [], i_src = [],
     i_type_text = [], i_params = \<lparr>p_def = None, p_scale = None, p_offset = None, p_min = None, p_max = None, p_bit_index = None\<rparr>,
     i_eq = None, i_gt = None, i_ge = None, i_lt = None, i_le = None\<rparr>"

definition example_panel_map :: hmi_model where
  "example_panel_map = fst (foldl (\<lambda>mb it. appendItemToModel it mb) (model_init, example_block)
     [example_item BoolRw 0x1001 1 ''hmi.ctrl.btn.hv_on'', example_item BoolRw 0x1002 1 ''hmi.ctrl.btn.hv_off'',
      example_item BoolRw 0x1003 1 ''hmi.fault.btn.his_page_next'',
      example_item IntRw 0x2000 2 ''hmi.param.maintain_password''])"

definition example_panel :: panel_ctx where
  "example_panel = panel_init\<lparr>x_hmi := hmi_ctx_init\<lparr>h_map := Some example_panel_map\<rparr>\<rparr>"

lemmas example_lookup_simps =
  coil_item_def reg_item_def findHmiWriteItemByAddress_def hmi_ctx_init_def example_panel_map_def example_item_def
  appendItemToModel_def model_init_def findByAddr_def itemAt_def push_at_def snoc_if_def isRwMapType_def classifyItem_def
  isReadOutputMapType_def fillMappedWriteItem_def matchLookupKind_def isEmptyOrPlaceholderPath_def startsWith_def hasPath_def

lemma example_coils:
  "map_option mi_path (coil_item example_panel_map 0x1001) = Some ''hmi.ctrl.btn.hv_on''"
  "map_option mi_path (coil_item example_panel_map 0x1002) = Some ''hmi.ctrl.btn.hv_off''"
  "map_option mi_path (coil_item example_panel_map 0x1003) = Some ''hmi.fault.btn.his_page_next''"
  "coil_item example_panel_map 0x1004 = None"
  by (simp_all add: example_lookup_simps Let_def)

definition example_commands :: "coil_command list" where
  "example_commands = [(10, 0x1002, False), (20, 0x1001, True), (30, 0x1002, True), (40, 0x1001, False), (50, 0x1004, True)]"

lemma example_clicked:
  "clicked example_panel_map (\<lambda>_. False) (map coil_write example_commands) = [''hmi.ctrl.btn.hv_on'']"
  using example_coils by (auto simp: example_commands_def coil_write_def isBoolWrite_def firstBitOrZero_def)

theorem released_buttons_act_witness:
  "let h = x_hmi (writes (map coil_write example_commands) example_panel) in
     hv_on_requested h \<and> \<not> hv_off_requested h \<and> h_button_path h = ''hmi.ctrl.btn.hv_on''"
  using released_buttons_act [of example_panel example_panel_map _ "map coil_write example_commands", OF _ _ _ _ refl refl]
  by (simp add: example_clicked example_panel_def hmi_ctx_init_def)

lemma ex_after_Cons:
  "(\<exists>us vs. p # ps = us @ x # vs \<and> y \<notin> set vs) \<longleftrightarrow> p = x \<and> y \<notin> set ps \<or> (\<exists>us vs. ps = us @ x # vs \<and> y \<notin> set vs)"
  (is "?l \<longleftrightarrow> ?r")
proof
  assume ?l
  then obtain us vs where "p # ps = us @ x # vs" "y \<notin> set vs" by blast
  then show ?r by (cases us) auto
next
  assume ?r
  then show ?l
  proof
    assume "p = x \<and> y \<notin> set ps" then show ?l by (intro exI [of _ "[]"] exI [of _ ps]) simp
  next
    assume "\<exists>us vs. ps = us @ x # vs \<and> y \<notin> set vs"
    then obtain us vs where "ps = us @ x # vs" "y \<notin> set vs" by blast
    then show ?l by (intro exI [of _ "p # us"] exI [of _ vs]) simp
  qed
qed

lemma power_request_on:
  "fst (power_request r ps) \<longleftrightarrow>
     (\<exists>us vs. ps = us @ ''hmi.ctrl.btn.hv_on'' # vs \<and> ''hmi.ctrl.btn.hv_off'' \<notin> set vs) \<or>
     (fst r \<and> ''hmi.ctrl.btn.hv_off'' \<notin> set ps)"
proof (induction ps arbitrary: r)
  case (Cons p ps)
  show ?case unfolding ex_after_Cons power_request.simps Cons.IH by simp blast
qed simp

lemma power_request_off:
  "snd (power_request r ps) \<longleftrightarrow>
     (\<exists>us vs. ps = us @ ''hmi.ctrl.btn.hv_off'' # vs \<and> ''hmi.ctrl.btn.hv_on'' \<notin> set vs) \<or>
     (snd r \<and> ''hmi.ctrl.btn.hv_on'' \<notin> set ps)"
proof (induction ps arbitrary: r)
  case (Cons p ps)
  show ?case unfolding ex_after_Cons power_request.simps Cons.IH by simp blast
qed simp

text \<open>C17: the power buttons over the wire. The panel sends write-coil requests (function 5) to any coils; the slave
  answers them, its write events reach the logic through the application, and then the operator's requests are what
  the order of releases says. A press alone changes nothing.\<close>

theorem coil_frames_request_power:
  assumes "hmi_on_write h" and "\<forall>(ts, a, on) \<in> set cmds. 0x1000 \<le> a \<and> a \<le> 0x1FFF"
    and "h_map (x_hmi x0) = Some m" and "h_buttons (x_hmi x0) = Map.empty"
    and "\<not> hv_on_requested (x_hmi x0)" and "\<not> hv_off_requested (x_hmi x0)"
    and "ps = clicked m (\<lambda>_. False) (map coil_write cmds)"
    and "h' = x_hmi (snd (coil_session cmds (h, x0)))"
  shows "(hv_on_requested h' \<longleftrightarrow>
      (\<exists>us vs. ps = us @ ''hmi.ctrl.btn.hv_on'' # vs \<and> ''hmi.ctrl.btn.hv_off'' \<notin> set vs)) \<and>
    (hv_off_requested h' \<longleftrightarrow>
      (\<exists>us vs. ps = us @ ''hmi.ctrl.btn.hv_off'' # vs \<and> ''hmi.ctrl.btn.hv_on'' \<notin> set vs))"
proof -
  have "\<forall>cmd \<in> set cmds. mapCoilAddr (fst (snd cmd)) \<noteq> None"
    using assms(2) by (fastforce simp: mapCoilAddr_def inRange_def hmi_area_defs)
  moreover have "buttons_at (x_hmi x0) (\<lambda>_. False)" using assms(4) by (simp add: buttons_at_def button_of_def button_init_def)
  ultimately have "requests h' = power_request (False, False) ps"
    using coil_session_buttons [OF assms(1) _ assms(3)] assms(5-8) by (simp add: requests_def)
  then show ?thesis using power_request_on [of "(False, False)" ps] power_request_off [of "(False, False)" ps]
    by (simp add: requests_def prod_eq_iff)
qed

theorem coil_frames_request_power_witness:
  "hv_on_requested (x_hmi (snd (coil_session example_commands (setOnWrite (hmi_init 3), example_panel))))"
proof -
  have "\<forall>(ts, a, on) \<in> set example_commands. 0x1000 \<le> a \<and> a \<le> 0x1FFF" by (simp add: example_commands_def)
  from coil_frames_request_power [OF _ this, of "setOnWrite (hmi_init 3)" example_panel, OF _ _ _ _ _ refl refl]
  show ?thesis by (fastforce simp: example_clicked example_panel_def hmi_ctx_init_def setOnWrite_def Cons_eq_append_conv)
qed

text \<open>C28: a parameter of two registers. Whatever the panel writes, to coils and to registers, register by register, the
  value the logic has for the parameter is the combination of the values written last to its two registers, the
  high half first; a half that was never written counts as zero. So between the two writes of a new value the logic
  has the new half with the old one.\<close>

theorem two_register_parameter:
  assumes "h_map (x_hmi x0) = Some m" and "h_reg_state (x_hmi x0) = Map.empty" and "h_param_values (x_hmi x0) p = None"
    and "startsWith p ''hmi.param.''"
    and "\<forall>b. (\<exists>mi. reg_item m b = Some mi \<and> mi_path mi = p) \<longleftrightarrow> b = a \<or> b = a + 1"
    and "\<forall>b mi. reg_item m b = Some mi \<and> mi_path mi = p \<longrightarrow> mi_base_addr mi = a \<and> 2 \<le> mi_words mi"
  shows "h_param_values (x_hmi (handle_events evs x0)) p =
     (case (last_written (map snd evs) a, last_written (map snd evs) (a + 1)) of
        (None, None) \<Rightarrow> None
      | (Some hi, None) \<Rightarrow> Some (push_bit 16 (ucast hi))
      | (None, Some lo) \<Rightarrow> Some (ucast lo)
      | (Some hi, Some lo) \<Rightarrow> Some (push_bit 16 (ucast hi) OR ucast lo))"
  using param_pair_invariant [OF assms(1-3), of a evs] assms(4-6)
  by (auto simp: param_pair_def pair_value_def or_zero_def split: option.split)

lemma example_tables:
  "h_map (hmi_ctx_init\<lparr>h_map := Some m\<rparr>) = Some m"
  "m_rw_items example_panel_map = [0, 1, 2, 3]"
  "m_by_addr example_panel_map = [0x1001 \<mapsto> [0], 0x1002 \<mapsto> [1], 0x1003 \<mapsto> [2], 0x2000 \<mapsto> [3]]"
  "map (\<lambda>it. (i_addr it, i_words it, i_type it, i_path it, i_name it, i_value_type it)) (m_items example_panel_map) =
     [(Some 0x1001, 1, BoolRw, ''hmi.ctrl.btn.hv_on'', [], []), (Some 0x1002, 1, BoolRw, ''hmi.ctrl.btn.hv_off'', [], []),
      (Some 0x1003, 1, BoolRw, ''hmi.fault.btn.his_page_next'', [], []),
      (Some 0x2000, 2, IntRw, ''hmi.param.maintain_password'', [], [])]"
  by (simp_all add: example_lookup_simps Let_def) (simp add: numeral_2_eq_2 numeral_3_eq_3)

lemma example_param:
  "reg_item example_panel_map b = (if b = 0x2000 \<or> b = 0x2001 then
     Some \<lparr>mi_addr = b, mi_base_addr = 0x2000, mi_word_offset = b - 0x2000, mi_words = 2, mi_type = IntRw,
       mi_path = ''hmi.param.maintain_password'', mi_name = [], mi_value_type = []\<rparr> else None)"
proof -
  from example_tables(4) obtain c1 c2 c3 r where items: "m_items example_panel_map = [c1, c2, c3, r]"
    and f: "i_type c1 = BoolRw" "i_type c2 = BoolRw" "i_type c3 = BoolRw" "i_addr r = Some 0x2000" "i_words r = 2"
      "i_type r = IntRw" "i_path r = ''hmi.param.maintain_password''" "i_name r = []" "i_value_type r = []"
    by (auto simp: map_eq_Cons_conv)
  have c: "fillMappedWriteItem c b LookIntRw = None" if "i_type c = BoolRw" for c b
    using that by (simp add: fillMappedWriteItem_def matchLookupKind_def split: option.split)
  have r: "fillMappedWriteItem r b LookIntRw = (if uint b < 0x2000 \<or> 0x2002 \<le> uint b then None else
     Some \<lparr>mi_addr = b, mi_base_addr = 0x2000, mi_word_offset = b - 0x2000, mi_words = 2, mi_type = IntRw,
       mi_path = ''hmi.param.maintain_password'', mi_name = [], mi_value_type = []\<rparr>)"
    for b using f by (simp add: fillMappedWriteItem_def matchLookupKind_def isEmptyOrPlaceholderPath_def)
  have b: "uint b < 0x2000 \<or> 0x2002 \<le> uint b \<longleftrightarrow> b \<noteq> 0x2000 \<and> b \<noteq> 0x2001" for b :: u16
    by (simp add: word_uint_eq_iff) presburger
  show ?thesis
    by (auto simp: reg_item_def findHmiWriteItemByAddress_def example_tables(1,2) findByAddr_def example_tables(3) itemAt_def
        items c f r b)
qed

theorem two_register_parameter_witness:
  "h_param_values (x_hmi (handle_events
      [(5, \<lparr>ev_addr = 0x2001, ev_is_bool = False, ev_value_u16 = 0xE240, ev_is_multi = False\<rparr>),
       (6, \<lparr>ev_addr = 0x2000, ev_is_bool = False, ev_value_u16 = 1, ev_is_multi = False\<rparr>)] example_panel))
     ''hmi.param.maintain_password'' = Some 123456"
proof -
  have u: "\<forall>b. (\<exists>mi. reg_item example_panel_map b = Some mi \<and> mi_path mi = ''hmi.param.maintain_password'') \<longleftrightarrow>
      b = 0x2000 \<or> b = 0x2000 + 1"
    and i: "\<forall>b mi. reg_item example_panel_map b = Some mi \<and> mi_path mi = ''hmi.param.maintain_password'' \<longrightarrow>
      mi_base_addr mi = 0x2000 \<and> 2 \<le> mi_words mi"
    by (simp_all add: example_param)
  show ?thesis
    by (subst two_register_parameter [OF _ _ _ _ u i])
      (simp_all add: example_panel_def hmi_ctx_init_def startsWith_def)
qed

end
