(* ===== verification/Panel_Faults.thy ===== *)
theory Panel_Faults
  imports Hmi_Input
begin

text \<open>
  What the operator sees of the faults: the page buttons of \<open>services/control/logic/logic_hmi_input.cpp\<close> and the
  refresh of \<open>services/control/logic/logic_fault_refresh.cpp\<close>, together with the fault centre, the history
  database, its cache and the output to the registers of the panel. The definitions are those of
  \<open>Hmi_Input\<close>; this theory holds what they achieve together.
\<close>

section \<open>A cache that agrees with its database\<close>

definition db_ready :: "hist_db \<Rightarrow> bool" where
  "db_ready db \<longleftrightarrow> hd_opened db \<and> (\<forall>n. hd_ok db n)"

text \<open>The number of closed faults fits the page counter.\<close>

definition cache_fits :: "hist_cache \<Rightarrow> hist_db \<Rightarrow> bool" where
  "cache_fits c db \<longleftrightarrow> hc_db c = Some db \<and> db_ready db \<and> 0 < page_size c \<and> 0 < window_pages c \<and>
     length (newest_first True db) \<le> 65535 * unat (page_size c) \<and>
     length (newest_first True db) + unat (page_size c) < 2 ^ 31"

definition page_count :: "hist_cache \<Rightarrow> hist_db \<Rightarrow> nat" where
  "page_count c db = (length (newest_first True db) + unat (page_size c) - 1) div unat (page_size c)"

definition cache_fresh :: "hist_cache \<Rightarrow> hist_db \<Rightarrow> bool" where
  "cache_fresh c db \<longleftrightarrow> hc_valid c \<and> unat (total_pages c) = page_count c db \<and> window_end_page c \<le> total_pages c \<and>
     (\<forall>p. hasPageInWindow c p \<longrightarrow> pageRows c p = db_page db (unat (page_size c)) (unat p))"

text \<open>The same settings, and the same closed faults in the database.\<close>

definition same_history :: "hist_cache \<Rightarrow> hist_db \<Rightarrow> hist_cache \<Rightarrow> hist_db \<Rightarrow> bool" where
  "same_history c db c' db' \<longleftrightarrow> page_size c' = page_size c \<and> window_pages c' = window_pages c \<and>
     newest_first True db' = newest_first True db \<and> cache_fits c' db'"

lemma same_history_trans: "same_history c db c1 db1 \<Longrightarrow> same_history c1 db1 c2 db2 \<Longrightarrow> same_history c db c2 db2"
  by (simp add: same_history_def)

lemma same_history_page: "same_history c db c' db' \<Longrightarrow> page_count c' db' = page_count c db \<and> db_page db' n k = db_page db n k"
  by (simp add: same_history_def page_count_def db_page_def)

lemma ready_stmt: "db_ready db \<Longrightarrow> run_stmt db = (True, db\<lparr>hd_calls := hd_calls db + 1\<rparr>)"
  by (simp add: run_stmt_def db_ready_def)

lemma loadHistoryRange_ready:
  assumes "db_ready db"
  obtains rows db' where "loadHistoryRange off cnt b db = (Some rows, db')" "newest_first True db' = newest_first True db" "db_ready db'"
proof (cases "cnt = 0")
  case True
  with assms show ?thesis by (intro that [of "[]" db]) (simp_all add: loadHistoryRange_def db_ready_def)
next
  case False
  with assms show ?thesis
    by (intro that [of "sql_limit cnt (sql_offset off (newest_first b db))" "db\<lparr>hd_calls := hd_calls db + 1\<rparr>"])
      (simp_all add: loadHistoryRange_def ready_stmt db_ready_def)
qed

lemma refreshMeta_ready:
  assumes "cache_fits c db"
  shows "\<exists>db'. refreshMeta c = (True, c\<lparr>hc_db := Some db', total_rows := of_nat (length (newest_first True db)),
      total_pages := calcTotalPages (of_nat (length (newest_first True db))) (page_size c), hc_valid := True\<rparr>) \<and>
    newest_first True db' = newest_first True db \<and> db_ready db'"
  using assms
  by (auto simp: refreshMeta_def cache_fits_def countHistoryRows_def ready_stmt db_ready_def)

lemma refreshMeta_fresh:
  assumes f: "cache_fits c db"
  obtains c' db' where "refreshMeta c = (True, c')" "same_history c db c' db'"
    "unat (total_pages c') = page_count c db" "hc_valid c'" "cache_fresh c db \<Longrightarrow> cache_fresh c' db'"
proof -
  define R where "R = newest_first True db"
  obtain db' where m: "refreshMeta c = (True, c\<lparr>hc_db := Some db', total_rows := of_nat (length R),
      total_pages := calcTotalPages (of_nat (length R)) (page_size c), hc_valid := True\<rparr>)"
    and db': "newest_first True db' = R" "db_ready db'"
    using refreshMeta_ready [OF f] by (auto simp: R_def)
  define c' where "c' = c\<lparr>hc_db := Some db', total_rows := of_nat (length R),
      total_pages := calcTotalPages (of_nat (length R)) (page_size c), hc_valid := True\<rparr>"
  have ps: "0 < unat (page_size c)" using f by (simp add: cache_fits_def word_less_nat_alt)
  have pages: "unat (total_pages c') = page_count c db"
    using calcTotalPages_nat [of "page_size c" "length R"] ps f by (simp add: c'_def R_def page_count_def cache_fits_def)
  have same: "same_history c db c' db'"
    using f db' by (simp add: same_history_def cache_fits_def c'_def R_def)
  have "cache_fresh c' db'" if fr: "cache_fresh c db"
  proof -
    from fr pages have t: "total_pages c' = total_pages c" by (simp add: cache_fresh_def word_unat_eq_iff)
    have same_fields: "hc_valid c'" "page_size c' = page_size c" "window_rows c' = window_rows c" "hot_rows c' = hot_rows c"
      "window_start_page c' = window_start_page c" "window_end_page c' = window_end_page c" by (simp_all add: c'_def)
    have w: "hasPageInWindow c' p = hasPageInWindow c p" for p by (simp add: hasPageInWindow_def same_fields)
    have cl: "clampPage c' p = clampPage c p" for p by (simp add: clampPage_def t)
    have sl: "sliceFromWindow c' p = sliceFromWindow c p" "sliceFromHot c' p = sliceFromHot c p" for p
      by (simp_all only: sliceFromWindow_def sliceFromHot_def w same_fields)
    have "pageRows c' p = pageRows c p" for p
      using fr by (simp only: pageRows_def cl sl t same_fields) (simp add: cache_fresh_def)
    with w show ?thesis using fr pages same_history_page [OF same] same_fields t
      by (simp add: cache_fresh_def)
  qed
  from that [OF m [folded c'_def] same pages _ this] show thesis by (simp add: c'_def)
qed

text \<open>The window is loaded around any page, and then the cache agrees with the database.\<close>

lemma refreshWindow_fresh:
  assumes f: "cache_fits c db"
  obtains c' db' where "refreshWindow k c = (True, c')" "same_history c db c' db'" "cache_fresh c' db'"
    "0 < page_count c db \<longrightarrow> hasPageInWindow c' (clampPage c' k)"
proof -
  obtain c1 db1 where m: "refreshMeta c = (True, c1)" and s1: "same_history c db c1 db1"
    and t1: "unat (total_pages c1) = page_count c db" "hc_valid c1"
    by (rule refreshMeta_fresh [OF f]) blast
  have db: "hc_db c = Some db" using f by (simp add: cache_fits_def)
  have f1: "cache_fits c1 db1" using s1 by (simp add: same_history_def)
  have "\<exists>c' db'. refreshWindow k c = (True, c') \<and> same_history c1 db1 c' db' \<and> hc_valid c' \<and>
      total_pages c' = total_pages c1 \<and> window_end_page c' \<le> total_pages c'"
  proof (cases "total_pages c1 = 0")
    case True
    with m db f1 show ?thesis
      by (intro exI [of _ "c1\<lparr>window_rows := [], window_start_page := 0, window_end_page := 0, hc_valid := True\<rparr>"] exI [of _ db1])
        (simp add: refreshWindow_def same_history_def cache_fits_def)
  next
    case False
    obtain s e where w: "window_range (total_pages c1) (window_pages c1) (clampPage c1 k) = (s, e)" by fastforce
    have "1 \<le> clampPage c1 k" "clampPage c1 k \<le> total_pages c1" "1 \<le> window_pages c1"
      using False f1 by (auto simp: clampPage_def cache_fits_def word_le_nat_alt word_less_nat_alt Suc_le_eq unat_gt_0 not_less)
    from window_range_ok [OF this w] have e: "e \<le> total_pages c1" by (simp add: word_le_nat_alt)
    define off where "off = (ucast s - 1 :: u32) * ucast (page_size c1)"
    define cnt where "cnt = (ucast e - ucast s + 1 :: u32) * ucast (page_size c1)"
    obtain rows db2 where l: "loadHistoryRange off cnt True db1 = (Some rows, db2)" "newest_first True db2 = newest_first True db1" "db_ready db2"
      using f1 loadHistoryRange_ready [of db1 off cnt] by (auto simp: cache_fits_def)
    have d1: "hc_db c1 = Some db1" using f1 by (simp add: cache_fits_def)
    have "refreshWindow k c = (True, c1\<lparr>hc_db := Some db2, window_rows := map fromDb rows, window_start_page := s,
        window_end_page := e, hc_valid := True\<rparr>)"
      using False m db d1 w l(1) by (simp add: refreshWindow_def off_def cnt_def)
    moreover have "same_history c1 db1 (c1\<lparr>hc_db := Some db2, window_rows := map fromDb rows, window_start_page := s,
        window_end_page := e, hc_valid := True\<rparr>) db2"
      using f1 l by (simp add: same_history_def cache_fits_def)
    ultimately show ?thesis
      by (intro exI [of _ "c1\<lparr>hc_db := Some db2, window_rows := map fromDb rows, window_start_page := s,
        window_end_page := e, hc_valid := True\<rparr>"] exI [of _ db2]) (simp add: e)
  qed
  then obtain c' db' where w: "refreshWindow k c = (True, c')" and s2: "same_history c1 db1 c' db'" and v: "hc_valid c'"
    "total_pages c' = total_pages c1" "window_end_page c' \<le> total_pages c'"
    by blast
  have s: "same_history c db c' db'" by (rule same_history_trans [OF s1 s2])
  have n: "0 < page_count c db \<Longrightarrow> 0 < length (newest_first True db)"
    using f by (cases "newest_first True db") (auto simp: page_count_def cache_fits_def word_less_nat_alt)
  have facts: "unat (total_pages c') = page_count c db" "0 < length (newest_first True db) \<Longrightarrow> hasPageInWindow c' (clampPage c' k)"
    "\<forall>p. hasPageInWindow c' p \<longrightarrow> pageRows c' p = db_page db (unat (page_size c)) (unat p)"
    using refreshWindow_database [OF db _ _ _ _ w] f by (simp_all add: cache_fits_def Let_def page_count_def)
  have ps: "page_size c' = page_size c" using s by (simp add: same_history_def)
  have "cache_fresh c' db'" using facts(1,3) v(1,3) same_history_page [OF s] by (simp add: cache_fresh_def ps)
  then show thesis using that [OF w s] facts(2) n by blast
qed

lemma ensurePageLoaded_fresh:
  assumes f: "cache_fits c db" and fr: "cache_fresh c db"
  obtains c' db' where "ensurePageLoaded p c = (True, c')" "same_history c db c' db'" "cache_fresh c' db'"
    "0 < page_count c db \<longrightarrow> hasPageInWindow c' (clampPage c' p)"
proof (cases "total_pages c = 0")
  case True
  let ?c = "c\<lparr>window_rows := [], window_start_page := 0, window_end_page := 0\<rparr>"
  have s: "same_history c db ?c db" using f by (simp add: same_history_def cache_fits_def)
  show ?thesis
  proof (rule that [OF _ s])
    show "ensurePageLoaded p c = (True, ?c)" using f fr True by (simp add: ensurePageLoaded_def cache_fits_def cache_fresh_def)
    show "cache_fresh ?c db" using fr True same_history_page [OF s] by (simp add: cache_fresh_def hasPageInWindow_def)
    show "0 < page_count c db \<longrightarrow> hasPageInWindow ?c (clampPage ?c p)" using fr True by (simp add: cache_fresh_def)
  qed
next
  case False
  have e: "ensurePageLoaded p c = (if hasPageInWindow c (clampPage c p) then (True, c) else refreshWindow (clampPage c p) c)"
    using f fr False by (simp add: ensurePageLoaded_def cache_fits_def cache_fresh_def Let_def)
  show ?thesis
  proof (cases "hasPageInWindow c (clampPage c p)")
    case True
    have s: "same_history c db c db" using f by (simp add: same_history_def)
    from True fr e show ?thesis by (intro that [OF _ s]) simp_all
  next
    case no: False
    obtain c' db' where w: "refreshWindow (clampPage c p) c = (True, c')" "same_history c db c' db'" "cache_fresh c' db'"
      "0 < page_count c db \<longrightarrow> hasPageInWindow c' (clampPage c' (clampPage c p))"
      by (rule refreshWindow_fresh [OF f, where k = "clampPage c p"]) (rule that)
    have "total_pages c' = total_pages c"
      using w(2,3) fr same_history_page [OF w(2)] by (simp add: cache_fresh_def word_unat_eq_iff)
    then have "clampPage c' (clampPage c p) = clampPage c' p"
      by (auto simp: clampPage_def)
    with w e no show ?thesis by (intro that [OF _ w(2,3)]) simp_all
  qed
qed

section \<open>The page buttons\<close>

text \<open>The state of the logic in which the history pages agree with the database.\<close>

definition history_fresh :: "panel_ctx \<Rightarrow> hist_cache \<Rightarrow> hist_db \<Rightarrow> bool" where
  "history_fresh x c db \<longleftrightarrow> x_cache x = Some c \<and> cache_fits c db \<and> cache_fresh c db"

text \<open>The page that a button leads to, from page \<open>p\<close> of \<open>n\<close>.\<close>

definition target_page :: "string \<Rightarrow> nat \<Rightarrow> nat \<Rightarrow> nat" where
  "target_page path p n =
     (if path = ''hmi.fault.btn.his_page_next'' then (if p < n then max 1 (p + 1) else n)
      else if path = ''hmi.fault.btn.his_page_prev'' then max 1 (min (p - 1) n)
      else 1)"

definition history_buttons :: "string set" where
  "history_buttons = {''hmi.fault.btn.his_page_enter'', ''hmi.fault.btn.his_page_next'', ''hmi.fault.btn.his_page_prev'',
     ''hmi.fault.btn.his_page_first''}"

definition clamp_to :: "u16 \<Rightarrow> u16 \<Rightarrow> u16" where
  "clamp_to n page = (if n < (if page < 1 then 1 else page) then n else if page < 1 then 1 else page)"

lemma refresh_for_page:
  assumes h: "history_fresh x c db" and n: "0 < page_count c db"
  shows "\<exists>c' db'. refreshHistoryCacheForPage p x = x\<lparr>x_page_no := clamp_to (total_pages c) p, x_cache := Some c'\<rparr> \<and>
     same_history c db c' db' \<and> cache_fresh c' db' \<and> hasPageInWindow c' (clamp_to (total_pages c) p)"
proof -
  have f: "cache_fits c db" and fr: "cache_fresh c db" and x: "x_cache x = Some c" using h by (simp_all add: history_fresh_def)
  obtain c1 db1 where m: "refreshMeta c = (True, c1)" and s1: "same_history c db c1 db1" and fr1: "cache_fresh c1 db1"
    by (rule refreshMeta_fresh [OF f]) (use fr in blast)
  have t: "total_pages c1 = total_pages c" "page_count c1 db1 = page_count c db"
    using fr fr1 same_history_page [OF s1] by (simp_all add: cache_fresh_def word_unat_eq_iff)
  have t0: "total_pages c \<noteq> 0" using fr n by (auto simp: cache_fresh_def)
  define q where "q = clamp_to (total_pages c) p"
  obtain c2 db2 where e: "ensurePageLoaded q c1 = (True, c2)" and s2: "same_history c1 db1 c2 db2" and fr2: "cache_fresh c2 db2"
    and w: "0 < page_count c1 db1 \<longrightarrow> hasPageInWindow c2 (clampPage c2 q)"
    by (rule ensurePageLoaded_fresh [OF _ fr1, where p = q]) (use s1 that in \<open>auto simp: same_history_def\<close>)
  have t2: "total_pages c2 = total_pages c"
    using fr1 fr2 same_history_page [OF s2] t by (simp add: cache_fresh_def word_unat_eq_iff)
  have q: "clampPage c2 q = q" using t0 by (auto simp: t2 q_def clampPage_def clamp_to_def)
  have "refreshHistoryCacheForPage p x = x\<lparr>x_page_no := q, x_cache := Some c2\<rparr>"
    using m e t0 x unfolding q_def clamp_to_def
    by (cases "p = 0"; cases "total_pages c < p") (simp_all add: refreshHistoryCacheForPage_def t(1) Let_def)
  then show ?thesis using same_history_trans [OF s1 s2] fr2 w n q by (auto simp: q_def t)
qed

lemma history_step_fresh:
  assumes h: "history_fresh x c db" and n: "0 < page_count c db"
  shows "\<exists>c' db'. history_step f x c =
       x\<lparr>x_page_no := clamp_to (total_pages c) (f (x_page_no x) (total_pages c)), x_cache := Some c'\<rparr> \<and>
     same_history c db c' db' \<and> cache_fresh c' db' \<and>
     hasPageInWindow c' (clamp_to (total_pages c) (f (x_page_no x) (total_pages c)))"
proof -
  have f: "cache_fits c db" and fr: "cache_fresh c db" using h by (simp_all add: history_fresh_def)
  obtain c1 db1 where m: "refreshMeta c = (True, c1)" and s1: "same_history c db c1 db1" and fr1: "cache_fresh c1 db1"
    by (rule refreshMeta_fresh [OF f]) (use fr in blast)
  have t: "total_pages c1 = total_pages c" "page_count c1 db1 = page_count c db"
    using fr fr1 same_history_page [OF s1] by (simp_all add: cache_fresh_def word_unat_eq_iff)
  have t0: "total_pages c \<noteq> 0" using fr n by (auto simp: cache_fresh_def)
  have h1: "history_fresh (x\<lparr>x_cache := Some c1\<rparr>) c1 db1" using s1 fr1 by (simp add: history_fresh_def same_history_def)
  from refresh_for_page [OF h1, of "f (x_page_no x) (total_pages c1)"] n t obtain c2 db2 where
    r: "refreshHistoryCacheForPage (f (x_page_no x) (total_pages c1)) (x\<lparr>x_cache := Some c1\<rparr>) =
      x\<lparr>x_page_no := clamp_to (total_pages c) (f (x_page_no x) (total_pages c)), x_cache := Some c2\<rparr>"
    "same_history c1 db1 c2 db2" "cache_fresh c2 db2" "hasPageInWindow c2 (clamp_to (total_pages c) (f (x_page_no x) (total_pages c)))"
    by auto
  then show ?thesis using m t0 t same_history_trans [OF s1 r(2)] by (auto simp: history_step_def)
qed

text \<open>Without a closed fault every button leads to page 1, with nothing in the window.\<close>

lemma refresh_for_page_empty:
  assumes h: "history_fresh x c db" and n: "page_count c db = 0"
  shows "\<exists>c' db'. refreshHistoryCacheForPage p x = x\<lparr>x_page_no := 1, x_cache := Some c'\<rparr> \<and>
     same_history c db c' db' \<and> cache_fresh c' db'"
proof -
  have f: "cache_fits c db" and x: "x_cache x = Some c" using h by (simp_all add: history_fresh_def)
  obtain c1 db1 where m: "refreshMeta c = (True, c1)" and s1: "same_history c db c1 db1" and t: "unat (total_pages c1) = page_count c db"
    by (rule refreshMeta_fresh [OF f]) blast
  have f1: "cache_fits c1 db1" using s1 by (simp add: same_history_def)
  obtain c2 db2 where w: "refreshWindow 1 c1 = (True, c2)" "same_history c1 db1 c2 db2" "cache_fresh c2 db2"
    by (rule refreshWindow_fresh [OF f1, where k = 1]) (rule that)
  have "refreshHistoryCacheForPage p x = x\<lparr>x_page_no := 1, x_cache := Some c2\<rparr>"
    using x m w(1) t n by (simp add: refreshHistoryCacheForPage_def unat_eq_0)
  then show ?thesis using same_history_trans [OF s1 w(2)] w(3) by blast
qed

lemma history_step_empty:
  assumes h: "history_fresh x c db" and n: "page_count c db = 0"
  shows "\<exists>c' db'. history_step f x c = x\<lparr>x_page_no := 1, x_cache := Some c'\<rparr> \<and> same_history c db c' db' \<and> cache_fresh c' db'"
proof -
  have f: "cache_fits c db" using h by (simp add: history_fresh_def)
  obtain c1 db1 where m: "refreshMeta c = (True, c1)" and s1: "same_history c db c1 db1" and t: "unat (total_pages c1) = page_count c db"
    by (rule refreshMeta_fresh [OF f]) blast
  have f1: "cache_fits c1 db1" using s1 by (simp add: same_history_def)
  obtain c2 db2 where w: "refreshWindow 1 c1 = (True, c2)" "same_history c1 db1 c2 db2" "cache_fresh c2 db2"
    by (rule refreshWindow_fresh [OF f1, where k = 1]) (rule that)
  have "history_step f x c = x\<lparr>x_page_no := 1, x_cache := Some c2\<rparr>"
    using m w(1) t n by (simp add: history_step_def unat_eq_0)
  then show ?thesis using same_history_trans [OF s1 w(2)] w(3) by blast
qed

lemma history_button_empty:
  assumes h: "history_fresh x c db" and n: "page_count c db = 0" and path: "path \<in> history_buttons"
  shows "\<exists>c' db' x'. page_button path x = Some x' \<and> same_history c db c' db' \<and> history_fresh x' c' db' \<and>
     x_page_no x' = 1 \<and> x_layout x' = x_layout x \<and> x_fault_map_loaded x' = x_fault_map_loaded x \<and> x_table x' = x_table x"
proof -
  let ?y = "enter_history x"
  have f: "cache_fits c db" and fr: "cache_fresh c db" using h by (simp_all add: history_fresh_def)
  have y: "x_cache ?y = Some c" using h by (simp add: enter_history_def history_fresh_def)
  have hy: "history_fresh ?y c db" using h y by (simp add: history_fresh_def)
  have found: "\<exists>c' db' x'. Some (?y\<lparr>x_page_no := 1, x_cache := Some c1\<rparr>) = Some x' \<and> same_history c db c' db' \<and>
     history_fresh x' c' db' \<and> x_page_no x' = 1 \<and> x_layout x' = x_layout x \<and>
     x_fault_map_loaded x' = x_fault_map_loaded x \<and> x_table x' = x_table x"
    if "same_history c db c1 db1" "cache_fresh c1 db1" for c1 db1
    using that
    by (intro exI [of _ c1] exI [of _ db1] exI [of _ "?y\<lparr>x_page_no := 1, x_cache := Some c1\<rparr>"])
      (simp add: history_fresh_def same_history_def enter_history_def)
  obtain c0 db0 where m: "refreshMeta c = (True, c0)" and s0: "same_history c db c0 db0" and fr0: "cache_fresh c0 db0"
    by (rule refreshMeta_fresh [OF f]) (use fr in blast)
  have h0: "history_fresh (?y\<lparr>x_cache := Some c0\<rparr>) c0 db0" using s0 fr0 by (simp add: history_fresh_def same_history_def)
  have n0: "page_count c0 db0 = 0" using n same_history_page [OF s0] by simp
  obtain c1 db1 where r1: "refreshHistoryCacheForPage 1 ?y = ?y\<lparr>x_page_no := 1, x_cache := Some c1\<rparr>"
    "same_history c db c1 db1" "cache_fresh c1 db1" using refresh_for_page_empty [OF hy n] by blast
  obtain c2 db2 where r2: "refreshHistoryCacheForPage 1 (?y\<lparr>x_cache := Some c0\<rparr>) = ?y\<lparr>x_page_no := 1, x_cache := Some c2\<rparr>"
    "same_history c0 db0 c2 db2" "cache_fresh c2 db2" using refresh_for_page_empty [OF h0 n0, of 1] by auto
  have steps: "\<exists>c' db'. history_step g ?y c = ?y\<lparr>x_page_no := 1, x_cache := Some c'\<rparr> \<and> same_history c db c' db' \<and> cache_fresh c' db'" for g
    by (rule history_step_empty [OF hy n])
  consider "path = ''hmi.fault.btn.his_page_enter''" | "path = ''hmi.fault.btn.his_page_next''"
    | "path = ''hmi.fault.btn.his_page_prev''" | "path = ''hmi.fault.btn.his_page_first''"
    using path by (auto simp: history_buttons_def)
  then show ?thesis
  proof cases
    case 1
    show ?thesis using found [OF r1(2,3)] by (simp add: 1 page_button_def y r1(1))
  next
    case 2
    obtain c' db' where "history_step (\<lambda>p n. if p < n then p + 1 else n) ?y c = ?y\<lparr>x_page_no := 1, x_cache := Some c'\<rparr>"
      "same_history c db c' db'" "cache_fresh c' db'" using steps by blast
    with found show ?thesis by (simp add: 2 page_button_def y cong: if_cong)
  next
    case 3
    obtain c' db' where "history_step (\<lambda>p n. if 1 < p then p - 1 else 1) ?y c = ?y\<lparr>x_page_no := 1, x_cache := Some c'\<rparr>"
      "same_history c db c' db'" "cache_fresh c' db'" using steps by blast
    with found show ?thesis by (simp add: 3 page_button_def y cong: if_cong)
  next
    case 4
    show ?thesis using found [OF same_history_trans [OF s0 r2(2)] r2(3)] by (simp add: 4 page_button_def y m r2(1))
  qed
qed

lemma unat_positive: "n \<noteq> 0 \<Longrightarrow> Suc 0 \<le> unat (n :: u16)"
  by (simp add: Suc_le_eq unat_gt_0)

lemma clamp_to_nat: "n \<noteq> 0 \<Longrightarrow> unat (clamp_to n p) = max 1 (min (unat p) (unat n))"
  using unat_positive [of n] by (auto simp: clamp_to_def word_less_nat_alt word_le_nat_alt unat_gt_0 min_def max_def)

lemma next_page_nat:
  "n \<noteq> 0 \<Longrightarrow> unat (clamp_to n (if p < n then p + 1 else n)) = (if unat p < unat n then unat p + 1 else unat n)"
proof -
  assume n: "n \<noteq> 0"
  have "unat (p + 1) = unat p + 1" if "p < n"
    using that unsigned_less [of n, where ?'a = nat] by (simp add: word_less_nat_alt unat_word_ariths)
  then show ?thesis using n unat_positive [OF n] by (auto simp: clamp_to_nat word_less_nat_alt unat_gt_0 min_def max_def)
qed

lemma prev_page_nat:
  "n \<noteq> 0 \<Longrightarrow> unat (clamp_to n (if 1 < p then p - 1 else 1)) = max 1 (min (unat p - 1) (unat n))"
  by (auto simp: clamp_to_nat word_less_nat_alt unat_gt_0 unat_sub word_le_nat_alt)

text \<open>What a history button does to the page, with the cache in step.\<close>

lemma history_button:
  assumes h: "history_fresh x c db" and n: "0 < page_count c db" and path: "path \<in> history_buttons"
  shows "\<exists>c' db' x' q. page_button path x = Some x' \<and> same_history c db c' db' \<and> history_fresh x' c' db' \<and>
     x_page_no x' = q \<and> unat q = target_page path (unat (x_page_no x)) (page_count c db) \<and> hasPageInWindow c' q \<and>
     x_layout x' = x_layout x \<and> x_fault_map_loaded x' = x_fault_map_loaded x \<and> x_table x' = x_table x"
proof -
  let ?y = "enter_history x"
  have y: "x_cache ?y = Some c" "x_page_no ?y = x_page_no x" using h by (simp_all add: enter_history_def history_fresh_def)
  have hy: "history_fresh ?y c db" using h y by (simp add: history_fresh_def)
  have tp: "unat (total_pages c) = page_count c db" "total_pages c \<noteq> 0"
    using h n by (auto simp: history_fresh_def cache_fresh_def)
  have found: "\<exists>c' db' x' q. Some (?y\<lparr>x_page_no := q0, x_cache := Some c1\<rparr>) = Some x' \<and> same_history c db c' db' \<and>
     history_fresh x' c' db' \<and> x_page_no x' = q \<and> unat q = target_page path (unat (x_page_no x)) (page_count c db) \<and>
     hasPageInWindow c' q \<and> x_layout x' = x_layout x \<and> x_fault_map_loaded x' = x_fault_map_loaded x \<and> x_table x' = x_table x"
    if "same_history c db c1 db1" "cache_fresh c1 db1" "hasPageInWindow c1 q0"
      "unat q0 = target_page path (unat (x_page_no x)) (page_count c db)" for c1 db1 q0
    using that
    by (intro exI [of _ c1] exI [of _ db1] exI [of _ "?y\<lparr>x_page_no := q0, x_cache := Some c1\<rparr>"] exI [of _ q0])
      (simp add: history_fresh_def same_history_def enter_history_def)
  consider "path = ''hmi.fault.btn.his_page_enter''" | "path = ''hmi.fault.btn.his_page_next''"
    | "path = ''hmi.fault.btn.his_page_prev''" | "path = ''hmi.fault.btn.his_page_first''"
    using path by (auto simp: history_buttons_def)
  then show ?thesis
  proof cases
    case 1
    from refresh_for_page [OF hy n, of 1] obtain c1 db1 where
      r: "refreshHistoryCacheForPage 1 ?y = ?y\<lparr>x_page_no := clamp_to (total_pages c) 1, x_cache := Some c1\<rparr>"
      "same_history c db c1 db1" "cache_fresh c1 db1" "hasPageInWindow c1 (clamp_to (total_pages c) 1)" by auto
    show ?thesis
      using found [OF r(2,3,4)] tp by (simp add: 1 page_button_def y r(1) target_page_def clamp_to_nat unat_gt_0 Suc_le_eq)
  next
    case 2
    from history_step_fresh [OF hy n, of "\<lambda>p n. if p < n then p + 1 else n"] obtain c1 db1 where
      r: "history_step (\<lambda>p n. if p < n then p + 1 else n) ?y c = ?y\<lparr>x_page_no := clamp_to (total_pages c)
        (if x_page_no x < total_pages c then x_page_no x + 1 else total_pages c), x_cache := Some c1\<rparr>"
      "same_history c db c1 db1" "cache_fresh c1 db1"
      "hasPageInWindow c1 (clamp_to (total_pages c) (if x_page_no x < total_pages c then x_page_no x + 1 else total_pages c))"
      by (auto simp: y cong: if_cong)
    show ?thesis using found [OF r(2,3,4)] tp
      by (simp add: 2 page_button_def y r(1) target_page_def next_page_nat del: One_nat_def cong: if_cong)
  next
    case 3
    from history_step_fresh [OF hy n, of "\<lambda>p n. if 1 < p then p - 1 else 1"] obtain c1 db1 where
      r: "history_step (\<lambda>p n. if 1 < p then p - 1 else 1) ?y c = ?y\<lparr>x_page_no := clamp_to (total_pages c)
        (if 1 < x_page_no x then x_page_no x - 1 else 1), x_cache := Some c1\<rparr>"
      "same_history c db c1 db1" "cache_fresh c1 db1"
      "hasPageInWindow c1 (clamp_to (total_pages c) (if 1 < x_page_no x then x_page_no x - 1 else 1))"
      by (auto simp: y cong: if_cong)
    show ?thesis using found [OF r(2,3,4)] tp
      by (simp add: 3 page_button_def y r(1) target_page_def prev_page_nat del: One_nat_def cong: if_cong)
  next
    case 4
    have f: "cache_fits c db" and fr: "cache_fresh c db" using h by (simp_all add: history_fresh_def)
    obtain c0 db0 where m: "refreshMeta c = (True, c0)" and s0: "same_history c db c0 db0" and fr0: "cache_fresh c0 db0"
      by (rule refreshMeta_fresh [OF f]) (use fr in blast)
    have h0: "history_fresh (?y\<lparr>x_cache := Some c0\<rparr>) c0 db0" using s0 fr0 by (simp add: history_fresh_def same_history_def)
    have t0: "total_pages c0 = total_pages c" "page_count c0 db0 = page_count c db"
      using fr fr0 same_history_page [OF s0] by (simp_all add: cache_fresh_def word_unat_eq_iff)
    from refresh_for_page [OF h0, of 1] n t0 obtain c1 db1 where
      r: "refreshHistoryCacheForPage 1 (?y\<lparr>x_cache := Some c0\<rparr>) = ?y\<lparr>x_page_no := clamp_to (total_pages c) 1, x_cache := Some c1\<rparr>"
      "same_history c0 db0 c1 db1" "cache_fresh c1 db1" "hasPageInWindow c1 (clamp_to (total_pages c) 1)" by auto
    show ?thesis
      using found [OF same_history_trans [OF s0 r(2)] r(3,4)] tp m
      by (simp add: 4 page_button_def y r(1) target_page_def clamp_to_nat unat_gt_0 Suc_le_eq)
  qed
qed

text \<open>The history page as the registers of the panel show it: the number of pages, the page, and its rows.\<close>

definition panel_history :: "fault_layout \<Rightarrow> hmi_table \<Rightarrow> nat \<times> nat \<times> (u16 \<times> u16 \<times> u32 \<times> u32 \<times> u16) list" where
  "panel_history L t =
     (unat (readIntRead (fb_base (his_total_pages L)) t), unat (readIntRead (fb_base (his_page_index L)) t),
      map (\<lambda>i. (readIntRead (fb_base (his_seq L) + of_nat i) t, readIntRead (fb_base (his_code L) + of_nat i) t,
                reg32 (fb_base (his_on_time L) + of_nat i * 2) t, reg32 (fb_base (his_off_time L) + of_nat i * 2) t,
                readIntRead (fb_base (his_state L) + of_nat i) t)) [0..<unat (history_rows L)])"

text \<open>The rows of the panel for a list of faults, filled up with empty ones.\<close>

definition panel_rows :: "nat \<Rightarrow> view_row list \<Rightarrow> (u16 \<times> u16 \<times> u32 \<times> u32 \<times> u16) list" where
  "panel_rows k rows = map (\<lambda>i. let r = row_or empty_view_row rows i in
     (vr_seq_no r, vr_code r, ucast (vr_first_on_ms r div 1000), ucast (vr_clear_ms r div 1000), vr_state r)) [0..<k]"

lemma page_count_pos: "cache_fits c db \<Longrightarrow> 0 < page_count c db \<longleftrightarrow> newest_first True db \<noteq> []"
  by (cases "newest_first True db") (auto simp: page_count_def cache_fits_def word_less_nat_alt div_eq_0_iff div_greater_zero_iff)

text \<open>What an output shows of a cache that agrees with its database. The page number is written as it is, the rows
  are those of the page clamped to the existing ones.\<close>

lemma shows_history_panel:
  assumes sh: "shows_history L c p t" and f: "cache_fits c db" and fr: "cache_fresh c db"
    and w: "0 < page_count c db \<longrightarrow> hasPageInWindow c (clampPage c p)"
  shows "panel_history L t = (page_count c db, if page_count c db = 0 then 0 else unat p,
     panel_rows (unat (history_rows L)) (db_page db (unat (page_size c)) (max 1 (min (unat p) (page_count c db)))))"
proof -
  have n: "unat (total_pages c) = page_count c db" "hc_valid c" using fr by (simp_all add: cache_fresh_def)
  have rows: "pageRows c p = db_page db (unat (page_size c)) (max 1 (min (unat p) (page_count c db)))"
  proof (cases "page_count c db = 0")
    case True
    then have "total_pages c = 0" using n(1) by (simp add: unat_eq_0)
    moreover have "newest_first True db = []" using True page_count_pos [OF f] by simp
    ultimately show ?thesis by (simp add: pageRows_def db_page_def)
  next
    case False
    let ?q = "clampPage c p"
    have t: "total_pages c \<noteq> 0" using False n(1) by auto
    have q: "unat ?q = max 1 (min (unat p) (page_count c db))"
      using t n(1) unat_positive [OF t] by (auto simp: clampPage_def word_less_nat_alt unat_gt_0 min_def max_def)
    have "clampPage c ?q = ?q" using t by (auto simp: clampPage_def)
    then have "pageRows c p = pageRows c ?q" by (simp add: pageRows_def)
    also have "\<dots> = db_page db (unat (page_size c)) (unat ?q)" using fr w False by (simp add: cache_fresh_def)
    finally show ?thesis unfolding q .
  qed
  show ?thesis using sh n(1) rows
    by (auto simp: shows_history_def panel_history_def panel_rows_def Let_def unat_eq_0)
qed

lemma output_shows:
  assumes "layout_ok (x_layout x)" "x_fault_map_loaded x" "x_table x = Some t" "x_cache x = Some c"
  shows "\<exists>t'. x_table (applyFaultHmi x) = Some t' \<and> shows_current (x_layout x) (x_center x) t' \<and>
     shows_history (x_layout x) c (x_page_no x) t'"
  using assms flush_shows_history [OF assms(1), of c "x_page_no x" "x_center x" t]
    flush_shows_current [OF assms(1), of "x_center x" c "x_page_no x" t]
  by (simp add: applyFaultHmi_def)

section \<open>The refresh\<close>

text \<open>The fault centre calls the database only when it marks the history as changed.\<close>

definition db_quiet :: "fault_center \<Rightarrow> fault_center \<Rightarrow> bool" where
  "db_quiet s s' \<longleftrightarrow> history_dirty s' \<or> (fc_db s' = fc_db s \<and> \<not> history_dirty s)"

lemma db_quiet_refl [simp]: "db_quiet s s"
  by (simp add: db_quiet_def)

lemma db_quiet_trans: "db_quiet s s1 \<Longrightarrow> db_quiet s1 s2 \<Longrightarrow> db_quiet s s2"
  by (auto simp: db_quiet_def)

lemma clampPages_dirty [simp]: "history_dirty (clampPages s) = history_dirty s" "fc_db (clampPages s) = fc_db s"
  by (simp_all add: clampPages_def Let_def)

lemma setActive_quiet: "db_quiet s (setActive ts c on s)"
  by (cases "history_dirty s")
    (auto simp: db_quiet_def setActive_def activate_def deactivate_def db_insert_def db_clear_def Let_def
      split: option.splits prod.splits)

lemma foldl_quiet: "(\<And>s x. db_quiet s (f s x)) \<Longrightarrow> db_quiet s (foldl f s xs)"
  by (induction xs arbitrary: s) (auto intro: db_quiet_trans)

lemma applyToFaultPages_quiet: "db_quiet s (applyToFaultPages ctx clk s)"
  unfolding applyToFaultPages_def applyOne_def by (intro foldl_quiet) (auto intro!: foldl_quiet setActive_quiet split: prod.split)

lemma applyAll_quiet: "db_quiet (snd s) (snd (applyAll rules clk now c s))"
proof (induction rules arbitrary: s)
  case (Cons r rules)
  have "db_quiet (snd s) (snd (apply_rule clk now c s r))"
    by (simp add: apply_rule_def case_prod_beta Let_def setActive_quiet)
  from db_quiet_trans [OF this Cons.IH] show ?case by (simp add: applyAll_def)
qed (simp add: applyAll_def)

lemma perform_call_ready: "db_ready db \<Longrightarrow> db_ready (perform_call db call)"
  by (cases call)
    (auto simp: perform_call_def insertHistoryBegin_def markHistoryCleared_def markHistoryClearedById_def ready_stmt db_ready_def
      run_stmt_def Let_def split: option.split)

lemma perform_calls_ready: "db_ready db \<Longrightarrow> db_ready (foldl perform_call db calls)"
  by (induction calls arbitrary: db) (auto intro: perform_call_ready)

lemma applyFaultPages_quiet:
  assumes "x_cache x = Some c" "hc_db c = Some db"
  shows "\<exists>fm' fc. applyFaultPages clk clk' now (fm, x) = (fm', return_center fc x) \<and>
     (history_dirty fc \<or> calls_of fc = [] \<and> \<not> history_dirty (x_center x))"
proof -
  define fc0 where "fc0 = applyToFaultPages (e_logic (x_ext x)) clk (lent_center x)"
  obtain dm fc where a: "applyAll (fr_rules fm) clk' now (x_ext x) (fr_states fm, fc0) = (dm, fc)" by fastforce
  have "db_quiet (lent_center x) fc0" unfolding fc0_def by (rule applyToFaultPages_quiet)
  moreover have "db_quiet fc0 fc" using applyAll_quiet [of "(fr_states fm, fc0)"] a by (metis snd_conv)
  ultimately have "db_quiet (lent_center x) fc" by (rule db_quiet_trans)
  then have "history_dirty fc \<or> calls_of fc = [] \<and> \<not> history_dirty (x_center x)"
    using assms by (auto simp: db_quiet_def lent_center_def calls_of_def lend_db_def)
  then show ?thesis by (auto simp: applyFaultPages_def fc0_def [symmetric] a Let_def)
qed

lemma refreshHotCache_ready:
  assumes f: "cache_fits c db"
  obtains c' db' where "refreshHotCache c = (True, c')" "same_history c db c' db'"
proof -
  have h: "hc_db c = Some db" and r: "db_ready db" using f by (simp_all add: cache_fits_def)
  define c' where "c' = c\<lparr>hc_db := Some (db\<lparr>hd_calls := hd_calls db + 1\<rparr>),
    hot_rows := map fromDb (sql_limit (ucast (hot_rows_limit c)) (newest_first True db)), hc_valid := True\<rparr>"
  have "refreshHotCache c = (True, c')"
    by (simp add: refreshHotCache_def h loadLatestHistory_def ready_stmt [OF r] c'_def)
  moreover have "same_history c db c' (db\<lparr>hd_calls := hd_calls db + 1\<rparr>)"
    using f r by (simp add: same_history_def cache_fits_def db_ready_def c'_def)
  ultimately show thesis by (rule that)
qed

lemma refresh_all_fresh:
  assumes f: "cache_fits c db"
  shows "\<exists>c' db'. refresh_all k c = (True, c') \<and> same_history c db c' db' \<and> cache_fresh c' db' \<and>
     (0 < page_count c db \<longrightarrow> hasPageInWindow c' (clampPage c' k))"
proof -
  obtain c1 db1 where m: "refreshMeta c = (True, c1)" and s1: "same_history c db c1 db1" by (rule refreshMeta_fresh [OF f]) blast
  have f1: "cache_fits c1 db1" using s1 by (simp add: same_history_def)
  obtain c2 db2 where h: "refreshHotCache c1 = (True, c2)" and s2: "same_history c1 db1 c2 db2" by (rule refreshHotCache_ready [OF f1])
  have f2: "cache_fits c2 db2" using s2 by (simp add: same_history_def)
  obtain c3 db3 where w: "refreshWindow k c2 = (True, c3)" "same_history c2 db2 c3 db3" "cache_fresh c3 db3"
    "0 < page_count c2 db2 \<longrightarrow> hasPageInWindow c3 (clampPage c3 k)" by (rule refreshWindow_fresh [OF f2, where k = k]) (rule that)
  have s: "same_history c db c3 db3" by (intro same_history_trans [OF s1] same_history_trans [OF s2] w(2))
  have "page_count c2 db2 = page_count c db"
    using same_history_page [OF s1] same_history_page [OF s2] by simp
  then show ?thesis using m h w s by (auto simp: refresh_all_def)
qed

lemma refresh_history_cache_other:
  "x_page_no (refresh_history_cache x) = x_page_no x" "x_layout (refresh_history_cache x) = x_layout x"
  "x_fault_map_loaded (refresh_history_cache x) = x_fault_map_loaded x" "x_table (refresh_history_cache x) = x_table x"
  "x_cache x = Some c \<Longrightarrow> \<exists>c'. x_cache (refresh_history_cache x) = Some c'"
  "x_cache x = Some c \<Longrightarrow> \<not> history_dirty (x_center (refresh_history_cache x))"
  by (auto simp: refresh_history_cache_def consumeHistoryDirty_def Let_def split: option.split prod.split bool.split)

text \<open>After the refresh the cache agrees with the database, and it holds the wanted page, clamped to the existing ones.\<close>

lemma refresh_history_cache_fresh:
  assumes x: "x_cache x = Some c" and f: "cache_fits c db" and fr: "history_dirty (x_center x) \<or> cache_fresh c db"
  shows "\<exists>c' db'. x_cache (refresh_history_cache x) = Some c' \<and> same_history c db c' db' \<and> cache_fresh c' db' \<and>
     (0 < page_count c db \<longrightarrow> hasPageInWindow c' (clampPage c' (x_page_no x)))"
proof (cases "history_dirty (x_center x)")
  case True
  obtain c' db' where r: "refresh_all (x_page_no x) c = (True, c')" "same_history c db c' db'" "cache_fresh c' db'"
    "0 < page_count c db \<longrightarrow> hasPageInWindow c' (clampPage c' (x_page_no x))" using refresh_all_fresh [OF f] by blast
  then show ?thesis using x True by (auto simp: refresh_history_cache_def consumeHistoryDirty_def)
next
  case False
  with fr have fresh: "cache_fresh c db" by blast
  show ?thesis
  proof (cases "hasPageInWindow c (x_page_no x)")
    case True
    have "same_history c db c db" using f by (simp add: same_history_def)
    moreover have "clampPage c (x_page_no x) = x_page_no x"
    proof -
      have "x_page_no x \<le> total_pages c"
        using True fresh by (auto simp: hasPageInWindow_def cache_fresh_def)
      moreover have "x_page_no x \<noteq> 0" using True by (auto simp: hasPageInWindow_def)
      ultimately show ?thesis by (auto simp: clampPage_def)
    qed
    ultimately show ?thesis using True False x fresh
      by (intro exI [of _ c] exI [of _ db]) (simp add: refresh_history_cache_def consumeHistoryDirty_def)
  next
    case no: False
    obtain c1 db1 where m: "refreshMeta c = (True, c1)" and s1: "same_history c db c1 db1" by (rule refreshMeta_fresh [OF f]) blast
    have f1: "cache_fits c1 db1" using s1 by (simp add: same_history_def)
    obtain c' db' where w: "refreshWindow (x_page_no x) c1 = (True, c')" "same_history c1 db1 c' db'" "cache_fresh c' db'"
      "0 < page_count c1 db1 \<longrightarrow> hasPageInWindow c' (clampPage c' (x_page_no x))"
      by (rule refreshWindow_fresh [OF f1, where k = "x_page_no x"]) (rule that)
    have "x_cache (refresh_history_cache x) = Some c'"
      using x False no m w(1) by (simp add: refresh_history_cache_def consumeHistoryDirty_def)
    then show ?thesis using w(3,4) same_history_trans [OF s1 w(2)] same_history_page [OF s1] by auto
  qed
qed

text \<open>No query changes what the database holds.\<close>

definition same_rows :: "hist_cache \<Rightarrow> hist_cache \<Rightarrow> bool" where
  "same_rows c c' \<longleftrightarrow> page_size c' = page_size c \<and> map_option (newest_first True) (hc_db c') = map_option (newest_first True) (hc_db c)"

lemma stmt_rows: "newest_first True (snd (run_stmt db)) = newest_first True db"
  by (simp add: run_stmt_def)

lemma load_rows:
  "newest_first True (snd (countHistoryRows b db)) = newest_first True db"
  "newest_first True (snd (loadLatestHistory n b db)) = newest_first True db"
  "newest_first True (snd (loadHistoryRange off n b db)) = newest_first True db"
  by (simp_all add: countHistoryRows_def loadLatestHistory_def loadHistoryRange_def run_stmt_def Let_def)

lemma same_rows_queries:
  "same_rows c (snd (refreshMeta c))" "same_rows c (snd (refreshHotCache c))" "same_rows c (snd (refreshWindow k c))"
proof -
  show m: "same_rows c (snd (refreshMeta c))" for c
    using load_rows(1) [of True] by (auto simp: same_rows_def refreshMeta_def split: option.splits prod.splits) (metis snd_conv)+
  show "same_rows c (snd (refreshHotCache c))"
    using load_rows(2) [of _ True] by (auto simp: same_rows_def refreshHotCache_def split: option.splits prod.splits) (metis snd_conv)+
  obtain b c1 where r: "refreshMeta c = (b, c1)" by fastforce
  then have s: "same_rows c c1" using m [of c] by simp
  show "same_rows c (snd (refreshWindow k c))"
  proof (cases "hc_db c = None \<or> \<not> b \<or> total_pages c1 = 0")
    case True
    then show ?thesis using r s by (cases b) (auto simp: refreshWindow_def same_rows_def)
  next
    case False
    then obtain db1 where db1: "hc_db c1 = Some db1" using s by (auto simp: same_rows_def)
    obtain f e where w: "window_range (total_pages c1) (window_pages c1) (clampPage c1 k) = (f, e)" by fastforce
    obtain rs db2 where l: "loadHistoryRange ((ucast f - 1) * ucast (page_size c1)) ((ucast e - ucast f + 1) * ucast (page_size c1)) True db1
        = (rs, db2)" by fastforce
    have "newest_first True db2 = newest_first True db1" using l load_rows(3) by (metis snd_conv)
    then have "same_rows c1 (snd (refreshWindow k c))"
      using False r db1 w l by (cases rs) (auto simp: refreshWindow_def same_rows_def)
    with s show ?thesis by (simp add: same_rows_def)
  qed
qed

lemma same_rows_trans: "same_rows c c1 \<Longrightarrow> same_rows c1 c2 \<Longrightarrow> same_rows c c2"
  by (simp add: same_rows_def)

lemma refresh_history_cache_rows:
  assumes "x_cache x = Some c" "x_cache (refresh_history_cache x) = Some c'"
  shows "same_rows c c'"
proof -
  obtain b1 c1 where m: "refreshMeta c = (b1, c1)" by fastforce
  obtain b2 c2 where h: "refreshHotCache c1 = (b2, c2)" by fastforce
  have s1: "same_rows c c1" using same_rows_queries(1) [of c] m by simp
  have s2: "same_rows c c2" using same_rows_queries(2) [of c1] h s1 same_rows_trans by simp
  have s3: "same_rows c (snd (refreshWindow k c2))" "same_rows c (snd (refreshWindow k c1))" for k
    using same_rows_queries(3) s1 s2 same_rows_trans by blast+
  have s4: "refreshWindow k c2 = (w, d) \<Longrightarrow> same_rows c d" "refreshWindow k c1 = (w, d) \<Longrightarrow> same_rows c d" for k w d
    using s3 by (metis snd_conv)+
  have "same_rows c c" by (simp add: same_rows_def)
  then show ?thesis
    using assms m h s1 s2 s3 s4
    by (cases b1; cases b2) (auto simp: refresh_history_cache_def refresh_all_def consumeHistoryDirty_def Let_def
      split: if_splits prod.splits bool.splits)
qed

lemma output_fields [simp]:
  "x_cache (applyFaultHmi x) = x_cache x" "x_center (applyFaultHmi x) = x_center x" "x_page_no (applyFaultHmi x) = x_page_no x"
  "x_layout (applyFaultHmi x) = x_layout x"
  by (simp_all add: applyFaultHmi_def split: option.split)

section \<open>Properties\<close>

text \<open>C22: the history buttons. While the database is open and executes every statement, the number of closed faults fits the page
  counter, the cache is in step with the database, and the panel map and its layout are loaded, a click on one of the four
  buttons of the history page leads to the next page, the previous one or the first, never outside the pages there are, and
  the registers of the panel then show the number of pages, the page and exactly its closed faults as the database has
  them, newest first, with times in seconds and the rows left over empty. When no fault has been closed the click leads to page 1, and
  the panel shows no page, page number 0 and empty rows.\<close>

theorem history_buttons_show_pages:
  assumes "x_cache x = Some c" and "cache_fits c db" and "cache_fresh c db"
    and "layout_ok (x_layout x)" and "x_fault_map_loaded x" and "x_table x = Some t"
    and "path \<in> {''hmi.fault.btn.his_page_enter'', ''hmi.fault.btn.his_page_next'', ''hmi.fault.btn.his_page_prev'',
      ''hmi.fault.btn.his_page_first''}"
    and "n = (length (newest_first True db) + unat (page_size c) - 1) div unat (page_size c)"
    and "q = (if n = 0 then 1 else if path = ''hmi.fault.btn.his_page_next'' then min (unat (x_page_no x) + 1) n
        else if path = ''hmi.fault.btn.his_page_prev'' then max 1 (min (unat (x_page_no x) - 1) n) else 1)"
    and "x' = onHmiButtonClick a path name x"
  shows "unat (x_page_no x') = q \<and> 1 \<le> q \<and> (newest_first True db \<noteq> [] \<longrightarrow> q \<le> n) \<and>
     (\<exists>t'. x_table x' = Some t' \<and> panel_history (x_layout x) t' =
        (n, if newest_first True db = [] then 0 else q,
         panel_rows (unat (history_rows (x_layout x))) (db_page db (unat (page_size c)) q)))"
proof -
  define y where "y = x\<lparr>x_hmi := (x_hmi x)\<lparr>h_button_ts := x_last_event_ts x, h_button_addr := a, h_button_path := path,
      h_button_name := name\<rparr>\<rparr>"
  have y: "history_fresh y c db" "x_page_no y = x_page_no x" "x_layout y = x_layout x" "x_fault_map_loaded y"
    "x_table y = Some t" using assms(1-3,5,6) by (simp_all add: y_def history_fresh_def)
  have path: "path \<in> history_buttons" using assms(7) by (simp add: history_buttons_def)
  have pc: "page_count c db = n" using assms(8) by (simp add: page_count_def)
  have empty: "newest_first True db = [] \<longleftrightarrow> n = 0" using page_count_pos [OF assms(2)] pc by auto
  have "\<exists>c' db' z. page_button path y = Some z \<and> same_history c db c' db' \<and> history_fresh z c' db' \<and>
      unat (x_page_no z) = q \<and> 1 \<le> q \<and> (n \<noteq> 0 \<longrightarrow> q \<le> n) \<and> (0 < n \<longrightarrow> hasPageInWindow c' (x_page_no z)) \<and>
      x_layout z = x_layout y \<and> x_fault_map_loaded z = x_fault_map_loaded y \<and> x_table z = x_table y"
  proof (cases "n = 0")
    case True
    then show ?thesis using history_button_empty [OF y(1) _ path] pc assms(9) by force
  next
    case False
    then have n: "0 < page_count c db" using pc by simp
    obtain c' db' z p where z: "page_button path y = Some z" "same_history c db c' db'" "history_fresh z c' db'"
      "x_page_no z = p" "unat p = target_page path (unat (x_page_no y)) (page_count c db)" "hasPageInWindow c' p"
      "x_layout z = x_layout y" "x_fault_map_loaded z = x_fault_map_loaded y" "x_table z = x_table y"
      using history_button [OF y(1) n path] by blast
    have "unat p = q" "1 \<le> q" "q \<le> n"
      using z(5) pc n False y(2) assms(9) by (auto simp: target_page_def min_def max_def)
    then show ?thesis using z by blast
  qed
  then obtain c' db' z where z: "page_button path y = Some z" "same_history c db c' db'" "history_fresh z c' db'"
    and q: "unat (x_page_no z) = q" "1 \<le> q" "n \<noteq> 0 \<longrightarrow> q \<le> n" and w: "0 < n \<longrightarrow> hasPageInWindow c' (x_page_no z)"
    and zx: "x_layout z = x_layout y" "x_fault_map_loaded z = x_fault_map_loaded y" "x_table z = x_table y"
    by blast
  have zc: "x_cache z = Some c'" "cache_fits c' db'" "cache_fresh c' db'" using z(3) by (simp_all add: history_fresh_def)
  have s: "page_count c' db' = n" "page_size c' = page_size c" "\<And>k. db_page db' k = db_page db k"
    using same_history_page [OF z(2)] z(2) pc by (auto simp: same_history_def fun_eq_iff)
  have x': "x' = applyFaultHmi z"
    using z(1) path unfolding assms(10) onHmiButtonClick_def y_def [symmetric] by (auto simp: history_buttons_def Let_def)
  have cl: "clampPage c' (x_page_no z) = x_page_no z" if "0 < n"
  proof -
    have "unat (total_pages c') = n" using zc(3) s(1) by (simp add: cache_fresh_def)
    then show ?thesis using q that by (auto simp: clampPage_def word_less_nat_alt)
  qed
  obtain t' where t': "x_table x' = Some t'" "shows_history (x_layout x) c' (x_page_no z) t'"
    using output_shows [of z t c'] assms(4) zc y zx unfolding x' by auto
  have "max 1 (min q n) = q" if "n \<noteq> 0" using q that by simp
  moreover have "db_page db' (unat (page_size c)) k = []" if "n = 0" for k
    using that empty by (simp add: s(3)) (simp add: db_page_def)
  ultimately have "panel_history (x_layout x) t' = (n, if n = 0 then 0 else q,
      panel_rows (unat (history_rows (x_layout x))) (db_page db (unat (page_size c)) q))"
    using shows_history_panel [OF t'(2) zc(2,3)] w cl by (cases "n = 0") (simp_all add: s q(1))
  then show ?thesis using q t'(1) empty by (auto simp: x')
qed

definition example_bound :: hist_cache where
  "example_bound = snd (cache_bindDb (Some example_db) hist_cache_init)"

definition example_history_panel :: panel_ctx where
  "example_history_panel = panel_init\<lparr>x_cache := Some (snd (refreshWindow 1 example_bound)), x_layout := shipped_layout,
     x_fault_map_loaded := True, x_table := Some \<lparr>bool_rw = Map.empty, int_rw = Map.empty, bool_rd = Map.empty, int_rd = Map.empty\<rparr>\<rparr>"

lemma example_refresh_rows: "newest_first True example_db = map (\<lambda>i. example_row i (0x1000 + of_int i)) [7, 6, 5, 4, 3, 2, 1]"
  by (simp add: newest_first_def example_db_def example_row_def upt_rec)

lemma example_history_cache:
  obtains db where "cache_fits (snd (refreshWindow 1 example_bound)) db" "cache_fresh (snd (refreshWindow 1 example_bound)) db"
    "newest_first True db = newest_first True example_db" "page_size (snd (refreshWindow 1 example_bound)) = 5"
    "hasPageInWindow (snd (refreshWindow 1 example_bound)) 1"
proof -
  have b: "cache_fits example_bound example_db" "page_size example_bound = 5"
    by (simp_all add: cache_fits_def example_bound_def cache_bindDb_def cache_invalidate_def hist_cache_init_def example_refresh_rows
      db_ready_def Let_def) (simp_all add: example_db_def)
  obtain c db where w: "refreshWindow 1 example_bound = (True, c)" "same_history example_bound example_db c db" "cache_fresh c db"
    "0 < page_count example_bound example_db \<longrightarrow> hasPageInWindow c (clampPage c 1)"
    by (rule refreshWindow_fresh [OF b(1), where k = 1]) (rule that)
  have "0 < page_count example_bound example_db" by (simp add: page_count_def b example_refresh_rows)
  moreover have "clampPage c 1 = 1"
    using unat_positive [of "total_pages c"] by (auto simp: clampPage_def word_less_nat_alt)
  ultimately show thesis using w b by (intro that [of db]) (simp_all add: same_history_def)
qed

theorem history_buttons_show_pages_witness:
  "let x' = onHmiButtonClick 0x1003 ''hmi.fault.btn.his_page_next'' [] example_history_panel in
     case x_table x' of None \<Rightarrow> False
     | Some t \<Rightarrow> (let (n, q, rows) = panel_history shipped_layout t in
         n = 2 \<and> q = 2 \<and> map (\<lambda>r. fst (snd r)) rows = [0x1002, 0x1001, 0, 0, 0])"
proof -
  obtain db where c: "cache_fits (snd (refreshWindow 1 example_bound)) db" "cache_fresh (snd (refreshWindow 1 example_bound)) db"
    "newest_first True db = newest_first True example_db" "page_size (snd (refreshWindow 1 example_bound)) = 5"
    by (rule example_history_cache)
  have x: "x_cache example_history_panel = Some (snd (refreshWindow 1 example_bound))" "x_layout example_history_panel = shipped_layout"
    "x_fault_map_loaded example_history_panel" "x_page_no example_history_panel = 1"
    "x_table example_history_panel = Some \<lparr>bool_rw = Map.empty, int_rw = Map.empty, bool_rd = Map.empty, int_rd = Map.empty\<rparr>"
    by (simp_all add: example_history_panel_def panel_init_def)
  have page: "panel_rows 5 (db_page db 5 (Suc (Suc 0))) = [(2, 0x1002, 1, 2, 0), (1, 0x1001, 1, 2, 0), (0, 0, 0, 0, 0), (0, 0, 0, 0, 0), (0, 0, 0, 0, 0)]"
    by (simp add: db_page_def c(3) example_refresh_rows panel_rows_def row_or_def fromDb_def example_row_def empty_view_row_def upt_rec)
  have rows5: "unat (history_rows shipped_layout) = 5" by (simp add: shipped_layout_def Let_def)
  show ?thesis
    using history_buttons_show_pages [OF x(1) c(1,2) _ x(3) x(5) _ refl refl refl,
        of "''hmi.fault.btn.his_page_next''" "0x1003" "[]"] shipped_layout_ok
    by (auto simp: x c example_refresh_rows page rows5)
qed

text \<open>C16: the refresh of the faults, every 100 ms, with the panel map and its layout loaded and a history cache there.
  Whatever the database does, after the refresh no change is left over, the registers of the panel show the faults that are
  active now, and the history rows are those of the cache. If moreover the database is open and executes every statement, the number of closed
  faults fits the page counter, and the cache was in step with the database or the history was marked as changed, then, whatever
  faults began or ended in the refresh, the cache agrees with the database as it now is, and the panel shows the number of pages,
  the page number the operator has chosen, and exactly the rows that the database has on this page; when the number lies
  beyond the last page it shows the rows of the last one, and without a closed fault page number 0 and empty rows. (When a
  statement fails the cache can stay behind, which the mark no longer tells.)\<close>

theorem refresh_shows_faults:
  assumes "x_cache x = Some c" and "layout_ok (x_layout x)" and "x_fault_map_loaded x" and "x_table x = Some t"
    and "refreshFaultPagesOnly clk clk' ts (fm, x) = (fm', x')"
  shows "\<exists>t' c'. x_table x' = Some t' \<and> x_cache x' = Some c' \<and> \<not> history_dirty (x_center x') \<and>
     shows_current (x_layout x) (x_center x') t' \<and> shows_history (x_layout x) c' (x_page_no x) t' \<and>
     (\<forall>db db' n. cache_fits c db \<longrightarrow> history_dirty (x_center x) \<or> cache_fresh c db \<longrightarrow> hc_db c' = Some db' \<longrightarrow>
        length (newest_first True db') \<le> 65535 * unat (page_size c) \<longrightarrow>
        length (newest_first True db') + unat (page_size c) < 2 ^ 31 \<longrightarrow>
        n = (length (newest_first True db') + unat (page_size c) - 1) div unat (page_size c) \<longrightarrow>
        cache_fits c' db' \<and> cache_fresh c' db' \<and>
        panel_history (x_layout x) t' =
          (n, if n = 0 then 0 else unat (x_page_no x),
           panel_rows (unat (history_rows (x_layout x)))
             (db_page db' (unat (page_size c)) (max 1 (min (unat (x_page_no x)) n)))))"
proof -
  define y where "y = x\<lparr>x_last_event_ts := ts, x_ext := fl_evaluateAll ts
      ((x_ext x)\<lparr>e_logic := evaluateAll (c_bms (e_logic (x_ext x))) ts (e_logic (x_ext x))\<rparr>)\<rparr>"
  have y: "x_cache y = Some c" "x_center y = x_center x" "x_page_no y = x_page_no x" "x_layout y = x_layout x"
    "x_fault_map_loaded y" "x_table y = Some t" using assms by (simp_all add: y_def)
  obtain fm1 z where z0: "applyFaultPages clk clk' ts (fm, y) = (fm1, z)" by fastforce
  obtain fc where zf: "z = return_center fc y" using z0 by (auto simp: applyFaultPages_def Let_def split: prod.splits)
  obtain c1 where z: "x_cache z = Some c1" "x_page_no z = x_page_no x" "x_layout z = x_layout x" "x_fault_map_loaded z" "x_table z = Some t"
    using y by (cases "hc_db c") (simp_all add: zf return_center_def)
  have x': "x' = applyFaultHmi (refresh_history_cache z)"
    using assms(5) z0 by (simp add: refreshFaultPagesOnly_def y_def Let_def)
  obtain c' where c': "x_cache (refresh_history_cache z) = Some c'" using refresh_history_cache_other(5) [OF z(1)] by blast
  obtain t' where t': "x_table x' = Some t'" "shows_current (x_layout x) (x_center x') t'" "shows_history (x_layout x) c' (x_page_no x) t'"
    using output_shows [of "refresh_history_cache z" t c'] assms(2) z c' unfolding x' by (auto simp: refresh_history_cache_other)
  have clean: "\<not> history_dirty (x_center x')" using refresh_history_cache_other(6) [OF z(1)] by (simp add: x')
  have "cache_fits c' db' \<and> cache_fresh c' db' \<and> panel_history (x_layout x) t' = (n, if n = 0 then 0 else unat (x_page_no x),
      panel_rows (unat (history_rows (x_layout x))) (db_page db' (unat (page_size c)) (max 1 (min (unat (x_page_no x)) n))))"
    if f: "cache_fits c db" and fr: "history_dirty (x_center x) \<or> cache_fresh c db" and db': "hc_db c' = Some db'"
      and small: "length (newest_first True db') \<le> 65535 * unat (page_size c)"
        "length (newest_first True db') + unat (page_size c) < 2 ^ 31"
      and n: "n = (length (newest_first True db') + unat (page_size c) - 1) div unat (page_size c)" for db db' n
  proof -
    have db: "hc_db c = Some db" "db_ready db" using f by (simp_all add: cache_fits_def)
    obtain fm2 fc where p: "applyFaultPages clk clk' ts (fm, y) = (fm2, return_center fc y)"
      "history_dirty fc \<or> calls_of fc = [] \<and> \<not> history_dirty (x_center y)"
      using applyFaultPages_quiet [OF y(1) db(1)] by blast
    have zf: "z = return_center fc y" using p(1) z0 by simp
    define db1 where "db1 = foldl perform_call db (calls_of fc)"
    have c1: "c1 = c\<lparr>hc_db := Some db1\<rparr>" "history_dirty (x_center z) = history_dirty fc"
      using z(1) y db by (simp_all add: zf return_center_def db1_def)
    have rows: "newest_first True db' = newest_first True db1" "page_size c' = page_size c"
      using refresh_history_cache_rows [OF z(1) c'] db' by (simp_all add: same_rows_def c1)
    have f1: "cache_fits c1 db1"
      using f small rows perform_calls_ready [OF db(2)] by (simp add: cache_fits_def c1 db1_def)
    have fr1: "history_dirty (x_center z) \<or> cache_fresh c1 db1"
    proof (cases "history_dirty fc")
      case False
      with p(2) have "calls_of fc = []" "\<not> history_dirty (x_center x)" by (simp_all add: y)
      moreover have "c\<lparr>hc_db := Some db\<rparr> = c" using db(1) by (cases c) simp
      ultimately have "cache_fresh c1 db1" using fr by (simp add: c1 db1_def)
      then show ?thesis ..
    qed (simp add: c1)
    obtain c2 db2 where r: "x_cache (refresh_history_cache z) = Some c2" "same_history c1 db1 c2 db2" "cache_fresh c2 db2"
      "0 < page_count c1 db1 \<longrightarrow> hasPageInWindow c2 (clampPage c2 (x_page_no z))"
      using refresh_history_cache_fresh [OF z(1) f1 fr1] by (elim exE conjE) (rule that)
    have f2: "cache_fits c2 db2" using r(2) by (simp add: same_history_def)
    have eq: "c2 = c'" "db2 = db'" using r(1) c' db' f2 by (simp_all add: cache_fits_def)
    have pc: "page_count c' db' = n" "page_count c1 db1 = n"
      using same_history_page [OF r(2)] by (simp_all add: eq page_count_def rows n)
    show ?thesis
      using shows_history_panel [OF t'(3), of db'] f2 r(3,4) z(2) unfolding eq pc rows by simp
  qed
  then show ?thesis using t' c' clean by (intro exI [of _ t'] exI [of _ c']) (simp add: x')
qed

text \<open>Without batteries and rules nothing becomes active and the database is not called.\<close>

lemma confirmed_none: "(\<And>k. m k \<noteq> Some True) \<Longrightarrow> clearInstSignals i m k \<noteq> Some True"
proof -
  assume m: "\<And>k. m k \<noteq> Some True"
  have "foldl (setConfirmed i) m (map (\<lambda>s. (s, False)) ss) k \<noteq> Some True" for ss
    using m by (induction ss arbitrary: m) (auto simp: setConfirmed_def)
  then show ?thesis by (simp add: clearInstSignals_def)
qed

lemma evaluate_none:
  "c_bms_confirmed (evaluateAll Map.empty now ctx_init) k \<noteq> Some True"
proof -
  have "(\<And>k. m k \<noteq> Some True) \<Longrightarrow> foldl (\<lambda>m inst. evaluateOne inst None now m) m is k \<noteq> Some True" for m k "is"
    by (induction "is" arbitrary: m) (simp_all add: evaluateOne_def confirmed_none)
  then show ?thesis by (simp add: evaluateAll_def ctx_init_def)
qed

definition idle :: "fault_db option \<Rightarrow> fault_center \<Rightarrow> bool" where
  "idle d s \<longleftrightarrow> active s = {} \<and> \<not> history_dirty s \<and> fc_db s = d"

lemma setActive_idle: "idle d s \<Longrightarrow> idle d (setActive ts c False s)"
  by (simp add: idle_def setActive_def deactivate_def isActive_def Let_def)

lemma idle_pages:
  assumes "\<And>k. c_bms_confirmed ctx k \<noteq> Some True" "idle d s"
  shows "idle d (applyToFaultPages ctx clk s)"
proof -
  have off: "confirmedOn ctx i sig = False" for i sig
    using assms(1) by (auto simp: confirmedOn_def split: option.split)
  have one: "idle d s \<Longrightarrow> idle d (applyOne ctx clk s i)" for i s
  proof -
    have "idle d s \<Longrightarrow> idle d (foldl (\<lambda>s (c, on). setActive (clk c) c on s) s (map (\<lambda>(code, sig). (codeByInst i code, confirmedOn ctx i sig)) xs))" for xs
      by (induction xs arbitrary: s) (auto simp: off setActive_idle)
    then show "idle d s \<Longrightarrow> idle d (applyOne ctx clk s i)" by (simp add: applyOne_def)
  qed
  from assms(2) show ?thesis by (simp add: applyToFaultPages_def one)
qed

lemma fl_keeps_confirmed: "c_bms_confirmed (e_logic (fl_evaluateAll now c)) = c_bms_confirmed (e_logic c)"
  by (simp add: fl_evaluateAll_def evaluateLogic_def evaluatePcu_def write_back_def Let_def)

theorem refresh_shows_faults_witness:
  "let x' = snd (refreshFaultPagesOnly (\<lambda>_. 7000) (\<lambda>_. 7000) 7000 (\<lparr>fr_rules = [], fr_states = Map.empty\<rparr>, example_history_panel)) in
     case x_table x' of None \<Rightarrow> False
     | Some t \<Rightarrow> (let (n, q, rows) = panel_history shipped_layout t in
         n = 2 \<and> q = 1 \<and> map (\<lambda>r. fst (snd r)) rows = [0x1007, 0x1006, 0x1005, 0x1004, 0x1003])"
proof -
  define c where "c = snd (refreshWindow 1 example_bound)"
  obtain db where c: "cache_fits c db" "cache_fresh c db" "newest_first True db = newest_first True example_db" "page_size c = 5"
    "hasPageInWindow c 1" unfolding c_def by (rule example_history_cache)
  let ?x = "example_history_panel"
  have x: "x_cache ?x = Some c" "x_layout ?x = shipped_layout" "x_fault_map_loaded ?x" "x_page_no ?x = 1" "x_center ?x = center_init"
    "x_table ?x = Some \<lparr>bool_rw = Map.empty, int_rw = Map.empty, bool_rd = Map.empty, int_rd = Map.empty\<rparr>" "x_ext ?x = ext_init"
    by (simp_all add: example_history_panel_def panel_init_def c_def)
  define y where "y = ?x\<lparr>x_last_event_ts := 7000, x_ext := fl_evaluateAll 7000 ((x_ext ?x)\<lparr>e_logic := evaluateAll (c_bms (e_logic (x_ext ?x))) 7000 (e_logic (x_ext ?x))\<rparr>)\<rparr>"
  have none: "c_bms_confirmed (e_logic (x_ext y)) k \<noteq> Some True" for k
    using evaluate_none [of 7000 k] by (simp add: y_def x fl_keeps_confirmed ext_init_def) (simp add: ctx_init_def)
  have h: "hc_db c = Some db" using c(1) by (simp add: cache_fits_def)
  define fc where "fc = applyToFaultPages (e_logic (x_ext y)) (\<lambda>_. 7000) (lent_center y)"
  have "idle (Some (lend_db db)) fc" unfolding fc_def
    by (rule idle_pages [OF none]) (simp add: idle_def lent_center_def y_def x h center_init_def)
  then have fc: "\<not> history_dirty fc" "calls_of fc = []" by (simp_all add: idle_def calls_of_def lend_db_def)
  have "c\<lparr>hc_db := Some db\<rparr> = c" using h by (cases c) simp
  then have r: "x_cache (return_center fc y) = Some c" "x_page_no (return_center fc y) = 1"
    "\<not> history_dirty (x_center (return_center fc y))"
    using x fc h by (simp_all add: return_center_def y_def)
  define x' where "x' = applyFaultHmi (refresh_history_cache (return_center fc y))"
  have yx: "x_ext y = fl_evaluateAll 7000 ((x_ext ?x)\<lparr>e_logic := evaluateAll (c_bms (e_logic (x_ext ?x))) 7000 (e_logic (x_ext ?x))\<rparr>)"
    by (simp add: y_def)
  have run: "refreshFaultPagesOnly (\<lambda>_. 7000) (\<lambda>_. 7000) 7000 (\<lparr>fr_rules = [], fr_states = Map.empty\<rparr>, ?x) =
      (\<lparr>fr_rules = [], fr_states = Map.empty\<rparr>, x')"
    by (simp add: refreshFaultPagesOnly_def applyFaultPages_def applyAll_def Let_def y_def [symmetric] fc_def x'_def yx)
  have cache: "x_cache x' = Some c"
    using r c(5) by (simp add: x'_def refresh_history_cache_def consumeHistoryDirty_def)
  have page: "panel_rows 5 (db_page db 5 (Suc 0)) =
      [(7, 0x1007, 1, 2, 0), (6, 0x1006, 1, 2, 0), (5, 0x1005, 1, 2, 0), (4, 0x1004, 1, 2, 0), (3, 0x1003, 1, 2, 0)]"
    by (simp add: db_page_def c(3) example_refresh_rows panel_rows_def row_or_def fromDb_def example_row_def empty_view_row_def upt_rec)
  have rows5: "unat (history_rows shipped_layout) = 5" by (simp add: shipped_layout_def Let_def)
  have lay: "layout_ok (x_layout ?x)" using shipped_layout_ok by (simp add: x)
  obtain t' c' where t': "x_table x' = Some t'" "x_cache x' = Some c'"
    and all: "\<forall>db db' n. cache_fits c db \<longrightarrow> history_dirty (x_center ?x) \<or> cache_fresh c db \<longrightarrow> hc_db c' = Some db' \<longrightarrow>
        length (newest_first True db') \<le> 65535 * unat (page_size c) \<longrightarrow>
        length (newest_first True db') + unat (page_size c) < 2 ^ 31 \<longrightarrow>
        n = (length (newest_first True db') + unat (page_size c) - 1) div unat (page_size c) \<longrightarrow>
        cache_fits c' db' \<and> cache_fresh c' db' \<and>
        panel_history (x_layout ?x) t' = (n, if n = 0 then 0 else unat (x_page_no ?x),
           panel_rows (unat (history_rows (x_layout ?x))) (db_page db' (unat (page_size c)) (max 1 (min (unat (x_page_no ?x)) n))))"
    using refresh_shows_faults [OF x(1) lay x(3) x(6) run] by (elim exE conjE) (rule that)
  have c': "c' = c" using t'(2) cache by simp
  have len: "length (newest_first True db) = 7" by (simp add: c(3) example_refresh_rows)
  have p5: "unat (page_size c) = 5" by (simp add: c(4))
  have n: "hc_db c' = Some db" "length (newest_first True db) \<le> 65535 * unat (page_size c)"
    "length (newest_first True db) + unat (page_size c) < 2 ^ 31"
    "2 = (length (newest_first True db) + unat (page_size c) - 1) div unat (page_size c)"
    unfolding len p5 c' by (rule h) simp_all
  have one: "unat (x_page_no ?x) = 1" by (simp add: x(4))
  have "panel_history (x_layout ?x) t' = (2, if (2 :: nat) = 0 then 0 else unat (x_page_no ?x),
      panel_rows (unat (history_rows (x_layout ?x))) (db_page db (unat (page_size c)) (max 1 (min (unat (x_page_no ?x)) 2))))"
    using all [rule_format, OF c(1) disjI2 [OF c(2)] n] by (rule conjunct2 [OF conjunct2])
  then have "panel_history shipped_layout t' = (2, 1, panel_rows 5 (db_page db 5 (Suc 0)))"
    unfolding one p5 x(2) rows5 by simp
  then show ?thesis unfolding run by (simp add: t'(1) page)
qed

end
