(* ===== verification/Data_Aggregator.thy ===== *)
theory Data_Aggregator
  imports Logic_Device_Data Fault_Catalog
begin

text \<open>
  The aggregator (\<open>services/aggregator/data_aggregator.cpp\<close>): the latest state of every device, collected for the
  control logic and the recorders, and the lighter record of the battery messages
  (\<open>services/aggregator/bms/bms_snapshot.cpp\<close>). The structures are those of
  \<open>services/aggregator/system_snapshot.h\<close> and \<open>services/aggregator/snapshot_device_types.h\<close>; their
  conversions to JSON are left out. The clock is an argument of every operation.
\<close>

section \<open>Structures\<close>

record gas_channel =
  ch_valid :: bool
  ch_value :: dbl
  ch_raw :: u16
  ch_status :: u16
  ch_decimal_code :: u16
  ch_unit_code :: u16
  ch_type_code :: u16
  ch_fault_any :: bool
  ch_low_alarm :: bool
  ch_high_alarm :: bool
  ch_alarm_any :: bool
  ch_ts_ms :: u64

record ups_group =
  ug_num :: "string \<rightharpoonup> dbl"
  ug_value :: "string \<rightharpoonup> int"
  ug_status :: "string \<rightharpoonup> u32"
  ug_ts_ms :: u64

record aircon_group =
  ag_ts_ms :: u64
  ag_fields :: "string \<rightharpoonup> dbl"

record aircon_snapshot =
  ac_version :: aircon_group
  ac_run_state :: aircon_group
  ac_sensor_state :: aircon_group
  ac_warn_state :: aircon_group
  ac_sys_para :: aircon_group
  ac_remote_para :: aircon_group

record pcu_group =
  pg_num :: "string \<rightharpoonup> dbl"
  pg_value :: "string \<rightharpoonup> int"
  pg_status :: "string \<rightharpoonup> u32"
  pg_str :: "string \<rightharpoonup> string"
  pg_ts_ms :: u64

record pcu_snapshot =
  pcu_state_group :: pcu_group
  pcu_ctrl_group :: pcu_group

datatype device_health = HealthOnline | HealthDegraded | HealthOffline

record snapshot_item =
  si_ts_ms :: u64
  si_data :: device_data
  si_gas_channels :: "gas_type \<rightharpoonup> gas_channel"
  si_ups_groups :: "string \<rightharpoonup> ups_group"
  si_aircon :: "aircon_snapshot option"
  si_pcu :: "pcu_snapshot option"
  si_health :: device_health
  si_online :: bool
  si_last_ok_ms :: u64
  si_disconnect_window_ms :: u32
  si_last_offline_ms :: u64
  si_disconnect_count :: u32

record system_snapshot =
  sn_timestamp_ms :: u64
  sn_smoke_percent :: dbl
  sn_smoke_temperature :: int
  sn_ac_indoor_temp :: dbl
  sn_ac_humidity :: dbl
  sn_ac_power :: int
  sn_ac_run_state :: int
  sn_ac_alarm :: bool
  sn_system_temperature :: int
  sn_gas_alarm :: bool
  sn_smoke_alarm :: bool
  sn_items :: "string \<rightharpoonup> snapshot_item"

record bms_group_health =
  gh_online :: bool
  gh_last_rx_ms :: u64
  gh_last_ok_ms :: u64
  gh_disconnect_window_ms :: u32
  gh_last_offline_ms :: u64
  gh_disconnect_count :: u32

record bms_group_data =
  gd_ts_ms :: u64
  gd_rx_count :: u32
  gd_can_id :: u32
  gd_cycle_ms :: int
  gd_raw_hex :: string
  gd_health :: bms_group_health

record bms_instance_health =
  ih_online :: bool
  ih_last_ok_ms :: u64
  ih_disconnect_window_ms :: u32
  ih_last_offline_ms :: u64
  ih_disconnect_count :: u32

record bms_instance_data =
  bi_bms_index :: u32
  bi_last_msg_name :: string
  bi_health :: bms_instance_health
  bi_groups :: "string \<rightharpoonup> bms_group_data"

record bms_snapshot =
  bs_ts_ms :: u64
  bs_items :: "string \<rightharpoonup> bms_instance_data"

record aggregator =
  ag_snap :: system_snapshot
  ag_bms :: bms_snapshot

definition channel_init :: gas_channel where
  "channel_init = \<lparr>ch_valid = False, ch_value = Fin 0, ch_raw = 0, ch_status = 0, ch_decimal_code = 0, ch_unit_code = 0,
     ch_type_code = 0, ch_fault_any = False, ch_low_alarm = False, ch_high_alarm = False, ch_alarm_any = False, ch_ts_ms = 0\<rparr>"

definition aircon_group_init :: aircon_group where
  "aircon_group_init = \<lparr>ag_ts_ms = 0, ag_fields = Map.empty\<rparr>"

definition aircon_init :: aircon_snapshot where
  "aircon_init = \<lparr>ac_version = aircon_group_init, ac_run_state = aircon_group_init, ac_sensor_state = aircon_group_init,
     ac_warn_state = aircon_group_init, ac_sys_para = aircon_group_init, ac_remote_para = aircon_group_init\<rparr>"

definition pcu_group_init :: pcu_group where
  "pcu_group_init = \<lparr>pg_num = Map.empty, pg_value = Map.empty, pg_status = Map.empty, pg_str = Map.empty, pg_ts_ms = 0\<rparr>"

definition item_init :: snapshot_item where
  "item_init = \<lparr>si_ts_ms = 0, si_data = dd_init, si_gas_channels = Map.empty, si_ups_groups = Map.empty, si_aircon = None,
     si_pcu = None, si_health = HealthOffline, si_online = False, si_last_ok_ms = 0, si_disconnect_window_ms = 0,
     si_last_offline_ms = 0, si_disconnect_count = 0\<rparr>"

definition snapshot_init :: "u64 \<Rightarrow> system_snapshot" where
  "snapshot_init ts = \<lparr>sn_timestamp_ms = ts, sn_smoke_percent = Fin 0, sn_smoke_temperature = 0, sn_ac_indoor_temp = Fin 0,
     sn_ac_humidity = Fin 0, sn_ac_power = 0, sn_ac_run_state = 0, sn_ac_alarm = False, sn_system_temperature = 0,
     sn_gas_alarm = False, sn_smoke_alarm = False, sn_items = Map.empty\<rparr>"

definition aggregator_init :: "u64 \<Rightarrow> aggregator" where
  "aggregator_init ts = \<lparr>ag_snap = snapshot_init ts, ag_bms = \<lparr>bs_ts_ms = 0, bs_items = Map.empty\<rparr>\<rparr>"

definition instance_init :: bms_instance_data where
  "instance_init = \<lparr>bi_bms_index = 0, bi_last_msg_name = [],
     bi_health = \<lparr>ih_online = False, ih_last_ok_ms = 0, ih_disconnect_window_ms = 0, ih_last_offline_ms = 0, ih_disconnect_count = 0\<rparr>,
     bi_groups = Map.empty\<rparr>"

definition group_init :: bms_group_data where
  "group_init = \<lparr>gd_ts_ms = 0, gd_rx_count = 0, gd_can_id = 0, gd_cycle_ms = -1, gd_raw_hex = [],
     gd_health = \<lparr>gh_online = False, gh_last_rx_ms = 0, gh_last_ok_ms = 0, gh_disconnect_window_ms = 0, gh_last_offline_ms = 0,
       gh_disconnect_count = 0\<rparr>\<rparr>"

text \<open>\<open>items[name]\<close> creates the item when it is new.\<close>

definition item_at :: "string \<Rightarrow> system_snapshot \<Rightarrow> snapshot_item" where
  "item_at name s = (case sn_items s name of None \<Rightarrow> item_init | Some it \<Rightarrow> it)"

definition set_item :: "string \<Rightarrow> snapshot_item \<Rightarrow> system_snapshot \<Rightarrow> system_snapshot" where
  "set_item name it s = s\<lparr>sn_items := (sn_items s)(name \<mapsto> it)\<rparr>"

definition mark_online :: "u64 \<Rightarrow> snapshot_item \<Rightarrow> snapshot_item" where
  "mark_online ts it = it\<lparr>si_health := HealthOnline, si_online := True, si_last_ok_ms := ts\<rparr>"

section \<open>Conversion units\<close>

definition isPcuStateDeviceName :: "string \<Rightarrow> bool" where
  "isPcuStateDeviceName n \<longleftrightarrow> n \<in> {''PCU'', ''PCU_0'', ''PCU_1''}"

definition isPcuCtrlDeviceName :: "string \<Rightarrow> bool" where
  "isPcuCtrlDeviceName n \<longleftrightarrow> n \<in> {''PCU_CTRL'', ''PCU_0_CTRL'', ''PCU_1_CTRL'', ''PCU_TX'', ''PCU_0_TX'', ''PCU_1_TX''}"

definition pcuBaseNameFromInstance :: "int \<Rightarrow> string" where
  "pcuBaseNameFromInstance i = (if i = 1 then ''PCU_0'' else if i = 2 then ''PCU_1'' else [])"

definition pcuBaseNameFromDeviceName :: "string \<Rightarrow> string" where
  "pcuBaseNameFromDeviceName n =
     (if n \<in> {''PCU_0'', ''PCU_0_CTRL'', ''PCU_0_TX''} then ''PCU_0''
      else if n \<in> {''PCU_1'', ''PCU_1_CTRL'', ''PCU_1_TX''} then ''PCU_1'' else [])"

definition in_1_2 :: "int option \<Rightarrow> int option" where
  "in_1_2 v = (case v of Some i \<Rightarrow> if 1 \<le> i \<and> i \<le> 2 then Some i else None | None \<Rightarrow> None)"

definition pcuInstanceFromDeviceData :: "device_data \<Rightarrow> int" where
  "pcuInstanceFromDeviceData d =
     (case in_1_2 (vals d ''__pcu.instance'') of Some i \<Rightarrow> i
      | None \<Rightarrow> (case in_1_2 (vals d ''pcu_instance'') of Some i \<Rightarrow> i
          | None \<Rightarrow> (case vals d ''__pcu.runtime_index'' of
                       Some r \<Rightarrow> if r = 0 then 1 else if r = 1 then 2 else 0
                     | None \<Rightarrow> 0)))"

definition pcuBaseNameFromDeviceData :: "device_data \<Rightarrow> string" where
  "pcuBaseNameFromDeviceData d =
     (let by_inst = pcuBaseNameFromInstance (pcuInstanceFromDeviceData d) in
      if by_inst \<noteq> [] then by_inst else pcuBaseNameFromDeviceName (device_name d))"

definition makePcuItemData :: "device_data \<Rightarrow> string \<Rightarrow> device_data" where
  "makePcuItemData d name =
     d\<lparr>device_name := name, str := (str d)(''__inst_name'' \<mapsto> name, ''kind'' \<mapsto> ''pcu'')\<rparr>"

definition copyPcuGroup :: "device_data \<Rightarrow> u64 \<Rightarrow> pcu_group" where
  "copyPcuGroup d ts = \<lparr>pg_num = num d, pg_value = vals d, pg_status = status d, pg_str = str d, pg_ts_ms = ts\<rparr>"

definition pcu_or_empty :: "snapshot_item \<Rightarrow> pcu_snapshot" where
  "pcu_or_empty it = (case si_pcu it of Some p \<Rightarrow> p
     | None \<Rightarrow> \<lparr>pcu_state_group = pcu_group_init, pcu_ctrl_group = pcu_group_init\<rparr>)"

definition onPcuState :: "device_data \<Rightarrow> u64 \<Rightarrow> system_snapshot \<Rightarrow> system_snapshot" where
  "onPcuState d ts s =
     (let name = pcuBaseNameFromDeviceData d in
      if name = [] then s
      else let it = item_at name s;
               it = mark_online ts (it\<lparr>si_ts_ms := ts, si_data := makePcuItemData d name\<rparr>)
           in set_item name (it\<lparr>si_pcu := Some ((pcu_or_empty it)\<lparr>pcu_state_group := copyPcuGroup d ts\<rparr>)\<rparr>) s)"

definition onPcuCtrl :: "device_data \<Rightarrow> u64 \<Rightarrow> system_snapshot \<Rightarrow> system_snapshot" where
  "onPcuCtrl d ts s =
     (let name = pcuBaseNameFromDeviceData d in
      if name = [] then s
      else let it = (item_at name s)\<lparr>si_ts_ms := ts\<rparr>;
               it = (if device_name (si_data it) = []
                     then it\<lparr>si_data := (si_data it)\<lparr>device_name := name,
                            str := (str (si_data it))(''kind'' \<mapsto> ''pcu_tx_only'', ''__inst_name'' \<mapsto> name)\<rparr>\<rparr>
                     else it)
           in set_item name (it\<lparr>si_pcu := Some ((pcu_or_empty it)\<lparr>pcu_ctrl_group := copyPcuGroup d ts\<rparr>)\<rparr>) s)"

section \<open>Batteries\<close>

definition extractBmsIndexFromCanId :: "u32 \<Rightarrow> u32" where
  "extractBmsIndexFromCanId i =
     (let idx = drop_bit 8 (i AND 0xFFF) AND 0xF in if 1 \<le> idx \<and> idx \<le> 4 then idx else 0)"

definition makeBmsInstanceName :: "u32 \<Rightarrow> string" where
  "makeBmsInstanceName idx = (if 1 \<le> idx \<and> idx \<le> 4 then ''BMS_'' @ to_string (unat idx) else ''BMS_0'')"

text \<open>The conversion of the digits can raise an exception, which nothing catches here: \<open>None\<close>.\<close>

definition parseBmsIndexFromInstanceName :: "string \<Rightarrow> u32 option" where
  "parseBmsIndexFromInstanceName s =
     (if take 4 s \<noteq> ''BMS_'' then Some 0
      else let tail = drop 4 s in
        if tail = [] \<or> \<not> list_all is_digit tail then Some 0
        else case stoi tail of None \<Rightarrow> None | Some v \<Rightarrow> Some (if 1 \<le> v \<and> v \<le> 4 then word_of_int v else 0))"

definition ensureInstance :: "string \<Rightarrow> u32 \<Rightarrow> bms_snapshot \<Rightarrow> bms_instance_data" where
  "ensureInstance name idx b =
     (let x = (case bs_items b name of None \<Rightarrow> instance_init | Some x \<Rightarrow> x)
      in if bi_bms_index x = 0 \<and> idx \<noteq> 0 then x\<lparr>bi_bms_index := idx\<rparr> else x)"

definition group_at :: "bms_instance_data \<Rightarrow> string \<Rightarrow> bms_group_data" where
  "group_at x name = (case bi_groups x name of None \<Rightarrow> group_init | Some g \<Rightarrow> g)"

definition agg_onBmsDeviceData :: "device_data \<Rightarrow> u64 \<Rightarrow> aggregator \<Rightarrow> aggregator option" where
  "agg_onBmsDeviceData d ts a =
     (let msg = (case str d ''__bms.msg'' of Some m \<Rightarrow> if m \<noteq> [] then m else ''UNKNOWN'' | None \<Rightarrow> ''UNKNOWN'');
          named = (case str d ''__bms.instance'' of None \<Rightarrow> Some ([], 0)
                   | Some n \<Rightarrow> map_option (\<lambda>i. (n, i)) (parseBmsIndexFromInstanceName n))
      in case named of None \<Rightarrow> None
      | Some (name, idx) \<Rightarrow>
          let can = (case vals d ''__bms.id'' of Some i \<Rightarrow> (word_of_int i :: u32) | None \<Rightarrow> 0);
              idx' = (if idx = 0 \<and> can \<noteq> 0 then extractBmsIndexFromCanId can else idx);
              name = (if idx = 0 \<and> can \<noteq> 0 \<and> idx' \<noteq> 0 then makeBmsInstanceName idx' else name);
              name = (if name = [] then ''BMS_0'' else name);
              raw = (case str d ''__bms.raw_hex'' of Some h \<Rightarrow> h | None \<Rightarrow> []);
              cycle = (case vals d ''__bms.cycle_ms'' of Some c \<Rightarrow> c | None \<Rightarrow> -1);
              x = ensureInstance name idx' (ag_bms a);
              x = x\<lparr>bi_last_msg_name := msg, bi_health := (bi_health x)\<lparr>ih_online := True, ih_last_ok_ms := ts\<rparr>\<rparr>;
              g = group_at x msg;
              g = g\<lparr>gd_ts_ms := ts, gd_rx_count := gd_rx_count g + 1, gd_can_id := can, gd_cycle_ms := cycle,
                    gd_raw_hex := raw,
                    gd_health := (gd_health g)\<lparr>gh_online := True, gh_last_rx_ms := ts, gh_last_ok_ms := ts\<rparr>\<rparr>;
              x = x\<lparr>bi_groups := (bi_groups x)(msg \<mapsto> g)\<rparr>;
              it = mark_online ts ((item_at name (ag_snap a))\<lparr>si_ts_ms := ts\<rparr>);
              it = it\<lparr>si_data := dd_init\<lparr>device_name := name,
                     str := [''kind'' \<mapsto> ''bms_shadow'', ''last_msg_name'' \<mapsto> msg],
                     vals := [''bms_index'' \<mapsto> uint idx']\<rparr>\<rparr>
          in Some \<lparr>ag_snap = set_item name it (ag_snap a),
                   ag_bms = \<lparr>bs_ts_ms = ts, bs_items = (bs_items (ag_bms a))(name \<mapsto> x)\<rparr>\<rparr>)"

section \<open>The other devices\<close>

definition ups_group_key :: "int \<Rightarrow> string" where
  "ups_group_key cmd = (if cmd = 1 then ''Q1'' else if cmd = 2 then ''Q6'' else if cmd = 3 then ''WA'' else ''UNKNOWN'')"

definition agg_ups :: "device_data \<Rightarrow> u64 \<Rightarrow> snapshot_item \<Rightarrow> snapshot_item" where
  "agg_ups d ts it =
     (case vals d ''__ups_cmd'' of None \<Rightarrow> it
      | Some cmd \<Rightarrow> it\<lparr>si_ups_groups := (si_ups_groups it)(ups_group_key cmd \<mapsto>
            \<lparr>ug_num = num d, ug_value = vals d, ug_status = status d, ug_ts_ms = ts\<rparr>)\<rparr>)"

definition gas_type_of_code :: "u16 \<Rightarrow> gas_type option" where
  "gas_type_of_code c =
     (if c = 0 then Some Combustible else if c = 1 then Some CO else if c = 2 then Some O2
      else if c = 3 then Some Temperature else if c = 4 then Some Humidity else if c = 5 then Some CO2 else None)"

text \<open>The gas types in the order in which a map of channels is traversed.\<close>

definition gas_order :: "gas_type list" where
  "gas_order = [Combustible, CO, O2, Temperature, Humidity, CO2, UnknownGas]"

definition channels :: "snapshot_item \<Rightarrow> gas_channel list" where
  "channels it = List.map_filter (si_gas_channels it) gas_order"

definition channel_of :: "gas_reading \<Rightarrow> u64 \<Rightarrow> gas_channel" where
  "channel_of g ts =
     \<lparr>ch_valid = True, ch_value = gas_value g, ch_raw = gas_raw g, ch_status = Device_Data.gas_status g,
      ch_decimal_code = gas_decimal_code g, ch_unit_code = gas_unit_code g, ch_type_code = gas_type_code g,
      ch_fault_any = (gas_status g AND 1 \<noteq> 0), ch_low_alarm = (gas_status g AND 2 \<noteq> 0),
      ch_high_alarm = (gas_status g AND 4 \<noteq> 0), ch_alarm_any = (gas_status g AND 2 \<noteq> 0 \<or> gas_status g AND 4 \<noteq> 0),
      ch_ts_ms = ts\<rparr>"

definition agg_gas :: "device_data \<Rightarrow> u64 \<Rightarrow> snapshot_item \<Rightarrow> system_snapshot \<Rightarrow> system_snapshot" where
  "agg_gas d ts it s =
     (if \<not> gas_valid (gas d) then set_item ''GasDetector'' it s
      else case gas_type_of_code (gas_type_code (gas d)) of None \<Rightarrow> set_item ''GasDetector'' it s
      | Some t \<Rightarrow>
          let it = it\<lparr>si_gas_channels := (si_gas_channels it)(t \<mapsto> channel_of (gas d) ts)\<rparr>
          in (set_item ''GasDetector'' it s)\<lparr>sn_gas_alarm :=
               list_ex (\<lambda>c. ch_valid c \<and> si_online it \<and> (ch_fault_any c \<or> ch_alarm_any c)) (channels it)\<rparr>)"

definition agg_smoke :: "device_data \<Rightarrow> system_snapshot \<Rightarrow> system_snapshot" where
  "agg_smoke d s =
     (let s = (case num d ''smoke_percent'' of Some x \<Rightarrow> s\<lparr>sn_smoke_percent := x\<rparr> | None \<Rightarrow> s);
          s = (case num d ''temp'' of Some x \<Rightarrow> s\<lparr>sn_smoke_temperature := dbl_trunc x\<rparr> | None \<Rightarrow> s)
      in s\<lparr>sn_smoke_alarm := (case status d ''TSS_smoke_alarm'' of Some v \<Rightarrow> v \<noteq> 0
             | None \<Rightarrow> (case num d ''alarm'' of Some x \<Rightarrow> dbl_trunc x \<noteq> 0 | None \<Rightarrow> False))\<rparr>)"

definition copy_fields :: "(string \<Rightarrow> bool) \<Rightarrow> (string \<rightharpoonup> dbl) \<Rightarrow> u64 \<Rightarrow> aircon_group \<Rightarrow> aircon_group" where
  "copy_fields sel m ts g =
     (if \<exists>k \<in> dom m. sel k
      then \<lparr>ag_ts_ms = ts, ag_fields = (\<lambda>k. if sel k \<and> m k \<noteq> None then m k else ag_fields g k)\<rparr> else g)"

definition has_prefix :: "string \<Rightarrow> string \<Rightarrow> bool" where
  "has_prefix p k \<longleftrightarrow> take (length p) k = p"

definition is_sensor_key :: "string \<Rightarrow> bool" where
  "is_sensor_key k \<longleftrightarrow> has_prefix ''temp.'' k \<or>
     k \<in> {''humidity_percent'', ''current_a'', ''ac_voltage_v'', ''dc_voltage_v''}"

definition agg_aircon_groups :: "device_data \<Rightarrow> u64 \<Rightarrow> aircon_snapshot \<Rightarrow> aircon_snapshot" where
  "agg_aircon_groups d ts ac =
     ac\<lparr>ac_version := copy_fields (\<lambda>k. k = ''version'') (num d) ts (ac_version ac),
        ac_run_state := copy_fields (has_prefix ''run.'') (num d) ts (ac_run_state ac),
        ac_sensor_state := copy_fields is_sensor_key (num d) ts (ac_sensor_state ac),
        ac_sys_para := copy_fields (has_prefix ''param.'') (num d) ts (ac_sys_para ac),
        ac_remote_para := copy_fields (has_prefix ''remote.'') (num d) ts (ac_remote_para ac),
        ac_warn_state := copy_fields (has_prefix ''alarm.'') (\<lambda>k. map_option (\<lambda>v. dbl_of_int (uint v)) (status d k)) ts
          (ac_warn_state ac)\<rparr>"

definition show_aircon :: "aircon_snapshot \<Rightarrow> system_snapshot \<Rightarrow> system_snapshot" where
  "show_aircon ac s =
     (let s = (case ag_fields (ac_sensor_state ac) ''temp.indoor_c'' of Some x \<Rightarrow> s\<lparr>sn_ac_indoor_temp := x\<rparr> | None \<Rightarrow> s);
          s = (case ag_fields (ac_sensor_state ac) ''humidity_percent'' of Some x \<Rightarrow> s\<lparr>sn_ac_humidity := x\<rparr> | None \<Rightarrow> s);
          s = (case ag_fields (ac_remote_para ac) ''remote.power'' of Some x \<Rightarrow> s\<lparr>sn_ac_power := dbl_trunc x\<rparr> | None \<Rightarrow> s);
          s = (case ag_fields (ac_run_state ac) ''run.overall'' of Some x \<Rightarrow> s\<lparr>sn_ac_run_state := dbl_trunc x\<rparr> | None \<Rightarrow> s)
      in case ag_fields (ac_warn_state ac) ''alarm.any'' of Some x \<Rightarrow> s\<lparr>sn_ac_alarm := (x \<noteq> Fin 0)\<rparr> | None \<Rightarrow> s)"

definition agg_aircon :: "device_data \<Rightarrow> u64 \<Rightarrow> snapshot_item \<Rightarrow> system_snapshot \<Rightarrow> system_snapshot" where
  "agg_aircon d ts it s =
     (let ac = agg_aircon_groups d ts (case si_aircon it of Some ac \<Rightarrow> ac | None \<Rightarrow> aircon_init)
      in show_aircon ac (set_item ''AirConditioner'' (it\<lparr>si_aircon := Some ac\<rparr>) s))"

section \<open>The operations\<close>

definition agg_device :: "device_data \<Rightarrow> u64 \<Rightarrow> system_snapshot \<Rightarrow> system_snapshot" where
  "agg_device d ts s =
     (let name = device_name d in
      if isPcuStateDeviceName name then onPcuState d ts s
      else if isPcuCtrlDeviceName name then onPcuCtrl d ts s
      else let it = mark_online ts ((item_at name s)\<lparr>si_ts_ms := ts, si_data := d\<rparr>) in
        if name = ''UPS'' then set_item name (agg_ups d ts it) s
        else if name = ''GasDetector'' then agg_gas d ts it s
        else if name = ''SmokeSensor'' then agg_smoke d (set_item name it s)
        else if name = ''AirConditioner'' then agg_aircon d ts it s
        else set_item name it s)"

definition agg_onDeviceData :: "device_data \<Rightarrow> u64 \<Rightarrow> aggregator \<Rightarrow> aggregator option" where
  "agg_onDeviceData d ts a0 =
     (let a = a0\<lparr>ag_snap := (ag_snap a0)\<lparr>sn_timestamp_ms := ts\<rparr>\<rparr> in
      if device_name d = ''BMS'' then agg_onBmsDeviceData d ts a
      else Some (a\<lparr>ag_snap := agg_device d ts (ag_snap a)\<rparr>))"

definition set_health :: "bool \<Rightarrow> u64 \<Rightarrow> u32 \<Rightarrow> u64 \<Rightarrow> u32 \<Rightarrow> snapshot_item \<Rightarrow> snapshot_item" where
  "set_health on last_ok window last_off cnt it =
     it\<lparr>si_health := (if on then HealthOnline else HealthOffline), si_online := on, si_last_ok_ms := last_ok,
        si_disconnect_window_ms := window, si_last_offline_ms := last_off, si_disconnect_count := cnt\<rparr>"

definition updateHealthFromScheduler ::
    "string \<Rightarrow> bool \<Rightarrow> u64 \<Rightarrow> u32 \<Rightarrow> u64 \<Rightarrow> u32 \<Rightarrow> aggregator \<Rightarrow> aggregator" where
  "updateHealthFromScheduler name on last_ok window last_off cnt a =
     (let s = ag_snap a;
          s = set_item name (set_health on last_ok window last_off cnt (item_at name s)) s;
          s = (if name = ''GasDetector'' \<and> \<not> on then s\<lparr>sn_gas_alarm := False\<rparr> else s);
          s = (if name = ''AirConditioner'' \<and> \<not> on then s\<lparr>sn_ac_alarm := False\<rparr> else s)
      in a\<lparr>ag_snap := s\<rparr>)"

record bms_health_update =
  hu_instance_name :: string
  hu_bms_index :: u32
  hu_online :: bool
  hu_last_ok_ms :: u64
  hu_disconnect_window_ms :: u32
  hu_last_offline_ms :: u64
  hu_disconnect_count :: u32

definition parse_idx_from_name :: "string \<Rightarrow> u32" where
  "parse_idx_from_name s =
     (if take 4 s \<noteq> ''BMS_'' then 0
      else case stoi (drop 4 s) of None \<Rightarrow> 0 | Some v \<Rightarrow> if 1 \<le> v \<and> v \<le> 4 then word_of_int v else 0)"

definition instance_health :: "bms_health_update \<Rightarrow> bms_instance_health" where
  "instance_health u = \<lparr>ih_online = hu_online u, ih_last_ok_ms = hu_last_ok_ms u,
     ih_disconnect_window_ms = hu_disconnect_window_ms u, ih_last_offline_ms = hu_last_offline_ms u,
     ih_disconnect_count = hu_disconnect_count u\<rparr>"

definition group_offline :: "bms_health_update \<Rightarrow> bms_group_data \<Rightarrow> bms_group_data" where
  "group_offline u g = g\<lparr>gd_health := (gd_health g)\<lparr>gh_online := False, gh_disconnect_window_ms := hu_disconnect_window_ms u,
     gh_last_offline_ms := hu_last_offline_ms u, gh_disconnect_count := hu_disconnect_count u\<rparr>\<rparr>"

definition item_health :: "snapshot_item \<Rightarrow> bms_instance_health" where
  "item_health it = \<lparr>ih_online = si_online it, ih_last_ok_ms = si_last_ok_ms it,
     ih_disconnect_window_ms = si_disconnect_window_ms it, ih_last_offline_ms = si_last_offline_ms it,
     ih_disconnect_count = si_disconnect_count it\<rparr>"

definition apply_health :: "u64 \<Rightarrow> bms_health_update \<Rightarrow> bool \<times> aggregator \<Rightarrow> bool \<times> aggregator" where
  "apply_health ts u ca =
     (let (changed, a) = ca;
          name = hu_instance_name u;
          idx = (if hu_bms_index u = 0 then parse_idx_from_name name else hu_bms_index u)
      in if name = [] \<or> idx < 1 \<or> 4 < idx then (changed, a)
         else let x = ensureInstance name idx (ag_bms a);
                  it = item_at name (ag_snap a);
                  changed = (changed \<or> bi_health x \<noteq> instance_health u \<or> item_health it \<noteq> instance_health u \<or>
                    (\<not> hu_online u \<and> (\<exists>k \<in> dom (bi_groups x). group_offline u (group_at x k) \<noteq> group_at x k)));
                  x = x\<lparr>bi_health := instance_health u,
                        bi_groups := (if hu_online u then bi_groups x else (\<lambda>k. map_option (group_offline u) (bi_groups x k)))\<rparr>;
                  it = (set_health (hu_online u) (hu_last_ok_ms u) (hu_disconnect_window_ms u) (hu_last_offline_ms u)
                          (hu_disconnect_count u) it)\<lparr>si_ts_ms := ts\<rparr>
              in (changed, \<lparr>ag_snap = set_item name it (ag_snap a),
                            ag_bms = \<lparr>bs_ts_ms = ts, bs_items = (bs_items (ag_bms a))(name \<mapsto> x)\<rparr>\<rparr>))"

definition agg_updateBmsRuntimeHealth :: "bms_health_update list \<Rightarrow> u64 \<Rightarrow> aggregator \<Rightarrow> bool \<times> aggregator" where
  "agg_updateBmsRuntimeHealth us ts a =
     (if us = [] then (False, a) else foldl (\<lambda>ca u. apply_health ts u ca) (False, a) us)"

section \<open>Runs\<close>

datatype agg_op =
    AggData device_data u64
  | AggHealth string bool u64 u32 u64 u32
  | AggBmsHealth "bms_health_update list" u64

fun agg_step :: "agg_op \<Rightarrow> aggregator \<Rightarrow> aggregator option" where
  "agg_step (AggData d ts) a = agg_onDeviceData d ts a"
| "agg_step (AggHealth name on ok win off cnt) a = Some (updateHealthFromScheduler name on ok win off cnt a)"
| "agg_step (AggBmsHealth us ts) a = Some (snd (agg_updateBmsRuntimeHealth us ts a))"

fun agg_run :: "agg_op list \<Rightarrow> aggregator \<Rightarrow> aggregator option" where
  "agg_run [] a = Some a"
| "agg_run (op # ops) a = Option.bind (agg_step op a) (agg_run ops)"

lemma agg_run_snoc: "agg_run (ops @ [op]) a = Option.bind (agg_run ops a) (agg_step op)"
  by (induction ops arbitrary: a) (auto split: bind_splits)

section \<open>Facts\<close>

lemma item_at_set [simp]: "item_at n (set_item m it s) = (if n = m then it else item_at n s)"
  by (simp add: item_at_def set_item_def)

lemma item_at_items: "sn_items s' = sn_items s \<Longrightarrow> item_at n s' = item_at n s"
  by (simp add: item_at_def)

lemma set_item_other [simp]:
  "sn_gas_alarm (set_item m it s) = sn_gas_alarm s" "sn_ac_alarm (set_item m it s) = sn_ac_alarm s"
  by (simp_all add: set_item_def)

lemma mark_online_other [simp]:
  "si_gas_channels (mark_online ts it) = si_gas_channels it" "si_online (mark_online ts it)" "si_pcu (mark_online ts it) = si_pcu it"
  "si_data (mark_online ts it) = si_data it"
  by (simp_all add: mark_online_def)

lemma set_health_other [simp]:
  "si_gas_channels (set_health on ok win off cnt it) = si_gas_channels it" "si_online (set_health on ok win off cnt it) = on"
  by (simp_all add: set_health_def)

lemma agg_smoke_items [simp]: "sn_items (agg_smoke d s) = sn_items s" "sn_gas_alarm (agg_smoke d s) = sn_gas_alarm s"
  "sn_ac_alarm (agg_smoke d s) = sn_ac_alarm s"
  by (simp_all add: agg_smoke_def Let_def split: option.split)

lemma show_aircon_other [simp]:
  "sn_items (show_aircon ac s) = sn_items s" "sn_gas_alarm (show_aircon ac s) = sn_gas_alarm s"
  by (simp_all add: show_aircon_def Let_def split: option.split)

lemma agg_aircon_items:
  "\<exists>ac. sn_items (agg_aircon d ts it s) = sn_items (set_item ''AirConditioner'' (it\<lparr>si_aircon := Some ac\<rparr>) s)"
  "sn_gas_alarm (agg_aircon d ts it s) = sn_gas_alarm s"
  by (auto simp: agg_aircon_def Let_def)

lemma agg_aircon_item: "n \<noteq> ''AirConditioner'' \<Longrightarrow> item_at n (agg_aircon d ts it s) = item_at n s"
  "si_online (item_at ''AirConditioner'' (agg_aircon d ts it s)) = si_online it"
  using agg_aircon_items(1) [of d ts it s] by (auto simp: item_at_def set_item_def)

definition gas_map :: "aggregator \<Rightarrow> (gas_type \<rightharpoonup> gas_channel)" where
  "gas_map a = si_gas_channels (item_at ''GasDetector'' (ag_snap a))"

text \<open>The reading of a gas that data bring.\<close>

definition gas_brought :: "device_data \<Rightarrow> (gas_type \<times> gas_reading) option" where
  "gas_brought d = (if device_name d = ''GasDetector'' \<and> gas_valid (gas d)
     then map_option (\<lambda>t. (t, gas d)) (gas_type_of_code (gas_type_code (gas d))) else None)"

lemma pcu_base_names: "pcuBaseNameFromDeviceData d \<in> {[], ''PCU_0'', ''PCU_1''}"
  by (simp add: pcuBaseNameFromDeviceData_def pcuBaseNameFromInstance_def pcuBaseNameFromDeviceName_def Let_def)

lemma bms_item:
  assumes "agg_onBmsDeviceData d ts a = Some a'"
  shows "\<exists>name it b. a' = \<lparr>ag_snap = set_item name it (ag_snap a), ag_bms = b\<rparr> \<and> si_online it \<and>
     si_gas_channels it = si_gas_channels (item_at name (ag_snap a)) \<and> si_pcu it = si_pcu (item_at name (ag_snap a))"
proof -
  obtain name idx where n: "(case str d ''__bms.instance'' of None \<Rightarrow> Some ([], 0)
      | Some n \<Rightarrow> map_option (\<lambda>i. (n, i)) (parseBmsIndexFromInstanceName n)) = Some (name, idx)"
    using assms unfolding agg_onBmsDeviceData_def Let_def by (auto split: option.splits)
  note a' = assms [unfolded agg_onBmsDeviceData_def Let_def n option.case prod.case option.inject]
  show ?thesis unfolding a' [symmetric] by (intro exI conjI, rule refl) simp_all
qed

lemma gas_map_bms: "agg_onBmsDeviceData d ts a = Some a' \<Longrightarrow> gas_map a' = gas_map a"
  using bms_item [of d ts a a'] by (auto simp: gas_map_def)

lemma gas_map_pcu:
  "si_gas_channels (item_at n (onPcuState d ts s)) = si_gas_channels (item_at n s)"
  "si_gas_channels (item_at n (onPcuCtrl d ts s)) = si_gas_channels (item_at n s)"
  by (simp_all add: onPcuState_def onPcuCtrl_def Let_def)

lemma agg_device_item:
  "device_name d \<noteq> ''GasDetector'' \<Longrightarrow>
     si_gas_channels (item_at ''GasDetector'' (agg_device d ts s)) = si_gas_channels (item_at ''GasDetector'' s)"
proof -
  assume n: "device_name d \<noteq> ''GasDetector''"
  note n' = n [symmetric]
  show ?thesis using n n' unfolding agg_device_def Let_def
    by (simp add: gas_map_pcu agg_aircon_item item_at_items [OF agg_smoke_items(1)])
qed

lemma agg_device_gas:
  "device_name d = ''GasDetector'' \<Longrightarrow>
     agg_device d ts s = agg_gas d ts (mark_online ts ((item_at ''GasDetector'' s)\<lparr>si_ts_ms := ts, si_data := d\<rparr>)) s"
  by (simp add: agg_device_def isPcuStateDeviceName_def isPcuCtrlDeviceName_def Let_def)

lemma agg_gas_item:
  "si_gas_channels (item_at ''GasDetector'' (agg_gas d ts it s)) =
     (case (if gas_valid (gas d) then gas_type_of_code (gas_type_code (gas d)) else None) of
        Some t \<Rightarrow> (si_gas_channels it)(t \<mapsto> channel_of (gas d) ts) | None \<Rightarrow> si_gas_channels it)"
  by (simp add: agg_gas_def Let_def item_at_def set_item_def split: option.split)

lemma item_at_time [simp]: "item_at n (s\<lparr>sn_timestamp_ms := ts\<rparr>) = item_at n s"
  by (simp add: item_at_def)

lemma gas_map_data:
  assumes "agg_onDeviceData d ts a = Some a'"
  shows "gas_map a' = (case gas_brought d of Some (t, g) \<Rightarrow> (gas_map a)(t \<mapsto> channel_of g ts) | None \<Rightarrow> gas_map a)"
proof (cases "device_name d = ''BMS''")
  case True
  then show ?thesis using assms gas_map_bms [of d ts "a\<lparr>ag_snap := (ag_snap a)\<lparr>sn_timestamp_ms := ts\<rparr>\<rparr>" a']
    by (simp add: agg_onDeviceData_def gas_map_def gas_brought_def)
next
  case False
  then have a': "a' = a\<lparr>ag_snap := agg_device d ts ((ag_snap a)\<lparr>sn_timestamp_ms := ts\<rparr>)\<rparr>"
    using assms by (simp add: agg_onDeviceData_def)
  show ?thesis
  proof (cases "device_name d = ''GasDetector''")
    case True
    then show ?thesis
      by (simp add: a' gas_map_def gas_brought_def agg_device_gas agg_gas_item split: option.split)
  qed (simp add: a' gas_map_def gas_brought_def agg_device_item)
qed

lemma gas_map_apply_health: "gas_map (snd (apply_health ts u ca)) = gas_map (snd ca)"
  by (auto simp: apply_health_def gas_map_def Let_def split: prod.split)

lemma gas_map_bms_health: "gas_map (snd (agg_updateBmsRuntimeHealth us ts a)) = gas_map a"
proof -
  have "gas_map (snd (foldl (\<lambda>ca u. apply_health ts u ca) ca us)) = gas_map (snd ca)" for ca
    by (induction us arbitrary: ca) (simp_all add: gas_map_apply_health)
  then show ?thesis by (simp add: agg_updateBmsRuntimeHealth_def)
qed

lemma gas_map_health: "gas_map (updateHealthFromScheduler name on ok win off cnt a) = gas_map a"
  by (simp add: updateHealthFromScheduler_def gas_map_def item_at_def set_item_def set_health_def Let_def)

text \<open>The latest valid reading of every gas, with its arrival time.\<close>

fun last_reading :: "agg_op list \<Rightarrow> gas_type \<Rightarrow> (gas_reading \<times> u64) option" where
  "last_reading [] t = None"
| "last_reading (op # ops) t =
     (case last_reading ops t of Some r \<Rightarrow> Some r
      | None \<Rightarrow> (case op of AggData d ts \<Rightarrow>
            (case gas_brought d of Some (t', g) \<Rightarrow> if t' = t then Some (g, ts) else None | None \<Rightarrow> None)
          | _ \<Rightarrow> None))"

lemma last_reading_snoc:
  "last_reading (ops @ [op]) t =
     (case op of AggData d ts \<Rightarrow>
        (case gas_brought d of Some (t', g) \<Rightarrow> if t' = t then Some (g, ts) else last_reading ops t | None \<Rightarrow> last_reading ops t)
      | _ \<Rightarrow> last_reading ops t)"
  by (induction ops) (auto split: option.splits agg_op.splits prod.splits)

lemma gas_map_run:
  assumes "agg_run ops (aggregator_init t0) = Some a"
  shows "gas_map a t = map_option (\<lambda>(g, ts). channel_of g ts) (last_reading ops t)"
  using assms
proof (induction ops arbitrary: a rule: rev_induct)
  case Nil
  then show ?case by (auto simp: aggregator_init_def snapshot_init_def gas_map_def item_at_def item_init_def)
next
  case (snoc op ops)
  from snoc.prems obtain b where b: "agg_run ops (aggregator_init t0) = Some b" "agg_step op b = Some a"
    by (auto simp: agg_run_snoc split: bind_splits)
  note IH = snoc.IH [OF b(1)]
  show ?case
  proof (cases op)
    case (AggData d ts)
    with b gas_map_data [of d ts b a] IH show ?thesis
      by (auto simp: last_reading_snoc split: option.splits prod.splits)
  qed (use b IH in \<open>auto simp: last_reading_snoc gas_map_health gas_map_bms_health\<close>)
qed

section \<open>Alarms of live devices\<close>

definition channel_alarm :: "gas_channel \<Rightarrow> bool" where
  "channel_alarm ch \<longleftrightarrow> ch_valid ch \<and> (ch_fault_any ch \<or> ch_alarm_any ch)"

definition alarms_ok :: "system_snapshot \<Rightarrow> bool" where
  "alarms_ok s \<longleftrightarrow>
     (sn_gas_alarm s \<longrightarrow> si_online (item_at ''GasDetector'' s) \<and> list_ex channel_alarm (channels (item_at ''GasDetector'' s))) \<and>
     (sn_ac_alarm s \<longrightarrow> si_online (item_at ''AirConditioner'' s))"

text \<open>An item that comes online with its channels unchanged.\<close>

lemma alarms_ok_set:
  assumes "alarms_ok s" "si_online it" "si_gas_channels it = si_gas_channels (item_at n s)"
  shows "alarms_ok (set_item n it s)"
  using assms by (auto simp: alarms_ok_def channels_def)

lemma alarms_ok_time [simp]: "alarms_ok (s\<lparr>sn_timestamp_ms := ts\<rparr>) = alarms_ok s"
  by (simp add: alarms_ok_def)

lemma alarms_ok_keep:
  "sn_items s' = sn_items s \<Longrightarrow> sn_gas_alarm s' = sn_gas_alarm s \<Longrightarrow> sn_ac_alarm s' = sn_ac_alarm s \<Longrightarrow> alarms_ok s' = alarms_ok s"
  by (simp add: alarms_ok_def item_at_items [of s' s])

lemma alarms_ok_if: "(b \<Longrightarrow> alarms_ok s) \<Longrightarrow> (\<not> b \<Longrightarrow> alarms_ok s') \<Longrightarrow> alarms_ok (if b then s else s')"
  by simp

lemma alarms_ok_pcu:
  assumes "alarms_ok s"
  shows "alarms_ok (onPcuState d ts s)" "alarms_ok (onPcuCtrl d ts s)"
proof -
  show "alarms_ok (onPcuState d ts s)"
    using assms by (auto simp: onPcuState_def Let_def intro!: alarms_ok_set)
  have n: "pcuBaseNameFromDeviceData d \<noteq> ''GasDetector''" "pcuBaseNameFromDeviceData d \<noteq> ''AirConditioner''"
    using pcu_base_names [of d] by auto
  show "alarms_ok (onPcuCtrl d ts s)"
    using assms n n [symmetric] by (simp add: onPcuCtrl_def Let_def) (simp add: alarms_ok_def)
qed

lemma alarms_ok_gas:
  assumes "alarms_ok s" "si_online it" "si_gas_channels it = si_gas_channels (item_at ''GasDetector'' s)"
  shows "alarms_ok (agg_gas d ts it s)"
proof (cases "if gas_valid (gas d) then gas_type_of_code (gas_type_code (gas d)) else None")
  case None
  then have "agg_gas d ts it s = set_item ''GasDetector'' it s" by (simp add: agg_gas_def split: if_splits)
  then show ?thesis using alarms_ok_set [OF assms] by simp
next
  case (Some t)
  define it' where "it' = it\<lparr>si_gas_channels := (si_gas_channels it)(t \<mapsto> channel_of (gas d) ts)\<rparr>"
  have g: "agg_gas d ts it s = (set_item ''GasDetector'' it' s)\<lparr>sn_gas_alarm :=
      list_ex (\<lambda>c. ch_valid c \<and> si_online it' \<and> (ch_fault_any c \<or> ch_alarm_any c)) (channels it')\<rparr>"
    using Some by (simp add: agg_gas_def it'_def Let_def split: if_splits)
  have on: "si_online it'" using assms(2) by (simp add: it'_def)
  have items: "item_at n ((set_item ''GasDetector'' it' s)\<lparr>sn_gas_alarm := b\<rparr>) = item_at n (set_item ''GasDetector'' it' s)" for n b
    by (simp add: item_at_def)
  show ?thesis using assms(1) on unfolding g by (auto simp: alarms_ok_def items channel_alarm_def list_ex_iff)
qed

lemma show_aircon_ok: "alarms_ok s \<Longrightarrow> si_online (item_at ''AirConditioner'' s) \<Longrightarrow> alarms_ok (show_aircon ac s)"
  by (simp add: alarms_ok_def item_at_items [OF show_aircon_other(1)])

lemma alarms_ok_device:
  assumes "alarms_ok s"
  shows "alarms_ok (agg_device d ts s)"
proof -
  define it where "it = mark_online ts ((item_at (device_name d) s)\<lparr>si_ts_ms := ts, si_data := d\<rparr>)"
  have it: "si_online it" "si_gas_channels it = si_gas_channels (item_at (device_name d) s)" by (simp_all add: it_def)
  have set: "alarms_ok (set_item n it s)" if "n = device_name d" for n unfolding that by (rule alarms_ok_set [OF assms it])
  have ups: "alarms_ok (set_item n (agg_ups d ts it) s)" if "n = device_name d" for n unfolding that
    using it by (intro alarms_ok_set assms) (simp_all add: agg_ups_def split: option.split)
  have air: "alarms_ok (agg_aircon d ts it s)" if "device_name d = ''AirConditioner''"
    using it that assms unfolding agg_aircon_def Let_def by (intro show_aircon_ok alarms_ok_set) simp_all
  show ?thesis
    using assms set ups air alarms_ok_pcu [OF assms] alarms_ok_gas [OF assms it(1)] it(2)
      alarms_ok_keep [OF agg_smoke_items]
    unfolding agg_device_def Let_def it_def [symmetric] by (intro alarms_ok_if) simp_all
qed

lemma alarms_ok_data: "agg_onDeviceData d ts a = Some a' \<Longrightarrow> alarms_ok (ag_snap a) \<Longrightarrow> alarms_ok (ag_snap a')"
  using bms_item [of d ts "a\<lparr>ag_snap := (ag_snap a)\<lparr>sn_timestamp_ms := ts\<rparr>\<rparr>" a']
    alarms_ok_set [of "(ag_snap a)\<lparr>sn_timestamp_ms := ts\<rparr>"]
  by (auto simp: agg_onDeviceData_def Let_def alarms_ok_device split: if_splits)

lemma health_effect:
  "item_at m (ag_snap (updateHealthFromScheduler n on ok win off cnt a)) =
     (if m = n then set_health on ok win off cnt (item_at n (ag_snap a)) else item_at m (ag_snap a))"
  "sn_gas_alarm (ag_snap (updateHealthFromScheduler n on ok win off cnt a)) =
     (sn_gas_alarm (ag_snap a) \<and> \<not> (n = ''GasDetector'' \<and> \<not> on))"
  "sn_ac_alarm (ag_snap (updateHealthFromScheduler n on ok win off cnt a)) =
     (sn_ac_alarm (ag_snap a) \<and> \<not> (n = ''AirConditioner'' \<and> \<not> on))"
  by (simp_all add: updateHealthFromScheduler_def Let_def item_at_def set_item_def)

lemma alarms_ok_health: "alarms_ok (ag_snap a) \<Longrightarrow> alarms_ok (ag_snap (updateHealthFromScheduler n on ok win off cnt a))"
  by (auto simp: alarms_ok_def health_effect channels_def)

text \<open>The names of the batteries are not those of the two devices.\<close>

definition battery_updates :: "agg_op \<Rightarrow> bool" where
  "battery_updates op = (case op of AggBmsHealth us ts \<Rightarrow>
     list_all (\<lambda>u. hu_instance_name u \<noteq> ''GasDetector'' \<and> hu_instance_name u \<noteq> ''AirConditioner'') us | _ \<Rightarrow> True)"

lemma alarms_ok_apply_health:
  assumes "alarms_ok (ag_snap (snd ca))" "hu_instance_name u \<noteq> ''GasDetector''" "hu_instance_name u \<noteq> ''AirConditioner''"
  shows "alarms_ok (ag_snap (snd (apply_health ts u ca)))"
  using assms assms(2,3) [symmetric] by (auto simp: apply_health_def Let_def alarms_ok_def split: prod.splits if_splits)

lemma alarms_ok_bms_health:
  assumes "alarms_ok (ag_snap a)" "battery_updates (AggBmsHealth us ts)"
  shows "alarms_ok (ag_snap (snd (agg_updateBmsRuntimeHealth us ts a)))"
proof -
  have "alarms_ok (ag_snap (snd ca)) \<Longrightarrow>
      list_all (\<lambda>u. hu_instance_name u \<noteq> ''GasDetector'' \<and> hu_instance_name u \<noteq> ''AirConditioner'') us \<Longrightarrow>
      alarms_ok (ag_snap (snd (foldl (\<lambda>ca u. apply_health ts u ca) ca us)))" for ca
  proof (induction us arbitrary: ca)
    case (Cons u us)
    then show ?case using Cons.IH [OF alarms_ok_apply_health] by simp
  qed simp
  then show ?thesis using assms by (simp add: agg_updateBmsRuntimeHealth_def battery_updates_def)
qed

lemma alarms_ok_run:
  assumes "agg_run ops (aggregator_init t0) = Some a" "list_all battery_updates ops"
  shows "alarms_ok (ag_snap a)"
  using assms
proof (induction ops arbitrary: a rule: rev_induct)
  case Nil
  then show ?case by (auto simp: aggregator_init_def snapshot_init_def alarms_ok_def)
next
  case (snoc op ops)
  from snoc.prems obtain b where b: "agg_run ops (aggregator_init t0) = Some b" "agg_step op b = Some a"
    by (auto simp: agg_run_snoc split: bind_splits)
  have "alarms_ok (ag_snap b)" using snoc.IH [OF b(1)] snoc.prems(2) by simp
  then show ?case using b(2) snoc.prems(2)
    by (cases op) (auto simp: alarms_ok_data alarms_ok_health alarms_ok_bms_health)
qed

section \<open>Properties\<close>

text \<open>C18: alarms of the snapshot come from live devices. After any sequence of device data and health reports from
  start-up (where the batteries do not carry the names of other devices), the snapshot shows a gas alarm only while the
  gas detector is online and one of its channels has a fault or an alarm, and an alarm of the air conditioner only
  while that is online.\<close>

theorem alarms_need_live_devices:
  assumes "agg_run ops (aggregator_init t0) = Some a"
    and "\<forall>us ts u. AggBmsHealth us ts \<in> set ops \<and> u \<in> set us \<longrightarrow>
      hu_instance_name u \<noteq> ''GasDetector'' \<and> hu_instance_name u \<noteq> ''AirConditioner''"
  shows "(sn_gas_alarm (ag_snap a) \<longrightarrow> (\<exists>it t ch. sn_items (ag_snap a) ''GasDetector'' = Some it \<and> si_online it \<and>
       si_gas_channels it t = Some ch \<and> ch_valid ch \<and> (ch_fault_any ch \<or> ch_low_alarm ch \<or> ch_high_alarm ch))) \<and>
     (sn_ac_alarm (ag_snap a) \<longrightarrow> (\<exists>it. sn_items (ag_snap a) ''AirConditioner'' = Some it \<and> si_online it))"
proof -
  have "list_all battery_updates ops"
    using assms(2) by (auto simp: list_all_iff battery_updates_def split: agg_op.split)
  from alarms_ok_run [OF assms(1) this] have ok: "alarms_ok (ag_snap a)" .
  have item: "si_online (item_at n (ag_snap a)) \<Longrightarrow> sn_items (ag_snap a) n = Some (item_at n (ag_snap a))" for n
    by (simp add: item_at_def item_init_def split: option.splits)
  have order: "t \<in> set gas_order" for t by (cases t) (simp_all add: gas_order_def)
  let ?it = "item_at ''GasDetector'' (ag_snap a)"
  have run: "gas_map a t = map_option (\<lambda>(g, ts). channel_of g ts) (last_reading ops t)" for t by (rule gas_map_run [OF assms(1)])
  have "\<exists>t ch. si_gas_channels ?it t = Some ch \<and> ch_valid ch \<and> (ch_fault_any ch \<or> ch_low_alarm ch \<or> ch_high_alarm ch)"
    if "list_ex channel_alarm (channels ?it)"
  proof -
    from that obtain t ch where ch: "si_gas_channels ?it t = Some ch" "channel_alarm ch"
      by (auto simp: list_ex_iff channels_def List.map_filter_def)
    then obtain g ts where "ch = channel_of g ts" using run [of t] by (cases "last_reading ops t") (auto simp: gas_map_def)
    then have "ch_alarm_any ch \<longleftrightarrow> ch_low_alarm ch \<or> ch_high_alarm ch" by (simp add: channel_of_def)
    with ch show ?thesis by (auto simp: channel_alarm_def)
  qed
  with ok item show ?thesis by (fastforce simp: alarms_ok_def)
qed

definition example_gas_data :: "u16 \<Rightarrow> u16 \<Rightarrow> device_data" where
  "example_gas_data code st = dd_init\<lparr>device_name := ''GasDetector'',
     gas := gas_init\<lparr>gas_valid := True, gas_type_code := code, gas_status := st\<rparr>\<rparr>"

definition example_ops :: "agg_op list" where
  "example_ops = [AggData (example_gas_data 1 4) 100, AggData (example_gas_data 2 0) 200,
     AggData (example_gas_data 3 1) 300, AggData (example_gas_data 3 0) 400]"

lemma example_run: "\<exists>a. agg_run example_ops (aggregator_init 0) = Some a \<and> sn_gas_alarm (ag_snap a)"
  by (simp add: example_ops_def example_gas_data_def dd_init_def gas_init_def agg_onDeviceData_def agg_device_gas agg_gas_def
      gas_type_of_code_def channels_def gas_order_def List.map_filter_def item_at_def set_item_def mark_online_def
      channel_of_def aggregator_init_def snapshot_init_def item_init_def)

theorem alarms_need_live_devices_witness:
  "\<exists>a it. agg_run example_ops (aggregator_init 0) = Some a \<and> sn_items (ag_snap a) ''GasDetector'' = Some it \<and> si_online it"
proof -
  obtain a where a: "agg_run example_ops (aggregator_init 0) = Some a" "sn_gas_alarm (ag_snap a)" using example_run by blast
  have "\<forall>us ts u. AggBmsHealth us ts \<in> set example_ops \<and> u \<in> set us \<longrightarrow>
      hu_instance_name u \<noteq> ''GasDetector'' \<and> hu_instance_name u \<noteq> ''AirConditioner''" by (simp add: example_ops_def)
  from alarms_need_live_devices [OF a(1) this] a show ?thesis by blast
qed

end
