(* ===== verification/Logic_Snapshot.thy ===== *)
theory Logic_Snapshot
  imports Data_Aggregator Logic_Tick
begin

text \<open>
  What the control logic does with a snapshot of the aggregator (\<open>services/control/logic/logic_snapshot.cpp\<close>): the
  health of batteries and conversion units is aged as in a tick, the raw states of the four other devices take
  over what the snapshot says of them, and the sums over all faults are computed anew. The record of the
  display values that the code builds at the end, and its export, are left out; the output of the fault pages
  is added in \<open>Logic_Engine\<close>.
\<close>

section \<open>Devices that are not there\<close>

definition clearUpsFaultPayload :: "ups_details \<Rightarrow> ups_details" where
  "clearUpsFaultPayload u =
     u\<lparr>q1_seen := False, q6_seen := False, wa_seen := False, work_mode := 0, ups_battery_low := 0, bypass_active := 0,
       ups_fault_code := 0, q1_status_bits := 0, wa_status_bits := 0, mains_abnormal := False, battery_low_state := False,
       bypass_mode := False, ups_fault_state := False, backup_mode := False, self_test_active := False, warning_bits := 0,
       ups_warning := (\<lambda>n. if n \<in> set (map fst ups_warning_bits) then False else ups_warning u n),
       fault_bits := 0, fault_codes := [0, 0, 0, 0],
       ups_fault := (\<lambda>n. if n \<in> set (map fst ups_fault_table) then False else ups_fault u n),
       battery_overcharge_persist := False\<rparr>"

definition clearAirFaultPayload :: "air_details \<Rightarrow> air_details" where
  "clearAirFaultPayload a =
     a\<lparr>run_state := 0, power_state := 0, indoor_temp_c := Fin 0, humidity_percent := Fin 0,
       air_flag := (\<lambda>n. if n \<in> set air_alarm_fields then False else air_flag a n)\<rparr>"

definition clearSmokeFaultPayload :: "smoke_details \<Rightarrow> smoke_details" where
  "clearSmokeFaultPayload s =
     s\<lparr>smoke_percent := Fin 0, smoke_temp_c := Fin 0, smoke_alarm := False, temp_alarm := False,
       smoke_sensor_fault := False, smoke_pollution_fault := False, temp_sensor_fault := False\<rparr>"

definition clearGasFaultPayload :: "gas_details \<Rightarrow> gas_details" where
  "clearGasFaultPayload g =
     g\<lparr>gas_status_code := 0, gas_reading_value := Fin 0, gas_sensor_fault := False, low_alarm := False, high_alarm := False\<rparr>"

text \<open>Every clearing also takes back the two sums of the device.\<close>

definition clear_sums :: "dev_flags \<Rightarrow> dev_flags" where
  "clear_sums f = f\<lparr>d_alarm_any := False, d_fault_any := False\<rparr>"

definition take_over :: "snapshot_item \<Rightarrow> dev_flags \<Rightarrow> dev_flags" where
  "take_over it f = f\<lparr>d_seen_once := True, d_online := si_online it, d_last_rx_ms := si_ts_ms it\<rparr>"

section \<open>The four devices\<close>

definition snapshot_ups :: "system_snapshot \<Rightarrow> ext_ctx \<Rightarrow> ext_ctx" where
  "snapshot_ups snap c =
     (let l = e_logic c in
      case sn_items snap ''UPS'' of
        None \<Rightarrow> c\<lparr>e_ups := clearUpsFaultPayload (e_ups c),
                  e_logic := l\<lparr>c_ups := clear_sums ((c_ups l)\<lparr>d_online := False\<rparr>),
                               c_faults := (c_faults l)\<lparr>ups_offline := True\<rparr>\<rparr>\<rparr>
      | Some it \<Rightarrow>
          let f = take_over it (c_ups l) in
          c\<lparr>e_ups := (if si_online it then e_ups c else clearUpsFaultPayload (e_ups c)),
            e_logic := l\<lparr>c_ups := (if si_online it then f else clear_sums f),
                         c_faults := (c_faults l)\<lparr>ups_offline := \<not> si_online it\<rparr>\<rparr>\<rparr>)"

definition snapshot_smoke :: "system_snapshot \<Rightarrow> ext_ctx \<Rightarrow> ext_ctx" where
  "snapshot_smoke snap c =
     (let l = e_logic c in
      case sn_items snap ''SmokeSensor'' of
        None \<Rightarrow> c\<lparr>e_logic := l\<lparr>c_smoke := clear_sums ((c_smoke l)\<lparr>d_online := False\<rparr>),
                               c_smoke_d := clearSmokeFaultPayload (c_smoke_d l),
                               c_faults := (c_faults l)\<lparr>smoke_offline := True\<rparr>\<rparr>\<rparr>
      | Some it \<Rightarrow>
          let f = take_over it (c_smoke l) in
          c\<lparr>e_logic := l\<lparr>c_smoke := (if si_online it then f else clear_sums f),
                         c_smoke_d := (if si_online it then c_smoke_d l else clearSmokeFaultPayload (c_smoke_d l)),
                         c_faults := (c_faults l)\<lparr>smoke_offline := \<not> si_online it\<rparr>\<rparr>\<rparr>)"

definition snapshot_air :: "system_snapshot \<Rightarrow> ext_ctx \<Rightarrow> ext_ctx" where
  "snapshot_air snap c =
     (let l = e_logic c in
      case sn_items snap ''AirConditioner'' of
        None \<Rightarrow> c\<lparr>e_air := clearAirFaultPayload (e_air c),
                  e_logic := l\<lparr>c_air := clear_sums ((c_air l)\<lparr>d_online := False\<rparr>),
                               c_faults := (c_faults l)\<lparr>air_offline := True\<rparr>\<rparr>\<rparr>
      | Some it \<Rightarrow>
          let f = take_over it (c_air l) in
          c\<lparr>e_air := (if si_online it then e_air c else clearAirFaultPayload (e_air c)),
            e_logic := l\<lparr>c_air := (if si_online it then f else clear_sums f),
                         c_faults := (c_faults l)\<lparr>air_offline := \<not> si_online it\<rparr>\<rparr>\<rparr>)"

definition add_channel :: "gas_details \<times> dev_flags \<Rightarrow> gas_channel \<Rightarrow> gas_details \<times> dev_flags" where
  "add_channel gf ch =
     (let (g, f) = gf in
      if \<not> ch_valid ch then (g, f)
      else (g\<lparr>gas_status_code := gas_status_code g OR ucast (ch_status ch), gas_reading_value := ch_value ch,
              gas_sensor_fault := (gas_sensor_fault g \<or> ch_fault_any ch), low_alarm := (low_alarm g \<or> ch_low_alarm ch),
              high_alarm := (high_alarm g \<or> ch_high_alarm ch)\<rparr>,
            f\<lparr>d_alarm_any := (d_alarm_any f \<or> ch_alarm_any ch), d_fault_any := (d_fault_any f \<or> ch_fault_any ch)\<rparr>))"

definition snapshot_gas :: "system_snapshot \<Rightarrow> ext_ctx \<Rightarrow> ext_ctx" where
  "snapshot_gas snap c =
     (let l = e_logic c in
      case sn_items snap ''GasDetector'' of
        None \<Rightarrow> c\<lparr>e_logic := l\<lparr>c_gas := clear_sums ((c_gas l)\<lparr>d_online := False\<rparr>),
                               c_gas_d := clearGasFaultPayload (c_gas_d l),
                               c_faults := (c_faults l)\<lparr>gas_offline := True\<rparr>\<rparr>\<rparr>
      | Some it \<Rightarrow>
          let f = clear_sums (take_over it (c_gas l)); g = clearGasFaultPayload (c_gas_d l);
              (g, f) = (if si_online it then foldl add_channel (g, f) (channels it) else (g, f))
          in c\<lparr>e_logic := l\<lparr>c_gas := f, c_gas_d := g, c_faults := (c_faults l)\<lparr>gas_offline := \<not> si_online it\<rparr>\<rparr>\<rparr>)"

definition updateDiscreteFaultRuntimeFromSnapshot :: "system_snapshot \<Rightarrow> ext_ctx \<Rightarrow> ext_ctx" where
  "updateDiscreteFaultRuntimeFromSnapshot snap c =
     snapshot_gas snap (snapshot_air snap (snapshot_smoke snap (snapshot_ups snap c)))"

section \<open>The sums\<close>

definition rebuildLogicFaultSummary :: "ext_ctx \<Rightarrow> ext_ctx" where
  "rebuildLogicFaultSummary c =
     (let l = e_logic c;
          f = (c_faults l)\<lparr>env_any_alarm := (d_alarm_any (c_ups l) \<or> d_alarm_any (c_smoke l) \<or> d_alarm_any (c_gas l) \<or>
                d_alarm_any (c_air l))\<rparr>;
          f = f\<lparr>any_fault := (system_estop f \<or> sdcard_fault f \<or> hmi_comm_fault f \<or> remote_comm_fault f \<or>
                pcu_any_offline f \<or> bms_any_offline f \<or> ups_offline f \<or> smoke_offline f \<or> gas_offline f \<or> air_offline f \<or>
                d_fault_any (c_ups l) \<or> d_fault_any (c_smoke l) \<or> d_fault_any (c_gas l) \<or> d_fault_any (c_air l))\<rparr>
      in c\<lparr>e_logic := l\<lparr>c_faults := f\<rparr>\<rparr>)"

text \<open>The part of the handler that works on the state of the logic.\<close>

definition onSnapshot_logic :: "system_snapshot \<Rightarrow> u64 \<Rightarrow> ext_ctx \<Rightarrow> ext_ctx" where
  "onSnapshot_logic snap ts c =
     (let l = updatePcuRuntimeHealth ts (e_logic c);
          l = l\<lparr>c_bms := updateBmsRuntimeHealth ts (c_bms l)\<rparr>
      in rebuildLogicFaultSummary (updateDiscreteFaultRuntimeFromSnapshot snap (c\<lparr>e_logic := l\<rparr>)))"

section \<open>Facts\<close>

definition device_online :: "system_snapshot \<Rightarrow> string \<Rightarrow> bool" where
  "device_online snap name \<longleftrightarrow> (case sn_items snap name of None \<Rightarrow> False | Some it \<Rightarrow> si_online it)"

text \<open>What one device does leaves the others alone.\<close>

lemma snapshot_ups_effect:
  "d_online (c_ups (e_logic (snapshot_ups snap c))) = device_online snap ''UPS''"
  "ups_offline (c_faults (e_logic (snapshot_ups snap c))) = (\<not> device_online snap ''UPS'')"
  "\<not> device_online snap ''UPS'' \<Longrightarrow> \<not> d_alarm_any (c_ups (e_logic (snapshot_ups snap c))) \<and>
     \<not> d_fault_any (c_ups (e_logic (snapshot_ups snap c))) \<and> e_ups (snapshot_ups snap c) = clearUpsFaultPayload (e_ups c)"
  by (auto simp: snapshot_ups_def device_online_def clear_sums_def take_over_def Let_def split: option.splits)

lemma snapshot_ups_other [simp]:
  "c_smoke (e_logic (snapshot_ups snap c)) = c_smoke (e_logic c)" "c_smoke_d (e_logic (snapshot_ups snap c)) = c_smoke_d (e_logic c)"
  "c_gas (e_logic (snapshot_ups snap c)) = c_gas (e_logic c)" "c_gas_d (e_logic (snapshot_ups snap c)) = c_gas_d (e_logic c)"
  "c_air (e_logic (snapshot_ups snap c)) = c_air (e_logic c)" "e_air (snapshot_ups snap c) = e_air c"
  by (simp_all add: snapshot_ups_def Let_def split: option.split)

lemma snapshot_smoke_effect:
  "d_online (c_smoke (e_logic (snapshot_smoke snap c))) = device_online snap ''SmokeSensor''"
  "smoke_offline (c_faults (e_logic (snapshot_smoke snap c))) = (\<not> device_online snap ''SmokeSensor'')"
  "\<not> device_online snap ''SmokeSensor'' \<Longrightarrow> \<not> d_alarm_any (c_smoke (e_logic (snapshot_smoke snap c))) \<and>
     \<not> d_fault_any (c_smoke (e_logic (snapshot_smoke snap c))) \<and>
     c_smoke_d (e_logic (snapshot_smoke snap c)) = clearSmokeFaultPayload (c_smoke_d (e_logic c))"
  by (auto simp: snapshot_smoke_def device_online_def clear_sums_def take_over_def Let_def split: option.splits)

lemma snapshot_smoke_other [simp]:
  "c_ups (e_logic (snapshot_smoke snap c)) = c_ups (e_logic c)" "e_ups (snapshot_smoke snap c) = e_ups c"
  "c_gas (e_logic (snapshot_smoke snap c)) = c_gas (e_logic c)" "c_gas_d (e_logic (snapshot_smoke snap c)) = c_gas_d (e_logic c)"
  "c_air (e_logic (snapshot_smoke snap c)) = c_air (e_logic c)" "e_air (snapshot_smoke snap c) = e_air c"
  "ups_offline (c_faults (e_logic (snapshot_smoke snap c))) = ups_offline (c_faults (e_logic c))"
  by (simp_all add: snapshot_smoke_def Let_def split: option.split)

lemma snapshot_air_effect:
  "d_online (c_air (e_logic (snapshot_air snap c))) = device_online snap ''AirConditioner''"
  "air_offline (c_faults (e_logic (snapshot_air snap c))) = (\<not> device_online snap ''AirConditioner'')"
  "\<not> device_online snap ''AirConditioner'' \<Longrightarrow> \<not> d_alarm_any (c_air (e_logic (snapshot_air snap c))) \<and>
     \<not> d_fault_any (c_air (e_logic (snapshot_air snap c))) \<and> e_air (snapshot_air snap c) = clearAirFaultPayload (e_air c)"
  by (auto simp: snapshot_air_def device_online_def clear_sums_def take_over_def Let_def split: option.splits)

lemma snapshot_air_other [simp]:
  "c_ups (e_logic (snapshot_air snap c)) = c_ups (e_logic c)" "e_ups (snapshot_air snap c) = e_ups c"
  "c_smoke (e_logic (snapshot_air snap c)) = c_smoke (e_logic c)" "c_smoke_d (e_logic (snapshot_air snap c)) = c_smoke_d (e_logic c)"
  "c_gas (e_logic (snapshot_air snap c)) = c_gas (e_logic c)" "c_gas_d (e_logic (snapshot_air snap c)) = c_gas_d (e_logic c)"
  "ups_offline (c_faults (e_logic (snapshot_air snap c))) = ups_offline (c_faults (e_logic c))"
  "smoke_offline (c_faults (e_logic (snapshot_air snap c))) = smoke_offline (c_faults (e_logic c))"
  by (simp_all add: snapshot_air_def Let_def split: option.split)

lemma add_channels_online: "d_online (snd (foldl add_channel gf chs)) = d_online (snd gf)"
  by (induction chs arbitrary: gf) (auto simp: add_channel_def case_prod_beta Let_def)

text \<open>The sums over the channels.\<close>

lemma add_channels_sums:
  "gas_sensor_fault (fst (foldl add_channel gf chs)) \<longleftrightarrow> gas_sensor_fault (fst gf) \<or> (\<exists>ch \<in> set chs. ch_valid ch \<and> ch_fault_any ch)"
  "low_alarm (fst (foldl add_channel gf chs)) \<longleftrightarrow> low_alarm (fst gf) \<or> (\<exists>ch \<in> set chs. ch_valid ch \<and> ch_low_alarm ch)"
  "high_alarm (fst (foldl add_channel gf chs)) \<longleftrightarrow> high_alarm (fst gf) \<or> (\<exists>ch \<in> set chs. ch_valid ch \<and> ch_high_alarm ch)"
  "d_alarm_any (snd (foldl add_channel gf chs)) \<longleftrightarrow> d_alarm_any (snd gf) \<or> (\<exists>ch \<in> set chs. ch_valid ch \<and> ch_alarm_any ch)"
  "d_fault_any (snd (foldl add_channel gf chs)) \<longleftrightarrow> d_fault_any (snd gf) \<or> (\<exists>ch \<in> set chs. ch_valid ch \<and> ch_fault_any ch)"
  by (induction chs arbitrary: gf) (auto simp: add_channel_def case_prod_beta Let_def)

lemma snapshot_gas_effect:
  "d_online (c_gas (e_logic (snapshot_gas snap c))) = device_online snap ''GasDetector''"
  "gas_offline (c_faults (e_logic (snapshot_gas snap c))) = (\<not> device_online snap ''GasDetector'')"
  "\<not> device_online snap ''GasDetector'' \<Longrightarrow> \<not> d_alarm_any (c_gas (e_logic (snapshot_gas snap c))) \<and>
     \<not> d_fault_any (c_gas (e_logic (snapshot_gas snap c))) \<and>
     c_gas_d (e_logic (snapshot_gas snap c)) = clearGasFaultPayload (c_gas_d (e_logic c))"
  by (auto simp: snapshot_gas_def device_online_def clear_sums_def take_over_def add_channels_online Let_def case_prod_beta
      split: option.splits)

lemma snapshot_gas_other [simp]:
  "c_ups (e_logic (snapshot_gas snap c)) = c_ups (e_logic c)" "e_ups (snapshot_gas snap c) = e_ups c"
  "c_smoke (e_logic (snapshot_gas snap c)) = c_smoke (e_logic c)" "c_smoke_d (e_logic (snapshot_gas snap c)) = c_smoke_d (e_logic c)"
  "c_air (e_logic (snapshot_gas snap c)) = c_air (e_logic c)" "e_air (snapshot_gas snap c) = e_air c"
  "ups_offline (c_faults (e_logic (snapshot_gas snap c))) = ups_offline (c_faults (e_logic c))"
  "smoke_offline (c_faults (e_logic (snapshot_gas snap c))) = smoke_offline (c_faults (e_logic c))"
  "air_offline (c_faults (e_logic (snapshot_gas snap c))) = air_offline (c_faults (e_logic c))"
  by (simp_all add: snapshot_gas_def Let_def case_prod_beta split: option.split)

lemma summary_other [simp]:
  "c_ups (e_logic (rebuildLogicFaultSummary c)) = c_ups (e_logic c)" "c_smoke (e_logic (rebuildLogicFaultSummary c)) = c_smoke (e_logic c)"
  "c_smoke_d (e_logic (rebuildLogicFaultSummary c)) = c_smoke_d (e_logic c)" "c_gas (e_logic (rebuildLogicFaultSummary c)) = c_gas (e_logic c)"
  "c_gas_d (e_logic (rebuildLogicFaultSummary c)) = c_gas_d (e_logic c)" "c_air (e_logic (rebuildLogicFaultSummary c)) = c_air (e_logic c)"
  "e_ups (rebuildLogicFaultSummary c) = e_ups c" "e_air (rebuildLogicFaultSummary c) = e_air c"
  "ups_offline (c_faults (e_logic (rebuildLogicFaultSummary c))) = ups_offline (c_faults (e_logic c))"
  "smoke_offline (c_faults (e_logic (rebuildLogicFaultSummary c))) = smoke_offline (c_faults (e_logic c))"
  "gas_offline (c_faults (e_logic (rebuildLogicFaultSummary c))) = gas_offline (c_faults (e_logic c))"
  "air_offline (c_faults (e_logic (rebuildLogicFaultSummary c))) = air_offline (c_faults (e_logic c))"
  by (simp_all add: rebuildLogicFaultSummary_def Let_def)

lemma discrete_flags:
  fixes snap c
  defines "l \<equiv> e_logic (updateDiscreteFaultRuntimeFromSnapshot snap c)"
  shows "d_online (c_ups l) = device_online snap ''UPS''" "d_online (c_smoke l) = device_online snap ''SmokeSensor''"
    "d_online (c_air l) = device_online snap ''AirConditioner''" "d_online (c_gas l) = device_online snap ''GasDetector''"
    "ups_offline (c_faults l) = (\<not> device_online snap ''UPS'')" "smoke_offline (c_faults l) = (\<not> device_online snap ''SmokeSensor'')"
    "air_offline (c_faults l) = (\<not> device_online snap ''AirConditioner'')" "gas_offline (c_faults l) = (\<not> device_online snap ''GasDetector'')"
    "\<not> device_online snap ''UPS'' \<Longrightarrow> \<not> d_alarm_any (c_ups l) \<and> \<not> d_fault_any (c_ups l)"
    "\<not> device_online snap ''SmokeSensor'' \<Longrightarrow> \<not> d_alarm_any (c_smoke l) \<and> \<not> d_fault_any (c_smoke l)"
    "\<not> device_online snap ''AirConditioner'' \<Longrightarrow> \<not> d_alarm_any (c_air l) \<and> \<not> d_fault_any (c_air l)"
    "\<not> device_online snap ''GasDetector'' \<Longrightarrow> \<not> d_alarm_any (c_gas l) \<and> \<not> d_fault_any (c_gas l)"
  unfolding l_def updateDiscreteFaultRuntimeFromSnapshot_def
  using snapshot_ups_effect snapshot_smoke_effect snapshot_air_effect snapshot_gas_effect
  by simp_all

lemma cleared_names: "list_all (\<lambda>(n, _). \<not> (if n \<in> set (map fst xs) then False else f n)) xs"
proof (simp only: list_all_iff, rule ballI)
  fix p assume "p \<in> set xs"
  then have "fst p \<in> set (map fst xs)" by simp
  then show "case p of (n, _) \<Rightarrow> \<not> (if n \<in> set (map fst xs) then False else f n)" by (cases p) simp
qed

lemma cleared_ups:
  "list_all (\<lambda>(n, _). \<not> ups_warning (clearUpsFaultPayload u) n) ups_warning_bits"
  "list_all (\<lambda>(n, _). \<not> ups_fault (clearUpsFaultPayload u) n) ups_fault_table"
  "\<not> mains_abnormal (clearUpsFaultPayload u)" "\<not> battery_low_state (clearUpsFaultPayload u)"
  "\<not> bypass_mode (clearUpsFaultPayload u)" "\<not> ups_fault_state (clearUpsFaultPayload u)"
  "\<not> backup_mode (clearUpsFaultPayload u)" "\<not> self_test_active (clearUpsFaultPayload u)"
  "\<not> battery_overcharge_persist (clearUpsFaultPayload u)"
  "ups_battery_low (clearUpsFaultPayload u) = 0" "bypass_active (clearUpsFaultPayload u) = 0"
  "ups_fault_code (clearUpsFaultPayload u) = 0" "warning_bits (clearUpsFaultPayload u) = 0" "fault_bits (clearUpsFaultPayload u) = 0"
  using cleared_names [of ups_warning_bits "ups_warning u"] cleared_names [of ups_fault_table "ups_fault u"]
  by (simp_all add: clearUpsFaultPayload_def)

lemma cleared_payloads:
  fixes snap c
  defines "c' \<equiv> updateDiscreteFaultRuntimeFromSnapshot snap c"
  shows "\<not> device_online snap ''UPS'' \<Longrightarrow> e_ups c' = clearUpsFaultPayload (e_ups c)"
    "\<not> device_online snap ''SmokeSensor'' \<Longrightarrow> c_smoke_d (e_logic c') = clearSmokeFaultPayload (c_smoke_d (e_logic c))"
    "\<not> device_online snap ''AirConditioner'' \<Longrightarrow> e_air c' = clearAirFaultPayload (e_air c)"
    "\<not> device_online snap ''GasDetector'' \<Longrightarrow> c_gas_d (e_logic c') = clearGasFaultPayload (c_gas_d (e_logic c))"
  unfolding c'_def updateDiscreteFaultRuntimeFromSnapshot_def
  using snapshot_ups_effect(3) snapshot_smoke_effect(3) snapshot_air_effect(3) snapshot_gas_effect(3)
  by simp_all

text \<open>The gas readings that an operation history has for the logic.\<close>

lemma snapshot_gas_channels:
  fixes snap :: system_snapshot and c :: ext_ctx and it :: snapshot_item
  assumes "sn_items snap ''GasDetector'' = Some it" "si_online it"
  defines "l \<equiv> e_logic (snapshot_gas snap c)"
  shows "gas_sensor_fault (c_gas_d l) \<longleftrightarrow> (\<exists>ch \<in> set (channels it). ch_valid ch \<and> ch_fault_any ch)"
    "low_alarm (c_gas_d l) \<longleftrightarrow> (\<exists>ch \<in> set (channels it). ch_valid ch \<and> ch_low_alarm ch)"
    "high_alarm (c_gas_d l) \<longleftrightarrow> (\<exists>ch \<in> set (channels it). ch_valid ch \<and> ch_high_alarm ch)"
    "d_alarm_any (c_gas l) \<longleftrightarrow> (\<exists>ch \<in> set (channels it). ch_valid ch \<and> ch_alarm_any ch)"
    "d_fault_any (c_gas l) \<longleftrightarrow> (\<exists>ch \<in> set (channels it). ch_valid ch \<and> ch_fault_any ch)"
  unfolding l_def using assms(1,2)
  by (simp_all add: snapshot_gas_def case_prod_beta Let_def add_channels_sums clearGasFaultPayload_def clear_sums_def)

lemma in_channels: "ch \<in> set (channels it) \<longleftrightarrow> (\<exists>t. si_gas_channels it t = Some ch)"
proof -
  have "t \<in> set gas_order" for t by (cases t) (simp_all add: gas_order_def)
  then show ?thesis by (force simp: channels_def List.map_filter_def)
qed

section \<open>Properties\<close>

text \<open>C20: no alarm outlives its device. After the handling of a snapshot the four devices are online for the logic
  exactly as the snapshot says and their communication faults are the opposite of it. A device that is not online
  shows no alarm and no fault, whatever was received from it before: neither in its two sums nor in any single flag, which
  are, for the UPS, the states and every warning and fault of the message tables, for the smoke sensor its two
  alarms and three faults, for the air conditioner every alarm of the alarm segment, and for the gas detector the two alarms and
  the sensor fault. The sum of the alarms stands only while an online device has one, and a missing device always makes the sum
  of the faults.\<close>

theorem alarms_end_with_device:
  assumes "c' = onSnapshot_logic snap ts c" and "l = e_logic c'" and "f = c_faults l"
    and "devices = [(''UPS'', c_ups l, ups_offline f), (''SmokeSensor'', c_smoke l, smoke_offline f),
           (''AirConditioner'', c_air l, air_offline f), (''GasDetector'', c_gas l, gas_offline f)]"
    and "u = e_ups c'" and "s = c_smoke_d l" and "g = c_gas_d l"
  shows "list_all (\<lambda>(name, d, off). d_online d = device_online snap name \<and> off = (\<not> device_online snap name) \<and>
      (\<not> device_online snap name \<longrightarrow> \<not> d_alarm_any d \<and> \<not> d_fault_any d)) devices \<and>
    (\<not> device_online snap ''UPS'' \<longrightarrow> \<not> mains_abnormal u \<and> \<not> battery_low_state u \<and> \<not> bypass_mode u \<and>
      \<not> ups_fault_state u \<and> \<not> backup_mode u \<and> \<not> self_test_active u \<and> \<not> battery_overcharge_persist u \<and>
      ups_battery_low u = 0 \<and> bypass_active u = 0 \<and> ups_fault_code u = 0 \<and> warning_bits u = 0 \<and> fault_bits u = 0 \<and>
      list_all (\<lambda>(n, _). \<not> ups_warning u n) ups_warning_bits \<and> list_all (\<lambda>(n, _). \<not> ups_fault u n) ups_fault_table) \<and>
    (\<not> device_online snap ''SmokeSensor'' \<longrightarrow> \<not> smoke_alarm s \<and> \<not> temp_alarm s \<and> \<not> smoke_sensor_fault s \<and>
      \<not> smoke_pollution_fault s \<and> \<not> temp_sensor_fault s) \<and>
    (\<not> device_online snap ''AirConditioner'' \<longrightarrow> list_all (\<lambda>n. \<not> air_flag (e_air c') n) air_alarm_fields) \<and>
    (\<not> device_online snap ''GasDetector'' \<longrightarrow>
      gas_status_code g = 0 \<and> \<not> gas_sensor_fault g \<and> \<not> low_alarm g \<and> \<not> high_alarm g) \<and>
    (env_any_alarm f \<longleftrightarrow> list_ex (\<lambda>(name, d, off). device_online snap name \<and> d_alarm_any d) devices) \<and>
    (list_ex (\<lambda>(name, d, off). \<not> device_online snap name \<or> d_fault_any d) devices \<longrightarrow> any_fault f)"
proof -
  define c0 where "c0 = c\<lparr>e_logic := (updatePcuRuntimeHealth ts (e_logic c))\<lparr>c_bms :=
      updateBmsRuntimeHealth ts (c_bms (updatePcuRuntimeHealth ts (e_logic c)))\<rparr>\<rparr>"
  define c1 where "c1 = updateDiscreteFaultRuntimeFromSnapshot snap c0"
  have c': "c' = rebuildLogicFaultSummary c1" by (simp add: assms(1) onSnapshot_logic_def c1_def c0_def Let_def)
  have env: "env_any_alarm f = (d_alarm_any (c_ups l) \<or> d_alarm_any (c_smoke l) \<or> d_alarm_any (c_gas l) \<or> d_alarm_any (c_air l))"
    by (simp add: assms(2,3) c' rebuildLogicFaultSummary_def Let_def)
  have any: "ups_offline f \<or> smoke_offline f \<or> gas_offline f \<or> air_offline f \<or> d_fault_any (c_ups l) \<or> d_fault_any (c_smoke l) \<or>
      d_fault_any (c_gas l) \<or> d_fault_any (c_air l) \<Longrightarrow> any_fault f"
    by (simp add: assms(2,3) c' rebuildLogicFaultSummary_def Let_def)
  note flags = discrete_flags [of snap c0, folded c1_def]
  have l: "c_ups l = c_ups (e_logic c1)" "c_smoke l = c_smoke (e_logic c1)" "c_gas l = c_gas (e_logic c1)" "c_air l = c_air (e_logic c1)"
    "ups_offline f = ups_offline (c_faults (e_logic c1))" "smoke_offline f = smoke_offline (c_faults (e_logic c1))"
    "gas_offline f = gas_offline (c_faults (e_logic c1))" "air_offline f = air_offline (c_faults (e_logic c1))"
    by (simp_all add: assms(2,3) c')
  note eqs = assms(4) l flags(1-8)
  have quiet: "\<not> device_online snap ''UPS'' \<longrightarrow> \<not> d_alarm_any (c_ups (e_logic c1)) \<and> \<not> d_fault_any (c_ups (e_logic c1))"
    "\<not> device_online snap ''SmokeSensor'' \<longrightarrow> \<not> d_alarm_any (c_smoke (e_logic c1)) \<and> \<not> d_fault_any (c_smoke (e_logic c1))"
    "\<not> device_online snap ''AirConditioner'' \<longrightarrow> \<not> d_alarm_any (c_air (e_logic c1)) \<and> \<not> d_fault_any (c_air (e_logic c1))"
    "\<not> device_online snap ''GasDetector'' \<longrightarrow> \<not> d_alarm_any (c_gas (e_logic c1)) \<and> \<not> d_fault_any (c_gas (e_logic c1))"
    using flags(9-12) by blast+
  note payload = cleared_payloads [of snap c0, folded c1_def]
  have p: "u = e_ups c1" "s = c_smoke_d (e_logic c1)" "g = c_gas_d (e_logic c1)" "e_air c' = e_air c1"
    by (simp_all add: assms(2,5-7) c')
  show ?thesis
    apply (intro conjI)
    subgoal using quiet by (simp add: eqs)
    subgoal using payload(1) by (simp add: p cleared_ups)
    subgoal using payload(2) by (simp add: p clearSmokeFaultPayload_def)
    subgoal using payload(3) by (simp add: p clearAirFaultPayload_def list_all_iff)
    subgoal using payload(4) by (simp add: p clearGasFaultPayload_def)
    subgoal using quiet unfolding env by (simp add: eqs) blast
    subgoal by (rule impI, rule any) (simp add: eqs, blast)
    done
qed

text \<open>Two devices had reported before they vanished.\<close>

definition example_alarmed :: ext_ctx where
  "example_alarmed = (let l = e_logic ext_init in
     ext_init\<lparr>e_ups := (e_ups ext_init)\<lparr>ups_fault_state := True\<rparr>,
       e_logic := l\<lparr>c_smoke_d := (c_smoke_d l)\<lparr>smoke_alarm := True\<rparr>, c_smoke := (c_smoke l)\<lparr>d_alarm_any := True\<rparr>\<rparr>\<rparr>)"

theorem alarms_end_with_device_witness:
  "let c = onSnapshot_logic (snapshot_init 5) 5 example_alarmed; f = c_faults (e_logic c) in
     any_fault f \<and> \<not> env_any_alarm f \<and> gas_offline f \<and> \<not> smoke_alarm (c_smoke_d (e_logic c)) \<and> \<not> ups_fault_state (e_ups c)"
proof -
  have off: "device_online (snapshot_init 5) name = False" for name by (simp add: device_online_def snapshot_init_def)
  show ?thesis
    using alarms_end_with_device [OF refl refl refl refl refl refl refl, of "snapshot_init 5" 5 example_alarmed]
    by (simp add: off Let_def)
qed

text \<open>C19: the gas detector reports one gas per frame. From start-up, over any sequence of data and health reports that the
  aggregator gets, when a snapshot in which the detector is online is handled, the logic's alarms are those of the
  latest valid reading of every gas: a low or high alarm or a sensor fault exactly if the latest reading of some gas has the
  bit for it. A gas that was not reported again keeps its state, and a later reading of the same gas replaces it.\<close>

theorem gas_alarms_are_latest_readings:
  assumes "agg_run ops (aggregator_init t0) = Some a"
    and "device_online (ag_snap a) ''GasDetector''"
    and "l = e_logic (onSnapshot_logic (ag_snap a) ts c)"
    and "latest = (\<lambda>t. map_option fst (last_reading ops t))"
  shows "(gas_sensor_fault (c_gas_d l) \<longleftrightarrow> (\<exists>t g. latest t = Some g \<and> gas_status g AND 1 \<noteq> 0)) \<and>
    (low_alarm (c_gas_d l) \<longleftrightarrow> (\<exists>t g. latest t = Some g \<and> gas_status g AND 2 \<noteq> 0)) \<and>
    (high_alarm (c_gas_d l) \<longleftrightarrow> (\<exists>t g. latest t = Some g \<and> gas_status g AND 4 \<noteq> 0)) \<and>
    (d_alarm_any (c_gas l) \<longleftrightarrow> low_alarm (c_gas_d l) \<or> high_alarm (c_gas_d l)) \<and>
    (d_fault_any (c_gas l) \<longleftrightarrow> gas_sensor_fault (c_gas_d l))"
proof -
  obtain it where it: "sn_items (ag_snap a) ''GasDetector'' = Some it" "si_online it"
    using assms(2) by (auto simp: device_online_def split: option.splits)
  define c0 where "c0 = snapshot_air (ag_snap a) (snapshot_smoke (ag_snap a) (snapshot_ups (ag_snap a)
      (c\<lparr>e_logic := (updatePcuRuntimeHealth ts (e_logic c))\<lparr>c_bms :=
        updateBmsRuntimeHealth ts (c_bms (updatePcuRuntimeHealth ts (e_logic c)))\<rparr>\<rparr>)))"
  have l: "c_gas_d l = c_gas_d (e_logic (snapshot_gas (ag_snap a) c0))" "c_gas l = c_gas (e_logic (snapshot_gas (ag_snap a) c0))"
    by (simp_all add: assms(3) onSnapshot_logic_def updateDiscreteFaultRuntimeFromSnapshot_def c0_def Let_def)
  have ch: "(\<exists>ch \<in> set (channels it). P ch) \<longleftrightarrow> (\<exists>t g ts. last_reading ops t = Some (g, ts) \<and> P (channel_of g ts))" for P
  proof -
    have "si_gas_channels it t = map_option (\<lambda>(g, ts). channel_of g ts) (last_reading ops t)" for t
      using gas_map_run [OF assms(1), of t] it by (simp add: gas_map_def item_at_def)
    then show ?thesis by (auto simp: in_channels Bex_def)
  qed
  have latest: "latest t = Some g \<longleftrightarrow> (\<exists>ts. last_reading ops t = Some (g, ts))" for t g
    by (auto simp: assms(4))
  show ?thesis
    unfolding l snapshot_gas_channels [OF it] ch latest
    by (intro conjI; simp add: channel_of_def; blast)
qed

theorem gas_alarms_are_latest_readings_witness:
  "\<exists>a. agg_run example_ops (aggregator_init 0) = Some a \<and>
     (let l = e_logic (onSnapshot_logic (ag_snap a) 500 ext_init) in
      high_alarm (c_gas_d l) \<and> \<not> low_alarm (c_gas_d l) \<and> \<not> gas_sensor_fault (c_gas_d l))"
proof -
  obtain a where a: "agg_run example_ops (aggregator_init 0) = Some a" "sn_gas_alarm (ag_snap a)" using example_run by blast
  have "alarms_ok (ag_snap a)" by (rule alarms_ok_run [OF a(1)]) (simp add: example_ops_def battery_updates_def)
  then have on: "device_online (ag_snap a) ''GasDetector''"
    using a(2) by (auto simp: alarms_ok_def device_online_def item_at_def item_init_def split: option.splits)
  have latest: "(\<lambda>t. if t = CO then Some (gas (example_gas_data 1 4)) else if t = O2 then Some (gas (example_gas_data 2 0))
       else if t = Temperature then Some (gas (example_gas_data 3 0)) else None) =
      (\<lambda>t. map_option fst (last_reading example_ops t))"
    by (rule ext) (simp add: example_ops_def gas_brought_def example_gas_data_def gas_type_of_code_def dd_init_def)
  have st: "gas_status (gas (example_gas_data c s)) = s" for c s by (simp add: example_gas_data_def)
  show ?thesis
    using a(1) gas_alarms_are_latest_readings [OF a(1) on refl latest, of 500 ext_init]
    by (intro exI [of _ a]) (auto simp: st Let_def split: if_splits)
qed

end
