(* ===== verification/Logic_Engine.thy ===== *)
theory Logic_Engine
  imports Logic_Snapshot Hmi_Input Can_Rx "HOL-Library.List_Lexorder" "HOL-Library.Char_ord"
begin

text \<open>
  The engine of the control logic: the events of the control loop
  (\<open>services/control/control_events.h\<close>), the engine that gives each event to its handler
  (\<open>services/control/logic/logic_engine.cpp\<close>) with its configuration, the copy of the batteries' health that
  other threads read (\<open>services/control/control_loop.cpp\<close>) and the dispatcher of the commands
  (\<open>services/control/command_dispatcher.cpp\<close>). The display view, the writer of the measurements to the
  panel and the queues of the loop are left out.
\<close>

section \<open>Events\<close>

datatype event_body =
    DeviceDataEvent device_data
  | SnapshotEvent u64 system_snapshot
  | HmiWriteEvent write_event
  | HmiHeartbeatEvent
  | IoSampleEvent io_sample
  | TickEvent u64
  | StopEvent

record event =
  ev_ts_ms :: u64
  ev_body :: event_body

text \<open>What the engine works on: its own members, the context with the panel, the snapshot it saw last and the
  health of the batteries that the control loop hands out.\<close>

record control_state =
  cs_engine :: logic_engine
  cs_panel :: panel_ctx
  cs_snapshot :: system_snapshot
  cs_health :: "bms_health_update list"

definition on_logic :: "(ext_ctx \<Rightarrow> ext_ctx) \<Rightarrow> panel_ctx \<Rightarrow> panel_ctx" where
  "on_logic f x = x\<lparr>x_ext := f (x_ext x)\<rparr>"

definition onSnapshot :: "u64 \<Rightarrow> system_snapshot \<Rightarrow> control_state \<Rightarrow> control_state" where
  "onSnapshot ts snap s =
     s\<lparr>cs_snapshot := snap,
       cs_panel := applyFaultHmi (on_logic (onSnapshot_logic snap ts) ((cs_panel s)\<lparr>x_last_event_ts := ts\<rparr>))\<rparr>"

definition onTick_event :: "u64 \<Rightarrow> control_state \<Rightarrow> command list \<Rightarrow> control_state \<times> command list" where
  "onTick_event ts s out =
     (let x = cs_panel s;
          ((e, l), out) = onTick ts (cs_engine s, e_logic (x_ext x)) out
      in (s\<lparr>cs_engine := e, cs_panel := on_logic (\<lambda>c. c\<lparr>e_logic := l\<rparr>) x\<rparr>, out))"

definition onEvent :: "event \<Rightarrow> control_state \<Rightarrow> command list \<Rightarrow> control_state \<times> command list" where
  "onEvent e s0 out =
     (let s = s0\<lparr>cs_panel := (cs_panel s0)\<lparr>x_last_event_ts := ev_ts_ms e\<rparr>\<rparr>; x = cs_panel s in
      case ev_body e of
        DeviceDataEvent d \<Rightarrow> (s\<lparr>cs_panel := on_logic (onDeviceData d (ev_ts_ms e)) x\<rparr>, out)
      | SnapshotEvent ts snap \<Rightarrow> (onSnapshot ts snap s, out)
      | HmiWriteEvent w \<Rightarrow> (s\<lparr>cs_panel := onHmiWrite w x\<rparr>, out)
      | HmiHeartbeatEvent \<Rightarrow> (s\<lparr>cs_panel := on_logic (feedHmiAlive (ev_ts_ms e)) x\<rparr>, out)
      | IoSampleEvent io \<Rightarrow> (s\<lparr>cs_panel := on_logic (\<lambda>c. c\<lparr>e_logic := onIoSample io (e_logic c)\<rparr>) x\<rparr>, out)
      | TickEvent ts \<Rightarrow> onTick_event ts s out
      | StopEvent \<Rightarrow> (s, out))"

section \<open>The health of the batteries for other threads\<close>

definition health_of :: "string \<Rightarrow> bms_cache_item \<Rightarrow> bms_health_update option" where
  "health_of key x =
     (let name = (if instance_name x \<noteq> [] then instance_name x else key);
          idx = (if bms_index x \<noteq> 0 then bms_index x else parse_idx_from_name name)
      in if idx < 1 \<or> 4 < idx \<or> name = [] then None
         else Some \<lparr>hu_instance_name = name, hu_bms_index = idx, hu_online = bms_online (x_health x),
                hu_last_ok_ms = last_ok_ms (x_health x), hu_disconnect_window_ms = disconnect_window_ms (x_health x),
                hu_last_offline_ms = last_offline_ms (x_health x), hu_disconnect_count = disconnect_count (x_health x)\<rparr>)"

text \<open>The cache is an ordered map, which is gone through in the order of its keys.\<close>

definition cached_health :: "bms_cache \<Rightarrow> bms_health_update list" where
  "cached_health items =
     List.map_filter (\<lambda>k. Option.bind (items k) (health_of k)) (sorted_list_of_set (dom items))"

definition refreshCachedBmsRuntimeHealth :: "control_state \<Rightarrow> control_state" where
  "refreshCachedBmsRuntimeHealth s = s\<lparr>cs_health := cached_health (c_bms (e_logic (x_ext (cs_panel s))))\<rparr>"

section \<open>The dispatcher of the commands\<close>

datatype driver_call =
    CallSendCan int can_frame
  | CallSendSerial link_type int bytes
  | CallSendPoll link_type int string u32
  | CallWriteDo int bool

text \<open>The driver says for each write of an output whether it succeeded, after all calls it has got so far.\<close>

type_synonym do_reply = "driver_call list \<Rightarrow> int \<Rightarrow> bool \<Rightarrow> bool"

record cmd_dispatcher =
  last_dispatch_ts :: u64
  last_do_cache :: "int \<rightharpoonup> bool"
  driver_calls :: "driver_call list"

definition cmd_dispatcher_new :: cmd_dispatcher where
  "cmd_dispatcher_new = \<lparr>last_dispatch_ts = 0, last_do_cache = Map.empty, driver_calls = []\<rparr>"

definition call_driver :: "driver_call \<Rightarrow> cmd_dispatcher \<Rightarrow> cmd_dispatcher" where
  "call_driver c d = d\<lparr>driver_calls := driver_calls d @ [c]\<rparr>"

fun dispatchOne :: "do_reply \<Rightarrow> command \<Rightarrow> cmd_dispatcher \<Rightarrow> cmd_dispatcher" where
  "dispatchOne reply (SendCan cc) d = (if sc_can_index cc < 0 then d else call_driver (CallSendCan (sc_can_index cc) (sc_frame cc)) d)"
| "dispatchOne reply (SendSerialRaw l i bs) d = (if i < 0 then d else call_driver (CallSendSerial l i bs) d)"
| "dispatchOne reply (SendPoll l i name t) d = (if i < 0 then d else call_driver (CallSendPoll l i name t) d)"
| "dispatchOne reply (WriteDo ch v) d =
     (if last_do_cache d ch = Some v then d
      else let d' = call_driver (CallWriteDo ch v) d in
        if \<not> reply (driver_calls d) ch v then d' else d'\<lparr>last_do_cache := (last_do_cache d')(ch \<mapsto> v)\<rparr>)"

definition dispatch :: "do_reply \<Rightarrow> u64 \<Rightarrow> command list \<Rightarrow> cmd_dispatcher \<Rightarrow> cmd_dispatcher" where
  "dispatch reply now cmds d = fold (dispatchOne reply) cmds (d\<lparr>last_dispatch_ts := now\<rparr>)"

text \<open>Every frame with a mirror is reported once per device, link and heartbeat.\<close>

definition signed_text :: "int \<Rightarrow> string" where
  "signed_text i = (if i < 0 then CHR ''-'' # to_string (nat (- i)) else to_string (nat i))"

definition mirror_key :: "device_data \<Rightarrow> string" where
  "mirror_key m = device_name m @ ''|'' @ signed_text (value_i32 m ''__can_index'' 0) @ ''|'' @
     signed_text (value_i32 m ''ctrl_heartbeat'' 0)"

fun mirrors :: "string set \<Rightarrow> command list \<Rightarrow> device_data list" where
  "mirrors emitted [] = []"
| "mirrors emitted (SendCan cc # cmds) =
     (case sc_mirror cc of None \<Rightarrow> mirrors emitted cmds
      | Some m \<Rightarrow> if mirror_key m \<in> emitted then mirrors emitted cmds else m # mirrors (insert (mirror_key m) emitted) cmds)"
| "mirrors emitted (_ # cmds) = mirrors emitted cmds"

section \<open>One round of the loop\<close>

record control_unit =
  cu_state :: control_state
  cu_dispatcher :: cmd_dispatcher
  cu_mirrors :: "device_data list"

text \<open>What the thread does with an event that is no stop: the handler, the copy of the health, the commands and
  their mirrors, for which a callback is set. The body of a snapshot event is the latest snapshot, as the thread puts
  it there. The time is read when the event has none and when commands are dispatched; both readings are taken to be
  the same.\<close>

definition refreshes_health :: "event_body \<Rightarrow> bool" where
  "refreshes_health b \<longleftrightarrow> (case b of DeviceDataEvent _ \<Rightarrow> True | SnapshotEvent _ _ \<Rightarrow> True | TickEvent _ \<Rightarrow> True | _ \<Rightarrow> False)"

definition handle_event :: "do_reply \<Rightarrow> u64 \<Rightarrow> event \<Rightarrow> control_unit \<Rightarrow> control_unit" where
  "handle_event reply now e u =
     (let e = (if ev_ts_ms e = 0 then e\<lparr>ev_ts_ms := now\<rparr> else e);
          (s, cmds) = onEvent e (cu_state u) [];
          s = (if refreshes_health (ev_body e) then refreshCachedBmsRuntimeHealth s else s);
          u = u\<lparr>cu_state := s\<rparr>
      in if cmds = [] then u
         else u\<lparr>cu_dispatcher := dispatch reply now cmds (cu_dispatcher u), cu_mirrors := cu_mirrors u @ mirrors {} cmds\<rparr>)"

section \<open>The configuration of the engine\<close>

record can_tx_link = can_link +
  cl_tx_enable :: bool
  cl_interval_ms :: u32
  cl_send_ctrl :: bool
  cl_send_status :: bool
  cl_id_emu_ctrl :: u32
  cl_id_emu_status :: u32
  cl_id_v2b_cmd :: u32

record bms_can_cfg =
  bc_can_index :: int
  bc_tx_enable :: bool
  bc_tx_period_ms :: u32
  bc_v2b_cmd_id29 :: u32

text \<open>The configuration file is an argument, \<open>None\<close> when it cannot be read. It is read twice and taken to be the
  same.\<close>

definition loadBmsCanRuntimeCfg :: "can_tx_link list option \<Rightarrow> bms_can_cfg option" where
  "loadBmsCanRuntimeCfg file =
     (case file of None \<Rightarrow> None
      | Some links \<Rightarrow>
          map_option (\<lambda>l. \<lparr>bc_can_index = cl_can_index l, bc_tx_enable = cl_tx_enable l,
              bc_tx_period_ms = (if cl_interval_ms l = 0 then 100 else cl_interval_ms l),
              bc_v2b_cmd_id29 = (if cl_id_v2b_cmd l = 0 then 0x1802F3EF else cl_id_v2b_cmd l)\<rparr>)
            (find (\<lambda>l. cl_enable l \<and> cl_protocol_type l = ''bms_table_v1'') links))"

definition pcu_tx_init :: pcu_tx_cfg where
  "pcu_tx_init = \<lparr>pt_valid = False, pt_can_index = -1, pcu_instance = 0, tx_enable = False, send_ctrl = True,
     send_status = True, period_ms = 200, next_due_ms = 0, id_emu_ctrl = 0x1801A0E0, id_emu_status = 0x1802A0E0,
     heartbeat = 0, batt1_branches = 2, batt2_branches = 2\<rparr>"

definition link_instance :: "can_tx_link \<Rightarrow> u8" where
  "link_instance l =
     (if cl_pcu_instance l = 0
      then if cl_can_index l = 1 then 1 else if cl_can_index l = 2 then 2 else 0
      else cl_pcu_instance l)"

definition pcu_tx_of :: "can_tx_link \<Rightarrow> pcu_tx_cfg \<Rightarrow> pcu_tx_cfg" where
  "pcu_tx_of l c =
     c\<lparr>pt_valid := True, pt_can_index := cl_can_index l, pcu_instance := link_instance l, tx_enable := cl_tx_enable l,
       send_ctrl := cl_send_ctrl l, send_status := cl_send_status l,
       period_ms := (if cl_interval_ms l = 0 then 200 else cl_interval_ms l), next_due_ms := 0,
       id_emu_ctrl := (if cl_id_emu_ctrl l = 0 then 0x1801A0E0 else cl_id_emu_ctrl l),
       id_emu_status := (if cl_id_emu_status l = 0 then 0x1802A0E0 else cl_id_emu_status l),
       batt1_branches := 2, batt2_branches := 2\<rparr>"

definition add_pcu_link :: "pcu_tx_cfg list \<Rightarrow> can_tx_link \<Rightarrow> pcu_tx_cfg list" where
  "add_pcu_link cfgs l =
     (if \<not> cl_enable l \<or> cl_protocol_type l \<noteq> ''emu_pcu_v1'' then cfgs
      else let inst = link_instance l in
        if inst < 1 \<or> 2 < inst then cfgs
        else cfgs[unat inst - 1 := pcu_tx_of l (cfgs ! (unat inst - 1))])"

definition loadPcuTxRuntimeCfg :: "can_tx_link list option \<Rightarrow> logic_engine \<Rightarrow> logic_engine" where
  "loadPcuTxRuntimeCfg file e0 =
     (let e = e0\<lparr>le_pcu_cfg := [pcu_tx_init, pcu_tx_init], pcu_tx_cfg_loaded := False\<rparr> in
      case file of None \<Rightarrow> e
      | Some links \<Rightarrow> e\<lparr>le_pcu_cfg := foldl add_pcu_link (le_pcu_cfg e) links, pcu_tx_cfg_loaded := True\<rparr>)"

definition engine_init :: "msg_table \<Rightarrow> can_tx_link list option \<Rightarrow> logic_engine \<Rightarrow> logic_engine" where
  "engine_init gen file e =
     (if bms_cmd_mgr_inited e \<and> pcu_tx_cfg_loaded e then e
      else
        let cfg = (case loadBmsCanRuntimeCfg file of Some c \<Rightarrow> c
              | None \<Rightarrow> \<lparr>bc_can_index = 0, bc_tx_enable = True, bc_tx_period_ms = 100, bc_v2b_cmd_id29 = 0x1802F3EF\<rparr>);
            (ok, m) = mgr_init gen (bc_can_index cfg) (bc_v2b_cmd_id29 cfg) (le_mgr e)
        in loadPcuTxRuntimeCfg file
             (e\<lparr>bms_cmd_tx_enabled := bc_tx_enable cfg, bms_cmd_period_ms := bc_tx_period_ms cfg, le_mgr := m,
                bms_cmd_mgr_inited := (bms_cmd_mgr_inited e \<or> ok)\<rparr>))"

section \<open>Facts on the outputs\<close>

text \<open>What the wires of the outputs carry after a list of calls, when the driver carries out the writes that it reports
  as successful.\<close>

fun levels :: "do_reply \<Rightarrow> driver_call list \<Rightarrow> driver_call list \<Rightarrow> int \<rightharpoonup> bool" where
  "levels reply before [] = Map.empty"
| "levels reply before (c # cs) =
     (case c of CallWriteDo ch v \<Rightarrow> if reply before ch v then [ch \<mapsto> v] ++ levels reply (before @ [c]) cs else levels reply (before @ [c]) cs
      | _ \<Rightarrow> levels reply (before @ [c]) cs)"

lemma levels_snoc:
  "levels reply before (cs @ [c]) =
     (case c of CallWriteDo ch v \<Rightarrow>
        if reply (before @ cs) ch v then (levels reply before cs)(ch \<mapsto> v) else levels reply before cs
      | _ \<Rightarrow> levels reply before cs)"
  by (induction cs arbitrary: before) (auto simp: map_add_def fun_eq_iff split: driver_call.split)

text \<open>The command that decides about an output.\<close>

fun last_commanded :: "command list \<Rightarrow> int \<rightharpoonup> bool" where
  "last_commanded [] = Map.empty"
| "last_commanded (c # cs) = (case c of WriteDo ch v \<Rightarrow> [ch \<mapsto> v] ++ last_commanded cs | _ \<Rightarrow> last_commanded cs)"

lemma last_commanded_snoc:
  "last_commanded (cs @ [c]) = (case c of WriteDo ch v \<Rightarrow> (last_commanded cs)(ch \<mapsto> v) | _ \<Rightarrow> last_commanded cs)"
  by (induction cs) (auto simp: map_add_def fun_eq_iff split: command.split)

lemma last_commanded_append: "last_commanded (cs @ ds) = last_commanded cs ++ last_commanded ds"
  by (induction cs) (auto split: command.split)

definition writes_to :: "int \<Rightarrow> driver_call list \<Rightarrow> bool list" where
  "writes_to ch cs = List.map_filter (\<lambda>c. case c of CallWriteDo ch' v \<Rightarrow> if ch' = ch then Some v else None | _ \<Rightarrow> None) cs"

lemma writes_to_snoc:
  "writes_to ch (cs @ [c]) = writes_to ch cs @ (case c of CallWriteDo ch' v \<Rightarrow> if ch' = ch then [v] else [] | _ \<Rightarrow> [])"
  by (auto simp: writes_to_def List.map_filter_def split: driver_call.split)

lemma writes_to_Nil [simp]: "writes_to ch [] = []"
  by (simp add: writes_to_def List.map_filter_def)

definition do_inv :: "do_reply \<Rightarrow> cmd_dispatcher \<Rightarrow> bool" where
  "do_inv reply d \<longleftrightarrow> last_do_cache d = levels reply [] (driver_calls d)"

lemma dispatchOne_inv: "do_inv reply d \<Longrightarrow> do_inv reply (dispatchOne reply c d)"
  by (cases c) (auto simp: do_inv_def call_driver_def levels_snoc Let_def)

lemma fold_dispatch_inv: "do_inv reply d \<Longrightarrow> do_inv reply (fold (dispatchOne reply) cs d)"
  by (induction cs arbitrary: d) (auto intro: dispatchOne_inv)

text \<open>An output whose writes always succeed.\<close>

definition reliable :: "do_reply \<Rightarrow> int \<Rightarrow> bool" where
  "reliable reply ch \<longleftrightarrow> (\<forall>before v. reply before ch v)"

definition no_repeats :: "bool list \<Rightarrow> bool" where
  "no_repeats vs \<longleftrightarrow> (\<forall>i. Suc i < length vs \<longrightarrow> vs ! i \<noteq> vs ! Suc i)"

lemma no_repeats_snoc: "no_repeats (vs @ [v]) \<longleftrightarrow> no_repeats vs \<and> (vs = [] \<or> last vs \<noteq> v)"
proof (cases vs rule: rev_cases)
  case (snoc us u)
  have "no_repeats (us @ [u, v]) \<longleftrightarrow> no_repeats (us @ [u]) \<and> u \<noteq> v"
    unfolding no_repeats_def by (auto simp: nth_append less_Suc_eq all_conj_distrib)
  then show ?thesis by (simp add: snoc)
qed (simp add: no_repeats_def)

lemma reliable_run:
  assumes "reliable reply ch"
  defines "d0 \<equiv> cmd_dispatcher_new"
  shows "levels reply [] (driver_calls (fold (dispatchOne reply) cs d0)) ch = last_commanded cs ch \<and>
    no_repeats (writes_to ch (driver_calls (fold (dispatchOne reply) cs d0))) \<and>
    (case last_commanded cs ch of None \<Rightarrow> writes_to ch (driver_calls (fold (dispatchOne reply) cs d0)) = []
     | Some v \<Rightarrow> writes_to ch (driver_calls (fold (dispatchOne reply) cs d0)) \<noteq> [] \<and>
         last (writes_to ch (driver_calls (fold (dispatchOne reply) cs d0))) = v)"
proof (induction cs rule: rev_induct)
  case Nil
  show ?case by (simp add: d0_def cmd_dispatcher_new_def no_repeats_def)
next
  case (snoc c cs)
  define d where "d = fold (dispatchOne reply) cs d0"
  have "do_inv reply d0" by (simp add: d0_def do_inv_def cmd_dispatcher_new_def)
  then have inv: "last_do_cache d = levels reply [] (driver_calls d)"
    using fold_dispatch_inv [of reply d0 cs] by (simp add: d_def do_inv_def)
  show ?case
    using snoc.IH assms(1) inv unfolding d_def [symmetric]
    by (cases c) (auto simp: d_def [symmetric] call_driver_def levels_snoc Let_def last_commanded_snoc writes_to_snoc no_repeats_snoc
        reliable_def split: option.splits)
qed

section \<open>Facts on the digital inputs\<close>

definition di_of :: "panel_ctx \<Rightarrow> u64" where
  "di_of x = c_di_bits (e_logic (x_ext x))"

lemma di_recoverRemote [simp]: "c_di_bits (e_logic (recoverRemote d c)) = c_di_bits (e_logic c)"
  by (simp add: recoverRemote_def Let_def)

lemma di_onUps [simp]: "c_di_bits (e_logic (onUps d ts c)) = c_di_bits (e_logic c)"
  by (simp add: onUps_def Let_def)

lemma di_onSmoke [simp]: "c_di_bits (e_logic (onSmoke d ts c)) = c_di_bits (e_logic c)"
  by (simp add: onSmoke_def Let_def)

lemma di_onGas [simp]: "c_di_bits (e_logic (onGas d ts c)) = c_di_bits (e_logic c)"
  by (simp add: onGas_def Let_def split: option.split)

lemma di_onAir [simp]: "c_di_bits (e_logic (onAir d ts c)) = c_di_bits (e_logic c)"
  by (simp add: onAir_def Let_def)

lemma di_pcu [simp]: "c_di_bits (e_logic (updatePcuOnlineState d ts c)) = c_di_bits (e_logic c)"
  by (simp add: updatePcuOnlineState_def Let_def split: option.split)

lemma di_onDeviceData [simp]: "c_di_bits (e_logic (onDeviceData d ts c)) = c_di_bits (e_logic c)"
  by (simp add: onDeviceData_def Let_def)

lemma di_snapshot_devices [simp]:
  "c_di_bits (e_logic (snapshot_ups snap c)) = c_di_bits (e_logic c)"
  "c_di_bits (e_logic (snapshot_smoke snap c)) = c_di_bits (e_logic c)"
  "c_di_bits (e_logic (snapshot_air snap c)) = c_di_bits (e_logic c)"
  "c_di_bits (e_logic (snapshot_gas snap c)) = c_di_bits (e_logic c)"
  by (simp_all add: snapshot_ups_def snapshot_smoke_def snapshot_air_def snapshot_gas_def Let_def case_prod_beta
      split: option.split)

lemma di_onSnapshot [simp]: "c_di_bits (e_logic (onSnapshot_logic snap ts c)) = c_di_bits (e_logic c)"
  by (simp add: onSnapshot_logic_def rebuildLogicFaultSummary_def updateDiscreteFaultRuntimeFromSnapshot_def
      updatePcuRuntimeHealth_def Let_def)

lemma x_ext_output [simp]: "x_ext (applyFaultHmi x) = x_ext x"
  by (simp add: applyFaultHmi_def split: option.split)

lemma x_ext_history [simp]: "x_ext (refreshHistoryCacheForPage p x) = x_ext x"
  by (simp add: refreshHistoryCacheForPage_def Let_def split: option.split prod.split bool.split)

lemma x_ext_step [simp]: "x_ext (history_step f x c) = x_ext x"
  by (simp add: history_step_def split: prod.split bool.split)

lemma x_ext_enter [simp]: "x_ext (enter_history x) = x_ext x"
  by (simp add: enter_history_def)

lemma x_ext_page_button: "page_button path x = Some x' \<Longrightarrow> x_ext x' = x_ext x"
  by (auto simp: page_button_def Let_def split: if_splits option.splits prod.splits bool.splits)

lemma x_ext_click [simp]: "x_ext (onHmiButtonClick a path name x) = x_ext x"
  by (auto simp: onHmiButtonClick_def Let_def split: option.split dest!: x_ext_page_button)

lemma x_ext_coil [simp]: "x_ext (handleHmiCoilWrite w x) = x_ext x"
  by (auto simp: handleHmiCoilWrite_def set_button_def Let_def split: option.split)

lemma di_onHmiWrite [simp]: "c_di_bits (e_logic (x_ext (onHmiWrite w x))) = c_di_bits (e_logic (x_ext x))"
  by (auto simp: onHmiWrite_def note_write_def Let_def split: option.split)

lemma di_onTick [simp]: "c_di_bits (snd (fst (onTick ts ec out))) = c_di_bits (snd ec)"
  by (simp add: onTick_def Let_def case_prod_beta updatePcuRuntimeHealth_def)

fun is_io :: "event_body \<Rightarrow> bool" where
  "is_io (IoSampleEvent _) = True"
| "is_io _ = False"

lemma di_onEvent:
  "di_of (cs_panel (fst (onEvent e s out))) =
     (case ev_body e of IoSampleEvent io \<Rightarrow> io_di_bits io | _ \<Rightarrow> di_of (cs_panel s))"
  by (simp add: onEvent_def onTick_event_def onSnapshot_def on_logic_def di_of_def feedHmiAlive_def onIoSample_def Let_def
      case_prod_beta split: event_body.split)

lemma di_handle_event:
  "di_of (cs_panel (cu_state (handle_event reply now e u))) =
     (case ev_body e of IoSampleEvent io \<Rightarrow> io_di_bits io | _ \<Rightarrow> di_of (cs_panel (cu_state u)))"
  by (auto simp: handle_event_def Let_def case_prod_beta di_onEvent refreshCachedBmsRuntimeHealth_def split: event_body.split)

definition handle_all :: "do_reply \<Rightarrow> (u64 \<times> event) list \<Rightarrow> control_unit \<Rightarrow> control_unit" where
  "handle_all reply es u = fold (\<lambda>(now, e). handle_event reply now e) es u"

lemma di_handle_all:
  "\<forall>(now, e) \<in> set es. \<not> is_io (ev_body e) \<Longrightarrow>
     di_of (cs_panel (cu_state (handle_all reply es u))) = di_of (cs_panel (cu_state u))"
  by (induction es arbitrary: u)
    (auto simp: handle_all_def di_handle_event split: event_body.splits)

text \<open>The commands of a tick to the units are those with a mirror.\<close>

lemma sends_unmirrored: "SendCan sc \<in> set (sends ts period m idx) \<Longrightarrow> sc_mirror sc = None"
proof -
  assume "SendCan sc \<in> set (sends ts period m idx)"
  then have "\<exists>i fr. SendCan sc = SendCan \<lparr>sc_can_index = i, sc_frame = fr, sc_mirror = None\<rparr>"
    unfolding sends_def by (simp only: set_simps empty_iff singleton_iff if_False split: if_split_asm option.split_asm) blast+
  then show ?thesis by (metis command.inject(1) send_can.select_convs(3))
qed

lemma unit_command:
  assumes "SendCan sc \<in> set (snd (onTick ts (e, ctx) []))" "sc_mirror sc = Some m"
  shows "\<exists>cfg \<in> set (le_pcu_cfg e). SendCan sc \<in> set (snd (emit_pcu_one (pcu_round_of (aged_ctx ts ctx)) ts cfg))"
proof -
  have "SendCan sc \<notin> set (sends ts p mg idx)" for p mg idx using sends_unmirrored assms(2) by fastforce
  then have "SendCan sc \<in> set (snd (emitPcuPeriodicCommands (pcu_tx_cfg_loaded e) (aged_ctx ts ctx) ts (le_pcu_cfg e) []))"
    using assms(1) by (auto simp: onTick_commands split: if_splits)
  from pcu_commands [OF this] show ?thesis .
qed

lemma unit_command_shape:
  "SendCan sc \<in> set (snd (emit_pcu_one r ts cfg)) \<Longrightarrow>
     (\<exists>c. sc_mirror sc = Some (pcu_mirror r c ts)) \<and> (sc_frame sc = pcu_ctrl_frame r cfg \<or> sc_frame sc = pcu_status_frame r cfg)"
  by (auto simp: emit_pcu_one_def Let_def pcu_ctrl_frame_def pcu_status_frame_def split: if_splits)

lemma mirror_status: "status (pcu_mirror r c ts) ''sys_enable'' = Some (b32 (system_enable_all r))"
  "status (pcu_mirror r c ts) ''estop'' = Some (b32 (estop_by_io r))"
  by (simp_all add: pcu_mirror_def Let_def)

lemma unit_frame_bytes:
  "can_data (pcu_ctrl_frame r cfg) ! 7 = b8 (system_enable_all r)" "can_data (pcu_ctrl_frame r cfg) ! 2 = b8 (estop_by_io r)"
  "can_data (pcu_status_frame r cfg) ! 7 = 0"
  by (simp_all add: pcu_ctrl_frame_def pcu_status_frame_def buildEmuCtrl_def buildEmuStatus_def)

lemma unit_command_content:
  assumes "SendCan sc \<in> set (snd (emit_pcu_one r ts cfg))" "sc_mirror sc = Some m"
    "estop_by_io r" "\<not> system_enable_all r"
  shows "can_data (sc_frame sc) ! 7 = 0 \<and> status m ''sys_enable'' = Some 0 \<and> status m ''estop'' = Some 1 \<and>
    (can_data (sc_frame sc) ! 2 = 1 \<or> sc_frame sc = pcu_status_frame r cfg)"
  using unit_command_shape [OF assms(1)] assms(2-4)
  by (auto simp: mirror_status unit_frame_bytes b8_def b32_def)

lemma estop_round:
  "testDi (c_di_bits ctx) 1 \<Longrightarrow>
     estop_by_io (pcu_round_of (aged_ctx ts ctx)) \<and> \<not> system_enable_all (pcu_round_of (aged_ctx ts ctx))"
  by (simp add: pcu_round_of_def Let_def)

section \<open>Facts on the health\<close>

lemma bms_onTick [simp]: "c_bms (snd (fst (onTick ts ec out))) = updateBmsRuntimeHealth ts (c_bms (snd ec))"
  by (simp add: onTick_def Let_def case_prod_beta updatePcuRuntimeHealth_def)

lemma health_after_tick:
  assumes "ts \<noteq> 0"
  shows "cs_health (cu_state (handle_event reply now \<lparr>ev_ts_ms = ts, ev_body = TickEvent ts\<rparr> u)) =
    cached_health (updateBmsRuntimeHealth ts (c_bms (e_logic (x_ext (cs_panel (cu_state u))))))"
proof -
  have "c_bms (e_logic (x_ext (cs_panel (fst (onEvent \<lparr>ev_ts_ms = ts, ev_body = TickEvent ts\<rparr> s []))))) =
      updateBmsRuntimeHealth ts (c_bms (e_logic (x_ext (cs_panel s))))" for s
    by (simp add: onEvent_def onTick_event_def on_logic_def Let_def case_prod_beta)
  then show ?thesis
    using assms by (simp add: handle_event_def refreshes_health_def refreshCachedBmsRuntimeHealth_def Let_def case_prod_beta)
qed

lemma set_map_filter: "set (List.map_filter f xs) = {y. \<exists>x \<in> set xs. f x = Some y}"
  by (force simp: List.map_filter_def)

lemma set_cached_health:
  "finite (dom items) \<Longrightarrow> set (cached_health items) = {u. \<exists>k x. items k = Some x \<and> health_of k x = Some u}"
  by (auto simp: cached_health_def set_map_filter bind_eq_Some_conv)

text \<open>The entries of the cache are named by their index.\<close>

definition cache_named :: "bms_cache \<Rightarrow> bool" where
  "cache_named items \<longleftrightarrow> finite (dom items) \<and>
     (\<forall>k x. items k = Some x \<longrightarrow> instance_name x = k \<and> (\<exists>idx \<in> {1, 2, 3, 4}. k = makeName idx \<and> bms_index x = idx))"

lemma updateOneBms_name: "instance_name (updateOneBms ts x) = instance_name x" "bms_index (updateOneBms ts x) = bms_index x"
  by (simp_all add: updateOneBms_def Let_def split: prod.splits)

lemma cache_named_tick: "cache_named items \<Longrightarrow> cache_named (updateBmsRuntimeHealth ts items)"
proof -
  assume named: "cache_named items"
  have dom: "dom (updateBmsRuntimeHealth ts items) = dom items" by (auto simp: updateBmsRuntimeHealth_def)
  have "instance_name y = k \<and> (\<exists>idx \<in> {1, 2, 3, 4}. k = makeName idx \<and> bms_index y = idx)"
    if y: "updateBmsRuntimeHealth ts items k = Some y" for k y
  proof -
    obtain x where x: "items k = Some x" "y = updateOneBms ts x" using y by (auto simp: updateBmsRuntimeHealth_def)
    then show ?thesis using named unfolding x(2) updateOneBms_name cache_named_def by blast
  qed
  then show ?thesis using named unfolding cache_named_def dom by blast
qed

definition update_of :: "string \<Rightarrow> bms_cache_item \<Rightarrow> bms_health_update" where
  "update_of k x = \<lparr>hu_instance_name = k, hu_bms_index = bms_index x, hu_online = bms_online (x_health x),
     hu_last_ok_ms = last_ok_ms (x_health x), hu_disconnect_window_ms = disconnect_window_ms (x_health x),
     hu_last_offline_ms = last_offline_ms (x_health x), hu_disconnect_count = disconnect_count (x_health x)\<rparr>"

lemma health_of_named:
  assumes "cache_named items" "items k = Some x"
  shows "health_of k x = Some (update_of k x)" "k \<noteq> []" "1 \<le> bms_index x" "bms_index x \<le> 4"
proof -
  from assms obtain idx where "instance_name x = k" "idx \<in> {1, 2, 3, 4}" "k = makeName idx" "bms_index x = idx"
    by (auto simp: cache_named_def)
  then show "health_of k x = Some (update_of k x)" "k \<noteq> []" "1 \<le> bms_index x" "bms_index x \<le> 4"
    by (auto simp: health_of_def update_of_def makeName_def Let_def)
qed

lemma cached_health_named:
  assumes "cache_named items"
  shows "cached_health items = map (\<lambda>k. update_of k (the (items k))) (sorted_list_of_set (dom items))"
proof -
  have fin: "finite (dom items)" using assms by (simp add: cache_named_def)
  have "Option.bind (items k) (health_of k) = Some (update_of k (the (items k)))" if "k \<in> dom items" for k
    using that health_of_named(1) [OF assms] by auto
  then show ?thesis using fin by (simp add: cached_health_def map_filter_def cong: map_cong filter_cong)
qed

text \<open>One update of the aggregator.\<close>

lemma apply_health_step:
  assumes "hu_instance_name h = k" "k \<noteq> []" "1 \<le> hu_bms_index h" "hu_bms_index h \<le> 4"
  obtains it P where "item_health it = instance_health h"
    "ag_snap (snd (apply_health ts h ca)) = set_item k it (ag_snap (snd ca))"
    "fst (apply_health ts h ca) \<longleftrightarrow> fst ca \<or> item_health (item_at k (ag_snap (snd ca))) \<noteq> instance_health h \<or> P"
proof -
  have nz: "hu_bms_index h \<noteq> 0" using assms(3) by auto
  let ?it = "item_at k (ag_snap (snd ca))"
  let ?x = "ensureInstance k (hu_bms_index h) (ag_bms (snd ca))"
  let ?new = "(set_health (hu_online h) (hu_last_ok_ms h) (hu_disconnect_window_ms h) (hu_last_offline_ms h)
      (hu_disconnect_count h) ?it)\<lparr>si_ts_ms := ts\<rparr>"
  let ?P = "bi_health ?x \<noteq> instance_health h \<or>
      \<not> hu_online h \<and> (\<exists>g \<in> dom (bi_groups ?x). group_offline h (group_at ?x g) \<noteq> group_at ?x g)"
  have guard: "\<not> (k = [] \<or> hu_bms_index h < 1 \<or> 4 < hu_bms_index h)" using assms by auto
  show ?thesis
  proof (rule that [of ?new ?P])
    show "item_health ?new = instance_health h"
      by (simp add: item_health_def set_health_def instance_health_def)
    show "ag_snap (snd (apply_health ts h ca)) = set_item k ?new (ag_snap (snd ca))"
      unfolding apply_health_def Let_def case_prod_beta assms(1) by (simp only: nz if_False guard snd_conv aggregator.simps)
    show "fst (apply_health ts h ca) \<longleftrightarrow> fst ca \<or> item_health ?it \<noteq> instance_health h \<or> ?P"
      unfolding apply_health_def Let_def case_prod_beta assms(1) by (simp only: nz if_False guard fst_conv) blast
  qed
qed

lemma apply_health_item:
  assumes "hu_instance_name h = k" "k \<noteq> []" "1 \<le> hu_bms_index h" "hu_bms_index h \<le> 4"
  shows "item_health (item_at j (ag_snap (snd (apply_health ts h ca)))) =
      (if j = k then instance_health h else item_health (item_at j (ag_snap (snd ca))))"
    "j \<noteq> k \<Longrightarrow> sn_items (ag_snap (snd (apply_health ts h ca))) j = sn_items (ag_snap (snd ca)) j"
    "fst ca \<Longrightarrow> fst (apply_health ts h ca)"
    "\<not> fst (apply_health ts h ca) \<Longrightarrow> item_health (item_at k (ag_snap (snd ca))) = instance_health h"
  by (rule apply_health_step [OF assms, of ts ca], simp add: item_at_def set_item_def)+

definition named_updates :: "bms_health_update list \<Rightarrow> bool" where
  "named_updates hs \<longleftrightarrow> distinct (map hu_instance_name hs) \<and>
     (\<forall>h \<in> set hs. hu_instance_name h \<noteq> [] \<and> 1 \<le> hu_bms_index h \<and> hu_bms_index h \<le> 4)"

lemma apply_health_all:
  assumes "named_updates hs"
  shows "(\<forall>h \<in> set hs. item_health (item_at (hu_instance_name h)
        (ag_snap (snd (foldl (\<lambda>ca u. apply_health ts u ca) ca hs)))) = instance_health h) \<and>
    (\<forall>j. j \<notin> hu_instance_name ` set hs \<longrightarrow>
        sn_items (ag_snap (snd (foldl (\<lambda>ca u. apply_health ts u ca) ca hs))) j = sn_items (ag_snap (snd ca)) j) \<and>
    (\<not> fst (foldl (\<lambda>ca u. apply_health ts u ca) ca hs) \<longrightarrow> \<not> fst ca \<and>
        (\<forall>h \<in> set hs. item_health (item_at (hu_instance_name h) (ag_snap (snd ca))) = instance_health h))"
  using assms
proof (induction hs rule: rev_induct)
  case (snoc h hs)
  let ?ca = "foldl (\<lambda>ca u. apply_health ts u ca) ca hs"
  have nm: "named_updates hs" "hu_instance_name h \<notin> hu_instance_name ` set hs"
    "hu_instance_name h \<noteq> []" "1 \<le> hu_bms_index h" "hu_bms_index h \<le> 4"
    using snoc.prems by (auto simp: named_updates_def)
  note IH = snoc.IH [OF nm(1)]
  note one = apply_health_item [OF refl nm(3-5), where ts = ts and ca = ?ca]
  have old: "item_at (hu_instance_name h) (ag_snap (snd ?ca)) = item_at (hu_instance_name h) (ag_snap (snd ca))"
    using IH nm(2) by (simp add: item_at_def)
  show ?case
    using IH one nm(2) old by (auto simp: image_iff)
qed simp

lemma dispatchOne_ts:
  "dispatchOne reply c (d\<lparr>last_dispatch_ts := t\<rparr>) = (dispatchOne reply c d)\<lparr>last_dispatch_ts := t\<rparr>"
  by (cases c) (simp_all add: call_driver_def Let_def)

lemma fold_dispatch_ts:
  "fold (dispatchOne reply) cs (d\<lparr>last_dispatch_ts := t\<rparr>) = (fold (dispatchOne reply) cs d)\<lparr>last_dispatch_ts := t\<rparr>"
  by (induction cs arbitrary: d) (simp_all add: dispatchOne_ts)

lemma dispatch_batches:
  "\<exists>t. fold (\<lambda>(now, cmds). dispatch reply now cmds) batches d =
     (fold (dispatchOne reply) (concat (map snd batches)) d)\<lparr>last_dispatch_ts := t\<rparr>"
proof (induction batches arbitrary: d)
  case Nil
  show ?case by (intro exI [of _ "last_dispatch_ts d"]) simp
next
  case (Cons b bs)
  obtain now cmds where b: "b = (now, cmds)" by fastforce
  let ?f = "\<lambda>(now, cmds). dispatch reply now cmds"
  obtain t where t: "fold ?f bs (dispatch reply now cmds d) =
      (fold (dispatchOne reply) (concat (map snd bs)) (dispatch reply now cmds d))\<lparr>last_dispatch_ts := t\<rparr>"
    using Cons.IH by blast
  have one: "fold ?f (b # bs) d = fold ?f bs (dispatch reply now cmds d)" by (simp add: b)
  have two: "fold (dispatchOne reply) (concat (map snd bs)) (dispatch reply now cmds d) =
      (fold (dispatchOne reply) (concat (map snd (b # bs))) d)\<lparr>last_dispatch_ts := now\<rparr>"
    by (simp add: b dispatch_def fold_dispatch_ts)
  show ?case unfolding one t two by (intro exI [of _ t]) simp
qed

section \<open>Facts on the configuration\<close>

definition serves :: "nat \<Rightarrow> can_tx_link \<Rightarrow> bool" where
  "serves i l \<longleftrightarrow> cl_enable l \<and> cl_protocol_type l = ''emu_pcu_v1'' \<and> unat (link_instance l) = i + 1"

lemma add_pcu_link_nth:
  assumes "length cfgs = 2" "i < 2"
  shows "length (add_pcu_link cfgs l) = 2" "add_pcu_link cfgs l ! i = (if serves i l then pcu_tx_of l (cfgs ! i) else cfgs ! i)"
proof -
  show "length (add_pcu_link cfgs l) = 2" using assms by (simp add: add_pcu_link_def Let_def)
  have range: "link_instance l < 1 \<or> 2 < link_instance l \<longleftrightarrow> unat (link_instance l) = 0 \<or> 2 < unat (link_instance l)"
    by (simp add: word_less_nat_alt)
  show "add_pcu_link cfgs l ! i = (if serves i l then pcu_tx_of l (cfgs ! i) else cfgs ! i)"
    using assms unfolding add_pcu_link_def Let_def range serves_def
    by (cases "unat (link_instance l)") (auto simp: nth_list_update)
qed

lemma pcu_tx_of_again: "heartbeat c = heartbeat c' \<Longrightarrow> pcu_tx_of l c = pcu_tx_of l c'"
  by (simp add: pcu_tx_of_def)

lemma heartbeat_pcu_tx_of [simp]: "heartbeat (pcu_tx_of l c) = heartbeat c"
  by (simp add: pcu_tx_of_def)

lemma pcu_links_nth:
  assumes "i < 2"
  shows "length (foldl add_pcu_link [pcu_tx_init, pcu_tx_init] links) = 2 \<and>
    foldl add_pcu_link [pcu_tx_init, pcu_tx_init] links ! i =
      (if \<exists>l \<in> set links. serves i l then pcu_tx_of (last (filter (serves i) links)) pcu_tx_init else pcu_tx_init)"
proof (induction links rule: rev_induct)
  case Nil
  then show ?case using assms by (simp add: nth_Cons')
next
  case (snoc l links)
  let ?c = "foldl add_pcu_link [pcu_tx_init, pcu_tx_init] links"
  have len: "length ?c = 2" using snoc.IH by blast
  have "heartbeat (?c ! i) = heartbeat pcu_tx_init" using snoc.IH by simp
  then have again: "pcu_tx_of l (?c ! i) = pcu_tx_of l pcu_tx_init" by (rule pcu_tx_of_again)
  note new = add_pcu_link_nth [OF len assms, of l]
  show ?case
  proof (cases "serves i l")
    case True
    then show ?thesis using new again by simp
  next
    case False
    then show ?thesis using new snoc.IH by simp
  qed
qed

lemma mgr_init_can_index: "default_can_index (snd (mgr_init gen i ident m)) = i"
  by (simp add: mgr_init_def Let_def split: prod.splits)

text \<open>The transmitter to the batteries is bound by the start of the engine, whatever the file says.\<close>

lemma engine_init_binds:
  assumes "le_mgr e = mgr_new" and "\<not> bms_cmd_mgr_inited e"
  shows "bound_v2b (mgr_tx (le_mgr (engine_init gen_findMessage file e)))"
proof -
  have "le_mgr (loadPcuTxRuntimeCfg file e') = le_mgr e'" for e'
    by (simp add: loadPcuTxRuntimeCfg_def Let_def split: option.split)
  then show ?thesis
    using assms mgr_init_binds by (simp add: engine_init_def Let_def case_prod_beta)
qed

text \<open>And every event leaves it bound.\<close>

lemma onEvent_keeps_tx: "mgr_tx (le_mgr (cs_engine (fst (onEvent e s out)))) = mgr_tx (le_mgr (cs_engine s))"
proof -
  have "mgr_tx (le_mgr (fst (fst (onTick ts ec o')))) = mgr_tx (le_mgr (fst ec))" for ts ec o'
    using onTick_keeps_tx [of ts "fst ec" "snd ec" o'] by simp
  then show ?thesis
    by (simp add: onEvent_def onTick_event_def onSnapshot_def Let_def case_prod_beta split: event_body.split)
qed

section \<open>Properties\<close>

text \<open>The outputs follow the commands. Over any sequence of dispatched command lists the cache of the dispatcher holds,
  for every digital output, the value of the last write that the driver reported as successful. On an output
  whose writes succeed, the level is that of the last command for it, although repeated commands are left out: the
  driver never gets the same value twice in a row.\<close>

theorem outputs_follow_commands:
  assumes "d = fold (\<lambda>(now, cmds). dispatch reply now cmds) batches cmd_dispatcher_new"
    and "cs = concat (map snd batches)"
  shows "last_do_cache d = levels reply [] (driver_calls d) \<and>
    (\<forall>ch. reliable reply ch \<longrightarrow> levels reply [] (driver_calls d) ch = last_commanded cs ch \<and>
       no_repeats (writes_to ch (driver_calls d)))"
proof -
  obtain t where d: "d = (fold (dispatchOne reply) cs cmd_dispatcher_new)\<lparr>last_dispatch_ts := t\<rparr>"
    using dispatch_batches [of reply batches cmd_dispatcher_new] assms by blast
  have "do_inv reply cmd_dispatcher_new" by (simp add: do_inv_def cmd_dispatcher_new_def)
  from fold_dispatch_inv [OF this, of cs] have "do_inv reply d" by (simp add: d do_inv_def)
  then show ?thesis using reliable_run [of reply _ cs] by (simp add: d do_inv_def)
qed

theorem outputs_follow_commands_witness:
  "let d = fold (\<lambda>(now, cmds). dispatch (\<lambda>_ _ _. True) now cmds)
       [(1, [WriteDo 2 True]), (2, [WriteDo 2 True, WriteDo 3 True]), (3, [WriteDo 2 False])] cmd_dispatcher_new
   in last_do_cache d 2 = Some False \<and> writes_to 2 (driver_calls d) = [True, False]"
proof -
  let ?b = "[(1 :: u64, [WriteDo 2 True]), (2, [WriteDo 2 True, WriteDo 3 True]), (3, [WriteDo 2 False])]"
  let ?d = "fold (\<lambda>(now, cmds). dispatch (\<lambda>_ _ _. True) now cmds) ?b cmd_dispatcher_new"
  have "reliable (\<lambda>_ _ _. True) 2" by (simp add: reliable_def)
  then have "last_do_cache ?d 2 = last_commanded (concat (map snd ?b)) 2"
    using outputs_follow_commands [of ?d "\<lambda>_ _ _. True" ?b, OF refl refl] by (simp only: simp_thms)
  moreover have "writes_to 2 (driver_calls ?d) = [True, False]"
    by code_simp
  ultimately show ?thesis by (simp add: Let_def)
qed

text \<open>The configuration of the senders. After the start of the engine with a readable file, the sender of a conversion unit
  has the parameters of the last enabled link for that unit, with the default identifiers and period where the
  link leaves them out, and stays silent if there is none; the batteries' sender uses the bus, the period and the
  enable of the first enabled battery link.\<close>

theorem engine_configured_from_links:
  assumes "\<not> bms_cmd_mgr_inited e" and "e' = engine_init gen (Some links) e" and "i < 2"
  shows "pcu_tx_cfg_loaded e' \<and> length (le_pcu_cfg e') = 2 \<and>
    le_pcu_cfg e' ! i =
      (if \<exists>l \<in> set links. serves i l then pcu_tx_of (last (filter (serves i) links)) pcu_tx_init else pcu_tx_init) \<and>
    (pt_valid (le_pcu_cfg e' ! i) \<longleftrightarrow> (\<exists>l \<in> set links. serves i l)) \<and>
    (case find (\<lambda>l. cl_enable l \<and> cl_protocol_type l = ''bms_table_v1'') links of
       None \<Rightarrow> default_can_index (le_mgr e') = 0 \<and> bms_cmd_tx_enabled e' \<and> bms_cmd_period_ms e' = 100
     | Some l \<Rightarrow> default_can_index (le_mgr e') = cl_can_index l \<and> bms_cmd_tx_enabled e' = cl_tx_enable l \<and>
         bms_cmd_period_ms e' = (if cl_interval_ms l = 0 then 100 else cl_interval_ms l))"
proof -
  note links = pcu_links_nth [OF assms(3), of links]
  have loaded: "pcu_tx_cfg_loaded e'" and cfg: "le_pcu_cfg e' = foldl add_pcu_link [pcu_tx_init, pcu_tx_init] links"
    using assms(1) by (simp_all add: assms(2) engine_init_def loadPcuTxRuntimeCfg_def Let_def split: prod.split)
  have "pt_valid (pcu_tx_of l c)" "\<not> pt_valid pcu_tx_init" for l c by (simp_all add: pcu_tx_of_def pcu_tx_init_def)
  moreover have "case find (\<lambda>l. cl_enable l \<and> cl_protocol_type l = ''bms_table_v1'') links of
       None \<Rightarrow> default_can_index (le_mgr e') = 0 \<and> bms_cmd_tx_enabled e' \<and> bms_cmd_period_ms e' = 100
     | Some l \<Rightarrow> default_can_index (le_mgr e') = cl_can_index l \<and> bms_cmd_tx_enabled e' = cl_tx_enable l \<and>
         bms_cmd_period_ms e' = (if cl_interval_ms l = 0 then 100 else cl_interval_ms l)"
    using assms(1) by (auto simp: assms(2) engine_init_def loadPcuTxRuntimeCfg_def loadBmsCanRuntimeCfg_def Let_def
        case_prod_beta mgr_init_can_index split: option.split)
  ultimately show ?thesis using loaded links unfolding cfg by auto
qed

definition example_tx_link :: "int \<Rightarrow> string \<Rightarrow> u8 \<Rightarrow> can_tx_link" where
  "example_tx_link i type inst = \<lparr>cl_can_index = i, cl_enable = True, cl_protocol_type = type, cl_pcu_instance = inst,
     cl_id_pcu_status = 0, cl_tx_enable = True, cl_interval_ms = 0, cl_send_ctrl = True, cl_send_status = False,
     cl_id_emu_ctrl = 0, cl_id_emu_status = 0, cl_id_v2b_cmd = 0\<rparr>"

definition example_tx_links :: "can_tx_link list" where
  "example_tx_links = [example_tx_link 1 ''emu_pcu_v1'' 0, example_tx_link 3 ''bms_table_v1'' 0, example_tx_link 5 ''emu_pcu_v1'' 1]"

lemma example_serves:
  "serves k (example_tx_link i type inst) \<longleftrightarrow> type = ''emu_pcu_v1'' \<and>
     unat (if inst = 0 then if i = 1 then 1 else if i = 2 then 2 else 0 else inst) = k + 1"
  by (auto simp: serves_def example_tx_link_def link_instance_def)

lemma example_enabled: "cl_enable (example_tx_link i type inst)" "cl_protocol_type (example_tx_link i type inst) = type"
  "cl_can_index (example_tx_link i type inst) = i"
  by (simp_all add: example_tx_link_def)

theorem engine_configured_from_links_witness:
  "let e = engine_init Map.empty (Some example_tx_links) (example_engine\<lparr>bms_cmd_mgr_inited := False\<rparr>) in
     pt_can_index (le_pcu_cfg e ! 0) = 5 \<and> \<not> pt_valid (le_pcu_cfg e ! 1) \<and> default_can_index (le_mgr e) = 3"
proof -
  let ?e = "engine_init Map.empty (Some example_tx_links) (example_engine\<lparr>bms_cmd_mgr_inited := False\<rparr>)"
  have s0: "filter (serves 0) example_tx_links = [example_tx_link 1 ''emu_pcu_v1'' 0, example_tx_link 5 ''emu_pcu_v1'' 1]"
    by (simp add: example_tx_links_def example_serves)
  have s1: "\<not> (\<exists>l \<in> set example_tx_links. serves 1 l)" by (simp add: example_tx_links_def example_serves)
  have b: "find (\<lambda>l. cl_enable l \<and> cl_protocol_type l = ''bms_table_v1'') example_tx_links = Some (example_tx_link 3 ''bms_table_v1'' 0)"
    by (simp add: example_tx_links_def example_enabled)
  from s0 have some: "\<exists>l \<in> set example_tx_links. serves 0 l" by (metis filter_empty_conv list.distinct(1))
  have new: "\<not> bms_cmd_mgr_inited (example_engine\<lparr>bms_cmd_mgr_inited := False\<rparr>)" by simp
  have "pt_can_index (le_pcu_cfg ?e ! 0) = 5"
    using engine_configured_from_links [OF new refl, of 0 Map.empty example_tx_links] some s0
    by (simp add: pcu_tx_of_def example_enabled)
  moreover have "\<not> pt_valid (le_pcu_cfg ?e ! 1)" "default_can_index (le_mgr ?e) = 3"
    using engine_configured_from_links [OF new refl, of 1 Map.empty example_tx_links] s1 b
    by (simp_all add: example_enabled pcu_tx_init_def)
  ultimately show ?thesis by (simp add: Let_def)
qed

text \<open>The emergency stop holds until it is released. Once a sample of the inputs with the stop button pressed was
  handled, then as long as no further sample comes, whatever data, snapshots, operator writes, heartbeats and ticks
  are handled, every frame that a tick sends to a conversion unit has the system enable zero, and every control frame
  has the emergency stop byte set; the reported mirrors say the same.\<close>

theorem emergency_stop_disables_units:
  assumes "bit (io_di_bits io) 0"
    and "u = handle_all reply ((t0, \<lparr>ev_ts_ms = ts0, ev_body = IoSampleEvent io\<rparr>) # es) u0"
    and "\<forall>(now, e) \<in> set es. \<not> is_io (ev_body e)"
    and "ev_body e = TickEvent ts" and "cmds = snd (onEvent e (cu_state u) [])"
    and "SendCan sc \<in> set cmds" and "sc_mirror sc = Some m"
  shows "can_data (sc_frame sc) ! 7 = 0 \<and> status m ''sys_enable'' = Some 0 \<and> status m ''estop'' = Some 1 \<and>
    (\<exists>cfg \<in> set (le_pcu_cfg (cs_engine (cu_state u))). \<exists>r.
       sc_frame sc = pcu_ctrl_frame r cfg \<and> can_data (sc_frame sc) ! 2 = 1 \<or> sc_frame sc = pcu_status_frame r cfg)"
proof -
  define l where "l = e_logic (x_ext (cs_panel (cu_state u)))"
  have "c_di_bits l = io_di_bits io"
    using di_handle_all [OF assms(3), of reply "handle_event reply t0 \<lparr>ev_ts_ms = ts0, ev_body = IoSampleEvent io\<rparr> u0"]
    by (simp add: l_def assms(2) handle_all_def di_handle_event flip: di_of_def)
  then have stop: "testDi (c_di_bits l) 1" using assms(1) by (simp add: testDi_bit)
  have "cmds = snd (onTick ts (cs_engine (cu_state u), l) [])"
    by (simp add: assms(4,5) onEvent_def onTick_event_def l_def Let_def case_prod_beta)
  then obtain cfg where cfg: "cfg \<in> set (le_pcu_cfg (cs_engine (cu_state u)))"
    "SendCan sc \<in> set (snd (emit_pcu_one (pcu_round_of (aged_ctx ts l)) ts cfg))"
    using unit_command assms(6,7) by blast
  show ?thesis
    using unit_command_content [OF cfg(2) assms(7)] estop_round [OF stop, of ts] unit_command_shape [OF cfg(2)] cfg(1)
    by blast
qed

definition example_unit :: control_unit where
  "example_unit = \<lparr>cu_state = \<lparr>cs_engine = example_engine\<lparr>pcu_tx_cfg_loaded := True, le_pcu_cfg := [example_pcu_cfg]\<rparr>,
       cs_panel = panel_init, cs_snapshot = snapshot_init 0, cs_health = []\<rparr>,
     cu_dispatcher = cmd_dispatcher_new, cu_mirrors = []\<rparr>"

definition example_stop :: io_sample where
  "example_stop = \<lparr>io_ts_ms = 5, io_di_bits = 1, io_ai = []\<rparr>"

lemma engine_kept:
  "\<not> (case ev_body e of TickEvent _ \<Rightarrow> True | _ \<Rightarrow> False) \<Longrightarrow>
     cs_engine (cu_state (handle_event reply now e u)) = cs_engine (cu_state u)"
  by (auto simp: handle_event_def onEvent_def onSnapshot_def refreshCachedBmsRuntimeHealth_def Let_def case_prod_beta
      split: event_body.splits)

theorem emergency_stop_disables_units_witness:
  "\<exists>sc m. let u = handle_all (\<lambda>_ _ _. True) [(5, \<lparr>ev_ts_ms = 5, ev_body = IoSampleEvent example_stop\<rparr>),
        (7, \<lparr>ev_ts_ms = 7, ev_body = HmiHeartbeatEvent\<rparr>)] example_unit
     in SendCan sc \<in> set (snd (onEvent \<lparr>ev_ts_ms = 9, ev_body = TickEvent 9\<rparr> (cu_state u) [])) \<and> sc_mirror sc = Some m \<and>
        can_data (sc_frame sc) ! 7 = 0 \<and> status m ''estop'' = Some 1"
proof -
  let ?es = "[(7, \<lparr>ev_ts_ms = 7, ev_body = HmiHeartbeatEvent\<rparr>)] :: (u64 \<times> event) list"
  define u where "u = handle_all (\<lambda>_ _ _. True) ((5, \<lparr>ev_ts_ms = 5, ev_body = IoSampleEvent example_stop\<rparr>) # ?es) example_unit"
  define l where "l = e_logic (x_ext (cs_panel (cu_state u)))"
  have eng: "cs_engine (cu_state u) = example_engine\<lparr>pcu_tx_cfg_loaded := True, le_pcu_cfg := [example_pcu_cfg]\<rparr>"
    by (simp add: u_def handle_all_def engine_kept) (simp add: example_unit_def)
  define r where "r = pcu_round_of (aged_ctx 9 l)"
  have cfg: "pt_valid example_pcu_cfg" "tx_enable example_pcu_cfg" "0 \<le> pt_can_index example_pcu_cfg"
    "next_due_ms example_pcu_cfg \<le> 9" "send_ctrl example_pcu_cfg" "send_status example_pcu_cfg"
    by (simp_all add: example_pcu_cfg_def)
  have "\<exists>sc. SendCan sc \<in> set (snd (emit_pcu_one r 9 example_pcu_cfg))"
    unfolding emit_pcu_one_due [OF cfg, of r] by (rule exI, simp only: snd_conv list.map, rule list.set_intros(1))
  then obtain sc m where sc: "SendCan sc \<in> set (snd (emit_pcu_one r 9 example_pcu_cfg))" "sc_mirror sc = Some m"
    using unit_command_shape by blast
  have "SendCan sc \<in> set (snd (onTick 9 (cs_engine (cu_state u), l) []))"
    using pcu_cmds_in_tick [of "cs_engine (cu_state u)" example_pcu_cfg 9 l] sc(1) by (auto simp: eng r_def)
  then have cmd: "SendCan sc \<in> set (snd (onEvent \<lparr>ev_ts_ms = 9, ev_body = TickEvent 9\<rparr> (cu_state u) []))"
    by (simp add: onEvent_def onTick_event_def l_def Let_def case_prod_beta)
  have "bit (io_di_bits example_stop) 0" by (simp add: example_stop_def)
  from emergency_stop_disables_units [OF this u_def _ _ refl cmd sc(2), of 9]
  have "can_data (sc_frame sc) ! 7 = 0 \<and> status m ''estop'' = Some 1" by simp
  then show ?thesis using cmd sc(2) unfolding u_def [symmetric] Let_def by blast
qed

text \<open>The health of the batteries reaches the snapshot. After a tick the control loop hands out the health of the
  batteries and the application writes it to the aggregator: the item of every battery of the cache is then online
  exactly if the battery was seen and its last frame is at most 5 s old at the tick, its count of connection losses is
  that of the cache, counting a loss found by this tick, and the items of all other devices are untouched. When the
  aggregator reports no change, the items of the batteries already said the same.\<close>

theorem battery_health_reaches_snapshot:
  assumes "items = c_bms (e_logic (x_ext (cs_panel (cu_state u))))" and "cache_named items" and "ts \<noteq> 0"
    and "u' = handle_event reply now \<lparr>ev_ts_ms = ts, ev_body = TickEvent ts\<rparr> u"
    and "agg_updateBmsRuntimeHealth (cs_health (cu_state u')) t a = (changed, a')"
  shows "(case items k of
      None \<Rightarrow> sn_items (ag_snap a') k = sn_items (ag_snap a) k
    | Some x \<Rightarrow>
        let on = seen_once (x_health x) \<and> fresh_within 5000 ts (last_rx_ms (x_health x)); it = item_at k (ag_snap a') in
        si_online it = on \<and> si_disconnect_count it = disconnect_count (x_health x) + (if bms_online (x_health x) \<and> \<not> on then 1 else 0)
        \<and> (\<not> changed \<longrightarrow> item_health (item_at k (ag_snap a)) = item_health it))"
proof -
  define new where "new = updateBmsRuntimeHealth ts items"
  define hs where "hs = cached_health new"
  have health: "cs_health (cu_state u') = hs"
    unfolding assms(4) hs_def new_def assms(1) by (rule health_after_tick [OF assms(3)])
  have named: "cache_named new"
    unfolding new_def by (rule cache_named_tick [OF assms(2)])
  then have fin: "finite (dom new)" by (simp add: cache_named_def)
  have hs: "hs = map (\<lambda>k. update_of k (the (new k))) (sorted_list_of_set (dom new))"
    unfolding hs_def by (rule cached_health_named [OF named])
  have names: "map hu_instance_name hs = sorted_list_of_set (dom new)" by (simp add: hs comp_def update_of_def)
  have nu: "named_updates hs"
    using health_of_named [OF named] fin unfolding named_updates_def names
    by (auto simp: hs update_of_def)
  have all: "foldl (\<lambda>ca u. apply_health t u ca) (False, a) hs = (changed, a')"
    using assms(5) by (auto simp: health agg_updateBmsRuntimeHealth_def split: if_splits)
  note facts = apply_health_all [OF nu, of t "(False, a)", unfolded all]
  have doms: "hu_instance_name ` set hs = dom new" using arg_cong [OF names, of set] fin by simp
  show ?thesis
  proof (cases "items k")
    case None
    then have "k \<notin> dom new" by (simp add: new_def updateBmsRuntimeHealth_def dom_def)
    then show ?thesis using None facts doms by simp
  next
    case (Some x)
    then have y: "new k = Some (updateOneBms ts x)" by (simp add: new_def updateBmsRuntimeHealth_def)
    define h where "h = update_of k (updateOneBms ts x)"
    have h: "h \<in> set hs" "hu_instance_name h = k" using y fin by (force simp: hs h_def) (simp add: h_def update_of_def)
    have "item_health (item_at k (ag_snap a')) = instance_health h"
      "\<not> changed \<longrightarrow> item_health (item_at k (ag_snap a)) = instance_health h" using facts h by auto
    moreover from this(1) have "si_online (item_at k (ag_snap a')) = hu_online h"
      "si_disconnect_count (item_at k (ag_snap a')) = hu_disconnect_count h"
      by (simp_all add: item_health_def instance_health_def)
    ultimately show ?thesis
      using Some by (simp add: h_def update_of_def updateOneBms_health updateOneBms_count fresh_iff fresh_within_def
          timeout_defs Let_def)
  qed
qed

definition example_battery :: bms_cache_item where
  "example_battery = bms_item_init\<lparr>bms_index := 2, instance_name := ''BMS_2'',
     x_health := health_init\<lparr>seen_once := True, last_rx_ms := 5\<rparr>\<rparr>"

definition example_battery_unit :: control_unit where
  "example_battery_unit = example_unit\<lparr>cu_state := (cu_state example_unit)\<lparr>cs_panel :=
     on_logic (\<lambda>c. c\<lparr>e_logic := (e_logic c)\<lparr>c_bms := [''BMS_2'' \<mapsto> example_battery]\<rparr>\<rparr>) panel_init\<rparr>\<rparr>"

theorem battery_health_reaches_snapshot_witness:
  "let u = handle_event (\<lambda>_ _ _. True) 9 \<lparr>ev_ts_ms = 9, ev_body = TickEvent 9\<rparr> example_battery_unit;
       a = snd (agg_updateBmsRuntimeHealth (cs_health (cu_state u)) 10 (aggregator_init 0))
   in si_online (item_at ''BMS_2'' (ag_snap a)) \<and> sn_items (ag_snap a) ''UPS'' = None"
proof -
  have items: "[''BMS_2'' \<mapsto> example_battery] = c_bms (e_logic (x_ext (cs_panel (cu_state example_battery_unit))))"
    by (simp add: example_battery_unit_def on_logic_def)
  have named: "cache_named [''BMS_2'' \<mapsto> example_battery]"
    by (simp add: cache_named_def example_battery_def makeName_def to_string.simps digit_2)
  have nz: "(9 :: u64) \<noteq> 0" by simp
  let ?u = "handle_event (\<lambda>_ _ _. True) 9 \<lparr>ev_ts_ms = 9, ev_body = TickEvent 9\<rparr> example_battery_unit"
  obtain ch a where a: "agg_updateBmsRuntimeHealth (cs_health (cu_state ?u)) 10 (aggregator_init 0) = (ch, a)" by fastforce
  note claim = battery_health_reaches_snapshot [OF items named nz refl a]
  have "si_online (item_at ''BMS_2'' (ag_snap a))"
    using claim [of "''BMS_2''"] by (simp add: example_battery_def fresh_within_def Let_def)
  moreover have "sn_items (ag_snap a) ''UPS'' = None"
    using claim [of "''UPS''"] by (simp add: aggregator_init_def snapshot_init_def)
  ultimately show ?thesis by (simp add: a Let_def)
qed

end
