(* ===== verification/Spec2Isabelle.thy ===== *)
theory Spec2Isabelle
  imports Fault_Condition Logic_Tick Bms_Fault Device_Scheduler Fault_Logic Bms_Chain Fault_Runtime Fault_History Panel_Faults Logic_Snapshot Logic_Engine
begin

text \<open>
  Verification of the controller of an energy storage vehicle (\<open>src/\<close>, C++). The controller talks to four
  battery systems (BMS) and two power conversion units (PCU) over CAN, to a smoke detector, a gas detector and
  an air conditioner over RS-485 (Modbus RTU, as master), to a UPS over RS-232 (text lines) and to an operator
  panel (HMI) over RS-485 (Modbus RTU, as slave). Received data is parsed into records of named values, kept
  in a context by the control logic, turned into debounced faults with codes and a paged history, and a periodic
  tick decides which commands go to the batteries and the conversion units.

  \<^bold>\<open>Parts, theories and sources.\<close> Definitions keep the names of the functions they translate where HOL allows
  it; a prefix (\<open>fa_\<close>, \<open>req_\<close>, \<open>fc_\<close>, \<open>fl_\<close>, \<open>sched_\<close>, \<open>ups_\<close>) separates equal names of
  different classes. Objects are records, member functions take and return them, and what a function does to
  the outside (bytes to a driver, messages, database calls, log-independent events) is a list it returns.

  \<^item> \<open>Prelude\<close>: machine integers as words, the values of a \<open>double\<close> (finite with correct rounding, infinite,
    not a number), shared facts on words and lists.
  \<^item> \<open>Modbus_Crc\<close> (\<open>services/protocol/modbus\<close>, \<open>services/parser/crc_policy.cpp\<close>): the CRC, both byte orders,
    the read-holding frames. The CRC is shown linear, and to detect every burst of up to 16 bits.
  \<^item> \<open>Frame_Assembler\<close> (\<open>services/parser/*assembler.cpp\<close>): three assemblers, one buffer per link. The locale
    \<open>frame_assembler\<close> is what the receive loop relies on, \<open>lossless_assembler\<close> extends it; each assembler is
    an interpretation. Streams of well-formed frames come out unchanged however they are fragmented.
  \<^item> \<open>Hmi_Table\<close>, \<open>Hmi_Proto\<close> (\<open>services/protocol/rs485/hmi\<close>): the panel's address table and the Modbus
    slave. Requests never reach outside the table and never change it unless they are well formed.
  \<^item> \<open>Rs485_Protocols\<close>, \<open>Ups_Proto\<close> (\<open>services/protocol/rs485\<close>, \<open>services/protocol/rs232\<close>): commands and
    parsers of the sensors and of the UPS. The locale \<open>crc_order\<close> has the two byte orders as interpretations.
  \<^item> \<open>Bms_Router\<close>, \<open>Bms_Signals\<close>, \<open>Bms_Table\<close>, \<open>Bms_Tx\<close>, \<open>Proto_Pcu\<close>, \<open>Can_Rx\<close> (\<open>services/protocol/can\<close>): identifiers
    of the four batteries, extraction and packing of signals, the generated table of the fifteen messages, command
    frames bound to that table, frames of the conversion units, the dispatcher, the latest-wins queue between the
    receiver and the worker thread. The queue refines a mailbox that maps each identifier to its newest frame.
  \<^item> \<open>Std_Map\<close>, \<open>System_Config\<close>, \<open>Protocol_Parser\<close>, \<open>Device_Scheduler\<close> (\<open>services/parser\<close>, \<open>app/scheduler\<close>):
    the ordered map of the C++ library, the configuration records, the parser thread's loop over its queues and
    its router, the poll scheduler and its timer.
  \<^item> \<open>Device_Data\<close>, \<open>Bms_Types\<close>, \<open>Bms_Adapter\<close>, \<open>Logic_Context\<close>, \<open>Logic_Device_Data\<close>
    (\<open>services/control/logic\<close>, \<open>services/control/bms\<close>): the record every parser fills, the battery cache and the
    adapter that copies the decoded messages into it, the context of the control logic, the handlers of I/O samples
    and of received data. \<open>Double_Facts\<close>, \<open>Bms_Data_Path\<close> and \<open>Bms_Chain\<close> follow a battery frame through
    table, parser and adapter to the cache and to the commands.
  \<^item> \<open>Runtime_Health\<close>, \<open>Bms_Command_Manager\<close>, \<open>Logic_Tick\<close> (\<open>logic_tick.cpp\<close>, \<open>services/control/bms\<close>,
    \<open>services/control/business\<close>): ageing of received data, the battery commands with their safety clamp, the
    business rule and the tick that runs them in order.
  \<^item> \<open>Data_Aggregator\<close>, \<open>Logic_Snapshot\<close> (\<open>services/aggregator\<close>, \<open>logic_snapshot.cpp\<close>): the latest state of
    every device, and what the control logic takes from a snapshot of it.
  \<^item> \<open>Fault_Condition\<close>, \<open>Fault_Logic\<close>, \<open>Bms_Fault\<close>, \<open>Fault_Runtime\<close>, \<open>Fault_Catalog\<close>, \<open>Fault_Center\<close>
    (\<open>services/control/fault\<close>, \<open>services/control/bms\<close>): debounced conditions and their engine, the evaluators
    of the logic's and the batteries' signals, the rules that map device states to codes, the catalogue of codes and
    the centre with active faults, history and pages.
  \<^item> \<open>Fault_History\<close>, \<open>Hmi_Map\<close>, \<open>Fault_Pages\<close>, \<open>Hmi_Input\<close>, \<open>Panel_Faults\<close> (\<open>services/snapshot/sqlite\<close>,
    \<open>services/normal\<close>, \<open>services/control/fault\<close>, \<open>services/control/logic\<close>): the history database and its cache,
    the map of the panel, the pages written to its registers, the writes of the operator, and what the operator sees
    of the faults when all of them work together.
  \<^item> \<open>Logic_Engine\<close> (\<open>logic_engine.cpp\<close>, \<open>control_loop.cpp\<close>, \<open>command_dispatcher.cpp\<close>): the events, the engine
    that gives each to its handler, what the control thread does with one event, and the dispatcher of the commands.

  \<^bold>\<open>What is shown.\<close> Safety: a battery is commanded to power on only while its data is fresh and no blocking
  fault is present, from the fault frame on the bus to the command frame, with the transmitter bound to the shipped
  table; a damaged frame is not accepted; panel requests stay inside the table; polls keep their period; a device
  that goes offline leaves no alarm behind. Function: streams, frames and register writes arrive as sent, fault
  conditions are confirmed exactly when they span their delay, the history follows the active faults from the
  restored records on, the pages show exactly the faults there are. Liveness and termination: every due unit gets
  its frames, every segment of the air conditioner is polled, the parser's loop empties its queues. Some
  theorems state behaviour that is not what the comments say; they are the findings of the manifest.

  \<^bold>\<open>Conditions.\<close> A theorem about several components has the conditions under which they work together, and its
  text names them: the database executes its statements, the map and the layout are loaded, the number of closed
  faults fits the counters. What happens without them (a refresh that fails, a page number beyond the last page) is
  modelled and is in the findings where it is a defect.

  \<^bold>\<open>Loops and fuel.\<close> No definition has a fuel argument. Loops over a queue or a buffer are structural or have a
  termination proof by the length of the list; the receive loop of an assembler is a \<open>partial_function\<close> into
  \<open>option\<close> and shown to return for every buffer. The steady clock is a function of the number of reads.

  \<^bold>\<open>Threads.\<close> Where two threads share an object, each operation holds its lock, and an execution is a sequence of
  operations of either thread (\<open>Can_Rx\<close>).

  \<^bold>\<open>Parameters.\<close> The JSON library, the SQLite store and the drivers are outside; what the code reads from them
  is an argument, what it writes is an event, and whether a database statement succeeds is a function of its number.
  The decoder and the transmitter take the lookup in the message table as an argument, which is \<open>gen_findMessage\<close>
  of \<open>Bms_Table\<close> in the theorems about the program.

  \<^bold>\<open>Not modelled.\<close> Log output; the JSON views for the display and the export of snapshots
  (\<open>logic_view_builder.cpp\<close>); the writer of the measurements to the panel
  (\<open>normal_hmi_writer.cpp\<close>); the maintenance service; the sinks for measurements and MQTT; the vendored J1939
  library; drivers, threads and start-up code, which are system calls and wiring; the queues of the control loop with
  their priority; the older RS-485 session; general utilities.
\<close>

end
